(* ===== verification/Prelude.thy ===== *)
theory Prelude
  imports Complex_Main "HOL-Library.Char_ord" "HOL-Library.List_Lexorder"
    "HOL-Library.Product_Lexorder" "HOL-Library.Option_ord" "HOL-Library.Multiset"
    "HOL-Library.Code_Target_Nat"
begin

text \<open>
  The part of Python the modelled code is written in, shared by every component:
  exceptions as values (\<open>exn\<close>, a result is \<open>exn + 'a\<close>), sequencing of fallible
  calls, ASCII string methods (\<open>lower\<close>, \<open>strip\<close>, \<open>replace\<close>, \<open>in\<close>), \<open>str(int)\<close> and
  \<open>int(str)\<close>, and the stable sorts. Strings are lists of bytes, compared
  lexicographically as Python compares ASCII text and SQLite compares TEXT.
\<close>

named_theorems py_simps "unfolding rules of the string and number primitives"
named_theorems err_simps "rules that push a result through sequencing and traversal"

section \<open>Exceptions as values\<close>

datatype exn =
    ValueError string
  | TypeError string
  | KeyError string
  | IndexError
  | AssertionError
  | ZeroDivisionError
  | RuntimeError string
  | AddressNormalizationError string
  | APIError string int
  | OtherException string string

type_synonym 'a result = "exn + 'a"
type_synonym address = string

text \<open>\<open>except (TypeError, ValueError)\<close> catches these.\<close>

fun is_type_or_value_error :: "exn \<Rightarrow> bool" where
  "is_type_or_value_error (ValueError _) = True"
| "is_type_or_value_error (TypeError _) = True"
| "is_type_or_value_error _ = False"

text \<open>\<open>str(exc)\<close>: the message the exception was built with.\<close>

fun exn_str :: "exn \<Rightarrow> string" where
  "exn_str (ValueError m) = m"
| "exn_str (TypeError m) = m"
| "exn_str (KeyError m) = m"
| "exn_str IndexError = ''list index out of range''"
| "exn_str AssertionError = ''''"
| "exn_str ZeroDivisionError = ''division by zero''"
| "exn_str (RuntimeError m) = m"
| "exn_str (AddressNormalizationError m) = m"
| "exn_str (APIError m _) = m"
| "exn_str (OtherException _ m) = m"

fun err_bind :: "'e + 'a \<Rightarrow> ('a \<Rightarrow> 'e + 'b) \<Rightarrow> 'e + 'b" where
  "err_bind (Inl e) f = Inl e"
| "err_bind (Inr x) f = f x"

fun traverse_err :: "('a \<Rightarrow> 'e + 'b) \<Rightarrow> 'a list \<Rightarrow> 'e + 'b list" where
  "traverse_err f [] = Inr []"
| "traverse_err f (x # xs) =
     err_bind (f x) (\<lambda>y. err_bind (traverse_err f xs) (\<lambda>ys. Inr (y # ys)))"

fun filter_err :: "('a \<Rightarrow> 'e + bool) \<Rightarrow> 'a list \<Rightarrow> 'e + 'a list" where
  "filter_err p [] = Inr []"
| "filter_err p (x # xs) =
     err_bind (p x) (\<lambda>b. err_bind (filter_err p xs) (\<lambda>ys. Inr (if b then x # ys else ys)))"

fun fold_err :: "('a \<Rightarrow> 's \<Rightarrow> 'e + 's) \<Rightarrow> 'a list \<Rightarrow> 's \<Rightarrow> 'e + 's" where
  "fold_err f [] s = Inr s"
| "fold_err f (x # xs) s = err_bind (f x s) (fold_err f xs)"

lemma err_bind_Inr_iff [err_simps]:
  "err_bind m f = Inr y \<longleftrightarrow> (\<exists>x. m = Inr x \<and> f x = Inr y)"
  by (cases m) auto

lemma err_bind_Inl_iff [err_simps]:
  "err_bind m f = Inl e \<longleftrightarrow> m = Inl e \<or> (\<exists>x. m = Inr x \<and> f x = Inl e)"
  by (cases m) auto

lemma err_bind_assoc: "err_bind (err_bind m f) g = err_bind m (\<lambda>x. err_bind (f x) g)"
  by (cases m) auto

lemma err_bind_cong [fundef_cong]:
  "m = m' \<Longrightarrow> (\<And>x. m' = Inr x \<Longrightarrow> f x = g x) \<Longrightarrow> err_bind m f = err_bind m' g"
  by (cases m') auto

lemma traverse_err_total:
  "(\<And>x. x \<in> set xs \<Longrightarrow> f x = Inr (g x)) \<Longrightarrow> traverse_err f xs = Inr (map g xs)"
  by (induction xs) auto

lemma traverse_err_Inr [err_simps]:
  "traverse_err f xs = Inr ys \<longleftrightarrow> list_all2 (\<lambda>x y. f x = Inr y) xs ys"
  by (induction xs arbitrary: ys) (auto simp: err_simps list_all2_Cons1)

lemma filter_err_total:
  "(\<And>x. x \<in> set xs \<Longrightarrow> p x = Inr (q x)) \<Longrightarrow> filter_err p xs = Inr (filter q xs)"
  by (induction xs) auto

lemma filter_err_defined:
  "filter_err p xs = Inr ys \<Longrightarrow> x \<in> set xs \<Longrightarrow> \<exists>b. p x = Inr b"
  by (induction xs arbitrary: ys) (auto simp: err_simps)

lemma filter_err_Inr:
  "filter_err p xs = Inr ys \<Longrightarrow> ys = filter (\<lambda>x. p x = Inr True) xs"
  by (induction xs arbitrary: ys) (auto simp: err_simps)

lemma fold_err_append:
  "fold_err f (xs @ ys) s = err_bind (fold_err f xs s) (fold_err f ys)"
proof (induction xs arbitrary: s)
  case (Cons x xs)
  then show ?case by (cases "f x s") auto
qed simp

lemma fold_err_invariant:
  assumes "fold_err f xs s = Inr t" and "P s"
    and "\<And>x s t. x \<in> set xs \<Longrightarrow> P s \<Longrightarrow> f x s = Inr t \<Longrightarrow> P t"
  shows "P t"
  using assms
proof (induction xs arbitrary: s)
  case (Cons x xs)
  from Cons.prems(1) obtain u where u: "f x s = Inr u" and t: "fold_err f xs u = Inr t"
    by (auto simp: err_simps)
  have "P u" using Cons.prems(2,3) u by auto
  then show ?case using Cons.IH [OF t] Cons.prems(3) by auto
qed simp

section \<open>String methods\<close>

definition char_code :: "char \<Rightarrow> nat" where
  "char_code c = of_char c"

definition is_digit :: "char \<Rightarrow> bool" where
  "is_digit c \<longleftrightarrow> 48 \<le> char_code c \<and> char_code c \<le> 57"

definition is_space :: "char \<Rightarrow> bool" where
  "is_space c \<longleftrightarrow> char_code c = 32 \<or> (9 \<le> char_code c \<and> char_code c \<le> 13)
     \<or> (28 \<le> char_code c \<and> char_code c \<le> 31)"

definition lower_char :: "char \<Rightarrow> char" where
  "lower_char c = (if 65 \<le> char_code c \<and> char_code c \<le> 90 then char_of (char_code c + 32) else c)"

definition str_lower :: "string \<Rightarrow> string" where
  "str_lower s = map lower_char s"

definition str_lstrip :: "string \<Rightarrow> string" where
  "str_lstrip s = dropWhile is_space s"

definition str_strip :: "string \<Rightarrow> string" where
  "str_strip s = rev (str_lstrip (rev (str_lstrip s)))"

definition str_rstrip_char :: "char \<Rightarrow> string \<Rightarrow> string" where
  "str_rstrip_char c s = rev (dropWhile (\<lambda>d. d = c) (rev s))"

fun str_starts :: "string \<Rightarrow> string \<Rightarrow> bool" where
  "str_starts [] s = True"
| "str_starts (p # ps) [] = False"
| "str_starts (p # ps) (c # cs) = (p = c \<and> str_starts ps cs)"

text \<open>\<open>needle in s\<close>.\<close>

fun str_contains :: "string \<Rightarrow> string \<Rightarrow> bool" where
  "str_contains needle [] = (needle = [])"
| "str_contains needle (c # cs) = (str_starts needle (c # cs) \<or> str_contains needle cs)"

text \<open>\<open>s.replace(c, t)\<close> for a one-character pattern.\<close>

definition str_replace_char :: "char \<Rightarrow> string \<Rightarrow> string \<Rightarrow> string" where
  "str_replace_char c t s = concat (map (\<lambda>d. if d = c then t else [d]) s)"

lemma lower_char_idem [simp]: "lower_char (lower_char c) = lower_char c"
  by (simp add: lower_char_def char_code_def)

lemma str_lower_idem [simp]: "str_lower (str_lower s) = str_lower s"
  by (simp add: str_lower_def)

lemma str_starts_append [simp]: "str_starts p (p @ s)"
  by (induction p) auto

section \<open>Decimal numerals\<close>

definition digit_char :: "nat \<Rightarrow> char" where
  "digit_char d = char_of (48 + d)"

definition digit_val :: "char \<Rightarrow> nat" where
  "digit_val c = char_code c - 48"

fun show_nat :: "nat \<Rightarrow> string" where
  "show_nat n = (if n < 10 then [digit_char n] else show_nat (n div 10) @ [digit_char (n mod 10)])"

declare show_nat.simps [simp del]

definition show_int :: "int \<Rightarrow> string" where
  "show_int i = (if i < 0 then CHR ''-'' # show_nat (nat (- i)) else show_nat (nat i))"

text \<open>
  \<open>int(text)\<close>: digits with single underscores between them; \<open>after_digit\<close> says whether
  the character before was a digit.
\<close>

fun read_digits :: "nat \<Rightarrow> bool \<Rightarrow> string \<Rightarrow> nat option" where
  "read_digits acc after_digit [] = (if after_digit then Some acc else None)"
| "read_digits acc after_digit (c # cs) =
     (if is_digit c then read_digits (acc * 10 + digit_val c) True cs
      else if c = CHR ''_'' \<and> after_digit then read_digits acc False cs
      else None)"

text \<open>CPython refuses to convert numerals of more than 4300 digits.\<close>

definition max_str_digits :: nat where
  "max_str_digits = 4300"

definition read_nat :: "string \<Rightarrow> nat option" where
  "read_nat s = (if length (filter is_digit s) \<le> max_str_digits then read_digits 0 False s else None)"

definition py_int :: "string \<Rightarrow> int option" where
  "py_int s = (case str_strip s of
       [] \<Rightarrow> None
     | c # cs \<Rightarrow>
         if c = CHR ''-'' then map_option (\<lambda>n. - int n) (read_nat cs)
         else if c = CHR ''+'' then map_option int (read_nat cs)
         else map_option int (read_nat (c # cs)))"

lemma digit_char_code: "d < 10 \<Longrightarrow> char_code (digit_char d) = 48 + d"
  by (simp add: digit_char_def char_code_def)

lemma digit_char_props [simp]:
  assumes "d < 10"
  shows "is_digit (digit_char d)" "digit_val (digit_char d) = d" "\<not> is_space (digit_char d)"
    "digit_char d \<noteq> CHR ''_''" "digit_char d \<noteq> CHR ''-''" "digit_char d \<noteq> CHR ''+''"
    "digit_char d \<noteq> CHR ''.''" "digit_char d \<noteq> CHR ''E''" "digit_char d \<noteq> CHR ''e''"
proof -
  note code = digit_char_code [OF assms]
  show "is_digit (digit_char d)" "digit_val (digit_char d) = d" "\<not> is_space (digit_char d)"
    using assms by (simp_all add: is_digit_def digit_val_def is_space_def code)
  have ne: "char_code c < 48 \<or> 58 \<le> char_code c \<Longrightarrow> digit_char d \<noteq> c" for c
    using assms code by auto
  show "digit_char d \<noteq> CHR ''_''" "digit_char d \<noteq> CHR ''-''" "digit_char d \<noteq> CHR ''+''"
    "digit_char d \<noteq> CHR ''.''" "digit_char d \<noteq> CHR ''E''" "digit_char d \<noteq> CHR ''e''"
    by (rule ne, simp add: char_code_def)+
qed

lemma show_nat_digits: "\<forall>c \<in> set (show_nat n). \<exists>d<10. c = digit_char d"
proof (induction n rule: show_nat.induct)
  case (1 n)
  show ?case
    using "1.IH" by (subst show_nat.simps) (auto intro: exI [of _ "n mod 10"])
qed

lemma show_nat_nonempty [simp]: "show_nat n \<noteq> []"
  by (subst show_nat.simps) simp

lemma read_digits_append:
  "\<forall>c \<in> set xs. is_digit c \<Longrightarrow> xs \<noteq> [] \<Longrightarrow>
     read_digits acc b (xs @ ys) = read_digits (foldl (\<lambda>a c. a * 10 + digit_val c) acc xs) True ys"
proof (induction xs arbitrary: acc b)
  case (Cons x xs)
  then show ?case by (cases "xs = []") simp_all
qed simp

lemma show_nat_is_digit: "c \<in> set (show_nat n) \<Longrightarrow> is_digit c"
  using show_nat_digits by (metis digit_char_props(1))

lemma show_nat_char_neq:
  assumes "c \<in> set (show_nat n)"
  shows "\<not> is_space c" "c \<noteq> CHR ''_''" "c \<noteq> CHR ''-''" "c \<noteq> CHR ''+''" "c \<noteq> CHR ''.''"
    "c \<noteq> CHR ''E''" "c \<noteq> CHR ''e''"
proof -
  obtain d where "d < 10" "c = digit_char d"
    using assms show_nat_digits by blast
  then show "\<not> is_space c" "c \<noteq> CHR ''_''" "c \<noteq> CHR ''-''" "c \<noteq> CHR ''+''" "c \<noteq> CHR ''.''"
    "c \<noteq> CHR ''E''" "c \<noteq> CHR ''e''" by simp_all
qed

definition digits_value :: "string \<Rightarrow> nat" where
  "digits_value s = foldl (\<lambda>a c. a * 10 + digit_val c) 0 s"

lemma digits_value_append1 [simp]: "digits_value (s @ [c]) = digits_value s * 10 + digit_val c"
  by (simp add: digits_value_def)

lemma digits_value_show_nat [simp]: "digits_value (show_nat n) = n"
proof (induction n rule: show_nat.induct)
  case (1 n)
  show ?case
  proof (cases "n < 10")
    case True
    then show ?thesis by (subst show_nat.simps) (simp add: digits_value_def)
  next
    case False
    then have "digits_value (show_nat (n div 10)) = n div 10" using "1.IH" by simp
    with False show ?thesis by (subst show_nat.simps) simp
  qed
qed

lemma read_digits_show_nat [simp]: "read_digits 0 b (show_nat n) = Some n"
  using read_digits_append [of "show_nat n" 0 b "[]"]
  by (simp add: show_nat_is_digit flip: digits_value_def)

lemma read_nat_show_nat: "length (show_nat n) \<le> max_str_digits \<Longrightarrow> read_nat (show_nat n) = Some n"
  by (simp add: read_nat_def show_nat_is_digit filter_True)

lemma str_strip_no_space:
  assumes "\<forall>c \<in> set s. \<not> is_space c"
  shows "str_strip s = s"
proof -
  have id: "dropWhile is_space t = t" if "\<forall>c \<in> set t. \<not> is_space c" for t
    using that by (cases t) auto
  show ?thesis using assms by (simp add: str_strip_def str_lstrip_def id)
qed

lemma str_strip_show_int [simp]: "str_strip (show_int i) = show_int i"
  by (rule str_strip_no_space)
    (auto simp: show_int_def show_nat_char_neq is_space_def char_code_def dest: show_nat_char_neq)

lemma py_int_show_int:
  "length (show_nat (nat \<bar>i\<bar>)) \<le> max_str_digits \<Longrightarrow> py_int (show_int i) = Some i"
proof (cases "i < 0")
  case True
  assume "length (show_nat (nat \<bar>i\<bar>)) \<le> max_str_digits"
  moreover have "str_strip (CHR ''-'' # show_nat (nat (- i))) = CHR ''-'' # show_nat (nat (- i))"
    using True str_strip_show_int [of i] by (simp add: show_int_def del: str_strip_show_int)
  ultimately show ?thesis
    using True by (simp add: py_int_def show_int_def read_nat_show_nat)
next
  case False
  assume len: "length (show_nat (nat \<bar>i\<bar>)) \<le> max_str_digits"
  obtain c cs where show_i: "show_nat (nat i) = c # cs"
    by (cases "show_nat (nat i)") auto
  then have "c \<noteq> CHR ''-''" "c \<noteq> CHR ''+''"
    using show_nat_char_neq [of c "nat i"] by auto
  moreover have "read_nat (c # cs) = Some (nat i)"
    using len False read_nat_show_nat [of "nat i"] by (simp add: show_i)
  moreover have show_cs: "show_int i = c # cs"
    using False by (simp add: show_int_def show_i)
  moreover have "str_strip (c # cs) = c # cs"
    using str_strip_show_int [of i] by (simp only: show_cs)
  ultimately show ?thesis
    using False by (simp add: py_int_def)
qed

section \<open>Stable sorts, sets and dictionaries\<close>

text \<open>
  \<open>sorted(xs, key=k, reverse=True)\<close> keeps the order of equal keys, so it is not the
  reverse of the ascending sort of \<open>xs\<close> but of the ascending sort of its reverse.
  \<open>sorted(set(xs))\<close> is \<open>sorted_set\<close>; a dictionary is an association list in insertion
  order, written by \<open>AList.update\<close>-style replacement in place.
\<close>

definition sort_desc :: "('a \<Rightarrow> 'k::linorder) \<Rightarrow> 'a list \<Rightarrow> 'a list" where
  "sort_desc key xs = rev (sort_key key (rev xs))"

definition sorted_set :: "'a::linorder list \<Rightarrow> 'a list" where
  "sorted_set xs = sort (remdups xs)"

fun dict_set :: "'k \<Rightarrow> 'v \<Rightarrow> ('k \<times> 'v) list \<Rightarrow> ('k \<times> 'v) list" where
  "dict_set k v [] = [(k, v)]"
| "dict_set k v ((k', v') # d) = (if k = k' then (k, v) # d else (k', v') # dict_set k v d)"

text \<open>\<open>d.setdefault(k, []).append(v)\<close>\<close>

definition dict_append :: "'k \<Rightarrow> 'v \<Rightarrow> ('k \<times> 'v list) list \<Rightarrow> ('k \<times> 'v list) list" where
  "dict_append k v d = dict_set k ((case map_of d k of None \<Rightarrow> [] | Some vs \<Rightarrow> vs) @ [v]) d"

lemma set_sort_desc [simp]: "set (sort_desc k xs) = set xs"
  by (simp add: sort_desc_def)

lemma mset_sort_desc [simp]: "mset (sort_desc k xs) = mset xs"
  by (simp add: sort_desc_def)

lemma length_sort_desc [simp]: "length (sort_desc k xs) = length xs"
  by (simp add: sort_desc_def)

lemma distinct_sort_desc [simp]: "distinct (map f (sort_desc k xs)) = distinct (map f xs)"
  by (metis mset_sort_desc mset_map mset_eq_imp_distinct_iff)

lemma distinct_map_sort_key [simp]: "distinct (map f (sort_key k xs)) = distinct (map f xs)"
  by (metis mset_sort mset_map mset_eq_imp_distinct_iff)

lemma sorted_sort_desc: "sorted_wrt (\<lambda>a b. k b \<le> k a) (sort_desc k xs)"
proof -
  have "sorted_wrt (\<lambda>a b. k a \<le> k b) (sort_key k (rev xs))"
    using sorted_sort_key [of k "rev xs"] by (simp add: sorted_wrt_map)
  then show ?thesis by (simp add: sort_desc_def sorted_wrt_rev)
qed

lemma sort_desc_empty_iff [simp]: "sort_desc k xs = [] \<longleftrightarrow> xs = []"
  by (metis length_0_conv length_sort_desc)

lemma set_sorted_set [simp]: "set (sorted_set xs) = set xs"
  by (simp add: sorted_set_def)

lemma distinct_sorted_set [simp]: "distinct (sorted_set xs)"
  by (simp add: sorted_set_def)

lemma sorted_sorted_set [simp]: "sorted (sorted_set xs)"
  by (simp add: sorted_set_def)

lemma sorted_set_cong: "set xs = set ys \<Longrightarrow> sorted_set xs = sorted_set ys"
  by (metis distinct_sorted_set set_sorted_set sorted_distinct_set_unique sorted_sorted_set)

lemma map_of_dict_set [simp]: "map_of (dict_set k v d) = (map_of d)(k \<mapsto> v)"
  by (induction k v d rule: dict_set.induct) auto

lemma keys_dict_set [simp]: "fst ` set (dict_set k v d) = insert k (fst ` set d)"
  by (induction k v d rule: dict_set.induct) auto

lemma distinct_dict_set [simp]: "distinct (map fst (dict_set k v d)) = distinct (map fst d)"
proof (induction k v d rule: dict_set.induct)
  case (2 k v k' v' d)
  have "k' \<in> fst ` set (dict_set k v d) \<longleftrightarrow> k' = k \<or> k' \<in> fst ` set d"
    by simp
  with 2 show ?case by auto
qed auto

lemma distinct_dict_append [simp]:
  "distinct (map fst (dict_append k v d)) = distinct (map fst d)"
  by (simp add: dict_append_def)

lemma mset_filter_split:
  assumes "\<And>x. x \<in> set xs \<Longrightarrow> R x \<longleftrightarrow> P x \<or> Q x" and "\<And>x. x \<in> set xs \<Longrightarrow> \<not> (P x \<and> Q x)"
  shows "mset (filter R xs) = mset (filter P xs) + mset (filter Q xs)"
  using assms
proof (induction xs)
  case (Cons x xs)
  from Cons.prems(1) [of x] Cons.prems(2) [of x] Cons.IH Cons.prems show ?case
    by (cases "P x"; cases "Q x") simp_all
qed simp

lemma map_insort_key: "map g (insort_key (\<lambda>x. k (g x)) x xs) = insort_key k (g x) (map g xs)"
  by (induction xs) auto

lemma sort_key_map: "sort_key k (map g xs) = map g (sort_key (\<lambda>x. k (g x)) xs)"
  by (induction xs) (auto simp: map_insort_key)

lemma sort_desc_map: "sort_desc k (map g xs) = map g (sort_desc (\<lambda>x. k (g x)) xs)"
  by (simp add: sort_desc_def rev_map sort_key_map)

lemma sort_desc_hd_greatest:
  "sort_desc k xs = x # ys \<Longrightarrow> x \<in> set xs \<and> (\<forall>y \<in> set xs. k y \<le> k x)"
  using sorted_sort_desc [of k xs] set_sort_desc [of k xs] by (cases "sort_desc k xs") auto

text \<open>\<open>xs[i]\<close>: a negative index counts from the end.\<close>

definition py_index :: "'a list \<Rightarrow> int \<Rightarrow> 'a result" where
  "py_index xs i =
     (if 0 \<le> i \<and> i < int (length xs) then Inr (xs ! nat i)
      else if i < 0 \<and> - int (length xs) \<le> i then Inr (xs ! nat (int (length xs) + i))
      else Inl IndexError)"

lemma list_all2_in_set2: "list_all2 P xs ys \<Longrightarrow> y \<in> set ys \<Longrightarrow> \<exists>x \<in> set xs. P x y"
  by (induction rule: list_all2_induct) auto

text \<open>\<open>enumerate(xs)\<close>\<close>

definition enumerate_list :: "'a list \<Rightarrow> (nat \<times> 'a) list" where
  "enumerate_list xs = zip [0..<length xs] xs"

lemma list_all2_enumerate: "list_all2 (\<lambda>(_, x) y. R x y) (enumerate_list xs) ys \<longleftrightarrow> list_all2 R xs ys"
  by (auto simp: list_all2_conv_all_nth enumerate_list_def)

lemma dict_set_fresh: "map_of d k = None \<Longrightarrow> dict_set k v d = d @ [(k, v)]"
  by (induction k v d rule: dict_set.induct) (auto split: if_splits)

text \<open>A loop in which every pass appends one result.\<close>

lemma fold_err_appends:
  assumes "fold_err f xs s = Inr t" and "\<And>x s t. x \<in> set xs \<Longrightarrow> f x s = Inr t \<Longrightarrow> \<exists>y. t = s @ [y] \<and> R x y"
  shows "\<exists>ys. t = s @ ys \<and> list_all2 R xs ys"
  using assms
proof (induction xs arbitrary: s)
  case (Cons x xs)
  from Cons.prems(1) obtain u where u: "f x s = Inr u" "fold_err f xs u = Inr t" by (auto simp: err_simps)
  obtain y where y: "u = s @ [y]" "R x y" using Cons.prems(2) [OF _ u(1)] by auto
  obtain ys where "t = u @ ys" "list_all2 R xs ys" using Cons.IH [OF u(2)] Cons.prems(2) by auto
  with y show ?case by (intro exI [of _ "y # ys"]) auto
qed simp

end
