(* ===== verification/PyDecimal.thy ===== *)
theory PyDecimal
  imports Prelude
begin

text \<open>
  The finite part of Python's \<open>decimal.Decimal\<close> under the context the program sets
  (\<open>getcontext().prec = 78\<close>, rounding half to even): a signed coefficient and an
  exponent. Division follows the digit-by-digit algorithm of the \<open>decimal\<close> module
  (shift, sticky digit, ideal exponent), so the exponent of a result, which
  \<open>str\<close> shows, is the one Python computes. The value of a decimal is the rational
  \<open>dec_val\<close>. Infinities, NaNs, the sign of zero and the exponent limits (\<open>\<plusminus>999999\<close>)
  are not represented; the literals \<open>NaN\<close> and \<open>Infinity\<close> do not parse here.
\<close>

named_theorems dec_simps "values of decimal operations"

section \<open>Representation and value\<close>

datatype dec = Dec (dec_coef: int) (dec_exp: int)

definition dec_val :: "dec \<Rightarrow> rat" where
  "dec_val x = of_int (dec_coef x) * 10 powi dec_exp x"

definition dec_prec :: nat where
  "dec_prec = 78"

text \<open>\<open>len(str(n))\<close>\<close>

definition num_digits :: "nat \<Rightarrow> nat" where
  "num_digits n = length (show_nat n)"

definition div_half_even :: "int \<Rightarrow> int \<Rightarrow> int" where
  "div_half_even a b =
     (let q = a div b; r = a mod b
      in if b < 2 * r \<or> (2 * r = b \<and> odd q) then q + 1 else q)"

text \<open>\<open>_fix\<close>: round a coefficient of more than 78 digits.\<close>

definition dec_fix :: "dec \<Rightarrow> dec" where
  "dec_fix x =
     (let c = \<bar>dec_coef x\<bar>; n = num_digits (nat c)
      in if n \<le> dec_prec then x
         else let k = n - dec_prec; q = div_half_even c (10 ^ k)
              in if q = 10 ^ dec_prec
                 then Dec (sgn (dec_coef x) * 10 ^ (dec_prec - 1)) (dec_exp x + int k + 1)
                 else Dec (sgn (dec_coef x) * q) (dec_exp x + int k))"

definition dec_of_int :: "int \<Rightarrow> dec" where
  "dec_of_int i = Dec i 0"

text \<open>\<open>Decimal(10) ** n\<close>: exact, with at most 78 digits in the coefficient.\<close>

definition dec_ten_pow :: "nat \<Rightarrow> dec" where
  "dec_ten_pow n = (if n < dec_prec then Dec (10 ^ n) 0
     else Dec (10 ^ (dec_prec - 1)) (int n - int (dec_prec - 1)))"

definition dec_mul :: "dec \<Rightarrow> dec \<Rightarrow> dec" where
  "dec_mul x y = dec_fix (Dec (dec_coef x * dec_coef y) (dec_exp x + dec_exp y))"

definition dec_align :: "dec \<Rightarrow> dec \<Rightarrow> int \<times> int \<times> int" where
  "dec_align x y =
     (let m = min (dec_exp x) (dec_exp y)
      in (dec_coef x * 10 ^ nat (dec_exp x - m), dec_coef y * 10 ^ nat (dec_exp y - m), m))"

definition dec_add :: "dec \<Rightarrow> dec \<Rightarrow> dec" where
  "dec_add x y = (case dec_align x y of (a, b, m) \<Rightarrow> dec_fix (Dec (a + b) m))"

definition dec_sub :: "dec \<Rightarrow> dec \<Rightarrow> dec" where
  "dec_sub x y = (case dec_align x y of (a, b, m) \<Rightarrow> dec_fix (Dec (a - b) m))"

definition dec_less :: "dec \<Rightarrow> dec \<Rightarrow> bool" where
  "dec_less x y = (case dec_align x y of (a, b, _) \<Rightarrow> a < b)"

definition dec_leq :: "dec \<Rightarrow> dec \<Rightarrow> bool" where
  "dec_leq x y = (case dec_align x y of (a, b, _) \<Rightarrow> a \<le> b)"

text \<open>\<open>max(x, y)\<close>: the first of the two unless the second is greater.\<close>

definition dec_max :: "dec \<Rightarrow> dec \<Rightarrow> dec" where
  "dec_max x y = (if dec_less x y then y else x)"

text \<open>Drop trailing zeros while the exponent is below \<open>ideal\<close>.\<close>

function dec_strip :: "int \<Rightarrow> int \<Rightarrow> int \<Rightarrow> int \<times> int" where
  "dec_strip ideal c e =
     (if e < ideal \<and> c mod 10 = 0 then dec_strip ideal (c div 10) (e + 1) else (c, e))"
  by pat_completeness auto
termination
  by (relation "measure (\<lambda>(ideal, c, e). nat (ideal - e))") auto

declare dec_strip.simps [simp del]

definition dec_div :: "dec \<Rightarrow> dec \<Rightarrow> dec result" where
  "dec_div x y =
     (if dec_coef y = 0 then Inl ZeroDivisionError
      else if dec_coef x = 0 then Inr (Dec 0 (dec_exp x - dec_exp y))
      else
        let a = \<bar>dec_coef x\<bar>; b = \<bar>dec_coef y\<bar>;
            s = sgn (dec_coef x) * sgn (dec_coef y);
            shift = int (num_digits (nat b)) - int (num_digits (nat a)) + int dec_prec + 1;
            e = dec_exp x - dec_exp y - shift;
            num = (if 0 \<le> shift then a * 10 ^ nat shift else a);
            den = (if 0 \<le> shift then b else b * 10 ^ nat (- shift));
            q = num div den; r = num mod den
        in if r \<noteq> 0
           then Inr (dec_fix (Dec (s * (if q mod 5 = 0 then q + 1 else q)) e))
           else case dec_strip (dec_exp x - dec_exp y) q e of
                  (q', e') \<Rightarrow> Inr (dec_fix (Dec (s * q') e')))"

text \<open>\<open>normalize()\<close>: no trailing zeros in the coefficient, zero as \<open>0\<close>.\<close>

definition dec_normalize :: "dec \<Rightarrow> dec" where
  "dec_normalize x =
     (let y = dec_fix x
      in if dec_coef y = 0 then Dec 0 0
         else case dec_strip (dec_exp y + int (num_digits (nat \<bar>dec_coef y\<bar>))) \<bar>dec_coef y\<bar> (dec_exp y)
              of (c, e) \<Rightarrow> Dec (sgn (dec_coef y) * c) e)"

text \<open>\<open>int(x.to_integral_value(rounding=ROUND_FLOOR))\<close>\<close>

definition dec_floor :: "dec \<Rightarrow> int" where
  "dec_floor x = (if 0 \<le> dec_exp x then dec_coef x * 10 ^ nat (dec_exp x)
     else dec_coef x div 10 ^ nat (- dec_exp x))"

section \<open>Text\<close>

text \<open>\<open>format(x, "f")\<close>\<close>

definition dec_format_f :: "dec \<Rightarrow> string" where
  "dec_format_f x =
     (let s = show_nat (nat \<bar>dec_coef x\<bar>); sign = (if dec_coef x < 0 then ''-'' else [])
      in if 0 \<le> dec_exp x then sign @ (if dec_coef x = 0 then s else s @ replicate (nat (dec_exp x)) (CHR ''0''))
         else let d = nat (- dec_exp x); t = replicate (Suc d - length s) (CHR ''0'') @ s
              in sign @ take (length t - d) t @ ''.'' @ drop (length t - d) t)"

text \<open>\<open>str(x)\<close>: positional when the exponent is at most 0 and the value is not tiny.\<close>

definition dec_str :: "dec \<Rightarrow> string" where
  "dec_str x =
     (let s = show_nat (nat \<bar>dec_coef x\<bar>); n = int (length s); sign = (if dec_coef x < 0 then ''-'' else []);
          left = dec_exp x + n;
          dot = (if dec_exp x \<le> 0 \<and> -6 < left then left else 1);
          intpart = (if dot \<le> 0 then ''0'' else if n \<le> dot then s @ replicate (nat (dot - n)) (CHR ''0'')
             else take (nat dot) s);
          frac = (if dot \<le> 0 then ''.'' @ replicate (nat (- dot)) (CHR ''0'') @ s
             else if n \<le> dot then [] else ''.'' @ drop (nat dot) s);
          expo = (if left = dot then [] else ''E'' @ (if 0 \<le> left - dot then ''+'' else []) @ show_int (left - dot))
      in sign @ intpart @ frac @ expo)"

definition read_exponent :: "string \<Rightarrow> int option" where
  "read_exponent s = (case s of
       [] \<Rightarrow> Some 0
     | c # cs \<Rightarrow>
         if c = CHR ''e'' \<or> c = CHR ''E'' then
           (case cs of
              [] \<Rightarrow> None
            | d # ds \<Rightarrow>
                let neg = (d = CHR ''-''); body = (if d = CHR ''-'' \<or> d = CHR ''+'' then ds else cs)
                in if body \<noteq> [] \<and> list_all is_digit body
                   then Some ((if neg then - 1 else 1) * int (digits_value body)) else None)
         else None)"

text \<open>\<open>Decimal(text)\<close>: exact; \<open>None\<close> where the constructor raises \<open>InvalidOperation\<close>.\<close>

definition dec_of_string :: "string \<Rightarrow> dec option" where
  "dec_of_string text =
     (let t = filter (\<lambda>c. c \<noteq> CHR ''_'') (str_strip text);
          neg = (t \<noteq> [] \<and> hd t = CHR ''-'');
          body = (if t \<noteq> [] \<and> (hd t = CHR ''-'' \<or> hd t = CHR ''+'') then tl t else t);
          intpart = takeWhile is_digit body; rest = dropWhile is_digit body;
          frac = (if rest \<noteq> [] \<and> hd rest = CHR ''.'' then takeWhile is_digit (tl rest) else []);
          tail = (if rest \<noteq> [] \<and> hd rest = CHR ''.'' then dropWhile is_digit (tl rest) else rest)
      in if intpart @ frac = [] then None
         else map_option (\<lambda>e. Dec ((if neg then - 1 else 1) * int (digits_value (intpart @ frac)))
                              (e - int (length frac)))
                (read_exponent tail))"

section \<open>Digit counts\<close>

lemma num_digits_simp: "num_digits n = (if n < 10 then 1 else num_digits (n div 10) + 1)"
  by (subst num_digits_def, subst show_nat.simps) (simp add: num_digits_def)

lemma num_digits_pos [simp]: "0 < num_digits n"
  by (subst num_digits_simp) simp

lemma num_digits_upper: "n < 10 ^ num_digits n"
proof (induction n rule: less_induct)
  case (less n)
  show ?case
  proof (cases "n < 10")
    case True
    then show ?thesis by (subst num_digits_simp) simp
  next
    case False
    then have "n div 10 < 10 ^ num_digits (n div 10)" using less by simp
    then have "n < 10 * 10 ^ num_digits (n div 10)" by linarith
    with False show ?thesis by (subst num_digits_simp) simp
  qed
qed

lemma num_digits_lower: "0 < n \<Longrightarrow> 10 ^ (num_digits n - 1) \<le> n"
proof (induction n rule: less_induct)
  case (less n)
  show ?case
  proof (cases "n < 10")
    case True
    with less.prems show ?thesis by (subst num_digits_simp) simp
  next
    case False
    then have "10 ^ (num_digits (n div 10) - 1) \<le> n div 10" using less by simp
    moreover have "num_digits (n div 10) = Suc (num_digits (n div 10) - 1)" by simp
    ultimately have "10 ^ num_digits (n div 10) \<le> n"
      by (metis div_mult2_eq less_eq_div_iff_mult_less_eq mult.commute num_digits_pos power_Suc
          zero_less_numeral)
    with False show ?thesis by (subst num_digits_simp) simp
  qed
qed

lemma num_digits_le_iff: "num_digits n \<le> k \<longleftrightarrow> n < 10 ^ k" if "0 < k"
proof
  assume "num_digits n \<le> k"
  then have "(10::nat) ^ num_digits n \<le> 10 ^ k" by (simp add: power_increasing)
  with num_digits_upper [of n] show "n < 10 ^ k" by linarith
next
  assume lt: "n < 10 ^ k"
  show "num_digits n \<le> k"
  proof (cases "n = 0")
    case True
    with that show ?thesis by (subst num_digits_simp) simp
  next
    case False
    then have "10 ^ (num_digits n - 1) < (10::nat) ^ k"
      using num_digits_lower [of n] lt by (meson le_less_trans not_gr_zero)
    then have "num_digits n - 1 < k"
      by (rule power_less_imp_less_exp [rotated]) simp
    then show ?thesis by simp
  qed
qed

lemma num_digits_eqI: "10 ^ k \<le> n \<Longrightarrow> n < 10 ^ Suc k \<Longrightarrow> num_digits n = Suc k"
proof -
  assume lo: "10 ^ k \<le> n" and hi: "n < 10 ^ Suc k"
  have "num_digits n \<le> Suc k" using hi by (simp add: num_digits_le_iff)
  moreover have "\<not> num_digits n \<le> k"
  proof (cases "k = 0")
    case False
    with lo show ?thesis by (simp add: num_digits_le_iff)
  qed simp
  ultimately show ?thesis by simp
qed

lemma num_digits_ten_pow [simp]: "num_digits (10 ^ k) = Suc k"
  by (rule num_digits_eqI) auto


section \<open>Values\<close>

lemma dec_val_Dec: "dec_val (Dec c e) = of_int c * 10 powi e"
  by (simp add: dec_val_def)

lemma dec_val_of_int [simp, dec_simps]: "dec_val (dec_of_int i) = of_int i"
  by (simp add: dec_of_int_def dec_val_def)

lemma powi_nonneg_nat: "0 \<le> e \<Longrightarrow> (10::rat) powi e = 10 ^ nat e"
  by (simp add: power_int_def)

lemma powi_shift: "m \<le> e \<Longrightarrow> (10::rat) powi e = 10 ^ nat (e - m) * 10 powi m"
  by (simp add: powi_nonneg_nat [symmetric] flip: power_int_add)

lemma dec_fix_small: "\<bar>dec_coef x\<bar> < 10 ^ dec_prec \<Longrightarrow> dec_fix x = x"
proof -
  assume "\<bar>dec_coef x\<bar> < 10 ^ dec_prec"
  then have "nat \<bar>dec_coef x\<bar> < 10 ^ dec_prec"
    by (metis abs_ge_zero nat_less_iff of_nat_numeral of_nat_power)
  then have "num_digits (nat \<bar>dec_coef x\<bar>) \<le> dec_prec"
    by (subst num_digits_le_iff) (simp_all add: dec_prec_def)
  then show ?thesis by (simp add: dec_fix_def)
qed

lemma dec_align_val:
  assumes "dec_align x y = (a, b, m)"
  shows "dec_val x = of_int a * 10 powi m" and "dec_val y = of_int b * 10 powi m"
proof -
  have m: "m \<le> dec_exp x" "m \<le> dec_exp y"
    and a: "a = dec_coef x * 10 ^ nat (dec_exp x - m)" and b: "b = dec_coef y * 10 ^ nat (dec_exp y - m)"
    using assms by (auto simp: dec_align_def Let_def)
  show "dec_val x = of_int a * 10 powi m"
    unfolding dec_val_def a powi_shift [OF m(1)] by simp
  show "dec_val y = of_int b * 10 powi m"
    unfolding dec_val_def b powi_shift [OF m(2)] by simp
qed

lemma powi10_pos [simp]: "0 < (10::rat) powi e"
  by (simp add: zero_less_power_int)

lemma dec_less_iff [dec_simps]: "dec_less x y \<longleftrightarrow> dec_val x < dec_val y"
proof -
  obtain a b m where al: "dec_align x y = (a, b, m)" by (metis prod_cases3)
  then show ?thesis
    using dec_align_val [OF al] by (simp add: dec_less_def mult_less_cancel_right_pos)
qed

lemma dec_leq_iff [dec_simps]: "dec_leq x y \<longleftrightarrow> dec_val x \<le> dec_val y"
proof -
  obtain a b m where al: "dec_align x y = (a, b, m)" by (metis prod_cases3)
  then show ?thesis
    using dec_align_val [OF al] by (simp add: dec_leq_def mult_le_cancel_right_pos)
qed

lemma dec_val_max [dec_simps]: "dec_val (dec_max x y) = max (dec_val x) (dec_val y)"
  by (auto simp: dec_max_def dec_less_iff)

lemma dec_floor_iff [dec_simps]: "dec_floor x = \<lfloor>dec_val x\<rfloor>"
proof (cases "0 \<le> dec_exp x")
  case True
  then have "dec_val x = of_int (dec_coef x * 10 ^ nat (dec_exp x))"
    by (simp add: dec_val_def powi_nonneg_nat)
  then have "\<lfloor>dec_val x\<rfloor> = dec_coef x * 10 ^ nat (dec_exp x)"
    by (simp only: floor_of_int)
  with True show ?thesis by (simp add: dec_floor_def)
next
  case False
  then have "(10::rat) powi dec_exp x = inverse (10 ^ nat (- dec_exp x))"
    by (simp add: power_int_def power_one_over inverse_eq_divide)
  then have "dec_val x = of_int (dec_coef x) / of_int (10 ^ nat (- dec_exp x))"
    by (simp add: dec_val_def field_simps)
  with False show ?thesis
    by (simp add: dec_floor_def floor_divide_of_int_eq del: of_int_power)
qed

lemma dec_val_ten_pow [simp, dec_simps]: "dec_val (dec_ten_pow n) = 10 ^ n"
proof (cases "n < dec_prec")
  case False
  define p where "p = dec_prec - 1"
  have "p \<le> n" using False by (simp add: p_def)
  then have "(10::rat) ^ p * 10 powi (int n - int p) = 10 ^ n"
    by (simp add: powi_nonneg_nat nat_diff_distrib' flip: power_add)
  with False show ?thesis by (simp add: dec_ten_pow_def dec_val_def p_def)
qed (simp add: dec_ten_pow_def dec_val_def)

lemma dec_strip_val:
  "dec_strip ideal c e = (c', e') \<Longrightarrow> (of_int c' :: rat) * 10 powi e' = of_int c * 10 powi e"
proof (induction ideal c e rule: dec_strip.induct)
  case (1 ideal c e)
  show ?case
  proof (cases "e < ideal \<and> c mod 10 = 0")
    case True
    then have "(of_int c :: rat) = of_int (c div 10) * 10"
      by (metis add.right_neutral div_mult_mod_eq of_int_mult of_int_numeral)
    moreover have "(10::rat) powi (e + 1) = 10 * 10 powi e"
      by (simp add: power_int_add)
    moreover have "dec_strip ideal (c div 10) (e + 1) = (c', e')"
      using True "1.prems" by (simp add: dec_strip.simps [of ideal c e])
    ultimately show ?thesis using True "1.IH" by simp
  next
    case False
    with "1.prems" show ?thesis by (auto simp: dec_strip.simps [of ideal c e])
  qed
qed

lemma dec_strip_mult:
  "e + int k \<le> ideal \<Longrightarrow> dec_strip ideal (c * 10 ^ k) e = dec_strip ideal c (e + int k)"
proof (induction k arbitrary: e)
  case (Suc k)
  then have "dec_strip ideal (c * 10 ^ Suc k) e = dec_strip ideal (c * 10 ^ k) (e + 1)"
    by (subst dec_strip.simps) (simp add: mult.left_commute)
  also have "\<dots> = dec_strip ideal c (e + 1 + int k)" using Suc by simp
  finally show ?case by (simp add: algebra_simps)
qed simp

lemma dec_strip_abs_le:
  "dec_strip ideal c e = (c', e') \<Longrightarrow> 0 \<le> c \<Longrightarrow> 0 \<le> c' \<and> c' \<le> c"
proof (induction ideal c e rule: dec_strip.induct)
  case (1 ideal c e)
  show ?case
  proof (cases "e < ideal \<and> c mod 10 = 0")
    case True
    moreover have "dec_strip ideal (c div 10) (e + 1) = (c', e')"
      using True "1.prems" by (simp add: dec_strip.simps [of ideal c e])
    ultimately have "0 \<le> c' \<and> c' \<le> c div 10" using "1.IH" "1.prems" by simp
    moreover have "c div 10 \<le> c" using "1.prems"(2) by simp
    ultimately show ?thesis by linarith
  next
    case False
    with "1.prems" show ?thesis by (auto simp: dec_strip.simps [of ideal c e])
  qed
qed

lemma num_digits_int: "0 \<le> c \<Longrightarrow> c < 10 ^ k \<Longrightarrow> 0 < k \<Longrightarrow> num_digits (nat c) \<le> k"
  by (subst num_digits_le_iff) (simp_all add: nat_less_iff)

text \<open>Dividing by a power of ten is exact when the coefficient has at most 78 digits.\<close>

lemma dec_div_ten_pow_exact:
  assumes "\<bar>raw\<bar> < 10 ^ dec_prec"
  shows "\<exists>x. dec_div (dec_of_int raw) (dec_ten_pow d) = Inr x \<and> dec_val x = of_int raw / 10 ^ d
    \<and> \<bar>dec_coef x\<bar> < 10 ^ dec_prec"
proof (cases "raw = 0")
  case True
  then show ?thesis
    by (auto simp: dec_div_def dec_of_int_def dec_ten_pow_def dec_val_def)
next
  case False
  define j where "j = min d (dec_prec - 1)"
  define n where "n = num_digits (nat \<bar>raw\<bar>)"
  define ey where "ey = int d - int j"
  have y: "dec_coef (dec_ten_pow d) = 10 ^ j" "dec_exp (dec_ten_pow d) = ey"
    by (auto simp: dec_ten_pow_def j_def ey_def dec_prec_def)
  have n78: "n \<le> dec_prec"
    unfolding n_def using assms by (intro num_digits_int) (simp_all add: dec_prec_def)
  define k where "k = dec_prec + 2 - n"
  have shift: "int (num_digits (nat (10 ^ j))) - int n + int dec_prec + 1 = int (j + k)"
    using n78 by (simp add: k_def nat_power_eq of_nat_diff)
  have num: "\<bar>raw\<bar> * 10 ^ (j + k) = (\<bar>raw\<bar> * 10 ^ k) * 10 ^ j"
    by (simp add: power_add)
  obtain c e where st: "dec_strip (- ey) (\<bar>raw\<bar> * 10 ^ k) (- ey - int (j + k)) = (c, e)"
    by (metis surj_pair)
  have st': "dec_strip (- ey) \<bar>raw\<bar> (- ey - int j) = (c, e)"
    using st dec_strip_mult [of "- ey - int (j + k)" k "- ey" "\<bar>raw\<bar>"] by simp
  have c: "0 \<le> c" "c \<le> \<bar>raw\<bar>"
    using dec_strip_abs_le [OF st'] by auto
  have coef: "\<bar>sgn raw * c\<bar> < 10 ^ dec_prec"
    using c assms False by (simp add: abs_mult)
  have res: "dec_div (dec_of_int raw) (dec_ten_pow d) = Inr (Dec (sgn raw * c) e)"
    using False y shift num st coef
    by (simp add: dec_div_def Let_def dec_of_int_def n_def [symmetric] dec_fix_small del: of_nat_add)
  have "(of_int (sgn raw * c) :: rat) * 10 powi e = of_int (sgn raw) * (of_int c * 10 powi e)"
    by simp
  also have "\<dots> = of_int (sgn raw) * (of_int \<bar>raw\<bar> * 10 powi (- ey - int j))"
    using dec_strip_val [OF st'] by simp
  also have "\<dots> = of_int (sgn raw * \<bar>raw\<bar>) * 10 powi (- int d)"
    by (simp add: ey_def)
  also have "\<dots> = of_int raw * 10 powi (- int d)"
    by (simp only: sgn_mult_abs)
  also have "\<dots> = of_int raw / 10 ^ d"
    by (simp add: power_int_minus field_simps)
  finally have "dec_val (Dec (sgn raw * c) e) = of_int raw / 10 ^ d"
    by (simp add: dec_val_def)
  with res coef show ?thesis by auto
qed

lemma dec_normalize_small:
  assumes "\<bar>dec_coef x\<bar> < 10 ^ dec_prec"
  shows "dec_val (dec_normalize x) = dec_val x" and "\<bar>dec_coef (dec_normalize x)\<bar> < 10 ^ dec_prec"
proof -
  have fix_x: "dec_fix x = x" using assms by (rule dec_fix_small)
  obtain c e where st: "dec_strip (dec_exp x + int (num_digits (nat \<bar>dec_coef x\<bar>))) \<bar>dec_coef x\<bar>
      (dec_exp x) = (c, e)"
    by (metis surj_pair)
  have val: "(of_int c :: rat) * 10 powi e = of_int \<bar>dec_coef x\<bar> * 10 powi dec_exp x"
    and c: "0 \<le> c" "c \<le> \<bar>dec_coef x\<bar>"
    using dec_strip_val [OF st] dec_strip_abs_le [OF st] by auto
  show "dec_val (dec_normalize x) = dec_val x"
  proof (cases "dec_coef x = 0")
    case False
    have "(of_int (sgn (dec_coef x) * c) :: rat) * 10 powi e =
        of_int (sgn (dec_coef x) * \<bar>dec_coef x\<bar>) * 10 powi dec_exp x"
      using val by (simp add: mult.assoc)
    with False fix_x st show ?thesis
      by (simp add: dec_normalize_def Let_def dec_val_def sgn_mult_abs)
  qed (use fix_x in \<open>simp add: dec_normalize_def dec_val_def\<close>)
  show "\<bar>dec_coef (dec_normalize x)\<bar> < 10 ^ dec_prec"
    using assms c fix_x st
    by (cases "dec_coef x = 0") (simp_all add: dec_normalize_def Let_def abs_mult dec_prec_def)
qed


section \<open>Reading back\<close>

text \<open>The positional text of a decimal: a sign, integer digits, and fraction digits if any.\<close>

definition dec_text :: "bool \<Rightarrow> string \<Rightarrow> string \<Rightarrow> string" where
  "dec_text neg ip fr = (if neg then ''-'' else []) @ ip @ (if fr = [] then [] else ''.'' @ fr)"

lemma is_digit_char_neq:
  "is_digit c \<Longrightarrow> c \<noteq> CHR ''_'' \<and> c \<noteq> CHR ''-'' \<and> c \<noteq> CHR ''+'' \<and> c \<noteq> CHR ''.'' \<and> \<not> is_space c"
  by (auto simp: is_digit_def is_space_def char_code_def)

lemma dec_of_string_text:
  assumes "\<forall>c \<in> set ip. is_digit c" and "\<forall>c \<in> set fr. is_digit c" and "ip \<noteq> []"
  shows "dec_of_string (dec_text neg ip fr) =
    Some (Dec ((if neg then - 1 else 1) * int (digits_value (ip @ fr))) (- int (length fr)))"
proof -
  let ?t = "dec_text neg ip fr"
  have sets: "set ?t \<subseteq> {CHR ''-'', CHR ''.''} \<union> set ip \<union> set fr"
    unfolding dec_text_def by (cases neg; cases "fr = []") auto
  have punct: "\<not> is_space (CHR ''-'')" "\<not> is_space (CHR ''.'')"
    by (simp_all add: is_space_def char_code_def)
  have chars: "\<not> is_space c \<and> c \<noteq> CHR ''_''" if "c \<in> set ?t" for c
  proof -
    have "c = CHR ''-'' \<or> c = CHR ''.'' \<or> is_digit c"
      using subsetD [OF sets that] assms(1,2) by auto
    then show ?thesis
      using punct is_digit_char_neq [of c] by auto
  qed
  have filt: "filter (\<lambda>c. c \<noteq> CHR ''_'') (str_strip ?t) = ?t"
    using chars by (subst str_strip_no_space) (auto simp: filter_id_conv)
  obtain i ds where ip: "ip = i # ds" using assms(3) by (cases ip) auto
  have i: "i \<noteq> CHR ''-''" "i \<noteq> CHR ''+''"
    using assms(1) is_digit_char_neq [of i] by (auto simp: ip)
  have nd: "\<not> is_digit (CHR ''.'')" by (simp add: is_digit_def char_code_def)
  have take_ip: "takeWhile is_digit (ip @ r) = ip @ takeWhile is_digit r"
    and drop_ip: "dropWhile is_digit (ip @ r) = dropWhile is_digit r" for r
    using assms(1) by (simp_all add: takeWhile_append2 dropWhile_append2)
  have fr: "takeWhile is_digit fr = fr" "dropWhile is_digit fr = []"
    using assms(2) by (simp_all add: takeWhile_eq_all_conv dropWhile_eq_Nil_conv)
  have body: "(if ?t \<noteq> [] \<and> (hd ?t = CHR ''-'' \<or> hd ?t = CHR ''+'') then tl ?t else ?t) =
      ip @ (if fr = [] then [] else ''.'' @ fr)"
    using i by (auto simp: dec_text_def ip)
  have sign: "(?t \<noteq> [] \<and> hd ?t = CHR ''-'') = neg"
    using i by (auto simp: dec_text_def ip)
  show ?thesis
    using assms(3)
    by (auto simp: dec_of_string_def Let_def filt body sign take_ip drop_ip nd fr read_exponent_def)
qed

lemma digits_value_zeros [simp]: "digits_value (replicate k (CHR ''0'') @ s) = digits_value s"
proof (induction k)
  case (Suc k)
  then show ?case by (simp add: digits_value_def digit_val_def char_code_def)
qed simp

lemma digits_value_append: "digits_value (s @ t) = digits_value s * 10 ^ length t + digits_value t"
proof (induction t rule: rev_induct)
  case (snoc c t)
  then show ?case
    by (simp add: algebra_simps flip: append_assoc)
qed (simp add: digits_value_def)

lemma digits_value_replicate0 [simp]: "digits_value (replicate k (CHR ''0'')) = 0"
  using digits_value_zeros [of k "[]"] by (simp add: digits_value_def)

lemma is_digit_zero [simp]: "is_digit (CHR ''0'')"
  by (simp add: is_digit_def char_code_def)

text \<open>
  \<open>format(x, "f")\<close> writes such a text, with as many fraction digits as the exponent
  asks for, and its digits spell the coefficient.
\<close>

lemma dec_format_f_text:
  obtains ip fr where "dec_format_f x = dec_text (dec_coef x < 0) ip fr"
    and "\<forall>c \<in> set ip. is_digit c" and "\<forall>c \<in> set fr. is_digit c" and "ip \<noteq> []"
    and "of_nat (digits_value (ip @ fr)) * (10::rat) powi (- int (length fr)) = \<bar>dec_val x\<bar>"
    and "fr = [] \<longleftrightarrow> 0 \<le> dec_exp x"
proof -
  define s where "s = show_nat (nat \<bar>dec_coef x\<bar>)"
  have s: "s \<noteq> []" "\<forall>c \<in> set s. is_digit c" "digits_value s = nat \<bar>dec_coef x\<bar>"
    by (simp_all add: s_def show_nat_is_digit)
  have val: "\<bar>dec_val x\<bar> = of_nat (digits_value s) * 10 powi dec_exp x"
    by (simp add: s(3) dec_val_def abs_mult)
  show ?thesis
  proof (cases "0 \<le> dec_exp x")
    case True
    define ip where "ip = (if dec_coef x = 0 then s else s @ replicate (nat (dec_exp x)) (CHR ''0''))"
    have "dec_format_f x = dec_text (dec_coef x < 0) ip []"
      using True by (simp add: dec_format_f_def Let_def dec_text_def ip_def s_def)
    moreover have "of_nat (digits_value ip) = \<bar>dec_val x\<bar>"
      using True s(3) by (simp add: val ip_def digits_value_append powi_nonneg_nat)
    moreover have "\<forall>c \<in> set ip. is_digit c" "ip \<noteq> []"
      using s by (auto simp: ip_def)
    ultimately show ?thesis
      using that [of ip "[]"] True by simp
  next
    case False
    define d t where "d = nat (- dec_exp x)" and "t = replicate (Suc d - length s) (CHR ''0'') @ s"
    have len: "d < length t" "0 < d" using False by (auto simp: t_def d_def)
    have "dec_format_f x = dec_text (dec_coef x < 0) (take (length t - d) t) (drop (length t - d) t)"
    proof -
      have "drop (length t - d) t \<noteq> []" using len by simp
      with False show ?thesis
        unfolding dec_format_f_def Let_def dec_text_def s_def [symmetric] d_def [symmetric]
          t_def [symmetric] by simp
    qed
    moreover have "of_nat (digits_value t) * (10::rat) powi (- int d) = \<bar>dec_val x\<bar>"
      using False by (simp add: val t_def d_def)
    moreover have "\<forall>c \<in> set t. is_digit c" using s(2) by (auto simp: t_def)
    then have "\<forall>c \<in> set (take (length t - d) t). is_digit c"
      "\<forall>c \<in> set (drop (length t - d) t). is_digit c"
      by (meson in_set_takeD in_set_dropD)+
    moreover have "take (length t - d) t \<noteq> []" "drop (length t - d) t \<noteq> []" using len by auto
    ultimately show ?thesis
      using that [of "take (length t - d) t" "drop (length t - d) t"] len False
      by simp
  qed
qed

end
