(* ===== verification/PyTime.thy ===== *)
theory PyTime
  imports PyDecimal
begin

text \<open>
  The part of Python's \<open>datetime\<close> the program uses: \<open>datetime.fromisoformat\<close>, \<open>isoformat\<close>
  in UTC (\<open>tidal/time.py\<close>), and instants as microseconds since 0001-01-01T00:00:00Z. A
  \<open>datetime\<close> is a local time and an optional UTC offset, both in microseconds. ISO week
  dates are not read, and an instant outside the years 1 to 9999 is a value here where
  Python raises \<open>OverflowError\<close>.
\<close>

type_synonym instant = int

record datetime =
  dt_local :: int
  dt_offset :: "int option"

definition usec_per_second :: int where "usec_per_second = 1000000"
definition usec_per_minute :: int where "usec_per_minute = 60 * usec_per_second"
definition usec_per_hour :: int where "usec_per_hour = 60 * usec_per_minute"
definition usec_per_day :: int where "usec_per_day = 24 * usec_per_hour"

lemmas usec_defs = usec_per_day_def usec_per_hour_def usec_per_minute_def usec_per_second_def

section \<open>The proleptic Gregorian calendar\<close>

definition is_leap :: "nat \<Rightarrow> bool" where
  "is_leap year \<longleftrightarrow> year mod 4 = 0 \<and> (year mod 100 \<noteq> 0 \<or> year mod 400 = 0)"

definition days_before_year :: "nat \<Rightarrow> nat" where
  "days_before_year year = (let y = year - 1 in y * 365 + y div 4 - y div 100 + y div 400)"

definition days_in_month :: "nat \<Rightarrow> nat \<Rightarrow> nat" where
  "days_in_month year month =
     (if month = 2 \<and> is_leap year then 29
      else [0, 31, 28, 31, 30, 31, 30, 31, 31, 30, 31, 30, 31] ! month)"

definition days_before_month :: "nat \<Rightarrow> nat \<Rightarrow> nat" where
  "days_before_month year month = sum_list (map (days_in_month year) [1..<month])"

text \<open>Days since 0001-01-01.\<close>

definition ymd_days :: "nat \<Rightarrow> nat \<Rightarrow> nat \<Rightarrow> nat" where
  "ymd_days year month day = days_before_year year + days_before_month year month + (day - 1)"

section \<open>\<open>fromisoformat\<close>\<close>

definition read_n_digits :: "nat \<Rightarrow> string \<Rightarrow> (nat \<times> string) option" where
  "read_n_digits n s =
     (let d = take n s in if length d = n \<and> list_all is_digit d then Some (digits_value d, drop n s) else None)"

definition read_date :: "string \<Rightarrow> (nat \<times> string) option" where
  "read_date s =
     (case read_n_digits 4 s of None \<Rightarrow> None | Some (year, s1) \<Rightarrow>
      let sep = (s1 \<noteq> [] \<and> hd s1 = CHR ''-''); s2 = (if sep then tl s1 else s1) in
      case read_n_digits 2 s2 of None \<Rightarrow> None | Some (month, s3) \<Rightarrow>
      if sep \<and> (s3 = [] \<or> hd s3 \<noteq> CHR ''-'') then None
      else case read_n_digits 2 (if sep then tl s3 else s3) of None \<Rightarrow> None | Some (day, s5) \<Rightarrow>
        if 1 \<le> year \<and> 1 \<le> month \<and> month \<le> 12 \<and> 1 \<le> day \<and> day \<le> days_in_month year month
        then Some (ymd_days year month day, s5) else None)"

text \<open>\<open>_parse_hh_mm_ss_ff\<close>: the fraction after seconds, to microseconds.\<close>

definition read_fraction :: "string \<Rightarrow> nat option" where
  "read_fraction s =
     (case s of [] \<Rightarrow> Some 0
      | c # f \<Rightarrow> if (c = CHR ''.'' \<or> c = CHR '','') \<and> list_all is_digit f
          then Some (digits_value (take 6 f) * 10 ^ (6 - length (take 6 f))) else None)"

definition read_hms :: "string \<Rightarrow> (nat \<times> nat \<times> nat \<times> nat) option" where
  "read_hms s =
     (case read_n_digits 2 s of None \<Rightarrow> None | Some (hh, s1) \<Rightarrow>
      if s1 = [] then Some (hh, 0, 0, 0)
      else let sep = (hd s1 = CHR '':'') in
      case read_n_digits 2 (if sep then tl s1 else s1) of None \<Rightarrow> None | Some (mm, s2) \<Rightarrow>
      if s2 = [] then Some (hh, mm, 0, 0)
      else if sep \<and> hd s2 \<noteq> CHR '':'' then None
      else case read_n_digits 2 (if sep then tl s2 else s2) of None \<Rightarrow> None | Some (ss, s3) \<Rightarrow>
      map_option (\<lambda>us. (hh, mm, ss, us)) (read_fraction s3))"

definition hms_usec :: "nat \<times> nat \<times> nat \<times> nat \<Rightarrow> int" where
  "hms_usec t = (case t of (hh, mm, ss, us) \<Rightarrow>
     int hh * usec_per_hour + int mm * usec_per_minute + int ss * usec_per_second + int us)"

definition is_offset_start :: "char \<Rightarrow> bool" where
  "is_offset_start c \<longleftrightarrow> c = CHR ''+'' \<or> c = CHR ''-'' \<or> c = CHR ''Z''"

definition read_offset :: "string \<Rightarrow> int option option" where
  "read_offset s =
     (case s of [] \<Rightarrow> Some None
      | c # r \<Rightarrow>
          if c = CHR ''Z'' then (if r = [] then Some (Some 0) else None)
          else case read_hms r of None \<Rightarrow> None
            | Some t \<Rightarrow> if hms_usec t < usec_per_day
                then Some (Some (if c = CHR ''-'' then - hms_usec t else hms_usec t)) else None)"

definition read_time :: "string \<Rightarrow> (int \<times> int option) option" where
  "read_time s =
     (case read_hms (takeWhile (\<lambda>c. \<not> is_offset_start c) s) of None \<Rightarrow> None
      | Some (hh, mm, ss, us) \<Rightarrow>
          if hh < 24 \<and> mm < 60 \<and> ss < 60
          then map_option (\<lambda>off. (hms_usec (hh, mm, ss, us), off))
            (read_offset (dropWhile (\<lambda>c. \<not> is_offset_start c) s))
          else None)"

definition fromisoformat :: "string \<Rightarrow> datetime option" where
  "fromisoformat s =
     (case read_date s of None \<Rightarrow> None
      | Some (days, rest) \<Rightarrow>
          case rest of [] \<Rightarrow> Some \<lparr>dt_local = int days * usec_per_day, dt_offset = None\<rparr>
          | _ # t \<Rightarrow> map_option (\<lambda>(us, off). \<lparr>dt_local = int days * usec_per_day + us, dt_offset = off\<rparr>)
              (read_time t))"

text \<open>\<open>dt.replace(tzinfo=timezone.utc)\<close> when it is naive, \<open>dt.astimezone(timezone.utc)\<close> otherwise.\<close>

definition to_utc :: "datetime \<Rightarrow> instant" where
  "to_utc dt = (case dt_offset dt of None \<Rightarrow> dt_local dt | Some off \<Rightarrow> dt_local dt - off)"

text \<open>\<open>value.replace("Z", "+00:00")\<close>\<close>

definition replace_zulu :: "string \<Rightarrow> string" where
  "replace_zulu = str_replace_char (CHR ''Z'') ''+00:00''"

definition read_instant :: "string \<Rightarrow> instant option" where
  "read_instant s = map_option to_utc (fromisoformat (replace_zulu s))"

text \<open>Ordering two datetimes raises \<open>TypeError\<close> when exactly one of them is naive.\<close>

definition datetime_leq :: "datetime \<Rightarrow> datetime \<Rightarrow> bool result" where
  "datetime_leq a b =
     (if (dt_offset a = None) = (dt_offset b = None) then Inr (to_utc a \<le> to_utc b)
      else Inl (TypeError ''can't compare offset-naive and offset-aware datetimes''))"

section \<open>\<open>isoformat\<close> of an instant in UTC\<close>

definition pad_digits :: "nat \<Rightarrow> nat \<Rightarrow> string" where
  "pad_digits k n = replicate (k - length (show_nat n)) (CHR ''0'') @ show_nat n"

definition year_of_days :: "nat \<Rightarrow> nat" where
  "year_of_days days =
     (let y = days * 400 div 146097 + 1
      in if days < days_before_year y then y - 1
         else if days_before_year (y + 1) \<le> days then y + 1 else y)"

fun month_of_days :: "nat \<Rightarrow> nat \<Rightarrow> nat \<Rightarrow> nat \<Rightarrow> nat \<times> nat" where
  "month_of_days year month d 0 = (month, d)"
| "month_of_days year month d (Suc k) =
     (if d < days_in_month year month then (month, d)
      else month_of_days year (month + 1) (d - days_in_month year month) k)"

definition isoformat_utc :: "instant \<Rightarrow> string" where
  "isoformat_utc t =
     (let days = nat (t div usec_per_day); us = nat (t mod usec_per_day);
          year = year_of_days days;
          (month, d) = month_of_days year 1 (days - days_before_year year) 11;
          frac = us mod 1000000; ss = us div 1000000
      in pad_digits 4 year @ ''-'' @ pad_digits 2 month @ ''-'' @ pad_digits 2 (d + 1) @ ''T'' @
         pad_digits 2 (ss div 3600) @ '':'' @ pad_digits 2 (ss div 60 mod 60) @ '':'' @ pad_digits 2 (ss mod 60) @
         (if frac = 0 then [] else ''.'' @ pad_digits 6 frac) @ ''+00:00'')"

section \<open>A written instant is read back\<close>

lemma length_pad_digits: "0 < k \<Longrightarrow> n < 10 ^ k \<Longrightarrow> length (pad_digits k n) = k"
  using num_digits_le_iff [of k n] by (simp add: pad_digits_def num_digits_def)

lemma digits_value_pad_digits: "digits_value (pad_digits k n) = n"
  by (simp add: pad_digits_def digits_value_zeros)

lemma pad_digits_is_digit: "c \<in> set (pad_digits k n) \<Longrightarrow> is_digit c"
  by (auto simp: pad_digits_def show_nat_is_digit is_digit_zero)

lemma read_n_digits_pad:
  "0 < k \<Longrightarrow> n < 10 ^ k \<Longrightarrow> read_n_digits k (pad_digits k n @ s) = Some (n, s)"
  by (simp add: read_n_digits_def Let_def length_pad_digits list_all_iff pad_digits_is_digit
      digits_value_pad_digits)

lemma div_bounds: "0 < (k :: nat) \<Longrightarrow> k * (m div k) \<le> m \<and> m < k * (m div k) + k"
  using mult_div_mod_eq [of k m] mod_less_divisor [of k m] by linarith

lemmas year_div_bounds = div_bounds [of 4] div_bounds [of 100] div_bounds [of 400]

lemma days_before_year_eq: "days_before_year (m + 1) + m div 100 = m * 365 + m div 4 + m div 400"
proof -
  have "m div 100 \<le> m" by simp
  then show ?thesis by (simp add: days_before_year_def Let_def)
qed

lemma days_before_year_Suc:
  assumes "0 < y"
  shows "days_before_year (y + 1) = days_before_year y + (if is_leap y then 366 else 365)"
proof -
  obtain n where y: "y = n + 1" using assms by (cases y) auto
  have step: "(n + 1) div 4 = n div 4 + (if (n + 1) mod 4 = 0 then 1 else 0)"
    "(n + 1) div 100 = n div 100 + (if (n + 1) mod 100 = 0 then 1 else 0)"
    "(n + 1) div 400 = n div 400 + (if (n + 1) mod 400 = 0 then 1 else 0)"
    by (simp_all add: div_Suc)
  have "(n + 1) mod 400 = 0 \<longrightarrow> (n + 1) mod 100 = 0" "(n + 1) mod 100 = 0 \<longrightarrow> (n + 1) mod 4 = 0"
    using dvd_trans [of 100 400 "n + 1"] dvd_trans [of 4 100 "n + 1"]
    by (simp_all add: mod_eq_0_iff_dvd)
  then show ?thesis
    using days_before_year_eq [of n] days_before_year_eq [of "n + 1"] step
    unfolding y is_leap_def by (auto split: if_splits)
qed

lemma year_of_days_bounds:
  fixes d :: nat
  defines "y \<equiv> year_of_days d"
  shows "0 < y" "days_before_year y \<le> d" "d < days_before_year (y + 1)"
proof -
  define n where "n = d * 400 div 146097"
  have n: "146097 * n \<le> d * 400" "d * 400 < 146097 * n + 146097"
    unfolding n_def using div_bounds [of 146097 "d * 400"] by simp_all
  have lo: "days_before_year (n + 1) \<le> d"
    using n(1) days_before_year_eq [of n] year_div_bounds [of n] by simp
  have hi: "d < days_before_year (n + 2 + 1)"
    using n(2) days_before_year_eq [of "n + 2"] year_div_bounds [of "n + 2"] by simp
  have "y = (if days_before_year (n + 1 + 1) \<le> d then n + 2 else n + 1)"
    using lo by (simp add: y_def year_of_days_def Let_def flip: n_def)
  then show "0 < y" "days_before_year y \<le> d" "d < days_before_year (y + 1)"
    using lo hi by (auto split: if_splits simp: numeral_2_eq_2)
qed

lemma year_of_days_le:
  assumes "d < 3652059"
  shows "year_of_days d \<le> 9999"
proof (rule ccontr)
  define m where "m = year_of_days d - 1"
  assume "\<not> year_of_days d \<le> 9999"
  then have "9999 \<le> m" "year_of_days d = m + 1" by (simp_all add: m_def)
  then show False
    using year_of_days_bounds(2) [of d] days_before_year_eq [of m] year_div_bounds [of m] assms
    by simp
qed

lemma days_before_month_Suc:
  "0 < m \<Longrightarrow> days_before_month y (m + 1) = days_before_month y m + days_in_month y m"
  by (simp add: days_before_month_def upt_Suc_append)

lemma month_of_days_bounds:
  assumes "0 < m" "days_before_month y m + d < days_before_month y (m + k + 1)"
    and "month_of_days y m d k = (m', d')"
  shows "m \<le> m' \<and> m' \<le> m + k \<and> d' < days_in_month y m'
    \<and> days_before_month y m' + d' = days_before_month y m + d"
  using assms
proof (induction y m d k rule: month_of_days.induct)
  case (1 y m d)
  then show ?case using days_before_month_Suc [of m y] by simp
next
  case (2 y m d k)
  show ?case
  proof (cases "d < days_in_month y m")
    case False
    then have "days_before_month y (m + 1) + (d - days_in_month y m) = days_before_month y m + d"
      using 2 days_before_month_Suc [of m y] by simp
    with 2 False show ?thesis by (auto simp: algebra_simps)
  qed (use 2 in auto)
qed

lemma days_before_month_13: "days_before_month y 13 = (if is_leap y then 366 else 365)"
proof -
  have "[1..<13] = [1, 2, 3, 4, 5, 6, 7, 8, 9, 10, 11, 12 :: nat]" by code_simp
  then show ?thesis by (simp add: days_before_month_def days_in_month_def)
qed

lemma read_date_written:
  assumes "y < 10000" "1 \<le> y" "1 \<le> m" "m \<le> 12" "1 \<le> d" "d \<le> days_in_month y m"
  shows "read_date (pad_digits 4 y @ ''-'' @ pad_digits 2 m @ ''-'' @ pad_digits 2 d @ s) =
    Some (ymd_days y m d, s)"
proof -
  have "days_in_month y m \<le> 31"
  proof -
    have "m \<in> {1, 2, 3, 4, 5, 6, 7, 8, 9, 10, 11, 12}"
      unfolding insert_iff empty_iff using assms(3,4) by presburger
    then show ?thesis by (auto simp: days_in_month_def)
  qed
  then have "m < 100" "d < 100" using assms by simp_all
  then show ?thesis using assms by (simp add: read_date_def Let_def read_n_digits_pad)
qed

definition clock_text :: "nat \<Rightarrow> nat \<Rightarrow> nat \<Rightarrow> nat \<Rightarrow> string" where
  "clock_text hh mm ss us = pad_digits 2 hh @ '':'' @ pad_digits 2 mm @ '':'' @ pad_digits 2 ss @
     (if us = 0 then [] else ''.'' @ pad_digits 6 us)"

lemma read_hms_written:
  assumes "hh < 100" "mm < 100" "ss < 100" "us < 1000000"
  shows "read_hms (clock_text hh mm ss us) = Some (hh, mm, ss, us)"
proof -
  have "read_fraction (if us = 0 then [] else ''.'' @ pad_digits 6 us) = Some us"
    using assms(4) length_pad_digits [of 6 us]
    by (simp add: read_fraction_def list_all_iff pad_digits_is_digit digits_value_pad_digits)
  with assms show ?thesis by (simp add: read_hms_def clock_text_def Let_def read_n_digits_pad)
qed

lemma is_digit_not_offset: "is_digit c \<Longrightarrow> \<not> is_offset_start c \<and> c \<noteq> CHR ''Z''"
  by (auto simp: is_offset_start_def is_digit_def char_code_def)

lemma clock_text_chars: "c \<in> set (clock_text hh mm ss us) \<Longrightarrow> \<not> is_offset_start c"
  using is_digit_not_offset [of c]
  by (auto simp: clock_text_def is_offset_start_def dest: pad_digits_is_digit split: if_splits)

lemma read_time_written:
  assumes "hh < 24" "mm < 60" "ss < 60" "us < 1000000"
  shows "read_time (clock_text hh mm ss us @ ''+00:00'') = Some (hms_usec (hh, mm, ss, us), Some 0)"
proof -
  have plus: "is_offset_start (CHR ''+'')" by (simp add: is_offset_start_def)
  have "takeWhile (\<lambda>c. \<not> is_offset_start c) (clock_text hh mm ss us @ ''+00:00'') = clock_text hh mm ss us"
    and "dropWhile (\<lambda>c. \<not> is_offset_start c) (clock_text hh mm ss us @ ''+00:00'') = ''+00:00''"
    using plus by (simp_all add: takeWhile_append2 dropWhile_append2 clock_text_chars)
  moreover have "read_offset ''+00:00'' = Some (Some 0)" by code_simp
  ultimately show ?thesis
    using assms by (simp add: read_time_def read_hms_written)
qed

lemma fromisoformat_isoformat_utc:
  assumes "0 \<le> t" "t < 3652059 * usec_per_day"
  shows "fromisoformat (isoformat_utc t) = Some \<lparr>dt_local = t, dt_offset = Some 0\<rparr>"
    and "CHR ''Z'' \<notin> set (isoformat_utc t)"
proof -
  define days where "days = nat (t div usec_per_day)"
  define us where "us = nat (t mod usec_per_day)"
  define y where "y = year_of_days days"
  define k where "k = days - days_before_year y"
  obtain m d where md: "month_of_days y 1 k 11 = (m, d)" by fastforce
  have tday: "t div usec_per_day < 3652059" "0 \<le> t div usec_per_day" "0 \<le> t mod usec_per_day"
    "t mod usec_per_day < usec_per_day"
    using assms by (auto simp: usec_defs)
  have us: "us < 86400000000" using tday(3,4) by (simp add: us_def usec_defs nat_less_iff)
  have t: "t = int days * usec_per_day + int us"
    using tday by (simp add: days_def us_def mult.commute)
  have y: "0 < y" "y \<le> 9999" "days_before_year y \<le> days" "days < days_before_year (y + 1)"
    using year_of_days_bounds [of days] year_of_days_le [of days] tday by (simp_all add: y_def days_def nat_less_iff)
  have m1: "days_before_month y 1 = 0" by (simp add: days_before_month_def)
  then have "days_before_month y 1 + k < days_before_month y (1 + 11 + 1)"
    using y days_before_year_Suc [of y] days_before_month_13 [of y]
    by (simp add: k_def)
  from month_of_days_bounds [OF _ this md]
  have m: "1 \<le> m" "m \<le> 12" "d < days_in_month y m" "days_before_month y m + d = k"
    using m1 by simp_all
  define hh mm ss frac where "hh = us div 1000000 div 3600" and "mm = us div 1000000 div 60 mod 60"
    and "ss = us div 1000000 mod 60" and "frac = us mod 1000000"
  have written: "isoformat_utc t = pad_digits 4 y @ ''-'' @ pad_digits 2 m @ ''-'' @ pad_digits 2 (d + 1) @
      CHR ''T'' # clock_text hh mm ss frac @ ''+00:00''"
    unfolding isoformat_utc_def Let_def days_def [symmetric] us_def [symmetric] y_def [symmetric]
      k_def [symmetric] md prod.case clock_text_def hh_def [symmetric] mm_def [symmetric]
      ss_def [symmetric] frac_def [symmetric] by simp
  have clock: "hh < 24" "mm < 60" "ss < 60" "frac < 1000000"
    using us by (simp_all add: hh_def mm_def ss_def frac_def less_mult_imp_div_less)
  have hms: "hms_usec (hh, mm, ss, frac) = int us"
  proof -
    define q where "q = us div 1000000"
    have "q = q div 60 * 60 + q mod 60" "q div 60 = q div 60 div 60 * 60 + q div 60 mod 60" by simp_all
    moreover have "q div 3600 = q div 60 div 60" by (simp flip: div_mult2_eq)
    ultimately have "q = hh * 3600 + mm * 60 + ss"
      unfolding hh_def mm_def ss_def q_def [symmetric] by linarith
    moreover have "us = q * 1000000 + frac" by (simp add: q_def frac_def)
    ultimately have "us = (hh * 3600 + mm * 60 + ss) * 1000000 + frac" by simp
    then show ?thesis by (simp add: hms_usec_def usec_defs)
  qed
  have ymd: "ymd_days y m (d + 1) = days"
    using m y by (simp add: ymd_days_def k_def)
  show "fromisoformat (isoformat_utc t) = Some \<lparr>dt_local = t, dt_offset = Some 0\<rparr>"
  proof -
    have "read_date (isoformat_utc t) = Some (days, CHR ''T'' # clock_text hh mm ss frac @ ''+00:00'')"
      unfolding written using y m by (subst read_date_written) (simp_all flip: ymd)
    then show ?thesis
      unfolding fromisoformat_def using read_time_written [OF clock] hms t by simp
  qed
  show "CHR ''Z'' \<notin> set (isoformat_utc t)"
  proof -
    have "CHR ''Z'' \<notin> set (pad_digits j n)" for j n
      using is_digit_not_offset pad_digits_is_digit by blast
    moreover have "CHR ''Z'' \<notin> set (clock_text hh mm ss frac)"
      using clock_text_chars by (fastforce simp: is_offset_start_def)
    ultimately show ?thesis by (simp add: written)
  qed
qed

text \<open>
  Every instant of the years 1 to 9999 written by utcnow_iso is read back as the same
  instant.
\<close>

theorem read_instant_isoformat:
  assumes "0 \<le> t" "t < 3652059 * usec_per_day"
  shows "read_instant (isoformat_utc t) = Some t"
proof -
  have "replace_zulu s = s" if "CHR ''Z'' \<notin> set s" for s
    using that by (induction s) (auto simp: replace_zulu_def str_replace_char_def)
  with fromisoformat_isoformat_utc [OF assms] show ?thesis
    by (simp add: read_instant_def to_utc_def)
qed

theorem read_instant_isoformat_witness:
  "read_instant (isoformat_utc 63844847999000100) = Some 63844847999000100"
  by (rule read_instant_isoformat) (simp_all add: usec_defs)

end
