(* ===== verification/Normalizers.thy ===== *)
theory Normalizers
  imports PyDecimal
begin

text \<open>
  \<open>tidal/normalizers.py\<close>: addresses and plain decimal strings. \<open>is_address\<close> comes from
  the third-party package \<open>eth_utils\<close>; it is the parameter \<open>isaddr\<close> of every definition
  that reaches it, and no law about it is assumed. The round trip at the end shows that the
  string written for a raw token balance denotes exactly that balance.
\<close>

definition normalize_address :: "(string \<Rightarrow> bool) \<Rightarrow> string \<Rightarrow> address result" where
  "normalize_address isaddr address =
     (if \<not> isaddr address then Inl (AddressNormalizationError (''invalid address: '' @ address))
      else Inr (str_lower address))"

definition to_decimal_string :: "int \<Rightarrow> int \<Rightarrow> string result" where
  "to_decimal_string raw_balance decimals =
     (if decimals < 0 then Inl (ValueError ''decimals must be non-negative'')
      else err_bind (dec_div (dec_of_int raw_balance) (dec_ten_pow (nat decimals))) (\<lambda>scaled.
        let normalized = dec_format_f (dec_normalize scaled);
            normalized = (if CHR ''.'' \<in> set normalized
              then str_rstrip_char (CHR ''.'') (str_rstrip_char (CHR ''0'') normalized) else normalized)
        in Inr (if normalized = '''' \<or> normalized = ''-0'' then ''0'' else normalized)))"

text \<open>The ellipsis (U+2026) as its UTF-8 bytes.\<close>

definition short_address :: "string \<Rightarrow> string" where
  "short_address address =
     (if length address < 10 then address
      else take 6 address @ map char_of [0xE2 :: nat, 0x80, 0xA6] @ drop (length address - 4) address)"

lemma normalize_address_Inr:
  "normalize_address isaddr a = Inr b \<longleftrightarrow> isaddr a \<and> b = str_lower a"
  by (auto simp: normalize_address_def)

lemma normalize_address_lower: "normalize_address isaddr a = Inr b \<Longrightarrow> str_lower b = b"
  by (auto simp: normalize_address_Inr)

lemma normalize_address_Inl:
  "normalize_address isaddr a = Inl e \<longleftrightarrow>
     \<not> isaddr a \<and> e = AddressNormalizationError (''invalid address: '' @ a)"
  by (auto simp: normalize_address_def)

section \<open>The written balance denotes the raw balance\<close>

lemma str_rstrip_char_snoc_neq: "c \<noteq> d \<Longrightarrow> str_rstrip_char c (s @ [d]) = s @ [d]"
  by (simp add: str_rstrip_char_def)

lemma str_rstrip_char_split:
  obtains k where "s = str_rstrip_char c s @ replicate k c"
    and "str_rstrip_char c s = [] \<or> last (str_rstrip_char c s) \<noteq> c"
proof -
  have "\<exists>k. s = str_rstrip_char c s @ replicate k c
      \<and> (str_rstrip_char c s = [] \<or> last (str_rstrip_char c s) \<noteq> c)"
  proof (induction s rule: rev_induct)
    case Nil
    then show ?case by (simp add: str_rstrip_char_def)
  next
    case (snoc d s)
    show ?case
    proof (cases "d = c")
      case True
      then have "str_rstrip_char c (s @ [d]) = str_rstrip_char c s"
        by (simp add: str_rstrip_char_def)
      with snoc True show ?thesis
        by (metis append_assoc replicate_Suc replicate_append_same)
    next
      case False
      then show ?thesis by (auto simp: str_rstrip_char_snoc_neq intro: exI [of _ 0])
    qed
  qed
  with that show ?thesis by blast
qed

lemma str_rstrip_char_append:
  "t \<noteq> [] \<Longrightarrow> last t \<noteq> c \<Longrightarrow> str_rstrip_char c (s @ t @ replicate k c) = s @ t"
proof (induction k)
  case 0
  then show ?case
    by (metis append.right_neutral append_assoc append_butlast_last_id replicate_0 str_rstrip_char_snoc_neq)
next
  case (Suc k)
  then show ?case
    by (simp add: str_rstrip_char_def replicate_app_Cons_same)
qed

text \<open>Stripping the zeros and then the point of such a text strips the zeros of its fraction.\<close>

lemma dec_text_rstrip:
  assumes "\<forall>c \<in> set ip. is_digit c" "\<forall>c \<in> set fr. is_digit c" "ip \<noteq> []" "fr \<noteq> []"
  shows "str_rstrip_char (CHR ''.'') (str_rstrip_char (CHR ''0'') (dec_text neg ip fr)) =
    dec_text neg ip (str_rstrip_char (CHR ''0'') fr)"
proof -
  define fr' where "fr' = str_rstrip_char (CHR ''0'') fr"
  obtain k where k: "fr = fr' @ replicate k (CHR ''0'')" and last: "fr' = [] \<or> last fr' \<noteq> CHR ''0''"
    unfolding fr'_def by (rule str_rstrip_char_split)
  define h where "h = (if neg then ''-'' else []) @ ip"
  have h: "h \<noteq> []" "last h \<noteq> CHR ''.''"
    using assms(1,3) is_digit_char_neq [of "last ip"] by (simp_all add: h_def)
  have written: "dec_text neg ip fr = h @ (''.'' @ fr') @ replicate k (CHR ''0'')"
    using assms(4) by (simp add: dec_text_def h_def k)
  have zeros: "str_rstrip_char (CHR ''0'') (dec_text neg ip fr) = h @ ''.'' @ fr'"
    unfolding written using last by (subst str_rstrip_char_append) (cases fr'; simp)+
  have "str_rstrip_char (CHR ''.'') (h @ ''.'' @ fr') = h @ (if fr' = [] then [] else ''.'' @ fr')"
  proof (cases "fr' = []")
    case True
    then show ?thesis
      using str_rstrip_char_append [of h "CHR ''.''" "[]" 1] h by simp
  next
    case False
    then have "last fr' \<in> set fr'" by simp
    then have "is_digit (last fr')" using assms(2) by (simp add: k)
    then have "last fr' \<noteq> CHR ''.''" using is_digit_char_neq by blast
    then show ?thesis
      using False str_rstrip_char_append [of "''.'' @ fr'" "CHR ''.''" h 0] by simp
  qed
  then show ?thesis
    unfolding zeros by (simp add: dec_text_def h_def flip: fr'_def)
qed

lemma dec_text_value:
  assumes "\<forall>c \<in> set ip. is_digit c" "\<forall>c \<in> set fr. is_digit c" "ip \<noteq> []"
    and "of_nat (digits_value (ip @ fr)) * (10::rat) powi (- int (length fr)) = \<bar>v\<bar>"
    and "neg \<longleftrightarrow> v < 0"
  shows "\<exists>x. dec_of_string (dec_text neg ip fr) = Some x \<and> dec_val x = v"
  using assms(4,5) by (auto simp: dec_of_string_text [OF assms(1-3)] dec_val_def)

lemma rstrip_zeros_value:
  assumes "\<forall>c \<in> set fr. is_digit c"
  shows "of_nat (digits_value (ip @ str_rstrip_char (CHR ''0'') fr)) *
      (10::rat) powi (- int (length (str_rstrip_char (CHR ''0'') fr))) =
    of_nat (digits_value (ip @ fr)) * (10::rat) powi (- int (length fr))"
    and "\<forall>c \<in> set (str_rstrip_char (CHR ''0'') fr). is_digit c"
proof -
  define fr' where "fr' = str_rstrip_char (CHR ''0'') fr"
  obtain k where k: "fr = fr' @ replicate k (CHR ''0'')"
    unfolding fr'_def by (rule str_rstrip_char_split)
  have "digits_value ((ip @ fr') @ replicate k (CHR ''0'')) = digits_value (ip @ fr') * 10 ^ k"
    by (subst digits_value_append) simp
  moreover have "(10::rat) powi (- int (length fr)) = 10 powi (- int (length fr')) / 10 ^ k"
    by (simp add: k power_int_diff)
  ultimately show "of_nat (digits_value (ip @ str_rstrip_char (CHR ''0'') fr)) *
      (10::rat) powi (- int (length (str_rstrip_char (CHR ''0'') fr))) =
    of_nat (digits_value (ip @ fr)) * (10::rat) powi (- int (length fr))"
    unfolding fr'_def [symmetric] by (simp add: k)
  show "\<forall>c \<in> set (str_rstrip_char (CHR ''0'') fr). is_digit c"
    unfolding fr'_def [symmetric] using assms by (simp add: k)
qed

text \<open>The value the decimal string denotes.\<close>

lemma to_decimal_string_denotes:
  assumes "0 \<le> decimals" and "\<bar>raw\<bar> < 10 ^ dec_prec"
  obtains s x where "to_decimal_string raw decimals = Inr s" and "dec_of_string s = Some x"
    and "dec_val x = of_int raw / 10 ^ nat decimals"
proof -
  obtain y where div: "dec_div (dec_of_int raw) (dec_ten_pow (nat decimals)) = Inr y"
    and y: "dec_val y = of_int raw / 10 ^ nat decimals" "\<bar>dec_coef y\<bar> < 10 ^ dec_prec"
    using dec_div_ten_pow_exact [OF assms(2)] by blast
  define z where "z = dec_normalize y"
  have z: "dec_val z = of_int raw / 10 ^ nat decimals"
    using dec_normalize_small(1) [OF y(2)] y(1) by (simp add: z_def)
  obtain ip fr where written: "dec_format_f z = dec_text (dec_coef z < 0) ip fr"
    and ip: "\<forall>c \<in> set ip. is_digit c" "ip \<noteq> []" and fr: "\<forall>c \<in> set fr. is_digit c"
    and val: "of_nat (digits_value (ip @ fr)) * (10::rat) powi (- int (length fr)) = \<bar>dec_val z\<bar>"
    by (rule dec_format_f_text)
  define fr' where "fr' = (if fr = [] then [] else str_rstrip_char (CHR ''0'') fr)"
  have neg: "dec_coef z < 0 \<longleftrightarrow> dec_val z < 0"
  proof -
    have "\<not> (10 :: rat) powi dec_exp z < 0" "(10 :: rat) powi dec_exp z > 0"
      by (simp_all add: not_less)
    then show ?thesis
      unfolding dec_val_def mult_less_0_iff of_int_less_0_iff of_int_0_less_iff by blast
  qed
  have fr': "\<forall>c \<in> set fr'. is_digit c"
    "of_nat (digits_value (ip @ fr')) * (10::rat) powi (- int (length fr')) = \<bar>dec_val z\<bar>"
    using rstrip_zeros_value(1) [OF fr, of ip] rstrip_zeros_value(2) [OF fr] val fr
    by (cases "fr = []"; simp add: fr'_def)+
  have dot: "CHR ''.'' \<in> set (dec_text (dec_coef z < 0) ip fr) \<longleftrightarrow> fr \<noteq> []"
    using ip fr is_digit_char_neq by (auto simp: dec_text_def)
  define t where "t = dec_text (dec_coef z < 0) ip fr'"
  have "(if CHR ''.'' \<in> set (dec_format_f z)
      then str_rstrip_char (CHR ''.'') (str_rstrip_char (CHR ''0'') (dec_format_f z))
      else dec_format_f z) = t"
    using dec_text_rstrip [OF ip(1) fr ip(2)] by (simp add: written dot t_def fr'_def)
  moreover have "(decimals < 0) = False" using assms(1) by simp
  ultimately have res: "to_decimal_string raw decimals = Inr (if t = '''' \<or> t = ''-0'' then ''0'' else t)"
    by (simp only: to_decimal_string_def Let_def div err_bind.simps if_False flip: z_def)
  obtain x where x: "dec_of_string t = Some x" "dec_val x = dec_val z"
    using dec_text_value [OF ip(1) fr'(1) ip(2) fr'(2) neg] by (auto simp: t_def)
  show ?thesis
  proof (cases "t = '''' \<or> t = ''-0''")
    case False
    with res x z that show ?thesis by simp
  next
    case True
    have zero: "dec_of_string ''0'' = Some (Dec 0 0)" "dec_of_string ''-0'' = Some (Dec 0 0)"
      by code_simp+
    have "t \<noteq> ''''" using ip(2) by (simp add: t_def dec_text_def)
    with True x zero have "dec_val z = 0" by (auto simp: dec_val_def)
    with True res zero z that [of "''0''" "Dec 0 0"] show ?thesis by (simp add: dec_val_def)
  qed
qed

text \<open>
  C16. The decimal text written for a raw balance of at most 78 digits parses to exactly raw
  / 10^decimals.
\<close>

theorem to_decimal_string_roundtrip:
  assumes "0 \<le> decimals" "\<bar>raw\<bar> < 10 ^ dec_prec"
  shows "\<exists>s x. to_decimal_string raw decimals = Inr s \<and> dec_of_string s = Some x
    \<and> dec_val x = of_int raw / 10 ^ nat decimals"
  using to_decimal_string_denotes [OF assms] by metis

theorem to_decimal_string_roundtrip_witness:
  "\<exists>s x. to_decimal_string (- 1234500) 6 = Inr s \<and> dec_of_string s = Some x \<and> dec_val x = - 1234500 / 10 ^ 6"
  using to_decimal_string_roundtrip [of 6 "- 1234500"] by (simp add: dec_prec_def)

end
