(* ===== verification/PriceUnits.thy ===== *)
theory PriceUnits
  imports Normalizers
begin

text \<open>
  \<open>tidal/auction_versions.py\<close> (the approved factories and the unit of their starting
  price) and \<open>tidal/auction_price_units.py\<close> (starting price encoding, the latent
  terminal ask, floor rate and minimum price). Prices are unbounded integers, ray
  arithmetic rounds half up, rates are decimals. The enumeration has no third value, so the
  \<open>unsupported starting price encoding\<close> branches have no counterpart.
\<close>

section \<open>Approved auction versions\<close>

datatype starting_price_encoding = WHOLE_WANT | WAD_WANT

record auction_spec =
  spec_factory_address :: address
  spec_version :: string
  spec_encoding :: starting_price_encoding
  spec_mapping_priority :: int

definition AUCTION_V104_FACTORY_ADDRESS :: address where
  "AUCTION_V104_FACTORY_ADDRESS = ''0xba7fcb508c7195ee5ae823f37ee2c11d7ed52f8e''"

definition AUCTION_V105_FACTORY_ADDRESS :: address where
  "AUCTION_V105_FACTORY_ADDRESS = ''0x55b3830b4d85e6868c73f00a2e857e9adbf89568''"

definition APPROVED_AUCTION_SPECS :: "auction_spec list" where
  "APPROVED_AUCTION_SPECS =
     [\<lparr>spec_factory_address = AUCTION_V104_FACTORY_ADDRESS, spec_version = ''1.0.4'',
       spec_encoding = WHOLE_WANT, spec_mapping_priority = 1\<rparr>,
      \<lparr>spec_factory_address = AUCTION_V105_FACTORY_ADDRESS, spec_version = ''1.0.5'',
       spec_encoding = WAD_WANT, spec_mapping_priority = 2\<rparr>]"

definition approved_auction_spec_for_factory :: "(string \<Rightarrow> bool) \<Rightarrow> string \<Rightarrow> auction_spec result" where
  "approved_auction_spec_for_factory isaddr factory_address =
     err_bind (normalize_address isaddr factory_address) (\<lambda>normalized.
       case find (\<lambda>s. spec_factory_address s = normalized) APPROVED_AUCTION_SPECS of
         Some s \<Rightarrow> Inr s
       | None \<Rightarrow> Inl (ValueError (''unsupported auction factory: '' @ normalized)))"

definition approved_auction_spec_for_version :: "string option \<Rightarrow> auction_spec result" where
  "approved_auction_spec_for_version version =
     (let normalized = str_strip (case version of None \<Rightarrow> '''' | Some v \<Rightarrow> v)
      in case find (\<lambda>s. spec_version s = normalized) APPROVED_AUCTION_SPECS of
           Some s \<Rightarrow> Inr s
         | None \<Rightarrow> Inl (ValueError (''unsupported auction version: '' @
             (if normalized = '''' then ''<missing>'' else normalized))))"

section \<open>Amounts and starting prices\<close>

definition WAD_INT :: int where
  "WAD_INT = 10 ^ 18"

definition RAY :: int where
  "RAY = 10 ^ 27"

definition WAD :: dec where
  "WAD = dec_ten_pow 18"

text \<open>\<open>Decimal(text)\<close> raises \<open>InvalidOperation\<close> on text it cannot read.\<close>

definition parse_decimal :: "string \<Rightarrow> dec result" where
  "parse_decimal s = (case dec_of_string s of Some x \<Rightarrow> Inr x
     | None \<Rightarrow> Inl (OtherException ''InvalidOperation'' ''invalid decimal''))"

definition normalized_token_amount :: "int \<Rightarrow> int \<Rightarrow> dec result" where
  "normalized_token_amount raw_amount decimals =
     err_bind (to_decimal_string raw_amount decimals) parse_decimal"

text \<open>\<open>f"{x:.2f}"\<close>\<close>

definition dec_fixed :: "nat \<Rightarrow> dec \<Rightarrow> dec" where
  "dec_fixed k x =
     (if - int k \<le> dec_exp x then Dec (dec_coef x * 10 ^ nat (dec_exp x + int k)) (- int k)
      else Dec (sgn (dec_coef x) * div_half_even \<bar>dec_coef x\<bar> (10 ^ nat (- int k - dec_exp x))) (- int k))"

definition format_buffer_pct :: "int \<Rightarrow> string result" where
  "format_buffer_pct buffer_bps =
     err_bind (dec_div (dec_of_int buffer_bps) (dec_of_int 100)) (\<lambda>pct.
       Inr (dec_format_f (dec_fixed 2 pct) @ ''%''))"

definition ceil_div :: "int \<Rightarrow> int \<Rightarrow> int result" where
  "ceil_div numerator denominator =
     (if denominator \<le> 0 then Inl (ValueError ''denominator must be positive'')
      else Inr ((numerator + denominator - 1) div denominator))"

definition encode_starting_price_raw ::
  "int \<Rightarrow> int \<Rightarrow> int \<Rightarrow> starting_price_encoding \<Rightarrow> int result" where
  "encode_starting_price_raw amount_out_raw want_decimals buffer_bps encoding =
     (if amount_out_raw \<le> 0 then Inl (ValueError ''quote amount must be positive'')
      else if \<not> (0 \<le> want_decimals \<and> want_decimals \<le> 18)
      then Inl (ValueError ''want decimals must be between 0 and 18'')
      else if buffer_bps < 0 then Inl (ValueError ''starting price buffer must be non-negative'')
      else
        let buffered_numerator = amount_out_raw * (10000 + buffer_bps) in
        err_bind (case encoding of
            WHOLE_WANT \<Rightarrow> ceil_div buffered_numerator (10000 * 10 ^ nat want_decimals)
          | WAD_WANT \<Rightarrow> ceil_div (buffered_numerator * 10 ^ nat (18 - want_decimals)) 10000) (\<lambda>encoded.
        if encoded \<le> 0 then Inl (ValueError ''encoded starting price must be positive'')
        else if encoding = WAD_WANT \<and> encoded \<le> 10 ^ 9
        then Inl (ValueError ''v1.0.5 starting price must be greater than 1e9'')
        else Inr encoded))"

definition decode_starting_price_amount :: "int \<Rightarrow> starting_price_encoding \<Rightarrow> dec result" where
  "decode_starting_price_amount raw_value encoding =
     (if raw_value \<le> 0 then Inl (ValueError ''starting price must be positive'')
      else case encoding of
        WHOLE_WANT \<Rightarrow> Inr (dec_of_int raw_value)
      | WAD_WANT \<Rightarrow> dec_div (dec_of_int raw_value) WAD)"

section \<open>Ray arithmetic and the latent terminal ask\<close>

definition wdiv :: "int \<Rightarrow> int \<Rightarrow> int result" where
  "wdiv x y = (if y \<le> 0 then Inl (ValueError ''wdiv denominator must be positive'')
     else Inr ((x * WAD_INT + y div 2) div y))"

definition rmul :: "int \<Rightarrow> int \<Rightarrow> int" where
  "rmul x y = (x * y + RAY div 2) div RAY"

fun rpow_loop :: "int \<Rightarrow> nat \<Rightarrow> int \<Rightarrow> int" where
  "rpow_loop x n z =
     (if n = 0 then z
      else let x = rmul x x; z = (if n mod 2 \<noteq> 0 then rmul z x else z) in rpow_loop x (n div 2) z)"

declare rpow_loop.simps [simp del]

definition rpow :: "int \<Rightarrow> int \<Rightarrow> int result" where
  "rpow x n =
     (if n < 0 then Inl (ValueError ''rpow exponent must be non-negative'')
      else Inr (rpow_loop x (nat n div 2) (if nat n mod 2 \<noteq> 0 then x else RAY)))"

definition latent_terminal_full_lot_ask_raw ::
  "starting_price_encoding \<Rightarrow> int \<Rightarrow> int \<Rightarrow> int \<Rightarrow> int \<Rightarrow> int \<Rightarrow> int \<Rightarrow> int \<Rightarrow> int result" where
  "latent_terminal_full_lot_ask_raw encoding starting_price_raw sell_amount_raw sell_decimals
     want_decimals step_decay_rate_bps step_duration_seconds auction_length_seconds =
     (if starting_price_raw \<le> 0 then Inl (ValueError ''starting price must be positive'')
      else if sell_amount_raw \<le> 0 then Inl (ValueError ''sell amount must be positive'')
      else if \<not> (0 \<le> sell_decimals \<and> sell_decimals \<le> 18) \<or> \<not> (0 \<le> want_decimals \<and> want_decimals \<le> 18)
      then Inl (ValueError ''token decimals must be between 0 and 18'')
      else if \<not> (0 < step_decay_rate_bps \<and> step_decay_rate_bps < 10000)
      then Inl (ValueError ''step decay rate must be between 1 and 9999 bps'')
      else if step_duration_seconds \<le> 0 \<or> auction_length_seconds \<le> 0
      then Inl (ValueError ''auction timing must be positive'')
      else
        let sell_scaler = 10 ^ nat (18 - sell_decimals);
            want_scaler = 10 ^ nat (18 - want_decimals);
            available_scaled = sell_amount_raw * sell_scaler in
        err_bind (case encoding of
            WHOLE_WANT \<Rightarrow> wdiv (starting_price_raw * WAD_INT) available_scaled
          | WAD_WANT \<Rightarrow> wdiv starting_price_raw available_scaled) (\<lambda>initial_price.
        let final_step = auction_length_seconds div step_duration_seconds;
            ray_multiplier = RAY - step_decay_rate_bps * 10 ^ 23 in
        err_bind (rpow ray_multiplier final_step) (\<lambda>factor.
        let terminal_price = rmul initial_price factor
        in Inr ((sell_amount_raw * sell_scaler * terminal_price) div WAD_INT div want_scaler))))"

section \<open>Floor rate and minimum price\<close>

definition compute_floor_rate :: "int \<Rightarrow> int \<Rightarrow> int \<Rightarrow> int \<Rightarrow> int \<Rightarrow> dec result" where
  "compute_floor_rate amount_out_raw want_decimals sell_amount_raw sell_decimals buffer_bps =
     err_bind (normalized_token_amount amount_out_raw want_decimals) (\<lambda>quote_amount.
     err_bind (normalized_token_amount sell_amount_raw sell_decimals) (\<lambda>sell_amount.
     if dec_leq sell_amount (dec_of_int 0) then Inl (ValueError ''sell amount must be positive'')
     else err_bind (dec_div (dec_of_int buffer_bps) (dec_of_int 10000)) (\<lambda>ratio.
       let buffer = dec_sub (dec_of_int 1) ratio in
       err_bind (dec_div quote_amount sell_amount) (\<lambda>rate.
       Inr (dec_max (dec_of_int 0) (dec_mul rate buffer))))))"

definition compute_minimum_price_scaled_1e18 :: "int \<Rightarrow> int \<Rightarrow> int \<Rightarrow> int \<Rightarrow> int \<Rightarrow> int result" where
  "compute_minimum_price_scaled_1e18 amount_out_raw want_decimals sell_amount_raw sell_decimals buffer_bps =
     err_bind (compute_floor_rate amount_out_raw want_decimals sell_amount_raw sell_decimals buffer_bps)
       (\<lambda>floor_rate. Inr (dec_floor (dec_mul floor_rate WAD)))"

definition scaled_price_to_rate :: "int option \<Rightarrow> dec option result" where
  "scaled_price_to_rate minimum_price_scaled_1e18 =
     (case minimum_price_scaled_1e18 of None \<Rightarrow> Inr None
      | Some p \<Rightarrow> err_bind (dec_div (dec_of_int p) WAD) (\<lambda>r. Inr (Some r)))"

definition scaled_price_to_public_raw :: "int option \<Rightarrow> int option \<Rightarrow> int option result" where
  "scaled_price_to_public_raw minimum_price_scaled_1e18 want_decimals =
     (case (minimum_price_scaled_1e18, want_decimals) of
        (Some p, Some d) \<Rightarrow>
          if d < 0 \<or> d > 18 then Inl (ValueError ''want decimals must be between 0 and 18'')
          else Inr (Some (p div 10 ^ nat (18 - d)))
      | _ \<Rightarrow> Inr None)"

definition compute_minimum_quote_unscaled :: "int \<Rightarrow> int \<Rightarrow> int \<Rightarrow> int result" where
  "compute_minimum_quote_unscaled minimum_price_scaled_1e18 sell_amount_raw sell_decimals =
     err_bind (normalized_token_amount sell_amount_raw sell_decimals) (\<lambda>sell_amount.
     err_bind (dec_div (dec_of_int minimum_price_scaled_1e18) WAD) (\<lambda>floor_rate.
     Inr (dec_floor (dec_mul sell_amount floor_rate))))"


section \<open>The encoded starting price is a ceiling\<close>

text \<open>
  What the encoding means: one unit of the raw starting price is worth
  \<open>price_unit\<close> whole want tokens, and the buffered quote is worth \<open>buffered_quote\<close> of them.
\<close>

definition price_unit :: "starting_price_encoding \<Rightarrow> rat" where
  "price_unit encoding = (case encoding of WHOLE_WANT \<Rightarrow> 1 | WAD_WANT \<Rightarrow> 1 / 10 ^ 18)"

definition buffered_quote :: "int \<Rightarrow> int \<Rightarrow> int \<Rightarrow> rat" where
  "buffered_quote amount_out_raw want_decimals buffer_bps =
     of_int amount_out_raw / 10 ^ nat want_decimals * (1 + of_int buffer_bps / 10000)"

lemma ceil_div_ceiling: "0 < d \<Longrightarrow> ceil_div n d = Inr \<lceil>(of_int n :: rat) / of_int d\<rceil>"
proof -
  assume d: "0 < d"
  define q where "q = (n + d - 1) div d"
  have "n + d - 1 = d * q + (n + d - 1) mod d" by (simp add: q_def)
  moreover have "0 \<le> (n + d - 1) mod d" "(n + d - 1) mod d < d" using d by simp_all
  ultimately have "(q - 1) * d < n" "n \<le> q * d" by (simp_all add: algebra_simps)
  then have "of_int (q - 1) * of_int d < (of_int n :: rat)" "(of_int n :: rat) \<le> of_int q * of_int d"
    by (simp_all only: of_int_less_iff of_int_le_iff flip: of_int_mult)
  then have "\<lceil>(of_int n :: rat) / of_int d\<rceil> = q"
    using d by (intro ceiling_unique) (simp_all add: field_simps)
  with d show ?thesis by (simp add: ceil_div_def q_def)
qed

lemma buffered_quote_pos: "0 < out \<Longrightarrow> 0 \<le> bps \<Longrightarrow> 0 < buffered_quote out d bps"
  by (simp add: buffered_quote_def add_pos_nonneg)

lemma price_unit_pos: "0 < price_unit enc"
  by (simp add: price_unit_def split: starting_price_encoding.split)

lemma encode_starting_price_iff:
  "encode_starting_price_raw amount_out_raw want_decimals buffer_bps encoding = Inr encoded \<longleftrightarrow>
     0 < amount_out_raw \<and> want_decimals \<in> {0..18} \<and> 0 \<le> buffer_bps
     \<and> encoded = \<lceil>buffered_quote amount_out_raw want_decimals buffer_bps / price_unit encoding\<rceil>
     \<and> (encoding = WHOLE_WANT \<or> 10 ^ 9 < encoded)"
proof (cases "0 < amount_out_raw \<and> want_decimals \<in> {0..18} \<and> 0 \<le> buffer_bps")
  case True
  let ?q = "\<lceil>buffered_quote amount_out_raw want_decimals buffer_bps / price_unit encoding\<rceil>"
  let ?e = "case encoding of
      WHOLE_WANT \<Rightarrow> ceil_div (amount_out_raw * (10000 + buffer_bps)) (10000 * 10 ^ nat want_decimals)
    | WAD_WANT \<Rightarrow> ceil_div (amount_out_raw * (10000 + buffer_bps) * 10 ^ nat (18 - want_decimals)) 10000"
  have split: "(10::rat) ^ 18 = 10 ^ nat want_decimals * 10 ^ nat (18 - want_decimals)"
    using True by (simp flip: power_add nat_add_distrib)
  have wad: "of_int (amount_out_raw * (10000 + buffer_bps) * 10 ^ nat (18 - want_decimals)) / 10000 =
      buffered_quote amount_out_raw want_decimals buffer_bps / price_unit WAD_WANT"
    unfolding buffered_quote_def price_unit_def starting_price_encoding.case split
    by (simp add: divide_simps)
  have e: "?e = Inr ?q"
    using wad by (cases encoding)
      (simp_all add: ceil_div_ceiling, simp add: buffered_quote_def price_unit_def field_simps)
  have pos: "0 < ?q"
    using True buffered_quote_pos [of amount_out_raw buffer_bps] price_unit_pos [of encoding] by simp
  show ?thesis
    unfolding encode_starting_price_raw_def Let_def e using True pos
    by (cases encoding) auto
next
  case False
  then show ?thesis by (auto simp: encode_starting_price_raw_def)
qed

text \<open>
  C14. A starting price is encoded exactly when its inputs are in range, as the ceiling of
  the buffered quote in the version's price unit, and on v1.0.5 only above 1e9.
\<close>

theorem encode_starting_price_ceiling:
  "encode_starting_price_raw amount_out_raw want_decimals buffer_bps encoding = Inr encoded \<longleftrightarrow>
     0 < amount_out_raw \<and> want_decimals \<in> {0..18} \<and> 0 \<le> buffer_bps
     \<and> encoded = \<lceil>buffered_quote amount_out_raw want_decimals buffer_bps / price_unit encoding\<rceil>
     \<and> (encoding = WHOLE_WANT \<or> 10 ^ 9 < encoded)"
  by (rule encode_starting_price_iff)

section \<open>Ray powers against exact powers\<close>

lemma RAY_pos [simp]: "0 < RAY" and RAY_half: "2 * (RAY div 2) = RAY"
  by (simp_all add: RAY_def)

lemma div_half_up_real:
  assumes "0 < (d :: int)"
  shows "\<bar>of_int ((n + d div 2) div d) - of_int n / of_int d\<bar> \<le> (1 / 2 :: real)"
proof -
  define q m where "q = (n + d div 2) div d" and "m = (n + d div 2) mod d"
  have "n + d div 2 = d * q + m" by (simp add: q_def m_def)
  moreover have "0 \<le> m" "m < d" using assms by (simp_all add: m_def)
  ultimately have "2 * (d * q) - 2 * n \<le> d" "- d \<le> 2 * (d * q) - 2 * n"
    by presburger+
  then have "of_int (2 * (d * q) - 2 * n) \<le> (of_int d :: real)"
    "of_int (- d) \<le> (of_int (2 * (d * q) - 2 * n) :: real)"
    by (simp_all only: of_int_le_iff)
  then have "of_int q - of_int n / of_int d \<le> (1 / 2 :: real)"
    "- (1 / 2) \<le> (of_int q - of_int n / of_int d :: real)"
    using assms by (simp_all add: field_simps)
  then show ?thesis unfolding q_def [symmetric] by (intro abs_leI) linarith+
qed

definition ray :: "int \<Rightarrow> real" where
  "ray x = of_int x / of_int RAY"

lemma rmul_error: "\<bar>ray (rmul x y) - ray x * ray y\<bar> \<le> 1 / (2 * of_int RAY)"
proof -
  have "\<bar>of_int (rmul x y) - of_int (x * y) / of_int RAY\<bar> \<le> (1 / 2 :: real)"
    unfolding rmul_def by (rule div_half_up_real) simp
  moreover have "ray (rmul x y) - ray x * ray y =
      (of_int (rmul x y) - of_int (x * y) / of_int RAY) / of_int RAY"
    by (simp add: ray_def diff_divide_distrib)
  moreover have "(1 / 2) / of_int RAY = (1 / (2 * of_int RAY) :: real)" by simp
  ultimately show ?thesis
    by (metis RAY_pos abs_divide abs_of_pos divide_right_mono less_imp_le of_int_0_less_iff)
qed

lemma rmul_nonneg: "0 \<le> x \<Longrightarrow> 0 \<le> y \<Longrightarrow> 0 \<le> rmul x y"
  by (simp add: rmul_def pos_imp_zdiv_nonneg_iff RAY_def)

lemma rmul_le: "0 \<le> x \<Longrightarrow> y \<le> RAY \<Longrightarrow> rmul x y \<le> x"
proof -
  assume "0 \<le> x" "y \<le> RAY"
  then have "x * y + RAY div 2 \<le> x * RAY + RAY div 2" by (simp add: mult_left_mono)
  then have "rmul x y \<le> (RAY div 2 + x * RAY) div RAY"
    unfolding rmul_def by (intro zdiv_mono1) (simp_all add: add.commute)
  also have "\<dots> = x" by (subst div_mult_self1) (simp_all add: RAY_def)
  finally show ?thesis .
qed

lemma rpow_loop_range:
  "0 \<le> x \<Longrightarrow> x \<le> RAY \<Longrightarrow> 0 \<le> z \<Longrightarrow> z \<le> RAY \<Longrightarrow>
     0 \<le> rpow_loop x n z \<and> rpow_loop x n z \<le> RAY"
proof (induction x n z rule: rpow_loop.induct)
  case (1 x n z)
  have "0 \<le> rmul x x" "rmul x x \<le> RAY" using 1 rmul_le [of x x] by (simp_all add: rmul_nonneg)
  moreover from this have "0 \<le> rmul z (rmul x x)" "rmul z (rmul x x) \<le> RAY"
    using 1 rmul_le [of z "rmul x x"] by (simp_all add: rmul_nonneg)
  ultimately show ?case
    using 1 by (subst (1 2) rpow_loop.simps) (simp add: Let_def)
qed

lemma abs_diff_trans: "\<bar>a - b\<bar> \<le> p \<Longrightarrow> \<bar>b - c\<bar> \<le> q \<Longrightarrow> \<bar>a - c\<bar> \<le> p + (q :: real)"
  by linarith

lemma product_error:
  fixes a b A B :: real
  assumes "\<bar>a - A\<bar> \<le> p" "\<bar>b - B\<bar> \<le> q" "0 \<le> b" "b \<le> 1" "0 \<le> A" "A \<le> 1"
  shows "\<bar>a * b - A * B\<bar> \<le> p + q"
proof -
  have "a * b - A * B = (a - A) * b + A * (b - B)" by (simp add: algebra_simps)
  then have "\<bar>a * b - A * B\<bar> \<le> \<bar>a - A\<bar> * b + A * \<bar>b - B\<bar>"
    using assms by (metis abs_mult abs_of_nonneg abs_triangle_ineq)
  also have "\<dots> \<le> \<bar>a - A\<bar> * 1 + 1 * \<bar>b - B\<bar>"
    using assms by (intro add_mono mult_left_mono mult_right_mono) auto
  finally show ?thesis using assms(1,2) by simp
qed


lemma ray_range: "0 \<le> x \<Longrightarrow> x \<le> RAY \<Longrightarrow> 0 \<le> ray x \<and> ray x \<le> 1"
  by (simp add: ray_def divide_le_eq)

text \<open>
  The loop keeps the errors of its two accumulators: starting within \<open>a\<close> and \<open>b\<close> half
  units of \<open>X\<close> and \<open>Z\<close>, it ends within \<open>b + 2 n (a + 1)\<close> half units of \<open>Z X^(2n)\<close>.
\<close>

lemma rpow_loop_error:
  assumes "0 \<le> x" "x \<le> RAY" "0 \<le> z" "z \<le> RAY" "0 \<le> X" "X \<le> 1" "0 \<le> Z" "Z \<le> 1"
    and "\<bar>ray x - X\<bar> \<le> a / (2 * of_int RAY)" and "\<bar>ray z - Z\<bar> \<le> b / (2 * of_int RAY)"
  shows "\<bar>ray (rpow_loop x n z) - Z * X ^ (2 * n)\<bar> \<le> (b + 2 * real n * (a + 1)) / (2 * of_int RAY)"
  using assms
proof (induction x n z arbitrary: X Z a b rule: rpow_loop.induct)
  case (1 x n z)
  show ?case
  proof (cases "n = 0")
    case True
    with 1 show ?thesis by (subst rpow_loop.simps) simp
  next
    case False
    define u where "u = 1 / (2 * of_int RAY :: real)"
    define m where "m = n div 2"
    define x' where "x' = rmul x x"
    define z' where "z' = (if n mod 2 \<noteq> 0 then rmul z x' else z)"
    define Z' where "Z' = (if n mod 2 \<noteq> 0 then Z * X ^ 2 else Z)"
    define b' where "b' = (if n mod 2 \<noteq> 0 then b + (2 * a + 1) + 1 else b)"
    have err: "\<bar>ray x - X\<bar> \<le> a * u" "\<bar>ray z - Z\<bar> \<le> b * u"
      using "1.prems" by (simp_all add: u_def)
    have x'0: "0 \<le> x'" "x' \<le> RAY"
      using "1.prems" rmul_le [of x x] by (simp_all add: x'_def rmul_nonneg)
    have z'0: "0 \<le> z'" "z' \<le> RAY"
      using "1.prems" x'0 rmul_le [of z x'] by (simp_all add: z'_def rmul_nonneg)
    have "\<bar>ray x * ray x - X * X\<bar> \<le> a * u + a * u"
      using err(1) "1.prems" ray_range [of x] by (intro product_error) auto
    moreover have "\<bar>ray x' - ray x * ray x\<bar> \<le> u"
      using rmul_error [of x x] by (simp add: x'_def u_def)
    ultimately have ex: "\<bar>ray x' - X ^ 2\<bar> \<le> (2 * a + 1) * u"
      by (simp add: power2_eq_square algebra_simps)
    have "\<bar>ray z * ray x' - Z * X ^ 2\<bar> \<le> b * u + (2 * a + 1) * u"
      using err(2) ex "1.prems" ray_range [OF x'0] by (intro product_error) auto
    moreover have "\<bar>ray (rmul z x') - ray z * ray x'\<bar> \<le> u"
      using rmul_error [of z x'] by (simp add: u_def)
    ultimately have "\<bar>ray (rmul z x') - Z * X ^ 2\<bar> \<le> u + (b * u + (2 * a + 1) * u)"
      by (rule abs_diff_trans [rotated])
    then have ez: "\<bar>ray z' - Z'\<bar> \<le> b' * u"
      using err(2) by (simp add: z'_def Z'_def b'_def algebra_simps)
    have Z': "0 \<le> Z'" "Z' \<le> 1" "0 \<le> X ^ 2" "X ^ 2 \<le> 1"
      using "1.prems" by (simp_all add: Z'_def power_le_one mult_le_one)
    have "\<bar>ray (rpow_loop x' m z') - Z' * (X ^ 2) ^ (2 * m)\<bar> \<le>
        (b' + 2 * real m * ((2 * a + 1) + 1)) / (2 * of_int RAY)"
      unfolding m_def using False x'0 z'0 Z' ex ez
      by (intro "1.IH") (simp_all add: x'_def z'_def u_def)
    moreover have "rpow_loop x n z = rpow_loop x' m z'"
      using False by (subst rpow_loop.simps) (simp add: Let_def x'_def z'_def m_def)
    moreover have "Z' * (X ^ 2) ^ (2 * m) = Z * X ^ (2 * n)"
    proof -
      have "2 * n = 4 * m + 2 * (n mod 2)" unfolding m_def by presburger
      then have "X ^ (2 * n) = X ^ (4 * m) * X ^ (2 * (n mod 2))" by (simp only: power_add)
      then show ?thesis
        by (simp add: Z'_def flip: power_mult)
    qed
    moreover have "b' + 2 * real m * ((2 * a + 1) + 1) = b + 2 * real n * (a + 1)"
    proof -
      have "real n = 2 * real m + real (n mod 2)"
        unfolding m_def by (metis mult.commute of_nat_add of_nat_mult of_nat_numeral div_mult_mod_eq)
      then show ?thesis by (simp add: b'_def algebra_simps mod_2_eq_odd)
    qed
    ultimately show ?thesis by simp
  qed
qed

lemma rpow_error:
  assumes "0 \<le> x" "x \<le> RAY" "rpow x (int n) = Inr y"
  shows "\<bar>ray y - ray x ^ n\<bar> \<le> real n / (2 * of_int RAY)" "0 \<le> y" "y \<le> RAY"
proof -
  define z where "z = (if n mod 2 \<noteq> 0 then x else RAY)"
  have y: "y = rpow_loop x (n div 2) z"
    using assms(3) by (auto simp: rpow_def z_def split: if_splits)
  have z: "0 \<le> z" "z \<le> RAY" using assms by (auto simp: z_def less_imp_le)
  show "0 \<le> y" "y \<le> RAY" using rpow_loop_range [OF assms(1,2) z] y by auto
  have "\<bar>ray y - ray z * ray x ^ (2 * (n div 2))\<bar> \<le> (0 + 2 * real (n div 2) * (0 + 1)) / (2 * of_int RAY)"
    unfolding y by (rule rpow_loop_error) (use assms z ray_range in \<open>auto simp: ray_range\<close>)
  moreover have "ray z * ray x ^ (2 * (n div 2)) = ray x ^ n"
  proof -
    have "n = 2 * (n div 2) + n mod 2" by simp
    then have "ray x ^ n = ray x ^ (2 * (n div 2)) * ray x ^ (n mod 2)" by (metis power_add)
    moreover have "ray RAY = 1" by (simp add: ray_def RAY_def)
    ultimately show ?thesis by (simp add: z_def mod_2_eq_odd)
  qed
  moreover have "2 * real (n div 2) \<le> real n"
    by (metis of_nat_le_iff of_nat_mult of_nat_numeral times_div_less_eq_dividend)
  ultimately show "\<bar>ray y - ray x ^ n\<bar> \<le> real n / (2 * of_int RAY)"
    by (simp add: field_simps)
qed


section \<open>The latent terminal ask\<close>

text \<open>
  The lot's asking price without rounding: the starting price, in raw want units, decayed
  once per completed step. \<open>ask_error\<close> bounds what the integer arithmetic can be off by:
  one unit of the scaled price of the lot, and half a ray unit per step.
\<close>

definition starting_value :: "starting_price_encoding \<Rightarrow> int \<Rightarrow> int \<Rightarrow> real" where
  "starting_value encoding starting_price_raw want_decimals =
     of_int starting_price_raw *
     (case encoding of WHOLE_WANT \<Rightarrow> 10 ^ nat want_decimals | WAD_WANT \<Rightarrow> 1 / 10 ^ nat (18 - want_decimals))"

definition ideal_ask :: "starting_price_encoding \<Rightarrow> int \<Rightarrow> int \<Rightarrow> int \<Rightarrow> nat \<Rightarrow> real" where
  "ideal_ask encoding starting_price_raw want_decimals step_decay_rate_bps steps =
     starting_value encoding starting_price_raw want_decimals * (1 - of_int step_decay_rate_bps / 10000) ^ steps"

definition ask_error :: "starting_price_encoding \<Rightarrow> int \<Rightarrow> int \<Rightarrow> int \<Rightarrow> int \<Rightarrow> nat \<Rightarrow> real" where
  "ask_error encoding starting_price_raw sell_amount_raw sell_decimals want_decimals steps =
     of_int sell_amount_raw * 10 ^ nat (18 - sell_decimals) / (10 ^ 18 * 10 ^ nat (18 - want_decimals)) *
       (1 + real steps / (4 * 10 ^ 27))
     + starting_value encoding starting_price_raw want_decimals * real steps / (2 * 10 ^ 27)"

lemma terminal_price_error:
  assumes S: "0 < S" and wdiv: "wdiv num S = Inr initial" and num: "0 \<le> num"
    and bps: "0 < bps" "bps < 10000"
    and pow: "rpow (RAY - bps * 10 ^ 23) (int k) = Inr factor"
  defines "P \<equiv> of_int (num * WAD_INT) / of_int S :: real"
  shows "\<bar>of_int (rmul initial factor) - P * (1 - of_int bps / 10000) ^ k\<bar> \<le>
    1 + (P + 1 / 2) * (real k / (2 * of_int RAY))"
proof -
  define q where "q = (1 - of_int bps / 10000 :: real)"
  have q: "0 \<le> q ^ k" "q ^ k \<le> 1"
    using bps by (simp_all add: q_def power_le_one)
  have mult: "0 \<le> RAY - bps * 10 ^ 23" "RAY - bps * 10 ^ 23 \<le> RAY"
    using bps by (simp_all add: RAY_def)
  have "ray (RAY - bps * 10 ^ 23) = q"
    by (simp add: ray_def q_def RAY_def diff_divide_distrib)
  then have f: "\<bar>ray factor - q ^ k\<bar> \<le> real k / (2 * of_int RAY)" "0 \<le> factor" "factor \<le> RAY"
    using rpow_error [OF mult pow] by simp_all
  have i: "initial = (num * WAD_INT + S div 2) div S" using wdiv S by (simp add: wdiv_def)
  have init: "\<bar>of_int initial - P\<bar> \<le> 1 / 2"
    unfolding i P_def by (rule div_half_up_real [OF S])
  have nonneg: "0 \<le> initial"
    unfolding i using S num by (simp add: pos_imp_zdiv_nonneg_iff WAD_INT_def)
  have "\<bar>of_int (rmul initial factor) - of_int initial * ray factor\<bar> \<le> 1 / 2"
    using div_half_up_real [of RAY "initial * factor"] by (simp add: rmul_def ray_def)
  moreover have "\<bar>of_int initial * ray factor - of_int initial * q ^ k\<bar> \<le>
      (P + 1 / 2) * (real k / (2 * of_int RAY))"
  proof -
    have "\<bar>of_int initial * ray factor - of_int initial * q ^ k\<bar> = of_int initial * \<bar>ray factor - q ^ k\<bar>"
      using nonneg by (simp flip: right_diff_distrib add: abs_mult)
    also have "\<dots> \<le> (P + 1 / 2) * (real k / (2 * of_int RAY))"
    proof (intro mult_mono)
      show "of_int initial \<le> P + 1 / 2" "0 \<le> P + 1 / 2" using init nonneg by linarith+
    qed (use f(1) in auto)
    finally show ?thesis .
  qed
  moreover have "\<bar>of_int initial * q ^ k - P * q ^ k\<bar> \<le> 1 / 2"
  proof -
    have "\<bar>of_int initial * q ^ k - P * q ^ k\<bar> = \<bar>of_int initial - P\<bar> * q ^ k"
      using q by (simp flip: left_diff_distrib add: abs_mult)
    also have "\<dots> \<le> 1 / 2 * 1" using init q by (intro mult_mono) auto
    finally show ?thesis by simp
  qed
  ultimately show ?thesis unfolding q_def by linarith
qed

lemma div_div_floor:
  fixes a b c :: int
  assumes "0 < b" "0 < c"
  shows "of_int (a div b div c) \<in> {of_int a / (of_int b * of_int c) - 1 <.. of_int a / (of_int b * of_int c) :: real}"
proof -
  have "a div b div c = \<lfloor>of_int a / of_int (b * c) :: real\<rfloor>"
    using assms by (simp only: floor_divide_of_int_eq) (simp add: zdiv_zmult2_eq)
  moreover have "of_int \<lfloor>r\<rfloor> \<in> {r - 1 <.. r}" for r :: real by simp
  ultimately show ?thesis by (metis of_int_mult)
qed

lemma latent_terminal_ask_Inr:
  assumes "latent_terminal_full_lot_ask_raw encoding start sell sd wd bps dur len = Inr ask"
  obtains initial factor where
    "wdiv (case encoding of WHOLE_WANT \<Rightarrow> start * WAD_INT | WAD_WANT \<Rightarrow> start) (sell * 10 ^ nat (18 - sd))
      = Inr initial"
    "rpow (RAY - bps * 10 ^ 23) (int (nat (len div dur))) = Inr factor"
    "ask = (sell * 10 ^ nat (18 - sd) * rmul initial factor) div WAD_INT div 10 ^ nat (18 - wd)"
    "0 < start" "0 < sell" "0 < bps" "bps < 10000" "0 \<le> wd" "wd \<le> 18"
proof -
  have "0 \<le> len div dur" if "0 < dur" "0 < len"
    using that by (simp add: pos_imp_zdiv_nonneg_iff)
  then show ?thesis
    using assms that
    by (cases encoding) (auto simp: latent_terminal_full_lot_ask_raw_def Let_def err_simps split: if_splits)
qed

text \<open>
  C15. The integer terminal ask of a lot lies within a stated rounding error (half a ray
  unit per decay step and one unit of the scaled lot price) of the exact geometric decay of
  the starting price.
\<close>

theorem latent_terminal_ask_accurate:
  assumes "latent_terminal_full_lot_ask_raw encoding start sell sd wd bps dur len = Inr ask"
  shows "of_int ask \<in>
    {ideal_ask encoding start wd bps (nat (len div dur)) - ask_error encoding start sell sd wd (nat (len div dur)) - 1
     <.. ideal_ask encoding start wd bps (nat (len div dur)) + ask_error encoding start sell sd wd (nat (len div dur))}"
proof -
  define k where "k = nat (len div dur)"
  define num where "num = (case encoding of WHOLE_WANT \<Rightarrow> start * WAD_INT | WAD_WANT \<Rightarrow> start)"
  define S where "S = sell * 10 ^ nat (18 - sd)"
  define ws where "ws = (10 ^ nat (18 - wd) :: int)"
  obtain initial factor where wdiv: "wdiv num S = Inr initial"
    and pow: "rpow (RAY - bps * 10 ^ 23) (int k) = Inr factor"
    and ask: "ask = (S * rmul initial factor) div WAD_INT div ws"
    and rng: "0 < start" "0 < sell" "0 < bps" "bps < 10000" "0 \<le> wd" "wd \<le> 18"
    using latent_terminal_ask_Inr [OF assms] unfolding num_def S_def ws_def k_def by metis
  have S: "0 < S" and num: "0 \<le> num" and ws: "0 < ws"
    using rng by (simp_all add: S_def num_def ws_def WAD_INT_def split: starting_price_encoding.split)
  define P where "P = (of_int (num * WAD_INT) / of_int S :: real)"
  define q where "q = (1 - of_int bps / 10000 :: real)"
  define c where "c = (of_int S / (of_int WAD_INT * of_int ws) :: real)"
  define T where "T = (of_int (rmul initial factor) :: real)"
  have c: "0 < c" using S ws by (simp add: c_def WAD_INT_def)
  have err: "\<bar>T - P * q ^ k\<bar> \<le> 1 + (P + 1 / 2) * (real k / (2 * of_int RAY))"
    using terminal_price_error [OF S wdiv num rng(3,4) pow] by (simp add: P_def q_def T_def)
  have cP: "c * P = starting_value encoding start wd"
  proof -
    have "c * P = of_int num / of_int ws" using S by (simp add: c_def P_def WAD_INT_def)
    moreover have "of_int WAD_INT = (10 ^ nat wd * of_int ws :: real)"
      using rng by (simp add: WAD_INT_def ws_def flip: power_add nat_add_distrib)
    ultimately show ?thesis
      using ws by (simp add: starting_value_def num_def ws_def split: starting_price_encoding.split)
  qed
  have "\<bar>c * T - c * P * q ^ k\<bar> = c * \<bar>T - P * q ^ k\<bar>"
    using c by (simp add: mult.assoc abs_mult flip: right_diff_distrib)
  also have "\<dots> \<le> c * (1 + (P + 1 / 2) * (real k / (2 * of_int RAY)))"
    using c err by (intro mult_left_mono) auto
  also have "\<dots> = c * (1 + real k / (4 * of_int RAY)) + c * P * real k / (2 * of_int RAY)"
    by (simp add: distrib_left distrib_right add_divide_distrib)
  also have "\<dots> = ask_error encoding start sell sd wd k"
    by (simp add: ask_error_def cP) (simp add: c_def S_def ws_def RAY_def WAD_INT_def)
  finally have close: "\<bar>c * T - ideal_ask encoding start wd bps k\<bar> \<le> ask_error encoding start sell sd wd k"
    by (simp add: cP ideal_ask_def q_def)
  have "of_int ask \<in> {c * T - 1 <.. c * T}"
    using div_div_floor [of WAD_INT ws "S * rmul initial factor"] ws
    by (simp add: ask c_def T_def WAD_INT_def)
  then show ?thesis using close unfolding k_def [symmetric] by (auto simp: abs_le_iff)
qed

theorem latent_terminal_ask_accurate_witness:
  "\<exists>ask. latent_terminal_full_lot_ask_raw WAD_WANT (2 * 10 ^ 18) (10 ^ 18) 18 6 50 21600 86400 = Inr ask \<and>
    of_int ask \<in> {ideal_ask WAD_WANT (2 * 10 ^ 18) 6 50 4
        - ask_error WAD_WANT (2 * 10 ^ 18) (10 ^ 18) 18 6 4 - 1
      <.. ideal_ask WAD_WANT (2 * 10 ^ 18) 6 50 4 + ask_error WAD_WANT (2 * 10 ^ 18) (10 ^ 18) 18 6 4}"
proof -
  have "latent_terminal_full_lot_ask_raw WAD_WANT (2 * 10 ^ 18) (10 ^ 18) 18 6 50 21600 86400 = Inr 1960299"
    by code_simp
  from latent_terminal_ask_accurate [OF this] this show ?thesis by auto
qed

section \<open>Minimum price\<close>

lemma dec_floor_nonneg: "0 \<le> dec_coef x \<Longrightarrow> 0 \<le> dec_floor x"
  by (simp add: dec_floor_def pos_imp_zdiv_nonneg_iff)

lemma dec_coef_nonneg_iff: "0 \<le> dec_coef x \<longleftrightarrow> 0 \<le> dec_val x"
proof -
  have "\<not> (10 :: rat) powi dec_exp x \<le> 0" "(0 :: rat) \<le> 10 powi dec_exp x"
    by (simp_all add: not_le)
  then show ?thesis unfolding dec_val_def zero_le_mult_iff of_int_0_le_iff by blast
qed

lemma dec_fix_sgn_nonneg: "0 \<le> dec_coef x \<Longrightarrow> 0 \<le> dec_coef (dec_fix x)"
  by (auto simp: dec_fix_def Let_def div_half_even_def pos_imp_zdiv_nonneg_iff sgn_if)

lemma compute_floor_rate_nonneg:
  assumes "compute_floor_rate out wd sell sd bps = Inr r"
  shows "0 \<le> dec_coef r"
proof -
  obtain x where r: "r = dec_max (dec_of_int 0) x"
    using assms by (auto simp: compute_floor_rate_def Let_def err_simps split: if_splits)
  show ?thesis
  proof (cases "dec_less (dec_of_int 0) x")
    case True
    then have "0 \<le> dec_val x" by (simp add: dec_less_iff dec_val_def dec_of_int_def)
    with True r show ?thesis by (simp add: dec_max_def dec_coef_nonneg_iff)
  qed (simp add: r dec_max_def dec_of_int_def)
qed

lemma normalized_token_amount_value:
  assumes "0 \<le> decimals" "\<bar>raw\<bar> < 10 ^ dec_prec"
  shows "\<exists>x. normalized_token_amount raw decimals = Inr x \<and> dec_val x = of_int raw / 10 ^ nat decimals"
proof -
  obtain s x where "to_decimal_string raw decimals = Inr s" "dec_of_string s = Some x"
    "dec_val x = of_int raw / 10 ^ nat decimals"
    by (rule to_decimal_string_denotes [OF assms])
  then show ?thesis by (simp add: normalized_token_amount_def parse_decimal_def)
qed

lemma dec_div_total:
  assumes "dec_coef y \<noteq> 0"
  shows "\<exists>q. dec_div x y = Inr q"
proof -
  have "\<exists>q. (if a then Inr u else if b then Inr v else case p of (q, e) \<Rightarrow> Inr (f q e)) = Inr q"
    for a b u v p and f :: "int \<Rightarrow> int \<Rightarrow> dec"
    by (cases p) simp
  then show ?thesis unfolding dec_div_def Let_def if_not_P [OF assms] .
qed

text \<open>
  For token amounts of at most 78 digits and a positive sell amount the minimum price
  computation returns a non-negative price whatever the buffer.
\<close>

theorem compute_minimum_price_total:
  assumes "0 \<le> want_decimals" "0 \<le> sell_decimals" "\<bar>amount_out_raw\<bar> < 10 ^ dec_prec"
    and "0 < sell_amount_raw" "sell_amount_raw < 10 ^ dec_prec"
  shows "\<exists>price. compute_minimum_price_scaled_1e18 amount_out_raw want_decimals sell_amount_raw sell_decimals buffer_bps
    = Inr price \<and> 0 \<le> price"
proof -
  obtain quote where quote: "normalized_token_amount amount_out_raw want_decimals = Inr quote"
    using normalized_token_amount_value [OF assms(1,3)] by blast
  obtain sell where sell: "normalized_token_amount sell_amount_raw sell_decimals = Inr sell"
    "dec_val sell = of_int sell_amount_raw / 10 ^ nat sell_decimals"
    using normalized_token_amount_value [OF assms(2), of sell_amount_raw] assms(4,5) by auto
  have pos: "0 < dec_val sell" using sell(2) assms(4) by simp
  then have nz: "dec_coef sell \<noteq> 0" by (auto simp: dec_val_def)
  have "\<not> dec_leq sell (dec_of_int 0)" using pos by (simp add: dec_leq_iff dec_val_def dec_of_int_def)
  moreover obtain ratio where "dec_div (dec_of_int buffer_bps) (dec_of_int 10000) = Inr ratio"
    using dec_div_total [of "dec_of_int 10000" "dec_of_int buffer_bps"] by (auto simp: dec_of_int_def)
  moreover obtain rate where "dec_div quote sell = Inr rate"
    using dec_div_total [OF nz] by blast
  ultimately obtain r where
    r: "compute_floor_rate amount_out_raw want_decimals sell_amount_raw sell_decimals buffer_bps = Inr r"
    by (simp add: compute_floor_rate_def quote sell(1) Let_def)
  have "0 \<le> dec_coef (dec_mul r WAD)"
    using compute_floor_rate_nonneg [OF r]
    by (auto simp: dec_mul_def WAD_def dec_ten_pow_def dec_prec_def intro: dec_fix_sgn_nonneg)
  then show ?thesis by (simp add: compute_minimum_price_scaled_1e18_def r dec_floor_nonneg)
qed

theorem compute_minimum_price_total_witness:
  "\<exists>price. compute_minimum_price_scaled_1e18 1950000 6 (10 ^ 18) 18 500 = Inr price \<and> 0 \<le> price"
  by (rule compute_minimum_price_total) (simp_all add: dec_prec_def)

end
