(* ===== verification/Rounds.thy ===== *)
theory Rounds
  imports Normalizers PyTime
begin

text \<open>
  Rows of the \<open>kick_txs\<close> table (\<open>tidal/persistence/models.py\<close>) and the classification of
  auction rounds in \<open>tidal/auction_rounds.py\<close>. A row is a record with one field per column,
  a nullable column is an option; the columns no modelled decision reads are grouped in
  \<open>k_detail\<close>. A round is one kick with the operations whose \<open>round_kick_id\<close> names it; its
  outcome is read off exact chain evidence only. Loops of the code that return early are
  recursions with a sum result: \<open>Inl\<close> is the reason code the loop returns.
\<close>

section \<open>Rows\<close>

record kick_detail =
  kd_starting_price :: "string option"
  kd_minimum_price :: "string option"
  kd_minimum_quote :: "string option"
  kd_price_usd :: "string option"
  kd_usd_value :: "string option"
  kd_quote_amount :: "string option"
  kd_quote_response_json :: "string option"
  kd_start_price_buffer_bps :: "int option"
  kd_min_price_buffer_bps :: "int option"
  kd_step_decay_rate_bps :: "int option"
  kd_settle_token :: "string option"
  kd_stuck_abort_reason :: "string option"
  kd_token_symbol :: "string option"
  kd_want_address :: "string option"
  kd_want_symbol :: "string option"
  kd_normalized_balance :: "string option"

record kick_tx =
  k_id :: int
  k_run_id :: string
  k_operation_type :: string
  k_source_type :: "string option"
  k_source_address :: "string option"
  k_strategy_address :: "string option"
  k_token_address :: string
  k_auction_address :: string
  k_sell_amount :: "string option"
  k_status :: string
  k_tx_hash :: "string option"
  k_gas_used :: "int option"
  k_gas_price_gwei :: "string option"
  k_block_number :: "int option"
  k_error_message :: "string option"
  k_round_kick_id :: "int option"
  k_resolution_path :: "int option"
  k_mined_at :: "string option"
  k_transaction_index :: "int option"
  k_requested_sell_amount :: "string option"
  k_historical_baseline :: int
  k_historical_baseline_reason :: "string option"
  k_historical_baselined_at :: "string option"
  k_created_at :: string
  k_detail :: kick_detail

definition empty_kick_detail :: kick_detail where
  "empty_kick_detail = \<lparr>kd_starting_price = None, kd_minimum_price = None, kd_minimum_quote = None,
     kd_price_usd = None, kd_usd_value = None, kd_quote_amount = None, kd_quote_response_json = None,
     kd_start_price_buffer_bps = None, kd_min_price_buffer_bps = None, kd_step_decay_rate_bps = None,
     kd_settle_token = None, kd_stuck_abort_reason = None, kd_token_symbol = None, kd_want_address = None,
     kd_want_symbol = None, kd_normalized_balance = None\<rparr>"

text \<open>A row with the column defaults; nullable columns are \<open>NULL\<close>.\<close>

definition empty_kick_tx :: kick_tx where
  "empty_kick_tx = \<lparr>k_id = 0, k_run_id = [], k_operation_type = ''kick'', k_source_type = None,
     k_source_address = None, k_strategy_address = None, k_token_address = [], k_auction_address = [],
     k_sell_amount = None, k_status = [], k_tx_hash = None, k_gas_used = None, k_gas_price_gwei = None,
     k_block_number = None, k_error_message = None, k_round_kick_id = None, k_resolution_path = None,
     k_mined_at = None, k_transaction_index = None, k_requested_sell_amount = None,
     k_historical_baseline = 0, k_historical_baseline_reason = None, k_historical_baselined_at = None,
     k_created_at = [], k_detail = empty_kick_detail\<rparr>"

type_synonym position = "int \<times> int"

definition raw_amount :: "string option \<Rightarrow> int option" where
  "raw_amount column =
     (case column of None \<Rightarrow> None
      | Some value \<Rightarrow> (case py_int value of None \<Rightarrow> None
          | Some amount \<Rightarrow> if 0 \<le> amount then Some amount else None))"

definition timestamp :: "string option \<Rightarrow> instant option" where
  "timestamp column = (case column of None \<Rightarrow> None | Some value \<Rightarrow> read_instant value)"

definition row_position :: "kick_tx \<Rightarrow> position option" where
  "row_position row =
     (case (k_block_number row, k_transaction_index row) of
        (Some b, Some i) \<Rightarrow> Some (b, i)
      | _ \<Rightarrow> None)"

definition same_pair :: "(string \<Rightarrow> bool) \<Rightarrow> kick_tx \<Rightarrow> kick_tx \<Rightarrow> bool" where
  "same_pair isaddr left right =
     (case (normalize_address isaddr (k_auction_address left), normalize_address isaddr (k_auction_address right)) of
        (Inr a, Inr b) \<Rightarrow>
          if a = b then
            (case (normalize_address isaddr (k_token_address left), normalize_address isaddr (k_token_address right)) of
               (Inr s, Inr t) \<Rightarrow> s = t
             | _ \<Rightarrow> False)
          else False
      | _ \<Rightarrow> False)"

definition ROUND_CLOSING_PATHS :: "int set" where
  "ROUND_CLOSING_PATHS = {1, 3, 4, 5}"

definition ROUND_RESOLUTION_PATHS :: "int set" where
  "ROUND_RESOLUTION_PATHS = {0, 1, 2, 3, 4, 5}"

definition operation_closes_round :: "kick_tx \<Rightarrow> bool" where
  "operation_closes_round row =
     (if k_operation_type row = ''auction_settled'' then True
      else if k_operation_type row \<noteq> ''resolve_auction'' then False
      else case k_resolution_path row of None \<Rightarrow> False | Some path \<Rightarrow> path \<in> ROUND_CLOSING_PATHS)"

section \<open>Evidence of one round\<close>

datatype round_outcome = NO_FILL | PRODUCTIVE | INCOMPLETE | UNKNOWN

record round_evidence =
  ev_outcome :: round_outcome
  ev_reason_code :: string
  ev_kick_id :: int
  ev_recovery_ids :: "int list"
  ev_close_id :: "int option"
  ev_requested_amount :: "int option"
  ev_placed_amount :: "int option"
  ev_recovered_amount :: "int option"
  ev_kick_position :: "position option"
  ev_close_position :: "position option"
  ev_kick_at :: "instant option"
  ev_close_at :: "instant option"

definition bare_evidence :: "round_outcome \<Rightarrow> kick_tx \<Rightarrow> string \<Rightarrow> round_evidence" where
  "bare_evidence outcome kick reason =
     \<lparr>ev_outcome = outcome, ev_reason_code = reason, ev_kick_id = k_id kick, ev_recovery_ids = [],
      ev_close_id = None, ev_requested_amount = None, ev_placed_amount = None, ev_recovered_amount = None,
      ev_kick_position = row_position kick, ev_close_position = None,
      ev_kick_at = timestamp (k_mined_at kick), ev_close_at = None\<rparr>"

definition unknown_round :: "kick_tx \<Rightarrow> string \<Rightarrow> round_evidence" where
  "unknown_round kick reason = bare_evidence UNKNOWN kick reason"

definition incomplete_round :: "kick_tx \<Rightarrow> string \<Rightarrow> round_evidence" where
  "incomplete_round kick reason = bare_evidence INCOMPLETE kick reason"

text \<open>The loop that keeps the confirmed linked rows.\<close>

fun confirmed_rows :: "(string \<Rightarrow> bool) \<Rightarrow> kick_tx \<Rightarrow> position \<Rightarrow> kick_tx list \<Rightarrow> string + kick_tx list" where
  "confirmed_rows isaddr kick kick_position [] = Inr []"
| "confirmed_rows isaddr kick kick_position (row # rows) =
     (if \<not> same_pair isaddr kick row then Inl ''ROUND_PAIR_MISMATCH''
      else if k_status row \<noteq> ''CONFIRMED'' then confirmed_rows isaddr kick kick_position rows
      else case (row_position row, timestamp (k_mined_at row)) of
          (Some position, Some _) \<Rightarrow>
            if position \<le> kick_position then Inl ''RECOVERY_BEFORE_KICK''
            else err_bind (confirmed_rows isaddr kick kick_position rows) (\<lambda>rest. Inr (row # rest))
        | _ \<Rightarrow> Inl ''MISSING_RECOVERY_CHAIN_POSITION'')"

fun resolved_paths :: "kick_tx list \<Rightarrow> string + (kick_tx \<times> int) list" where
  "resolved_paths [] = Inr []"
| "resolved_paths (row # rows) =
     (case k_resolution_path row of
        None \<Rightarrow> Inl ''MISSING_RESOLUTION_PATH''
      | Some path \<Rightarrow>
          if path \<notin> ROUND_RESOLUTION_PATHS then Inl ''INVALID_RESOLUTION_PATH''
          else err_bind (resolved_paths rows) (\<lambda>rest. Inr ((row, path) # rest)))"

fun recovered_amounts :: "kick_tx list \<Rightarrow> string + int \<times> int list" where
  "recovered_amounts [] = Inr (0, [])"
| "recovered_amounts (row # rows) =
     (case raw_amount (k_sell_amount row) of
        None \<Rightarrow> Inl ''MISSING_RECOVERED_AMOUNT''
      | Some amount \<Rightarrow>
          err_bind (recovered_amounts rows) (\<lambda>(recovered, ids). Inr (amount + recovered, k_id row # ids)))"

definition unknown_amounts :: "kick_tx \<Rightarrow> string \<Rightarrow> int \<Rightarrow> int \<Rightarrow> round_evidence" where
  "unknown_amounts kick reason requested placed =
     (unknown_round kick reason)\<lparr>ev_requested_amount := Some requested, ev_placed_amount := Some placed\<rparr>"

text \<open>The evidence of a single close, from the recovered sum before it.\<close>

definition classify_close ::
  "kick_tx \<Rightarrow> int \<Rightarrow> int \<Rightarrow> position \<Rightarrow> instant \<Rightarrow> kick_tx list \<Rightarrow> int \<Rightarrow> int list \<Rightarrow> kick_tx \<Rightarrow> round_evidence result"
where
  "classify_close kick requested placed kick_position kick_at sweeps recovered recovery_ids close =
     (case (row_position close, timestamp (k_mined_at close)) of
        (Some close_position, Some close_at) \<Rightarrow>
          if \<exists>row \<in> set sweeps. case row_position row of None \<Rightarrow> False | Some p \<Rightarrow> close_position < p
          then Inr (unknown_amounts kick ''RECOVERY_AFTER_CLOSE'' requested placed)
          else (case raw_amount (k_sell_amount close) of
            None \<Rightarrow> Inr (unknown_amounts kick ''MISSING_CLOSE_AMOUNT'' requested placed)
          | Some close_amount \<Rightarrow>
              if k_operation_type close = ''auction_settled'' \<and> close_amount \<noteq> 0
              then Inr (unknown_amounts kick ''INVALID_SETTLEMENT_AMOUNT'' requested placed)
              else
                let recovered = recovered + close_amount;
                    recovery_ids = recovery_ids @ [k_id close];
                    filled = (unknown_amounts kick ''RECOVERY_EXCEEDS_PLACED'' requested placed)
                      \<lparr>ev_recovered_amount := Some recovered, ev_recovery_ids := recovery_ids,
                       ev_close_id := Some (k_id close), ev_close_position := Some close_position,
                       ev_close_at := Some close_at\<rparr>
                in if placed < recovered then Inr filled
                   else if recovered = placed
                   then Inr (filled\<lparr>ev_outcome := NO_FILL, ev_reason_code := ''EXACT_FULL_RECOVERY'',
                     ev_kick_position := Some kick_position, ev_kick_at := Some kick_at\<rparr>)
                   else Inr (filled\<lparr>ev_outcome := PRODUCTIVE, ev_reason_code := ''POSITIVE_FILL'',
                     ev_kick_position := Some kick_position, ev_kick_at := Some kick_at\<rparr>))
      | _ \<Rightarrow> Inl AssertionError)"

text \<open>The evaluation of the confirmed linked rows, after the loop that collected them.\<close>

definition classify_confirmed ::
  "kick_tx \<Rightarrow> int \<Rightarrow> int \<Rightarrow> position \<Rightarrow> instant \<Rightarrow> kick_tx list \<Rightarrow> round_evidence result" where
  "classify_confirmed kick requested placed kick_position kick_at confirmed =
     (let sweeps = filter (\<lambda>row. k_operation_type row = ''sweep_auction'') confirmed;
          resolves = filter (\<lambda>row. k_operation_type row = ''resolve_auction'') confirmed;
          settlements = filter (\<lambda>row. k_operation_type row = ''auction_settled'') confirmed in
      case resolved_paths resolves of
        Inl reason \<Rightarrow> Inr (unknown_amounts kick reason requested placed)
      | Inr paths \<Rightarrow>
          let non_closing = map fst (filter (\<lambda>(row, path). path = 2) paths) in
          (case recovered_amounts (sweeps @ non_closing) of
            Inl reason \<Rightarrow> Inr (unknown_amounts kick reason requested placed)
          | Inr (recovered, recovery_ids) \<Rightarrow>
              let closes = map fst (filter (\<lambda>(row, path). path \<in> ROUND_CLOSING_PATHS) paths) @ settlements in
              (case closes of
                [] \<Rightarrow> Inr ((incomplete_round kick ''MISSING_LOGICAL_CLOSE'')
                  \<lparr>ev_requested_amount := Some requested, ev_placed_amount := Some placed,
                   ev_recovery_ids := recovery_ids\<rparr>)
              | [close] \<Rightarrow> classify_close kick requested placed kick_position kick_at sweeps
                  recovered recovery_ids close
              | _ \<Rightarrow> Inr ((unknown_amounts kick ''DUPLICATE_LOGICAL_CLOSE'' requested placed)
                  \<lparr>ev_recovery_ids := recovery_ids @ map k_id closes\<rparr>))))"

definition classify_round :: "(string \<Rightarrow> bool) \<Rightarrow> kick_tx \<Rightarrow> kick_tx list \<Rightarrow> round_evidence result" where
  "classify_round isaddr kick linked_operations =
     (if k_operation_type kick \<noteq> ''kick'' then Inr (unknown_round kick ''NOT_A_KICK'')
      else if k_status kick = ''SUBMITTED'' then Inr (incomplete_round kick ''KICK_SUBMITTED'')
      else if k_status kick \<noteq> ''CONFIRMED'' then Inr (unknown_round kick ''KICK_NOT_CONFIRMED'')
      else
        let linked = filter (\<lambda>row. k_round_kick_id row = Some (k_id kick)) linked_operations in
        if \<exists>row \<in> set linked. k_status row = ''SUBMITTED'' then Inr (incomplete_round kick ''RECOVERY_SUBMITTED'')
        else (case raw_amount (k_requested_sell_amount kick) of
          None \<Rightarrow> Inr (unknown_round kick ''MISSING_REQUESTED_AMOUNT'')
        | Some requested \<Rightarrow> (case raw_amount (k_sell_amount kick) of
          None \<Rightarrow> Inr ((unknown_round kick ''INVALID_PLACED_AMOUNT'')\<lparr>ev_requested_amount := Some requested\<rparr>)
        | Some placed \<Rightarrow>
            if placed \<le> 0
            then Inr ((unknown_round kick ''INVALID_PLACED_AMOUNT'')\<lparr>ev_requested_amount := Some requested\<rparr>)
            else if requested \<noteq> placed
            then Inr (unknown_amounts kick ''REQUESTED_PLACED_MISMATCH'' requested placed)
            else (case row_position kick of
              None \<Rightarrow> Inr (unknown_amounts kick ''MISSING_KICK_CHAIN_POSITION'' requested placed)
            | Some kick_position \<Rightarrow> (case timestamp (k_mined_at kick) of
                None \<Rightarrow> Inr (unknown_amounts kick ''MISSING_KICK_CHAIN_POSITION'' requested placed)
              | Some kick_at \<Rightarrow> (case confirmed_rows isaddr kick kick_position linked of
                  Inl reason \<Rightarrow> Inr (unknown_amounts kick reason requested placed)
                | Inr confirmed \<Rightarrow> classify_confirmed kick requested placed kick_position kick_at confirmed))))))"

section \<open>Rounds of a pair\<close>

definition created_key :: "kick_tx \<Rightarrow> string \<times> int" where
  "created_key row = (k_created_at row, k_id row)"

definition pair_kicks :: "kick_tx list \<Rightarrow> kick_tx list" where
  "pair_kicks rows = sort_desc created_key
     (filter (\<lambda>row. k_operation_type row = ''kick'' \<and> k_status row \<in> {''CONFIRMED'', ''SUBMITTED''}) rows)"

definition unlinked_closes :: "kick_tx list \<Rightarrow> kick_tx list" where
  "unlinked_closes rows = filter (\<lambda>row.
     k_status row \<in> {''CONFIRMED'', ''SUBMITTED''}
     \<and> k_operation_type row \<in> {''resolve_auction'', ''auction_settled''}
     \<and> k_round_kick_id row = None
     \<and> (k_status row = ''SUBMITTED'' \<or> operation_closes_round row)) rows"

text \<open>\<open>x > low and (high is None or x < high)\<close>\<close>

definition strictly_between :: "'a::linorder \<Rightarrow> 'a \<Rightarrow> 'a option \<Rightarrow> bool" where
  "strictly_between low x high \<longleftrightarrow> low < x \<and> (case high of None \<Rightarrow> True | Some h \<Rightarrow> x < h)"

text \<open>\<open>newer\<close> is the kick at the index before, if any.\<close>

definition has_unlinked_close :: "kick_tx list \<Rightarrow> kick_tx option \<Rightarrow> kick_tx \<Rightarrow> bool" where
  "has_unlinked_close closes newer kick \<longleftrightarrow>
     (let kick_position = row_position kick;
          newer_position = Option.bind newer row_position;
          kick_created = timestamp (Some (k_created_at kick));
          newer_created = Option.bind newer (\<lambda>n. timestamp (Some (k_created_at n)))
      in \<exists>close \<in> set closes.
           (case (kick_position, row_position close) of
              (Some kp, Some cp) \<Rightarrow> strictly_between kp cp newer_position
            | _ \<Rightarrow> (case (kick_created, timestamp (Some (k_created_at close))) of
                      (Some kc, Some cc) \<Rightarrow> strictly_between kc cc newer_created
                    | _ \<Rightarrow> False)))"

fun classify_kicks ::
  "(string \<Rightarrow> bool) \<Rightarrow> kick_tx list \<Rightarrow> kick_tx list \<Rightarrow> kick_tx option \<Rightarrow> kick_tx list \<Rightarrow> round_evidence list result"
where
  "classify_kicks isaddr rows closes newer [] = Inr []"
| "classify_kicks isaddr rows closes newer (kick # kicks) =
     err_bind (if has_unlinked_close closes newer kick then Inr (unknown_round kick ''UNLINKED_LOGICAL_CLOSE'')
               else classify_round isaddr kick rows) (\<lambda>evidence.
     err_bind (classify_kicks isaddr rows closes (Some kick) kicks) (\<lambda>rest. Inr (evidence # rest)))"

definition classify_pair_rounds :: "(string \<Rightarrow> bool) \<Rightarrow> kick_tx list \<Rightarrow> round_evidence list result" where
  "classify_pair_rounds isaddr rows =
     classify_kicks isaddr rows (unlinked_closes rows) None (pair_kicks rows)"

definition classify_all_pair_operations :: "(string \<Rightarrow> bool) \<Rightarrow> kick_tx list \<Rightarrow> round_evidence list result" where
  "classify_all_pair_operations isaddr rows = classify_pair_rounds isaddr rows"

definition baselined_kick_ids :: "kick_tx list \<Rightarrow> int set" where
  "baselined_kick_ids rows =
     set (map k_id (filter (\<lambda>row. k_operation_type row = ''kick'' \<and> k_historical_baseline row = 1) rows))"

text \<open>Everything before the first baselined round.\<close>

definition current_pair_rounds :: "(string \<Rightarrow> bool) \<Rightarrow> kick_tx list \<Rightarrow> round_evidence list result" where
  "current_pair_rounds isaddr rows =
     err_bind (classify_pair_rounds isaddr rows) (\<lambda>classified.
       Inr (takeWhile (\<lambda>evidence. ev_kick_id evidence \<notin> baselined_kick_ids rows) classified))"

section \<open>What the loops return\<close>

lemma confirmed_rows_Inr:
  "confirmed_rows isaddr kick pos rows = Inr confirmed \<Longrightarrow>
     confirmed = filter (\<lambda>row. k_status row = ''CONFIRMED'') rows
     \<and> (\<forall>row \<in> set rows. same_pair isaddr kick row)
     \<and> (\<forall>row \<in> set confirmed. \<exists>p t. row_position row = Some p \<and> pos < p \<and> timestamp (k_mined_at row) = Some t)"
  by (induction rows arbitrary: confirmed)
    (auto simp: err_simps not_le split: if_splits option.splits)

lemma resolved_paths_Inr:
  "resolved_paths rows = Inr paths \<Longrightarrow>
     paths = map (\<lambda>row. (row, the (k_resolution_path row))) rows
     \<and> (\<forall>row \<in> set rows. \<exists>p \<in> ROUND_RESOLUTION_PATHS. k_resolution_path row = Some p)"
  by (induction rows arbitrary: paths) (auto simp: err_simps split: if_splits option.splits)

definition row_amount :: "kick_tx \<Rightarrow> int" where
  "row_amount row = the (raw_amount (k_sell_amount row))"

lemma raw_amount_nonneg: "raw_amount column = Some amount \<Longrightarrow> 0 \<le> amount"
  by (auto simp: raw_amount_def split: option.splits if_splits)

lemma recovered_amounts_Inr:
  "recovered_amounts rows = Inr (recovered, ids) \<Longrightarrow>
     recovered = sum_list (map row_amount rows) \<and> ids = map k_id rows
     \<and> (\<forall>row \<in> set rows. raw_amount (k_sell_amount row) = Some (row_amount row) \<and> 0 \<le> row_amount row)"
  by (induction rows arbitrary: recovered ids)
    (auto simp: err_simps row_amount_def raw_amount_nonneg split: option.splits)

lemmas round_loop_defs = unknown_amounts_def unknown_round_def incomplete_round_def bare_evidence_def

lemma closing_path_filter:
  "filter (\<lambda>(row, path). P path) (map (\<lambda>row. (row, the (k_resolution_path row))) rows) =
     map (\<lambda>row. (row, the (k_resolution_path row))) (filter (\<lambda>row. P (the (k_resolution_path row))) rows)"
  by (induction rows) auto

text \<open>The confirmed operations of a round: those that return tokens, and those that close it.\<close>

definition round_rows :: "kick_tx \<Rightarrow> kick_tx list \<Rightarrow> kick_tx list" where
  "round_rows kick rows =
     filter (\<lambda>row. k_round_kick_id row = Some (k_id kick) \<and> k_status row = ''CONFIRMED'') rows"

definition returns_tokens :: "kick_tx \<Rightarrow> bool" where
  "returns_tokens row \<longleftrightarrow> k_operation_type row = ''sweep_auction'' \<or>
     k_operation_type row = ''resolve_auction'' \<and> k_resolution_path row = Some 2"

lemma sum_mset_row_amount: "mset xs = mset ys \<Longrightarrow> sum_list (map row_amount xs) = sum_list (map row_amount ys)"
  by (metis mset_map sum_mset_sum_list)

text \<open>
  A round that reaches the evaluation of its close: everything the loops have checked, in
  terms of the rows themselves.
\<close>

lemma classify_round_reaches_close:
  assumes "classify_round isaddr kick rows = Inr ev" "ev_outcome ev \<in> {NO_FILL, PRODUCTIVE}"
  obtains requested kick_position kick_at sweeps recovered recovery_ids close where
    "k_operation_type kick = ''kick''" "k_status kick = ''CONFIRMED''"
    "raw_amount (k_requested_sell_amount kick) = Some requested"
    "raw_amount (k_sell_amount kick) = Some requested" "0 < requested"
    "row_position kick = Some kick_position"
    "\<forall>row \<in> set rows. k_round_kick_id row = Some (k_id kick) \<longrightarrow> k_status row \<noteq> ''SUBMITTED'' \<and> same_pair isaddr kick row"
    "\<forall>row \<in> set (round_rows kick rows). \<exists>p t. row_position row = Some p \<and> kick_position < p
       \<and> timestamp (k_mined_at row) = Some t"
    "mset (filter operation_closes_round (round_rows kick rows)) = {#close#}"
    "\<forall>row \<in> set (filter returns_tokens (round_rows kick rows)).
       raw_amount (k_sell_amount row) = Some (row_amount row) \<and> 0 \<le> row_amount row"
    "recovered = sum_list (map row_amount (filter returns_tokens (round_rows kick rows)))"
    "mset recovery_ids = mset (map k_id (filter returns_tokens (round_rows kick rows)))"
    "set sweeps = {row \<in> set (round_rows kick rows). k_operation_type row = ''sweep_auction''}"
    "classify_close kick requested requested kick_position kick_at sweeps recovered recovery_ids close = Inr ev"
proof -
  define linked where "linked = filter (\<lambda>row. k_round_kick_id row = Some (k_id kick)) rows"
  obtain requested kick_position kick_at confirmed paths recovered recovery_ids close where
    kick: "k_operation_type kick = ''kick''" "k_status kick = ''CONFIRMED''"
    and amounts: "raw_amount (k_requested_sell_amount kick) = Some requested"
      "raw_amount (k_sell_amount kick) = Some requested" "0 < requested"
    and pos: "row_position kick = Some kick_position"
    and pending: "\<forall>row \<in> set linked. k_status row \<noteq> ''SUBMITTED''"
    and confirmed: "confirmed_rows isaddr kick kick_position linked = Inr confirmed"
    and paths: "resolved_paths (filter (\<lambda>row. k_operation_type row = ''resolve_auction'') confirmed) = Inr paths"
    and recovered: "recovered_amounts (filter (\<lambda>row. k_operation_type row = ''sweep_auction'') confirmed
        @ map fst (filter (\<lambda>(row, path). path = 2) paths)) = Inr (recovered, recovery_ids)"
    and closes: "map fst (filter (\<lambda>(row, path). path \<in> ROUND_CLOSING_PATHS) paths)
        @ filter (\<lambda>row. k_operation_type row = ''auction_settled'') confirmed = [close]"
    and close: "classify_close kick requested requested kick_position kick_at
        (filter (\<lambda>row. k_operation_type row = ''sweep_auction'') confirmed) recovered recovery_ids close = Inr ev"
    using assms unfolding classify_round_def classify_confirmed_def Let_def linked_def [symmetric]
    by (auto simp: round_loop_defs split: if_splits option.splits sum.splits list.splits prod.splits)
  note c = confirmed_rows_Inr [OF confirmed]
  have confirmed_eq: "confirmed = round_rows kick rows"
    using c by (auto simp: linked_def round_rows_def)
  note p = resolved_paths_Inr [OF paths]
  have path_of: "\<exists>q. k_resolution_path row = Some q"
    if "row \<in> set confirmed" "k_operation_type row = ''resolve_auction''" for row
    using p that by auto
  note r = recovered_amounts_Inr [OF recovered]
  let ?recovery = "filter (\<lambda>row. k_operation_type row = ''sweep_auction'') confirmed
        @ map fst (filter (\<lambda>(row, path). path = 2) paths)"
  have recovery: "mset ?recovery = mset (filter returns_tokens (round_rows kick rows))"
    unfolding confirmed_eq [symmetric]
    by (subst mset_filter_split [of confirmed returns_tokens "\<lambda>row. k_operation_type row = ''sweep_auction''"
          "\<lambda>row. k_operation_type row = ''resolve_auction'' \<and> the (k_resolution_path row) = 2"])
      (use path_of p in \<open>auto simp: returns_tokens_def closing_path_filter o_def\<close>)
  have closing: "mset (filter operation_closes_round (round_rows kick rows)) = mset [close]"
    unfolding confirmed_eq [symmetric] closes [symmetric]
    by (subst mset_filter_split [of confirmed operation_closes_round
          "\<lambda>row. k_operation_type row = ''resolve_auction'' \<and> the (k_resolution_path row) \<in> ROUND_CLOSING_PATHS"
          "\<lambda>row. k_operation_type row = ''auction_settled''"])
      (use path_of p in \<open>auto simp: operation_closes_round_def closing_path_filter o_def\<close>)
  show ?thesis
  proof (rule that [OF kick amounts pos _ _ _ _ _ _ _ close])
    show "\<forall>row \<in> set rows. k_round_kick_id row = Some (k_id kick) \<longrightarrow> k_status row \<noteq> ''SUBMITTED'' \<and> same_pair isaddr kick row"
      using pending c by (auto simp: linked_def)
    show "\<forall>row \<in> set (round_rows kick rows). \<exists>p t. row_position row = Some p \<and> kick_position < p
        \<and> timestamp (k_mined_at row) = Some t"
      using c by (simp flip: confirmed_eq)
    show "mset (filter operation_closes_round (round_rows kick rows)) = {#close#}"
      using closing by simp
    show "\<forall>row \<in> set (filter returns_tokens (round_rows kick rows)).
        raw_amount (k_sell_amount row) = Some (row_amount row) \<and> 0 \<le> row_amount row"
      using r recovery by (metis set_mset_mset)
    show "recovered = sum_list (map row_amount (filter returns_tokens (round_rows kick rows)))"
      using r sum_mset_row_amount [OF recovery] by simp
    show "mset recovery_ids = mset (map k_id (filter returns_tokens (round_rows kick rows)))"
    proof -
      have "recovery_ids = map k_id ?recovery" using r by blast
      then show ?thesis by (simp only: mset_map recovery)
    qed
    show "set (filter (\<lambda>row. k_operation_type row = ''sweep_auction'') confirmed) =
        {row \<in> set (round_rows kick rows). k_operation_type row = ''sweep_auction''}"
      by (auto simp: confirmed_eq)
  qed
qed

section \<open>Correctness of the classification\<close>

lemma classify_close_total:
  assumes "row_position close = Some p" "timestamp (k_mined_at close) = Some t"
  shows "\<exists>ev. classify_close kick requested placed kp kt sweeps recovered ids close = Inr ev"
  using assms by (simp add: classify_close_def Let_def split: option.split)

text \<open>
  classify_round always returns evidence: its assertion on the close's chain position
  cannot fail.
\<close>

theorem classify_round_total: "\<exists>ev. classify_round isaddr kick rows = Inr ev"
proof -
  have close_total: "\<exists>ev. classify_close kick requested placed kp kt sweeps recovered ids close = Inr ev"
    if confirmed: "confirmed_rows isaddr kick kick_position linked = Inr confirmed"
      and paths: "resolved_paths (filter (\<lambda>row. k_operation_type row = ''resolve_auction'') confirmed) = Inr paths"
      and closes: "map fst (filter (\<lambda>(row, path). path \<in> ROUND_CLOSING_PATHS) paths)
        @ filter (\<lambda>row. k_operation_type row = ''auction_settled'') confirmed = [close]"
    for kick_position linked confirmed paths close requested placed kp kt sweeps recovered ids
  proof -
    have "close \<in> set (map fst (filter (\<lambda>(row, path). path \<in> ROUND_CLOSING_PATHS) paths)
        @ filter (\<lambda>row. k_operation_type row = ''auction_settled'') confirmed)"
      by (simp only: closes) simp
    then have "close \<in> set confirmed"
      using resolved_paths_Inr [OF paths] by auto
    then show ?thesis
      using confirmed_rows_Inr [OF confirmed] classify_close_total by blast
  qed
  show ?thesis
    unfolding classify_round_def classify_confirmed_def Let_def
    by (auto split: option.splits sum.splits list.splits prod.splits dest: close_total)
qed

text \<open>
  C1. A round classified NO_FILL or PRODUCTIVE has exactly one closing operation among its
  confirmed linked rows; the recovered amount is the sum of the token-returning rows plus
  the close, never exceeds the placed amount, and the outcome is NO_FILL exactly when it
  equals it; every linked row lies after the kick and no sweep after the close.
\<close>

theorem classify_round_settled:
  assumes "classify_round isaddr kick rows = Inr ev" "ev_outcome ev \<in> {NO_FILL, PRODUCTIVE}"
  shows "\<exists>close placed.
    filter operation_closes_round (round_rows kick rows) = [close]
    \<and> raw_amount (k_sell_amount kick) = Some placed \<and> raw_amount (k_requested_sell_amount kick) = Some placed
    \<and> 0 < placed
    \<and> ev_recovered_amount ev =
        Some (sum_list (map row_amount (filter returns_tokens (round_rows kick rows))) + row_amount close)
    \<and> sum_list (map row_amount (filter returns_tokens (round_rows kick rows))) + row_amount close \<le> placed
    \<and> (ev_outcome ev = NO_FILL \<longleftrightarrow>
        sum_list (map row_amount (filter returns_tokens (round_rows kick rows))) + row_amount close = placed)
    \<and> mset (ev_recovery_ids ev) = mset (map k_id (filter returns_tokens (round_rows kick rows))) + {#k_id close#}
    \<and> ev_close_id ev = Some (k_id close) \<and> ev_close_position ev = row_position close
    \<and> ev_close_at ev = timestamp (k_mined_at close) \<and> ev_close_at ev \<noteq> None
    \<and> (\<forall>row \<in> set (round_rows kick rows). row_position kick < row_position row)
    \<and> (\<forall>row \<in> set (round_rows kick rows). k_operation_type row = ''sweep_auction'' \<longrightarrow>
        row_position row \<le> row_position close)"
proof (rule classify_round_reaches_close [OF assms])
  fix requested kick_position kick_at sweeps recovered recovery_ids close
  assume amounts: "raw_amount (k_requested_sell_amount kick) = Some requested"
      "raw_amount (k_sell_amount kick) = Some requested" "0 < requested"
    and pos: "row_position kick = Some kick_position"
    and later: "\<forall>row \<in> set (round_rows kick rows). \<exists>p t. row_position row = Some p \<and> kick_position < p
       \<and> timestamp (k_mined_at row) = Some t"
    and closes: "mset (filter operation_closes_round (round_rows kick rows)) = {#close#}"
    and recovered: "recovered = sum_list (map row_amount (filter returns_tokens (round_rows kick rows)))"
    and ids: "mset recovery_ids = mset (map k_id (filter returns_tokens (round_rows kick rows)))"
    and sweeps: "set sweeps = {row \<in> set (round_rows kick rows). k_operation_type row = ''sweep_auction''}"
    and close: "classify_close kick requested requested kick_position kick_at sweeps recovered recovery_ids close = Inr ev"
  have closes': "filter operation_closes_round (round_rows kick rows) = [close]"
    using closes by (metis mset_single_iff)
  then have "close \<in> set (round_rows kick rows)" by (metis filter_is_subset in_mono list.set_intros(1))
  then obtain cp ct where cp: "row_position close = Some cp" "timestamp (k_mined_at close) = Some ct"
    using later by blast
  have order: "\<forall>row \<in> set (round_rows kick rows). k_operation_type row = ''sweep_auction'' \<longrightarrow>
      row_position row \<le> row_position close"
    if "\<not> (\<exists>row \<in> set sweeps. case row_position row of None \<Rightarrow> False | Some p \<Rightarrow> cp < p)"
    using that later unfolding sweeps cp by (fastforce simp: not_less)
  have after: "\<forall>row \<in> set (round_rows kick rows). row_position kick < row_position row"
    using later pos by fastforce
  show ?thesis
    using close assms(2) closes' amounts order after ids recovered
    by (auto simp: classify_close_def Let_def cp round_loop_defs row_amount_def split: if_splits option.splits)
qed

end
