(* ===== verification/KickStore.thy ===== *)
theory KickStore
  imports Rounds
begin

text \<open>
  The repository of \<open>kick_txs\<close> rows, \<open>KickTxRepository\<close> in
  \<open>tidal/persistence/repositories.py\<close>. The table is the list of its rows in rowid order;
  \<open>SELECT ... ORDER BY\<close> is a filter and a stable sort, \<open>NULL\<close> sorts first as in SQLite, and
  \<open>first()\<close> without an order is the first row in rowid order. A commit has no counterpart:
  an operation returns the new table, and a caller that rolls back keeps the old one. The
  locale \<open>row_store\<close> is the contract the clients of such a table rely on.
\<close>

section \<open>The contract of a keyed table\<close>

locale row_store =
  fixes wf :: "'t \<Rightarrow> bool"
    and lookup :: "'t \<Rightarrow> int \<Rightarrow> 'r option"
    and ins :: "'r \<Rightarrow> 't \<Rightarrow> 't \<times> int"
    and upd :: "int \<Rightarrow> ('r \<Rightarrow> 'r) \<Rightarrow> 't \<Rightarrow> 't"
    and key :: "'r \<Rightarrow> int"
    and stamp :: "int \<Rightarrow> 'r \<Rightarrow> 'r"
  assumes wf_ins: "wf t \<Longrightarrow> wf (fst (ins r t))"
    and ins_fresh: "wf t \<Longrightarrow> lookup t (snd (ins r t)) = None"
    and lookup_ins: "wf t \<Longrightarrow> lookup (fst (ins r t)) i =
      (if i = snd (ins r t) then Some (stamp i r) else lookup t i)"
    and lookup_key: "lookup t i = Some r \<Longrightarrow> key r = i"
    and wf_upd: "wf t \<Longrightarrow> (\<And>r. key (f r) = key r) \<Longrightarrow> wf (upd i f t)"
    and lookup_upd: "wf t \<Longrightarrow> (\<And>r. key (f r) = key r) \<Longrightarrow>
      lookup (upd i f t) j = (if i = j then map_option f (lookup t j) else lookup t j)"
begin

lemma ins_keeps: "wf t \<Longrightarrow> lookup t i = Some r' \<Longrightarrow> lookup (fst (ins r t)) i = Some r'"
  using ins_fresh [of t r] lookup_ins [of t r i] by auto

lemma upd_keeps: "wf t \<Longrightarrow> (\<And>r. key (f r) = key r) \<Longrightarrow> i \<noteq> j \<Longrightarrow> lookup (upd i f t) j = lookup t j"
  by (simp add: lookup_upd)

lemma upd_dom: "wf t \<Longrightarrow> (\<And>r. key (f r) = key r) \<Longrightarrow> dom (lookup (upd i f t)) = dom (lookup t)"
  by (auto simp: lookup_upd dom_def split: if_splits)

lemma upd_twice:
  assumes "wf t" "\<And>r. key (f r) = key r" "\<And>r. f (f r) = f r"
  shows "lookup (upd i f (upd i f t)) = lookup (upd i f t)"
  using assms by (intro ext) (simp add: lookup_upd wf_upd option.map_comp comp_def)

text \<open>A batch of updates, each of one row, in order.\<close>

lemma wf_updates:
  "wf t \<Longrightarrow> \<forall>(i, f) \<in> set us. \<forall>r. key (f r) = key r \<Longrightarrow> wf (fold (\<lambda>(i, f). upd i f) us t)"
  by (induction us arbitrary: t) (auto simp: wf_upd)

lemma updates_keep:
  "wf t \<Longrightarrow> \<forall>(i, f) \<in> set us. \<forall>r. key (f r) = key r \<Longrightarrow> j \<notin> fst ` set us \<Longrightarrow>
     lookup (fold (\<lambda>(i, f). upd i f) us t) j = lookup t j"
proof (induction us arbitrary: t)
  case (Cons u us)
  then show ?case by (cases u) (simp add: wf_upd lookup_upd)
qed simp

end

section \<open>Rows by id\<close>

definition kick_get :: "kick_tx list \<Rightarrow> int \<Rightarrow> kick_tx option" where
  "kick_get rows kick_tx_id = find (\<lambda>row. k_id row = kick_tx_id) rows"

text \<open>The next rowid of an integer primary key: one more than the greatest.\<close>

definition next_rowid :: "kick_tx list \<Rightarrow> int" where
  "next_rowid rows = (if rows = [] then 1 else Max (set (map k_id rows)) + 1)"

definition kick_insert :: "kick_tx \<Rightarrow> kick_tx list \<Rightarrow> kick_tx list \<times> int" where
  "kick_insert row rows = (rows @ [row\<lparr>k_id := next_rowid rows\<rparr>], next_rowid rows)"

definition kick_update_fields :: "int \<Rightarrow> (kick_tx \<Rightarrow> kick_tx) \<Rightarrow> kick_tx list \<Rightarrow> kick_tx list" where
  "kick_update_fields kick_tx_id values rows =
     map (\<lambda>row. if k_id row = kick_tx_id then values row else row) rows"

definition kick_update_status ::
  "int \<Rightarrow> string \<Rightarrow> string option \<Rightarrow> int option \<Rightarrow> string option \<Rightarrow> int option \<Rightarrow> string option
     \<Rightarrow> kick_tx list \<Rightarrow> kick_tx list" where
  "kick_update_status kick_tx_id status tx_hash gas_used gas_price_gwei block_number error_message =
     kick_update_fields kick_tx_id (\<lambda>row.
       let row = row\<lparr>k_status := status\<rparr>;
           row = (if tx_hash \<noteq> None then row\<lparr>k_tx_hash := tx_hash\<rparr> else row);
           row = (if gas_used \<noteq> None then row\<lparr>k_gas_used := gas_used\<rparr> else row);
           row = (if gas_price_gwei \<noteq> None then row\<lparr>k_gas_price_gwei := gas_price_gwei\<rparr> else row);
           row = (if block_number \<noteq> None then row\<lparr>k_block_number := block_number\<rparr> else row)
       in if error_message \<noteq> None then row\<lparr>k_error_message := error_message\<rparr> else row)"

definition kick_table_wf :: "kick_tx list \<Rightarrow> bool" where
  "kick_table_wf rows \<longleftrightarrow> distinct (map k_id rows)"

lemma find_Some_iff_unique:
  "distinct (map k_id rows) \<Longrightarrow> kick_get rows i = Some row \<longleftrightarrow> row \<in> set rows \<and> k_id row = i"
proof (induction rows)
  case (Cons a rows)
  then show ?case by (auto simp: kick_get_def image_iff)
qed (simp add: kick_get_def)

lemma kick_get_None: "kick_get rows i = None \<longleftrightarrow> i \<notin> set (map k_id rows)"
  by (auto simp: kick_get_def find_None_iff)

lemma kick_get_key: "kick_get rows i = Some row \<Longrightarrow> k_id row = i \<and> row \<in> set rows"
  by (auto simp: kick_get_def find_Some_iff)

lemma next_rowid_greater: "row \<in> set rows \<Longrightarrow> k_id row < next_rowid rows"
  by (auto simp: next_rowid_def intro: le_imp_less_Suc Max_ge order.strict_trans1)

lemma kick_get_append:
  "kick_get (rows @ [row]) i = (case kick_get rows i of Some r \<Rightarrow> Some r
     | None \<Rightarrow> if k_id row = i then Some row else None)"
  by (induction rows) (auto simp: kick_get_def)

lemma kick_get_update:
  "(\<And>r. k_id (f r) = k_id r) \<Longrightarrow> kick_get (kick_update_fields i f rows) j =
     (if i = j then map_option f (kick_get rows j) else kick_get rows j)"
  by (induction rows) (auto simp: kick_get_def kick_update_fields_def)

lemma map_k_id_update [simp]:
  "(\<And>r. k_id (f r) = k_id r) \<Longrightarrow> map k_id (kick_update_fields i f rows) = map k_id rows"
  by (simp add: kick_update_fields_def)

interpretation kick_store: row_store kick_table_wf kick_get kick_insert kick_update_fields k_id
  "\<lambda>i row. row\<lparr>k_id := i\<rparr>"
proof
  fix t r
  assume wf: "kick_table_wf t"
  have "next_rowid t \<notin> set (map k_id t)" using next_rowid_greater by fastforce
  then have none: "kick_get t (next_rowid t) = None" by (simp add: kick_get_None)
  then show "kick_get t (snd (kick_insert r t)) = None" by (simp add: kick_insert_def)
  show "kick_table_wf (fst (kick_insert r t))"
    using wf \<open>next_rowid t \<notin> set (map k_id t)\<close> by (simp add: kick_table_wf_def kick_insert_def)
  show "kick_get (fst (kick_insert r t)) i =
      (if i = snd (kick_insert r t) then Some (r\<lparr>k_id := i\<rparr>) else kick_get t i)" for i
    using none by (auto simp: kick_insert_def kick_get_append split: option.split)
next
  show "kick_get t i = Some r \<Longrightarrow> k_id r = i" for t i r by (simp add: kick_get_key)
  show "kick_table_wf t \<Longrightarrow> (\<And>r. k_id (f r) = k_id r) \<Longrightarrow> kick_table_wf (kick_update_fields i f t)" for t f i
    by (simp add: kick_table_wf_def)
  show "kick_table_wf t \<Longrightarrow> (\<And>r. k_id (f r) = k_id r) \<Longrightarrow> kick_get (kick_update_fields i f t) j =
      (if i = j then map_option f (kick_get t j) else kick_get t j)" for t f i j
    by (rule kick_get_update)
qed

section \<open>Queries\<close>

definition find_by_run_and_identity ::
  "kick_tx list \<Rightarrow> string \<Rightarrow> string \<Rightarrow> string \<Rightarrow> string \<Rightarrow> string \<Rightarrow> kick_tx option" where
  "find_by_run_and_identity rows run_id operation_type auction_address token_address tx_hash =
     find (\<lambda>row. k_run_id row = run_id \<and> k_operation_type row = operation_type
       \<and> k_auction_address row = auction_address \<and> k_token_address row = token_address
       \<and> k_tx_hash row = Some tx_hash) rows"

definition list_by_tx_hash :: "kick_tx list \<Rightarrow> string \<Rightarrow> kick_tx list" where
  "list_by_tx_hash rows tx_hash = sort_key k_id (filter (\<lambda>row. k_tx_hash row = Some tx_hash) rows)"

definition list_submitted :: "kick_tx list \<Rightarrow> kick_tx list" where
  "list_submitted rows = sort_key created_key
     (filter (\<lambda>row. k_status row = ''SUBMITTED'' \<and> k_tx_hash row \<noteq> None) rows)"

definition list_confirmed_kicks :: "kick_tx list \<Rightarrow> kick_tx list" where
  "list_confirmed_kicks rows = sort_key
     (\<lambda>row. (k_auction_address row, k_token_address row, k_block_number row, k_transaction_index row, k_id row))
     (filter (\<lambda>row. k_operation_type row = ''kick'' \<and> k_status row = ''CONFIRMED'') rows)"

definition ROUND_OPERATION_TYPES :: "string set" where
  "ROUND_OPERATION_TYPES = {''kick'', ''resolve_auction'', ''sweep_auction'', ''auction_settled''}"

definition list_round_operations :: "kick_tx list \<Rightarrow> kick_tx list" where
  "list_round_operations rows = sort_key k_id
     (filter (\<lambda>row. k_operation_type row \<in> ROUND_OPERATION_TYPES) rows)"

definition find_exact_operation ::
  "kick_tx list \<Rightarrow> string \<Rightarrow> string \<Rightarrow> string \<Rightarrow> string \<Rightarrow> kick_tx option" where
  "find_exact_operation rows operation_type tx_hash auction_address token_address =
     find (\<lambda>row. k_operation_type row = operation_type \<and> k_tx_hash row = Some tx_hash
       \<and> k_auction_address row = auction_address \<and> k_token_address row = token_address) rows"

definition list_pair_operations :: "kick_tx list \<Rightarrow> string \<Rightarrow> string \<Rightarrow> kick_tx list" where
  "list_pair_operations rows auction_address token_address = sort_key created_key
     (filter (\<lambda>row. k_auction_address row = auction_address \<and> k_token_address row = token_address
       \<and> k_operation_type row \<in> ROUND_OPERATION_TYPES) rows)"

definition last_kick_for_auction_token :: "kick_tx list \<Rightarrow> string \<Rightarrow> string \<Rightarrow> kick_tx option" where
  "last_kick_for_auction_token rows auction_address token_address =
     (case sort_desc k_created_at (filter (\<lambda>row. k_operation_type row = ''kick''
         \<and> k_auction_address row = auction_address \<and> k_token_address row = token_address
         \<and> k_status row \<in> {''CONFIRMED'', ''SUBMITTED''}) rows) of
        [] \<Rightarrow> None | row # _ \<Rightarrow> Some row)"

text \<open>\<open>int(value or -1)\<close>: both \<open>NULL\<close> and zero give -1.\<close>

definition or_minus_one :: "int option \<Rightarrow> int" where
  "or_minus_one v = (case v of None \<Rightarrow> -1 | Some i \<Rightarrow> if i = 0 then -1 else i)"

definition latest_confirmed_unclosed_kick ::
  "kick_tx list \<Rightarrow> string \<Rightarrow> string \<Rightarrow> position option \<Rightarrow> kick_tx option" where
  "latest_confirmed_unclosed_kick table auction_address token_address before_position =
     (let rows = list_pair_operations table auction_address token_address;
          candidates = filter (\<lambda>row.
            k_operation_type row = ''kick'' \<and> k_status row = ''CONFIRMED''
            \<and> (\<not> (\<exists>close \<in> set rows. k_round_kick_id close = Some (k_id row)
                 \<and> k_status close = ''CONFIRMED'' \<and> operation_closes_round close))
            \<and> (case before_position of None \<Rightarrow> True
               | Some before \<Rightarrow> (case row_position row of None \<Rightarrow> False | Some p \<Rightarrow> p < before))) rows
      in case sort_desc (\<lambda>row. (or_minus_one (k_block_number row), or_minus_one (k_transaction_index row), k_id row))
            candidates of
           [] \<Rightarrow> None | row # _ \<Rightarrow> Some row)"

section \<open>The round a closing operation belongs to\<close>

text \<open>
  The kick a closing operation is linked to is a confirmed kick of the pair, strictly
  before the given position, that no confirmed closing operation names.
\<close>

theorem latest_confirmed_unclosed_kick_spec:
  assumes "latest_confirmed_unclosed_kick table auction token before = Some kick"
  shows "kick \<in> set table \<and> k_auction_address kick = auction \<and> k_token_address kick = token
    \<and> k_operation_type kick = ''kick'' \<and> k_status kick = ''CONFIRMED''
    \<and> (before = None \<or> (\<exists>p. row_position kick = Some p \<and> p < the before))
    \<and> \<not> (\<exists>close \<in> set (list_pair_operations table auction token).
          k_round_kick_id close = Some (k_id kick) \<and> k_status close = ''CONFIRMED'' \<and> operation_closes_round close)"
proof -
  define rows where "rows = list_pair_operations table auction token"
  obtain rest where "sort_desc (\<lambda>row. (or_minus_one (k_block_number row), or_minus_one (k_transaction_index row), k_id row))
      (filter (\<lambda>row. k_operation_type row = ''kick'' \<and> k_status row = ''CONFIRMED''
        \<and> \<not> (\<exists>close \<in> set rows. k_round_kick_id close = Some (k_id row)
              \<and> k_status close = ''CONFIRMED'' \<and> operation_closes_round close)
        \<and> (case before of None \<Rightarrow> True
           | Some b \<Rightarrow> (case row_position row of None \<Rightarrow> False | Some p \<Rightarrow> p < b))) rows) = kick # rest"
    using assms unfolding latest_confirmed_unclosed_kick_def Let_def rows_def [symmetric]
    by (auto split: list.splits)
  from sort_desc_hd_greatest [OF this, THEN conjunct1]
  have kick: "kick \<in> set rows" "k_operation_type kick = ''kick''" "k_status kick = ''CONFIRMED''"
    "\<not> (\<exists>close \<in> set rows. k_round_kick_id close = Some (k_id kick)
        \<and> k_status close = ''CONFIRMED'' \<and> operation_closes_round close)"
    "case before of None \<Rightarrow> True | Some b \<Rightarrow> (case row_position kick of None \<Rightarrow> False | Some p \<Rightarrow> p < b)"
    by simp_all
  have "before = None \<or> (\<exists>p. row_position kick = Some p \<and> p < the before)"
    using kick(5) by (cases before; cases "row_position kick") simp_all
  moreover have "kick \<in> set table" "k_auction_address kick = auction" "k_token_address kick = token"
    using kick(1) by (simp_all add: rows_def list_pair_operations_def)
  ultimately show ?thesis using kick(2-4) unfolding rows_def by blast
qed

theorem latest_confirmed_unclosed_kick_spec_witness:
  "let kick = empty_kick_tx\<lparr>k_id := 1, k_auction_address := ''a'', k_token_address := ''t'',
         k_status := ''CONFIRMED'', k_block_number := Some 7, k_transaction_index := Some 0\<rparr>;
       table = [kick, empty_kick_tx\<lparr>k_id := 2, k_auction_address := ''a'', k_token_address := ''t'',
         k_operation_type := ''auction_settled'', k_status := ''CONFIRMED'', k_round_kick_id := Some 9\<rparr>]
   in latest_confirmed_unclosed_kick table ''a'' ''t'' (Some (8, 0)) = Some kick
      \<and> \<not> (\<exists>close \<in> set (list_pair_operations table ''a'' ''t'').
          k_round_kick_id close = Some (k_id kick) \<and> k_status close = ''CONFIRMED'' \<and> operation_closes_round close)"
proof -
  define kick where "kick = empty_kick_tx\<lparr>k_id := 1, k_auction_address := ''a'', k_token_address := ''t'',
         k_status := ''CONFIRMED'', k_block_number := Some 7, k_transaction_index := Some 0\<rparr>"
  define table where "table = [kick, empty_kick_tx\<lparr>k_id := 2, k_auction_address := ''a'', k_token_address := ''t'',
         k_operation_type := ''auction_settled'', k_status := ''CONFIRMED'', k_round_kick_id := Some 9\<rparr>]"
  have "latest_confirmed_unclosed_kick table ''a'' ''t'' (Some (8, 0)) = Some kick"
    unfolding table_def kick_def by code_simp
  from latest_confirmed_unclosed_kick_spec [OF this] this show ?thesis
    by (simp add: Let_def flip: kick_def table_def)
qed

end
