(* ===== verification/NoFill.thy ===== *)
theory NoFill
  imports KickStore
begin

text \<open>
  The bounded no-fill retry policy, \<open>classify_pair_operations\<close>, \<open>plan_no_fill_suspension_clear\<close>
  and \<open>NoFillGuard\<close> of \<open>tidal/auction_rounds.py\<close>, with the operator command
  \<open>clear-no-fill-suspension\<close> of \<open>tidal/server_cli.py\<close>. The pair's history is the table's rows
  for the pair; delays are minutes, times are UTC instants. \<open>now\<close> is the optional argument of
  \<open>decide\<close> and \<open>clock\<close> the value \<open>datetime.now\<close> would return.
\<close>

datatype no_fill_action = ALLOW | DEFER | BLOCK

datatype no_fill_reason =
    INITIAL | PRODUCTIVE_RESET | RETRY_DUE | RETRY_NOT_DUE | RETRY_EXHAUSTED
  | OUTCOME_UNKNOWN | ROUND_INCOMPLETE | MANUAL_RETRY_OVERRIDE

record round_sequence =
  rs_rounds :: "round_evidence list"
  rs_consecutive_no_fills :: nat
  rs_terminal_outcome :: "round_outcome option"

record no_fill_decision =
  nf_action :: no_fill_action
  nf_reason_code :: no_fill_reason
  nf_auction_address :: string
  nf_token_address :: string
  nf_consecutive_no_fills :: nat
  nf_retry_ordinal :: "nat option"
  nf_retry_total :: nat
  nf_retry_at :: "instant option"
  nf_first_evidence_at :: "instant option"
  nf_latest_evidence_at :: "instant option"
  nf_kick_ids :: "int list"
  nf_recovery_ids :: "int list"
  nf_sequence :: round_sequence

record clear_plan =
  cp_baseline_kick_id :: int
  cp_newer_kick_ids :: "int list"

fun plan_clear_loop :: "int list \<Rightarrow> round_evidence list \<Rightarrow> clear_plan result" where
  "plan_clear_loop newer [] = Inl (ValueError ''no completed no-fill round is available to clear'')"
| "plan_clear_loop newer (evidence # rest) =
     (case ev_outcome evidence of
        NO_FILL \<Rightarrow> Inr \<lparr>cp_baseline_kick_id = ev_kick_id evidence, cp_newer_kick_ids = newer\<rparr>
      | INCOMPLETE \<Rightarrow> plan_clear_loop (newer @ [ev_kick_id evidence]) rest
      | UNKNOWN \<Rightarrow> Inl (ValueError (''cannot clear across ambiguous round '' @ show_int (ev_kick_id evidence)
          @ '': '' @ ev_reason_code evidence))
      | PRODUCTIVE \<Rightarrow> Inl (ValueError ''no no-fill suspension to clear after the latest productive round''))"

definition plan_no_fill_suspension_clear :: "(string \<Rightarrow> bool) \<Rightarrow> kick_tx list \<Rightarrow> clear_plan result" where
  "plan_no_fill_suspension_clear isaddr rows =
     err_bind (current_pair_rounds isaddr rows) (plan_clear_loop [])"

text \<open>The loop of \<open>classify_pair_operations\<close> with its three accumulators.\<close>

fun sequence_loop ::
  "round_evidence list \<Rightarrow> nat \<Rightarrow> round_outcome option \<Rightarrow> round_evidence list \<Rightarrow> round_sequence" where
  "sequence_loop rounds n terminal [] =
     \<lparr>rs_rounds = rounds, rs_consecutive_no_fills = n, rs_terminal_outcome = terminal\<rparr>"
| "sequence_loop rounds n terminal (evidence # rest) =
     (let rounds = rounds @ [evidence]; terminal = Some (ev_outcome evidence)
      in if ev_outcome evidence = NO_FILL then sequence_loop rounds (n + 1) terminal rest
         else \<lparr>rs_rounds = rounds, rs_consecutive_no_fills = n, rs_terminal_outcome = terminal\<rparr>)"

definition classify_pair_operations :: "(string \<Rightarrow> bool) \<Rightarrow> kick_tx list \<Rightarrow> round_sequence result" where
  "classify_pair_operations isaddr rows =
     err_bind (current_pair_rounds isaddr rows) (\<lambda>current_rounds. Inr (sequence_loop [] 0 None current_rounds))"

definition min_list_option :: "'a::linorder list \<Rightarrow> 'a option" where
  "min_list_option xs = (if xs = [] then None else Some (Min (set xs)))"

definition max_list_option :: "'a::linorder list \<Rightarrow> 'a option" where
  "max_list_option xs = (if xs = [] then None else Some (Max (set xs)))"

definition some_list :: "'a option \<Rightarrow> 'a list" where
  "some_list x = (case x of None \<Rightarrow> [] | Some v \<Rightarrow> [v])"

definition no_fill_decision_of ::
  "string \<Rightarrow> string \<Rightarrow> nat \<Rightarrow> round_sequence \<Rightarrow> no_fill_action \<Rightarrow> no_fill_reason \<Rightarrow> nat option \<Rightarrow> instant option
     \<Rightarrow> no_fill_decision" where
  "no_fill_decision_of auction token retry_total sequence action reason retry_ordinal retry_at =
     (let evidence_times = concat (map (\<lambda>r. some_list (ev_kick_at r) @ some_list (ev_close_at r)) (rs_rounds sequence))
      in \<lparr>nf_action = action, nf_reason_code = reason, nf_auction_address = auction, nf_token_address = token,
          nf_consecutive_no_fills = rs_consecutive_no_fills sequence, nf_retry_ordinal = retry_ordinal,
          nf_retry_total = retry_total, nf_retry_at = retry_at,
          nf_first_evidence_at = min_list_option evidence_times,
          nf_latest_evidence_at = max_list_option evidence_times,
          nf_kick_ids = map ev_kick_id (rs_rounds sequence),
          nf_recovery_ids = concat (map ev_recovery_ids (rs_rounds sequence)),
          nf_sequence = sequence\<rparr>)"

definition no_fill_guard_decide ::
  "(string \<Rightarrow> bool) \<Rightarrow> int list \<Rightarrow> instant \<Rightarrow> kick_tx list \<Rightarrow> string \<Rightarrow> string \<Rightarrow> instant option \<Rightarrow> bool
     \<Rightarrow> no_fill_decision result" where
  "no_fill_guard_decide isaddr retry_delays_minutes clock table auction_address token_address now allow_exhausted_retry =
     err_bind (normalize_address isaddr auction_address) (\<lambda>normalized_auction.
     err_bind (normalize_address isaddr token_address) (\<lambda>normalized_token.
     err_bind (classify_pair_operations isaddr (list_pair_operations table normalized_auction normalized_token)) (\<lambda>sequence.
     let retry_total = length retry_delays_minutes;
         decision = no_fill_decision_of normalized_auction normalized_token retry_total sequence in
     (case rs_rounds sequence of
       [] \<Rightarrow> Inr (decision ALLOW INITIAL None None)
     | latest # _ \<Rightarrow>
       if ev_outcome latest = PRODUCTIVE then Inr (decision ALLOW PRODUCTIVE_RESET None None)
       else (case find (\<lambda>r. ev_outcome r \<in> {UNKNOWN, INCOMPLETE}) (rs_rounds sequence) of
         Some barrier \<Rightarrow>
           if ev_outcome barrier = UNKNOWN then Inr (decision BLOCK OUTCOME_UNKNOWN None None)
           else Inr (decision BLOCK ROUND_INCOMPLETE None None)
       | None \<Rightarrow>
         let n = rs_consecutive_no_fills sequence in
         if retry_total < n then
           (if allow_exhausted_retry then Inr (decision ALLOW MANUAL_RETRY_OVERRIDE None None)
            else Inr (decision BLOCK RETRY_EXHAUSTED None None))
         else (case ev_close_at latest of
           None \<Rightarrow> Inr (decision BLOCK OUTCOME_UNKNOWN None None)
         | Some latest_close \<Rightarrow>
             err_bind (py_index retry_delays_minutes (int n - 1)) (\<lambda>minutes.
             let retry_at = latest_close + minutes * usec_per_minute;
                 current_time = (case now of None \<Rightarrow> clock | Some t \<Rightarrow> t)
             in if retry_at \<le> current_time then Inr (decision ALLOW RETRY_DUE (Some n) (Some retry_at))
                else Inr (decision DEFER RETRY_NOT_DUE (Some n) (Some retry_at)))))))))"

text \<open>The rows the operator command writes when it applies the plan.\<close>

definition apply_no_fill_suspension_clear ::
  "(string \<Rightarrow> bool) \<Rightarrow> string \<Rightarrow> string \<Rightarrow> string \<Rightarrow> kick_tx list \<Rightarrow> kick_tx list result" where
  "apply_no_fill_suspension_clear isaddr reviewed_at auction_address token_address table =
     err_bind (plan_no_fill_suspension_clear isaddr (list_pair_operations table auction_address token_address)) (\<lambda>plan.
     Inr (kick_update_fields (cp_baseline_kick_id plan)
       (\<lambda>row. row\<lparr>k_historical_baseline := 1,
          k_historical_baseline_reason := Some ''OPERATOR_CLEARED_NO_FILL_SUSPENSION'',
          k_historical_baselined_at := Some reviewed_at\<rparr>) table))"

section \<open>The run of no-fills\<close>

abbreviation is_no_fill :: "round_evidence \<Rightarrow> bool" where
  "is_no_fill evidence \<equiv> ev_outcome evidence = NO_FILL"

lemma sequence_loop_run:
  "rs_rounds (sequence_loop rounds n terminal evs) =
     rounds @ takeWhile is_no_fill evs @ take 1 (dropWhile is_no_fill evs)"
  "rs_consecutive_no_fills (sequence_loop rounds n terminal evs) = n + length (takeWhile is_no_fill evs)"
  by (induction evs arbitrary: rounds n terminal) (simp_all add: Let_def)

lemma classify_kicks_total: "\<exists>evs. classify_kicks isaddr rows closes newer kicks = Inr evs"
proof (induction kicks arbitrary: newer)
  case (Cons kick kicks)
  obtain ev where "(if has_unlinked_close closes newer kick then Inr (unknown_round kick ''UNLINKED_LOGICAL_CLOSE'')
      else classify_round isaddr kick rows) = Inr ev"
    using classify_round_total [of isaddr kick rows]
    by (cases "has_unlinked_close closes newer kick") auto
  moreover obtain evs where "classify_kicks isaddr rows closes (Some kick) kicks = Inr evs"
    using Cons.IH by blast
  ultimately show ?case by simp
qed simp

lemma current_pair_rounds_total: "\<exists>evs. current_pair_rounds isaddr rows = Inr evs"
  using classify_kicks_total [of isaddr rows "unlinked_closes rows" None "pair_kicks rows"]
  by (auto simp: current_pair_rounds_def classify_pair_rounds_def)

lemma classify_kicks_each:
  "classify_kicks isaddr rows closes newer kicks = Inr evs \<Longrightarrow> ev \<in> set evs \<Longrightarrow>
     (\<exists>kick \<in> set kicks. ev = unknown_round kick ''UNLINKED_LOGICAL_CLOSE'' \<or> classify_round isaddr kick rows = Inr ev)"
proof (induction kicks arbitrary: newer evs)
  case (Cons kick kicks)
  from Cons.prems(1) obtain e es where
    e: "(if has_unlinked_close closes newer kick then Inr (unknown_round kick ''UNLINKED_LOGICAL_CLOSE'')
      else classify_round isaddr kick rows) = Inr e"
    and es: "classify_kicks isaddr rows closes (Some kick) kicks = Inr es" and evs: "evs = e # es"
    by (auto simp: err_simps)
  show ?case
  proof (cases "ev = e")
    case True
    with e show ?thesis by (auto split: if_splits)
  next
    case False
    then have "ev \<in> set es" using Cons.prems(2) evs by simp
    from Cons.IH [OF es this] show ?thesis by auto
  qed
qed simp

lemma classify_round_kick_id: "classify_round isaddr kick rows = Inr ev \<Longrightarrow> ev_kick_id ev = k_id kick"
  by (auto simp: classify_round_def classify_confirmed_def classify_close_def Let_def round_loop_defs
      split: if_splits option.splits sum.splits list.splits prod.splits)

lemma classify_kicks_ids:
  "classify_kicks isaddr rows closes newer kicks = Inr evs \<Longrightarrow> map ev_kick_id evs = map k_id kicks"
  by (induction kicks arbitrary: newer evs)
    (auto simp: err_simps classify_round_kick_id unknown_round_def bare_evidence_def split: if_splits)

lemma current_no_fill_closed:
  assumes "current_pair_rounds isaddr rows = Inr rounds" "ev \<in> set rounds" "is_no_fill ev"
  shows "\<exists>t. ev_close_at ev = Some t"
proof -
  obtain evs where "classify_kicks isaddr rows (unlinked_closes rows) None (pair_kicks rows) = Inr evs"
    "ev \<in> set evs"
    using assms by (auto simp: current_pair_rounds_def classify_pair_rounds_def err_simps dest: set_takeWhileD)
  then obtain kick where "ev = unknown_round kick ''UNLINKED_LOGICAL_CLOSE'' \<or> classify_round isaddr kick rows = Inr ev"
    using classify_kicks_each by blast
  with assms(3) show ?thesis
    using classify_round_settled [of isaddr kick rows ev] by (auto simp: unknown_round_def bare_evidence_def)
qed

section \<open>The verdict on the current rounds\<close>

text \<open>What the guard decides, as a function of the pair's rounds alone.\<close>

definition guard_verdict ::
  "int list \<Rightarrow> instant \<Rightarrow> bool \<Rightarrow> round_evidence list \<Rightarrow>
     no_fill_action \<times> no_fill_reason \<times> nat option \<times> instant option" where
  "guard_verdict delays t override rounds =
     (let run = takeWhile is_no_fill rounds; rest = dropWhile is_no_fill rounds; n = length run
      in if rounds = [] then (ALLOW, INITIAL, None, None)
         else if run = [] \<and> ev_outcome (hd rest) = PRODUCTIVE then (ALLOW, PRODUCTIVE_RESET, None, None)
         else if rest \<noteq> [] \<and> ev_outcome (hd rest) = UNKNOWN then (BLOCK, OUTCOME_UNKNOWN, None, None)
         else if rest \<noteq> [] \<and> ev_outcome (hd rest) = INCOMPLETE then (BLOCK, ROUND_INCOMPLETE, None, None)
         else if length delays < n
         then (if override then (ALLOW, MANUAL_RETRY_OVERRIDE, None, None) else (BLOCK, RETRY_EXHAUSTED, None, None))
         else let retry_at = the (ev_close_at (hd rounds)) + delays ! (n - 1) * usec_per_minute
              in if retry_at \<le> t then (ALLOW, RETRY_DUE, Some n, Some retry_at)
                 else (DEFER, RETRY_NOT_DUE, Some n, Some retry_at))"

lemma find_barrier:
  assumes "\<forall>ev \<in> set run. is_no_fill ev"
  shows "find (\<lambda>r. ev_outcome r \<in> {UNKNOWN, INCOMPLETE}) (run @ take 1 rest) =
    (if rest \<noteq> [] \<and> ev_outcome (hd rest) \<in> {UNKNOWN, INCOMPLETE} then Some (hd rest) else None)"
  using assms by (induction run) (cases rest; auto)+

lemma no_fill_guard_verdict:
  assumes "isaddr auction" "isaddr token"
    and "current_pair_rounds isaddr (list_pair_operations table (str_lower auction) (str_lower token)) = Inr rounds"
  shows "no_fill_guard_decide isaddr delays clock table auction token now override =
    (case guard_verdict delays (case now of None \<Rightarrow> clock | Some t \<Rightarrow> t) override rounds of
       (action, reason, ordinal, retry_at) \<Rightarrow>
         Inr (no_fill_decision_of (str_lower auction) (str_lower token) (length delays)
           (sequence_loop [] 0 None rounds) action reason ordinal retry_at))"
proof -
  define seq where "seq = sequence_loop [] 0 None rounds"
  define run where "run = takeWhile is_no_fill rounds"
  define rest where "rest = dropWhile is_no_fill rounds"
  have seq: "rs_rounds seq = run @ take 1 rest" "rs_consecutive_no_fills seq = length run"
    by (simp_all add: seq_def run_def rest_def sequence_loop_run)
  have run: "\<forall>ev \<in> set run. is_no_fill ev"
    unfolding run_def by (metis set_takeWhileD)
  have rest: "rest \<noteq> [] \<Longrightarrow> \<not> is_no_fill (hd rest)"
    unfolding rest_def by (rule hd_dropWhile)
  have rounds: "rounds = run @ rest" by (simp add: run_def rest_def)
  have ops: "classify_pair_operations isaddr (list_pair_operations table (str_lower auction) (str_lower token)) = Inr seq"
    by (simp add: classify_pair_operations_def assms(3) seq_def)
  have "no_fill_guard_decide isaddr delays clock table auction token now override =
    (case guard_verdict delays (case now of None \<Rightarrow> clock | Some t \<Rightarrow> t) override rounds of
       (action, reason, ordinal, retry_at) \<Rightarrow>
         Inr (no_fill_decision_of (str_lower auction) (str_lower token) (length delays)
           seq action reason ordinal retry_at))"
  proof (cases run)
    case Nil
    then show ?thesis
      using assms(1,2) ops seq rest rounds
      by (cases rest; cases "ev_outcome (hd rest)")
        (simp_all add: no_fill_guard_decide_def normalize_address_def guard_verdict_def Let_def
          run_def [symmetric] rest_def [symmetric])
  next
    case (Cons latest run')
    obtain t where t: "ev_close_at latest = Some t"
      using current_no_fill_closed [OF assms(3), of latest] run rounds Cons by auto
    have latest: "is_no_fill latest" using run Cons by simp
    have idx: "py_index delays (int (length run) - 1) = Inr (delays ! (length run - 1))"
      if "\<not> length delays < length run"
      using that Cons by (simp add: py_index_def)
    have hd_rounds: "hd rounds = latest" "rounds \<noteq> []" using rounds Cons by simp_all
    show ?thesis
      using assms(1,2) ops seq find_barrier [OF run, of rest] rest idx latest t hd_rounds Cons
      by (cases "rest \<noteq> []"; cases "ev_outcome (hd rest)"; cases "length delays < length run")
        (simp_all add: no_fill_guard_decide_def normalize_address_def guard_verdict_def Let_def
          run_def [symmetric] rest_def [symmetric])
  qed
  then show ?thesis by (simp only: seq_def)
qed

section \<open>Properties of the guard\<close>

lemma no_fill_guard_Inr:
  assumes "no_fill_guard_decide isaddr delays clock table auction token now override = Inr d"
  obtains rounds where "isaddr auction" "isaddr token"
    and "current_pair_rounds isaddr (list_pair_operations table (str_lower auction) (str_lower token)) = Inr rounds"
    and "(nf_action d, nf_reason_code d, nf_retry_ordinal d, nf_retry_at d) =
      guard_verdict delays (case now of None \<Rightarrow> clock | Some t \<Rightarrow> t) override rounds"
    and "nf_consecutive_no_fills d = length (takeWhile is_no_fill rounds)"
proof -
  have addr: "isaddr auction" "isaddr token"
    using assms by (auto simp: no_fill_guard_decide_def err_simps normalize_address_Inr)
  obtain rounds where rounds:
    "current_pair_rounds isaddr (list_pair_operations table (str_lower auction) (str_lower token)) = Inr rounds"
    using current_pair_rounds_total by blast
  have "(nf_action d, nf_reason_code d, nf_retry_ordinal d, nf_retry_at d) =
      guard_verdict delays (case now of None \<Rightarrow> clock | Some t \<Rightarrow> t) override rounds"
    "nf_consecutive_no_fills d = length (takeWhile is_no_fill rounds)"
    using assms unfolding no_fill_guard_verdict [OF addr rounds]
    by (auto simp: no_fill_decision_of_def Let_def sequence_loop_run split: prod.splits)
  with addr rounds that show ?thesis by blast
qed

text \<open>
  The guard's decision raises exactly when one of the two addresses does not normalise;
  in particular the retry delay is never read out of range.
\<close>

theorem no_fill_guard_total:
  "(\<exists>d. no_fill_guard_decide isaddr delays clock table auction token now override = Inr d) \<longleftrightarrow>
     isaddr auction \<and> isaddr token"
proof
  assume addr: "isaddr auction \<and> isaddr token"
  obtain rounds where rounds:
    "current_pair_rounds isaddr (list_pair_operations table (str_lower auction) (str_lower token)) = Inr rounds"
    using current_pair_rounds_total by blast
  show "\<exists>d. no_fill_guard_decide isaddr delays clock table auction token now override = Inr d"
    using no_fill_guard_verdict [OF _ _ rounds] addr by (simp split: prod.split)
qed (auto elim: no_fill_guard_Inr)

text \<open>
  C2. Without the manual override the guard allows a kick only with no current history,
  after a productive round, or when the unbroken run of no-fills is within the retry budget,
  is not followed by an unknown or incomplete round, and its delay since the latest close
  has passed.
\<close>

theorem no_fill_guard_allows_bounded_retries:
  assumes "no_fill_guard_decide isaddr delays clock table auction token now False = Inr d"
    and "nf_action d = ALLOW"
  shows "\<exists>rounds. current_pair_rounds isaddr
        (list_pair_operations table (str_lower auction) (str_lower token)) = Inr rounds
    \<and> (rounds = [] \<or> ev_outcome (hd rounds) = PRODUCTIVE
       \<or> (\<exists>n close. n = length (takeWhile is_no_fill rounds) \<and> 0 < n \<and> n \<le> length delays
            \<and> (n = length rounds \<or> ev_outcome (rounds ! n) = PRODUCTIVE)
            \<and> ev_close_at (hd rounds) = Some close
            \<and> close + delays ! (n - 1) * usec_per_minute \<le> (case now of None \<Rightarrow> clock | Some t \<Rightarrow> t)))"
proof -
  obtain rounds where rounds:
    "current_pair_rounds isaddr (list_pair_operations table (str_lower auction) (str_lower token)) = Inr rounds"
    and verdict: "fst (guard_verdict delays (case now of None \<Rightarrow> clock | Some t \<Rightarrow> t) False rounds) = ALLOW"
    using no_fill_guard_Inr [OF assms(1)] assms(2) by (metis fst_conv)
  define run rest where "run = takeWhile is_no_fill rounds" and "rest = dropWhile is_no_fill rounds"
  have split: "rounds = run @ rest" by (simp add: run_def rest_def)
  have rest: "rest \<noteq> [] \<Longrightarrow> \<not> is_no_fill (hd rest)"
    unfolding rest_def by (rule hd_dropWhile)
  show ?thesis
  proof (cases run)
    case Nil
    then show ?thesis
      using rounds verdict split rest
      by (cases rest; cases "ev_outcome (hd rest)")
        (auto simp: guard_verdict_def Let_def run_def [symmetric] rest_def [symmetric])
  next
    case (Cons latest run')
    then have "is_no_fill latest" "latest \<in> set rounds"
      using set_takeWhileD [of latest is_no_fill rounds] by (auto simp: run_def)
    then obtain close where close: "ev_close_at latest = Some close"
      using current_no_fill_closed [OF rounds] by blast
    have ne: "rounds \<noteq> []" "hd rounds = latest" using split Cons by simp_all
    have productive: "rest \<noteq> [] \<Longrightarrow> ev_outcome (hd rest) = PRODUCTIVE"
      using verdict rest Cons ne
      by (cases "ev_outcome (hd rest)")
        (auto simp: guard_verdict_def Let_def run_def [symmetric] rest_def [symmetric])
    have "length run \<le> length delays"
      and "close + delays ! (length run - 1) * usec_per_minute \<le> (case now of None \<Rightarrow> clock | Some t \<Rightarrow> t)"
      using verdict Cons ne close productive
      by (auto simp: guard_verdict_def Let_def run_def [symmetric] rest_def [symmetric] split: if_splits)
    moreover have "length run = length rounds \<or> ev_outcome (rounds ! length run) = PRODUCTIVE"
      using productive split by (cases rest) auto
    ultimately show ?thesis
      using rounds close Cons ne(2) unfolding run_def [symmetric]
      by (intro exI [of _ rounds]) (simp flip: run_def)
  qed
qed

text \<open>
  C4. A deferred kick carries a retry time in the future, and on the same history the guard
  allows it exactly from that time on.
\<close>

theorem no_fill_guard_deferral_ends:
  assumes "no_fill_guard_decide isaddr delays clock table auction token now override = Inr d"
    and "nf_action d = DEFER"
  shows "\<exists>retry_at. nf_retry_at d = Some retry_at
    \<and> (case now of None \<Rightarrow> clock | Some t \<Rightarrow> t) < retry_at
    \<and> (\<forall>clock' later. \<exists>d'. no_fill_guard_decide isaddr delays clock' table auction token (Some later) override = Inr d'
         \<and> (nf_action d' = ALLOW \<longleftrightarrow> retry_at \<le> later) \<and> nf_retry_at d' = Some retry_at)"
proof -
  obtain rounds where addr: "isaddr auction" "isaddr token" and rounds:
    "current_pair_rounds isaddr (list_pair_operations table (str_lower auction) (str_lower token)) = Inr rounds"
    and verdict: "(nf_action d, nf_reason_code d, nf_retry_ordinal d, nf_retry_at d) =
      guard_verdict delays (case now of None \<Rightarrow> clock | Some t \<Rightarrow> t) override rounds"
    using no_fill_guard_Inr [OF assms(1)] by metis
  define r where "r = the (ev_close_at (hd rounds)) +
      delays ! (length (takeWhile is_no_fill rounds) - 1) * usec_per_minute"
  have "nf_retry_at d = Some r" "(case now of None \<Rightarrow> clock | Some t \<Rightarrow> t) < r"
    and later: "guard_verdict delays later override rounds =
      (if r \<le> later then (ALLOW, RETRY_DUE, Some (length (takeWhile is_no_fill rounds)), Some r)
       else (DEFER, RETRY_NOT_DUE, Some (length (takeWhile is_no_fill rounds)), Some r))" for later
    using verdict assms(2) by (auto simp: guard_verdict_def Let_def r_def split: if_splits)
  then show ?thesis
    using no_fill_guard_verdict [OF addr rounds]
    by (intro exI [of _ r]) (auto simp: no_fill_decision_of_def Let_def)
qed

section \<open>Clearing a suspension\<close>

text \<open>The classification reads no baseline column.\<close>

definition without_baseline :: "kick_tx \<Rightarrow> kick_tx" where
  "without_baseline row = row\<lparr>k_historical_baseline := 0, k_historical_baseline_reason := None,
     k_historical_baselined_at := None\<rparr>"

lemma without_baseline_sel [simp]:
  "k_id (without_baseline row) = k_id row"
  "k_operation_type (without_baseline row) = k_operation_type row"
  "k_token_address (without_baseline row) = k_token_address row"
  "k_auction_address (without_baseline row) = k_auction_address row"
  "k_sell_amount (without_baseline row) = k_sell_amount row"
  "k_status (without_baseline row) = k_status row"
  "k_round_kick_id (without_baseline row) = k_round_kick_id row"
  "k_resolution_path (without_baseline row) = k_resolution_path row"
  "k_mined_at (without_baseline row) = k_mined_at row"
  "k_requested_sell_amount (without_baseline row) = k_requested_sell_amount row"
  "k_created_at (without_baseline row) = k_created_at row"
  "k_block_number (without_baseline row) = k_block_number row"
  "k_transaction_index (without_baseline row) = k_transaction_index row"
  by (simp_all add: without_baseline_def)

lemma without_baseline_views [simp]:
  "row_position (without_baseline row) = row_position row"
  "operation_closes_round (without_baseline row) = operation_closes_round row"
  "created_key (without_baseline row) = created_key row"
  "bare_evidence outcome (without_baseline row) = bare_evidence outcome row"
  by (simp_all add: row_position_def operation_closes_round_def created_key_def bare_evidence_def
      fun_eq_iff)

lemma same_pair_without_baseline [simp]:
  "same_pair isaddr (without_baseline row) (without_baseline row') = same_pair isaddr row row'"
  unfolding same_pair_def without_baseline_sel ..

lemma without_baseline_evidence [simp]:
  "unknown_round (without_baseline row) = unknown_round row"
  "incomplete_round (without_baseline row) = incomplete_round row"
  "unknown_amounts (without_baseline row) = unknown_amounts row"
  by (auto simp: unknown_round_def incomplete_round_def unknown_amounts_def fun_eq_iff)

lemma filter_map_without_baseline:
  "(\<And>row. P (without_baseline row) = P row) \<Longrightarrow>
     filter P (map without_baseline rows) = map without_baseline (filter P rows)"
  by (simp add: filter_map comp_def)

lemma confirmed_rows_without_baseline:
  "confirmed_rows isaddr (without_baseline kick) pos (map without_baseline rows) =
     map_sum id (map without_baseline) (confirmed_rows isaddr kick pos rows)"
proof (induction rows)
  case (Cons row rows)
  then show ?case
    by (cases "confirmed_rows isaddr kick pos rows") (auto split: option.split)
qed simp

lemma resolved_paths_without_baseline:
  "resolved_paths (map without_baseline rows) =
     map_sum id (map (map_prod without_baseline id)) (resolved_paths rows)"
proof (induction rows)
  case (Cons row rows)
  then show ?case by (cases "resolved_paths rows") (auto split: option.split)
qed simp

lemma recovered_amounts_without_baseline:
  "recovered_amounts (map without_baseline rows) = recovered_amounts rows"
  by (induction rows) (simp_all split: option.split)

lemma classify_close_without_baseline:
  "classify_close (without_baseline kick) requested placed kp kt (map without_baseline sweeps) recovered ids
     (without_baseline close) = classify_close kick requested placed kp kt sweeps recovered ids close"
  by (simp add: classify_close_def cong: option.case_cong if_cong)

lemma case_map_sum:
  "(case map_sum id g x of Inl a \<Rightarrow> f a | Inr b \<Rightarrow> h b) = (case x of Inl a \<Rightarrow> f a | Inr b \<Rightarrow> h (g b))"
  by (cases x) simp_all

lemma filter_paths_without_baseline:
  "map fst (filter (\<lambda>(row, path). P path) (map (map_prod without_baseline id) paths)) =
     map without_baseline (map fst (filter (\<lambda>(row, path). P path) paths))"
  by (induction paths) auto

lemma classify_confirmed_without_baseline:
  "classify_confirmed (without_baseline kick) requested placed kp kt (map without_baseline confirmed) =
     classify_confirmed kick requested placed kp kt confirmed"
proof -
  have filt: "filter (\<lambda>row. k_operation_type row = s) (map without_baseline xs) =
      map without_baseline (filter (\<lambda>row. k_operation_type row = s) xs)" for s xs
    by (rule filter_map_without_baseline) simp
  have ids: "map k_id (map without_baseline xs) = map k_id xs" for xs by simp
  have lists: "(case map without_baseline xs of [] \<Rightarrow> a | x # ys \<Rightarrow> (case ys of [] \<Rightarrow> f x | _ # _ \<Rightarrow> b)) =
      (case xs of [] \<Rightarrow> a | x # ys \<Rightarrow> (case ys of [] \<Rightarrow> f (without_baseline x) | _ # _ \<Rightarrow> b))"
    for xs a b and f :: "kick_tx \<Rightarrow> round_evidence result"
    by (simp split: list.split)
  show ?thesis
    unfolding classify_confirmed_def Let_def filt resolved_paths_without_baseline case_map_sum
      filter_paths_without_baseline map_append [symmetric] recovered_amounts_without_baseline ids lists
      without_baseline_evidence classify_close_without_baseline
    by (rule refl)
qed

lemma classify_round_without_baseline:
  "classify_round isaddr (without_baseline kick) (map without_baseline rows) = classify_round isaddr kick rows"
proof -
  have linked: "filter (\<lambda>row. k_round_kick_id row = Some i) (map without_baseline rows) =
      map without_baseline (filter (\<lambda>row. k_round_kick_id row = Some i) rows)" for i
    by (rule filter_map_without_baseline) simp
  have pending: "(\<exists>row \<in> set (map without_baseline xs). k_status row = s) = (\<exists>row \<in> set xs. k_status row = s)" for xs s
    by simp
  show ?thesis
    unfolding classify_round_def Let_def without_baseline_sel without_baseline_views without_baseline_evidence
      linked pending confirmed_rows_without_baseline case_map_sum classify_confirmed_without_baseline
    by (rule refl)
qed

lemma sort_desc_without_baseline:
  "sort_desc created_key (map without_baseline rows) = map without_baseline (sort_desc created_key rows)"
  by (simp add: sort_desc_map)

lemma pair_kicks_without_baseline: "pair_kicks (map without_baseline rows) = map without_baseline (pair_kicks rows)"
  unfolding pair_kicks_def by (subst filter_map_without_baseline) (simp_all add: sort_desc_without_baseline)

lemma unlinked_closes_without_baseline:
  "unlinked_closes (map without_baseline rows) = map without_baseline (unlinked_closes rows)"
  unfolding unlinked_closes_def by (subst filter_map_without_baseline) simp_all

lemma has_unlinked_close_without_baseline:
  "has_unlinked_close (map without_baseline closes) (map_option without_baseline newer) (without_baseline kick) =
     has_unlinked_close closes newer kick"
proof -
  have "Option.bind (map_option without_baseline newer) row_position = Option.bind newer row_position"
    "Option.bind (map_option without_baseline newer) (\<lambda>n. timestamp (Some (k_created_at n))) =
      Option.bind newer (\<lambda>n. timestamp (Some (k_created_at n)))"
    by (cases newer; simp)+
  moreover have "(\<exists>x \<in> set (map without_baseline closes). P x) = (\<exists>x \<in> set closes. P (without_baseline x))" for P
    by simp
  ultimately show ?thesis
    by (simp only: has_unlinked_close_def Let_def without_baseline_sel without_baseline_views)
qed

lemma classify_kicks_without_baseline:
  "classify_kicks isaddr (map without_baseline rows) (map without_baseline closes)
     (map_option without_baseline newer) (map without_baseline kicks) = classify_kicks isaddr rows closes newer kicks"
proof (induction kicks arbitrary: newer)
  case (Cons kick kicks)
  from Cons.IH [of "Some kick"] show ?case
    by (simp add: has_unlinked_close_without_baseline classify_round_without_baseline)
qed simp

lemma classify_pair_rounds_same_evidence:
  assumes "map without_baseline rows = map without_baseline rows'"
  shows "classify_pair_rounds isaddr rows = classify_pair_rounds isaddr rows'"
proof -
  have "classify_pair_rounds isaddr rows = classify_pair_rounds isaddr (map without_baseline rows)" for rows
    using classify_kicks_without_baseline [of isaddr rows "unlinked_closes rows" None "pair_kicks rows"]
    by (simp add: classify_pair_rounds_def pair_kicks_without_baseline unlinked_closes_without_baseline)
  then show ?thesis using assms by metis
qed

lemma plan_clear_loop_Inr:
  "plan_clear_loop newer evs = Inr plan \<Longrightarrow>
     \<exists>skipped ev rest. evs = skipped @ ev # rest \<and> (\<forall>e \<in> set skipped. ev_outcome e = INCOMPLETE) \<and> is_no_fill ev
       \<and> cp_baseline_kick_id plan = ev_kick_id ev \<and> cp_newer_kick_ids plan = newer @ map ev_kick_id skipped"
proof (induction newer evs rule: plan_clear_loop.induct)
  case (2 newer e evs)
  show ?case
  proof (cases "ev_outcome e")
    case NO_FILL
    with 2 show ?thesis by (auto intro!: exI [of _ "[]"])
  next
    case INCOMPLETE
    with 2 obtain skipped ev rest where "evs = skipped @ ev # rest"
      "\<forall>e \<in> set skipped. ev_outcome e = INCOMPLETE" "is_no_fill ev"
      "cp_baseline_kick_id plan = ev_kick_id ev"
      "cp_newer_kick_ids plan = (newer @ [ev_kick_id e]) @ map ev_kick_id skipped" by auto
    with INCOMPLETE show ?thesis by (intro exI [of _ "e # skipped"]) auto
  qed (use 2 in auto)
qed simp

definition baselined :: "string \<Rightarrow> kick_tx \<Rightarrow> kick_tx" where
  "baselined reviewed_at row = row\<lparr>k_historical_baseline := 1,
     k_historical_baseline_reason := Some ''OPERATOR_CLEARED_NO_FILL_SUSPENSION'',
     k_historical_baselined_at := Some reviewed_at\<rparr>"

text \<open>The update of one row, seen by the pair query.\<close>

lemma list_pair_operations_update:
  assumes "\<And>row. k_auction_address (f row) = k_auction_address row" "\<And>row. k_token_address (f row) = k_token_address row"
    "\<And>row. k_operation_type (f row) = k_operation_type row" "\<And>row. created_key (f row) = created_key row"
    "\<And>row. k_id (f row) = k_id row"
  shows "list_pair_operations (kick_update_fields i f table) auction token =
    kick_update_fields i f (list_pair_operations table auction token)"
proof -
  define g where "g = (\<lambda>row. if k_id row = i then f row else row)"
  have "created_key (g row) = created_key row" "k_auction_address (g row) = k_auction_address row"
    "k_token_address (g row) = k_token_address row" "k_operation_type (g row) = k_operation_type row" for row
    using assms by (simp_all add: g_def)
  then show ?thesis
    by (simp add: list_pair_operations_def kick_update_fields_def filter_map comp_def sort_key_map flip: g_def)
qed

lemma distinct_pair_operations:
  "kick_table_wf table \<Longrightarrow> distinct (map k_id (list_pair_operations table auction token))"
  by (simp add: kick_table_wf_def list_pair_operations_def distinct_map_filter)

lemma in_baselined_kick_ids:
  "i \<in> baselined_kick_ids rows \<longleftrightarrow>
     (\<exists>row \<in> set rows. k_id row = i \<and> k_operation_type row = ''kick'' \<and> k_historical_baseline row = 1)"
  by (auto simp: baselined_kick_ids_def)

lemma takeWhile_current:
  assumes "\<forall>e \<in> set skipped. ev_kick_id e \<notin> B" "ev_kick_id ev \<in> B"
  shows "takeWhile (\<lambda>e. ev_kick_id e \<notin> B) (skipped @ ev # rest) = skipped"
  using assms by (simp add: takeWhile_append2)

text \<open>
  C3. After the operator clears a suspension, the pair's current rounds are exactly the
  newer rounds of the plan, all of them incomplete: the cleared run of no-fills no longer
  counts.
\<close>

theorem clear_suspension_effective:
  assumes "kick_table_wf table"
    and "plan_no_fill_suspension_clear isaddr (list_pair_operations table auction token) = Inr plan"
    and "apply_no_fill_suspension_clear isaddr reviewed_at auction token table = Inr table'"
  shows "\<exists>rounds. current_pair_rounds isaddr (list_pair_operations table' auction token) = Inr rounds
    \<and> map ev_kick_id rounds = cp_newer_kick_ids plan
    \<and> (\<forall>ev \<in> set rounds. ev_outcome ev = INCOMPLETE)"
proof -
  define rows where "rows = list_pair_operations table auction token"
  define b where "b = cp_baseline_kick_id plan"
  have table': "table' = kick_update_fields b (baselined reviewed_at) table"
    using assms(2,3) by (auto simp: apply_no_fill_suspension_clear_def b_def baselined_def [abs_def])
  have rows': "list_pair_operations table' auction token = kick_update_fields b (baselined reviewed_at) rows"
    unfolding table' rows_def
    by (rule list_pair_operations_update) (simp_all add: baselined_def created_key_def)
  have same: "map without_baseline (kick_update_fields b (baselined reviewed_at) rows) = map without_baseline rows"
    by (auto simp: kick_update_fields_def baselined_def without_baseline_def)
  obtain all where all: "classify_pair_rounds isaddr rows = Inr all"
    and plan: "plan_clear_loop [] (takeWhile (\<lambda>e. ev_kick_id e \<notin> baselined_kick_ids rows) all) = Inr plan"
    using assms(2) by (auto simp: plan_no_fill_suspension_clear_def current_pair_rounds_def err_simps rows_def)
  obtain skipped ev rest where
    cur: "takeWhile (\<lambda>e. ev_kick_id e \<notin> baselined_kick_ids rows) all = skipped @ ev # rest"
    and skipped: "\<forall>e \<in> set skipped. ev_outcome e = INCOMPLETE"
    and ids: "b = ev_kick_id ev" "cp_newer_kick_ids plan = map ev_kick_id skipped"
    using plan_clear_loop_Inr [OF plan] by (auto simp: b_def)
  obtain rest' where all_eq: "all = skipped @ ev # rest'"
    using cur by (metis takeWhile_dropWhile_id append.assoc append_Cons)
  have all_ids: "map ev_kick_id all = map k_id (pair_kicks rows)"
    using all classify_kicks_ids by (simp add: classify_pair_rounds_def)
  have "distinct (map k_id rows)"
    unfolding rows_def using assms(1) by (rule distinct_pair_operations)
  then have "distinct (map k_id (pair_kicks rows))"
    by (simp add: pair_kicks_def distinct_map_filter)
  then have distinct: "distinct (map ev_kick_id (skipped @ ev # rest'))"
    using all_ids all_eq by metis
  define B where "B = baselined_kick_ids (kick_update_fields b (baselined reviewed_at) rows)"
  have "b \<in> set (map k_id (pair_kicks rows))"
  proof -
    have "b \<in> set (map ev_kick_id all)" using all_eq ids(1) by simp
    then show ?thesis by (simp only: all_ids)
  qed
  then obtain row where "row \<in> set (pair_kicks rows)" and id: "k_id row = b"
    unfolding set_map by blast
  then have row: "row \<in> set rows" "k_id row = b" "k_operation_type row = ''kick''"
    by (simp_all add: pair_kicks_def)
  have "baselined reviewed_at row \<in> set (kick_update_fields b (baselined reviewed_at) rows)"
    using row(1,2) by (auto simp: kick_update_fields_def)
  then have inB: "b \<in> B"
    using row unfolding B_def in_baselined_kick_ids
    by (intro bexI [of _ "baselined reviewed_at row"]) (simp_all add: baselined_def)
  have notinB: "ev_kick_id e \<notin> B" if "e \<in> set skipped" for e
  proof -
    have "ev_kick_id e \<notin> baselined_kick_ids rows"
    proof -
      have "e \<in> set (takeWhile (\<lambda>e. ev_kick_id e \<notin> baselined_kick_ids rows) all)"
        using that by (simp add: cur)
      then show ?thesis by (rule set_takeWhileD [THEN conjunct2])
    qed
    moreover have "ev_kick_id e \<noteq> b" using distinct that ids(1) by (force simp: image_iff)
    ultimately show ?thesis
      unfolding B_def in_baselined_kick_ids
      by (auto simp: kick_update_fields_def baselined_def split: if_splits)
  qed
  have "current_pair_rounds isaddr (kick_update_fields b (baselined reviewed_at) rows) = Inr skipped"
  proof -
    have "takeWhile (\<lambda>e. ev_kick_id e \<notin> B) all = skipped"
      unfolding all_eq using inB notinB ids(1) by (intro takeWhile_current) auto
    then show ?thesis
      unfolding current_pair_rounds_def classify_pair_rounds_same_evidence [OF same] all B_def by simp
  qed
  with skipped ids(2) rows' show ?thesis by auto
qed

section \<open>A concrete pair\<close>

text \<open>One kick whose whole lot comes back with the close: a no-fill round.\<close>

definition sample_kick :: kick_tx where
  "sample_kick = empty_kick_tx\<lparr>k_id := 1, k_auction_address := ''a'', k_token_address := ''t'',
     k_status := ''CONFIRMED'', k_sell_amount := Some ''100'', k_requested_sell_amount := Some ''100'',
     k_block_number := Some 10, k_transaction_index := Some 0, k_mined_at := Some ''2024-01-01T00:00:00Z'',
     k_created_at := ''2024-01-01T00:00:00+00:00''\<rparr>"

definition sample_close :: kick_tx where
  "sample_close = empty_kick_tx\<lparr>k_id := 2, k_operation_type := ''resolve_auction'', k_auction_address := ''a'',
     k_token_address := ''t'', k_status := ''CONFIRMED'', k_sell_amount := Some ''100'', k_round_kick_id := Some 1,
     k_resolution_path := Some 1, k_block_number := Some 20, k_transaction_index := Some 3,
     k_mined_at := Some ''2024-01-02T00:00:00Z'', k_created_at := ''2024-01-02T00:00:00+00:00''\<rparr>"

definition sample_table :: "kick_tx list" where
  "sample_table = [sample_kick, sample_close]"

lemma sample_round:
  "\<exists>ev. classify_round (\<lambda>_. True) sample_kick sample_table = Inr ev \<and> ev_outcome ev = NO_FILL"
proof -
  have "(case classify_round (\<lambda>_. True) sample_kick sample_table of Inl _ \<Rightarrow> False | Inr ev \<Rightarrow> ev_outcome ev = NO_FILL)"
    unfolding sample_table_def sample_kick_def sample_close_def by code_simp
  then show ?thesis by (cases "classify_round (\<lambda>_. True) sample_kick sample_table") auto
qed

theorem classify_round_settled_witness:
  "\<exists>ev. classify_round (\<lambda>_. True) sample_kick sample_table = Inr ev
    \<and> ev_close_at ev \<noteq> None \<and> ev_close_id ev \<noteq> None"
  using sample_round classify_round_settled [of "\<lambda>_. True" sample_kick sample_table] by fastforce

lemma sample_guard:
  "(case no_fill_guard_decide (\<lambda>_. True) [60] 63839754000000000 sample_table ''a'' ''t'' None False of
      Inl _ \<Rightarrow> False | Inr d \<Rightarrow> nf_action d = ALLOW)"
  "(case no_fill_guard_decide (\<lambda>_. True) [60] 63839753999999999 sample_table ''a'' ''t'' None False of
      Inl _ \<Rightarrow> False | Inr d \<Rightarrow> nf_action d = DEFER)"
  unfolding sample_table_def sample_kick_def sample_close_def by code_simp+

theorem no_fill_guard_allows_bounded_retries_witness:
  "\<exists>rounds. current_pair_rounds (\<lambda>_. True) (list_pair_operations sample_table ''a'' ''t'') = Inr rounds
    \<and> (rounds = [] \<or> ev_outcome (hd rounds) = PRODUCTIVE
       \<or> (\<exists>n close. n = length (takeWhile is_no_fill rounds) \<and> 0 < n \<and> n \<le> length [60 :: int]
            \<and> (n = length rounds \<or> ev_outcome (rounds ! n) = PRODUCTIVE)
            \<and> ev_close_at (hd rounds) = Some close
            \<and> close + [60] ! (n - 1) * usec_per_minute \<le> 63839754000000000))"
proof -
  obtain d where d: "no_fill_guard_decide (\<lambda>_. True) [60] 63839754000000000 sample_table ''a'' ''t'' None False = Inr d"
    "nf_action d = ALLOW"
    using sample_guard(1) by (auto split: sum.splits)
  have "str_lower ''a'' = ''a''" "str_lower ''t'' = ''t''" by code_simp+
  with no_fill_guard_allows_bounded_retries [OF d] show ?thesis by simp
qed

theorem no_fill_guard_deferral_ends_witness:
  "\<exists>d retry_at. no_fill_guard_decide (\<lambda>_. True) [60] 63839753999999999 sample_table ''a'' ''t'' None False = Inr d
    \<and> nf_retry_at d = Some retry_at \<and> 63839753999999999 < retry_at"
proof -
  obtain d where d: "no_fill_guard_decide (\<lambda>_. True) [60] 63839753999999999 sample_table ''a'' ''t'' None False = Inr d"
    "nf_action d = DEFER"
    using sample_guard(2) by (auto split: sum.splits)
  with no_fill_guard_deferral_ends [OF d] show ?thesis by auto
qed

theorem clear_suspension_effective_witness:
  "\<exists>plan table' rounds.
    plan_no_fill_suspension_clear (\<lambda>_. True) (list_pair_operations sample_table ''a'' ''t'') = Inr plan
    \<and> apply_no_fill_suspension_clear (\<lambda>_. True) ''now'' ''a'' ''t'' sample_table = Inr table'
    \<and> current_pair_rounds (\<lambda>_. True) (list_pair_operations table' ''a'' ''t'') = Inr rounds
    \<and> map ev_kick_id rounds = cp_newer_kick_ids plan"
proof -
  have "(case plan_no_fill_suspension_clear (\<lambda>_. True) (list_pair_operations sample_table ''a'' ''t'') of
      Inl _ \<Rightarrow> False | Inr _ \<Rightarrow> True)"
    unfolding sample_table_def sample_kick_def sample_close_def by code_simp
  then obtain plan where plan:
    "plan_no_fill_suspension_clear (\<lambda>_. True) (list_pair_operations sample_table ''a'' ''t'') = Inr plan"
    by (auto split: sum.splits)
  obtain table' where table': "apply_no_fill_suspension_clear (\<lambda>_. True) ''now'' ''a'' ''t'' sample_table = Inr table'"
    by (simp add: apply_no_fill_suspension_clear_def plan)
  have "kick_table_wf sample_table"
    by (simp add: kick_table_wf_def sample_table_def sample_kick_def sample_close_def empty_kick_tx_def)
  from clear_suspension_effective [OF this plan table'] plan table' show ?thesis by blast
qed

end
