(* ===== verification/Rpc.thy ===== *)
theory Rpc
  imports Normalizers
begin

text \<open>
  Reading the chain: \<open>tidal/chain/retry.py\<close>, \<open>tidal/chain/contracts/multicall.py\<close> and the
  readers of \<open>tidal/scanner/auction_state.py\<close>. The node is a parameter: \<open>aggregate\<close> is the
  Multicall3 call of one chunk, \<open>direct\<close> a single \<open>eth_call\<close>, each a result. Call data and
  return data are byte strings; ABI decoding is the parameter \<open>decoder\<close>. A dictionary filled
  by the readers is an association list in insertion order.
\<close>

section \<open>Retries\<close>

fun exn_class :: "exn \<Rightarrow> string" where
  "exn_class (ValueError _) = ''ValueError''"
| "exn_class (TypeError _) = ''TypeError''"
| "exn_class (KeyError _) = ''KeyError''"
| "exn_class IndexError = ''IndexError''"
| "exn_class AssertionError = ''AssertionError''"
| "exn_class ZeroDivisionError = ''ZeroDivisionError''"
| "exn_class (RuntimeError _) = ''RuntimeError''"
| "exn_class (AddressNormalizationError _) = ''AddressNormalizationError''"
| "exn_class (APIError _ _) = ''APIError''"
| "exn_class (OtherException c _) = c"

text \<open>Subclasses of web3's \<open>ContractLogicError\<close> and of Python's \<open>OSError\<close>.\<close>

definition contract_logic_errors :: "string list" where
  "contract_logic_errors = [''ContractLogicError'', ''ContractCustomError'', ''ContractPanicError'', ''OffchainLookup'']"

definition os_errors :: "string list" where
  "os_errors = [''OSError'', ''TimeoutError'', ''ConnectionError'', ''ConnectionRefusedError'', ''ConnectionResetError'',
     ''ConnectionAbortedError'', ''BrokenPipeError'', ''BlockingIOError'', ''InterruptedError'', ''PermissionError'',
     ''FileNotFoundError'', ''FileExistsError'', ''ProcessLookupError'', ''ChildProcessError'', ''IsADirectoryError'',
     ''NotADirectoryError'']"

definition is_retryable_error :: "exn \<Rightarrow> bool" where
  "is_retryable_error e =
     (if exn_class e \<in> set contract_logic_errors then False
      else
        let message = str_lower (exn_str e) in
        if \<exists>p \<in> set [''execution reverted'', ''invalid opcode'', ''abi'', ''invalid address''].
             str_contains p message then False
        else if \<exists>p \<in> set [''timeout'', ''temporarily unavailable'', ''connection'', ''gateway'', ''429'', ''rate limit''].
             str_contains p message then True
        else exn_class e \<in> set os_errors)"

text \<open>
  \<open>fn k\<close> is the result of the \<open>k\<close>-th call; \<open>attempts - attempt\<close> is the number of calls
  still allowed after this one. The sleep between two calls is not modelled. The result
  carries the number of calls made.
\<close>

fun retry_loop :: "(nat \<Rightarrow> 'a result) \<Rightarrow> nat \<Rightarrow> nat \<Rightarrow> 'a result \<times> nat" where
  "retry_loop fn attempt 0 = (fn attempt, attempt)"
| "retry_loop fn attempt (Suc left) =
     (case fn attempt of
        Inr x \<Rightarrow> (Inr x, attempt)
      | Inl e \<Rightarrow> if is_retryable_error e then retry_loop fn (attempt + 1) left else (Inl e, attempt))"

definition call_with_retries :: "(nat \<Rightarrow> 'a result) \<Rightarrow> int \<Rightarrow> 'a result \<times> nat" where
  "call_with_retries fn attempts =
     (if attempts < 1 then (Inl (RuntimeError ''unreachable retry state''), 0)
      else retry_loop fn 1 (nat attempts - 1))"

section \<open>Multicall\<close>

record multicall_request =
  rq_target :: address
  rq_call_data :: string
  rq_logical_key :: "string list"

record multicall_result =
  rr_logical_key :: "string list"
  rr_success :: bool
  rr_return_data :: string
  rr_via_fallback :: bool
  rr_error_message :: "string option"

record multicall_stats =
  st_batch_count :: nat
  st_subcalls_total :: nat
  st_subcalls_failed :: nat
  st_fallback_direct_calls_total :: nat

record multicall_client =
  mc_enabled :: bool
  mc_disabled_for_run :: bool
  mc_disable_reason_logged :: bool
  mc_last_stats :: multicall_stats

definition empty_stats :: multicall_stats where
  "empty_stats = \<lparr>st_batch_count = 0, st_subcalls_total = 0, st_subcalls_failed = 0,
     st_fallback_direct_calls_total = 0\<rparr>"

definition multicall_begin_run :: "multicall_client \<Rightarrow> multicall_client" where
  "multicall_begin_run client = client\<lparr>mc_disabled_for_run := False, mc_disable_reason_logged := False,
     mc_last_stats := empty_stats\<rparr>"

text \<open>\<open>calls[i * b : (i + 1) * b]\<close> for each chunk index.\<close>

definition chunk_calls :: "'a list \<Rightarrow> nat \<Rightarrow> 'a list list" where
  "chunk_calls calls batch_size =
     (if calls = [] then []
      else map (\<lambda>i. take batch_size (drop (i * batch_size) calls))
        [0..<(length calls + batch_size - 1) div batch_size])"

type_synonym aggregate_fn = "multicall_request list \<Rightarrow> (bool \<times> string) list result"
type_synonym direct_fn = "multicall_request \<Rightarrow> string result"

text \<open>\<open>zip(chunk, raw_results, strict=True)\<close> raises when the lengths differ.\<close>

definition execute_multicall_chunk :: "aggregate_fn \<Rightarrow> multicall_request list \<Rightarrow> multicall_result list result" where
  "execute_multicall_chunk aggregate chunk =
     err_bind (aggregate chunk) (\<lambda>raw_results.
       if length raw_results \<noteq> length chunk then Inl (ValueError ''zip() arguments differ in length'')
       else Inr (map (\<lambda>(request, success, return_data).
         \<lparr>rr_logical_key = rq_logical_key request, rr_success = success, rr_return_data = return_data,
          rr_via_fallback = False, rr_error_message = None\<rparr>) (zip chunk raw_results)))"

definition execute_direct_chunk :: "direct_fn \<Rightarrow> multicall_request list \<Rightarrow> multicall_result list" where
  "execute_direct_chunk direct chunk =
     map (\<lambda>request. case direct request of
         Inr return_data \<Rightarrow> \<lparr>rr_logical_key = rq_logical_key request, rr_success = True,
           rr_return_data = return_data, rr_via_fallback = True, rr_error_message = None\<rparr>
       | Inl e \<Rightarrow> \<lparr>rr_logical_key = rq_logical_key request, rr_success = False,
           rr_return_data = [], rr_via_fallback = True, rr_error_message = Some (exn_str e)\<rparr>) chunk"

text \<open>One pass of the loop over the chunks.\<close>

definition execute_chunk ::
  "aggregate_fn \<Rightarrow> direct_fn \<Rightarrow> multicall_client \<Rightarrow> multicall_request list
     \<Rightarrow> multicall_client \<times> multicall_result list \<times> nat" where
  "execute_chunk aggregate direct client chunk =
     (if mc_enabled client \<and> \<not> mc_disabled_for_run client then
        (case execute_multicall_chunk aggregate chunk of
           Inr results \<Rightarrow> (client, results, 0)
         | Inl e \<Rightarrow>
             (if is_retryable_error e then client
              else client\<lparr>mc_disabled_for_run := True, mc_disable_reason_logged := True\<rparr>,
              execute_direct_chunk direct chunk, length chunk))
      else (client, execute_direct_chunk direct chunk, length chunk))"

fun execute_chunks ::
  "aggregate_fn \<Rightarrow> direct_fn \<Rightarrow> multicall_client \<Rightarrow> multicall_stats \<Rightarrow> multicall_request list list
     \<Rightarrow> multicall_client \<times> multicall_stats \<times> multicall_result list" where
  "execute_chunks aggregate direct client stats [] = (client, stats, [])"
| "execute_chunks aggregate direct client stats (chunk # chunks) =
     (case execute_chunk aggregate direct client chunk of
        (client, chunk_results, fallback) \<Rightarrow>
          let stats = stats\<lparr>st_batch_count := st_batch_count stats + 1,
                st_subcalls_total := st_subcalls_total stats + length chunk,
                st_subcalls_failed := st_subcalls_failed stats
                  + length (filter (\<lambda>item. \<not> rr_success item) chunk_results),
                st_fallback_direct_calls_total := st_fallback_direct_calls_total stats + fallback\<rparr>
          in case execute_chunks aggregate direct client stats chunks of
               (client, stats, rest) \<Rightarrow> (client, stats, chunk_results @ rest))"

definition multicall_execute ::
  "aggregate_fn \<Rightarrow> direct_fn \<Rightarrow> int \<Rightarrow> multicall_request list \<Rightarrow> multicall_client
     \<Rightarrow> (multicall_client \<times> multicall_result list) result" where
  "multicall_execute aggregate direct batch_size calls client =
     (if batch_size \<le> 0 then Inl (ValueError ''batch_size must be > 0'')
      else if calls = [] then Inr (client\<lparr>mc_last_stats := empty_stats\<rparr>, [])
      else case execute_chunks aggregate direct client empty_stats (chunk_calls calls (nat batch_size)) of
             (client, stats, results) \<Rightarrow> Inr (client\<lparr>mc_last_stats := stats\<rparr>, results))"

section \<open>Auction state readers\<close>

text \<open>
  \<open>_read_noarg_many\<close> and \<open>_read_arg_many\<close>: \<open>key\<close> is the auction, or the pair of auction and
  token. \<open>call\<close> is the direct typed call with its transform, \<open>request\<close> builds the encoded
  call, whose logical key reads back as \<open>key_of\<close>.
\<close>

definition read_many_direct :: "('k \<Rightarrow> 'v result) \<Rightarrow> 'k list \<Rightarrow> ('k \<times> 'v option) list" where
  "read_many_direct call keys =
     fold (\<lambda>key out. dict_set key (case call key of Inr v \<Rightarrow> Some v | Inl _ \<Rightarrow> None) out) keys
       (fold (\<lambda>key out. dict_set key None out) keys [])"

definition read_many_multicall ::
  "(string \<Rightarrow> 'v result) \<Rightarrow> (string list \<Rightarrow> 'k) \<Rightarrow> multicall_result list \<Rightarrow> 'k list \<Rightarrow> ('k \<times> 'v option) list" where
  "read_many_multicall decoder key_of results keys =
     fold (\<lambda>result out.
         if \<not> rr_success result then out
         else dict_set (key_of (rr_logical_key result))
           (case decoder (rr_return_data result) of Inr v \<Rightarrow> Some v | Inl _ \<Rightarrow> None) out) results
       (fold (\<lambda>key out. dict_set key None out) keys [])"

definition read_many ::
  "bool \<Rightarrow> int \<Rightarrow> aggregate_fn \<Rightarrow> direct_fn \<Rightarrow> ('k \<Rightarrow> multicall_request) \<Rightarrow> (string list \<Rightarrow> 'k) \<Rightarrow> (string \<Rightarrow> 'v result)
     \<Rightarrow> ('k \<Rightarrow> 'v result) \<Rightarrow> multicall_client \<Rightarrow> 'k list \<Rightarrow> (multicall_client \<times> ('k \<times> 'v option) list) result" where
  "read_many multicall_enabled batch_calls aggregate direct request key_of decoder call client keys =
     (if keys = [] then Inr (client, [])
      else if \<not> multicall_enabled then Inr (client, read_many_direct call keys)
      else err_bind (multicall_execute aggregate direct batch_calls (map request keys) client) (\<lambda>(client, results).
        Inr (client, read_many_multicall decoder key_of results keys)))"

section \<open>Retries are bounded\<close>

lemma retry_loop_spec:
  "retry_loop fn attempt left = (r, n) \<Longrightarrow>
     attempt \<le> n \<and> n \<le> attempt + left \<and> r = fn n
     \<and> (\<forall>k \<in> {attempt..<n}. \<exists>e. fn k = Inl e \<and> is_retryable_error e)
     \<and> ((\<exists>x. r = Inr x) \<or> n = attempt + left \<or> (\<exists>e. r = Inl e \<and> \<not> is_retryable_error e))"
proof (induction fn attempt left rule: retry_loop.induct)
  case (2 fn attempt left)
  show ?case
  proof (cases "fn attempt")
    case (Inl e)
    show ?thesis
    proof (cases "is_retryable_error e")
      case True
      have "retry_loop fn (attempt + 1) left = (r, n)" using "2.prems" Inl True by simp
      from "2.IH" [OF Inl True this] have IH: "attempt + 1 \<le> n \<and> n \<le> attempt + 1 + left \<and> r = fn n
          \<and> (\<forall>k \<in> {attempt + 1..<n}. \<exists>e. fn k = Inl e \<and> is_retryable_error e)
          \<and> ((\<exists>x. r = Inr x) \<or> n = attempt + 1 + left \<or> (\<exists>e. r = Inl e \<and> \<not> is_retryable_error e))" .
      have "{attempt..<n} = insert attempt {attempt + 1..<n}" using IH by auto
      moreover have "attempt + 1 + left = attempt + Suc left" by simp
      ultimately show ?thesis using IH Inl True by (metis (no_types, lifting) add_leD1 insertE)
    qed (use 2 Inl in auto)
  next
    case (Inr x)
    with "2.prems" show ?thesis by (auto intro: exI [of _ x])
  qed
qed simp

text \<open>
  A retried call is made at most the given number of times, its result is the last
  call's, every earlier call failed with a retryable error, and it stops early only on
  success or a non-retryable error.
\<close>

theorem call_with_retries_bounded:
  assumes "0 < attempts" "call_with_retries fn attempts = (r, n)"
  shows "1 \<le> n \<and> int n \<le> attempts \<and> r = fn n
    \<and> (\<forall>k \<in> {1..<n}. \<exists>e. fn k = Inl e \<and> is_retryable_error e)
    \<and> ((\<exists>x. r = Inr x) \<or> int n = attempts \<or> (\<exists>e. r = Inl e \<and> \<not> is_retryable_error e))"
proof -
  have "retry_loop fn 1 (nat attempts - 1) = (r, n)"
    using assms by (simp add: call_with_retries_def)
  from retry_loop_spec [OF this] assms(1) show ?thesis by (auto simp: of_nat_le_iff nat_le_iff)
qed

theorem call_with_retries_bounded_witness:
  "call_with_retries (\<lambda>k. if k < 3 then Inl (OtherException ''TimeoutError'' '''') else Inr k) 5 = (Inr 3, 3)
    \<and> (\<exists>e. (if (1 :: nat) < 3 then Inl (OtherException ''TimeoutError'' '''') else Inr 1) = Inl e \<and> is_retryable_error e)
    \<and> (\<exists>e. (if (2 :: nat) < 3 then Inl (OtherException ''TimeoutError'' '''') else Inr 2) = Inl e \<and> is_retryable_error e)"
proof -
  have run: "call_with_retries (\<lambda>k. if k < 3 then Inl (OtherException ''TimeoutError'' '''') else Inr k) 5 = (Inr 3, 3)"
    by code_simp
  from call_with_retries_bounded [OF _ run]
  have bounded: "\<forall>k \<in> {1..<3 :: nat}. \<exists>e. (if k < 3 then Inl (OtherException ''TimeoutError'' '''') else Inr k) = Inl e
      \<and> is_retryable_error e" by simp
  show ?thesis using run bspec [OF bounded, of 1] bspec [OF bounded, of 2] by simp
qed

section \<open>Batches are complete and in order\<close>

lemma concat_slices:
  "concat (map (\<lambda>i. take b (drop (i * b) xs)) [0..<n]) = take (n * b) xs"
proof (induction n)
  case (Suc n)
  have "take (Suc n * b) xs = take (n * b) xs @ take b (drop (n * b) xs)"
    by (metis add.commute mult_Suc take_add)
  then show ?case using Suc by simp
qed simp

lemma concat_chunk_calls:
  assumes "0 < b"
  shows "concat (chunk_calls calls b) = calls"
proof -
  have "length calls \<le> (length calls + b - 1) div b * b"
  proof -
    define q where "q = (length calls + b - 1) div b"
    have "length calls + b - 1 < b * q + b"
      using assms mult_div_mod_eq [of b "length calls + b - 1"] mod_less_divisor [of b "length calls + b - 1"]
      unfolding q_def by linarith
    then have "length calls \<le> q * b" using assms by (simp add: mult.commute)
    then show ?thesis by (simp only: q_def)
  qed
  then show ?thesis by (simp add: chunk_calls_def concat_slices)
qed

lemma chunk_calls_bounds: "chunk \<in> set (chunk_calls calls b) \<Longrightarrow> length chunk \<le> b"
  by (auto simp: chunk_calls_def split: if_splits)

text \<open>How a result stands for its request when \<open>direct\<close> decides: its key, its success and its data.\<close>

definition answers :: "direct_fn \<Rightarrow> multicall_request \<Rightarrow> multicall_result \<Rightarrow> bool" where
  "answers direct request result \<longleftrightarrow>
     rr_logical_key result = rq_logical_key request
     \<and> (case direct request of Inr d \<Rightarrow> rr_success result \<and> rr_return_data result = d
        | Inl _ \<Rightarrow> \<not> rr_success result)"

lemma execute_chunk_keys:
  "execute_chunk aggregate direct client chunk = (client', results, fallback) \<Longrightarrow>
     map rr_logical_key results = map rq_logical_key chunk
     \<and> (fallback = 0 \<or> fallback = length chunk \<and> results = execute_direct_chunk direct chunk)
     \<and> (mc_disabled_for_run client \<longrightarrow> client' = client \<and> results = execute_direct_chunk direct chunk)"
proof -
  have direct: "map rr_logical_key (execute_direct_chunk direct chunk) = map rq_logical_key chunk"
    by (auto simp: execute_direct_chunk_def split: sum.split)
  have zip: "length raw = length chunk \<Longrightarrow>
      map (rr_logical_key \<circ> (\<lambda>(request, success, return_data). \<lparr>rr_logical_key = rq_logical_key request,
        rr_success = success, rr_return_data = return_data, rr_via_fallback = False, rr_error_message = None\<rparr>))
        (zip chunk raw) = map rq_logical_key chunk" for raw :: "(bool \<times> string) list"
    by (rule nth_equalityI) (auto simp: comp_def split: prod.split)
  assume "execute_chunk aggregate direct client chunk = (client', results, fallback)"
  then show ?thesis
    using direct zip
    by (auto simp: execute_chunk_def execute_multicall_chunk_def err_simps split: if_splits sum.splits)
qed

lemma execute_chunks_spec:
  "execute_chunks aggregate direct client stats chunks = (client', stats', results) \<Longrightarrow>
     map rr_logical_key results = map rq_logical_key (concat chunks)
     \<and> st_batch_count stats' = st_batch_count stats + length chunks
     \<and> st_subcalls_total stats' = st_subcalls_total stats + length (concat chunks)
     \<and> st_subcalls_failed stats' = st_subcalls_failed stats + length (filter (\<lambda>r. \<not> rr_success r) results)
     \<and> st_fallback_direct_calls_total stats' \<le> st_fallback_direct_calls_total stats + length (concat chunks)"
proof (induction chunks arbitrary: client stats client' stats' results)
  case (Cons chunk chunks)
  obtain c1 r1 f where c1: "execute_chunk aggregate direct client chunk = (c1, r1, f)"
    by (metis prod_cases3)
  note keys = execute_chunk_keys [OF c1]
  define s1 where "s1 = stats\<lparr>st_batch_count := st_batch_count stats + 1,
      st_subcalls_total := st_subcalls_total stats + length chunk,
      st_subcalls_failed := st_subcalls_failed stats + length (filter (\<lambda>item. \<not> rr_success item) r1),
      st_fallback_direct_calls_total := st_fallback_direct_calls_total stats + f\<rparr>"
  obtain c2 s2 r2 where c2: "execute_chunks aggregate direct c1 s1 chunks = (c2, s2, r2)"
    by (metis prod_cases3)
  have "stats' = s2" "results = r1 @ r2"
    using Cons.prems c1 c2 by (simp_all add: Let_def s1_def)
  moreover have "f \<le> length chunk" using keys by auto
  ultimately show ?case
    using Cons.IH [OF c2] keys by (simp add: s1_def)
qed simp

text \<open>
  A multicall run returns one result per request, in request order and under the
  request's key, and its statistics count them.
\<close>

theorem multicall_execute_complete:
  assumes "0 < batch_size"
  shows "\<exists>client' results. multicall_execute aggregate direct batch_size calls client = Inr (client', results)
    \<and> map rr_logical_key results = map rq_logical_key calls
    \<and> st_subcalls_total (mc_last_stats client') = length calls
    \<and> st_subcalls_failed (mc_last_stats client') = length (filter (\<lambda>r. \<not> rr_success r) results)
    \<and> st_batch_count (mc_last_stats client') = (length calls + nat batch_size - 1) div nat batch_size
    \<and> st_fallback_direct_calls_total (mc_last_stats client') \<le> length calls"
proof (cases "calls = []")
  case True
  then show ?thesis using assms by (simp add: multicall_execute_def empty_stats_def)
next
  case False
  obtain c s r where run: "execute_chunks aggregate direct client empty_stats (chunk_calls calls (nat batch_size)) = (c, s, r)"
    by (metis prod_cases3)
  have "length (chunk_calls calls (nat batch_size)) = (length calls + nat batch_size - 1) div nat batch_size"
    using False by (simp add: chunk_calls_def)
  with execute_chunks_spec [OF run] assms False run show ?thesis
    by (simp add: multicall_execute_def concat_chunk_calls empty_stats_def)
qed

theorem multicall_execute_complete_witness:
  "\<exists>client' results. multicall_execute (\<lambda>_. Inl (RuntimeError ''down'')) (\<lambda>_. Inr ''x'') 2
      [\<lparr>rq_target = ''t'', rq_call_data = '''', rq_logical_key = [''a'']\<rparr>]
      \<lparr>mc_enabled = True, mc_disabled_for_run = False, mc_disable_reason_logged = False, mc_last_stats = empty_stats\<rparr>
      = Inr (client', results) \<and> map rr_logical_key results = [[''a'']]"
  using multicall_execute_complete [of 2 "\<lambda>_. Inl (RuntimeError ''down'')" "\<lambda>_. Inr ''x''"
      "[\<lparr>rq_target = ''t'', rq_call_data = '''', rq_logical_key = [''a'']\<rparr>]"
      "\<lparr>mc_enabled = True, mc_disabled_for_run = False, mc_disable_reason_logged = False, mc_last_stats = empty_stats\<rparr>"]
  by auto

section \<open>The fallback is transparent\<close>

text \<open>
  Multicall3 runs each subcall as the node would run it alone: where it answers at all, a
  subcall succeeds exactly when the single call does, with the same data.
\<close>

definition multicall_faithful :: "aggregate_fn \<Rightarrow> direct_fn \<Rightarrow> bool" where
  "multicall_faithful aggregate direct \<longleftrightarrow>
     (\<forall>chunk raw. aggregate chunk = Inr raw \<longrightarrow>
        list_all2 (\<lambda>request (success, data). case direct request of Inr d \<Rightarrow> success \<and> data = d
          | Inl _ \<Rightarrow> \<not> success) chunk raw)"

lemma answers_direct: "list_all2 (answers direct) chunk (execute_direct_chunk direct chunk)"
  unfolding execute_direct_chunk_def list_all2_map2
  by (rule list.rel_refl) (simp add: answers_def split: sum.split)

lemma answers_chunk:
  assumes "multicall_faithful aggregate direct" "execute_chunk aggregate direct client chunk = (client', results, f)"
  shows "list_all2 (answers direct) chunk results"
proof -
  have "list_all2 (answers direct) chunk results"
    if run: "execute_multicall_chunk aggregate chunk = Inr results"
  proof -
    obtain raw where raw: "aggregate chunk = Inr raw" "length raw = length chunk"
      and results: "results = map (\<lambda>(request, success, return_data). \<lparr>rr_logical_key = rq_logical_key request,
        rr_success = success, rr_return_data = return_data, rr_via_fallback = False, rr_error_message = None\<rparr>)
        (zip chunk raw)"
      using run by (auto simp: execute_multicall_chunk_def err_simps split: if_splits)
    have "list_all2 (\<lambda>request (success, data). case direct request of Inr d \<Rightarrow> success \<and> data = d
          | Inl _ \<Rightarrow> \<not> success) chunk raw"
      using assms(1) raw(1) by (simp add: multicall_faithful_def)
    then show ?thesis
      by (auto simp: list_all2_conv_all_nth results answers_def split: sum.splits prod.splits)
  qed
  then show ?thesis
    using assms(2) answers_direct [of direct chunk]
    by (auto simp: execute_chunk_def split: if_splits sum.splits)
qed

lemma answers_chunks:
  assumes "multicall_faithful aggregate direct"
  shows "execute_chunks aggregate direct client stats chunks = (client', stats', results) \<Longrightarrow>
    list_all2 (answers direct) (concat chunks) results"
proof (induction chunks arbitrary: client stats client' stats' results)
  case (Cons chunk chunks)
  obtain c1 r1 f where c1: "execute_chunk aggregate direct client chunk = (c1, r1, f)"
    by (metis prod_cases3)
  obtain s1 c2 s2 r2 where c2: "execute_chunks aggregate direct c1 s1 chunks = (c2, s2, r2)" "results = r1 @ r2"
    using Cons.prems by (auto simp: c1 Let_def split: prod.splits)
  show ?case
    using answers_chunk [OF assms c1] Cons.IH [OF c2(1)] c2(2) by (simp add: list_all2_appendI)
qed simp

lemma answers_execute:
  assumes "multicall_faithful aggregate direct" "0 < batch_size"
    and "multicall_execute aggregate direct batch_size calls client = Inr (client', results)"
  shows "list_all2 (answers direct) calls results"
proof (cases "calls = []")
  case False
  obtain c s where "execute_chunks aggregate direct client empty_stats (chunk_calls calls (nat batch_size)) = (c, s, results)"
    using assms(2,3) False by (auto simp: multicall_execute_def split: prod.splits)
  from answers_chunks [OF assms(1) this] assms(2) show ?thesis by (simp add: concat_chunk_calls)
qed (use assms in \<open>simp add: multicall_execute_def\<close>)

text \<open>Filling a dictionary from answers is filling it from direct calls.\<close>

lemma dict_set_present: "map_of d k = Some v \<Longrightarrow> dict_set k v d = d"
  by (induction k v d rule: dict_set.induct) auto

definition read_value :: "(string \<Rightarrow> 'v result) \<Rightarrow> string result \<Rightarrow> 'v option" where
  "read_value decoder r = (case err_bind r decoder of Inr v \<Rightarrow> Some v | Inl _ \<Rightarrow> None)"

lemma fill_agrees:
  fixes request :: "'k \<Rightarrow> multicall_request" and decoder :: "string \<Rightarrow> 'v result"
    and out :: "('k \<times> 'v option) list"
  assumes "list_all2 (answers direct) (map request keys) results"
    and "\<And>k. key_of (rq_logical_key (request k)) = k"
    and "\<And>k. k \<in> set keys \<Longrightarrow> map_of out k \<in> {Some None, Some (read_value decoder (direct (request k)))}"
  shows "fold (\<lambda>result out. if \<not> rr_success result then out
         else dict_set (key_of (rr_logical_key result))
           (case decoder (rr_return_data result) of Inr v \<Rightarrow> Some v | Inl _ \<Rightarrow> None) out) results out =
    fold (\<lambda>key out. dict_set key (case err_bind (direct (request key)) decoder of Inr v \<Rightarrow> Some v | Inl _ \<Rightarrow> None)
       out) keys out"
  using assms(1,3)
proof (induction keys arbitrary: results out)
  case (Cons k keys)
  then obtain r rs where results: "results = r # rs" "answers direct (request k) r"
    "list_all2 (answers direct) (map request keys) rs"
    by (auto simp: list_all2_Cons1)
  define out' where "out' = dict_set k (read_value decoder (direct (request k))) out"
  have step: "(if \<not> rr_success r then out
         else dict_set (key_of (rr_logical_key r))
           (case decoder (rr_return_data r) of Inr v \<Rightarrow> Some v | Inl _ \<Rightarrow> None) out) = out'"
  proof (cases "direct (request k)")
    case (Inl e)
    then have "map_of out k = Some None" "read_value decoder (direct (request k)) = None"
      using Cons.prems(2) [of k] by (auto simp: read_value_def)
    then show ?thesis
      using results(2) Inl by (simp add: answers_def out'_def dict_set_present)
  next
    case (Inr d)
    then show ?thesis using results(2) assms(2) by (simp add: answers_def out'_def read_value_def)
  qed
  have "map_of out' j \<in> {Some None, Some (read_value decoder (direct (request j)))}" if "j \<in> set keys" for j
    using Cons.prems(2) [of j] that by (auto simp: out'_def)
  from Cons.IH [OF results(3) this] show ?case
    by (simp add: results(1) step out'_def read_value_def del: fold_simps split: if_splits)
qed simp

lemma initial_none: "k \<in> set keys \<Longrightarrow> map_of (fold (\<lambda>key out. dict_set key None out) keys out) k = Some None"
proof (induction keys arbitrary: out)
  case (Cons a keys)
  then show ?case
  proof (cases "k \<in> set keys")
    case False
    have "map_of (fold (\<lambda>key out. dict_set key None out) ks o') k = map_of o' k" if "k \<notin> set ks" for ks o'
      using that by (induction ks arbitrary: o') auto
    from this [of keys "dict_set a None out"] False Cons.prems show ?thesis by simp
  qed auto
qed simp

lemma read_many_agrees:
  fixes request :: "'k \<Rightarrow> multicall_request" and decoder :: "string \<Rightarrow> 'v result"
  assumes "list_all2 (answers direct) (map request keys) results" "\<And>k. key_of (rq_logical_key (request k)) = k"
  shows "read_many_multicall decoder key_of results keys = read_many_direct (\<lambda>k. err_bind (direct (request k)) decoder) keys"
  unfolding read_many_multicall_def read_many_direct_def
  by (rule fill_agrees [OF assms]) (simp add: initial_none)

text \<open>Over distinct keys the direct reader lists each key with its reading.\<close>

lemma map_fst_dict_set: "map fst (dict_set k v d) = (if k \<in> fst ` set d then map fst d else map fst d @ [k])"
  by (induction k v d rule: dict_set.induct) auto

lemma dict_as_map: "distinct (map fst d) \<Longrightarrow> map (\<lambda>k. (k, the (map_of d k))) (map fst d) = d"
  unfolding map_map by (rule map_idI) (auto simp: map_of_is_SomeI)

lemma fold_dict_set_keys: "set keys \<subseteq> fst ` set d \<Longrightarrow> map fst (fold (\<lambda>key. dict_set key (f key)) keys d) = map fst d"
proof (induction keys arbitrary: d)
  case (Cons k keys)
  then have "set keys \<subseteq> fst ` set (dict_set k (f k) d)" by auto
  from Cons.IH [OF this] show ?case using Cons.prems by (simp add: map_fst_dict_set)
qed simp

lemma fold_dict_set_fresh:
  "distinct keys \<Longrightarrow> set keys \<inter> fst ` set d = {} \<Longrightarrow> map fst (fold (\<lambda>key. dict_set key (f key)) keys d) = map fst d @ keys"
proof (induction keys arbitrary: d)
  case (Cons k keys)
  then have "set keys \<inter> fst ` set (dict_set k (f k) d) = {}" "k \<notin> fst ` set d" by auto
  from Cons.IH [OF _ this(1)] this(2) Cons.prems(1) show ?case by (simp add: map_fst_dict_set)
qed simp

lemma fold_dict_set_value: "k \<in> set keys \<Longrightarrow> map_of (fold (\<lambda>key. dict_set key (f key)) keys d) k = Some (f k)"
proof (induction keys rule: rev_induct)
  case (snoc a keys)
  then show ?case by (cases "k = a") auto
qed simp

lemma read_many_direct_map:
  assumes "distinct keys"
  shows "read_many_direct call keys = map (\<lambda>k. (k, case call k of Inr v \<Rightarrow> Some v | Inl _ \<Rightarrow> None)) keys"
proof -
  have keys: "map fst (read_many_direct call keys) = keys"
    unfolding read_many_direct_def
    by (subst fold_dict_set_keys) (simp_all add: fold_dict_set_fresh [OF assms] flip: set_map)
  have "read_many_direct call keys = map (\<lambda>k. (k, the (map_of (read_many_direct call keys) k))) keys"
    using dict_as_map [of "read_many_direct call keys"] keys assms by metis
  also have "\<dots> = map (\<lambda>k. (k, case call k of Inr v \<Rightarrow> Some v | Inl _ \<Rightarrow> None)) keys"
    unfolding read_many_direct_def by (rule map_cong) (simp_all add: fold_dict_set_value)
  finally show ?thesis .
qed

text \<open>
  C18. When the Multicall3 contract answers each sub-call as a direct call would, the
  batched reader returns the same dictionary as the one-call-at-a-time reader, for every
  batch size and whether or not a batch falls back to direct calls.
\<close>

theorem read_many_multicall_transparent:
  assumes "multicall_faithful aggregate direct" "0 < batch_calls"
    and "\<And>k. key_of (rq_logical_key (request k)) = k"
  shows "\<exists>client'. read_many True batch_calls aggregate direct request key_of decoder call client keys =
    Inr (client', if keys = [] then [] else read_many_direct (\<lambda>k. err_bind (direct (request k)) decoder) keys)"
proof (cases "keys = []")
  case False
  obtain client' results where
    run: "multicall_execute aggregate direct batch_calls (map request keys) client = Inr (client', results)"
    using multicall_execute_complete [OF assms(2)] by metis
  have "read_many_multicall decoder key_of results keys =
      read_many_direct (\<lambda>k. err_bind (direct (request k)) decoder) keys"
    by (rule read_many_agrees [OF answers_execute [OF assms(1,2) run] assms(3)])
  then show ?thesis using False run by (simp add: read_many_def)
qed (simp add: read_many_def)

text \<open>
  A Multicall3 contract that answers batches: the sub-call to \<open>b\<close> reverts, alone or in a batch,
  and the aggregate call fails when \<open>d\<close> is in the batch.
\<close>

definition mixed_direct :: direct_fn where
  "mixed_direct request = (if rq_target request = ''b'' then Inl (OtherException ''ContractLogicError'' ''execution reverted'')
     else Inr (rq_target request @ ''!''))"

definition mixed_aggregate :: aggregate_fn where
  "mixed_aggregate chunk = (if ''d'' \<in> set (map rq_target chunk) then Inl (OtherException ''TimeoutError'' ''timeout'')
     else Inr (map (\<lambda>request. case mixed_direct request of Inr data \<Rightarrow> (True, data) | Inl _ \<Rightarrow> (False, [])) chunk))"

definition mixed_request :: "string \<Rightarrow> multicall_request" where
  "mixed_request k = \<lparr>rq_target = k, rq_call_data = '''', rq_logical_key = [k]\<rparr>"

definition mixed_client :: multicall_client where
  "mixed_client = \<lparr>mc_enabled = True, mc_disabled_for_run = False, mc_disable_reason_logged = False, mc_last_stats = empty_stats\<rparr>"

lemma mixed_faithful: "multicall_faithful mixed_aggregate mixed_direct"
  unfolding multicall_faithful_def mixed_aggregate_def
  by (auto simp: list_all2_map2 intro!: list.rel_refl split: sum.split)

lemma mixed_batch:
  "execute_multicall_chunk mixed_aggregate (map mixed_request [''a'', ''b'']) = Inr
     [\<lparr>rr_logical_key = [''a''], rr_success = True, rr_return_data = ''a!'', rr_via_fallback = False, rr_error_message = None\<rparr>,
      \<lparr>rr_logical_key = [''b''], rr_success = False, rr_return_data = [], rr_via_fallback = False, rr_error_message = None\<rparr>]"
  by code_simp

text \<open>Of four keys in batches of two, the first batch is answered and the second falls back.\<close>

theorem read_many_multicall_transparent_witness:
  "\<exists>client' answered. read_many True 2 mixed_aggregate mixed_direct mixed_request hd Inr Inr mixed_client [''a'', ''b'', ''c'', ''d''] =
      Inr (client', [(''a'', Some ''a!''), (''b'', None), (''c'', Some ''c!''), (''d'', Some ''d!'')])
    \<and> execute_multicall_chunk mixed_aggregate (map mixed_request [''a'', ''b'']) = Inr answered
    \<and> map rr_success answered = [True, False] \<and> map rr_via_fallback answered = [False, False]"
proof -
  have read: "read_many_direct (\<lambda>k. err_bind (mixed_direct (mixed_request k)) Inr) [''a'', ''b'', ''c'', ''d''] =
      [(''a'', Some ''a!''), (''b'', None), (''c'', Some ''c!''), (''d'', Some ''d!'')]" by code_simp
  have "hd (rq_logical_key (mixed_request k)) = k" for k by (simp add: mixed_request_def)
  from read_many_multicall_transparent [OF mixed_faithful _ this, of 2 Inr Inr mixed_client "[''a'', ''b'', ''c'', ''d'']"] mixed_batch
  show ?thesis unfolding read by auto
qed

end
