(* ===== verification/Settlement.thy ===== *)
theory Settlement
  imports Rpc
begin

text \<open>
  \<open>tidal/auction_settlement.py\<close>: reading what the kicker contract would resolve
  (\<open>inspect_auction_settlements\<close>), deciding what to do about it
  (\<open>decide_auction_settlement\<close>) and building the calls. The node is a parameter, as in
  \<open>Rpc\<close>; \<open>checksum\<close> is \<open>to_checksum_address\<close> and \<open>encode\<close> web3's call encoding, both
  third-party functions no law is assumed of.
\<close>

section \<open>Previews and inspections\<close>

definition PATH_NOOP :: int where "PATH_NOOP = 0"
definition PATH_SETTLE_ONLY :: int where "PATH_SETTLE_ONLY = 1"
definition PATH_SWEEP_ONLY :: int where "PATH_SWEEP_ONLY = 2"
definition PATH_SWEEP_AND_SETTLE :: int where "PATH_SWEEP_AND_SETTLE = 3"
definition PATH_RESET_ONLY :: int where "PATH_RESET_ONLY = 4"
definition PATH_SWEEP_AND_RESET :: int where "PATH_SWEEP_AND_RESET = 5"

lemmas path_defs = PATH_NOOP_def PATH_SETTLE_ONLY_def PATH_SWEEP_ONLY_def PATH_SWEEP_AND_SETTLE_def
  PATH_RESET_ONLY_def PATH_SWEEP_AND_RESET_def

record lot_preview =
  lp_token_address :: address
  lp_path :: "int option"
  lp_active :: "bool option"
  lp_kicked_at :: "int option"
  lp_balance_raw :: "int option"
  lp_requires_force :: "bool option"
  lp_receiver :: "string option"
  lp_read_ok :: bool
  lp_error_message :: "string option"

record settlement_inspection =
  si_auction_address :: address
  si_is_active_auction :: "bool option"
  si_enabled_tokens :: "address list"
  si_requested_token :: "address option"
  si_lot_previews :: "lot_preview list"

definition preview_for_token :: "(string \<Rightarrow> bool) \<Rightarrow> settlement_inspection \<Rightarrow> string \<Rightarrow> lot_preview option result" where
  "preview_for_token isaddr inspection token_address =
     err_bind (normalize_address isaddr token_address) (\<lambda>normalized.
       Inr (find (\<lambda>preview. lp_token_address preview = normalized) (si_lot_previews inspection)))"

definition preview_failures :: "settlement_inspection \<Rightarrow> lot_preview list" where
  "preview_failures inspection = filter (\<lambda>preview. \<not> lp_read_ok preview) (si_lot_previews inspection)"

text \<open>What \<open>previewResolveAuction\<close> returns: path, active, kicked at, balance, requires force, receiver.\<close>

type_synonym raw_preview = "int \<times> bool \<times> int \<times> int \<times> bool \<times> string"

definition failed_preview :: "address \<Rightarrow> string \<Rightarrow> lot_preview" where
  "failed_preview token_address message =
     \<lparr>lp_token_address = token_address, lp_path = None, lp_active = None, lp_kicked_at = None,
      lp_balance_raw = None, lp_requires_force = None, lp_receiver = None, lp_read_ok = False,
      lp_error_message = Some message\<rparr>"

definition preview_of_raw :: "(string \<Rightarrow> bool) \<Rightarrow> address \<Rightarrow> raw_preview \<Rightarrow> lot_preview result" where
  "preview_of_raw isaddr token_address raw =
     (case raw of (path, active, kicked_at, balance, force, receiver) \<Rightarrow>
        err_bind (normalize_address isaddr receiver) (\<lambda>receiver.
          Inr \<lparr>lp_token_address = token_address, lp_path = Some path, lp_active = Some active,
            lp_kicked_at = Some kicked_at, lp_balance_raw = Some balance, lp_requires_force = Some force,
            lp_receiver = Some receiver, lp_read_ok = True, lp_error_message = None\<rparr>))"

definition read_preview_direct ::
  "(string \<Rightarrow> bool) \<Rightarrow> (address \<Rightarrow> address \<Rightarrow> raw_preview result) \<Rightarrow> address \<Rightarrow> address \<Rightarrow> lot_preview result" where
  "read_preview_direct isaddr preview_call auction_address token_address =
     (case preview_call auction_address token_address of
        Inl e \<Rightarrow> Inr (failed_preview token_address (exn_str e))
      | Inr raw \<Rightarrow> preview_of_raw isaddr token_address raw)"

definition decode_preview_result ::
  "(string \<Rightarrow> bool) \<Rightarrow> (string \<Rightarrow> raw_preview result) \<Rightarrow> address \<Rightarrow> string \<Rightarrow> lot_preview result" where
  "decode_preview_result isaddr decode_preview token_address return_data =
     err_bind (decode_preview return_data) (preview_of_raw isaddr token_address)"

text \<open>The node as the preview reader sees it.\<close>

record preview_node =
  pn_multicall_enabled :: bool
  pn_batch_calls :: int
  pn_aggregate :: aggregate_fn
  pn_direct :: direct_fn
  pn_encode_preview :: "address \<Rightarrow> address \<Rightarrow> string"
  pn_decode_preview :: "string \<Rightarrow> raw_preview result"
  pn_preview_call :: "address \<Rightarrow> address \<Rightarrow> raw_preview result"
  pn_kicker_address :: string

type_synonym preview_dict = "((address \<times> address) \<times> lot_preview) list"

definition read_preview_many ::
  "(string \<Rightarrow> bool) \<Rightarrow> preview_node \<Rightarrow> multicall_client \<Rightarrow> (address \<times> address) list
     \<Rightarrow> (multicall_client \<times> preview_dict) result" where
  "read_preview_many isaddr node client pairs =
     (if pairs = [] then Inr (client, [])
      else err_bind (normalize_address isaddr (pn_kicker_address node)) (\<lambda>kicker_address.
        if \<not> pn_multicall_enabled node then
          err_bind (fold_err (\<lambda>(auction, token) out.
              err_bind (read_preview_direct isaddr (pn_preview_call node) auction token) (\<lambda>preview.
                Inr (dict_set (auction, token) preview out))) pairs []) (\<lambda>out. Inr (client, out))
        else
          err_bind (multicall_execute (pn_aggregate node) (pn_direct node) (pn_batch_calls node)
              (map (\<lambda>(auction, token). \<lparr>rq_target = kicker_address,
                 rq_call_data = pn_encode_preview node auction token, rq_logical_key = [auction, token]\<rparr>) pairs)
              client) (\<lambda>(client, results).
          err_bind (fold_err (\<lambda>result out.
              let auction = rr_logical_key result ! 0; token = rr_logical_key result ! 1 in
              if \<not> rr_success result then
                Inr (dict_set (auction, token) (failed_preview token
                  (case rr_error_message result of Some m \<Rightarrow> if m = '''' then ''multicall preview failed'' else m
                   | None \<Rightarrow> ''multicall preview failed'')) out)
              else err_bind (decode_preview_result isaddr (pn_decode_preview node) token (rr_return_data result))
                (\<lambda>preview. Inr (dict_set (auction, token) preview out))) results []) (\<lambda>out.
          Inr (client, out)))))"

text \<open>
  \<open>active_flags\<close> and \<open>enabled_tokens\<close> are the dictionaries the two gathered reads return,
  \<open>read_previews\<close> is \<open>_read_preview_many\<close>.
\<close>

definition normalize_requested ::
  "(string \<Rightarrow> bool) \<Rightarrow> (string \<times> string option) list \<Rightarrow> (address \<times> address option) list result" where
  "normalize_requested isaddr requested_tokens =
     fold_err (\<lambda>(auction, token) out.
       err_bind (normalize_address isaddr auction) (\<lambda>auction.
       err_bind (case token of None \<Rightarrow> Inr None
           | Some t \<Rightarrow> if t = '''' then Inr None else err_bind (normalize_address isaddr t) (\<lambda>t. Inr (Some t))) (\<lambda>token.
       Inr (dict_set auction token out)))) requested_tokens []"

definition requested_for :: "(address \<times> address option) list \<Rightarrow> address \<Rightarrow> address option" where
  "requested_for requested auction = (case map_of requested auction of None \<Rightarrow> None | Some t \<Rightarrow> t)"

definition enabled_for :: "(address \<times> address list option) list \<Rightarrow> address \<Rightarrow> address list" where
  "enabled_for enabled_tokens auction =
     (case map_of enabled_tokens auction of Some (Some tokens) \<Rightarrow> tokens | _ \<Rightarrow> [])"

definition ordered_tokens ::
  "(address \<times> address list option) list \<Rightarrow> (address \<times> address option) list \<Rightarrow> address \<Rightarrow> address list" where
  "ordered_tokens enabled_tokens requested auction =
     sorted_set (enabled_for enabled_tokens auction @
       (case requested_for requested auction of None \<Rightarrow> [] | Some t \<Rightarrow> [t]))"

definition dict_get :: "('k \<times> 'v) list \<Rightarrow> 'k \<Rightarrow> 'v result" where
  "dict_get d k = (case map_of d k of Some v \<Rightarrow> Inr v | None \<Rightarrow> Inl (KeyError ''''))"

definition inspect_auction_settlements ::
  "(string \<Rightarrow> bool) \<Rightarrow> (address list \<Rightarrow> (address \<times> bool option) list result)
     \<Rightarrow> (address list \<Rightarrow> (address \<times> address list option) list result)
     \<Rightarrow> ((address \<times> address) list \<Rightarrow> preview_dict result)
     \<Rightarrow> string list \<Rightarrow> (string \<times> string option) list \<Rightarrow> (address \<times> settlement_inspection) list result" where
  "inspect_auction_settlements isaddr read_active read_enabled read_previews auction_addresses requested_tokens =
     err_bind (traverse_err (normalize_address isaddr) auction_addresses) (\<lambda>auctions.
     err_bind (normalize_requested isaddr requested_tokens) (\<lambda>requested.
     err_bind (read_active auctions) (\<lambda>active_flags.
     err_bind (read_enabled auctions) (\<lambda>enabled_tokens.
     err_bind (read_previews (concat (map (\<lambda>auction. map (Pair auction)
         (ordered_tokens enabled_tokens requested auction)) auctions))) (\<lambda>preview_results.
     fold_err (\<lambda>auction inspections.
       err_bind (traverse_err (\<lambda>token. dict_get preview_results (auction, token))
           (ordered_tokens enabled_tokens requested auction)) (\<lambda>lot_previews.
       Inr (dict_set auction
         \<lparr>si_auction_address = auction,
          si_is_active_auction = (case map_of active_flags auction of None \<Rightarrow> None | Some a \<Rightarrow> a),
          si_enabled_tokens = sort (enabled_for enabled_tokens auction),
          si_requested_token = requested_for requested auction,
          si_lot_previews = lot_previews\<rparr> inspections))) auctions [])))))"

definition inspect_auction_settlement ::
  "(string \<Rightarrow> bool) \<Rightarrow> (address list \<Rightarrow> (address \<times> bool option) list result)
     \<Rightarrow> (address list \<Rightarrow> (address \<times> address list option) list result)
     \<Rightarrow> ((address \<times> address) list \<Rightarrow> preview_dict result)
     \<Rightarrow> string \<Rightarrow> string option \<Rightarrow> settlement_inspection result" where
  "inspect_auction_settlement isaddr read_active read_enabled read_previews auction_address token_address =
     err_bind (normalize_address isaddr auction_address) (\<lambda>auction.
     err_bind (case token_address of None \<Rightarrow> Inr None
         | Some t \<Rightarrow> if t = '''' then Inr None else err_bind (normalize_address isaddr t) (\<lambda>t. Inr (Some t))) (\<lambda>token.
     err_bind (inspect_auction_settlements isaddr read_active read_enabled read_previews [auction] [(auction, token)])
       (\<lambda>results. dict_get results auction)))"

section \<open>Decisions\<close>

datatype settlement_status = Actionable | Noop | SettlementError

record settlement_operation =
  so_operation_type :: string
  so_token_address :: address
  so_path :: int
  so_reason :: string
  so_balance_raw :: int
  so_requires_force :: bool
  so_receiver :: "string option"

record settlement_decision =
  sd_status :: settlement_status
  sd_operations :: "settlement_operation list"
  sd_reason :: string

definition path_reason :: "int \<Rightarrow> string" where
  "path_reason path =
     (if path = PATH_SETTLE_ONLY then ''active sold-out lot''
      else if path = PATH_SWEEP_ONLY then ''inactive lot with residual inventory''
      else if path = PATH_SWEEP_AND_SETTLE then ''live funded lot''
      else if path = PATH_RESET_ONLY then ''inactive kicked empty lot''
      else if path = PATH_SWEEP_AND_RESET then ''inactive kicked lot with stranded inventory''
      else if path = PATH_NOOP then ''clean lot''
      else ''unknown resolver path '' @ show_int path)"

definition operation_from_preview :: "lot_preview \<Rightarrow> settlement_operation result" where
  "operation_from_preview preview =
     (case lp_path preview of
        None \<Rightarrow> Inl (ValueError ''cannot build an operation from a failed preview'')
      | Some path \<Rightarrow> Inr \<lparr>so_operation_type = ''resolve_auction'', so_token_address = lp_token_address preview,
          so_path = path, so_reason = path_reason path,
          so_balance_raw = (case lp_balance_raw preview of None \<Rightarrow> 0 | Some b \<Rightarrow> b),
          so_requires_force = (lp_requires_force preview = Some True),
          so_receiver = lp_receiver preview\<rparr>)"

text \<open>\<open>path not in {None, PATH_NOOP, PATH_RESET_ONLY}\<close>\<close>

definition resolvable_path :: "int option \<Rightarrow> bool" where
  "resolvable_path path \<longleftrightarrow> path \<noteq> None \<and> path \<noteq> Some PATH_NOOP \<and> path \<noteq> Some PATH_RESET_ONLY"

definition default_actionable_previews :: "settlement_inspection \<Rightarrow> lot_preview list" where
  "default_actionable_previews inspection =
     filter (\<lambda>preview. lp_read_ok preview \<and> resolvable_path (lp_path preview)
       \<and> lp_requires_force preview = Some False) (si_lot_previews inspection)"

definition live_funded_previews :: "settlement_inspection \<Rightarrow> lot_preview list" where
  "live_funded_previews inspection =
     filter (\<lambda>preview. lp_read_ok preview \<and> lp_requires_force preview = Some True) (si_lot_previews inspection)"

definition no_operations :: "settlement_status \<Rightarrow> string \<Rightarrow> settlement_decision" where
  "no_operations status reason = \<lparr>sd_status = status, sd_operations = [], sd_reason = reason\<rparr>"

definition decide_requested ::
  "(string \<Rightarrow> bool) \<Rightarrow> (string \<Rightarrow> string) \<Rightarrow> settlement_inspection \<Rightarrow> address \<Rightarrow> bool \<Rightarrow> settlement_decision result" where
  "decide_requested isaddr checksum inspection requested_token force =
     err_bind (preview_for_token isaddr inspection requested_token) (\<lambda>found.
     case found of
       None \<Rightarrow> Inr (no_operations SettlementError ''resolve preview failed for the requested token'')
     | Some preview \<Rightarrow>
       if \<not> lp_read_ok preview
       then Inr (no_operations SettlementError ''resolve preview failed for the requested token'')
       else if \<not> resolvable_path (lp_path preview) then
         (case filter (\<lambda>candidate. lp_read_ok candidate \<and> lp_token_address candidate \<noteq> requested_token
             \<and> resolvable_path (lp_path candidate)) (si_lot_previews inspection) of
            [] \<Rightarrow> Inr (no_operations Noop ''requested token has nothing to resolve'')
          | [candidate] \<Rightarrow> Inr (no_operations SettlementError (''requested token '' @ checksum requested_token
              @ '' does not match resolved token '' @ checksum (lp_token_address candidate)))
          | _ \<Rightarrow> Inr (no_operations SettlementError ''requested token does not match any resolvable lot on this auction''))
       else if lp_requires_force preview = Some True \<and> \<not> force
       then Inr (no_operations Noop ''requested token is live and in progress; pass --force to close it'')
       else err_bind (operation_from_preview preview) (\<lambda>operation.
         Inr \<lparr>sd_status = Actionable, sd_operations = [operation], sd_reason = so_reason operation\<rparr>))"

definition decide_auction_settlement ::
  "(string \<Rightarrow> bool) \<Rightarrow> (string \<Rightarrow> string) \<Rightarrow> settlement_inspection \<Rightarrow> string option \<Rightarrow> bool \<Rightarrow> settlement_decision result" where
  "decide_auction_settlement isaddr checksum inspection token_address force =
     err_bind (case token_address of
         Some token \<Rightarrow> err_bind (normalize_address isaddr token) (\<lambda>t. Inr (Some t))
       | None \<Rightarrow> Inr (si_requested_token inspection)) (\<lambda>requested_token.
     case requested_token of
       Some requested \<Rightarrow> decide_requested isaddr checksum inspection requested force
     | None \<Rightarrow>
       if force then Inl (ValueError ''force requires an explicit token'')
       else if preview_failures inspection \<noteq> []
       then Inr (no_operations SettlementError ''one or more enabled lot previews failed; retry or pass --token'')
       else err_bind (traverse_err operation_from_preview (default_actionable_previews inspection)) (\<lambda>operations.
         if operations \<noteq> [] then Inr \<lparr>sd_status = Actionable, sd_operations = operations,
           sd_reason = ''prepared '' @ show_nat (length operations) @ '' resolvable lot(s)''\<rparr>
         else if live_funded_previews inspection \<noteq> []
         then Inr (no_operations Noop ''auction is progressing normally'')
         else Inr (no_operations Noop ''auction has nothing to resolve'')))"

section \<open>Calls\<close>

record settlement_call =
  sc_operation_type :: string
  sc_token_address :: address
  sc_target_address :: address
  sc_data :: string
  sc_force_live :: bool

definition build_auction_settlement_calls ::
  "(string \<Rightarrow> bool) \<Rightarrow> (string \<Rightarrow> string) \<Rightarrow> (string \<Rightarrow> string \<Rightarrow> bool \<Rightarrow> string) \<Rightarrow> string \<Rightarrow> string
     \<Rightarrow> settlement_decision \<Rightarrow> settlement_call list result" where
  "build_auction_settlement_calls isaddr checksum encode_resolve kicker auction_address decision =
     (if sd_status decision \<noteq> Actionable \<or> sd_operations decision = []
      then Inl (ValueError ''settlement calls require an actionable decision'')
      else err_bind (normalize_address isaddr auction_address) (\<lambda>auction.
        err_bind (normalize_address isaddr kicker) (\<lambda>kicker_address.
        Inr (map (\<lambda>operation. \<lparr>sc_operation_type = ''resolve_auction'',
            sc_token_address = so_token_address operation, sc_target_address = kicker_address,
            sc_data = encode_resolve (checksum auction) (checksum (so_token_address operation))
              (so_requires_force operation),
            sc_force_live = so_requires_force operation\<rparr>) (sd_operations decision)))))"

definition build_auction_settlement_call ::
  "(string \<Rightarrow> bool) \<Rightarrow> (string \<Rightarrow> string) \<Rightarrow> (string \<Rightarrow> string \<Rightarrow> bool \<Rightarrow> string) \<Rightarrow> string \<Rightarrow> string
     \<Rightarrow> settlement_decision \<Rightarrow> settlement_call result" where
  "build_auction_settlement_call isaddr checksum encode_resolve kicker auction_address decision =
     err_bind (build_auction_settlement_calls isaddr checksum encode_resolve kicker auction_address decision) (\<lambda>calls.
       case calls of [call] \<Rightarrow> Inr call | _ \<Rightarrow> Inl (ValueError ''expected exactly one settlement call''))"

definition build_auction_sweep_call ::
  "(string \<Rightarrow> bool) \<Rightarrow> (string \<Rightarrow> string) \<Rightarrow> (string \<Rightarrow> string \<Rightarrow> string) \<Rightarrow> string \<Rightarrow> string \<Rightarrow> string
     \<Rightarrow> settlement_call result" where
  "build_auction_sweep_call isaddr checksum encode_sweep kicker auction_address token_address =
     err_bind (normalize_address isaddr auction_address) (\<lambda>auction.
     err_bind (normalize_address isaddr token_address) (\<lambda>token.
     err_bind (normalize_address isaddr kicker) (\<lambda>kicker_address.
       Inr \<lparr>sc_operation_type = ''sweep_auction'', sc_token_address = token, sc_target_address = kicker_address,
         sc_data = encode_sweep (checksum auction) (checksum token), sc_force_live = False\<rparr>)))"

section \<open>Safety of the decision\<close>

lemma operation_from_preview_Inr:
  "operation_from_preview preview = Inr op \<Longrightarrow>
     so_token_address op = lp_token_address preview \<and> lp_path preview = Some (so_path op)
     \<and> so_requires_force op = (lp_requires_force preview = Some True) \<and> so_receiver op = lp_receiver preview
     \<and> so_operation_type op = ''resolve_auction''"
  by (auto simp: operation_from_preview_def split: option.splits)

lemma operations_of_previews:
  "traverse_err operation_from_preview previews = Inr ops \<Longrightarrow>
     list_all2 (\<lambda>preview op. operation_from_preview preview = Inr op) previews ops"
  by (simp add: err_simps)

lemma default_operations_total:
  "\<exists>ops. traverse_err operation_from_preview (default_actionable_previews inspection) = Inr ops"
proof -
  have "\<exists>op. operation_from_preview preview = Inr op" if "preview \<in> set (default_actionable_previews inspection)" for preview
    using that by (auto simp: default_actionable_previews_def operation_from_preview_def resolvable_path_def)
  then obtain f where "\<And>preview. preview \<in> set (default_actionable_previews inspection) \<Longrightarrow>
      operation_from_preview preview = Inr (f preview)"
    by metis
  then show ?thesis using traverse_err_total by metis
qed

text \<open>The previews a decision may act on.\<close>

definition acts_on :: "bool \<Rightarrow> settlement_operation \<Rightarrow> lot_preview \<Rightarrow> bool" where
  "acts_on force op preview \<longleftrightarrow> lp_read_ok preview \<and> lp_token_address preview = so_token_address op
     \<and> lp_path preview = Some (so_path op) \<and> resolvable_path (lp_path preview)
     \<and> so_requires_force op = (lp_requires_force preview = Some True)
     \<and> (lp_requires_force preview = Some True \<longrightarrow> force)"

lemma decide_requested_safe:
  assumes "decide_requested isaddr checksum inspection r force = Inr d"
  shows "sd_operations d = [] \<and> sd_status d \<noteq> Actionable
    \<or> (\<exists>op. sd_operations d = [op] \<and> sd_status d = Actionable
        \<and> (\<exists>preview \<in> set (si_lot_previews inspection). acts_on force op preview))"
proof -
  obtain found where found: "preview_for_token isaddr inspection r = Inr found"
    using assms by (auto simp: decide_requested_def err_simps)
  show ?thesis
  proof (cases found)
    case (Some preview)
    then have preview: "preview \<in> set (si_lot_previews inspection)"
      using found by (auto simp: preview_for_token_def err_simps find_Some_iff)
    show ?thesis
    proof (cases "lp_read_ok preview \<and> resolvable_path (lp_path preview)
        \<and> (lp_requires_force preview = Some True \<longrightarrow> force)")
      case False
      then show ?thesis
        using assms by (simp add: decide_requested_def found Some no_operations_def split: if_splits list.splits) auto
    next
      case True
      then obtain op where op: "operation_from_preview preview = Inr op"
        by (auto simp: operation_from_preview_def resolvable_path_def)
      then have "acts_on force op preview"
        using True operation_from_preview_Inr [OF op] by (simp add: acts_on_def)
      moreover have "sd_operations d = [op]" "sd_status d = Actionable"
        using assms True op by (auto simp: decide_requested_def found Some split: if_splits)
      ultimately show ?thesis using preview by blast
    qed
  qed (use assms found in \<open>auto simp: decide_requested_def no_operations_def\<close>)
qed

text \<open>
  C17. Settlement operations are prepared only from successful previews with an actionable
  path, a lot that is still live is force-settled only when the operator asked for force,
  and an Actionable decision always carries an operation while the other statuses carry
  none.
\<close>

theorem decide_auction_settlement_safe:
  assumes "decide_auction_settlement isaddr checksum inspection token_address force = Inr d"
  shows "(sd_status d = Actionable \<longleftrightarrow> sd_operations d \<noteq> [])
    \<and> (\<forall>op \<in> set (sd_operations d). so_path op \<noteq> PATH_NOOP \<and> so_path op \<noteq> PATH_RESET_ONLY
        \<and> (\<exists>preview \<in> set (si_lot_previews inspection). acts_on force op preview))"
proof -
  have path: "acts_on force op preview \<Longrightarrow> so_path op \<noteq> PATH_NOOP \<and> so_path op \<noteq> PATH_RESET_ONLY" for op preview
    by (auto simp: acts_on_def resolvable_path_def)
  obtain requested where requested: "(case token_address of
         Some token \<Rightarrow> err_bind (normalize_address isaddr token) (\<lambda>t. Inr (Some t))
       | None \<Rightarrow> Inr (si_requested_token inspection)) = Inr requested"
    using assms by (auto simp: decide_auction_settlement_def err_simps)
  show ?thesis
  proof (cases requested)
    case (Some r)
    then have "decide_requested isaddr checksum inspection r force = Inr d"
      using assms requested by (auto simp: decide_auction_settlement_def err_simps)
    from decide_requested_safe [OF this] path show ?thesis by auto
  next
    case None
    obtain ops where ops: "traverse_err operation_from_preview (default_actionable_previews inspection) = Inr ops"
      using default_operations_total by blast
    have each: "\<exists>preview \<in> set (si_lot_previews inspection). acts_on force op preview" if op: "op \<in> set ops" for op
    proof -
      obtain preview where preview: "preview \<in> set (default_actionable_previews inspection)"
        "operation_from_preview preview = Inr op"
        using list_all2_in_set2 [OF operations_of_previews [OF ops] op] by blast
      have "acts_on force op preview"
        using preview(1) operation_from_preview_Inr [OF preview(2)]
        by (simp add: default_actionable_previews_def acts_on_def)
      with preview(1) show ?thesis by (auto simp: default_actionable_previews_def)
    qed
    have "sd_operations d = [] \<and> sd_status d \<noteq> Actionable \<or> sd_operations d = ops \<and> ops \<noteq> [] \<and> sd_status d = Actionable"
      using assms requested None ops
      by (auto simp: decide_auction_settlement_def no_operations_def split: if_splits)
    with each path show ?thesis by fastforce
  qed
qed

text \<open>
  Without a requested token, when every preview was read the decision prepares exactly
  the resolvable lots that do not need force, in preview order.
\<close>

theorem decide_auction_settlement_default_complete:
  assumes "si_requested_token inspection = None" "\<forall>preview \<in> set (si_lot_previews inspection). lp_read_ok preview"
  shows "\<exists>d. decide_auction_settlement isaddr checksum inspection None False = Inr d
    \<and> map (\<lambda>op. (so_token_address op, Some (so_path op))) (sd_operations d) =
      map (\<lambda>preview. (lp_token_address preview, lp_path preview))
        (filter (\<lambda>preview. resolvable_path (lp_path preview) \<and> lp_requires_force preview = Some False)
          (si_lot_previews inspection))"
proof -
  obtain ops where ops: "traverse_err operation_from_preview (default_actionable_previews inspection) = Inr ops"
    using default_operations_total by blast
  have "map (\<lambda>op. (so_token_address op, Some (so_path op))) ops =
      map (\<lambda>preview. (lp_token_address preview, lp_path preview)) (default_actionable_previews inspection)"
    using operations_of_previews [OF ops] by (induction rule: list_all2_induct) (auto dest: operation_from_preview_Inr)
  moreover have "default_actionable_previews inspection = filter (\<lambda>preview. resolvable_path (lp_path preview)
      \<and> lp_requires_force preview = Some False) (si_lot_previews inspection)"
    using assms(2) by (auto simp: default_actionable_previews_def intro: filter_cong)
  moreover have "preview_failures inspection = []"
    using assms(2) by (simp add: preview_failures_def filter_empty_conv)
  ultimately show ?thesis
    using assms(1) ops by (auto simp: decide_auction_settlement_def no_operations_def)
qed

text \<open>
  The calls built for a decision are one per operation, in order, on the kicker's
  address and with the operation's force flag.
\<close>

theorem build_settlement_calls_one_per_operation:
  assumes "build_auction_settlement_calls isaddr checksum encode kicker auction decision = Inr calls"
  shows "calls \<noteq> [] \<and> map sc_token_address calls = map so_token_address (sd_operations decision)
    \<and> map sc_force_live calls = map so_requires_force (sd_operations decision)
    \<and> (\<forall>call \<in> set calls. sc_target_address call = str_lower kicker)"
  using assms
  by (auto simp: build_auction_settlement_calls_def err_simps normalize_address_Inr split: if_splits)

section \<open>Inspections\<close>

lemma fold_dict_keys:
  "fold_err (\<lambda>a out. err_bind (f a) (\<lambda>v. Inr (dict_set a v out))) keys out = Inr result \<Longrightarrow>
     (\<forall>a. map_of result a = (if a \<in> set keys then (case f a of Inr v \<Rightarrow> Some v | Inl _ \<Rightarrow> None) else map_of out a))
     \<and> (\<forall>a \<in> set keys. \<exists>v. f a = Inr v)"
  by (induction keys arbitrary: out) (auto simp: err_simps fun_upd_def split: if_splits)

text \<open>What the inspection needs of the preview reader: each pair is answered for its own token.\<close>

locale preview_reader =
  fixes read_previews :: "(address \<times> address) list \<Rightarrow> preview_dict result"
  assumes preview_token: "read_previews pairs = Inr previews \<Longrightarrow> map_of previews pair = Some preview \<Longrightarrow>
    lp_token_address preview = snd pair"
begin

lemma inspection_covers:
  assumes "inspect_auction_settlements isaddr read_active read_enabled read_previews auctions requested = Inr inspections"
    and "auction \<in> set auctions"
  shows "\<exists>inspection enabled. map_of inspections (str_lower auction) = Some inspection
    \<and> read_enabled (map str_lower auctions) = Inr enabled
    \<and> si_enabled_tokens inspection = sort (enabled_for enabled (str_lower auction))
    \<and> map lp_token_address (si_lot_previews inspection) =
        sorted_set (enabled_for enabled (str_lower auction) @
          (case si_requested_token inspection of None \<Rightarrow> [] | Some t \<Rightarrow> [t]))"
proof -
  obtain addrs normalized active enabled previews where
    addrs: "traverse_err (normalize_address isaddr) auctions = Inr addrs"
    and "normalize_requested isaddr requested = Inr normalized" and "read_active addrs = Inr active"
    and enabled: "read_enabled addrs = Inr enabled"
    and previews: "read_previews (concat (map (\<lambda>auction. map (Pair auction)
         (ordered_tokens enabled normalized auction)) addrs)) = Inr previews"
    and fold: "fold_err (\<lambda>auction inspections.
       err_bind (traverse_err (\<lambda>token. dict_get previews (auction, token))
           (ordered_tokens enabled normalized auction)) (\<lambda>lot_previews.
       Inr (dict_set auction
         \<lparr>si_auction_address = auction,
          si_is_active_auction = (case map_of active auction of None \<Rightarrow> None | Some a \<Rightarrow> a),
          si_enabled_tokens = sort (enabled_for enabled auction),
          si_requested_token = requested_for normalized auction,
          si_lot_previews = lot_previews\<rparr> inspections))) addrs [] = Inr inspections"
    using assms(1) unfolding inspect_auction_settlements_def err_bind_Inr_iff
    by (elim exE conjE) (rule that)
  have addrs_eq: "addrs = map str_lower auctions"
    using addrs unfolding traverse_err_Inr
    by (induction rule: list_all2_induct) (auto simp: normalize_address_Inr)
  define f where "f = (\<lambda>auction. err_bind (traverse_err (\<lambda>token. dict_get previews (auction, token))
           (ordered_tokens enabled normalized auction)) (\<lambda>lot_previews.
       Inr \<lparr>si_auction_address = auction,
          si_is_active_auction = (case map_of active auction of None \<Rightarrow> None | Some a \<Rightarrow> a),
          si_enabled_tokens = sort (enabled_for enabled auction),
          si_requested_token = requested_for normalized auction,
          si_lot_previews = lot_previews\<rparr>))"
  have "fold_err (\<lambda>a out. err_bind (f a) (\<lambda>v. Inr (dict_set a v out))) (map str_lower auctions) [] = Inr inspections"
    using fold unfolding f_def err_bind_assoc addrs_eq by simp
  note dict = fold_dict_keys [OF this]
  obtain inspection where f: "f (str_lower auction) = Inr inspection"
    using dict assms(2) by auto
  then obtain lots where lots: "traverse_err (\<lambda>token. dict_get previews (str_lower auction, token))
      (ordered_tokens enabled normalized (str_lower auction)) = Inr lots"
    and fields: "si_enabled_tokens inspection = sort (enabled_for enabled (str_lower auction))"
      "si_requested_token inspection = requested_for normalized (str_lower auction)"
      "si_lot_previews inspection = lots"
    by (auto simp: f_def err_bind_Inr_iff)
  have "map lp_token_address lots = ordered_tokens enabled normalized (str_lower auction)"
    using lots unfolding err_simps
    by (induction rule: list_all2_induct)
      (auto simp: dict_get_def split: option.splits dest!: preview_token [OF previews])
  moreover have "map_of inspections (str_lower auction) = Some inspection"
    using dict f assms(2) by simp
  ultimately show ?thesis using enabled fields by (auto simp: ordered_tokens_def addrs_eq)
qed

end

lemma preview_of_raw_token: "preview_of_raw isaddr token raw = Inr preview \<Longrightarrow> lp_token_address preview = token"
  by (auto simp: preview_of_raw_def err_simps split: prod.splits)

lemma direct_previews_tokens:
  assumes "fold_err (\<lambda>(auction, token) out. err_bind (read_preview_direct isaddr call auction token) (\<lambda>preview.
      Inr (dict_set (auction, token) preview out))) pairs [] = Inr out"
  shows "\<forall>pair preview. map_of out pair = Some preview \<longrightarrow> lp_token_address preview = snd pair"
  using assms
  by (rule fold_err_invariant)
    (auto simp: read_preview_direct_def failed_preview_def err_simps preview_of_raw_token split: sum.splits if_splits)

lemma multicall_previews_tokens:
  assumes "fold_err (\<lambda>result out.
      let auction = rr_logical_key result ! 0; token = rr_logical_key result ! 1 in
      if \<not> rr_success result then Inr (dict_set (auction, token) (failed_preview token (message result)) out)
      else err_bind (decode_preview_result isaddr decode token (rr_return_data result))
        (\<lambda>preview. Inr (dict_set (auction, token) preview out))) results [] = Inr out"
  shows "\<forall>pair preview. map_of out pair = Some preview \<longrightarrow> lp_token_address preview = snd pair"
  using assms
  by (rule fold_err_invariant)
    (auto simp: Let_def decode_preview_result_def failed_preview_def err_simps preview_of_raw_token split: if_splits)

lemma read_preview_many_tokens:
  assumes "read_preview_many isaddr node client pairs = Inr (client', previews)" "map_of previews pair = Some preview"
  shows "lp_token_address preview = snd pair"
proof (cases "pairs = []")
  case True
  with assms show ?thesis by (simp add: read_preview_many_def)
next
  case False
  show ?thesis
  proof (cases "pn_multicall_enabled node")
    case True
    then obtain results :: "multicall_result list" where "fold_err (\<lambda>result out.
        let auction = rr_logical_key result ! 0; token = rr_logical_key result ! 1 in
        if \<not> rr_success result then Inr (dict_set (auction, token) (failed_preview token
            (case rr_error_message result of Some m \<Rightarrow> if m = [] then ''multicall preview failed'' else m
             | None \<Rightarrow> ''multicall preview failed'')) out)
        else err_bind (decode_preview_result isaddr (pn_decode_preview node) token (rr_return_data result))
          (\<lambda>preview. Inr (dict_set (auction, token) preview out))) results [] = Inr previews"
      using assms(1) False
      by (auto simp: read_preview_many_def err_bind_Inr_iff split: prod.splits)
    from multicall_previews_tokens [OF this] assms(2) show ?thesis by blast
  next
    case direct: False
    then have "fold_err (\<lambda>(auction, token) out.
        err_bind (read_preview_direct isaddr (pn_preview_call node) auction token) (\<lambda>preview.
          Inr (dict_set (auction, token) preview out))) pairs [] = Inr previews"
      using assms(1) False by (auto simp: read_preview_many_def err_bind_Inr_iff)
    from direct_previews_tokens [OF this] assms(2) show ?thesis by blast
  qed
qed

definition read_previews_of ::
  "(string \<Rightarrow> bool) \<Rightarrow> preview_node \<Rightarrow> multicall_client \<Rightarrow> (address \<times> address) list \<Rightarrow> preview_dict result" where
  "read_previews_of isaddr node client pairs =
     err_bind (read_preview_many isaddr node client pairs) (\<lambda>(_, previews). Inr previews)"

interpretation node_previews: preview_reader "read_previews_of isaddr node client" for isaddr node client
  by unfold_locales (auto simp: read_previews_of_def err_bind_Inr_iff dest: read_preview_many_tokens)

text \<open>
  Every inspected auction gets an inspection with exactly one preview per enabled or
  requested token, in sorted order, each preview answering for its own token.
\<close>

theorem inspection_covers_enabled_tokens:
  assumes "inspect_auction_settlements isaddr read_active read_enabled (read_previews_of isaddr node client)
      auctions requested = Inr inspections"
    and "auction \<in> set auctions"
  shows "\<exists>inspection enabled. map_of inspections (str_lower auction) = Some inspection
    \<and> read_enabled (map str_lower auctions) = Inr enabled
    \<and> si_enabled_tokens inspection = sort (enabled_for enabled (str_lower auction))
    \<and> map lp_token_address (si_lot_previews inspection) =
        sorted_set (enabled_for enabled (str_lower auction) @
          (case si_requested_token inspection of None \<Rightarrow> [] | Some t \<Rightarrow> [t]))"
  using assms by (rule node_previews.inspection_covers)

section \<open>A concrete auction\<close>

definition sample_node :: preview_node where
  "sample_node = \<lparr>pn_multicall_enabled = False, pn_batch_calls = 10, pn_aggregate = (\<lambda>_. Inr []),
     pn_direct = (\<lambda>_. Inr []), pn_encode_preview = (\<lambda>_ _. []), pn_decode_preview = (\<lambda>_. Inl IndexError),
     pn_preview_call = (\<lambda>_ token. if token = ''t'' then Inr (2, False, 0, 7, False, ''r'') else Inr (0, False, 0, 0, False, ''r'')),
     pn_kicker_address = ''k''\<rparr>"

definition sample_client :: multicall_client where
  "sample_client = \<lparr>mc_enabled = False, mc_disabled_for_run = False, mc_disable_reason_logged = False,
     mc_last_stats = empty_stats\<rparr>"

definition sample_inspection :: settlement_inspection where
  "sample_inspection = \<lparr>si_auction_address = ''a'', si_is_active_auction = Some False, si_enabled_tokens = [''s'', ''t''],
     si_requested_token = None,
     si_lot_previews =
       [\<lparr>lp_token_address = ''s'', lp_path = Some 0, lp_active = Some False, lp_kicked_at = Some 0, lp_balance_raw = Some 0,
         lp_requires_force = Some False, lp_receiver = Some ''r'', lp_read_ok = True, lp_error_message = None\<rparr>,
        \<lparr>lp_token_address = ''t'', lp_path = Some 2, lp_active = Some False, lp_kicked_at = Some 0, lp_balance_raw = Some 7,
         lp_requires_force = Some False, lp_receiver = Some ''r'', lp_read_ok = True, lp_error_message = None\<rparr>]\<rparr>"

lemma sample_inspect:
  "inspect_auction_settlements (\<lambda>_. True) (\<lambda>_. Inr [(''a'', Some False)]) (\<lambda>_. Inr [(''a'', Some [''t'', ''s''])])
     (read_previews_of (\<lambda>_. True) sample_node sample_client) [''a''] [] = Inr [(''a'', sample_inspection)]"
  unfolding sample_inspection_def sample_node_def sample_client_def by code_simp

lemma sample_decide:
  "decide_auction_settlement (\<lambda>_. True) id sample_inspection None False = Inr
     \<lparr>sd_status = Actionable, sd_operations = [\<lparr>so_operation_type = ''resolve_auction'', so_token_address = ''t'', so_path = 2,
        so_reason = ''inactive lot with residual inventory'', so_balance_raw = 7, so_requires_force = False,
        so_receiver = Some ''r''\<rparr>], sd_reason = ''prepared 1 resolvable lot(s)''\<rparr>"
  unfolding sample_inspection_def by code_simp

theorem inspection_covers_enabled_tokens_witness:
  "\<exists>inspection. map_of [(''a'', sample_inspection)] ''a'' = Some inspection
    \<and> map lp_token_address (si_lot_previews inspection) = sorted_set [''t'', ''s'']"
proof -
  have lower: "str_lower ''a'' = ''a''" by code_simp
  from inspection_covers_enabled_tokens [OF sample_inspect, of "''a''"] show ?thesis
    by (auto simp: lower enabled_for_def sample_inspection_def)
qed

theorem decide_auction_settlement_safe_witness:
  "\<exists>d. decide_auction_settlement (\<lambda>_. True) id sample_inspection None False = Inr d
    \<and> sd_status d = Actionable \<and> sd_operations d \<noteq> []"
  using decide_auction_settlement_safe [OF sample_decide] sample_decide by simp

theorem decide_auction_settlement_default_complete_witness:
  "\<exists>d. decide_auction_settlement (\<lambda>_. True) id sample_inspection None False = Inr d
    \<and> map (\<lambda>op. (so_token_address op, Some (so_path op))) (sd_operations d) = [(''t'', Some 2)]"
  using decide_auction_settlement_default_complete [of sample_inspection "\<lambda>_. True" id]
  by (simp add: sample_inspection_def resolvable_path_def path_defs)

theorem build_settlement_calls_one_per_operation_witness:
  "\<exists>d calls. decide_auction_settlement (\<lambda>_. True) id sample_inspection None False = Inr d
    \<and> build_auction_settlement_calls (\<lambda>_. True) id (\<lambda>_ _ _. ''data'') ''k'' ''a'' d = Inr calls
    \<and> map sc_token_address calls = [''t'']"
proof -
  define d where "d = \<lparr>sd_status = Actionable, sd_operations = [\<lparr>so_operation_type = ''resolve_auction'',
        so_token_address = ''t'', so_path = 2,
        so_reason = ''inactive lot with residual inventory'', so_balance_raw = 7, so_requires_force = False,
        so_receiver = Some ''r''\<rparr>], sd_reason = ''prepared 1 resolvable lot(s)''\<rparr>"
  obtain calls where calls: "build_auction_settlement_calls (\<lambda>_. True) id (\<lambda>_ _ _. ''data'') ''k'' ''a'' d = Inr calls"
    by (simp add: build_auction_settlement_calls_def d_def normalize_address_def)
  from build_settlement_calls_one_per_operation [OF calls] sample_decide calls show ?thesis
    by (auto simp: d_def)
qed

end
