(* ===== verification/Json.thy ===== *)
theory Json
  imports PyDecimal
begin

text \<open>
  JSON values as \<open>json.loads\<close> returns them, and what the code does with one: \<open>str(v)\<close>,
  \<open>int(v)\<close>, \<open>dict.get\<close>, truth value and \<open>json.dumps(v, sort_keys=True)\<close>. An object is an
  association list in insertion order. A float is finite and kept as its shortest text, which is both
  its \<open>repr\<close> and its JSON text. Strings are ASCII.
\<close>

datatype json =
    JNull
  | JBool bool
  | JInt int
  | JFloat string
  | JStr string
  | JList "json list"
  | JObj "(string \<times> json) list"

text \<open>\<open>d.get(key)\<close> of an object, None for a missing key and for null alike.\<close>

definition json_get :: "(string \<times> json) list \<Rightarrow> string \<Rightarrow> json" where
  "json_get entries key = (case map_of entries key of None \<Rightarrow> JNull | Some v \<Rightarrow> v)"

text \<open>Truth value; a float is false when it is zero.\<close>

fun json_truth :: "json \<Rightarrow> bool" where
  "json_truth JNull = False"
| "json_truth (JBool b) = b"
| "json_truth (JInt i) = (i \<noteq> 0)"
| "json_truth (JFloat f) = (case dec_of_string f of None \<Rightarrow> True | Some d \<Rightarrow> dec_coef d \<noteq> 0)"
| "json_truth (JStr s) = (s \<noteq> [])"
| "json_truth (JList vs) = (vs \<noteq> [])"
| "json_truth (JObj entries) = (entries \<noteq> [])"

text \<open>\<open>a or b\<close>.\<close>

definition json_or :: "json \<Rightarrow> json \<Rightarrow> json" where
  "json_or a b = (if json_truth a then a else b)"

text \<open>A nullable text, as a column holds it.\<close>

definition column_json :: "string option \<Rightarrow> json" where
  "column_json column = (case column of None \<Rightarrow> JNull | Some s \<Rightarrow> JStr s)"

section \<open>Text of a value\<close>

definition hex_digit :: "nat \<Rightarrow> char" where
  "hex_digit d = (if d < 10 then char_of (48 + d) else char_of (87 + d))"

definition hex_byte :: "char \<Rightarrow> string" where
  "hex_byte c = [hex_digit (char_code c div 16), hex_digit (char_code c mod 16)]"

text \<open>\<open>repr\<close> of a string: single quotes unless only those occur in it.\<close>

definition py_repr_char :: "char \<Rightarrow> char \<Rightarrow> string" where
  "py_repr_char quote c =
     (if c = quote \<or> char_code c = 92 then [char_of (92 :: nat), c]
      else if char_code c = 10 then [char_of (92 :: nat), CHR ''n'']
      else if char_code c = 13 then [char_of (92 :: nat), CHR ''r'']
      else if char_code c = 9 then [char_of (92 :: nat), CHR ''t'']
      else if char_code c < 32 \<or> char_code c = 127 then char_of (92 :: nat) # CHR ''x'' # hex_byte c
      else [c])"

definition py_repr_str :: "string \<Rightarrow> string" where
  "py_repr_str s =
     (let single = char_of (39 :: nat); double = char_of (34 :: nat);
          quote = (if single \<in> set s \<and> double \<notin> set s then double else single)
      in [quote] @ concat (map (py_repr_char quote) s) @ [quote])"

fun join_str :: "string \<Rightarrow> string list \<Rightarrow> string" where
  "join_str sep [] = []"
| "join_str sep [x] = x"
| "join_str sep (x # y # xs) = x @ sep @ join_str sep (y # xs)"

fun json_repr :: "json \<Rightarrow> string" where
  "json_repr JNull = ''None''"
| "json_repr (JBool b) = (if b then ''True'' else ''False'')"
| "json_repr (JInt i) = show_int i"
| "json_repr (JFloat f) = f"
| "json_repr (JStr s) = py_repr_str s"
| "json_repr (JList vs) = ''['' @ join_str '', '' (map json_repr vs) @ '']''"
| "json_repr (JObj entries) =
     ''{'' @ join_str '', '' (map (\<lambda>(k, v). py_repr_str k @ '': '' @ json_repr v) entries) @ ''}''"

definition json_str :: "json \<Rightarrow> string" where
  "json_str v = (case v of JStr s \<Rightarrow> s | _ \<Rightarrow> json_repr v)"

text \<open>\<open>int(v)\<close>: a float is truncated towards zero; null, lists and objects raise.\<close>

definition json_int :: "json \<Rightarrow> int result" where
  "json_int v = (case v of
       JInt i \<Rightarrow> Inr i
     | JBool b \<Rightarrow> Inr (if b then 1 else 0)
     | JStr s \<Rightarrow> (case py_int s of None \<Rightarrow> Inl (ValueError ''invalid literal for int()'') | Some i \<Rightarrow> Inr i)
     | JFloat f \<Rightarrow> (case dec_of_string f of
           None \<Rightarrow> Inl (ValueError ''cannot convert float to integer'')
         | Some d \<Rightarrow> Inr (if dec_coef d < 0 then - dec_floor (Dec (- dec_coef d) (dec_exp d)) else dec_floor d))
     | _ \<Rightarrow> Inl (TypeError ''int() argument''))"

section \<open>Serialisation\<close>

definition json_escape_char :: "char \<Rightarrow> string" where
  "json_escape_char c =
     (if char_code c = 34 \<or> char_code c = 92 then [char_of (92 :: nat), c]
      else if char_code c = 10 then [char_of (92 :: nat), CHR ''n'']
      else if char_code c = 13 then [char_of (92 :: nat), CHR ''r'']
      else if char_code c = 9 then [char_of (92 :: nat), CHR ''t'']
      else if char_code c = 12 then [char_of (92 :: nat), CHR ''f'']
      else if char_code c = 8 then [char_of (92 :: nat), CHR ''b'']
      else if char_code c < 32 \<or> char_code c = 127 then char_of (92 :: nat) # ''u00'' @ hex_byte c
      else [c])"

definition json_string :: "string \<Rightarrow> string" where
  "json_string s = [char_of (34 :: nat)] @ concat (map json_escape_char s) @ [char_of (34 :: nat)]"

fun json_dumps_sorted :: "json \<Rightarrow> string" where
  "json_dumps_sorted JNull = ''null''"
| "json_dumps_sorted (JBool b) = (if b then ''true'' else ''false'')"
| "json_dumps_sorted (JInt i) = show_int i"
| "json_dumps_sorted (JFloat f) = f"
| "json_dumps_sorted (JStr s) = json_string s"
| "json_dumps_sorted (JList vs) = ''['' @ join_str '', '' (map json_dumps_sorted vs) @ '']''"
| "json_dumps_sorted (JObj entries) =
     ''{'' @ join_str '', '' (map (\<lambda>(k, v). json_string k @ '': '' @ v)
       (sort_key fst (map (\<lambda>(k, v). (k, json_dumps_sorted v)) entries))) @ ''}''"

end
