(* ===== verification/ActionStore.thy ===== *)
theory ActionStore
  imports KickStore Json
begin

text \<open>
  The database as the audit and reconciliation code sees it: the tables \<open>api_actions\<close>,
  \<open>api_action_transactions\<close>, \<open>kick_txs\<close> and the addresses of strategies, fee burners and
  tokens, with \<open>APIActionRepository\<close> of \<open>tidal/persistence/repositories.py\<close>. A JSON column
  is kept as the value it was dumped from. A commit has no counterpart: an operation returns
  the new ledger, and a rollback is the old one. The clock is a parameter of the operations
  that read it. \<open>gwei_text\<close> is Python's \<open>str(round(int(price) / 1e9, 4))\<close> on doubles, for
  prices below \<open>10^20\<close> wei, where the shortest text of the rounded double is the decimal
  it was rounded to.
\<close>

section \<open>Tables\<close>

record api_action =
  a_action_id :: string
  a_action_type :: string
  a_status :: string
  a_operator_id :: string
  a_sender :: "string option"
  a_resource_address :: "string option"
  a_auction_address :: "string option"
  a_source_address :: "string option"
  a_token_address :: "string option"
  a_request :: json
  a_preview :: json
  a_error_message :: "string option"
  a_created_at :: string
  a_updated_at :: string

record action_tx =
  x_id :: int
  x_action_id :: string
  x_tx_index :: int
  x_operation :: string
  x_to_address :: string
  x_data :: string
  x_value :: string
  x_chain_id :: int
  x_gas_estimate :: "int option"
  x_gas_limit :: "int option"
  x_tx_hash :: "string option"
  x_broadcast_at :: "string option"
  x_receipt_status :: "string option"
  x_verified_at :: "string option"
  x_block_number :: "int option"
  x_gas_used :: "int option"
  x_gas_price_gwei :: "string option"
  x_error_message :: "string option"
  x_created_at :: string
  x_updated_at :: string

record source_row =
  src_address :: string
  src_want_address :: "string option"
  src_auction_address :: "string option"

record ledger =
  l_actions :: "api_action list"
  l_txs :: "action_tx list"
  l_kicks :: "kick_tx list"
  l_strategies :: "source_row list"
  l_fee_burners :: "source_row list"
  l_tokens :: "(address \<times> int) list"

text \<open>A transaction of a prepared action, as the request builds it.\<close>

record prepared_tx =
  p_operation :: string
  p_to :: string
  p_data :: string
  p_value :: "string option"
  p_chain_id :: int
  p_gas_estimate :: "int option"
  p_gas_limit :: "int option"

section \<open>Rows of the action tables\<close>

definition next_tx_id :: "action_tx list \<Rightarrow> int" where
  "next_tx_id txs = (if txs = [] then 1 else Max (set (map x_id txs)) + 1)"

text \<open>A second row with the same primary key is refused, and nothing of the batch is kept.\<close>

definition action_create :: "api_action \<Rightarrow> action_tx list \<Rightarrow> ledger \<Rightarrow> ledger result" where
  "action_create action_row transaction_rows db =
     (if a_action_id action_row \<in> a_action_id ` set (l_actions db)
      then Inl (OtherException ''IntegrityError'' ''UNIQUE constraint failed: api_actions.action_id'')
      else Inr (db\<lparr>l_actions := l_actions db @ [action_row],
        l_txs := fold (\<lambda>row txs. txs @ [row\<lparr>x_id := next_tx_id txs\<rparr>]) transaction_rows (l_txs db)\<rparr>))"

text \<open>A negative limit means no limit, as in SQLite.\<close>

definition sql_limit :: "int \<Rightarrow> int \<Rightarrow> 'a list \<Rightarrow> 'a list" where
  "sql_limit limit offset rows =
     (let rest = drop (nat offset) rows in if limit < 0 then rest else take (nat limit) rest)"

definition matches :: "'a option \<Rightarrow> 'a \<Rightarrow> bool" where
  "matches wanted value = (case wanted of None \<Rightarrow> True | Some w \<Rightarrow> value = w)"

definition action_matches :: "string option \<Rightarrow> string option \<Rightarrow> string option \<Rightarrow> api_action \<Rightarrow> bool" where
  "action_matches operator_id status action_type row \<longleftrightarrow>
     matches operator_id (a_operator_id row) \<and> matches status (a_status row)
     \<and> matches action_type (a_action_type row)"

definition repo_list_actions ::
  "ledger \<Rightarrow> int \<Rightarrow> int \<Rightarrow> string option \<Rightarrow> string option \<Rightarrow> string option \<Rightarrow> api_action list" where
  "repo_list_actions db limit offset operator_id status action_type =
     sql_limit limit offset (sort_desc a_created_at
       (filter (action_matches operator_id status action_type) (l_actions db)))"

definition repo_get_action :: "ledger \<Rightarrow> string \<Rightarrow> api_action option" where
  "repo_get_action db action_id = find (\<lambda>row. a_action_id row = action_id) (l_actions db)"

definition get_action_transactions :: "ledger \<Rightarrow> string \<Rightarrow> action_tx list" where
  "get_action_transactions db action_id =
     sort_key x_tx_index (filter (\<lambda>row. x_action_id row = action_id) (l_txs db))"

text \<open>The join with \<open>api_actions\<close> adds the action's sender.\<close>

definition action_list_by_tx_hash :: "ledger \<Rightarrow> string \<Rightarrow> (action_tx \<times> string option) list" where
  "action_list_by_tx_hash db tx_hash =
     concat (map (\<lambda>row. map (\<lambda>action. (row, a_sender action))
         (filter (\<lambda>action. a_action_id action = x_action_id row) (l_actions db)))
       (filter (\<lambda>row. x_tx_hash row = Some tx_hash) (l_txs db)))"

definition get_action_transaction :: "ledger \<Rightarrow> string \<Rightarrow> int \<Rightarrow> action_tx option" where
  "get_action_transaction db action_id tx_index =
     find (\<lambda>row. x_action_id row = action_id \<and> x_tx_index row = tx_index) (l_txs db)"

definition update_txs :: "string \<Rightarrow> int \<Rightarrow> (action_tx \<Rightarrow> action_tx) \<Rightarrow> ledger \<Rightarrow> ledger" where
  "update_txs action_id tx_index values db = db\<lparr>l_txs :=
     map (\<lambda>row. if x_action_id row = action_id \<and> x_tx_index row = tx_index then values row else row) (l_txs db)\<rparr>"

definition update_transaction_broadcast :: "string \<Rightarrow> string \<Rightarrow> int \<Rightarrow> string \<Rightarrow> string \<Rightarrow> ledger \<Rightarrow> ledger" where
  "update_transaction_broadcast now action_id tx_index tx_hash broadcast_at =
     update_txs action_id tx_index (\<lambda>row. row\<lparr>x_tx_hash := Some tx_hash, x_broadcast_at := Some broadcast_at,
       x_updated_at := now\<rparr>)"

definition update_transaction_receipt ::
  "string \<Rightarrow> int \<Rightarrow> string \<Rightarrow> int option \<Rightarrow> int option \<Rightarrow> string option \<Rightarrow> string \<Rightarrow> string option \<Rightarrow> string option
     \<Rightarrow> ledger \<Rightarrow> ledger" where
  "update_transaction_receipt action_id tx_index receipt_status block_number gas_used gas_price_gwei observed_at
       error_message verified_at =
     update_txs action_id tx_index (\<lambda>row. row\<lparr>x_receipt_status := Some receipt_status, x_block_number := block_number,
       x_gas_used := gas_used, x_gas_price_gwei := gas_price_gwei, x_updated_at := observed_at,
       x_verified_at := verified_at, x_error_message := error_message\<rparr>)"

definition update_action_status :: "string \<Rightarrow> string \<Rightarrow> string \<Rightarrow> string option \<Rightarrow> ledger \<Rightarrow> ledger" where
  "update_action_status action_id status updated_at error_message db = db\<lparr>l_actions :=
     map (\<lambda>row. if a_action_id row = action_id
       then row\<lparr>a_status := status, a_updated_at := updated_at, a_error_message := error_message\<rparr> else row) (l_actions db)\<rparr>"

definition pending_receipt_transactions :: "ledger \<Rightarrow> string \<Rightarrow> int \<Rightarrow> action_tx list" where
  "pending_receipt_transactions db older_than limit =
     sql_limit limit 0 (sort_key (\<lambda>row. (x_updated_at row, x_id row))
       (filter (\<lambda>row. x_tx_hash row \<noteq> None \<and> x_verified_at row = None \<and> x_updated_at row \<le> older_than) (l_txs db)))"

definition mark_receipt_checked :: "string \<Rightarrow> string \<Rightarrow> ledger \<Rightarrow> ledger" where
  "mark_receipt_checked tx_hash checked_at db = db\<lparr>l_txs :=
     map (\<lambda>row. if x_tx_hash row = Some tx_hash then row\<lparr>x_updated_at := checked_at\<rparr> else row) (l_txs db)\<rparr>"

section \<open>Gas prices as text\<close>

function bit_len :: "nat \<Rightarrow> nat" where
  "bit_len n = (if n = 0 then 0 else Suc (bit_len (n div 2)))"
  by pat_completeness auto
termination by (relation "measure id") auto

declare bit_len.simps [simp del]

text \<open>The double nearest to \<open>num / den\<close> as a fraction, with a significand of 53 bits.\<close>

definition double_of :: "int \<Rightarrow> int \<Rightarrow> int \<times> int" where
  "double_of num den =
     (if num = 0 then (0, 1)
      else
        let e0 = int (bit_len (nat num)) - int (bit_len (nat den)) - 53;
            scaled = (\<lambda>e. (num * 2 ^ nat (- e), den * 2 ^ nat e));
            (a, b) = scaled e0;
            e = (if 2 ^ 53 \<le> a div b then e0 + 1 else e0);
            (a, b) = scaled e
        in (div_half_even a b * 2 ^ nat e, 2 ^ nat (- e)))"

definition gwei_text :: "int \<Rightarrow> string" where
  "gwei_text price =
     (let (n, d) = double_of price 1;
          (n, d) = double_of n (d * 10 ^ 9);
          k = div_half_even (n * 10 ^ 4) d;
          frac = str_rstrip_char (CHR ''0'') (pad_digits 4 (nat (k mod 10 ^ 4)))
      in show_int (k div 10 ^ 4) @ ''.'' @ (if frac = [] then ''0'' else frac))"

end
