(* ===== verification/ActionAudit.thy ===== *)
theory ActionAudit
  imports ActionStore
begin

text \<open>
  \<open>tidal/api/services/action_audit.py\<close>: prepared operator actions, the broadcasts reported
  for them, the receipts verified for them, and the \<open>kick_txs\<close> rows staged for the
  operations they carry. Every operation returns a result; \<open>Inl\<close> leaves the ledger of its
  caller as it was, which is what the code's rollback does. The identifier and the clock are
  parameters. \<open>audit_step\<close> is one committed operation of the service.
\<close>

section \<open>Status of an action\<close>

text \<open>The truth value of a text column: neither \<open>NULL\<close> nor empty.\<close>

definition text_truth :: "string option \<Rightarrow> bool" where
  "text_truth column \<longleftrightarrow> column \<noteq> None \<and> column \<noteq> Some []"

definition text_or :: "string option \<Rightarrow> string option \<Rightarrow> string option" where
  "text_or a b = (if text_truth a then a else b)"

definition verified_status :: "action_tx \<Rightarrow> string option" where
  "verified_status row = (if text_truth (x_verified_at row) then x_receipt_status row else None)"

definition calculate_action_status :: "action_tx list \<Rightarrow> string" where
  "calculate_action_status transactions =
     (let receipt_statuses = map verified_status transactions in
      if Some ''FAILED'' \<in> set receipt_statuses then ''FAILED''
      else if Some ''REVERTED'' \<in> set receipt_statuses then ''REVERTED''
      else if transactions \<noteq> [] \<and> list_all (\<lambda>status. status = Some ''CONFIRMED'') receipt_statuses then ''CONFIRMED''
      else if list_ex (\<lambda>row. text_truth (x_tx_hash row)) transactions then ''BROADCAST_REPORTED''
      else ''PREPARED'')"

section \<open>Prepared actions\<close>

definition new_tx_row :: "string \<Rightarrow> string \<Rightarrow> nat \<times> prepared_tx \<Rightarrow> action_tx" where
  "new_tx_row now action_id = (\<lambda>(index, tx).
     \<lparr>x_id = 0, x_action_id = action_id, x_tx_index = int index, x_operation = p_operation tx,
      x_to_address = p_to tx, x_data = p_data tx,
      x_value = (case p_value tx of None \<Rightarrow> ''0x0'' | Some v \<Rightarrow> v), x_chain_id = p_chain_id tx,
      x_gas_estimate = p_gas_estimate tx, x_gas_limit = p_gas_limit tx, x_tx_hash = None, x_broadcast_at = None,
      x_receipt_status = None, x_verified_at = None, x_block_number = None, x_gas_used = None,
      x_gas_price_gwei = None, x_error_message = None, x_created_at = now, x_updated_at = now\<rparr>)"

definition create_prepared_action ::
  "string \<Rightarrow> string \<Rightarrow> string \<Rightarrow> string \<Rightarrow> string option \<Rightarrow> json \<Rightarrow> json \<Rightarrow> prepared_tx list
     \<Rightarrow> string option \<Rightarrow> string option \<Rightarrow> string option \<Rightarrow> string option \<Rightarrow> ledger \<Rightarrow> (ledger \<times> string) result" where
  "create_prepared_action now action_id operator_id action_type sender request_payload preview_payload transactions
       resource_address auction_address source_address token_address db =
     err_bind (action_create
       \<lparr>a_action_id = action_id, a_action_type = action_type, a_status = ''PREPARED'', a_operator_id = operator_id,
        a_sender = sender, a_resource_address = resource_address, a_auction_address = auction_address,
        a_source_address = source_address, a_token_address = token_address, a_request = request_payload,
        a_preview = preview_payload, a_error_message = None, a_created_at = now, a_updated_at = now\<rparr>
       (map (new_tx_row now action_id) (enumerate 0 transactions)) db)
     (\<lambda>db. Inr (db, action_id))"

section \<open>Operations a prepared action carries\<close>

definition normalize_operation_text :: "string \<Rightarrow> string option" where
  "normalize_operation_text value =
     (let normalized = str_replace_char (CHR ''-'') ''_'' (str_strip value) in
      if normalized = ''settle'' then Some ''resolve_auction''
      else if normalized \<in> {''sweep'', ''sweep_and_settle''} then Some ''sweep_auction''
      else if normalized = [] then None else Some normalized)"

definition normalize_operation_type :: "json \<Rightarrow> string option" where
  "normalize_operation_type value =
     (if value = JNull then None else normalize_operation_text (json_str value))"

definition valid_tx_index :: "json \<Rightarrow> int option" where
  "valid_tx_index value =
     (if value = JNull then None
      else case json_int value of Inr tx_index \<Rightarrow> if 0 \<le> tx_index then Some tx_index else None | Inl _ \<Rightarrow> None)"

definition optional_normalize_address :: "(string \<Rightarrow> bool) \<Rightarrow> json \<Rightarrow> string option" where
  "optional_normalize_address isaddr value =
     (if value = JNull then None
      else case normalize_address isaddr (json_str value) of Inr a \<Rightarrow> Some a | Inl _ \<Rightarrow> None)"

definition decode_json :: "json \<Rightarrow> (string \<times> json) list" where
  "decode_json column = (case column of JObj entries \<Rightarrow> entries | _ \<Rightarrow> [])"

text \<open>\<open>_str\<close>, \<open>_int\<close> and \<open>_json_str\<close> of \<open>_prepared_preview_operations\<close>.\<close>

definition item_str :: "(string \<times> json) list \<Rightarrow> string \<Rightarrow> string option" where
  "item_str item key = (let v = json_get item key in if v = JNull then None else Some (json_str v))"

definition item_int :: "(string \<times> json) list \<Rightarrow> string \<Rightarrow> int option result" where
  "item_int item key =
     (let v = json_get item key in if v = JNull then Inr None else err_bind (json_int v) (\<lambda>i. Inr (Some i)))"

definition item_json_str :: "(string \<times> json) list \<Rightarrow> string \<Rightarrow> string option" where
  "item_json_str item key = (case json_get item key of
       JNull \<Rightarrow> None | JStr s \<Rightarrow> Some s | v \<Rightarrow> Some (json_dumps_sorted v))"

record source_context =
  sx_source_type :: "string option"
  sx_source_address :: "string option"
  sx_want_address :: "string option"

definition source_context_of :: "(string \<Rightarrow> bool) \<Rightarrow> string \<Rightarrow> source_row \<Rightarrow> source_context result" where
  "source_context_of isaddr source_type row =
     err_bind (normalize_address isaddr (src_address row)) (\<lambda>address.
     err_bind (if text_truth (src_want_address row)
       then err_bind (normalize_address isaddr (the (src_want_address row))) (\<lambda>want. Inr (Some want))
       else Inr None) (\<lambda>want.
     Inr \<lparr>sx_source_type = Some source_type, sx_source_address = Some address, sx_want_address = want\<rparr>))"

definition resolve_source_context :: "(string \<Rightarrow> bool) \<Rightarrow> ledger \<Rightarrow> string \<Rightarrow> source_context result" where
  "resolve_source_context isaddr db auction_address =
     (case find (\<lambda>row. src_auction_address row = Some auction_address) (l_strategies db) of
        Some row \<Rightarrow> source_context_of isaddr ''strategy'' row
      | None \<Rightarrow> (case find (\<lambda>row. src_auction_address row = Some auction_address) (l_fee_burners db) of
          Some row \<Rightarrow> source_context_of isaddr ''fee_burner'' row
        | None \<Rightarrow> Inr \<lparr>sx_source_type = None, sx_source_address = None, sx_want_address = None\<rparr>))"

record prepared_operation =
  po_source_type :: "string option"
  po_source_address :: "string option"
  po_auction_address :: string
  po_token_address :: string
  po_sell_amount :: "string option"
  po_detail :: kick_detail

text \<open>
  One pass of the loop over the matching items: None is \<open>continue\<close>. The dictionary's
  \<open>normalized_balance\<close> is never read by the caller and is left out.
\<close>

definition operation_of_item ::
  "(string \<Rightarrow> bool) \<Rightarrow> ledger \<Rightarrow> (string \<times> json) list \<Rightarrow> prepared_operation option result" where
  "operation_of_item isaddr db item =
     (case (optional_normalize_address isaddr (json_get item ''auctionAddress''),
            optional_normalize_address isaddr (json_get item ''tokenAddress'')) of
        (Some auction_address, Some token_address) \<Rightarrow>
          err_bind (resolve_source_context isaddr db auction_address) (\<lambda>ctx.
          err_bind (item_int item ''bufferBps'') (\<lambda>start_bps.
          err_bind (item_int item ''minBufferBps'') (\<lambda>min_bps.
          err_bind (item_int item ''stepDecayRateBps'') (\<lambda>decay_bps.
          Inr (Some
            \<lparr>po_source_type = text_or (item_str item ''sourceType'') (sx_source_type ctx),
             po_source_address = text_or (optional_normalize_address isaddr (json_get item ''sourceAddress''))
               (sx_source_address ctx),
             po_auction_address = auction_address, po_token_address = token_address,
             po_sell_amount = item_str item ''sellAmount'',
             po_detail = empty_kick_detail
               \<lparr>kd_token_symbol := item_str item ''tokenSymbol'',
                kd_want_address := text_or (optional_normalize_address isaddr (json_get item ''wantAddress''))
                  (sx_want_address ctx),
                kd_want_symbol := item_str item ''wantSymbol'',
                kd_starting_price := item_str item ''startingPrice'',
                kd_minimum_price := text_or (item_str item ''minimumPriceScaled1e18'') (item_str item ''minimumPrice''),
                kd_minimum_quote := item_str item ''minimumQuote'',
                kd_usd_value := item_str item ''usdValue'',
                kd_quote_amount := item_str item ''quoteAmount'',
                kd_quote_response_json := item_json_str item ''quoteResponseJson'',
                kd_start_price_buffer_bps := start_bps,
                kd_min_price_buffer_bps := min_bps,
                kd_step_decay_rate_bps := decay_bps,
                kd_stuck_abort_reason := item_str item ''reason''\<rparr>\<rparr>)))))
      | _ \<Rightarrow> Inr None)"

text \<open>The operations of a settlement preview written before \<open>preparedOperations\<close> existed.\<close>

definition legacy_settle_item ::
  "api_action \<Rightarrow> (string \<times> json) list \<Rightarrow> (string \<times> json) list \<Rightarrow> (string \<times> json) list" where
  "legacy_settle_item action_row inspection decision =
     [(''operation'', json_or (json_get decision ''operation_type'') (json_get decision ''operationType'')),
      (''auctionAddress'', json_or (column_json (a_auction_address action_row)) (json_get inspection ''auction_address'')),
      (''tokenAddress'', json_or (json_or (json_or (json_or (column_json (a_token_address action_row))
         (json_get decision ''token_address'')) (json_get decision ''tokenAddress''))
         (json_get inspection ''active_token'')) (json_get inspection ''activeToken'')),
      (''sourceAddress'', column_json (a_source_address action_row)),
      (''wantAddress'', json_or (json_get inspection ''want_address'') (json_get inspection ''wantAddress'')),
      (''reason'', json_get decision ''reason''),
      (''txIndex'', JInt 0)]"

text \<open>The list of prepared items; None where the function returns no operation.\<close>

definition prepared_items ::
  "ledger \<Rightarrow> api_action \<Rightarrow> string \<Rightarrow> int \<Rightarrow> json list option" where
  "prepared_items db action_row operation_type tx_index =
     (let preview = decode_json (a_preview action_row) in
      if map_of preview ''preparedOperations'' = None \<and> a_action_type action_row = ''settle'' then
        (case (json_get preview ''inspection'', json_get preview ''decision'') of
           (JObj inspection, JObj decision) \<Rightarrow>
             if tx_index \<noteq> 0 \<or> length (get_action_transactions db (a_action_id action_row)) \<noteq> 1
               \<or> operation_type \<notin> {''resolve_auction'', ''sweep_auction''} then None
             else Some [JObj (legacy_settle_item action_row inspection decision)]
         | _ \<Rightarrow> None)
      else case json_get preview ''preparedOperations'' of JList items \<Rightarrow> Some items | _ \<Rightarrow> None)"

definition matching_items :: "string \<Rightarrow> int \<Rightarrow> json list \<Rightarrow> (string \<times> json) list list" where
  "matching_items operation_type tx_index prepared =
     (let items = filter (\<lambda>entries. normalize_operation_type (json_get entries ''operation'') = Some operation_type)
            (List.map_filter (\<lambda>item. case item of JObj entries \<Rightarrow> Some entries | _ \<Rightarrow> None) prepared)
      in if list_ex (\<lambda>item. valid_tx_index (json_get item ''txIndex'') \<noteq> None) items
         then filter (\<lambda>item. valid_tx_index (json_get item ''txIndex'') = Some tx_index) items
         else items)"

definition prepared_preview_operations ::
  "(string \<Rightarrow> bool) \<Rightarrow> ledger \<Rightarrow> api_action \<Rightarrow> string \<Rightarrow> int \<Rightarrow> prepared_operation list result" where
  "prepared_preview_operations isaddr db action_row operation_type tx_index =
     (case prepared_items db action_row operation_type tx_index of
        None \<Rightarrow> Inr []
      | Some prepared \<Rightarrow>
          err_bind (traverse_err (operation_of_item isaddr db) (matching_items operation_type tx_index prepared))
            (\<lambda>operations. Inr (List.map_filter id operations)))"

definition prepared_log_operations ::
  "(string \<Rightarrow> bool) \<Rightarrow> ledger \<Rightarrow> api_action \<Rightarrow> string \<Rightarrow> int \<Rightarrow> prepared_operation list result" where
  "prepared_log_operations isaddr db action_row operation_type tx_index =
     (if a_action_type action_row \<in> {''kick'', ''settle'', ''sweep'', ''enable_tokens''}
      then prepared_preview_operations isaddr db action_row operation_type tx_index
      else Inr [])"

section \<open>Staging the operations\<close>

definition same_operation :: "string \<Rightarrow> string \<Rightarrow> string \<Rightarrow> string \<Rightarrow> kick_tx \<Rightarrow> bool" where
  "same_operation run_id operation_type auction_address token_address row \<longleftrightarrow>
     k_run_id row = run_id \<and> normalize_operation_text (k_operation_type row) = Some operation_type
     \<and> k_auction_address row = auction_address \<and> k_token_address row = token_address"

definition staged_row ::
  "string \<Rightarrow> string \<Rightarrow> string \<Rightarrow> action_tx \<Rightarrow> prepared_operation \<Rightarrow> kick_tx list \<Rightarrow> string \<Rightarrow> kick_tx" where
  "staged_row now run_id operation_type tx_row operation kicks tx_hash =
     empty_kick_tx
       \<lparr>k_run_id := run_id, k_operation_type := operation_type,
        k_source_type := po_source_type operation, k_source_address := po_source_address operation,
        k_strategy_address := (if po_source_type operation = Some ''strategy'' then po_source_address operation else None),
        k_token_address := po_token_address operation, k_auction_address := po_auction_address operation,
        k_requested_sell_amount := (if operation_type = ''kick'' then po_sell_amount operation else None),
        k_status := ''SUBMITTED'', k_tx_hash := Some tx_hash,
        k_created_at := (if text_truth (x_broadcast_at tx_row) then the (x_broadcast_at tx_row) else now),
        k_round_kick_id :=
          (if operation_type \<in> {''resolve_auction'', ''sweep_auction''}
           then map_option k_id (latest_confirmed_unclosed_kick kicks (po_auction_address operation)
             (po_token_address operation) None)
           else None),
        k_detail := po_detail operation\<rparr>"

text \<open>The \<open>else\<close> branch of the loop: rows that exist only get their operation type normalised.\<close>

definition normalize_types :: "string \<Rightarrow> kick_tx list \<Rightarrow> kick_tx list \<Rightarrow> kick_tx list" where
  "normalize_types operation_type existing kicks =
     fold (\<lambda>row kicks. if k_operation_type row \<noteq> operation_type
       then kick_update_fields (k_id row) (\<lambda>row. row\<lparr>k_operation_type := operation_type\<rparr>) kicks else kicks) existing kicks"

text \<open>
  One pass of the loop over the operations: the table, the rows of the transaction known so
  far and the ids collected.
\<close>

definition ensure_operation ::
  "string \<Rightarrow> string \<Rightarrow> string \<Rightarrow> action_tx \<Rightarrow> string \<Rightarrow> prepared_operation
     \<Rightarrow> kick_tx list \<times> kick_tx list \<times> int set \<Rightarrow> kick_tx list \<times> kick_tx list \<times> int set" where
  "ensure_operation now run_id operation_type tx_row tx_hash operation = (\<lambda>(kicks, existing_operations, ids).
     let existing = filter (same_operation run_id operation_type (po_auction_address operation)
           (po_token_address operation)) existing_operations
     in if existing = [] then
          let row = staged_row now run_id operation_type tx_row operation kicks tx_hash;
              (kicks, row_id) = kick_insert row kicks
          in (kicks, existing_operations @ [row\<lparr>k_id := row_id\<rparr>], insert row_id ids)
        else (normalize_types operation_type existing kicks, existing_operations, ids \<union> set (map k_id existing)))"

definition API_OPERATION_TYPES :: "string set" where
  "API_OPERATION_TYPES = {''kick'', ''resolve_auction'', ''sweep_auction'', ''enable_tokens''}"

definition api_run_id :: "api_action \<Rightarrow> string" where
  "api_run_id action_row = ''api-action:'' @ a_action_id action_row"

definition ensure_action_operations ::
  "(string \<Rightarrow> bool) \<Rightarrow> string \<Rightarrow> api_action \<Rightarrow> action_tx \<Rightarrow> ledger \<Rightarrow> (ledger \<times> int set) result" where
  "ensure_action_operations isaddr now action_row tx_row db =
     (case (normalize_operation_text (x_operation tx_row), x_tx_hash tx_row) of
        (Some operation_type, Some tx_hash) \<Rightarrow>
          if operation_type \<notin> API_OPERATION_TYPES then Inr (db, {})
          else
            let run_id = api_run_id action_row;
                existing_operations = list_by_tx_hash (l_kicks db) tx_hash
            in err_bind (prepared_log_operations isaddr db action_row operation_type (x_tx_index tx_row)) (\<lambda>operations.
               case fold (ensure_operation now run_id operation_type tx_row tx_hash) operations
                   (l_kicks db, existing_operations, {}) of
                 (kicks, _, ids) \<Rightarrow> Inr (db\<lparr>l_kicks := kicks\<rparr>, ids))
      | _ \<Rightarrow> Inr (db, {}))"

section \<open>Broadcasts and receipts\<close>

definition require_action_transaction :: "ledger \<Rightarrow> string \<Rightarrow> int \<Rightarrow> (api_action \<times> action_tx) result" where
  "require_action_transaction db action_id tx_index =
     (case repo_get_action db action_id of
        None \<Rightarrow> Inl (APIError ''Action not found'' 404)
      | Some action_row \<Rightarrow>
          (case get_action_transaction db action_id tx_index of
             None \<Rightarrow> Inl (APIError ''Action transaction not found'' 404)
           | Some tx_row \<Rightarrow> Inr (action_row, tx_row)))"

definition transaction_for_index :: "action_tx list \<Rightarrow> int \<Rightarrow> action_tx result" where
  "transaction_for_index transactions tx_index =
     (case find (\<lambda>row. x_tx_index row = tx_index) transactions of
        Some row \<Rightarrow> Inr row
      | None \<Rightarrow> Inl (APIError ''Action transaction not found'' 404))"

text \<open>The ledger a reported broadcast leaves; its detail view is \<open>action_detail\<close> below.\<close>

definition record_broadcast ::
  "(string \<Rightarrow> bool) \<Rightarrow> string \<Rightarrow> string \<Rightarrow> int \<Rightarrow> string \<Rightarrow> string \<Rightarrow> ledger \<Rightarrow> (ledger \<times> action_tx list) result" where
  "record_broadcast isaddr now action_id tx_index tx_hash broadcast_at db =
     err_bind (require_action_transaction db action_id tx_index) (\<lambda>(action_row, tx_row).
       if x_tx_hash tx_row \<noteq> None \<and> x_tx_hash tx_row \<noteq> Some tx_hash
       then Inl (APIError ''Broadcast already recorded with a different tx hash'' 409)
       else
         let db = (if x_tx_hash tx_row = None \<or> x_broadcast_at tx_row = None
                   then update_transaction_broadcast now action_id tx_index tx_hash broadcast_at db else db);
             transactions = get_action_transactions db action_id;
             db = update_action_status action_id (calculate_action_status transactions) now None db
         in err_bind (transaction_for_index transactions tx_index) (\<lambda>row.
            err_bind (ensure_action_operations isaddr now action_row row db) (\<lambda>(db, _).
            Inr (db, transactions))))"

record chain_log =
  lg_address :: string
  lg_topics :: "string list"
  lg_data :: string

text \<open>A receipt as web3 returns it; its block number is always present.\<close>

record receipt =
  rc_transaction_hash :: string
  rc_status :: "int option"
  rc_block_number :: int
  rc_transaction_index :: "int option"
  rc_gas_used :: "int option"
  rc_effective_gas_price :: "int option"
  rc_logs :: "chain_log list"

definition receipt_gas_price :: "receipt \<Rightarrow> string option" where
  "receipt_gas_price receipt = (case rc_effective_gas_price receipt of
       None \<Rightarrow> None | Some price \<Rightarrow> if price = 0 then None else Some (gwei_text price))"

definition record_verified_receipt :: "string \<Rightarrow> int \<Rightarrow> receipt \<Rightarrow> string \<Rightarrow> ledger \<Rightarrow> ledger result" where
  "record_verified_receipt action_id tx_index receipt observed_at db =
     (case rc_status receipt of
        None \<Rightarrow> Inl (KeyError ''status'')
      | Some status \<Rightarrow>
          let db = update_transaction_receipt action_id tx_index (if status = 1 then ''CONFIRMED'' else ''REVERTED'')
                (Some (rc_block_number receipt)) (rc_gas_used receipt) (receipt_gas_price receipt)
                observed_at None (Some observed_at) db
          in Inr (update_action_status action_id (calculate_action_status (get_action_transactions db action_id))
               observed_at None db))"

section \<open>One committed operation\<close>

text \<open>
  What the service can commit: a prepared action, a reported broadcast, a verified receipt of
  a transaction whose hash was reported, the rotation of pending receipts; and what other
  writers commit, which never touches the two action tables. The clock reads an instant.
\<close>

inductive audit_step :: "(string \<Rightarrow> bool) \<Rightarrow> ledger \<Rightarrow> ledger \<Rightarrow> bool" for isaddr where
  create: "create_prepared_action (isoformat_utc t) action_id operator_id action_type sender request preview transactions
      resource_address auction_address source_address token_address db = Inr (db', action_id') \<Longrightarrow> audit_step isaddr db db'"
| broadcast: "record_broadcast isaddr (isoformat_utc t) action_id tx_index tx_hash broadcast_at db = Inr (db', rows)
      \<Longrightarrow> audit_step isaddr db db'"
| verified: "get_action_transaction db action_id tx_index = Some row \<Longrightarrow> x_tx_hash row \<noteq> None
      \<Longrightarrow> record_verified_receipt action_id tx_index receipt (isoformat_utc t) db = Inr db'
      \<Longrightarrow> audit_step isaddr db db'"
| checked: "audit_step isaddr db (mark_receipt_checked tx_hash (isoformat_utc t) db)"
| other: "l_actions db' = l_actions db \<Longrightarrow> l_txs db' = l_txs db \<Longrightarrow> audit_step isaddr db db'"

inductive_cases audit_stepE: "audit_step isaddr db db'"

inductive audit_steps :: "(string \<Rightarrow> bool) \<Rightarrow> ledger \<Rightarrow> ledger \<Rightarrow> bool" for isaddr where
  none: "audit_steps isaddr db db"
| step: "audit_steps isaddr db db' \<Longrightarrow> audit_step isaddr db' db'' \<Longrightarrow> audit_steps isaddr db db''"

definition empty_ledger :: ledger where
  "empty_ledger = \<lparr>l_actions = [], l_txs = [], l_kicks = [], l_strategies = [], l_fee_burners = [], l_tokens = []\<rparr>"

definition tx_key :: "action_tx \<Rightarrow> string \<times> int" where
  "tx_key row = (x_action_id row, x_tx_index row)"

definition tx_sound :: "action_tx \<Rightarrow> bool" where
  "tx_sound row \<longleftrightarrow> x_receipt_status row \<in> {None, Some ''CONFIRMED'', Some ''REVERTED''}
     \<and> (x_receipt_status row \<noteq> None \<longrightarrow> x_tx_hash row \<noteq> None \<and> text_truth (x_verified_at row))
     \<and> (x_verified_at row \<noteq> None \<longrightarrow> x_receipt_status row \<noteq> None)"

definition audit_inv :: "ledger \<Rightarrow> bool" where
  "audit_inv db \<longleftrightarrow> distinct (map a_action_id (l_actions db)) \<and> distinct (map tx_key (l_txs db))
     \<and> (\<forall>row \<in> set (l_txs db). x_action_id row \<in> a_action_id ` set (l_actions db) \<and> tx_sound row)
     \<and> (\<forall>action \<in> set (l_actions db).
          a_status action = calculate_action_status (get_action_transactions db (a_action_id action)))"

section \<open>Transactions of an action under updates\<close>

lemma get_action_transactions_map:
  assumes "\<And>row. x_action_id (g row) = x_action_id row" "\<And>row. x_tx_index (g row) = x_tx_index row"
  shows "get_action_transactions (db\<lparr>l_txs := map g (l_txs db)\<rparr>) action_id =
    map g (get_action_transactions db action_id)"
  using assms by (simp add: get_action_transactions_def filter_map sort_key_map comp_def)

lemma get_action_transactions_update_txs:
  assumes "\<And>row. x_action_id (f row) = x_action_id row" "\<And>row. x_tx_index (f row) = x_tx_index row"
  shows "get_action_transactions (update_txs action_id tx_index f db) other =
    map (\<lambda>row. if x_action_id row = action_id \<and> x_tx_index row = tx_index then f row else row)
      (get_action_transactions db other)"
  unfolding update_txs_def using assms by (intro get_action_transactions_map) auto

lemma get_action_transactions_action_id:
  "row \<in> set (get_action_transactions db action_id) \<longleftrightarrow> row \<in> set (l_txs db) \<and> x_action_id row = action_id"
  by (simp add: get_action_transactions_def)

lemma get_action_transactions_other:
  assumes "\<And>row. x_action_id (f row) = x_action_id row" "\<And>row. x_tx_index (f row) = x_tx_index row" "other \<noteq> action_id"
  shows "get_action_transactions (update_txs action_id tx_index f db) other = get_action_transactions db other"
  unfolding get_action_transactions_update_txs [OF assms(1,2)]
  by (rule map_idI) (use assms(3) in \<open>auto simp: get_action_transactions_action_id\<close>)

lemma get_action_transactions_txs:
  "l_txs db = l_txs db' \<Longrightarrow> get_action_transactions db = get_action_transactions db'"
  by (simp add: get_action_transactions_def fun_eq_iff)

lemma update_action_status_simps [simp]:
  "l_txs (update_action_status action_id status now error db) = l_txs db"
  "map a_action_id (l_actions (update_action_status action_id status now error db)) = map a_action_id (l_actions db)"
  "l_kicks (update_action_status action_id status now error db) = l_kicks db"
  by (simp_all add: update_action_status_def comp_def)

lemma update_txs_simps [simp]:
  "l_actions (update_txs action_id tx_index f db) = l_actions db"
  "l_kicks (update_txs action_id tx_index f db) = l_kicks db"
  by (simp_all add: update_txs_def)

lemma ensure_action_operations_frame:
  assumes "ensure_action_operations isaddr now action_row tx_row db = Inr (db', ids)"
  shows "db' = db\<lparr>l_kicks := l_kicks db'\<rparr>"
  using assms
  by (auto simp: ensure_action_operations_def err_simps Let_def case_prod_beta split: option.splits if_splits)

section \<open>The audit invariant\<close>

text \<open>An update of one transaction followed by the recomputation of its action's status.\<close>

lemma audit_inv_update:
  assumes inv: "audit_inv db"
    and keys: "\<And>row. x_action_id (f row) = x_action_id row" "\<And>row. x_tx_index (f row) = x_tx_index row"
    and sound: "\<And>row. row \<in> set (l_txs db) \<Longrightarrow> tx_key row = (action_id, tx_index) \<Longrightarrow> tx_sound (f row)"
  shows "audit_inv (update_action_status action_id
    (calculate_action_status (get_action_transactions (update_txs action_id tx_index f db) action_id)) now error
    (update_txs action_id tx_index f db))"
    (is "audit_inv (update_action_status _ ?status _ _ ?db1)")
proof -
  have "map tx_key (l_txs ?db1) = map tx_key (l_txs db)"
    using keys by (auto simp: update_txs_def tx_key_def)
  moreover have "\<forall>row \<in> set (l_txs ?db1). x_action_id row \<in> a_action_id ` set (l_actions db) \<and> tx_sound row"
    using inv keys sound by (auto simp: update_txs_def audit_inv_def tx_key_def)
  moreover have "a_action_id ` set (l_actions (update_action_status action_id ?status now error ?db1)) = a_action_id ` set (l_actions db)"
    by (metis update_action_status_simps(2) update_txs_simps(1) set_map)
  moreover have "a_status action = calculate_action_status (get_action_transactions ?db1 (a_action_id action))"
    if "action \<in> set (l_actions (update_action_status action_id ?status now error ?db1))" for action
  proof -
    obtain old where old: "old \<in> set (l_actions db)"
      and action: "action = (if a_action_id old = action_id
        then old\<lparr>a_status := ?status, a_updated_at := now, a_error_message := error\<rparr> else old)"
      using \<open>action \<in> _\<close> by (auto simp: update_action_status_def)
    show ?thesis
    proof (cases "a_action_id old = action_id")
      case False
      with inv old action get_action_transactions_other [OF keys False] show ?thesis by (simp add: audit_inv_def)
    qed (simp add: action)
  qed
  ultimately show ?thesis
    using inv by (simp add: audit_inv_def get_action_transactions_txs [of "update_action_status _ _ _ _ _" ?db1])
qed

lemma audit_inv_frame: "audit_inv db \<Longrightarrow> l_actions db' = l_actions db \<Longrightarrow> l_txs db' = l_txs db \<Longrightarrow> audit_inv db'"
  unfolding audit_inv_def by (simp add: get_action_transactions_txs [of db' db])

lemma update_txs_id [simp]: "update_txs action_id tx_index (\<lambda>row. row) db = db"
  by (simp add: update_txs_def)

text \<open>What a recorded broadcast does to the action tables.\<close>

lemma record_broadcast_Inr:
  assumes "record_broadcast isaddr now action_id tx_index tx_hash broadcast_at db = Inr (db', rows)"
  obtains tx f kicks where "get_action_transaction db action_id tx_index = Some tx"
    "x_tx_hash tx = None \<or> x_tx_hash tx = Some tx_hash"
    "f = (\<lambda>row. row\<lparr>x_tx_hash := Some tx_hash, x_broadcast_at := Some broadcast_at, x_updated_at := now\<rparr>)
      \<or> f = (\<lambda>row. row) \<and> x_tx_hash tx = Some tx_hash"
    "rows = get_action_transactions (update_txs action_id tx_index f db) action_id"
    "db' = (update_action_status action_id (calculate_action_status rows) now None
      (update_txs action_id tx_index f db))\<lparr>l_kicks := kicks\<rparr>"
proof -
  obtain action tx where req: "require_action_transaction db action_id tx_index = Inr (action, tx)"
    using assms by (auto simp: record_broadcast_def err_simps)
  then have tx: "get_action_transaction db action_id tx_index = Some tx"
    by (auto simp: require_action_transaction_def split: option.splits)
  have hash: "x_tx_hash tx = None \<or> x_tx_hash tx = Some tx_hash"
    using assms req by (auto simp: record_broadcast_def err_simps split: if_splits)
  define f :: "action_tx \<Rightarrow> action_tx" where "f = (if x_tx_hash tx = None \<or> x_broadcast_at tx = None
    then (\<lambda>row. row\<lparr>x_tx_hash := Some tx_hash, x_broadcast_at := Some broadcast_at, x_updated_at := now\<rparr>)
    else (\<lambda>row. row))"
  define db1 where "db1 = update_txs action_id tx_index f db"
  have db1: "(if x_tx_hash tx = None \<or> x_broadcast_at tx = None
      then update_transaction_broadcast now action_id tx_index tx_hash broadcast_at db else db) = db1"
    by (simp add: db1_def f_def update_transaction_broadcast_def)
  obtain row db2 ids where ensure: "ensure_action_operations isaddr now action row
      (update_action_status action_id (calculate_action_status (get_action_transactions db1 action_id)) now None db1)
      = Inr (db2, ids)" and "db' = db2" and rows: "rows = get_action_transactions db1 action_id"
    using assms req hash unfolding record_broadcast_def Let_def
    by (auto simp: err_simps db1 split: if_splits)
  then have "db' = (update_action_status action_id (calculate_action_status rows) now None db1)\<lparr>l_kicks := l_kicks db'\<rparr>"
    using ensure_action_operations_frame [OF ensure] by simp
  then show thesis
    using that [of tx f "l_kicks db'"] tx hash rows by (auto simp: f_def db1_def)
qed

lemma get_action_transaction_Some:
  "get_action_transaction db action_id tx_index = Some tx \<Longrightarrow> tx \<in> set (l_txs db) \<and> tx_key tx = (action_id, tx_index)"
  by (auto simp: get_action_transaction_def find_Some_iff tx_key_def)

lemma distinct_key_eq: "distinct (map f xs) \<Longrightarrow> x \<in> set xs \<Longrightarrow> y \<in> set xs \<Longrightarrow> f x = f y \<Longrightarrow> x = y"
  by (simp add: distinct_map inj_on_def)

lemma isoformat_utc_nonempty [simp]: "isoformat_utc t \<noteq> []"
  by (simp add: isoformat_utc_def Let_def split: prod.splits)

section \<open>Every committed operation keeps the invariant\<close>

lemma stored_rows:
  "\<exists>rows'. fold (\<lambda>row txs. txs @ [row\<lparr>x_id := next_tx_id txs\<rparr>]) rows txs = txs @ rows'
     \<and> map tx_key rows' = map tx_key rows \<and> map (\<lambda>row. row\<lparr>x_id := 0\<rparr>) rows' = map (\<lambda>row. row\<lparr>x_id := 0\<rparr>) rows"
proof (induction rows arbitrary: txs)
  case (Cons row rows)
  from Cons [of "txs @ [row\<lparr>x_id := next_tx_id txs\<rparr>]"] obtain rows' where
    "fold (\<lambda>row txs. txs @ [row\<lparr>x_id := next_tx_id txs\<rparr>]) (row # rows) txs =
      txs @ row\<lparr>x_id := next_tx_id txs\<rparr> # rows'"
    "map tx_key rows' = map tx_key rows" "map (\<lambda>row. row\<lparr>x_id := 0\<rparr>) rows' = map (\<lambda>row. row\<lparr>x_id := 0\<rparr>) rows" by auto
  then show ?case by (intro exI [of _ "row\<lparr>x_id := next_tx_id txs\<rparr> # rows'"]) (simp add: tx_key_def [of "x_id_update _ row"] tx_key_def [of row])
qed simp

text \<open>The transaction rows of a new action: one per transaction, none reported.\<close>

definition unreported :: "string \<Rightarrow> action_tx \<Rightarrow> bool" where
  "unreported action_id row \<longleftrightarrow> x_action_id row = action_id \<and> x_tx_hash row = None \<and> x_receipt_status row = None
     \<and> x_verified_at row = None"

lemma create_prepared_action_Inr:
  assumes "create_prepared_action now action_id operator_id action_type sender request preview transactions
    resource_address auction_address source_address token_address db = Inr (db', action_id')"
  obtains action rows where "l_actions db' = l_actions db @ [action]" "l_txs db' = l_txs db @ rows"
    "a_action_id action = action_id" "a_status action = ''PREPARED''" "action_id \<notin> a_action_id ` set (l_actions db)"
    "map tx_key rows = map (\<lambda>i. (action_id, int i)) [0..<length transactions]"
    "\<forall>row \<in> set rows. unreported action_id row"
proof -
  obtain rows where rows: "fold (\<lambda>row txs. txs @ [row\<lparr>x_id := next_tx_id txs\<rparr>])
      (map (new_tx_row now action_id) (enumerate 0 transactions)) (l_txs db) = l_txs db @ rows"
    "map tx_key rows = map tx_key (map (new_tx_row now action_id) (enumerate 0 transactions))"
    "map (\<lambda>row. row\<lparr>x_id := 0\<rparr>) rows = map (\<lambda>row. row\<lparr>x_id := 0\<rparr>) (map (new_tx_row now action_id) (enumerate 0 transactions))"
    using stored_rows [of "map (new_tx_row now action_id) (enumerate 0 transactions)" "l_txs db"] by (elim exE conjE)
  have "map tx_key (map (new_tx_row now action_id) (enumerate 0 transactions)) = map (\<lambda>i. (action_id, int i)) [0..<length transactions]"
    by (rule nth_equalityI) (simp_all add: new_tx_row_def tx_key_def nth_enumerate_eq)
  moreover have "unreported action_id row" if "row \<in> set rows" for row
  proof -
    have "row\<lparr>x_id := 0\<rparr> \<in> (\<lambda>row. row\<lparr>x_id := 0\<rparr>) ` set rows" using \<open>row \<in> set rows\<close> by blast
    then obtain e where "row\<lparr>x_id := 0\<rparr> = (new_tx_row now action_id e)\<lparr>x_id := 0\<rparr>"
      using rows(3) by (metis (no_types, lifting) image_iff list.set_map)
    moreover have "unreported action_id ((new_tx_row now action_id e)\<lparr>x_id := 0\<rparr>)" by (simp add: new_tx_row_def unreported_def split: prod.split)
    ultimately have "unreported action_id (row\<lparr>x_id := 0\<rparr>)" by simp
    then show ?thesis by (simp add: unreported_def)
  qed
  ultimately show thesis
    using assms that rows(1,2)
    by (auto simp: create_prepared_action_def action_create_def err_simps split: if_splits)
qed

lemma calculate_action_status_unreported:
  assumes "\<forall>row \<in> set rows. unreported action_id row"
  shows "calculate_action_status rows = ''PREPARED''"
  using assms
  by (cases rows) (auto simp: calculate_action_status_def Let_def verified_status_def unreported_def text_truth_def
      list_all_iff list_ex_iff)

lemma get_action_transactions_append:
  "l_txs db' = l_txs db @ rows \<Longrightarrow> \<forall>row \<in> set rows. x_action_id row = action_id \<Longrightarrow>
     get_action_transactions db' other =
       (if other = action_id then sort_key x_tx_index (filter (\<lambda>row. x_action_id row = other) (l_txs db) @ rows)
        else get_action_transactions db other)"
  by (auto simp: get_action_transactions_def filter_empty_conv)

lemma audit_inv_create:
  assumes inv: "audit_inv db"
    and step: "create_prepared_action now action_id operator_id action_type sender request preview transactions
      resource_address auction_address source_address token_address db = Inr (db', action_id')"
  shows "audit_inv db'"
proof -
  from step obtain action rows where actions: "l_actions db' = l_actions db @ [action]"
    and txs: "l_txs db' = l_txs db @ rows"
    and action: "a_action_id action = action_id" "a_status action = ''PREPARED''"
    and new: "action_id \<notin> a_action_id ` set (l_actions db)"
    and keys: "map tx_key rows = map (\<lambda>i. (action_id, int i)) [0..<length transactions]"
    and rows: "\<forall>row \<in> set rows. unreported action_id row"
    by (rule create_prepared_action_Inr)
  have own: "\<forall>row \<in> set rows. x_action_id row = action_id" using rows by (simp add: unreported_def)
  have stale: "filter (\<lambda>row. x_action_id row = action_id) (l_txs db) = []"
    using inv new by (auto simp: audit_inv_def filter_empty_conv)
  have "distinct (map tx_key (l_txs db @ rows))"
  proof -
    have "distinct (map (\<lambda>i. (action_id, int i)) [0..<length transactions])" by (simp add: distinct_map inj_on_def)
    then have "distinct (map tx_key rows)" by (simp only: keys)
    moreover have "fst ` tx_key ` set rows \<subseteq> {action_id}" using own by (auto simp: tx_key_def)
    moreover have "action_id \<notin> fst ` tx_key ` set (l_txs db)" using inv new by (auto simp: audit_inv_def tx_key_def)
    ultimately show ?thesis using inv by (fastforce simp: audit_inv_def)
  qed
  moreover have "tx_sound row" if "row \<in> set rows" for row
    using rows \<open>row \<in> set rows\<close> by (simp add: unreported_def tx_sound_def)
  moreover have "calculate_action_status (get_action_transactions db' action_id) = ''PREPARED''"
    by (rule calculate_action_status_unreported [of _ action_id])
      (use rows in \<open>simp add: get_action_transactions_append [OF txs own] stale\<close>)
  moreover have "get_action_transactions db' (a_action_id a) = get_action_transactions db (a_action_id a)"
    if "a \<in> set (l_actions db)" for a
    using new \<open>a \<in> set (l_actions db)\<close> by (auto simp: get_action_transactions_append [OF txs own])
  ultimately show ?thesis
    using inv own new unfolding audit_inv_def actions txs by (auto simp: action)
qed

lemma audit_inv_broadcast:
  assumes inv: "audit_inv db"
    and step: "record_broadcast isaddr now action_id tx_index tx_hash broadcast_at db = Inr (db', rows)"
  shows "audit_inv db'"
proof -
  from step obtain tx and f :: "action_tx \<Rightarrow> action_tx" and kicks where
    "get_action_transaction db action_id tx_index = Some tx" "x_tx_hash tx = None \<or> x_tx_hash tx = Some tx_hash"
    and f: "f = (\<lambda>row. row\<lparr>x_tx_hash := Some tx_hash, x_broadcast_at := Some broadcast_at, x_updated_at := now\<rparr>)
      \<or> f = (\<lambda>row. row) \<and> x_tx_hash tx = Some tx_hash"
    and rows: "rows = get_action_transactions (update_txs action_id tx_index f db) action_id"
    and db': "db' = (update_action_status action_id (calculate_action_status rows) now None
      (update_txs action_id tx_index f db))\<lparr>l_kicks := kicks\<rparr>"
    by (rule record_broadcast_Inr)
  have "audit_inv (update_action_status action_id (calculate_action_status rows) now None
      (update_txs action_id tx_index f db))"
    unfolding rows by (rule audit_inv_update [OF inv]) (use f inv in \<open>auto simp: audit_inv_def tx_sound_def\<close>)
  then show ?thesis by (rule audit_inv_frame) (simp_all add: db')
qed

lemma audit_inv_verified:
  assumes inv: "audit_inv db" and tx: "get_action_transaction db action_id tx_index = Some row" "x_tx_hash row \<noteq> None"
    and now: "now \<noteq> []"
    and step: "record_verified_receipt action_id tx_index receipt now db = Inr db'"
  shows "audit_inv db'"
proof -
  note row = get_action_transaction_Some [OF tx(1)]
  have only: "other = row" if "other \<in> set (l_txs db)" "tx_key other = (action_id, tx_index)" for other
    using that row inv distinct_key_eq [of tx_key "l_txs db" other row] by (simp add: audit_inv_def)
  show ?thesis
    using step unfolding record_verified_receipt_def update_transaction_receipt_def Let_def
    by (auto split: option.splits if_splits intro!: audit_inv_update [OF inv])
      (use only tx(2) now in \<open>auto simp: tx_sound_def text_truth_def\<close>)
qed

lemma audit_inv_checked: "audit_inv db \<Longrightarrow> audit_inv (mark_receipt_checked tx_hash now db)"
proof -
  assume inv: "audit_inv db"
  define g :: "action_tx \<Rightarrow> action_tx" where "g = (\<lambda>row. if x_tx_hash row = Some tx_hash then row\<lparr>x_updated_at := now\<rparr> else row)"
  have g: "x_action_id (g row) = x_action_id row" "x_tx_index (g row) = x_tx_index row" "tx_key (g row) = tx_key row"
    "tx_sound (g row) = tx_sound row" "verified_status (g row) = verified_status row" "x_tx_hash (g row) = x_tx_hash row" for row
    by (simp_all add: g_def tx_key_def tx_sound_def verified_status_def)
  have "calculate_action_status (map g rows) = calculate_action_status rows" for rows
    by (simp add: calculate_action_status_def Let_def list_ex_iff list_all_iff g image_image comp_def)
  then show ?thesis
    using inv unfolding mark_receipt_checked_def g_def [symmetric]
    by (simp add: audit_inv_def get_action_transactions_map g comp_def)
qed

lemma audit_step_inv: "audit_step isaddr db db' \<Longrightarrow> audit_inv db \<Longrightarrow> audit_inv db'"
  by (erule audit_step.cases)
    (blast intro: audit_inv_create audit_inv_broadcast audit_inv_verified [OF _ _ _ isoformat_utc_nonempty]
      audit_inv_checked audit_inv_frame)+

lemma empty_ledger_inv: "audit_inv empty_ledger"
  by (simp add: audit_inv_def empty_ledger_def)

lemma audit_steps_inv: "audit_steps isaddr db db' \<Longrightarrow> audit_inv db \<Longrightarrow> audit_inv db'"
  by (induction rule: audit_steps.induct) (auto intro: audit_step_inv)

text \<open>
  C23. In every ledger reached by creating actions and reporting broadcasts and receipts, an
  action's status is the one computed from its transactions: CONFIRMED exactly when all of
  them are broadcast with a confirmed receipt, REVERTED exactly when one of them reverted.
\<close>

theorem audit_status_truthful:
  assumes "audit_steps isaddr empty_ledger db" "action \<in> set (l_actions db)"
  shows "a_status action = calculate_action_status (get_action_transactions db (a_action_id action))
    \<and> a_status action \<in> {''PREPARED'', ''BROADCAST_REPORTED'', ''CONFIRMED'', ''REVERTED''}
    \<and> (a_status action = ''CONFIRMED'' \<longleftrightarrow> get_action_transactions db (a_action_id action) \<noteq> []
        \<and> (\<forall>tx \<in> set (get_action_transactions db (a_action_id action)).
             x_tx_hash tx \<noteq> None \<and> x_receipt_status tx = Some ''CONFIRMED''))
    \<and> (a_status action = ''REVERTED'' \<longleftrightarrow>
        (\<exists>tx \<in> set (get_action_transactions db (a_action_id action)). x_receipt_status tx = Some ''REVERTED''))"
proof -
  have inv: "audit_inv db" using audit_steps_inv [OF assms(1)] empty_ledger_inv by simp
  define txs where "txs = get_action_transactions db (a_action_id action)"
  have status: "a_status action = calculate_action_status txs"
    using inv assms(2) by (simp add: audit_inv_def txs_def)
  have sound: "tx_sound tx" if "tx \<in> set txs" for tx
    using inv \<open>tx \<in> set txs\<close> by (simp add: audit_inv_def txs_def get_action_transactions_action_id)
  then have verified: "verified_status tx = x_receipt_status tx" if "tx \<in> set txs" for tx
    using sound [OF that] by (cases "x_receipt_status tx") (simp_all add: tx_sound_def verified_status_def)
  have "calculate_action_status txs =
      (if \<exists>tx \<in> set txs. x_receipt_status tx = Some ''REVERTED'' then ''REVERTED''
       else if txs \<noteq> [] \<and> (\<forall>tx \<in> set txs. x_receipt_status tx = Some ''CONFIRMED'') then ''CONFIRMED''
       else if \<exists>tx \<in> set txs. text_truth (x_tx_hash tx) then ''BROADCAST_REPORTED'' else ''PREPARED'')"
  proof -
    have "Some s \<in> set (map verified_status txs) \<longleftrightarrow> (\<exists>tx \<in> set txs. x_receipt_status tx = Some s)" for s
      using verified by (force simp: image_iff)
    moreover have "\<not> (\<exists>tx \<in> set txs. x_receipt_status tx = Some ''FAILED'')"
      by (auto simp: tx_sound_def dest!: sound)
    moreover have "list_all (\<lambda>s. s = Some ''CONFIRMED'') (map verified_status txs)
        \<longleftrightarrow> (\<forall>tx \<in> set txs. x_receipt_status tx = Some ''CONFIRMED'')"
      using verified by (simp add: list_all_iff)
    ultimately show ?thesis unfolding calculate_action_status_def Let_def by (simp only: list_ex_iff if_False)
  qed
  moreover have "\<forall>tx \<in> set txs. x_receipt_status tx = Some ''CONFIRMED'' \<longrightarrow> x_tx_hash tx \<noteq> None"
    using sound by (auto simp: tx_sound_def)
  ultimately show ?thesis
    unfolding txs_def [symmetric] status by (cases txs) auto
qed

section \<open>What a prepared transaction asks for never changes\<close>

definition keeps_intent :: "ledger \<Rightarrow> ledger \<Rightarrow> bool" where
  "keeps_intent db db' \<longleftrightarrow> (\<forall>tx \<in> set (l_txs db). \<exists>tx' \<in> set (l_txs db').
     tx_key tx' = tx_key tx \<and> x_operation tx' = x_operation tx \<and> x_to_address tx' = x_to_address tx
     \<and> x_data tx' = x_data tx \<and> x_value tx' = x_value tx \<and> x_chain_id tx' = x_chain_id tx
     \<and> (x_tx_hash tx \<noteq> None \<longrightarrow> x_tx_hash tx' = x_tx_hash tx))"

lemma keeps_intent_refl [simp]: "keeps_intent db db"
  by (auto simp: keeps_intent_def)

lemma keeps_intent_trans: "keeps_intent db db' \<Longrightarrow> keeps_intent db' db'' \<Longrightarrow> keeps_intent db db''"
  unfolding keeps_intent_def by (metis (no_types, opaque_lifting))

lemma keeps_intent_map:
  assumes "l_txs db' = map g (l_txs db)"
    and "\<And>tx. tx \<in> set (l_txs db) \<Longrightarrow> tx_key (g tx) = tx_key tx \<and> x_operation (g tx) = x_operation tx
      \<and> x_to_address (g tx) = x_to_address tx \<and> x_data (g tx) = x_data tx \<and> x_value (g tx) = x_value tx
      \<and> x_chain_id (g tx) = x_chain_id tx \<and> (x_tx_hash tx \<noteq> None \<longrightarrow> x_tx_hash (g tx) = x_tx_hash tx)"
  shows "keeps_intent db db'"
  unfolding keeps_intent_def assms(1) using assms(2) by auto

lemma keeps_intent_update_txs:
  assumes "l_txs db' = l_txs (update_txs action_id tx_index f db)"
    and "\<And>tx. tx_key (f tx) = tx_key tx \<and> x_operation (f tx) = x_operation tx
      \<and> x_to_address (f tx) = x_to_address tx \<and> x_data (f tx) = x_data tx \<and> x_value (f tx) = x_value tx
      \<and> x_chain_id (f tx) = x_chain_id tx \<and> (x_tx_hash tx \<noteq> None \<longrightarrow> x_tx_hash (f tx) = x_tx_hash tx)"
  shows "keeps_intent db db'"
  by (rule keeps_intent_map [of _ "\<lambda>row. if x_action_id row = action_id \<and> x_tx_index row = tx_index then f row else row"])
    (use assms in \<open>auto simp: update_txs_def\<close>)

lemma keeps_intent_broadcast:
  assumes inv: "audit_inv db"
    and step: "record_broadcast isaddr now action_id tx_index tx_hash broadcast_at db = Inr (db', rows)"
  shows "keeps_intent db db'"
proof -
  from step obtain tx and f :: "action_tx \<Rightarrow> action_tx" and kicks where
    tx: "get_action_transaction db action_id tx_index = Some tx"
    and hash: "x_tx_hash tx = None \<or> x_tx_hash tx = Some tx_hash"
    and f: "f = (\<lambda>row. row\<lparr>x_tx_hash := Some tx_hash, x_broadcast_at := Some broadcast_at, x_updated_at := now\<rparr>)
      \<or> f = (\<lambda>row. row) \<and> x_tx_hash tx = Some tx_hash"
    and "rows = get_action_transactions (update_txs action_id tx_index f db) action_id"
    and db': "db' = (update_action_status action_id (calculate_action_status rows) now None
      (update_txs action_id tx_index f db))\<lparr>l_kicks := kicks\<rparr>"
    by (rule record_broadcast_Inr)
  note tx_row = get_action_transaction_Some [OF tx]
  have "l_txs db' = map (\<lambda>row. if x_action_id row = action_id \<and> x_tx_index row = tx_index then f row else row) (l_txs db)"
    by (simp add: db' update_txs_def)
  then show ?thesis
  proof (rule keeps_intent_map)
    fix other assume other: "other \<in> set (l_txs db)"
    have "other = tx" if "x_action_id other = action_id \<and> x_tx_index other = tx_index"
      using other tx_row inv that distinct_key_eq [of tx_key "l_txs db" other tx]
      by (simp add: audit_inv_def tx_key_def)
    then show "tx_key (if x_action_id other = action_id \<and> x_tx_index other = tx_index then f other else other) = tx_key other
      \<and> x_operation (if x_action_id other = action_id \<and> x_tx_index other = tx_index then f other else other) = x_operation other
      \<and> x_to_address (if x_action_id other = action_id \<and> x_tx_index other = tx_index then f other else other) = x_to_address other
      \<and> x_data (if x_action_id other = action_id \<and> x_tx_index other = tx_index then f other else other) = x_data other
      \<and> x_value (if x_action_id other = action_id \<and> x_tx_index other = tx_index then f other else other) = x_value other
      \<and> x_chain_id (if x_action_id other = action_id \<and> x_tx_index other = tx_index then f other else other) = x_chain_id other
      \<and> (x_tx_hash other \<noteq> None \<longrightarrow>
          x_tx_hash (if x_action_id other = action_id \<and> x_tx_index other = tx_index then f other else other) = x_tx_hash other)"
      using f hash by (auto simp: tx_key_def)
  qed
qed

lemma audit_step_keeps_intent:
  assumes "audit_step isaddr db db'" "audit_inv db"
  shows "keeps_intent db db'"
  using assms(1)
proof (cases rule: audit_step.cases)
  case (create t action_id operator_id action_type sender request preview transactions resource_address auction_address
      source_address token_address action_id')
  then show ?thesis by (auto elim!: create_prepared_action_Inr simp: keeps_intent_def)
next
  case (broadcast t action_id tx_index tx_hash broadcast_at rows)
  with assms(2) show ?thesis by (blast intro: keeps_intent_broadcast)
next
  case (verified action_id tx_index row receipt t)
  then show ?thesis
    by (auto simp: record_verified_receipt_def update_transaction_receipt_def tx_key_def Let_def
        split: option.splits intro!: keeps_intent_update_txs [OF update_action_status_simps(1)])
next
  case (checked tx_hash t)
  show ?thesis
    by (rule keeps_intent_map [of _ "\<lambda>row. if x_tx_hash row = Some tx_hash then row\<lparr>x_updated_at := isoformat_utc t\<rparr> else row"])
      (auto simp: checked mark_receipt_checked_def tx_key_def)
next
  case other
  then show ?thesis by (simp add: keeps_intent_def) blast
qed

lemma audit_steps_keep_intent: "audit_steps isaddr db db' \<Longrightarrow> audit_inv db \<Longrightarrow> keeps_intent db db'"
proof (induction rule: audit_steps.induct)
  case (step db db' db'')
  then show ?case using audit_steps_inv audit_step_keeps_intent keeps_intent_trans by blast
qed simp

text \<open>
  C24. Along any run of audit operations no prepared transaction is lost, its prepared
  content (operation, target, data, value, chain) never changes, and a recorded transaction
  hash is never replaced.
\<close>

theorem prepared_intent_immutable:
  assumes "audit_steps isaddr empty_ledger db" "audit_steps isaddr db db'"
  shows "keeps_intent db db'"
  using assms audit_steps_inv [OF assms(1) empty_ledger_inv] by (blast intro: audit_steps_keep_intent)

section \<open>A concrete run\<close>

definition sample_prepared :: prepared_tx where
  "sample_prepared = \<lparr>p_operation = ''resolve-auction'', p_to = ''k'', p_data = ''0x01'', p_value = None,
     p_chain_id = 1, p_gas_estimate = None, p_gas_limit = None\<rparr>"

definition sample_preview :: json where
  "sample_preview = JObj [(''preparedOperations'', JList [JObj [(''operation'', JStr ''settle''),
     (''auctionAddress'', JStr ''A''), (''tokenAddress'', JStr ''T''), (''txIndex'', JInt 0)]])]"

definition sample_receipt :: receipt where
  "sample_receipt = \<lparr>rc_transaction_hash = ''h'', rc_status = Some 1, rc_block_number = 9, rc_transaction_index = Some 2,
     rc_gas_used = Some 21000, rc_effective_gas_price = None, rc_logs = []\<rparr>"

definition sample_created :: "(ledger \<times> string) result" where
  "sample_created = create_prepared_action (isoformat_utc 0) ''id'' ''op'' ''settle'' None JNull sample_preview
     [sample_prepared] None None None None empty_ledger"

definition sample_broadcast :: "(ledger \<times> action_tx list) result" where
  "sample_broadcast = err_bind sample_created (\<lambda>(db, _).
     record_broadcast (\<lambda>_. True) (isoformat_utc 0) ''id'' 0 ''h'' ''b'' db)"

definition sample_verified :: "ledger result" where
  "sample_verified = err_bind sample_broadcast (\<lambda>(db, _).
     record_verified_receipt ''id'' 0 sample_receipt (isoformat_utc 0) db)"

definition sample_final_check :: "ledger \<Rightarrow> bool" where
  "sample_final_check db \<longleftrightarrow> map a_action_id (l_actions db) = [''id''] \<and> map a_status (l_actions db) = [''CONFIRMED'']
    \<and> map (\<lambda>k. (k_operation_type k, k_auction_address k, k_tx_hash k, k_status k)) (l_kicks db) =
        [(''resolve_auction'', ''a'', Some ''h'', ''SUBMITTED'')]"

lemma sample_run:
  obtains db db1 rows db2 where "sample_created = Inr (db, ''id'')" "sample_broadcast = Inr (db1, rows)"
    "sample_verified = Inr db2" "sample_final_check db2"
    "record_broadcast (\<lambda>_. True) (isoformat_utc 0) ''id'' 0 ''h'' ''b'' db = Inr (db1, rows)"
    "get_action_transaction db1 ''id'' 0 = Some (hd rows)" "x_tx_hash (hd rows) = Some ''h''"
    "record_verified_receipt ''id'' 0 sample_receipt (isoformat_utc 0) db1 = Inr db2"
proof -
  have "case sample_created of Inl _ \<Rightarrow> False | Inr (db, action_id) \<Rightarrow> action_id = ''id''" by code_simp
  then obtain db where db: "sample_created = Inr (db, ''id'')" by (auto split: sum.splits)
  have "case sample_broadcast of Inl _ \<Rightarrow> False
    | Inr (db, rows) \<Rightarrow> get_action_transaction db ''id'' 0 = Some (hd rows) \<and> x_tx_hash (hd rows) = Some ''h''"
    by code_simp
  then obtain db1 rows where db1: "sample_broadcast = Inr (db1, rows)"
    and tx: "get_action_transaction db1 ''id'' 0 = Some (hd rows)" "x_tx_hash (hd rows) = Some ''h''"
    by (auto split: sum.splits)
  have "case sample_verified of Inl _ \<Rightarrow> False | Inr db2 \<Rightarrow> sample_final_check db2" by code_simp
  then obtain db2 where db2: "sample_verified = Inr db2" "sample_final_check db2" by (auto split: sum.splits)
  have "record_broadcast (\<lambda>_. True) (isoformat_utc 0) ''id'' 0 ''h'' ''b'' db = Inr (db1, rows)"
    using db1 by (simp add: sample_broadcast_def db)
  moreover have "record_verified_receipt ''id'' 0 sample_receipt (isoformat_utc 0) db1 = Inr db2"
    using db2(1) by (simp add: sample_verified_def db1)
  ultimately show thesis using that db db1 tx db2 by blast
qed

lemma sample_steps:
  obtains db1 db2 where "audit_steps (\<lambda>_. True) empty_ledger db1" "audit_steps (\<lambda>_. True) db1 db2"
    "sample_final_check db2" "map x_tx_hash (l_txs db1) = [Some ''h'']"
proof -
  obtain db db1 rows db2 where run: "sample_created = Inr (db, ''id'')" "sample_broadcast = Inr (db1, rows)"
    "sample_verified = Inr db2" "sample_final_check db2"
    "record_broadcast (\<lambda>_. True) (isoformat_utc 0) ''id'' 0 ''h'' ''b'' db = Inr (db1, rows)"
    "get_action_transaction db1 ''id'' 0 = Some (hd rows)" "x_tx_hash (hd rows) = Some ''h''"
    "record_verified_receipt ''id'' 0 sample_receipt (isoformat_utc 0) db1 = Inr db2"
    by (rule sample_run)
  have "audit_step (\<lambda>_. True) empty_ledger db"
    using run(1) unfolding sample_created_def by (rule audit_step.create)
  moreover have "audit_step (\<lambda>_. True) db db1" using run(5) by (rule audit_step.broadcast)
  moreover have "audit_step (\<lambda>_. True) db1 db2"
    using run(6) _ run(8) by (rule audit_step.verified) (simp add: run(7))
  moreover have "map x_tx_hash (l_txs db1) = [Some ''h'']"
  proof -
    have "case sample_broadcast of Inl _ \<Rightarrow> False | Inr (db, rows) \<Rightarrow> map x_tx_hash (l_txs db) = [Some ''h'']"
      by code_simp
    then show ?thesis by (simp add: run(2))
  qed
  ultimately show thesis using that run(4) audit_steps.intros by meson
qed

theorem audit_status_truthful_witness:
  "\<exists>db action. audit_steps (\<lambda>_. True) empty_ledger db \<and> action \<in> set (l_actions db) \<and> a_status action = ''CONFIRMED''
    \<and> (\<forall>tx \<in> set (get_action_transactions db (a_action_id action)). x_receipt_status tx = Some ''CONFIRMED'')"
proof -
  obtain db1 db2 where steps: "audit_steps (\<lambda>_. True) empty_ledger db1" "audit_steps (\<lambda>_. True) db1 db2"
    and final: "sample_final_check db2" by (rule sample_steps)
  have all: "audit_steps (\<lambda>_. True) empty_ledger db2"
    using steps(2,1) by (induction rule: audit_steps.induct) (auto intro: audit_steps.step)
  obtain action where action: "action \<in> set (l_actions db2)" "a_status action = ''CONFIRMED''"
    using final by (auto simp: sample_final_check_def)
  from audit_status_truthful [OF all action(1)] action all show ?thesis by blast
qed

theorem prepared_intent_immutable_witness:
  "\<exists>db db'. audit_steps (\<lambda>_. True) empty_ledger db \<and> audit_steps (\<lambda>_. True) db db' \<and> keeps_intent db db'
    \<and> map x_tx_hash (l_txs db) = [Some ''h''] \<and> sample_final_check db'"
proof -
  obtain db1 db2 where steps: "audit_steps (\<lambda>_. True) empty_ledger db1" "audit_steps (\<lambda>_. True) db1 db2"
    and "sample_final_check db2" "map x_tx_hash (l_txs db1) = [Some ''h'']" by (rule sample_steps)
  with prepared_intent_immutable [OF steps] show ?thesis by (intro exI [of _ db1] exI [of _ db2] conjI) simp_all
qed

end
