(* ===== verification/Reconciler.thy ===== *)
theory Reconciler
  imports ActionAudit NoFill Rpc
begin

text \<open>
  \<open>tidal/operation_reconciler.py\<close>: reading mined receipts and folding them into the
  \<open>kick_txs\<close> rows and the action ledger. What web3 does is a parameter: the node
  (\<open>chain_node\<close>), \<open>HexBytes\<close>, and the event decoders, each of which maps one log to its
  arguments or discards it (\<open>process_receipt(receipt, errors=DISCARD)\<close>). A transaction of the
  node is an object as in \<open>Json\<close>, its byte strings as hexadecimal text.
\<close>

section \<open>A mined transaction against the prepared one\<close>

definition hex_value :: "char \<Rightarrow> nat option" where
  "hex_value c =
     (if is_digit c then Some (digit_val c)
      else let l = char_code (lower_char c) in if 97 \<le> l \<and> l \<le> 102 then Some (l - 87) else None)"

fun read_hex_digits :: "nat \<Rightarrow> bool \<Rightarrow> string \<Rightarrow> nat option" where
  "read_hex_digits acc after_digit [] = (if after_digit then Some acc else None)"
| "read_hex_digits acc after_digit (c # cs) =
     (case hex_value c of
        Some d \<Rightarrow> read_hex_digits (acc * 16 + d) True cs
      | None \<Rightarrow> if c = CHR ''_'' \<and> after_digit then read_hex_digits acc False cs else None)"

text \<open>\<open>int(text, 16)\<close> of a text that starts with \<open>0x\<close>; one underscore may follow the prefix.\<close>

definition py_int_hex :: "string \<Rightarrow> int option" where
  "py_int_hex s = (case drop 2 (str_strip s) of
       [] \<Rightarrow> None
     | c # cs \<Rightarrow> map_option int (read_hex_digits 0 False (if c = CHR ''_'' then cs else c # cs)))"

definition rpc_int :: "json \<Rightarrow> int result" where
  "rpc_int value =
     (let s = json_str value in
      case (if str_starts ''0x'' (str_lower s) then py_int_hex s else py_int s) of
        None \<Rightarrow> Inl (ValueError ''invalid literal for int()'')
      | Some i \<Rightarrow> Inr i)"

definition dict_item :: "(string \<times> json) list \<Rightarrow> string \<Rightarrow> json result" where
  "dict_item entries key = (case map_of entries key of None \<Rightarrow> Inl (KeyError key) | Some v \<Rightarrow> Inr v)"

text \<open>\<open>a and b\<close>, left to right.\<close>

fun all_err :: "bool result list \<Rightarrow> bool result" where
  "all_err [] = Inr True"
| "all_err (c # cs) = err_bind c (\<lambda>b. if b then all_err cs else Inr False)"

definition same_bytes :: "(string \<Rightarrow> string result) \<Rightarrow> string result \<Rightarrow> string result \<Rightarrow> bool result" where
  "same_bytes hexbytes a b =
     err_bind (err_bind a hexbytes) (\<lambda>x. err_bind (err_bind b hexbytes) (\<lambda>y. Inr (x = y)))"

definition text_item :: "(string \<times> json) list \<Rightarrow> string \<Rightarrow> string result" where
  "text_item entries key = err_bind (dict_item entries key) (\<lambda>v. Inr (json_str v))"

fun is_key_type_or_value_error :: "exn \<Rightarrow> bool" where
  "is_key_type_or_value_error (KeyError _) = True"
| "is_key_type_or_value_error e = is_type_or_value_error e"

definition prepared_conditions ::
  "(string \<Rightarrow> string result) \<Rightarrow> action_tx \<Rightarrow> string option \<Rightarrow> (string \<times> json) list \<Rightarrow> receipt \<Rightarrow> string \<Rightarrow> int
     \<Rightarrow> bool result list" where
  "prepared_conditions hexbytes prepared sender transaction receipt tx_hash chain_id =
     [Inr (x_chain_id prepared = chain_id),
      err_bind (rpc_int (case map_of transaction ''chainId'' of None \<Rightarrow> JInt chain_id | Some v \<Rightarrow> v))
        (\<lambda>i. Inr (i = chain_id)),
      same_bytes hexbytes (text_item transaction ''hash'') (Inr tx_hash),
      same_bytes hexbytes (Inr (rc_transaction_hash receipt)) (Inr tx_hash),
      err_bind (text_item transaction ''to'') (\<lambda>to. Inr (str_lower to = str_lower (x_to_address prepared))),
      same_bytes hexbytes (text_item transaction ''input'') (Inr (x_data prepared)),
      err_bind (err_bind (dict_item transaction ''value'') rpc_int) (\<lambda>v.
        err_bind (rpc_int (JStr (x_value prepared))) (\<lambda>w. Inr (v = w))),
      (case sender of None \<Rightarrow> Inr True
       | Some s \<Rightarrow> err_bind (text_item transaction ''from'') (\<lambda>from. Inr (str_lower from = str_lower s))),
      (case rc_status receipt of None \<Rightarrow> Inl (KeyError ''status'') | Some status \<Rightarrow> Inr (status \<in> {0, 1}))]"

definition matches_prepared_transaction ::
  "(string \<Rightarrow> string result) \<Rightarrow> action_tx \<Rightarrow> string option \<Rightarrow> (string \<times> json) list \<Rightarrow> receipt \<Rightarrow> string \<Rightarrow> int
     \<Rightarrow> bool result" where
  "matches_prepared_transaction hexbytes prepared sender transaction receipt tx_hash chain_id =
     (case all_err (prepared_conditions hexbytes prepared sender transaction receipt tx_hash chain_id) of
        Inr b \<Rightarrow> Inr b
      | Inl e \<Rightarrow> if is_key_type_or_value_error e then Inr False else Inl e)"

section \<open>Events of a receipt\<close>

definition receipt_from_emitters :: "receipt \<Rightarrow> string set \<Rightarrow> receipt" where
  "receipt_from_emitters receipt addresses =
     receipt\<lparr>rc_logs := filter (\<lambda>log. str_lower (lg_address log) \<in> addresses) (rc_logs receipt)\<rparr>"

record decoded_kick =
  dk_source_address :: address
  dk_auction_address :: address
  dk_token_address :: address
  dk_requested_amount :: int
  dk_placed_amount :: "int option"

record decoded_resolve =
  dr_auction_address :: address
  dr_token_address :: address
  dr_path :: int
  dr_recovered_amount :: int

record decoded_sweep =
  ds_auction_address :: address
  ds_token_address :: address
  ds_recovered_amount :: int

record decoded_settlement =
  dt_auction_address :: address
  dt_token_address :: address

record decoded_receipt =
  de_kicks :: "decoded_kick list"
  de_resolves :: "decoded_resolve list"
  de_sweeps :: "decoded_sweep list"
  de_settlements :: "decoded_settlement list"

text \<open>
  The event decoders web3 builds from the ABIs: source, auction, sell token and amount of a
  kick, one decoder per version of the event; auction, sell token, path and recovered balance
  of a resolve; auction, sell token and recovered balance of a sweep; token and available
  amount of \<open>AuctionKicked\<close>; token of \<open>AuctionSettled\<close>.
\<close>

record event_decoders =
  ed_kicked :: "(chain_log \<Rightarrow> (string \<times> string \<times> string \<times> int) option) list"
  ed_resolved :: "chain_log \<Rightarrow> (string \<times> string \<times> int \<times> int) option"
  ed_swept :: "chain_log \<Rightarrow> (string \<times> string \<times> int) option"
  ed_auction_kicked :: "chain_log \<Rightarrow> (string \<times> int) option"
  ed_auction_settled :: "chain_log \<Rightarrow> string option"

definition placed_amounts ::
  "(string \<Rightarrow> bool) \<Rightarrow> event_decoders \<Rightarrow> receipt \<Rightarrow> string \<Rightarrow> ((address \<times> address) \<times> int) list result" where
  "placed_amounts isaddr decoders receipt auction_address =
     err_bind (normalize_address isaddr auction_address) (\<lambda>auction.
     traverse_err (\<lambda>(from, available). err_bind (normalize_address isaddr from) (\<lambda>token. Inr ((auction, token), available)))
       (List.map_filter (ed_auction_kicked decoders) (rc_logs (receipt_from_emitters receipt {auction}))))"

definition decoded_settlements ::
  "(string \<Rightarrow> bool) \<Rightarrow> event_decoders \<Rightarrow> receipt \<Rightarrow> string \<Rightarrow> decoded_settlement list result" where
  "decoded_settlements isaddr decoders receipt auction_address =
     err_bind (normalize_address isaddr auction_address) (\<lambda>auction.
     traverse_err (\<lambda>from. err_bind (normalize_address isaddr from) (\<lambda>token.
         Inr \<lparr>dt_auction_address = auction, dt_token_address = token\<rparr>))
       (List.map_filter (ed_auction_settled decoders) (rc_logs (receipt_from_emitters receipt {auction}))))"

definition decode_kick ::
  "(string \<Rightarrow> bool) \<Rightarrow> ((address \<times> address) \<times> int) list \<Rightarrow> string \<times> string \<times> string \<times> int \<Rightarrow> decoded_kick result" where
  "decode_kick isaddr placed = (\<lambda>(source, auction, sell_token, sell_amount).
     err_bind (normalize_address isaddr auction) (\<lambda>auction_address.
     err_bind (normalize_address isaddr sell_token) (\<lambda>token_address.
     err_bind (normalize_address isaddr source) (\<lambda>source_address.
     Inr \<lparr>dk_source_address = source_address, dk_auction_address = auction_address, dk_token_address = token_address,
       dk_requested_amount = sell_amount,
       dk_placed_amount = (case filter (\<lambda>(pair, _). pair = (auction_address, token_address)) placed of
           [(_, amount)] \<Rightarrow> Some amount | _ \<Rightarrow> None)\<rparr>))))"

definition decode_resolve :: "(string \<Rightarrow> bool) \<Rightarrow> string \<times> string \<times> int \<times> int \<Rightarrow> decoded_resolve result" where
  "decode_resolve isaddr = (\<lambda>(auction, sell_token, path, recovered).
     err_bind (normalize_address isaddr auction) (\<lambda>auction_address.
     err_bind (normalize_address isaddr sell_token) (\<lambda>token_address.
     Inr \<lparr>dr_auction_address = auction_address, dr_token_address = token_address, dr_path = path,
       dr_recovered_amount = recovered\<rparr>)))"

definition decode_sweep :: "(string \<Rightarrow> bool) \<Rightarrow> string \<times> string \<times> int \<Rightarrow> decoded_sweep result" where
  "decode_sweep isaddr = (\<lambda>(auction, sell_token, recovered).
     err_bind (normalize_address isaddr auction) (\<lambda>auction_address.
     err_bind (normalize_address isaddr sell_token) (\<lambda>token_address.
     Inr \<lparr>ds_auction_address = auction_address, ds_token_address = token_address, ds_recovered_amount = recovered\<rparr>)))"

definition TRUSTED_HISTORICAL_AUCTION_KICKERS :: "string set" where
  "TRUSTED_HISTORICAL_AUCTION_KICKERS =
     {''0x2a76c6ad151af2edbe16755fc3bff67176f01071'', ''0x52e5a854cee6f22c8dae2807bb7b3e6ac8bd46e0'',
      ''0x41ed19012d6a571543d64581acb7fb84061de819'', ''0x3a87a97207ac535b2d08abc99afb31a575263f80'',
      ''0x71690ad5d2c3fb055086ac0a12f44160d810f0a4'', ''0x846475a1b97ac57861813206749c1b0f592383ef'',
      ''0x17d6e65317d42ce40f06538b68e824669e1f679e'', ''0x26c28bdfe5207dc6a27a8dd886d1fbe068586a2d'',
      ''0xd7065da1259b99e0f79ca7488894e38b158a4d58'', ''0x354ed194390c431250b639ab5cba178d587612fd''}"

definition trusted_kicker_addresses :: "address \<Rightarrow> int \<Rightarrow> string set" where
  "trusted_kicker_addresses auction_kicker_address chain_id =
     insert auction_kicker_address (if chain_id = 1 then TRUSTED_HISTORICAL_AUCTION_KICKERS else {})"

definition decode_receipt ::
  "(string \<Rightarrow> bool) \<Rightarrow> event_decoders \<Rightarrow> string set \<Rightarrow> receipt \<Rightarrow> string list \<Rightarrow> decoded_receipt result" where
  "decode_receipt isaddr decoders trusted receipt auctions =
     (let kicker_logs = rc_logs (receipt_from_emitters receipt trusted);
          kicked_logs = concat (map (\<lambda>decoder. List.map_filter decoder kicker_logs) (ed_kicked decoders));
          resolved_logs = List.map_filter (ed_resolved decoders) kicker_logs;
          swept_logs = List.map_filter (ed_swept decoders) kicker_logs
      in err_bind (traverse_err (\<lambda>auction.
             err_bind (placed_amounts isaddr decoders receipt auction) (\<lambda>placed.
             err_bind (decoded_settlements isaddr decoders receipt auction) (\<lambda>settled.
             Inr (placed, settled)))) auctions) (\<lambda>per_auction.
         err_bind (traverse_err (decode_kick isaddr (concat (map fst per_auction))) kicked_logs) (\<lambda>kicks.
         err_bind (traverse_err (decode_resolve isaddr) resolved_logs) (\<lambda>resolves.
         err_bind (traverse_err (decode_sweep isaddr) swept_logs) (\<lambda>sweeps.
         Inr \<lparr>de_kicks = kicks, de_resolves = resolves, de_sweeps = sweeps,
           de_settlements = concat (map snd per_auction)\<rparr>)))))"

section \<open>Finalising the operations of a transaction\<close>

text \<open>\<open>datetime.fromtimestamp(seconds, tz=utc).isoformat()\<close>, which raises outside the years 1 to 9999.\<close>

definition UNIX_EPOCH :: instant where
  "UNIX_EPOCH = 719162 * usec_per_day"

definition timestamp_text :: "int \<Rightarrow> string result" where
  "timestamp_text seconds =
     (let t = UNIX_EPOCH + seconds * usec_per_second in
      if 0 \<le> t \<and> t < 3652059 * usec_per_day then Inr (isoformat_utc t) else Inl (ValueError ''year is out of range''))"

definition normalized_amount :: "(address \<times> int) list \<Rightarrow> address \<Rightarrow> int option \<Rightarrow> string option result" where
  "normalized_amount tokens token_address amount =
     (case amount of
        None \<Rightarrow> Inr None
      | Some a \<Rightarrow> (case map_of tokens token_address of
          None \<Rightarrow> Inr None
        | Some decimals \<Rightarrow> err_bind (to_decimal_string a decimals) (\<lambda>s. Inr (Some s))))"

definition round_kick_id_of :: "kick_tx list \<Rightarrow> kick_tx \<Rightarrow> address \<Rightarrow> address \<Rightarrow> position \<Rightarrow> int option" where
  "round_kick_id_of kicks row auction token position =
     (case k_round_kick_id row of
        Some i \<Rightarrow> Some i
      | None \<Rightarrow> map_option k_id (latest_confirmed_unclosed_kick kicks auction token (Some position)))"

record receipt_facts =
  rf_status :: string
  rf_block_number :: int
  rf_transaction_index :: int
  rf_mined_at :: string
  rf_gas_used :: "int option"
  rf_gas_price_gwei :: "string option"

text \<open>\<open>int(receipt.get("status") or 0)\<close> and the like.\<close>

definition int_or_zero :: "int option \<Rightarrow> int" where
  "int_or_zero v = (case v of None \<Rightarrow> 0 | Some i \<Rightarrow> i)"

definition common_fields :: "receipt_facts \<Rightarrow> string option \<Rightarrow> kick_tx \<Rightarrow> kick_tx" where
  "common_fields facts error_message row = row
     \<lparr>k_status := rf_status facts, k_block_number := Some (rf_block_number facts),
      k_transaction_index := Some (rf_transaction_index facts), k_mined_at := Some (rf_mined_at facts),
      k_gas_used := rf_gas_used facts, k_gas_price_gwei := rf_gas_price_gwei facts, k_error_message := error_message\<rparr>"

definition set_normalized_balance :: "string option \<Rightarrow> kick_tx \<Rightarrow> kick_tx" where
  "set_normalized_balance v row = row\<lparr>k_detail := (k_detail row)\<lparr>kd_normalized_balance := v\<rparr>\<rparr>"

text \<open>The fields a confirmed row gets beyond the common ones, by its operation type.\<close>

definition kick_values ::
  "(address \<times> int) list \<Rightarrow> decoded_receipt \<Rightarrow> receipt_facts \<Rightarrow> address \<Rightarrow> address \<Rightarrow> (kick_tx \<Rightarrow> kick_tx) result" where
  "kick_values tokens decoded facts auction token =
     (case find (\<lambda>item. dk_auction_address item = auction \<and> dk_token_address item = token) (de_kicks decoded) of
        None \<Rightarrow> Inr (\<lambda>row. common_fields facts (Some ''confirmed kick event evidence missing'') (row\<lparr>k_sell_amount := None\<rparr>))
      | Some event \<Rightarrow>
          err_bind (normalized_amount tokens token (dk_placed_amount event)) (\<lambda>balance.
          Inr (\<lambda>row. common_fields facts
            (if dk_placed_amount event = None then Some ''underlying AuctionKicked event missing'' else None)
            (set_normalized_balance balance
              (row\<lparr>k_source_address := Some (dk_source_address event),
                k_requested_sell_amount := Some (show_int (dk_requested_amount event)),
                k_sell_amount := map_option show_int (dk_placed_amount event)\<rparr>)))))"

definition resolve_values ::
  "(address \<times> int) list \<Rightarrow> decoded_receipt \<Rightarrow> receipt_facts \<Rightarrow> kick_tx list \<Rightarrow> kick_tx \<Rightarrow> address \<Rightarrow> address
     \<Rightarrow> ((kick_tx \<Rightarrow> kick_tx) \<times> string option) result" where
  "resolve_values tokens decoded facts kicks row auction token =
     (case find (\<lambda>item. dr_auction_address item = auction \<and> dr_token_address item = token) (de_resolves decoded) of
        None \<Rightarrow> Inr (\<lambda>row. common_fields facts (Some ''confirmed AuctionResolved event missing'') (row\<lparr>k_sell_amount := None\<rparr>), None)
      | Some event \<Rightarrow>
          err_bind (normalized_amount tokens token (Some (dr_recovered_amount event))) (\<lambda>balance.
          let link = (if dr_path event = 0 then None
                else round_kick_id_of kicks row auction token (rf_block_number facts, rf_transaction_index facts));
              unlinked = (dr_path event \<noteq> 0 \<and> link = None)
          in Inr (\<lambda>row. common_fields facts
               (if unlinked then Some ''confirmed resolve could not be linked to a kick'' else None)
               (set_normalized_balance balance
                 (row\<lparr>k_resolution_path := Some (dr_path event), k_sell_amount := Some (show_int (dr_recovered_amount event)),
                   k_round_kick_id := link\<rparr>)),
             if unlinked then Some ''round_link_failed'' else None)))"

definition sweep_values ::
  "(address \<times> int) list \<Rightarrow> decoded_receipt \<Rightarrow> receipt_facts \<Rightarrow> kick_tx list \<Rightarrow> kick_tx \<Rightarrow> address \<Rightarrow> address
     \<Rightarrow> (kick_tx \<Rightarrow> kick_tx) result" where
  "sweep_values tokens decoded facts kicks row auction token =
     (case find (\<lambda>item. ds_auction_address item = auction \<and> ds_token_address item = token) (de_sweeps decoded) of
        None \<Rightarrow> Inr (\<lambda>row. common_fields facts (Some ''confirmed AuctionSwept event missing'') (row\<lparr>k_sell_amount := None\<rparr>))
      | Some event \<Rightarrow>
          err_bind (normalized_amount tokens token (Some (ds_recovered_amount event))) (\<lambda>balance.
          Inr (\<lambda>r. common_fields facts None (set_normalized_balance balance
            (r\<lparr>k_sell_amount := Some (show_int (ds_recovered_amount event)),
              k_round_kick_id := round_kick_id_of kicks row auction token
                (rf_block_number facts, rf_transaction_index facts)\<rparr>)))))"

text \<open>One pass of the loop over the rows: the table and the reconciliation error so far.\<close>

definition finalize_row ::
  "(string \<Rightarrow> bool) \<Rightarrow> (address \<times> int) list \<Rightarrow> decoded_receipt \<Rightarrow> receipt_facts \<Rightarrow> kick_tx
     \<Rightarrow> kick_tx list \<times> string option \<Rightarrow> (kick_tx list \<times> string option) result" where
  "finalize_row isaddr tokens decoded facts row = (\<lambda>(kicks, reconciliation_error).
     err_bind (normalize_address isaddr (k_auction_address row)) (\<lambda>auction.
     err_bind (normalize_address isaddr (k_token_address row)) (\<lambda>token.
     err_bind
       (if k_operation_type row = ''kick'' then
          err_bind (kick_values tokens decoded facts auction token) (\<lambda>values. Inr (values, None))
        else if k_operation_type row = ''resolve_auction'' then
          resolve_values tokens decoded facts kicks row auction token
        else if k_operation_type row = ''sweep_auction'' then
          err_bind (sweep_values tokens decoded facts kicks row auction token) (\<lambda>values. Inr (values, None))
        else Inr (common_fields facts None, None))
       (\<lambda>(values, e).
     Inr (kick_update_fields (k_id row) values kicks, if e = None then reconciliation_error else e)))))"

text \<open>The row written for a settlement observed on chain.\<close>

definition settlement_row ::
  "string \<Rightarrow> decoded_settlement \<Rightarrow> kick_tx \<Rightarrow> position \<Rightarrow> string \<Rightarrow> string option \<Rightarrow> kick_tx" where
  "settlement_row tx_hash event round_kick position mined_at balance = set_normalized_balance balance
     (empty_kick_tx
       \<lparr>k_run_id := ''chain-observed:'' @ tx_hash, k_operation_type := ''auction_settled'',
        k_source_type := k_source_type round_kick, k_source_address := k_source_address round_kick,
        k_strategy_address := k_strategy_address round_kick, k_token_address := dt_token_address event,
        k_auction_address := dt_auction_address event, k_sell_amount := Some ''0'', k_status := ''CONFIRMED'',
        k_tx_hash := Some tx_hash, k_block_number := Some (fst position), k_transaction_index := Some (snd position),
        k_mined_at := Some mined_at, k_round_kick_id := Some (k_id round_kick), k_created_at := mined_at\<rparr>)"

definition resolved_pairs :: "decoded_receipt \<Rightarrow> (address \<times> address) list" where
  "resolved_pairs decoded = map (\<lambda>item. (dr_auction_address item, dr_token_address item)) (de_resolves decoded)"

text \<open>
  The kick a settlement event closes: None when the transaction resolved the pair, when the
  settlement is recorded already, or when no open kick lies before it.
\<close>

definition settlement_kick ::
  "decoded_receipt \<Rightarrow> string \<Rightarrow> position \<Rightarrow> decoded_settlement \<Rightarrow> kick_tx list \<Rightarrow> kick_tx option" where
  "settlement_kick decoded tx_hash position event kicks =
     (if (dt_auction_address event, dt_token_address event) \<in> set (resolved_pairs decoded) then None
      else if find_exact_operation kicks ''auction_settled'' tx_hash (dt_auction_address event) (dt_token_address event) \<noteq> None
      then None
      else latest_confirmed_unclosed_kick kicks (dt_auction_address event) (dt_token_address event) (Some position))"

definition finalize_settlement ::
  "(address \<times> int) list \<Rightarrow> decoded_receipt \<Rightarrow> receipt_facts \<Rightarrow> string \<Rightarrow> decoded_settlement \<Rightarrow> kick_tx list
     \<Rightarrow> kick_tx list result" where
  "finalize_settlement tokens decoded facts tx_hash event kicks =
     (let position = (rf_block_number facts, rf_transaction_index facts) in
      case settlement_kick decoded tx_hash position event kicks of
        None \<Rightarrow> Inr kicks
      | Some round_kick \<Rightarrow>
          err_bind (normalized_amount tokens (dt_token_address event) (Some 0)) (\<lambda>balance.
          Inr (fst (kick_insert (settlement_row tx_hash event round_kick position (rf_mined_at facts) balance) kicks))))"

definition receipt_facts_of :: "receipt \<Rightarrow> int \<Rightarrow> receipt_facts result" where
  "receipt_facts_of receipt block_timestamp =
     err_bind (timestamp_text block_timestamp) (\<lambda>mined_at.
     Inr \<lparr>rf_status = (if int_or_zero (rc_status receipt) = 1 then ''CONFIRMED'' else ''REVERTED''),
       rf_block_number = rc_block_number receipt, rf_transaction_index = int_or_zero (rc_transaction_index receipt),
       rf_mined_at = mined_at, rf_gas_used = rc_gas_used receipt, rf_gas_price_gwei = receipt_gas_price receipt\<rparr>)"

type_synonym decode_fn = "receipt \<Rightarrow> string list \<Rightarrow> decoded_receipt result"

definition finalize_operations ::
  "(string \<Rightarrow> bool) \<Rightarrow> decode_fn \<Rightarrow> string \<Rightarrow> receipt \<Rightarrow> kick_tx list \<Rightarrow> int \<Rightarrow> ledger
     \<Rightarrow> (ledger \<times> string option) result" where
  "finalize_operations isaddr decode_receipt_fn tx_hash receipt rows block_timestamp db =
     (if rows = [] then Inr (db, None)
      else err_bind (receipt_facts_of receipt block_timestamp) (\<lambda>facts.
        if int_or_zero (rc_status receipt) \<noteq> 1 then
          Inr (db\<lparr>l_kicks := fold (\<lambda>row. kick_update_fields (k_id row) (common_fields facts None)) rows (l_kicks db)\<rparr>, None)
        else err_bind (traverse_err (\<lambda>row. normalize_address isaddr (k_auction_address row)) rows) (\<lambda>auctions.
          case decode_receipt_fn receipt (sorted_set auctions) of
            Inl e \<Rightarrow>
              Inr (db\<lparr>l_kicks := fold (\<lambda>row. kick_update_fields (k_id row)
                  (common_fields facts (Some ''confirmed receipt event decode failed''))) rows (l_kicks db)\<rparr>,
                Some ''event_decode_failed'')
          | Inr decoded \<Rightarrow>
              err_bind (fold_err (finalize_row isaddr (l_tokens db) decoded facts) rows (l_kicks db, None))
                (\<lambda>(kicks, reconciliation_error).
              err_bind (fold_err (finalize_settlement (l_tokens db) decoded facts tx_hash) (de_settlements decoded) kicks)
                (\<lambda>kicks.
              Inr (db\<lparr>l_kicks := kicks\<rparr>, reconciliation_error))))))"

section \<open>Finalising a receipt\<close>

record chain_node =
  nd_receipt :: "string \<Rightarrow> receipt result"
  nd_transaction :: "string \<Rightarrow> (string \<times> json) list result"
  nd_chain_id :: "int result"
  nd_block_timestamp :: "int \<Rightarrow> int result"
  nd_block_number :: "int result"
  nd_settled_logs :: "address \<Rightarrow> int \<Rightarrow> int \<Rightarrow> (string \<times> int \<times> int) list result"

record reconciler =
  rl_isaddr :: "string \<Rightarrow> bool"
  rl_hexbytes :: "string \<Rightarrow> string result"
  rl_decode :: decode_fn
  rl_node :: chain_node

definition valid_actions ::
  "reconciler \<Rightarrow> string \<Rightarrow> receipt \<Rightarrow> (action_tx \<times> string option) list \<Rightarrow> (action_tx \<times> string option) list result" where
  "valid_actions r tx_hash receipt action_rows =
     (if action_rows = [] then Inr []
      else err_bind (nd_transaction (rl_node r) tx_hash) (\<lambda>transaction.
        err_bind (nd_chain_id (rl_node r)) (\<lambda>chain_id.
        filter_err (\<lambda>(row, sender).
          matches_prepared_transaction (rl_hexbytes r) row sender transaction receipt tx_hash chain_id) action_rows)))"

definition stage_action_operations ::
  "reconciler \<Rightarrow> string \<Rightarrow> action_tx \<times> string option \<Rightarrow> ledger \<times> int set \<Rightarrow> (ledger \<times> int set) result" where
  "stage_action_operations r now = (\<lambda>(row, _) (db, valid_operation_ids).
     case repo_get_action db (x_action_id row) of
       None \<Rightarrow> Inl AssertionError
     | Some action \<Rightarrow> err_bind (ensure_action_operations (rl_isaddr r) now action row db) (\<lambda>(db, ids).
         Inr (db, valid_operation_ids \<union> ids)))"

definition is_api_run :: "kick_tx \<Rightarrow> bool" where
  "is_api_run row \<longleftrightarrow> str_starts ''api-action:'' (k_run_id row)"

text \<open>\<open>Inl\<close> is the exception \<open>finalize_receipt\<close> raises after its rollback.\<close>

definition finalize_receipt ::
  "reconciler \<Rightarrow> string \<Rightarrow> string \<Rightarrow> receipt \<Rightarrow> ledger \<Rightarrow> (ledger \<times> string option) result" where
  "finalize_receipt r now tx_hash receipt db =
     (let action_rows = action_list_by_tx_hash db tx_hash in
      err_bind (valid_actions r tx_hash receipt action_rows) (\<lambda>valid.
      if valid = [] \<and> list_by_tx_hash (l_kicks db) tx_hash = [] then
        Inr (db, if action_rows = [] then None else Some ''transaction_intent_mismatch'')
      else
        err_bind (nd_block_timestamp (rl_node r) (rc_block_number receipt)) (\<lambda>block.
        err_bind (fold_err (stage_action_operations r now) valid (db, {})) (\<lambda>(db, valid_operation_ids).
        let rows = filter (\<lambda>row. \<not> is_api_run row \<or> k_id row \<in> valid_operation_ids)
              (list_by_tx_hash (l_kicks db) tx_hash)
        in err_bind (finalize_operations (rl_isaddr r) (rl_decode r) tx_hash receipt rows block db) (\<lambda>(db, error).
           err_bind (fold_err (\<lambda>(row, _). record_verified_receipt (x_action_id row) (x_tx_index row) receipt now) valid db)
             (\<lambda>db.
           Inr (db, if length valid \<noteq> length action_rows then Some ''transaction_intent_mismatch'' else error)))))))"

section \<open>Batches of receipts\<close>

record reconciliation_error =
  re_tx_hash :: string
  re_error_code :: string
  re_error_message :: string

text \<open>One hash of the loop; a hash no row carries is skipped, one not mined yet is silent.\<close>

definition reconcile_one ::
  "reconciler \<Rightarrow> string \<Rightarrow> string \<Rightarrow> ledger \<times> reconciliation_error list \<Rightarrow> ledger \<times> reconciliation_error list" where
  "reconcile_one r now tx_hash = (\<lambda>(db, errors).
     if list_by_tx_hash (l_kicks db) tx_hash = [] \<and> action_list_by_tx_hash db tx_hash = [] then (db, errors)
     else case err_bind (nd_receipt (rl_node r) tx_hash) (\<lambda>receipt. finalize_receipt r now tx_hash receipt db) of
       Inl e \<Rightarrow>
         if exn_class e \<in> {''TransactionNotFound'', ''TimeExhausted''} then (db, errors)
         else (db, errors @ [\<lparr>re_tx_hash = tx_hash, re_error_code = ''receipt_lookup_failed'',
           re_error_message = ''receipt lookup failed''\<rparr>])
     | Inr (db, None) \<Rightarrow> (db, errors)
     | Inr (db, Some code) \<Rightarrow>
         (db, errors @ [\<lparr>re_tx_hash = tx_hash, re_error_code = code,
           re_error_message = ''receipt reconciliation incomplete''\<rparr>]))"

definition reconcile_receipts ::
  "reconciler \<Rightarrow> string \<Rightarrow> string list \<Rightarrow> ledger \<Rightarrow> ledger \<times> reconciliation_error list" where
  "reconcile_receipts r now tx_hashes db = fold (reconcile_one r now) (sorted_set tx_hashes) (db, [])"

definition reconcile_submitted ::
  "reconciler \<Rightarrow> string \<Rightarrow> string list option \<Rightarrow> ledger \<Rightarrow> ledger \<times> reconciliation_error list" where
  "reconcile_submitted r now tx_hashes db =
     reconcile_receipts r now
       (filter (\<lambda>h. case tx_hashes of None \<Rightarrow> True | Some wanted \<Rightarrow> h \<in> set wanted)
         (List.map_filter k_tx_hash (list_submitted (l_kicks db)))) db"

section \<open>Settlements nobody reported\<close>

definition SETTLEMENT_LOG_BLOCK_SPAN :: int where
  "SETTLEMENT_LOG_BLOCK_SPAN = 50000"

text \<open>The block ranges of the log scan.\<close>

function log_chunks :: "int \<Rightarrow> int \<Rightarrow> (int \<times> int) list" where
  "log_chunks chunk_start latest_block =
     (if chunk_start \<le> latest_block then
        let chunk_end = min (chunk_start + SETTLEMENT_LOG_BLOCK_SPAN - 1) latest_block
        in (chunk_start, chunk_end) # log_chunks (chunk_end + 1) latest_block
      else [])"
  by pat_completeness auto
termination
  by (relation "measure (\<lambda>(start, latest). nat (latest + 1 - start))") (auto simp: SETTLEMENT_LOG_BLOCK_SPAN_def)

declare log_chunks.simps [simp del]

definition settlement_logs :: "chain_node \<Rightarrow> address \<Rightarrow> int \<Rightarrow> int \<Rightarrow> (string \<times> int \<times> int) list result" where
  "settlement_logs node auction earliest latest =
     err_bind (traverse_err (\<lambda>(a, b). nd_settled_logs node auction a b) (log_chunks earliest latest))
       (\<lambda>chunks. Inr (concat chunks))"

text \<open>\<open>settlements_by_tx\<close>: the position of each transaction, the last log's when logs differ.\<close>

definition settlements_by_tx :: "(string \<times> int \<times> int) list \<Rightarrow> (string \<times> position) list" where
  "settlements_by_tx logs = fold (\<lambda>(tx_hash, position) d.
     dict_set (if str_starts ''0x'' tx_hash then tx_hash else ''0x'' @ tx_hash) position d) logs []"

text \<open>
  A loop whose body may raise keeps what the passes before it committed: the state comes back
  with the exception, if any.
\<close>

fun fold_st :: "('a \<Rightarrow> 's \<Rightarrow> 's \<times> exn option) \<Rightarrow> 'a list \<Rightarrow> 's \<Rightarrow> 's \<times> exn option" where
  "fold_st f [] s = (s, None)"
| "fold_st f (x # xs) s = (case f x s of (s, Some e) \<Rightarrow> (s, Some e) | (s, None) \<Rightarrow> fold_st f xs s)"

definition discover_settlement ::
  "reconciler \<Rightarrow> (address \<times> address) set option \<Rightarrow> address \<Rightarrow> decoded_receipt \<Rightarrow> string \<Rightarrow> position \<Rightarrow> decoded_settlement
     \<Rightarrow> ledger \<Rightarrow> ledger \<times> exn option" where
  "discover_settlement r pair_filter auction_address decoded tx_hash position event db =
     (let pair = (dt_auction_address event, dt_token_address event) in
      if fst pair \<noteq> auction_address then (db, None)
      else if (case pair_filter of None \<Rightarrow> False | Some pairs \<Rightarrow> pair \<notin> pairs) then (db, None)
      else case settlement_kick decoded tx_hash position event (l_kicks db) of
        None \<Rightarrow> (db, None)
      | Some kick \<Rightarrow>
          (case err_bind (nd_block_timestamp (rl_node r) (fst position)) (\<lambda>block.
            err_bind (timestamp_text block) (\<lambda>mined_at.
            err_bind (normalized_amount (l_tokens db) (dt_token_address event) (Some 0)) (\<lambda>balance.
            Inr (settlement_row tx_hash event kick position mined_at balance)))) of
            Inl e \<Rightarrow> (db, Some e)
          | Inr row \<Rightarrow> (db\<lparr>l_kicks := fst (kick_insert row (l_kicks db))\<rparr>, None)))"

text \<open>
  One settling transaction of an auction. The receipt and block caches are not modelled: the
  node answers the same for the same hash.
\<close>

definition discover_transaction ::
  "reconciler \<Rightarrow> (address \<times> address) set option \<Rightarrow> address \<Rightarrow> string \<times> position
     \<Rightarrow> ledger \<times> reconciliation_error list \<Rightarrow> (ledger \<times> reconciliation_error list) \<times> exn option" where
  "discover_transaction r pair_filter auction_address = (\<lambda>(tx_hash, position) (db, errors).
     case err_bind (nd_receipt (rl_node r) tx_hash) (\<lambda>receipt. rl_decode r receipt [auction_address]) of
       Inl e \<Rightarrow> ((db, errors @ [\<lparr>re_tx_hash = tx_hash, re_error_code = ''event_decode_failed'',
         re_error_message = ''settlement receipt decode failed''\<rparr>]), None)
     | Inr decoded \<Rightarrow>
         (case fold_st (discover_settlement r pair_filter auction_address decoded tx_hash position)
             (de_settlements decoded) db of (db, e) \<Rightarrow> ((db, errors), e)))"

definition discover_auction ::
  "reconciler \<Rightarrow> (address \<times> address) set option \<Rightarrow> int \<Rightarrow> address \<times> kick_tx list
     \<Rightarrow> ledger \<times> reconciliation_error list \<Rightarrow> (ledger \<times> reconciliation_error list) \<times> exn option" where
  "discover_auction r pair_filter latest_block = (\<lambda>(auction_address, auction_kicks) (db, errors).
     let blocks = map (\<lambda>row. int_or_zero (k_block_number row)) auction_kicks in
     case settlement_logs (rl_node r) auction_address (Min (set blocks)) latest_block of
       Inl e \<Rightarrow>
         (let anchor = hd (sort_key (\<lambda>row. int_or_zero (k_block_number row)) auction_kicks) in
          ((db, errors @ [\<lparr>re_tx_hash = (case k_tx_hash anchor of None \<Rightarrow> [] | Some h \<Rightarrow> h),
            re_error_code = ''event_lookup_failed'', re_error_message = ''settlement event lookup failed''\<rparr>]), None))
     | Inr logs \<Rightarrow>
         fold_st (discover_transaction r pair_filter auction_address) (sort_key snd (settlements_by_tx logs)) (db, errors))"

definition kick_pair :: "(string \<Rightarrow> bool) \<Rightarrow> kick_tx \<Rightarrow> (address \<times> address) result" where
  "kick_pair isaddr row =
     err_bind (normalize_address isaddr (k_auction_address row)) (\<lambda>auction.
     err_bind (normalize_address isaddr (k_token_address row)) (\<lambda>token. Inr (auction, token)))"

definition kicks_by_auction ::
  "(string \<Rightarrow> bool) \<Rightarrow> (address \<times> address) set option \<Rightarrow> kick_tx list \<Rightarrow> (address \<times> kick_tx list) list result" where
  "kicks_by_auction isaddr pair_filter kicks =
     fold_err (\<lambda>kick by_auction. err_bind (kick_pair isaddr kick) (\<lambda>pair.
       if (case pair_filter of None \<Rightarrow> False | Some pairs \<Rightarrow> pair \<notin> pairs) then Inr by_auction
       else if row_position kick = None then Inr by_auction
       else Inr (dict_append (fst pair) kick by_auction))) kicks []"

text \<open>
  \<open>pairs\<close> are normalised already. Each settlement is committed as it is inserted, so an
  exception leaves the ones before it.
\<close>

definition discover_direct_settlements ::
  "reconciler \<Rightarrow> (address \<times> address) set option \<Rightarrow> ledger \<Rightarrow> (ledger \<times> reconciliation_error list) \<times> exn option" where
  "discover_direct_settlements r pair_filter db =
     (case kicks_by_auction (rl_isaddr r) pair_filter (list_confirmed_kicks (l_kicks db)) of
        Inl e \<Rightarrow> ((db, []), Some e)
      | Inr by_auction \<Rightarrow>
          if by_auction = [] then ((db, []), None)
          else (case nd_block_number (rl_node r) of
              Inl e \<Rightarrow> ((db, []), Some e)
            | Inr latest_block \<Rightarrow>
                fold_st (discover_auction r pair_filter latest_block) (sort_key fst by_auction) (db, [])))"

section \<open>Rebuilding the round links\<close>

definition chain_key :: "kick_tx \<Rightarrow> int \<times> int \<times> int" where
  "chain_key row = (int_or_zero (k_block_number row), int_or_zero (k_transaction_index row), k_id row)"

definition link_rows :: "kick_tx list \<Rightarrow> address \<Rightarrow> address \<Rightarrow> kick_tx list" where
  "link_rows kicks auction token = sort_key chain_key
     (filter (\<lambda>row. k_status row = ''CONFIRMED'' \<and> row_position row \<noteq> None) (list_pair_operations kicks auction token))"

definition RECOVERY_TYPES :: "string set" where
  "RECOVERY_TYPES = {''resolve_auction'', ''sweep_auction'', ''auction_settled''}"

definition target_kick_id :: "int option \<Rightarrow> kick_tx \<Rightarrow> int option" where
  "target_kick_id open_kick_id row =
     (if k_operation_type row = ''resolve_auction'' \<and> k_resolution_path row = Some 0 then None else open_kick_id)"

text \<open>The new link of each recovery row, in chain order; \<open>changed\<close> only saves a commit.\<close>

fun link_loop :: "int option \<Rightarrow> kick_tx list \<Rightarrow> (int \<times> int option) list" where
  "link_loop open_kick_id [] = []"
| "link_loop open_kick_id (row # rows) =
     (if k_operation_type row = ''kick'' then link_loop (Some (k_id row)) rows
      else if k_operation_type row \<notin> RECOVERY_TYPES then link_loop open_kick_id rows
      else
        let target = target_kick_id open_kick_id row;
            updates = (if k_round_kick_id row \<noteq> target then [(k_id row, target)] else [])
        in updates @ link_loop (if open_kick_id \<noteq> None \<and> operation_closes_round row then None else open_kick_id) rows)"

definition apply_links :: "(int \<times> int option) list \<Rightarrow> kick_tx list \<Rightarrow> kick_tx list" where
  "apply_links updates kicks =
     fold (\<lambda>(i, target). kick_update_fields i (\<lambda>row. row\<lparr>k_round_kick_id := target\<rparr>)) updates kicks"

definition rebuild_pair_links :: "address \<times> address \<Rightarrow> kick_tx list \<Rightarrow> kick_tx list" where
  "rebuild_pair_links = (\<lambda>(auction, token) kicks. apply_links (link_loop None (link_rows kicks auction token)) kicks)"

definition rebuild_round_links :: "(address \<times> address) list \<Rightarrow> kick_tx list \<Rightarrow> kick_tx list" where
  "rebuild_round_links pairs kicks = fold rebuild_pair_links (sorted_set pairs) kicks"

section \<open>Repairing pairs\<close>

definition normalized_pairs :: "(string \<Rightarrow> bool) \<Rightarrow> (string \<times> string) list \<Rightarrow> (address \<times> address) list result" where
  "normalized_pairs isaddr pairs = traverse_err (\<lambda>(auction, token).
     err_bind (normalize_address isaddr auction) (\<lambda>a. err_bind (normalize_address isaddr token) (\<lambda>t. Inr (a, t)))) pairs"

definition needs_repair :: "(string \<Rightarrow> bool) \<Rightarrow> kick_tx list \<Rightarrow> address \<times> address \<Rightarrow> bool result" where
  "needs_repair isaddr kicks = (\<lambda>(auction, token).
     err_bind (classify_pair_operations isaddr (list_pair_operations kicks auction token)) (\<lambda>sequence.
     Inr (case rs_rounds sequence of [] \<Rightarrow> False | latest # _ \<Rightarrow> ev_outcome latest \<in> {UNKNOWN, INCOMPLETE})))"

definition repair_hashes :: "kick_tx list \<Rightarrow> (address \<times> address) list \<Rightarrow> string list" where
  "repair_hashes kicks pairs = concat (map (\<lambda>(auction, token). List.map_filter k_tx_hash
     (filter (\<lambda>row. text_truth (k_tx_hash row) \<and> k_status row \<in> {''SUBMITTED'', ''CONFIRMED''}
       \<and> k_operation_type row \<in> {''kick'', ''resolve_auction'', ''sweep_auction''})
     (list_pair_operations kicks auction token))) pairs)"

definition repair_pairs ::
  "reconciler \<Rightarrow> string \<Rightarrow> (string \<times> string) list \<Rightarrow> ledger \<Rightarrow> ledger \<times> reconciliation_error list result" where
  "repair_pairs r now pairs db =
     (case err_bind (normalized_pairs (rl_isaddr r) pairs) (filter_err (needs_repair (rl_isaddr r) (l_kicks db))) of
        Inl e \<Rightarrow> (db, Inl e)
      | Inr pending \<Rightarrow>
          if pending = [] then (db, Inr [])
          else case reconcile_receipts r now (repair_hashes (l_kicks db) pending) db of (db, errors) \<Rightarrow>
            let db = db\<lparr>l_kicks := rebuild_round_links pending (l_kicks db)\<rparr>
            in case discover_direct_settlements r (Some (set pending)) db of
                 ((db, _), Some e) \<Rightarrow> (db, Inl e)
               | ((db, more_errors), None) \<Rightarrow>
                   (db\<lparr>l_kicks := rebuild_round_links pending (l_kicks db)\<rparr>, Inr (errors @ more_errors)))"

section \<open>The API's own reconciliation pass\<close>

text \<open>
  \<open>reconcile_pending_actions\<close>: each pending hash once, in order, its rotation committed before
  the receipt is looked up. \<open>threshold\<close> is the text of the oldest age left alone.
\<close>

definition reconcile_pending_one :: "reconciler \<Rightarrow> string \<Rightarrow> string \<Rightarrow> ledger \<Rightarrow> ledger" where
  "reconcile_pending_one r now tx_hash db =
     (let db = mark_receipt_checked tx_hash now db in
      case err_bind (nd_receipt (rl_node r) tx_hash) (\<lambda>receipt. finalize_receipt r now tx_hash receipt db) of
        Inl e \<Rightarrow> db
      | Inr (db, _) \<Rightarrow> db)"

definition reconcile_pending_actions :: "reconciler \<Rightarrow> string \<Rightarrow> string \<Rightarrow> ledger \<Rightarrow> ledger" where
  "reconcile_pending_actions r threshold now db =
     fold (reconcile_pending_one r now)
       (rev (remdups (rev (List.map_filter x_tx_hash (pending_receipt_transactions db threshold 20))))) db"

end
