(* ===== verification/ActionStaging.thy ===== *)
theory ActionStaging
  imports ActionAudit
begin

text \<open>
  Staging the \<open>kick_txs\<close> rows of an action (\<open>ensure_action_operations\<close>): it never takes
  anything back from a row that exists, and staging the same transaction again changes
  nothing and returns the same rows.
\<close>

section \<open>One operation staged\<close>

definition staged_ids :: "string \<Rightarrow> string \<Rightarrow> string \<Rightarrow> kick_tx list \<Rightarrow> prepared_operation \<Rightarrow> int set" where
  "staged_ids run_id operation_type tx_hash kicks operation =
     k_id ` {row \<in> set kicks. k_tx_hash row = Some tx_hash
       \<and> same_operation run_id operation_type (po_auction_address operation) (po_token_address operation) row}"

definition settled_type :: "string \<Rightarrow> string \<Rightarrow> string \<Rightarrow> kick_tx list \<Rightarrow> prepared_operation \<Rightarrow> bool" where
  "settled_type run_id operation_type tx_hash kicks operation \<longleftrightarrow>
     (\<forall>row \<in> set kicks. k_tx_hash row = Some tx_hash
       \<and> same_operation run_id operation_type (po_auction_address operation) (po_token_address operation) row
       \<longrightarrow> k_operation_type row = operation_type)"

text \<open>A row after staging: as before, but for its operation type, which is normalised at most.\<close>

definition retyped :: "string \<Rightarrow> kick_tx \<Rightarrow> kick_tx \<Rightarrow> bool" where
  "retyped operation_type row row' \<longleftrightarrow> row' = row
     \<or> normalize_operation_text (k_operation_type row) = Some operation_type \<and> row' = row\<lparr>k_operation_type := operation_type\<rparr>"

lemma retyped_refl [simp]: "retyped operation_type row row"
  by (simp add: retyped_def)

lemma retyped_trans: "retyped t a b \<Longrightarrow> retyped t b c \<Longrightarrow> retyped t a c"
  by (auto simp: retyped_def)

lemma retyped_fields:
  assumes "retyped t row row'"
  shows "k_id row' = k_id row" "k_tx_hash row' = k_tx_hash row" "k_run_id row' = k_run_id row"
    "k_auction_address row' = k_auction_address row" "k_token_address row' = k_token_address row"
    "k_status row' = k_status row"
  using assms by (auto simp: retyped_def)

lemma api_type_normal:
  assumes "t \<in> API_OPERATION_TYPES"
  shows "normalize_operation_text t = Some t"
proof -
  have "list_all (\<lambda>t. normalize_operation_text t = Some t) [''kick'', ''resolve_auction'', ''sweep_auction'', ''enable_tokens'']"
    by code_simp
  with assms show ?thesis by (auto simp: API_OPERATION_TYPES_def)
qed

lemma retyped_same_operation:
  "t \<in> API_OPERATION_TYPES \<Longrightarrow> retyped t row row' \<Longrightarrow> same_operation run_id t a b row' = same_operation run_id t a b row"
  by (auto simp: retyped_def same_operation_def api_type_normal)

text \<open>
  The loop's list of known rows against the table: the same rows, up to operation types the
  loop has normalised since.
\<close>

definition known :: "string \<Rightarrow> string \<Rightarrow> kick_tx list \<Rightarrow> kick_tx list \<Rightarrow> bool" where
  "known operation_type tx_hash kicks existing \<longleftrightarrow>
     (\<forall>e \<in> set existing. \<exists>row \<in> set kicks. k_tx_hash row = Some tx_hash \<and> retyped operation_type e row)
     \<and> (\<forall>row \<in> set kicks. k_tx_hash row = Some tx_hash \<longrightarrow> (\<exists>e \<in> set existing. retyped operation_type e row))"

lemma known_start: "known operation_type tx_hash kicks (list_by_tx_hash kicks tx_hash)"
  by (auto simp: known_def list_by_tx_hash_def intro: bexI [of _ "_ :: kick_tx"])

lemma known_ids:
  assumes "t \<in> API_OPERATION_TYPES" "known t tx_hash kicks existing"
  shows "k_id ` set (filter (same_operation run_id t (po_auction_address op) (po_token_address op)) existing) =
    staged_ids run_id t tx_hash kicks op"
proof (intro equalityI subsetI)
  fix i assume "i \<in> k_id ` set (filter (same_operation run_id t (po_auction_address op) (po_token_address op)) existing)"
  then obtain e where e: "e \<in> set existing" "same_operation run_id t (po_auction_address op) (po_token_address op) e" "i = k_id e"
    by auto
  then obtain row where "row \<in> set kicks" "k_tx_hash row = Some tx_hash" "retyped t e row"
    using assms(2) by (auto simp: known_def)
  with e show "i \<in> staged_ids run_id t tx_hash kicks op"
    using retyped_same_operation [OF assms(1)] by (auto simp: staged_ids_def retyped_fields intro!: rev_image_eqI)
next
  fix i assume "i \<in> staged_ids run_id t tx_hash kicks op"
  then obtain row where row: "row \<in> set kicks" "k_tx_hash row = Some tx_hash" "i = k_id row"
    "same_operation run_id t (po_auction_address op) (po_token_address op) row"
    by (auto simp: staged_ids_def)
  then obtain e where "e \<in> set existing" "retyped t e row"
    using assms(2) by (auto simp: known_def)
  with row show "i \<in> k_id ` set (filter (same_operation run_id t (po_auction_address op) (po_token_address op)) existing)"
    using retyped_same_operation [OF assms(1)] by (auto simp: retyped_fields intro!: rev_image_eqI)
qed

text \<open>Normalising the operation types of some rows of the table.\<close>

lemma normalize_types_map:
  "normalize_types t es kicks =
    map (\<lambda>row. if k_id row \<in> k_id ` set (filter (\<lambda>e. k_operation_type e \<noteq> t) es)
      then row\<lparr>k_operation_type := t\<rparr> else row) kicks"
  unfolding normalize_types_def by (induction es arbitrary: kicks) (auto simp: kick_update_fields_def)

text \<open>The table moves on: rows are retyped at most, and only those of the run and transaction.\<close>

definition evolves :: "string \<Rightarrow> string \<Rightarrow> string \<Rightarrow> kick_tx list \<Rightarrow> kick_tx list \<Rightarrow> bool" where
  "evolves run_id t tx_hash kicks kicks' \<longleftrightarrow>
     (\<forall>i row. kick_get kicks i = Some row \<longrightarrow> (\<exists>row'. kick_get kicks' i = Some row' \<and> retyped t row row'
       \<and> (k_run_id row \<noteq> run_id \<or> k_tx_hash row \<noteq> Some tx_hash \<longrightarrow> row' = row)))"

lemma evolves_refl [simp]: "evolves run_id t tx_hash kicks kicks"
  by (simp add: evolves_def)

lemma evolves_trans: "evolves run_id t tx_hash a b \<Longrightarrow> evolves run_id t tx_hash b c \<Longrightarrow> evolves run_id t tx_hash a c"
  unfolding evolves_def by (fastforce intro: retyped_trans)

text \<open>What one pass guarantees: the operation has its rows, typed, and rows of others stay.\<close>

definition staging_step :: "string \<Rightarrow> string \<Rightarrow> string \<Rightarrow> kick_tx list \<Rightarrow> kick_tx list \<Rightarrow> int set \<Rightarrow> bool" where
  "staging_step run_id t tx_hash kicks kicks' new \<longleftrightarrow>
     evolves run_id t tx_hash kicks kicks'
     \<and> (\<forall>op. staged_ids run_id t tx_hash kicks op \<noteq> {} \<longrightarrow>
          staged_ids run_id t tx_hash kicks' op = staged_ids run_id t tx_hash kicks op
          \<and> (settled_type run_id t tx_hash kicks op \<longrightarrow> settled_type run_id t tx_hash kicks' op))
     \<and> (\<forall>i row. kick_get kicks i = None \<longrightarrow> kick_get kicks' i = Some row \<longrightarrow>
          i \<in> new \<and> k_status row = ''SUBMITTED'' \<and> k_tx_hash row = Some tx_hash \<and> k_run_id row = run_id
          \<and> k_operation_type row = t)"

lemma staging_step_refl: "staging_step run_id t tx_hash kicks kicks {}"
  by (simp add: staging_step_def)

lemma ensure_existing:
  assumes t: "t \<in> API_OPERATION_TYPES" and wf: "kick_table_wf kicks" and known: "known t tx_hash kicks existing"
    and own: "set es \<subseteq> set existing" "es = filter (same_operation run_id t (po_auction_address op) (po_token_address op)) existing"
    and kicks': "kicks' = map (\<lambda>row. if k_id row \<in> k_id ` set (filter (\<lambda>e. k_operation_type e \<noteq> t) es)
      then row\<lparr>k_operation_type := t\<rparr> else row) kicks"
  shows "kick_table_wf kicks' \<and> known t tx_hash kicks' existing \<and> settled_type run_id t tx_hash kicks' op
    \<and> staged_ids run_id t tx_hash kicks' op = staged_ids run_id t tx_hash kicks op
    \<and> staging_step run_id t tx_hash kicks kicks' (staged_ids run_id t tx_hash kicks' op)"
proof -
  define g :: "kick_tx \<Rightarrow> kick_tx" where "g = (\<lambda>row. if k_id row \<in> k_id ` set (filter (\<lambda>e. k_operation_type e \<noteq> t) es)
      then row\<lparr>k_operation_type := t\<rparr> else row)"
  have kicks'_g: "kicks' = map g kicks" by (simp add: kicks' g_def)
  have same_id: "row = row'" if "row \<in> set kicks" "row' \<in> set kicks" "k_id row = k_id row'" for row row'
    using wf that by (auto simp: kick_table_wf_def dest: distinct_key_eq)
  have gr: "retyped t row (g row) \<and> (k_run_id row \<noteq> run_id \<or> k_tx_hash row \<noteq> Some tx_hash \<longrightarrow> g row = row)"
    if row: "row \<in> set kicks" for row
  proof (cases "k_id row \<in> k_id ` set (filter (\<lambda>e. k_operation_type e \<noteq> t) es)")
    case True
    then obtain e where e: "e \<in> set es" "k_id e = k_id row" by auto
    then obtain row' where "row' \<in> set kicks" "k_tx_hash row' = Some tx_hash" "retyped t e row'"
      using own known by (auto simp: known_def)
    with e same_id row have "retyped t e row" "k_tx_hash row = Some tx_hash" by (metis retyped_fields(1))+
    moreover have "same_operation run_id t (po_auction_address op) (po_token_address op) e" using e own(2) by auto
    ultimately have "same_operation run_id t (po_auction_address op) (po_token_address op) row"
      using retyped_same_operation [OF t] by blast
    then show ?thesis using True \<open>k_tx_hash row = Some tx_hash\<close> by (simp add: g_def retyped_def same_operation_def)
  qed (simp add: g_def)
  then have g: "retyped t row (g row)" if "row \<in> set kicks" for row using that by blast
  have g_id: "k_id (g row) = k_id row" for row by (simp add: g_def)
  have wf': "kick_table_wf kicks'" using wf by (simp add: kick_table_wf_def kicks'_g comp_def g_id)
  have get': "kick_get kicks' i = map_option g (kick_get kicks i)" for i
    unfolding kicks'_g by (induction kicks) (auto simp: kick_get_def g_id)
  have ids: "staged_ids run_id t tx_hash kicks' other = staged_ids run_id t tx_hash kicks other" for other
    using retyped_same_operation [OF t g] retyped_fields(1,2) [OF g]
    by (auto simp: staged_ids_def kicks'_g image_iff Bex_def) metis+
  have typed: "settled_type run_id t tx_hash kicks' other" if "settled_type run_id t tx_hash kicks other" for other
    using that retyped_same_operation [OF t g] retyped_fields(2) [OF g]
    by (auto simp: settled_type_def kicks'_g g_def)
  have "known t tx_hash kicks' existing"
    using known g retyped_fields(2) [OF g] by (auto simp: known_def kicks'_g) (metis retyped_trans)+
  moreover have "settled_type run_id t tx_hash kicks' op"
    unfolding settled_type_def
  proof (intro ballI impI)
    fix row' assume "row' \<in> set kicks'" and row': "k_tx_hash row' = Some tx_hash
      \<and> same_operation run_id t (po_auction_address op) (po_token_address op) row'"
    then obtain row where row: "row \<in> set kicks" "row' = g row" by (auto simp: kicks'_g)
    then have op: "k_tx_hash row = Some tx_hash" "same_operation run_id t (po_auction_address op) (po_token_address op) row"
      using row' retyped_same_operation [OF t g] retyped_fields(2) [OF g] by auto
    then obtain e where e: "e \<in> set existing" "retyped t e row" using known row by (auto simp: known_def)
    then have "e \<in> set es" using op own(2) retyped_same_operation [OF t] by auto
    then show "k_operation_type row' = t"
      using e row(2) retyped_fields(1) [OF e(2)] by (auto simp: g_def retyped_def)
  qed
  ultimately show ?thesis
    using wf' ids typed g gr get' kick_get_key
    unfolding staging_step_def evolves_def by (auto dest: kick_get_key)
qed

lemma kick_get_insert:
  "kick_table_wf kicks \<Longrightarrow> kick_get (fst (kick_insert r kicks)) i =
    (if i = snd (kick_insert r kicks) then Some (r\<lparr>k_id := i\<rparr>) else kick_get kicks i)"
  by (rule kick_store.lookup_ins)

lemma ensure_new:
  assumes t: "t \<in> API_OPERATION_TYPES" and wf: "kick_table_wf kicks" and known: "known t tx_hash kicks existing"
    and none: "filter (same_operation run_id t (po_auction_address op) (po_token_address op)) existing = []"
    and row: "same_operation run_id t (po_auction_address op) (po_token_address op) row" "k_operation_type row = t"
      "k_status row = ''SUBMITTED''" "k_tx_hash row = Some tx_hash"
    and ins: "kick_insert row kicks = (kicks', i)"
  shows "kick_table_wf kicks' \<and> known t tx_hash kicks' (existing @ [row\<lparr>k_id := i\<rparr>]) \<and> settled_type run_id t tx_hash kicks' op
    \<and> staged_ids run_id t tx_hash kicks' op = {i}
    \<and> staging_step run_id t tx_hash kicks kicks' {i}"
proof -
  have kicks': "kicks' = kicks @ [row\<lparr>k_id := i\<rparr>]" using ins by (auto simp: kick_insert_def)
  have empty: "staged_ids run_id t tx_hash kicks op = {}"
    using known_ids [OF t known, of run_id op] none by simp
  have other: "staged_ids run_id t tx_hash kicks other = {}"
    if "same_operation run_id t (po_auction_address other) (po_token_address other) (row\<lparr>k_id := i\<rparr>)" for other
    using empty that row(1) by (auto simp: staged_ids_def same_operation_def)
  have get: "kick_get kicks' j = (if j = i then Some (row\<lparr>k_id := i\<rparr>) else kick_get kicks j)" for j
    using kick_get_insert [OF wf, of row j] ins by simp
  have fresh: "kick_get kicks i = None" using kick_store.ins_fresh [OF wf, of row] ins by simp
  have "kick_table_wf kicks'" using kick_store.wf_ins [OF wf, of row] ins by simp
  moreover have "known t tx_hash kicks' (existing @ [row\<lparr>k_id := i\<rparr>])"
    using known row(4) by (auto simp: known_def kicks')
  moreover have "settled_type run_id t tx_hash kicks' op" "staged_ids run_id t tx_hash kicks' op = {i}"
    using empty row unfolding settled_type_def staged_ids_def kicks'
    by (auto simp: same_operation_def intro: image_eqI [where x = "row\<lparr>k_id := i\<rparr>"])
  moreover have "staged_ids run_id t tx_hash kicks' o2 = staged_ids run_id t tx_hash kicks o2"
    if "staged_ids run_id t tx_hash kicks o2 \<noteq> {}" for o2
    using other [of o2] that unfolding staged_ids_def kicks' by auto
  moreover have "settled_type run_id t tx_hash kicks o2 \<Longrightarrow> settled_type run_id t tx_hash kicks' o2" for o2
    using row(2) by (auto simp: settled_type_def kicks')
  moreover have "evolves run_id t tx_hash kicks kicks'" using fresh by (auto simp: evolves_def get)
  moreover have "\<forall>j r. kick_get kicks j = None \<longrightarrow> kick_get kicks' j = Some r \<longrightarrow> j \<in> {i} \<and> k_status r = ''SUBMITTED''
      \<and> k_tx_hash r = Some tx_hash \<and> k_run_id r = run_id \<and> k_operation_type r = t"
    using row by (auto simp: get same_operation_def split: if_splits)
  ultimately show ?thesis unfolding staging_step_def by blast
qed

lemma ensure_operation_step:
  assumes t: "t \<in> API_OPERATION_TYPES" and wf: "kick_table_wf kicks" and known: "known t tx_hash kicks existing"
    and step: "ensure_operation now run_id t tx tx_hash op (kicks, existing, ids) = (kicks', existing', ids')"
  shows "kick_table_wf kicks' \<and> known t tx_hash kicks' existing' \<and> settled_type run_id t tx_hash kicks' op
    \<and> staged_ids run_id t tx_hash kicks' op \<noteq> {} \<and> ids' = ids \<union> staged_ids run_id t tx_hash kicks' op
    \<and> staging_step run_id t tx_hash kicks kicks' (staged_ids run_id t tx_hash kicks' op)"
proof -
  define es where "es = filter (same_operation run_id t (po_auction_address op) (po_token_address op)) existing"
  show ?thesis
  proof (cases "es = []")
    case True
    define row where "row = staged_row now run_id t tx op kicks tx_hash"
    obtain i where ins: "kick_insert row kicks = (kicks', i)"
      and "existing' = existing @ [row\<lparr>k_id := i\<rparr>]" "ids' = insert i ids"
      using step True by (auto simp: ensure_operation_def row_def es_def Let_def split: prod.splits)
    moreover have "same_operation run_id t (po_auction_address op) (po_token_address op) row" "k_operation_type row = t"
        "k_status row = ''SUBMITTED''" "k_tx_hash row = Some tx_hash"
      by (simp_all add: row_def staged_row_def same_operation_def api_type_normal [OF t])
    ultimately show ?thesis using ensure_new [OF t wf known True [unfolded es_def] _ _ _ _ ins] by auto
  next
    case False
    then have kicks': "kicks' = normalize_types t es kicks"
      and rest: "existing' = existing" "ids' = ids \<union> k_id ` set es"
      using step by (auto simp: ensure_operation_def es_def Let_def)
    have "set es \<subseteq> set existing" by (simp add: es_def)
    note kept = ensure_existing [OF t wf known this es_def kicks' [unfolded normalize_types_map]]
    have ids: "k_id ` set es = staged_ids run_id t tx_hash kicks op"
      using known_ids [OF t known, of run_id op] by (simp add: es_def)
    moreover have "k_id ` set es \<noteq> {}" using False by simp
    moreover have eq: "staged_ids run_id t tx_hash kicks' op = staged_ids run_id t tx_hash kicks op" using kept by blast
    ultimately show ?thesis using kept [unfolded eq] rest by (simp add: eq)
  qed
qed

lemma staging_step_trans:
  assumes "staging_step run_id t tx_hash a b new" "staging_step run_id t tx_hash b c new'"
    and "new \<subseteq> all" "new' \<subseteq> all"
  shows "staging_step run_id t tx_hash a c all"
  unfolding staging_step_def
proof (intro conjI allI impI)
  show "evolves run_id t tx_hash a c" using assms evolves_trans by (auto simp: staging_step_def)
  fix op assume op: "staged_ids run_id t tx_hash a op \<noteq> {}"
  then have b: "staged_ids run_id t tx_hash b op = staged_ids run_id t tx_hash a op"
    "settled_type run_id t tx_hash a op \<longrightarrow> settled_type run_id t tx_hash b op"
    using assms(1) by (auto simp: staging_step_def)
  then show "staged_ids run_id t tx_hash c op = staged_ids run_id t tx_hash a op"
    using assms(2) op by (simp add: staging_step_def)
  show "settled_type run_id t tx_hash c op" if "settled_type run_id t tx_hash a op"
    using assms(2) op b that by (simp add: staging_step_def)
next
  fix i row assume none: "kick_get a i = None" and some: "kick_get c i = Some row"
  have c: "kick_get b i = None \<Longrightarrow> i \<in> new' \<and> k_status row = ''SUBMITTED'' \<and> k_tx_hash row = Some tx_hash
      \<and> k_run_id row = run_id \<and> k_operation_type row = t"
    using assms(2) some by (simp add: staging_step_def)
  have b: "i \<in> new \<and> k_status row = ''SUBMITTED'' \<and> k_tx_hash row = Some tx_hash
      \<and> k_run_id row = run_id \<and> k_operation_type row = t" if "kick_get b i = Some row'" for row'
  proof -
    have "i \<in> new" "k_status row' = ''SUBMITTED''" "k_tx_hash row' = Some tx_hash" "k_run_id row' = run_id"
      "k_operation_type row' = t"
      using assms(1) none that by (simp_all add: staging_step_def)
    moreover have "retyped t row' row"
      using assms(2) that some unfolding staging_step_def evolves_def by fastforce
    ultimately show ?thesis by (auto simp: retyped_def)
  qed
  show "i \<in> all" "k_status row = ''SUBMITTED''" "k_tx_hash row = Some tx_hash" "k_run_id row = run_id"
    "k_operation_type row = t"
    using b c assms(3,4) by (cases "kick_get b i"; auto)+
qed

lemma ensure_operations_loop:
  assumes t: "t \<in> API_OPERATION_TYPES"
  shows "kick_table_wf kicks \<Longrightarrow> known t tx_hash kicks existing \<Longrightarrow>
    fold (ensure_operation now run_id t tx tx_hash) ops (kicks, existing, ids) = (kicks', existing', ids') \<Longrightarrow>
    kick_table_wf kicks' \<and> ids' = ids \<union> (\<Union>op \<in> set ops. staged_ids run_id t tx_hash kicks' op)
    \<and> (\<forall>op \<in> set ops. staged_ids run_id t tx_hash kicks' op \<noteq> {} \<and> settled_type run_id t tx_hash kicks' op)
    \<and> staging_step run_id t tx_hash kicks kicks' (\<Union>op \<in> set ops. staged_ids run_id t tx_hash kicks' op)"
proof (induction ops arbitrary: kicks existing ids)
  case Nil
  then show ?case by (simp add: staging_step_refl)
next
  case (Cons op ops)
  obtain k1 e1 i1 where first: "ensure_operation now run_id t tx tx_hash op (kicks, existing, ids) = (k1, e1, i1)"
    by (metis prod_cases3)
  note one = ensure_operation_step [OF t Cons.prems(1,2) first]
  have rest: "fold (ensure_operation now run_id t tx tx_hash) ops (k1, e1, i1) = (kicks', existing', ids')"
    using Cons.prems(3) first by simp
  note IH = Cons.IH [OF one [THEN conjunct1] one [THEN conjunct2, THEN conjunct1] rest]
  have same: "staged_ids run_id t tx_hash kicks' op = staged_ids run_id t tx_hash k1 op" "settled_type run_id t tx_hash kicks' op"
    using IH one unfolding staging_step_def by blast+
  have "staging_step run_id t tx_hash kicks kicks' (\<Union>op \<in> set (op # ops). staged_ids run_id t tx_hash kicks' op)"
  proof (rule staging_step_trans)
    show "staging_step run_id t tx_hash kicks k1 (staged_ids run_id t tx_hash k1 op)" using one by blast
    show "staging_step run_id t tx_hash k1 kicks' (\<Union>op \<in> set ops. staged_ids run_id t tx_hash kicks' op)"
      using IH by blast
  qed (simp_all add: same(1) [symmetric])
  moreover have "kick_table_wf kicks'" using IH by blast
  moreover have "ids' = ids \<union> (\<Union>op \<in> set (op # ops). staged_ids run_id t tx_hash kicks' op)"
    using one IH same(1) by (simp add: Un_assoc)
  moreover have "staged_ids run_id t tx_hash kicks' op \<noteq> {}" using one same(1) by simp
  ultimately show ?case using IH same(2) by simp
qed

text \<open>Staging again, with every operation already known and typed, changes nothing.\<close>

lemma ensure_operations_known:
  assumes t: "t \<in> API_OPERATION_TYPES"
    and known: "\<forall>op \<in> set ops. staged_ids run_id t tx_hash kicks op \<noteq> {} \<and> settled_type run_id t tx_hash kicks op"
  shows "fold (ensure_operation now run_id t tx tx_hash) ops (kicks, list_by_tx_hash kicks tx_hash, ids) =
    (kicks, list_by_tx_hash kicks tx_hash, ids \<union> (\<Union>op \<in> set ops. staged_ids run_id t tx_hash kicks op))"
  using known
proof (induction ops arbitrary: ids)
  case (Cons op ops)
  define es where "es = filter (same_operation run_id t (po_auction_address op) (po_token_address op)) (list_by_tx_hash kicks tx_hash)"
  have ids: "k_id ` set es = staged_ids run_id t tx_hash kicks op"
    using known_ids [OF t known_start] by (simp add: es_def)
  then have "es \<noteq> []" using Cons.prems by auto
  have "\<forall>row \<in> set es. k_operation_type row = t"
    using Cons.prems by (auto simp: es_def list_by_tx_hash_def settled_type_def)
  then have "filter (\<lambda>e. k_operation_type e \<noteq> t) es = []" by (simp add: filter_empty_conv)
  then have "normalize_types t es kicks = kicks" by (simp add: normalize_types_map)
  then have "ensure_operation now run_id t tx tx_hash op (kicks, list_by_tx_hash kicks tx_hash, ids) =
      (kicks, list_by_tx_hash kicks tx_hash, ids \<union> staged_ids run_id t tx_hash kicks op)"
    using ids \<open>es \<noteq> []\<close> by (simp add: ensure_operation_def flip: es_def)
  then show ?case using Cons by (simp add: Un_assoc)
qed simp

section \<open>Staging an action's transaction\<close>

lemma prepared_log_operations_kicks [simp]:
  "prepared_log_operations isaddr (db\<lparr>l_kicks := kicks\<rparr>) = prepared_log_operations isaddr db"
proof -
  have "resolve_source_context isaddr (db\<lparr>l_kicks := kicks\<rparr>) = resolve_source_context isaddr db"
    by (simp add: fun_eq_iff resolve_source_context_def split: option.split)
  then have "operation_of_item isaddr (db\<lparr>l_kicks := kicks\<rparr>) = operation_of_item isaddr db"
    by (intro ext) (simp only: operation_of_item_def)
  moreover have "get_action_transactions (db\<lparr>l_kicks := kicks\<rparr>) = get_action_transactions db"
    by (rule get_action_transactions_txs) simp
  ultimately show ?thesis
    by (intro ext) (simp only: prepared_log_operations_def prepared_preview_operations_def prepared_items_def)
qed

lemma ensure_action_operations_cases:
  assumes "ensure_action_operations isaddr now action tx db = Inr (db', ids)" "kick_table_wf (l_kicks db)"
  obtains "db' = db" "ids = {}"
      "\<forall>now' kicks. ensure_action_operations isaddr now' action tx (db\<lparr>l_kicks := kicks\<rparr>) = Inr (db\<lparr>l_kicks := kicks\<rparr>, {})"
  | t tx_hash ops where "t \<in> API_OPERATION_TYPES" "normalize_operation_text (x_operation tx) = Some t"
      "x_tx_hash tx = Some tx_hash"
      "prepared_log_operations isaddr db action t (x_tx_index tx) = Inr ops"
      "ids = (\<Union>op \<in> set ops. staged_ids (api_run_id action) t tx_hash (l_kicks db') op)"
      "\<forall>op \<in> set ops. staged_ids (api_run_id action) t tx_hash (l_kicks db') op \<noteq> {}
        \<and> settled_type (api_run_id action) t tx_hash (l_kicks db') op"
      "staging_step (api_run_id action) t tx_hash (l_kicks db) (l_kicks db') ids"
      "db' = db\<lparr>l_kicks := l_kicks db'\<rparr>" "kick_table_wf (l_kicks db')"
proof (cases "\<exists>t tx_hash. normalize_operation_text (x_operation tx) = Some t \<and> x_tx_hash tx = Some tx_hash
    \<and> t \<in> API_OPERATION_TYPES")
  case False
  then have "\<forall>now' db. ensure_action_operations isaddr now' action tx db = Inr (db, {})"
    by (auto simp: ensure_action_operations_def split: option.splits)
  with assms(1) that(1) show thesis by auto
next
  case True
  then obtain t tx_hash where t: "normalize_operation_text (x_operation tx) = Some t" "x_tx_hash tx = Some tx_hash"
    "t \<in> API_OPERATION_TYPES" by blast
  then obtain ops where ops: "prepared_log_operations isaddr db action t (x_tx_index tx) = Inr ops"
    using assms(1) by (auto simp: ensure_action_operations_def Let_def err_simps)
  obtain kicks existing new where loop: "fold (ensure_operation now (api_run_id action) t tx tx_hash) ops
      (l_kicks db, list_by_tx_hash (l_kicks db) tx_hash, {}) = (kicks, existing, new)"
    by (metis prod_cases3)
  have "db' = db\<lparr>l_kicks := kicks\<rparr>" "ids = new"
    using assms(1) t ops loop by (auto simp: ensure_action_operations_def Let_def)
  then show thesis
    using ensure_operations_loop [OF t(3) assms(2) known_start loop] t ops by (intro that(2)) auto
qed

lemma ensure_action_operations_again:
  assumes "ensure_action_operations isaddr now action tx db = Inr (db', ids)" "kick_table_wf (l_kicks db)"
  shows "ensure_action_operations isaddr later action tx db' = Inr (db', ids)"
  using assms
proof (cases rule: ensure_action_operations_cases)
  case 1
  from 1(3) [rule_format, of later "l_kicks db"] show ?thesis by (simp add: 1)
next
  case (2 t tx_hash ops)
  have "prepared_log_operations isaddr db' = prepared_log_operations isaddr db"
    using prepared_log_operations_kicks [of isaddr "l_kicks db'" db] 2(8) by simp
  then show ?thesis
    using 2 ensure_operations_known [OF 2(1) 2(6), of later tx "{}"]
    by (simp add: ensure_action_operations_def)
qed

text \<open>
  Staging the operations of a reported transaction a second time, at any later time,
  changes nothing and returns the same operation ids.
\<close>

theorem ensure_action_operations_idempotent:
  assumes "ensure_action_operations isaddr now action tx db = Inr (db', ids)" "kick_table_wf (l_kicks db)"
  shows "ensure_action_operations isaddr later action tx db' = Inr (db', ids)"
  using assms by (rule ensure_action_operations_again)

text \<open>
  C25. Staging the operations of a reported transaction keeps every existing operation row,
  apart from rewriting its type to the same normalised type, and adds only submitted rows
  that carry the transaction's hash, run and type.
\<close>

theorem ensure_action_operations_never_downgrades:
  assumes "ensure_action_operations isaddr now action tx db = Inr (db', ids)" "kick_table_wf (l_kicks db)"
  shows "kick_table_wf (l_kicks db')
    \<and> (\<forall>i row. kick_get (l_kicks db) i = Some row \<longrightarrow>
        (\<exists>operation_type. kick_get (l_kicks db') i = Some (row\<lparr>k_operation_type := operation_type\<rparr>)
          \<and> normalize_operation_text operation_type = normalize_operation_text (k_operation_type row)))
    \<and> (\<forall>i row. kick_get (l_kicks db) i = None \<longrightarrow> kick_get (l_kicks db') i = Some row \<longrightarrow>
        i \<in> ids \<and> k_status row = ''SUBMITTED'' \<and> k_tx_hash row = x_tx_hash tx \<and> k_run_id row = api_run_id action
        \<and> Some (k_operation_type row) = normalize_operation_text (x_operation tx))"
  using assms
proof (cases rule: ensure_action_operations_cases)
  case 1
  have "\<exists>operation_type. row = row\<lparr>k_operation_type := operation_type\<rparr>
      \<and> normalize_operation_text operation_type = normalize_operation_text (k_operation_type row)" for row :: kick_tx
    by (rule exI [of _ "k_operation_type row"]) simp
  then show ?thesis using 1(1,2) assms(2) by auto
next
  case (2 t tx_hash ops)
  have "\<exists>operation_type. row' = row\<lparr>k_operation_type := operation_type\<rparr>
      \<and> normalize_operation_text operation_type = normalize_operation_text (k_operation_type row)"
    if "retyped t row row'" for row row'
    using that api_type_normal [OF 2(1)]
    by (auto simp: retyped_def intro: exI [of _ t] exI [of _ "k_operation_type row"])
  then have "\<forall>i row. kick_get (l_kicks db) i = Some row \<longrightarrow>
        (\<exists>operation_type. kick_get (l_kicks db') i = Some (row\<lparr>k_operation_type := operation_type\<rparr>)
          \<and> normalize_operation_text operation_type = normalize_operation_text (k_operation_type row))"
    using 2(7) unfolding staging_step_def evolves_def by metis
  then show ?thesis using 2(2,3,7,9) unfolding staging_step_def by simp
qed

text \<open>Staging leaves alone what belongs to another run or another transaction.\<close>

lemma ensure_action_operations_others:
  assumes "ensure_action_operations isaddr now action tx db = Inr (db', ids)" "kick_table_wf (l_kicks db)"
    and "kick_get (l_kicks db) i = Some row" "k_run_id row \<noteq> api_run_id action \<or> k_tx_hash row \<noteq> x_tx_hash tx"
  shows "kick_get (l_kicks db') i = Some row \<and> i \<notin> ids"
  using assms(1,2)
proof (cases rule: ensure_action_operations_cases)
  case 1
  then show ?thesis using assms(3) by simp
next
  case (2 t tx_hash ops)
  have same: "kick_get (l_kicks db') i = Some row"
    using 2(3,7) assms(3,4) unfolding staging_step_def evolves_def by fastforce
  have "i \<notin> staged_ids (api_run_id action) t tx_hash (l_kicks db') op" for op
  proof
    assume "i \<in> staged_ids (api_run_id action) t tx_hash (l_kicks db') op"
    then obtain row' where "row' \<in> set (l_kicks db')" "k_id row' = i" "k_run_id row' = api_run_id action" "k_tx_hash row' = Some tx_hash"
      by (auto simp: staged_ids_def same_operation_def)
    then have "row' = row"
      using same find_Some_iff_unique 2(9) by (metis kick_table_wf_def option.inject)
    with \<open>k_run_id row' = _\<close> \<open>k_tx_hash row' = _\<close> assms(4) 2(3) show False by simp
  qed
  with same 2(5) show ?thesis by simp
qed

section \<open>A concrete action\<close>

definition sample_tx :: action_tx where
  "sample_tx = (new_tx_row ''n'' ''id'' (0, sample_prepared))\<lparr>x_tx_hash := Some ''h'', x_broadcast_at := Some ''b''\<rparr>"

definition sample_action :: api_action where
  "sample_action = \<lparr>a_action_id = ''id'', a_action_type = ''settle'', a_status = ''PREPARED'', a_operator_id = ''op'',
     a_sender = None, a_resource_address = None, a_auction_address = None, a_source_address = None,
     a_token_address = None, a_request = JNull, a_preview = sample_preview, a_error_message = None,
     a_created_at = ''n'', a_updated_at = ''n''\<rparr>"

definition sample_staged :: "(ledger \<times> int set) result" where
  "sample_staged = ensure_action_operations (\<lambda>_. True) ''n'' sample_action sample_tx
     (empty_ledger\<lparr>l_kicks := [empty_kick_tx\<lparr>k_id := 1, k_run_id := ''api-action:id'', k_operation_type := ''settle'',
        k_auction_address := ''a'', k_token_address := ''t'', k_status := ''CONFIRMED'', k_tx_hash := Some ''h''\<rparr>]\<rparr>)"

lemma sample_staged_value:
  obtains db' where "sample_staged = Inr (db', {1})"
    "map (\<lambda>row. (k_id row, k_operation_type row, k_status row)) (l_kicks db') = [(1, ''resolve_auction'', ''CONFIRMED'')]"
proof -
  have "case sample_staged of Inl _ \<Rightarrow> False | Inr (db', ids) \<Rightarrow> ids = {1}
      \<and> map (\<lambda>row. (k_id row, k_operation_type row, k_status row)) (l_kicks db') = [(1, ''resolve_auction'', ''CONFIRMED'')]"
    by code_simp
  then show thesis using that by (auto split: sum.splits)
qed

theorem ensure_action_operations_idempotent_witness:
  "\<exists>db'. sample_staged = Inr (db', {1})
    \<and> ensure_action_operations (\<lambda>_. True) ''later'' sample_action sample_tx db' = Inr (db', {1})"
proof -
  obtain db' where staged: "sample_staged = Inr (db', {1})" by (rule sample_staged_value)
  from ensure_action_operations_idempotent [OF staged [unfolded sample_staged_def], of "''later''"] staged
  show ?thesis by (auto simp: kick_table_wf_def)
qed

theorem ensure_action_operations_never_downgrades_witness:
  "\<exists>db'. sample_staged = Inr (db', {1}) \<and> kick_table_wf (l_kicks db')
    \<and> map k_status (l_kicks db') = [''CONFIRMED'']"
proof -
  obtain db' where staged: "sample_staged = Inr (db', {1})"
    and rows: "map (\<lambda>row. (k_id row, k_operation_type row, k_status row)) (l_kicks db') = [(1, ''resolve_auction'', ''CONFIRMED'')]"
    by (rule sample_staged_value)
  from ensure_action_operations_never_downgrades [OF staged [unfolded sample_staged_def]] staged rows
  show ?thesis by (auto simp: kick_table_wf_def)
qed

end
