(* ===== verification/RoundLinks.thy ===== *)
theory RoundLinks
  imports Reconciler
begin

text \<open>
  Rebuilding the round links (\<open>rebuild_round_links\<close>): the links of a pair are a function of
  the chain order of its confirmed rows, so rebuilding twice changes nothing; every link names
  the last kick before the row that no closing row separates from it. Also the block ranges
  of the settlement scan.
\<close>

section \<open>The scan of the settlement logs covers every block once\<close>

lemma upto_split: "a \<le> b \<Longrightarrow> b \<le> c \<Longrightarrow> [a..b] @ [b + 1..c] = [a..c]"
  by (metis add.commute diff_add_cancel order_trans upto_split1 upto_split2 zle_add1_eq_le upto_empty append_Nil2
      not_less order.order_iff_strict)

text \<open>
  C26. The log scan terminates, and its block ranges cover every block from the start to the
  latest exactly once, in order, each of at most 50,000 blocks.
\<close>

theorem log_chunks_cover:
  "concat (map (\<lambda>(a, b). [a..b]) (log_chunks start latest)) = [start..latest]
   \<and> (\<forall>(a, b) \<in> set (log_chunks start latest). start \<le> a \<and> a \<le> b \<and> b \<le> latest \<and> b - a < SETTLEMENT_LOG_BLOCK_SPAN)"
proof (induction start latest rule: log_chunks.induct)
  case (1 start latest)
  show ?case
  proof (cases "start \<le> latest")
    case False
    then show ?thesis by (simp add: log_chunks.simps [of start latest])
  next
    case True
    define e where "e = min (start + SETTLEMENT_LOG_BLOCK_SPAN - 1) latest"
    have e: "start \<le> e" "e \<le> latest" "e - start < SETTLEMENT_LOG_BLOCK_SPAN"
      using True by (auto simp: e_def SETTLEMENT_LOG_BLOCK_SPAN_def)
    have step: "log_chunks start latest = (start, e) # log_chunks (e + 1) latest"
      using True by (subst log_chunks.simps) (simp add: e_def Let_def)
    note IH = "1.IH" [OF True e_def]
    have "[start..e] @ [e + 1..latest] = [start..latest]" using e by (intro upto_split)
    moreover have "\<forall>(a, b) \<in> set (log_chunks (e + 1) latest). start \<le> a \<and> a \<le> b \<and> b \<le> latest \<and> b - a < SETTLEMENT_LOG_BLOCK_SPAN"
      using IH e by fastforce
    ultimately show ?thesis using IH e by (simp add: step)
  qed
qed

theorem log_chunks_cover_witness:
  "log_chunks 5 60005 = [(5, 50004), (50005, 60005)]
   \<and> concat (map (\<lambda>(a, b). [a..b]) [(5, 50004), (50005, 60005)]) = [5..60005]
   \<and> 50004 - 5 < SETTLEMENT_LOG_BLOCK_SPAN \<and> 60005 - 50005 < SETTLEMENT_LOG_BLOCK_SPAN"
proof -
  have chunks: "log_chunks 5 60005 = [(5, 50004), (50005, 60005)]"
    by (simp add: log_chunks.simps SETTLEMENT_LOG_BLOCK_SPAN_def)
  note cover = log_chunks_cover [of 5 60005, unfolded chunks]
  show ?thesis
    using chunks conjunct1 [OF cover] conjunct2 [OF cover] by (simp del: upto_rec_numeral)
qed

section \<open>Links as a function of the chain order\<close>

text \<open>Every recovery row with the link it must have.\<close>

fun required_links :: "int option \<Rightarrow> kick_tx list \<Rightarrow> (kick_tx \<times> int option) list" where
  "required_links open_kick_id [] = []"
| "required_links open_kick_id (row # rows) =
     (if k_operation_type row = ''kick'' then required_links (Some (k_id row)) rows
      else if k_operation_type row \<notin> RECOVERY_TYPES then required_links open_kick_id rows
      else (row, target_kick_id open_kick_id row) #
        required_links (if open_kick_id \<noteq> None \<and> operation_closes_round row then None else open_kick_id) rows)"

lemma link_loop_required:
  "link_loop k0 rows = map (\<lambda>(row, target). (k_id row, target))
     (filter (\<lambda>(row, target). k_round_kick_id row \<noteq> target) (required_links k0 rows))"
  by (induction k0 rows rule: link_loop.induct) (auto simp: Let_def)

lemma required_links_rows: "(row, target) \<in> set (required_links k0 rows) \<Longrightarrow> row \<in> set rows"
  by (induction k0 rows rule: required_links.induct) (auto split: if_splits)

lemma distinct_required_links:
  "distinct (map k_id rows) \<Longrightarrow> distinct (map (\<lambda>x. k_id (fst x)) (required_links k0 rows))"
  by (induction k0 rows rule: required_links.induct) (auto dest!: required_links_rows)

text \<open>Rows that differ in their links only.\<close>

definition relink :: "(int \<Rightarrow> int option option) \<Rightarrow> kick_tx \<Rightarrow> kick_tx" where
  "relink links row = (case links (k_id row) of None \<Rightarrow> row | Some target \<Rightarrow> row\<lparr>k_round_kick_id := target\<rparr>)"

lemma relink_simps [simp]:
  "k_id (relink links row) = k_id row" "k_operation_type (relink links row) = k_operation_type row"
  "k_status (relink links row) = k_status row" "k_auction_address (relink links row) = k_auction_address row"
  "k_token_address (relink links row) = k_token_address row" "row_position (relink links row) = row_position row"
  "operation_closes_round (relink links row) = operation_closes_round row" "chain_key (relink links row) = chain_key row"
  "created_key (relink links row) = created_key row" "target_kick_id k0 (relink links row) = target_kick_id k0 row"
  by (auto simp: relink_def row_position_def operation_closes_round_def chain_key_def created_key_def target_kick_id_def
      split: option.split)

lemma required_links_relink:
  "required_links k0 (map (relink links) rows) = map (\<lambda>(row, target). (relink links row, target)) (required_links k0 rows)"
  by (induction k0 rows rule: required_links.induct) auto

lemma relink_none [simp]: "relink (\<lambda>i. None) = (\<lambda>row. row)"
  by (simp add: fun_eq_iff relink_def)

lemma apply_links_relink:
  "distinct (map fst updates) \<Longrightarrow> apply_links updates kicks = map (relink (map_of updates)) kicks"
proof (induction updates arbitrary: kicks)
  case (Cons u updates)
  obtain i target where u: "u = (i, target)" by fastforce
  have "map_of updates i = None" using Cons.prems u by (simp add: map_of_eq_None_iff)
  then have "relink (map_of updates) (if k_id row = i then row\<lparr>k_round_kick_id := target\<rparr> else row) =
      relink (map_of (u # updates)) row" for row
    by (simp add: relink_def u)
  moreover have "map_of (u # updates) = (map_of updates)(i \<mapsto> target)" by (simp add: u)
  ultimately show ?case
    using Cons by (simp add: apply_links_def u kick_update_fields_def comp_def fun_upd_def)
qed (simp add: apply_links_def)

lemma link_rows_relink:
  "link_rows (map (relink links) kicks) auction token = map (relink links) (link_rows kicks auction token)"
proof -
  have pair: "list_pair_operations (map (relink links) kicks) auction token =
      map (relink links) (list_pair_operations kicks auction token)"
    by (simp add: list_pair_operations_def filter_map comp_def sort_key_map)
  show ?thesis by (simp add: link_rows_def pair filter_map comp_def sort_key_map)
qed

lemma link_rows_props:
  "row \<in> set (link_rows kicks auction token) \<Longrightarrow> row \<in> set kicks \<and> k_auction_address row = auction \<and> k_token_address row = token"
  by (auto simp: link_rows_def list_pair_operations_def)

lemma distinct_link_rows: "kick_table_wf kicks \<Longrightarrow> distinct (map k_id (link_rows kicks auction token))"
  by (simp add: link_rows_def list_pair_operations_def kick_table_wf_def distinct_map_filter)

definition pair_links :: "kick_tx list \<Rightarrow> address \<times> address \<Rightarrow> (int \<times> int option) list" where
  "pair_links kicks pair = link_loop None (link_rows kicks (fst pair) (snd pair))"

lemma distinct_pair_links:
  assumes "kick_table_wf kicks"
  shows "distinct (map fst (pair_links kicks pair))"
proof -
  have "distinct (map (\<lambda>x. k_id (fst x)) (required_links None (link_rows kicks (fst pair) (snd pair))))"
    using assms by (intro distinct_required_links distinct_link_rows)
  then show ?thesis
    by (simp add: pair_links_def link_loop_required case_prod_beta comp_def distinct_map_filter)
qed

lemma rebuild_pair_links_relink:
  "kick_table_wf kicks \<Longrightarrow> rebuild_pair_links pair kicks = map (relink (map_of (pair_links kicks pair))) kicks"
  by (simp add: rebuild_pair_links_def case_prod_beta apply_links_relink distinct_pair_links pair_links_def [symmetric])

section \<open>Rebuilding twice is rebuilding once\<close>

lemma pair_links_rows:
  assumes "i \<in> fst ` set (pair_links kicks pair)"
  obtains row where "row \<in> set kicks" "k_id row = i" "k_auction_address row = fst pair" "k_token_address row = snd pair"
  using assms by (fastforce simp: pair_links_def link_loop_required dest!: required_links_rows link_rows_props)

lemma same_row: "kick_table_wf kicks \<Longrightarrow> row \<in> set kicks \<Longrightarrow> row' \<in> set kicks \<Longrightarrow> k_id row = k_id row' \<Longrightarrow> row = row'"
  by (auto simp: kick_table_wf_def dest: distinct_key_eq)

lemma wf_rebuild_pair: "kick_table_wf kicks \<Longrightarrow> kick_table_wf (rebuild_pair_links pair kicks)"
  by (simp add: rebuild_pair_links_relink) (simp add: kick_table_wf_def comp_def)

lemma pair_links_empty:
  "pair_links kicks pair = [] \<longleftrightarrow>
     (\<forall>(row, target) \<in> set (required_links None (link_rows kicks (fst pair) (snd pair))). k_round_kick_id row = target)"
  by (auto simp: pair_links_def link_loop_required filter_empty_conv)

lemma pair_links_rebuilt:
  assumes wf: "kick_table_wf kicks"
  shows "pair_links (rebuild_pair_links pair kicks) pair = []"
proof -
  define rows where "rows = link_rows kicks (fst pair) (snd pair)"
  define L where "L = pair_links kicks pair"
  have "k_round_kick_id (relink (map_of L) row) = target" if req: "(row, target) \<in> set (required_links None rows)" for row target
  proof (cases "k_round_kick_id row = target")
    case False
    then have "(k_id row, target) \<in> set L"
      using req by (force simp: L_def pair_links_def link_loop_required rows_def)
    then have "map_of L (k_id row) = Some target"
      using distinct_pair_links [OF wf, of pair] by (simp add: L_def)
    then show ?thesis by (simp add: relink_def)
  next
    case True
    have "map_of L (k_id row) = None"
    proof (rule ccontr)
      assume "map_of L (k_id row) \<noteq> None"
      then obtain t2 row2 where "(row2, t2) \<in> set (required_links None rows)" "k_id row2 = k_id row" "k_round_kick_id row2 \<noteq> t2"
        by (auto simp: L_def pair_links_def link_loop_required rows_def dest!: map_of_SomeD)
      moreover from this req have "(row2, t2) = (row, target)"
        using distinct_required_links [OF distinct_link_rows [OF wf], of None "fst pair" "snd pair"]
        by (auto simp: rows_def dest: distinct_key_eq)
      ultimately show False using True by simp
    qed
    then show ?thesis by (simp add: relink_def True)
  qed
  then show ?thesis
    unfolding pair_links_empty rebuild_pair_links_relink [OF wf] link_rows_relink required_links_relink
    by (auto simp: rows_def L_def)
qed

lemma link_rows_other:
  assumes wf: "kick_table_wf kicks" and "p \<noteq> q"
  shows "link_rows (rebuild_pair_links q kicks) (fst p) (snd p) = link_rows kicks (fst p) (snd p)"
proof -
  have "relink (map_of (pair_links kicks q)) row = row" if row: "row \<in> set (link_rows kicks (fst p) (snd p))" for row
  proof -
    have "k_id row \<notin> fst ` set (pair_links kicks q)"
    proof
      assume "k_id row \<in> fst ` set (pair_links kicks q)"
      then obtain row' where "row' \<in> set kicks" "k_id row' = k_id row" "k_auction_address row' = fst q" "k_token_address row' = snd q"
        by (rule pair_links_rows)
      with link_rows_props [OF row] same_row [OF wf] assms(2) show False by (metis prod_eqI)
    qed
    then have "map_of (pair_links kicks q) (k_id row) = None" by (simp add: map_of_eq_None_iff)
    then show ?thesis by (simp add: relink_def)
  qed
  then show ?thesis by (simp add: rebuild_pair_links_relink [OF wf] link_rows_relink map_idI)
qed

lemma pair_links_other:
  "kick_table_wf kicks \<Longrightarrow> p \<noteq> q \<Longrightarrow> pair_links (rebuild_pair_links q kicks) p = pair_links kicks p"
  by (simp add: pair_links_def link_rows_other)

lemma rebuild_fold:
  assumes "kick_table_wf kicks" "distinct ps" "\<forall>p \<in> D. pair_links kicks p = []" "D \<inter> set ps = {}"
  shows "kick_table_wf (fold rebuild_pair_links ps kicks)
    \<and> (\<forall>p \<in> D \<union> set ps. pair_links (fold rebuild_pair_links ps kicks) p = [])"
  using assms
proof (induction ps arbitrary: kicks D)
  case (Cons q ps)
  have "pair_links (rebuild_pair_links q kicks) p = []" if "p \<in> insert q D" for p
    using that Cons.prems(3) pair_links_rebuilt [OF Cons.prems(1)] pair_links_other [OF Cons.prems(1)]
    by (cases "p = q") simp_all
  with Cons.IH [OF wf_rebuild_pair [OF Cons.prems(1)], of "insert q D"] Cons.prems(2,4) show ?case by simp
qed simp

lemma rebuild_round_links_links:
  assumes "kick_table_wf kicks"
  shows "kick_table_wf (rebuild_round_links pairs kicks)"
    and "p \<in> set pairs \<Longrightarrow> pair_links (rebuild_round_links pairs kicks) p = []"
  using rebuild_fold [of kicks "sorted_set pairs" "{}"] assms by (simp_all add: rebuild_round_links_def)

text \<open>
  Rebuilding the round links of a set of pairs twice is the same as rebuilding them
  once.
\<close>

theorem rebuild_round_links_idempotent:
  assumes "kick_table_wf kicks"
  shows "rebuild_round_links pairs (rebuild_round_links pairs kicks) = rebuild_round_links pairs kicks"
proof -
  define kicks' where "kicks' = rebuild_round_links pairs kicks"
  have "rebuild_pair_links p kicks' = kicks'" if "p \<in> set pairs" for p
    using rebuild_round_links_links [OF assms] that
    by (simp add: kicks'_def rebuild_pair_links_relink map_idI relink_def)
  then have "fold rebuild_pair_links ps kicks' = kicks'" if "set ps \<subseteq> set pairs" for ps
    using that by (induction ps) auto
  then have "rebuild_round_links pairs kicks' = kicks'" by (simp add: rebuild_round_links_def)
  then show ?thesis by (simp add: kicks'_def)
qed

section \<open>What a link means\<close>

text \<open>The kick still open after some rows.\<close>

definition open_after :: "int option \<Rightarrow> kick_tx list \<Rightarrow> int option" where
  "open_after = foldl (\<lambda>o_kick row. if k_operation_type row = ''kick'' then Some (k_id row)
     else if operation_closes_round row then None else o_kick)"

lemma closes_types: "operation_closes_round row \<Longrightarrow> k_operation_type row \<in> RECOVERY_TYPES \<and> k_operation_type row \<noteq> ''kick''"
  by (auto simp: operation_closes_round_def RECOVERY_TYPES_def split: if_splits)

lemma required_links_at:
  assumes "k_operation_type row \<in> RECOVERY_TYPES"
  shows "(row, target_kick_id (open_after open_id pre) row) \<in> set (required_links open_id (pre @ row # post))"
proof (induction pre arbitrary: open_id)
  case Nil
  have "k_operation_type row \<noteq> ''kick''" using assms by (auto simp: RECOVERY_TYPES_def)
  then show ?case using assms by (simp add: open_after_def)
next
  case (Cons x pre)
  have "open_after open_id (x # pre) = open_after (if k_operation_type x = ''kick'' then Some (k_id x)
      else if operation_closes_round x then None else open_id) pre"
    by (simp add: open_after_def)
  with Cons [of "if k_operation_type x = ''kick'' then Some (k_id x) else if operation_closes_round x then None else open_id"]
  show ?case using closes_types [of x] by (cases "operation_closes_round x"; cases open_id) auto
qed

lemma open_after_iff:
  "open_after None pre = Some k \<longleftrightarrow> (\<exists>pre1 kick mid. pre = pre1 @ kick # mid \<and> k_operation_type kick = ''kick'' \<and> k_id kick = k
     \<and> (\<forall>m \<in> set mid. k_operation_type m \<noteq> ''kick'' \<and> \<not> operation_closes_round m))"
proof (induction pre rule: rev_induct)
  case Nil
  then show ?case by (simp add: open_after_def)
next
  case (snoc x xs)
  have step: "open_after None (xs @ [x]) = (if k_operation_type x = ''kick'' then Some (k_id x)
      else if operation_closes_round x then None else open_after None xs)"
    by (simp add: open_after_def)
  show ?case
  proof (cases "k_operation_type x = ''kick'' \<or> operation_closes_round x")
    case True
    have "xs @ [x] = pre1 @ kick # mid \<and> (\<forall>m \<in> set mid. k_operation_type m \<noteq> ''kick'' \<and> \<not> operation_closes_round m)
        \<longleftrightarrow> pre1 = xs \<and> kick = x \<and> mid = []" for pre1 kick mid
      using True by (cases mid rule: rev_cases) auto
    then show ?thesis using True closes_types [of x] by (auto simp: step conj_ac) metis+
  next
    case False
    have "(\<exists>pre1 kick mid. xs @ [x] = pre1 @ kick # mid \<and> k_operation_type kick = ''kick'' \<and> k_id kick = k
        \<and> (\<forall>m \<in> set mid. k_operation_type m \<noteq> ''kick'' \<and> \<not> operation_closes_round m))
      \<longleftrightarrow> (\<exists>pre1 kick mid. xs = pre1 @ kick # mid \<and> k_operation_type kick = ''kick'' \<and> k_id kick = k
        \<and> (\<forall>m \<in> set mid. k_operation_type m \<noteq> ''kick'' \<and> \<not> operation_closes_round m))" (is "?L \<longleftrightarrow> ?R")
    proof
      assume ?L
      then obtain pre1 kick mid where L: "xs @ [x] = pre1 @ kick # mid" "k_operation_type kick = ''kick''" "k_id kick = k"
        "\<forall>m \<in> set mid. k_operation_type m \<noteq> ''kick'' \<and> \<not> operation_closes_round m" by blast
      from L(1,2) False have "mid \<noteq> []" by auto
      then obtain mid' where "mid = mid' @ [x]" "xs = pre1 @ kick # mid'" using L(1) by (cases mid rule: rev_cases) auto
      with L show ?R by auto
    next
      assume ?R
      then obtain pre1 kick mid where "xs = pre1 @ kick # mid" "k_operation_type kick = ''kick''" "k_id kick = k"
        "\<forall>m \<in> set mid. k_operation_type m \<noteq> ''kick'' \<and> \<not> operation_closes_round m" by blast
      with False show ?L by (intro exI [of _ pre1] exI [of _ kick] exI [of _ "mid @ [x]"]) auto
    qed
    then show ?thesis using False snoc by (simp add: step)
  qed
qed

text \<open>
  C22. After the rebuild, a recovery row of a rebuilt pair is linked to a kick exactly when
  that kick is the latest one before it in chain order, no kick or closing operation lies
  between them, and the row is not a no-op resolution.
\<close>

theorem rebuild_round_links_sound:
  assumes "kick_table_wf kicks" "(auction, token) \<in> set pairs"
    and "link_rows (rebuild_round_links pairs kicks) auction token = pre @ row # post"
    and "k_operation_type row \<in> RECOVERY_TYPES"
  shows "k_round_kick_id row = Some k \<longleftrightarrow>
    \<not> (k_operation_type row = ''resolve_auction'' \<and> k_resolution_path row = Some 0)
    \<and> (\<exists>pre1 kick mid. pre = pre1 @ kick # mid \<and> k_operation_type kick = ''kick'' \<and> k_id kick = k
        \<and> (\<forall>m \<in> set mid. k_operation_type m \<noteq> ''kick'' \<and> \<not> operation_closes_round m))"
proof -
  have "(row, target_kick_id (open_after None pre) row) \<in>
      set (required_links None (link_rows (rebuild_round_links pairs kicks) auction token))"
    unfolding assms(3) by (rule required_links_at [OF assms(4)])
  moreover have "pair_links (rebuild_round_links pairs kicks) (auction, token) = []"
    using assms(1,2) by (rule rebuild_round_links_links)
  ultimately have "k_round_kick_id row = target_kick_id (open_after None pre) row"
    by (auto simp: pair_links_empty)
  then show ?thesis using open_after_iff [of pre k] by (simp add: target_kick_id_def)
qed

section \<open>A concrete pair\<close>

definition sample_links :: "kick_tx list" where
  "sample_links =
     (let row = empty_kick_tx\<lparr>k_auction_address := ''a'', k_token_address := ''t'', k_status := ''CONFIRMED'',
            k_transaction_index := Some 0\<rparr>
      in [row\<lparr>k_id := 1, k_block_number := Some 5\<rparr>,
          row\<lparr>k_id := 2, k_block_number := Some 6, k_operation_type := ''sweep_auction'', k_round_kick_id := Some 9\<rparr>])"

lemma sample_links_value:
  "kick_table_wf sample_links"
  "link_rows (rebuild_round_links [(''a'', ''t'')] sample_links) ''a'' ''t'' =
     [hd sample_links] @ (sample_links ! 1)\<lparr>k_round_kick_id := Some 1\<rparr> # []"
  by code_simp+

theorem rebuild_round_links_idempotent_witness:
  "kick_table_wf sample_links \<and> rebuild_round_links [(''a'', ''t'')] sample_links \<noteq> sample_links
    \<and> rebuild_round_links [(''a'', ''t'')] (rebuild_round_links [(''a'', ''t'')] sample_links) =
        rebuild_round_links [(''a'', ''t'')] sample_links"
proof -
  have "rebuild_round_links [(''a'', ''t'')] sample_links \<noteq> sample_links" by code_simp
  with rebuild_round_links_idempotent [OF sample_links_value(1)] sample_links_value(1) show ?thesis by blast
qed

theorem rebuild_round_links_sound_witness:
  "k_round_kick_id ((sample_links ! 1)\<lparr>k_round_kick_id := Some 1\<rparr>) = Some 1
    \<and> (\<exists>pre1 kick mid. [hd sample_links] = pre1 @ kick # mid \<and> k_operation_type kick = ''kick'' \<and> k_id kick = 1)"
  using rebuild_round_links_sound [OF sample_links_value(1) _ sample_links_value(2), of 1]
  by (auto simp: sample_links_def Let_def RECOVERY_TYPES_def)

end
