(* ===== verification/ReconcileInvariants.thy ===== *)
theory ReconcileInvariants
  imports Reconciler ActionStaging RoundLinks
begin

text \<open>
  Invariants of the \<open>kick_txs\<close> table that reconciliation keeps. The locale
  \<open>reconciled_invariant\<close> states what an invariant has to survive: the five kinds of write the
  reconciler makes. Its lemmas carry the invariant through a receipt, a batch, the scan for
  direct settlements, the rebuilding of links and the repair of pairs. It is interpreted for
  two invariants: a settlement is recorded once, and a confirmed row has a chain position unless
  it was confirmed without one before.
\<close>

section \<open>The writes of the reconciler\<close>

definition identity :: "kick_tx \<Rightarrow> int \<times> string \<times> string \<times> string \<times> string \<times> string option" where
  "identity row = (k_id row, k_run_id row, k_operation_type row, k_auction_address row, k_token_address row, k_tx_hash row)"

text \<open>An update made from a receipt: the common fields, after fields that do not identify the row.\<close>

definition finalizing :: "(kick_tx \<Rightarrow> kick_tx) \<Rightarrow> bool" where
  "finalizing f \<longleftrightarrow> (\<exists>facts err g. f = (\<lambda>row. common_fields facts err (g row)) \<and> (\<forall>row. identity (g row) = identity row))"

lemma finalizing_common: "\<forall>row. identity (g row) = identity row \<Longrightarrow> finalizing (\<lambda>row. common_fields facts err (g row))"
  unfolding finalizing_def by blast

lemma finalizing_identity: "finalizing f \<Longrightarrow> identity (f row) = identity row"
  by (auto simp: finalizing_def identity_def common_fields_def)

lemma kick_values_finalizing:
  "kick_values tokens decoded facts auction token = Inr f \<Longrightarrow> finalizing f"
  by (auto simp: kick_values_def err_simps identity_def set_normalized_balance_def split: option.splits
      intro!: finalizing_common)

lemma resolve_values_finalizing:
  "resolve_values tokens decoded facts kicks row auction token = Inr (f, e) \<Longrightarrow> finalizing f"
  by (auto simp: resolve_values_def err_simps Let_def identity_def set_normalized_balance_def split: option.splits
      intro!: finalizing_common)

lemma sweep_values_finalizing:
  "sweep_values tokens decoded facts kicks row auction token = Inr f \<Longrightarrow> finalizing f"
  by (auto simp: sweep_values_def err_simps identity_def set_normalized_balance_def split: option.splits
      intro!: finalizing_common)

lemma finalizing_plain: "finalizing (common_fields facts err)"
  using finalizing_common [of "\<lambda>row. row" facts err] by simp

lemma finalize_row_update:
  assumes "finalize_row isaddr tokens decoded facts row (kicks, e) = Inr (kicks', e')"
  obtains f where "kicks' = kick_update_fields (k_id row) f kicks" "finalizing f"
  using assms
  by (auto simp: finalize_row_def err_simps finalizing_plain
      dest: kick_values_finalizing resolve_values_finalizing sweep_values_finalizing split: if_splits)

lemma settlement_kick_new:
  "settlement_kick decoded h p event kicks = Some kick \<Longrightarrow>
     find_exact_operation kicks ''auction_settled'' h (dt_auction_address event) (dt_token_address event) = None"
  by (auto simp: settlement_kick_def split: if_splits)

lemma record_verified_receipt_kicks:
  "record_verified_receipt action_id tx_index receipt now db = Inr db' \<Longrightarrow> l_kicks db' = l_kicks db"
  by (auto simp: record_verified_receipt_def update_transaction_receipt_def Let_def split: option.splits)

section \<open>Invariants the reconciler keeps\<close>

locale reconciled_invariant =
  fixes I :: "kick_tx list \<Rightarrow> bool"
  assumes wf: "I kicks \<Longrightarrow> kick_table_wf kicks"
    and finalized: "I kicks \<Longrightarrow> finalizing f \<Longrightarrow> I (kick_update_fields i f kicks)"
    and linked: "I kicks \<Longrightarrow> I (kick_update_fields i (\<lambda>row. row\<lparr>k_round_kick_id := target\<rparr>) kicks)"
    and settled: "I kicks \<Longrightarrow>
      find_exact_operation kicks ''auction_settled'' h (dt_auction_address event) (dt_token_address event) = None \<Longrightarrow>
      I (fst (kick_insert (settlement_row h event kick p mined_at balance) kicks))"
    and staged: "I kicks \<Longrightarrow> t \<in> API_OPERATION_TYPES \<Longrightarrow>
      I (fst (kick_insert (staged_row now run_id t tx operation rows h) kicks))"
    and retyped: "I kicks \<Longrightarrow> t \<in> API_OPERATION_TYPES \<Longrightarrow> kick_get kicks i = Some row \<Longrightarrow>
      normalize_operation_text (k_operation_type row) = Some t \<Longrightarrow>
      I (kick_update_fields i (\<lambda>row. row\<lparr>k_operation_type := t\<rparr>) kicks)"
begin

lemma normalize_types_I:
  assumes "I kicks" "t \<in> API_OPERATION_TYPES"
    and "\<forall>e \<in> set es. \<exists>row. kick_get kicks (k_id e) = Some row \<and> normalize_operation_text (k_operation_type row) = Some t"
  shows "I (normalize_types t es kicks)"
  using assms
proof (induction es arbitrary: kicks)
  case (Cons e es)
  define kicks1 where "kicks1 = (if k_operation_type e \<noteq> t
    then kick_update_fields (k_id e) (\<lambda>row. row\<lparr>k_operation_type := t\<rparr>) kicks else kicks)"
  have "I kicks1" using Cons.prems retyped [OF Cons.prems(1,2)] by (auto simp: kicks1_def)
  moreover have "\<forall>x \<in> set es. \<exists>row. kick_get kicks1 (k_id x) = Some row
      \<and> normalize_operation_text (k_operation_type row) = Some t"
    using Cons.prems(3) api_type_normal [OF Cons.prems(2)]
    by (fastforce simp: kicks1_def kick_get_update)
  ultimately show ?case
    using Cons.IH [of kicks1] Cons.prems(2) by (simp add: normalize_types_def kicks1_def)
qed (simp add: normalize_types_def)

lemma ensure_operation_I:
  assumes "I kicks" "t \<in> API_OPERATION_TYPES" "known t h kicks existing"
    and "ensure_operation now run_id t tx h op (kicks, existing, ids) = (kicks', existing', ids')"
  shows "I kicks'"
proof (cases "filter (same_operation run_id t (po_auction_address op) (po_token_address op)) existing = []")
  case True
  then show ?thesis
    using assms staged [OF assms(1,2), of now run_id tx op kicks h]
    by (auto simp: ensure_operation_def Let_def split: prod.splits)
next
  case False
  define es where "es = filter (same_operation run_id t (po_auction_address op) (po_token_address op)) existing"
  have "\<exists>row. kick_get kicks (k_id e) = Some row \<and> normalize_operation_text (k_operation_type row) = Some t"
    if e: "e \<in> set es" for e
  proof -
    obtain row where row: "row \<in> set kicks" "retyped t e row" using assms(3) e by (auto simp: known_def es_def)
    then have "kick_get kicks (k_id e) = Some row"
      using wf [OF assms(1)] retyped_fields(1) [OF row(2)] by (simp add: find_Some_iff_unique kick_table_wf_def)
    moreover have "same_operation run_id t (po_auction_address op) (po_token_address op) row"
      using e retyped_same_operation [OF assms(2) row(2)] by (simp add: es_def)
    ultimately show ?thesis by (simp add: same_operation_def)
  qed
  moreover have "kicks' = normalize_types t es kicks"
    using assms(4) False by (auto simp: ensure_operation_def es_def Let_def)
  ultimately show ?thesis using normalize_types_I [OF assms(1,2), of es] by simp
qed

lemma ensure_operations_I:
  "I kicks \<Longrightarrow> t \<in> API_OPERATION_TYPES \<Longrightarrow> known t h kicks existing \<Longrightarrow>
     fold (ensure_operation now run_id t tx h) ops (kicks, existing, ids) = (kicks', existing', ids') \<Longrightarrow> I kicks'"
proof (induction ops arbitrary: kicks existing ids)
  case (Cons op ops)
  obtain k1 e1 i1 where first: "ensure_operation now run_id t tx h op (kicks, existing, ids) = (k1, e1, i1)"
    by (metis prod_cases3)
  have "I k1" using ensure_operation_I [OF Cons.prems(1-3) first] .
  moreover have "known t h k1 e1"
    using ensure_operation_step [OF Cons.prems(2) wf [OF Cons.prems(1)] Cons.prems(3) first] by blast
  ultimately show ?case using Cons.IH Cons.prems(2,4) first by simp
qed simp

lemma ensure_action_operations_I:
  assumes "I (l_kicks db)" "ensure_action_operations isaddr now action tx db = Inr (db', ids)"
  shows "I (l_kicks db')"
proof -
  have loop: "I (fst (fold (ensure_operation now run_id t tx h) ops (l_kicks db, list_by_tx_hash (l_kicks db) h, {})))"
    if "t \<in> API_OPERATION_TYPES" for run_id t h ops
    using ensure_operations_I [OF assms(1) that known_start] by (metis prod.collapse)
  show ?thesis
    using assms loop
    by (auto simp: ensure_action_operations_def Let_def err_simps case_prod_beta split: option.splits if_splits)
qed

lemma fold_finalized_I: "I kicks \<Longrightarrow> finalizing f \<Longrightarrow> I (fold (\<lambda>row. kick_update_fields (k_id row) f) rows kicks)"
  by (induction rows arbitrary: kicks) (simp_all add: finalized)

lemma finalize_settlement_I:
  "I kicks \<Longrightarrow> finalize_settlement tokens decoded facts h event kicks = Inr kicks' \<Longrightarrow> I kicks'"
  by (auto simp: finalize_settlement_def Let_def err_simps split: option.splits intro: settled settlement_kick_new)

lemma finalize_row_I:
  "I (fst s) \<Longrightarrow> finalize_row isaddr tokens decoded facts row s = Inr s' \<Longrightarrow> I (fst s')"
  by (cases s; cases s') (auto elim!: finalize_row_update intro: finalized)

lemma finalize_operations_I:
  assumes "I (l_kicks db)" "finalize_operations isaddr decode h receipt rows block db = Inr (db', e)"
  shows "I (l_kicks db')"
proof (cases "rows = []")
  case True
  with assms show ?thesis by (simp add: finalize_operations_def)
next
  case False
  have events: "I k2" if "fold_err (finalize_row isaddr tokens decoded facts) rows (l_kicks db, None) = Inr (k1, e1)"
    "fold_err (finalize_settlement tokens decoded facts h) events k1 = Inr k2" for tokens decoded facts k1 e1 k2 events
  proof -
    have "I (fst (k1, e1))"
      by (rule fold_err_invariant [where P = "\<lambda>s. I (fst s)", OF that(1)]) (auto intro: assms(1) finalize_row_I)
    then show ?thesis by (intro fold_err_invariant [where P = I, OF that(2)]) (auto intro: finalize_settlement_I)
  qed
  obtain facts where facts: "receipt_facts_of receipt block = Inr facts"
    using assms(2) False by (auto simp: finalize_operations_def err_simps)
  show ?thesis
  proof (cases "int_or_zero (rc_status receipt) = 1")
    case reverted: False
    then show ?thesis
      using assms False facts fold_finalized_I [OF assms(1) finalizing_plain]
      by (auto simp: finalize_operations_def)
  next
    case True
    then obtain auctions where auctions: "traverse_err (\<lambda>row. normalize_address isaddr (k_auction_address row)) rows = Inr auctions"
      using assms(2) False facts by (auto simp: finalize_operations_def err_bind_Inr_iff)
    show ?thesis
    proof (cases "decode receipt (sorted_set auctions)")
      case (Inl e)
      then show ?thesis
        using assms False facts True auctions fold_finalized_I [OF assms(1) finalizing_plain]
        by (auto simp: finalize_operations_def)
    next
      case (Inr decoded)
      then show ?thesis
        using assms False facts True auctions
        by (auto simp: finalize_operations_def err_bind_Inr_iff intro: events)
    qed
  qed
qed

lemma finalize_receipt_I:
  assumes "I (l_kicks db)" "finalize_receipt r now h receipt db = Inr (db', e)"
  shows "I (l_kicks db')"
proof -
  have stage: "I (l_kicks (fst s))" if "fold_err (stage_action_operations r now) valid (db, {}) = Inr s" for valid s
    by (rule fold_err_invariant [where P = "\<lambda>s. I (l_kicks (fst s))", OF that])
      (auto simp: stage_action_operations_def assms(1) err_simps split: option.splits intro: ensure_action_operations_I)
  have receipts: "l_kicks db2 = l_kicks db1"
    if "fold_err (\<lambda>(row, _). record_verified_receipt (x_action_id row) (x_tx_index row) receipt now) valid db1 = Inr db2"
    for valid :: "(action_tx \<times> string option) list" and db1 db2
    by (rule fold_err_invariant [where P = "\<lambda>db. l_kicks db = l_kicks db1", OF that])
      (auto dest: record_verified_receipt_kicks)
  show ?thesis
    using assms unfolding finalize_receipt_def Let_def
    by (auto simp: err_simps split: if_splits dest!: stage receipts dest: finalize_operations_I)
qed

lemma reconcile_one_I: "I (l_kicks (fst s)) \<Longrightarrow> I (l_kicks (fst (reconcile_one r now h s)))"
  by (cases s) (auto simp: reconcile_one_def err_simps split: sum.splits option.splits intro: finalize_receipt_I)

lemma reconcile_receipts_I:
  assumes "I (l_kicks db)"
  shows "I (l_kicks (fst (reconcile_receipts r now hashes db)))"
proof -
  have "I (l_kicks (fst s)) \<Longrightarrow> I (l_kicks (fst (fold (reconcile_one r now) hs s)))" for hs s
    by (induction hs arbitrary: s) (simp_all add: reconcile_one_I)
  then show ?thesis using assms by (simp add: reconcile_receipts_def)
qed

text \<open>Loops that keep their state on an exception.\<close>

lemma fold_st_invariant:
  assumes "P s" "\<And>x s. x \<in> set xs \<Longrightarrow> P s \<Longrightarrow> P (fst (f x s))"
  shows "P (fst (fold_st f xs s))"
  using assms
proof (induction xs arbitrary: s)
  case (Cons x xs)
  then have "P (fst (f x s))" by simp
  with Cons show ?case by (cases "f x s"; cases "snd (f x s)") simp_all
qed simp

lemma discover_settlement_I:
  "I (l_kicks db) \<Longrightarrow> I (l_kicks (fst (discover_settlement r pairs auction decoded h p event db)))"
  by (auto simp: discover_settlement_def Let_def err_simps split: option.splits sum.splits intro: settled settlement_kick_new)

lemma discover_transaction_I:
  assumes "I (l_kicks (fst s))"
  shows "I (l_kicks (fst (fst (discover_transaction r pairs auction t s))))"
proof -
  have "I (l_kicks (fst (fold_st (discover_settlement r pairs auction decoded h p) events (fst s))))" for decoded h p events
    by (rule fold_st_invariant [where P = "\<lambda>db. I (l_kicks db)"]) (auto intro: assms discover_settlement_I)
  with assms show ?thesis by (auto simp: discover_transaction_def case_prod_beta split: sum.splits)
qed

lemma discover_auction_I:
  assumes "I (l_kicks (fst s))"
  shows "I (l_kicks (fst (fst (discover_auction r pairs latest a s))))"
proof -
  have "I (l_kicks (fst (fst (fold_st (discover_transaction r pairs auction) txs s))))" for auction txs
    by (rule fold_st_invariant [where P = "\<lambda>s. I (l_kicks (fst s))"]) (auto intro: assms discover_transaction_I)
  with assms show ?thesis by (auto simp: discover_auction_def Let_def case_prod_beta split: sum.splits)
qed

lemma discover_direct_settlements_I:
  assumes "I (l_kicks db)"
  shows "I (l_kicks (fst (fst (discover_direct_settlements r pairs db))))"
proof -
  have "I (l_kicks (fst (fst (fold_st (discover_auction r pairs latest) auctions (db, [])))))" for latest auctions
    by (rule fold_st_invariant [where P = "\<lambda>s. I (l_kicks (fst s))"]) (auto intro: assms discover_auction_I)
  with assms show ?thesis by (auto simp: discover_direct_settlements_def split: sum.splits)
qed

lemma rebuild_round_links_I:
  assumes "I kicks"
  shows "I (rebuild_round_links pairs kicks)"
proof -
  have links: "I kicks \<Longrightarrow> I (apply_links updates kicks)" for updates kicks
    by (induction updates arbitrary: kicks) (auto simp: apply_links_def linked)
  have "I kicks \<Longrightarrow> I (fold rebuild_pair_links ps kicks)" for ps kicks
    by (induction ps arbitrary: kicks) (auto simp: rebuild_pair_links_def intro: links split: prod.splits)
  then show ?thesis using assms by (simp add: rebuild_round_links_def)
qed

lemma repair_pairs_I:
  assumes "I (l_kicks db)"
  shows "I (l_kicks (fst (repair_pairs r now pairs db)))"
proof (cases "err_bind (normalized_pairs (rl_isaddr r) pairs) (filter_err (needs_repair (rl_isaddr r) (l_kicks db)))")
  case (Inl e)
  then show ?thesis using assms by (simp add: repair_pairs_def)
next
  case (Inr pending)
  obtain db1 errors where first: "reconcile_receipts r now (repair_hashes (l_kicks db) pending) db = (db1, errors)"
    by fastforce
  define db2 where "db2 = db1\<lparr>l_kicks := rebuild_round_links pending (l_kicks db1)\<rparr>"
  obtain db3 more_errors e where second: "discover_direct_settlements r (Some (set pending)) db2 = ((db3, more_errors), e)"
    by (metis prod.collapse)
  have "I (l_kicks db1)" using reconcile_receipts_I [OF assms] first by (metis fst_conv)
  then have "I (l_kicks db2)" by (simp add: db2_def rebuild_round_links_I)
  then have "I (l_kicks db3)" using discover_direct_settlements_I [of db2] second by (metis fst_conv)
  then show ?thesis
    using assms Inr first second
    by (auto simp: repair_pairs_def Let_def db2_def [symmetric] rebuild_round_links_I split: option.split)
qed

end

section \<open>A settlement is recorded once\<close>

definition settlement_key :: "kick_tx \<Rightarrow> string option \<times> string \<times> string" where
  "settlement_key row = (k_tx_hash row, k_auction_address row, k_token_address row)"

definition settlements :: "kick_tx list \<Rightarrow> kick_tx list" where
  "settlements kicks = filter (\<lambda>row. k_operation_type row = ''auction_settled'') kicks"

definition settled_once :: "kick_tx list \<Rightarrow> bool" where
  "settled_once kicks \<longleftrightarrow> kick_table_wf kicks \<and> distinct (map settlement_key (settlements kicks))"

lemma identity_eq:
  assumes "identity row' = identity row"
  shows "k_id row' = k_id row" "k_operation_type row' = k_operation_type row" "settlement_key row' = settlement_key row"
  using assms by (simp_all add: identity_def settlement_key_def)

lemma settled_once_update:
  assumes "settled_once kicks" "\<And>row. identity (f row) = identity row"
  shows "settled_once (kick_update_fields i f kicks)"
proof -
  have "map settlement_key (settlements (kick_update_fields i f kicks)) = map settlement_key (settlements kicks)"
    using identity_eq [OF assms(2)] by (induction kicks) (auto simp: settlements_def kick_update_fields_def)
  then show ?thesis
    using assms(1) identity_eq(1) [OF assms(2)] by (simp add: settled_once_def kick_table_wf_def)
qed

lemma api_type_not_settled:
  "t \<in> API_OPERATION_TYPES \<Longrightarrow> t \<noteq> ''auction_settled''"
  "t \<in> API_OPERATION_TYPES \<Longrightarrow> normalize_operation_text ''auction_settled'' \<noteq> Some t"
proof -
  have "normalize_operation_text ''auction_settled'' = Some ''auction_settled''" by code_simp
  moreover show "t \<in> API_OPERATION_TYPES \<Longrightarrow> t \<noteq> ''auction_settled''" by (auto simp: API_OPERATION_TYPES_def)
  ultimately show "t \<in> API_OPERATION_TYPES \<Longrightarrow> normalize_operation_text ''auction_settled'' \<noteq> Some t" by auto
qed

lemma wf_insert: "kick_table_wf kicks \<Longrightarrow> kick_table_wf (fst (kick_insert row kicks))"
  by (rule kick_store.wf_ins)

lemma settlements_insert:
  "settlements (fst (kick_insert row kicks)) =
     settlements kicks @ (if k_operation_type row = ''auction_settled'' then [row\<lparr>k_id := next_rowid kicks\<rparr>] else [])"
  by (simp add: settlements_def kick_insert_def)

interpretation once: reconciled_invariant settled_once
proof
  show "settled_once kicks \<Longrightarrow> kick_table_wf kicks" for kicks by (simp add: settled_once_def)
  show "settled_once kicks \<Longrightarrow> finalizing f \<Longrightarrow> settled_once (kick_update_fields i f kicks)" for kicks f i
    by (simp add: settled_once_update finalizing_identity)
  show "settled_once kicks \<Longrightarrow> settled_once (kick_update_fields i (\<lambda>row. row\<lparr>k_round_kick_id := target\<rparr>) kicks)"
    for kicks i target by (simp add: settled_once_update identity_def)
  show "settled_once (fst (kick_insert (settlement_row h event kick p mined_at balance) kicks))"
    if "settled_once kicks" "find_exact_operation kicks ''auction_settled'' h (dt_auction_address event) (dt_token_address event) = None"
    for kicks h event kick p mined_at balance
  proof -
    have "(Some h, dt_auction_address event, dt_token_address event) \<notin> settlement_key ` set (settlements kicks)"
      using that(2) by (auto simp: find_exact_operation_def find_None_iff settlements_def settlement_key_def)
    then show ?thesis
      using that(1) by (simp add: settled_once_def wf_insert settlements_insert settlement_row_def
          set_normalized_balance_def) (simp add: settlement_key_def)
  qed
  show "settled_once (fst (kick_insert (staged_row now run_id t tx operation rows h) kicks))"
    if "settled_once kicks" "t \<in> API_OPERATION_TYPES" for kicks now run_id t tx operation rows h
    using that api_type_not_settled(1) [OF that(2)]
    by (simp add: settled_once_def wf_insert settlements_insert staged_row_def)
  show "settled_once (kick_update_fields i (\<lambda>row. row\<lparr>k_operation_type := t\<rparr>) kicks)"
    if "settled_once kicks" "t \<in> API_OPERATION_TYPES" "kick_get kicks i = Some row"
      "normalize_operation_text (k_operation_type row) = Some t" for kicks t i row
  proof -
    have wf: "kick_table_wf kicks" using that(1) by (simp add: settled_once_def)
    have "k_operation_type row' \<noteq> ''auction_settled''" if "row' \<in> set kicks" "k_id row' = i" for row'
      using that kick_get_key [OF \<open>kick_get kicks i = Some row\<close>] same_row [OF wf, of row' row]
        api_type_not_settled(2) [OF \<open>t \<in> API_OPERATION_TYPES\<close>] \<open>normalize_operation_text _ = Some t\<close> by auto
    then have "settlements (kick_update_fields i (\<lambda>row. row\<lparr>k_operation_type := t\<rparr>) kicks) = settlements kicks"
      using api_type_not_settled(1) [OF that(2)]
      by (induction kicks) (auto simp: settlements_def kick_update_fields_def)
    then show ?thesis using that(1) by (simp add: settled_once_def kick_table_wf_def)
  qed
qed

text \<open>
  C19. The reconciler never records one settlement of a transaction twice: pair repair, the
  reconciliation of submitted receipts and the discovery of direct settlements all keep the
  table free of a second settlement row for the same transaction, auction and token.
\<close>

theorem settlements_recorded_once:
  assumes "settled_once (l_kicks db)"
  shows "settled_once (l_kicks (fst (repair_pairs r now pairs db)))
    \<and> settled_once (l_kicks (fst (reconcile_submitted r now hashes db)))
    \<and> settled_once (l_kicks (fst (fst (discover_direct_settlements r pair_filter db))))"
  using assms once.repair_pairs_I once.reconcile_receipts_I once.discover_direct_settlements_I
  by (simp add: reconcile_submitted_def)

section \<open>A confirmed row has a place in the chain\<close>

definition placed :: "kick_tx \<Rightarrow> bool" where
  "placed row \<longleftrightarrow> (k_status row = ''CONFIRMED'' \<longrightarrow> row_position row \<noteq> None \<and> k_mined_at row \<noteq> None)"

text \<open>What a confirmation writes of the chain.\<close>

definition chain_fields :: "kick_tx \<Rightarrow> string \<times> int option \<times> int option \<times> string option" where
  "chain_fields row = (k_status row, k_block_number row, k_transaction_index row, k_mined_at row)"

lemma chain_fields_placed: "chain_fields row' = chain_fields row \<Longrightarrow> placed row' = placed row"
  unfolding chain_fields_def placed_def row_position_def prod.inject by (elim conjE) (simp only:)

text \<open>
  Since the table was \<open>old\<close>, no row was confirmed without its place: a confirmed row that has none was
  there before, confirmed already, and its chain fields were not written.
\<close>

definition left_unplaced :: "kick_tx list \<Rightarrow> kick_tx \<Rightarrow> bool" where
  "left_unplaced old row \<longleftrightarrow> (\<exists>row0. kick_get old (k_id row) = Some row0 \<and> \<not> placed row0 \<and> chain_fields row = chain_fields row0)"

definition placed_since :: "kick_tx list \<Rightarrow> kick_tx list \<Rightarrow> bool" where
  "placed_since old kicks \<longleftrightarrow> kick_table_wf kicks \<and> (\<forall>row \<in> set kicks. placed row \<or> left_unplaced old row)"

lemma placed_since_refl: "kick_table_wf kicks \<Longrightarrow> placed_since kicks kicks"
  using find_Some_iff_unique by (fastforce simp: placed_since_def left_unplaced_def kick_table_wf_def)

lemma placed_since_update:
  assumes "placed_since old kicks" "\<And>row. k_id (f row) = k_id row"
    and "\<And>row. placed (f row) \<or> chain_fields (f row) = chain_fields row"
  shows "placed_since old (kick_update_fields i f kicks)"
proof -
  have step: "placed (f row) \<or> left_unplaced old (f row)" if "placed row \<or> left_unplaced old row" for row
    using assms(3) [of row]
  proof
    assume same: "chain_fields (f row) = chain_fields row"
    then show ?thesis using that chain_fields_placed [OF same] by (simp add: left_unplaced_def assms(2))
  qed simp
  have "placed row' \<or> left_unplaced old row'" if row': "row' \<in> set (kick_update_fields i f kicks)" for row'
  proof -
    obtain row where row: "row \<in> set kicks" "row' = (if k_id row = i then f row else row)"
      using row' by (auto simp: kick_update_fields_def)
    then have "placed row \<or> left_unplaced old row" using assms(1) by (simp add: placed_since_def)
    with step show ?thesis by (simp add: row(2))
  qed
  moreover have "kick_table_wf (kick_update_fields i f kicks)" using kick_store.wf_upd assms(1,2) by (simp add: placed_since_def)
  ultimately show ?thesis by (simp add: placed_since_def)
qed

lemma placed_since_insert:
  assumes "placed_since old kicks" "placed row"
  shows "placed_since old (fst (kick_insert row kicks))"
proof -
  have "placed (row\<lparr>k_id := i\<rparr>)" for i using assms(2) chain_fields_placed [of "row\<lparr>k_id := i\<rparr>" row] by (simp add: chain_fields_def)
  then show ?thesis using assms(1) by (simp add: placed_since_def wf_insert) (simp add: kick_insert_def)
qed

interpretation placed: reconciled_invariant "placed_since old" for old
proof
  show "kick_table_wf kicks" if "placed_since old kicks" for old kicks using that by (simp add: placed_since_def)
  show "placed_since old (kick_update_fields i f kicks)" if "placed_since old kicks" "finalizing f" for old kicks f i
    using that(1)
  proof (rule placed_since_update)
    show "k_id (f row) = k_id row" for row by (rule identity_eq(1) [OF finalizing_identity [OF that(2)]])
    show "placed (f row) \<or> chain_fields (f row) = chain_fields row" for row
      using that(2) by (auto simp: finalizing_def placed_def common_fields_def row_position_def)
  qed
  show "placed_since old (kick_update_fields i (\<lambda>row. row\<lparr>k_round_kick_id := target\<rparr>) kicks)"
    if "placed_since old kicks" for old kicks i target using that by (rule placed_since_update) (auto simp: chain_fields_def)
  show "placed_since old (fst (kick_insert (settlement_row h event kick p mined_at balance) kicks))"
    if "placed_since old kicks" for old kicks h event kick p mined_at balance
    using that by (rule placed_since_insert)
      (simp add: settlement_row_def set_normalized_balance_def placed_def row_position_def)
  show "placed_since old (fst (kick_insert (staged_row now run_id t tx operation rows h) kicks))"
    if "placed_since old kicks" for old kicks now run_id t tx operation rows h
    using that by (rule placed_since_insert) (simp add: staged_row_def placed_def)
  show "placed_since old (kick_update_fields i (\<lambda>row. row\<lparr>k_operation_type := t\<rparr>) kicks)"
    if "placed_since old kicks" for old kicks t i
    using that by (rule placed_since_update) (auto simp: chain_fields_def)
qed

text \<open>
  C20. Every row the reconciler confirms has a block number, a transaction index and a
  mining time, so it has a place in the chain order the round rules read. Whatever the table
  held, a confirmed row without such a place after a pair repair, a reconciliation of
  submitted receipts or a discovery of settlements was confirmed without it before, and its
  status, block number, transaction index and mining time are as they were.
\<close>

theorem confirmed_rows_placed:
  assumes "kick_table_wf (l_kicks db)"
    and "kicks \<in> {l_kicks (fst (repair_pairs r now pairs db)), l_kicks (fst (reconcile_submitted r now hashes db)),
      l_kicks (fst (fst (discover_direct_settlements r pair_filter db)))}"
    and "row \<in> set kicks" "k_status row = ''CONFIRMED''"
  shows "row_position row \<noteq> None \<and> k_mined_at row \<noteq> None \<or> (\<exists>row0. kick_get (l_kicks db) (k_id row) = Some row0
    \<and> k_status row0 = ''CONFIRMED'' \<and> (row_position row0 = None \<or> k_mined_at row0 = None) \<and> k_mined_at row = k_mined_at row0
    \<and> k_block_number row = k_block_number row0 \<and> k_transaction_index row = k_transaction_index row0)"
proof -
  note start = placed_since_refl [OF assms(1)]
  have "placed_since (l_kicks db) kicks"
    using assms(2) placed.repair_pairs_I [OF start] placed.reconcile_receipts_I [OF start] placed.discover_direct_settlements_I [OF start]
    by (auto simp: reconcile_submitted_def)
  then have "placed row \<or> left_unplaced (l_kicks db) row" using assms(3) by (simp add: placed_since_def)
  then show ?thesis
  proof
    assume "placed row"
    then show ?thesis using assms(4) by (simp add: placed_def)
  next
    assume "left_unplaced (l_kicks db) row"
    then obtain row0 where row0: "kick_get (l_kicks db) (k_id row) = Some row0" "\<not> placed row0" "chain_fields row = chain_fields row0"
      unfolding left_unplaced_def by blast
    then have "k_status row0 = ''CONFIRMED''" "row_position row0 = None \<or> k_mined_at row0 = None" by (simp_all only: placed_def) blast+
    with row0 show ?thesis by (intro disjI2 exI [of _ row0]) (simp add: chain_fields_def)
  qed
qed

section \<open>A concrete repair\<close>

text \<open>A node with one mined settlement of an auction, in block 7, and a table with the kick before it.\<close>

definition sample_settling :: receipt where
  "sample_settling = \<lparr>rc_transaction_hash = ''0xh'', rc_status = Some 1, rc_block_number = 7, rc_transaction_index = Some 0,
     rc_gas_used = None, rc_effective_gas_price = None, rc_logs = []\<rparr>"

definition sample_reconciler :: reconciler where
  "sample_reconciler = \<lparr>rl_isaddr = (\<lambda>_. True), rl_hexbytes = Inr,
     rl_decode = (\<lambda>_ _. Inr \<lparr>de_kicks = [], de_resolves = [], de_sweeps = [],
       de_settlements = [\<lparr>dt_auction_address = ''a'', dt_token_address = ''t''\<rparr>, \<lparr>dt_auction_address = ''a'', dt_token_address = ''t''\<rparr>]\<rparr>),
     rl_node = \<lparr>nd_receipt = (\<lambda>_. Inr sample_settling), nd_transaction = (\<lambda>_. Inr []), nd_chain_id = Inr 1,
       nd_block_timestamp = (\<lambda>_. Inr 0), nd_block_number = Inr 7,
       nd_settled_logs = (\<lambda>_ _ _. Inr [(''0xh'', 7, 0)])\<rparr>\<rparr>"

definition sample_ledger :: ledger where
  "sample_ledger = empty_ledger\<lparr>l_kicks := [empty_kick_tx\<lparr>k_id := 1, k_auction_address := ''a'', k_token_address := ''t'',
     k_status := ''CONFIRMED'', k_block_number := Some 5, k_transaction_index := Some 0, k_mined_at := Some ''m''\<rparr>]\<rparr>"

lemma sample_repair:
  "map (\<lambda>row. (k_id row, k_operation_type row, k_round_kick_id row))
     (l_kicks (fst (repair_pairs sample_reconciler ''now'' [(''a'', ''t'')] sample_ledger))) =
   [(1, ''kick'', None), (2, ''auction_settled'', Some 1)]"
  by code_simp

theorem settlements_recorded_once_witness:
  "settled_once (l_kicks (fst (repair_pairs sample_reconciler ''now'' [(''a'', ''t'')] sample_ledger)))
    \<and> map k_operation_type (l_kicks (fst (repair_pairs sample_reconciler ''now'' [(''a'', ''t'')] sample_ledger))) =
        [''kick'', ''auction_settled'']"
proof -
  have "settled_once (l_kicks sample_ledger)" by code_simp
  from settlements_recorded_once [OF this] arg_cong [OF sample_repair, of "map (\<lambda>(_, t, _). t)"]
  show ?thesis by (simp add: comp_def)
qed

text \<open>
  A table in which a row of another pair was confirmed without its place, as an executor without
  reconciler leaves it, beside a kick of the repaired pair that is still submitted.
\<close>

definition unplaced_ledger :: ledger where
  "unplaced_ledger = empty_ledger\<lparr>l_kicks :=
     [empty_kick_tx\<lparr>k_id := 1, k_auction_address := ''b'', k_token_address := ''u'', k_status := ''CONFIRMED'', k_block_number := Some 3\<rparr>,
      empty_kick_tx\<lparr>k_id := 2, k_auction_address := ''a'', k_token_address := ''t'', k_status := ''SUBMITTED'',
        k_tx_hash := Some ''0xh''\<rparr>]\<rparr>"

lemma unplaced_reconciled:
  "map (\<lambda>row. (k_id row, k_status row, row_position row))
     (l_kicks (fst (reconcile_submitted sample_reconciler ''now'' (Some [''0xh'']) unplaced_ledger))) =
   [(1, ''CONFIRMED'', None), (2, ''CONFIRMED'', Some (7, 0))]"
  by code_simp

theorem confirmed_rows_placed_witness:
  "\<exists>row. row \<in> set (l_kicks (fst (reconcile_submitted sample_reconciler ''now'' (Some [''0xh'']) unplaced_ledger)))
    \<and> k_id row = 2 \<and> k_status row = ''CONFIRMED'' \<and> row_position row = Some (7, 0) \<and> k_mined_at row \<noteq> None"
proof -
  let ?after = "l_kicks (fst (reconcile_submitted sample_reconciler ''now'' (Some [''0xh'']) unplaced_ledger))"
  have "(2, ''CONFIRMED'', Some (7, 0)) \<in> (\<lambda>row. (k_id row, k_status row, row_position row)) ` set ?after"
    using arg_cong [OF unplaced_reconciled, of set] by simp
  then obtain row where row: "row \<in> set ?after" "k_id row = 2" "k_status row = ''CONFIRMED''" "row_position row = Some (7, 0)" by auto
  have wf: "kick_table_wf (l_kicks unplaced_ledger)" by code_simp
  have "map_option k_status (kick_get (l_kicks unplaced_ledger) 2) = Some ''SUBMITTED''" by code_simp
  with confirmed_rows_placed [OF wf, of ?after sample_reconciler "''now''" _ "Some [''0xh'']" _ row] row show ?thesis by auto
qed

end
