(* ===== verification/ReceiptEvidence.thy ===== *)
theory ReceiptEvidence
  imports ReconcileInvariants
begin

text \<open>
  What reconciliation accepts as evidence: a mined transaction that matches the prepared one,
  events from the trusted kickers and the auction itself, and rows of the receipt's own
  transaction. A receipt that does not match changes neither the action ledger nor the rows
  of an API run.
\<close>

section \<open>A match is a match in every field\<close>

lemma all_err_True: "all_err cs = Inr True \<longleftrightarrow> (\<forall>c \<in> set cs. c = Inr True)"
  by (induction cs) (auto simp: err_simps split: if_splits)

lemma same_bytes_True:
  "same_bytes hexbytes a b = Inr True \<longleftrightarrow>
     (\<exists>x y bytes. a = Inr x \<and> b = Inr y \<and> hexbytes x = Inr bytes \<and> hexbytes y = Inr bytes)"
  by (auto simp: same_bytes_def err_simps)

text \<open>
  A mined transaction is accepted for a prepared one only with the same chain, target,
  call data bytes, value and hash as prepared, from the expected sender where one is
  recorded, and with receipt status 0 or 1.
\<close>

theorem matches_prepared_transaction_sound:
  assumes "matches_prepared_transaction hexbytes prepared sender transaction receipt tx_hash chain_id = Inr True"
  shows "x_chain_id prepared = chain_id
    \<and> (\<exists>to. text_item transaction ''to'' = Inr to \<and> str_lower to = str_lower (x_to_address prepared))
    \<and> (\<exists>input bytes. text_item transaction ''input'' = Inr input \<and> hexbytes input = Inr bytes
        \<and> hexbytes (x_data prepared) = Inr bytes)
    \<and> (\<exists>value wei. dict_item transaction ''value'' = Inr value \<and> rpc_int value = Inr wei
        \<and> rpc_int (JStr (x_value prepared)) = Inr wei)
    \<and> (\<exists>hash bytes. text_item transaction ''hash'' = Inr hash \<and> hexbytes hash = Inr bytes \<and> hexbytes tx_hash = Inr bytes
        \<and> hexbytes (rc_transaction_hash receipt) = Inr bytes)
    \<and> (\<forall>s. sender = Some s \<longrightarrow> (\<exists>from. text_item transaction ''from'' = Inr from \<and> str_lower from = str_lower s))
    \<and> rc_status receipt \<in> {Some 0, Some 1}"
proof -
  have "all_err (prepared_conditions hexbytes prepared sender transaction receipt tx_hash chain_id) = Inr True"
    using assms by (auto simp: matches_prepared_transaction_def split: sum.splits if_splits)
  then have "\<forall>c \<in> set (prepared_conditions hexbytes prepared sender transaction receipt tx_hash chain_id). c = Inr True"
    by (simp only: all_err_True)
  note conditions = this [unfolded prepared_conditions_def, simplified list.set ball_simps simp_thms]
  have "x_chain_id prepared = chain_id" using conditions by simp
  moreover have "\<exists>to. text_item transaction ''to'' = Inr to \<and> str_lower to = str_lower (x_to_address prepared)"
    using conditions by (simp add: err_bind_Inr_iff)
  moreover have "same_bytes hexbytes (text_item transaction ''input'') (Inr (x_data prepared)) = Inr True"
    "same_bytes hexbytes (text_item transaction ''hash'') (Inr tx_hash) = Inr True"
    "same_bytes hexbytes (Inr (rc_transaction_hash receipt)) (Inr tx_hash) = Inr True"
    using conditions by blast+
  moreover have "\<exists>value wei. dict_item transaction ''value'' = Inr value \<and> rpc_int value = Inr wei
        \<and> rpc_int (JStr (x_value prepared)) = Inr wei"
    using conditions by (auto simp: err_bind_Inr_iff)
  moreover have "\<forall>s. sender = Some s \<longrightarrow> (\<exists>from. text_item transaction ''from'' = Inr from \<and> str_lower from = str_lower s)"
    using conditions by (auto simp: err_bind_Inr_iff)
  moreover have "rc_status receipt \<in> {Some 0, Some 1}"
    using conditions by (cases "rc_status receipt") auto
  ultimately show ?thesis by (auto simp: same_bytes_True)
qed

section \<open>Only trusted emitters are heard\<close>

lemma receipt_from_emitters_logs:
  "rc_logs (receipt_from_emitters receipt A) = filter (\<lambda>log. str_lower (lg_address log) \<in> A) (rc_logs receipt)"
  by (simp add: receipt_from_emitters_def)

lemma filter_subset_eq:
  assumes "filter (\<lambda>x. f x \<in> B) xs = filter (\<lambda>x. f x \<in> B) ys" "A \<subseteq> B"
  shows "filter (\<lambda>x. f x \<in> A) xs = filter (\<lambda>x. f x \<in> A) ys"
proof -
  have "filter (\<lambda>x. f x \<in> A) zs = filter (\<lambda>x. f x \<in> A) (filter (\<lambda>x. f x \<in> B) zs)" for zs
    using assms(2) by (auto intro: filter_cong)
  then show ?thesis using assms(1) by metis
qed

text \<open>
  The evidence decoded from a receipt depends only on the logs emitted by the trusted
  kickers and the named auctions: two receipts that agree on those logs decode to the same
  evidence.
\<close>

theorem decode_receipt_trusts_emitters:
  assumes "filter (\<lambda>log. str_lower (lg_address log) \<in> trusted \<union> str_lower ` set auctions) (rc_logs receipt) =
    filter (\<lambda>log. str_lower (lg_address log) \<in> trusted \<union> str_lower ` set auctions) (rc_logs receipt')"
  shows "decode_receipt isaddr decoders trusted receipt auctions = decode_receipt isaddr decoders trusted receipt' auctions"
proof -
  have logs: "rc_logs (receipt_from_emitters receipt A) = rc_logs (receipt_from_emitters receipt' A)"
    if "A \<subseteq> trusted \<union> str_lower ` set auctions" for A
    unfolding receipt_from_emitters_logs by (rule filter_subset_eq [OF assms that])
  have auction: "placed_amounts isaddr decoders receipt a = placed_amounts isaddr decoders receipt' a"
    "decoded_settlements isaddr decoders receipt a = decoded_settlements isaddr decoders receipt' a"
    if "a \<in> set auctions" for a
  proof -
    have "rc_logs (receipt_from_emitters receipt {n}) = rc_logs (receipt_from_emitters receipt' {n})"
      if "normalize_address isaddr a = Inr n" for n
      using \<open>a \<in> set auctions\<close> that by (intro logs) (auto simp: normalize_address_Inr)
    then show "placed_amounts isaddr decoders receipt a = placed_amounts isaddr decoders receipt' a"
      "decoded_settlements isaddr decoders receipt a = decoded_settlements isaddr decoders receipt' a"
      by (auto simp: placed_amounts_def decoded_settlements_def intro: err_bind_cong)
  qed
  have "traverse_err f auctions = traverse_err g auctions" if "\<And>a. a \<in> set auctions \<Longrightarrow> f a = g a"
    for f g :: "string \<Rightarrow> exn + (((address \<times> address) \<times> int) list \<times> decoded_settlement list)"
    using that by (induction auctions) auto
  from this [of "\<lambda>a. err_bind (placed_amounts isaddr decoders receipt a) (\<lambda>amounts.
      err_bind (decoded_settlements isaddr decoders receipt a) (\<lambda>settled. Inr (amounts, settled)))"
      "\<lambda>a. err_bind (placed_amounts isaddr decoders receipt' a) (\<lambda>amounts.
      err_bind (decoded_settlements isaddr decoders receipt' a) (\<lambda>settled. Inr (amounts, settled)))"]
  show ?thesis unfolding decode_receipt_def using auction logs [of trusted] by simp
qed

text \<open>
  The amount of a decoded kick is the amount of the one \<open>AuctionKicked\<close> event of its pair;
  with none, or with several, it has no amount.
\<close>

lemma decode_kick_placed:
  assumes "decode_kick isaddr amounts args = Inr kick"
  shows "dk_placed_amount kick = Some amount \<longleftrightarrow>
    filter (\<lambda>(pair, _). pair = (dk_auction_address kick, dk_token_address kick)) amounts =
      [((dk_auction_address kick, dk_token_address kick), amount)]"
proof -
  obtain a t where pair: "dk_auction_address kick = a" "dk_token_address kick = t"
    and amount: "dk_placed_amount kick = (case filter (\<lambda>(pair, _). pair = (a, t)) amounts of [(_, x)] \<Rightarrow> Some x | _ \<Rightarrow> None)"
    using assms by (auto simp: decode_kick_def err_simps case_prod_beta)
  show ?thesis
  proof (cases "filter (\<lambda>(pair, _). pair = (a, t)) amounts")
    case (Cons p ps)
    then have "fst p = (a, t)" by (metis (mono_tags, lifting) Cons_eq_filterD case_prod_unfold)
    then show ?thesis using Cons pair amount by (cases p; cases ps) auto
  qed (simp add: pair amount)
qed

section \<open>A receipt touches its own rows only\<close>

text \<open>Rows the predicate picks come through unchanged.\<close>

definition keeps_rows :: "(kick_tx \<Rightarrow> bool) \<Rightarrow> kick_tx list \<Rightarrow> kick_tx list \<Rightarrow> bool" where
  "keeps_rows P kicks kicks' \<longleftrightarrow> kick_table_wf kicks' \<and>
     (\<forall>i row. kick_get kicks i = Some row \<longrightarrow> P row \<longrightarrow> kick_get kicks' i = Some row)"

lemma keeps_rows_refl: "kick_table_wf kicks \<Longrightarrow> keeps_rows P kicks kicks"
  by (simp add: keeps_rows_def)

lemma keeps_rows_trans: "keeps_rows P a b \<Longrightarrow> keeps_rows P b c \<Longrightarrow> keeps_rows P a c"
  by (simp add: keeps_rows_def)

lemma keeps_rows_update:
  assumes "keeps_rows P kicks0 kicks" "finalizing f" "\<forall>row. kick_get kicks0 i = Some row \<longrightarrow> \<not> P row"
  shows "keeps_rows P kicks0 (kick_update_fields i f kicks)"
  using assms identity_eq(1) [OF finalizing_identity [OF assms(2)]]
  by (auto simp: keeps_rows_def kick_get_update kick_table_wf_def)

lemma keeps_rows_insert:
  assumes "keeps_rows P kicks0 kicks"
  shows "keeps_rows P kicks0 (fst (kick_insert row kicks))"
  using assms kick_store.ins_keeps [of kicks _ _ row] wf_insert by (auto simp: keeps_rows_def)

lemma finalize_operations_keeps:
  assumes wf: "kick_table_wf (l_kicks db)"
    and rows: "\<forall>row \<in> set rows. \<forall>row'. kick_get (l_kicks db) (k_id row) = Some row' \<longrightarrow> \<not> P row'"
    and fin: "finalize_operations isaddr decode h receipt rows block db = Inr (db', e)"
  shows "keeps_rows P (l_kicks db) (l_kicks db') \<and> l_txs db' = l_txs db \<and> l_actions db' = l_actions db"
proof -
  note start = keeps_rows_refl [OF wf, of P]
  have plain: "keeps_rows P (l_kicks db) (fold (\<lambda>row. kick_update_fields (k_id row) f) rs kicks)"
    if "finalizing f" "set rs \<subseteq> set rows" "keeps_rows P (l_kicks db) kicks" for f rs kicks
    using that(2,3)
  proof (induction rs arbitrary: kicks)
    case (Cons r rs)
    have "keeps_rows P (l_kicks db) (kick_update_fields (k_id r) f kicks)"
      using Cons.prems rows by (intro keeps_rows_update [OF _ that(1)]) auto
    with Cons show ?case by simp
  qed simp
  have events: "keeps_rows P (l_kicks db) k2"
    if "fold_err (finalize_row isaddr tokens decoded facts) rows (l_kicks db, None) = Inr (k1, e1)"
      "fold_err (finalize_settlement tokens decoded facts h) settled k1 = Inr k2" for tokens decoded facts k1 e1 k2 settled
  proof -
    have step: "keeps_rows P (l_kicks db) (fst s')"
      if "row \<in> set rows" "keeps_rows P (l_kicks db) (fst s)" "finalize_row isaddr tokens decoded facts row s = Inr s'"
      for row s s'
    proof -
      note prems = that
      obtain kicks e kicks' e' where s: "s = (kicks, e)" "s' = (kicks', e')" by fastforce
      obtain f where f: "kicks' = kick_update_fields (k_id row) f kicks" "finalizing f"
        using finalize_row_update prems(3) unfolding s by metis
      show ?thesis
        using keeps_rows_update [OF _ f(2), of P "l_kicks db" kicks "k_id row"] rows prems(1,2) by (simp add: s f(1))
    qed
    have "keeps_rows P (l_kicks db) (fst (k1, e1))"
      by (rule fold_err_invariant [where P = "\<lambda>s. keeps_rows P (l_kicks db) (fst s)", OF that(1)]) (auto simp: start intro: step)
    then have "keeps_rows P (l_kicks db) k1" by simp
    then show ?thesis
      by (rule fold_err_invariant [where P = "keeps_rows P (l_kicks db)", OF that(2)])
        (auto simp: finalize_settlement_def Let_def err_simps split: option.splits intro: keeps_rows_insert)
  qed
  show ?thesis
  proof (cases "rows = []")
    case True
    with fin start show ?thesis by (simp add: finalize_operations_def)
  next
    case False
    obtain facts where facts: "receipt_facts_of receipt block = Inr facts"
      using fin False by (auto simp: finalize_operations_def err_simps)
    show ?thesis
    proof (cases "int_or_zero (rc_status receipt) = 1")
      case reverted: False
      then show ?thesis
        using fin False facts plain [OF finalizing_plain order_refl start] by (auto simp: finalize_operations_def)
    next
      case True
      then obtain auctions where auctions: "traverse_err (\<lambda>row. normalize_address isaddr (k_auction_address row)) rows = Inr auctions"
        using fin False facts by (auto simp: finalize_operations_def err_bind_Inr_iff)
      show ?thesis
      proof (cases "decode receipt (sorted_set auctions)")
        case (Inl e)
        then show ?thesis
          using fin False facts True auctions plain [OF finalizing_plain order_refl start]
          by (auto simp: finalize_operations_def)
      next
        case (Inr decoded)
        then show ?thesis
          using fin False facts True auctions
          by (auto simp: finalize_operations_def err_bind_Inr_iff intro: events)
      qed
    qed
  qed
qed

text \<open>The rows a receipt may not touch, given the API transactions that match it.\<close>

definition foreign :: "string \<Rightarrow> (action_tx \<times> string option) list \<Rightarrow> kick_tx \<Rightarrow> bool" where
  "foreign h valid row \<longleftrightarrow> k_tx_hash row \<noteq> Some h
     \<or> is_api_run row \<and> (\<forall>(tx, _) \<in> set valid. k_run_id row \<noteq> ''api-action:'' @ x_action_id tx)"

lemma stage_keeps:
  assumes wf: "kick_table_wf (l_kicks db)" and hashes: "\<forall>(tx, _) \<in> set valid. x_tx_hash tx = Some h"
    and stage: "fold_err (stage_action_operations r now) valid (db, {}) = Inr s"
  shows "keeps_rows (foreign h valid) (l_kicks db) (l_kicks (fst s))
    \<and> l_txs (fst s) = l_txs db \<and> l_actions (fst s) = l_actions db
    \<and> (\<forall>i row. kick_get (l_kicks db) i = Some row \<longrightarrow> foreign h valid row \<longrightarrow> i \<notin> snd s)"
proof (rule fold_err_invariant [OF stage])
  show "keeps_rows (foreign h valid) (l_kicks db) (l_kicks (fst (db, {} :: int set))) \<and> l_txs (fst (db, {} :: int set)) = l_txs db
    \<and> l_actions (fst (db, {} :: int set)) = l_actions db
    \<and> (\<forall>i row. kick_get (l_kicks db) i = Some row \<longrightarrow> foreign h valid row \<longrightarrow> i \<notin> snd (db, {}))"
    by (simp add: keeps_rows_refl wf)
next
  fix x and s t :: "ledger \<times> int set"
  assume x: "x \<in> set valid"
    and inv: "keeps_rows (foreign h valid) (l_kicks db) (l_kicks (fst s)) \<and> l_txs (fst s) = l_txs db
      \<and> l_actions (fst s) = l_actions db
      \<and> (\<forall>i row. kick_get (l_kicks db) i = Some row \<longrightarrow> foreign h valid row \<longrightarrow> i \<notin> snd s)"
    and step: "stage_action_operations r now x s = Inr t"
  obtain tx sender where tx: "x = (tx, sender)" by fastforce
  obtain action ids where action: "repo_get_action (fst s) (x_action_id tx) = Some action"
    and ens: "ensure_action_operations (rl_isaddr r) now action tx (fst s) = Inr (fst t, ids)" and t: "snd t = snd s \<union> ids"
    using step by (cases s; cases t) (auto simp: stage_action_operations_def tx err_simps split: option.splits)
  have run: "api_run_id action = ''api-action:'' @ x_action_id tx"
    using action by (auto simp: repo_get_action_def find_Some_iff api_run_id_def)
  have wf_s: "kick_table_wf (l_kicks (fst s))" using inv by (simp add: keeps_rows_def)
  have other: "kick_get (l_kicks (fst t)) i = Some row \<and> i \<notin> ids"
    if row: "kick_get (l_kicks db) i = Some row" "foreign h valid row" for i row
  proof (rule ensure_action_operations_others [OF ens wf_s])
    show "kick_get (l_kicks (fst s)) i = Some row" using inv row by (simp add: keeps_rows_def)
    show "k_run_id row \<noteq> api_run_id action \<or> k_tx_hash row \<noteq> x_tx_hash tx"
      using row(2) x tx hashes run by (fastforce simp: foreign_def)
  qed
  have "kick_table_wf (l_kicks (fst t))"
    using ensure_action_operations_cases [OF ens wf_s] wf_s by metis
  moreover have "l_txs (fst t) = l_txs (fst s)" "l_actions (fst t) = l_actions (fst s)"
    using arg_cong [OF ensure_action_operations_frame [OF ens], of l_txs]
      arg_cong [OF ensure_action_operations_frame [OF ens], of l_actions] by simp_all
  ultimately show "keeps_rows (foreign h valid) (l_kicks db) (l_kicks (fst t)) \<and> l_txs (fst t) = l_txs db
      \<and> l_actions (fst t) = l_actions db
      \<and> (\<forall>i row. kick_get (l_kicks db) i = Some row \<longrightarrow> foreign h valid row \<longrightarrow> i \<notin> snd t)"
    using inv other by (simp add: keeps_rows_def t)
qed

lemma record_verified_receipt_txs:
  assumes "record_verified_receipt action_id tx_index receipt now db = Inr db'" "tx \<in> set (l_txs db)" "tx_key tx \<noteq> (action_id, tx_index)"
  shows "tx \<in> set (l_txs db')"
  using assms
  by (auto simp: record_verified_receipt_def update_transaction_receipt_def update_txs_def Let_def tx_key_def
      split: option.splits intro!: image_eqI [where x = tx])

text \<open>The actions of a hash whose prepared transaction is the one the node reports under that hash on its chain.\<close>

definition mined_as_prepared :: "reconciler \<Rightarrow> string \<Rightarrow> receipt \<Rightarrow> action_tx \<times> string option \<Rightarrow> bool" where
  "mined_as_prepared r h receipt = (\<lambda>(tx, sender). \<exists>transaction chain_id.
     nd_transaction (rl_node r) h = Inr transaction \<and> nd_chain_id (rl_node r) = Inr chain_id
     \<and> matches_prepared_transaction (rl_hexbytes r) tx sender transaction receipt h chain_id = Inr True)"

lemma valid_actions_props:
  assumes "valid_actions r h receipt rows = Inr valid"
  shows "valid = filter (mined_as_prepared r h receipt) rows"
proof (cases "rows = []")
  case True
  with assms show ?thesis by (simp add: valid_actions_def)
next
  case False
  then obtain transaction chain_id where node: "nd_transaction (rl_node r) h = Inr transaction" "nd_chain_id (rl_node r) = Inr chain_id"
    and filt: "filter_err (\<lambda>(row, sender).
      matches_prepared_transaction (rl_hexbytes r) row sender transaction receipt h chain_id) rows = Inr valid"
    using assms(1) by (auto simp: valid_actions_def err_bind_Inr_iff)
  show ?thesis unfolding filter_err_Inr [OF filt] by (rule filter_cong) (auto simp: mined_as_prepared_def node)
qed

text \<open>
  C21. Finalising a receipt touches only what belongs to its transaction. Of the operation
  rows already stored, one changes only if it carries the hash and, when an API action wrote
  it, that action has a transaction with this hash whose prepared chain, target, call data,
  value and sender match the transaction the node reports for the hash; a row the executor
  wrote itself is finalised on its hash alone. Of the action transactions, only those
  matching ones change.
\<close>

theorem finalize_receipt_needs_match:
  assumes wf: "kick_table_wf (l_kicks db)"
    and fin: "finalize_receipt r now h receipt db = Inr (db', e)"
  shows "\<exists>valid. valid = filter (mined_as_prepared r h receipt) (action_list_by_tx_hash db h)
    \<and> keeps_rows (foreign h valid) (l_kicks db) (l_kicks db')
    \<and> (\<forall>tx \<in> set (l_txs db). tx_key tx \<notin> (\<lambda>v. tx_key (fst v)) ` set valid \<longrightarrow> tx \<in> set (l_txs db'))"
proof -
  obtain valid where valid: "valid_actions r h receipt (action_list_by_tx_hash db h) = Inr valid"
    using fin by (auto simp: finalize_receipt_def Let_def err_bind_Inr_iff)
  note matched = valid_actions_props [OF valid]
  have hashes: "\<forall>(tx, _) \<in> set valid. x_tx_hash tx = Some h"
    unfolding matched by (auto simp: action_list_by_tx_hash_def)
  show ?thesis
  proof (cases "valid = [] \<and> list_by_tx_hash (l_kicks db) h = []")
    case True
    then have "db' = db" using fin valid by (auto simp: finalize_receipt_def)
    then show ?thesis using matched wf by (auto simp: keeps_rows_refl)
  next
    case False
    then obtain block db1 ids db2 error where
      stage: "fold_err (stage_action_operations r now) valid (db, {}) = Inr (db1, ids)"
      and ops: "finalize_operations (rl_isaddr r) (rl_decode r) h receipt
        (filter (\<lambda>row. \<not> is_api_run row \<or> k_id row \<in> ids) (list_by_tx_hash (l_kicks db1) h)) block db1 = Inr (db2, error)"
      and receipts: "fold_err (\<lambda>(row, _). record_verified_receipt (x_action_id row) (x_tx_index row) receipt now) valid db2 = Inr db'"
      using fin valid unfolding finalize_receipt_def Let_def by (auto simp: err_bind_Inr_iff)
    note staged = stage_keeps [OF wf hashes stage, simplified]
    have wf1: "kick_table_wf (l_kicks db1)" using staged by (simp add: keeps_rows_def)
    define P where "P = (\<lambda>row. foreign h valid row \<and> kick_get (l_kicks db) (k_id row) = Some row)"
    have "\<not> P row'" if row: "row \<in> set (filter (\<lambda>row. \<not> is_api_run row \<or> k_id row \<in> ids) (list_by_tx_hash (l_kicks db1) h))"
      "kick_get (l_kicks db1) (k_id row) = Some row'" for row row'
    proof -
      have "row' = row" using row wf1 find_Some_iff_unique [of "l_kicks db1" "k_id row" row]
        by (auto simp: list_by_tx_hash_def kick_table_wf_def)
      then show ?thesis using row(1) staged by (auto simp: P_def foreign_def list_by_tx_hash_def)
    qed
    with finalize_operations_keeps [OF wf1 _ ops, of P]
    have kept: "keeps_rows P (l_kicks db1) (l_kicks db2)" and txs: "l_txs db2 = l_txs db1" by blast+
    have kicks': "l_kicks db' = l_kicks db2"
      by (rule fold_err_invariant [where P = "\<lambda>db. l_kicks db = l_kicks db2", OF receipts])
        (auto dest: record_verified_receipt_kicks)
    have "keeps_rows (foreign h valid) (l_kicks db) (l_kicks db')"
      unfolding kicks' keeps_rows_def
    proof (intro conjI allI impI)
      show "kick_table_wf (l_kicks db2)" using kept by (simp add: keeps_rows_def)
      fix i row assume row: "kick_get (l_kicks db) i = Some row" "foreign h valid row"
      then have "kick_get (l_kicks db1) i = Some row" using staged by (simp add: keeps_rows_def)
      moreover have "P row" using row kick_get_key [OF row(1)] by (simp add: P_def)
      ultimately show "kick_get (l_kicks db2) i = Some row" using kept by (simp add: keeps_rows_def)
    qed
    moreover have "tx \<in> set (l_txs db')" if tx: "tx \<in> set (l_txs db)" "tx_key tx \<notin> (\<lambda>v. tx_key (fst v)) ` set valid" for tx
    proof (rule fold_err_invariant [where P = "\<lambda>db. tx \<in> set (l_txs db)", OF receipts])
      show "tx \<in> set (l_txs db2)" using tx(1) txs staged by simp
      fix v s t assume v: "v \<in> set valid" and s: "tx \<in> set (l_txs s)"
        and t: "(case v of (row, _) \<Rightarrow> record_verified_receipt (x_action_id row) (x_tx_index row) receipt now) s = Inr t"
      have "tx_key tx \<noteq> tx_key (fst v)" using tx(2) v by blast
      then show "tx \<in> set (l_txs t)"
        using t s record_verified_receipt_txs [of "x_action_id (fst v)" "x_tx_index (fst v)" receipt now s t tx]
        by (simp add: case_prod_beta tx_key_def [of "fst v"])
    qed
    ultimately show ?thesis using matched by blast
  qed
qed

section \<open>A concrete receipt\<close>

definition sample_transaction :: "(string \<times> json) list" where
  "sample_transaction = [(''hash'', JStr ''h''), (''to'', JStr ''K''), (''input'', JStr ''0x01''), (''value'', JInt 0)]"

definition matching_reconciler :: reconciler where
  "matching_reconciler = sample_reconciler
     \<lparr>rl_node := (rl_node sample_reconciler)\<lparr>nd_transaction := (\<lambda>_. Inr sample_transaction)\<rparr>,
      rl_decode := (\<lambda>_ _. Inr \<lparr>de_kicks = [], de_resolves = [], de_sweeps = [], de_settlements = []\<rparr>)\<rparr>"

theorem matches_prepared_transaction_sound_witness:
  "matches_prepared_transaction Inr sample_tx None sample_transaction sample_receipt ''h'' 1 = Inr True
    \<and> (\<exists>to. text_item sample_transaction ''to'' = Inr to \<and> str_lower to = str_lower (x_to_address sample_tx))"
proof -
  have "matches_prepared_transaction Inr sample_tx None sample_transaction sample_receipt ''h'' 1 = Inr True"
    by code_simp
  from matches_prepared_transaction_sound [OF this] this show ?thesis by blast
qed

definition sample_decoders :: event_decoders where
  "sample_decoders = \<lparr>ed_kicked = [], ed_resolved = (\<lambda>_. Some (''a'', ''t'', 1, 5)), ed_swept = (\<lambda>_. None),
     ed_auction_kicked = (\<lambda>_. None), ed_auction_settled = (\<lambda>_. None)\<rparr>"

definition log_of :: "string \<Rightarrow> chain_log" where
  "log_of address = \<lparr>lg_address = address, lg_topics = [], lg_data = []\<rparr>"

theorem decode_receipt_trusts_emitters_witness:
  "decode_receipt (\<lambda>_. True) sample_decoders {''k''} (sample_receipt\<lparr>rc_logs := [log_of ''x'', log_of ''K'']\<rparr>) [''a''] =
     decode_receipt (\<lambda>_. True) sample_decoders {''k''} (sample_receipt\<lparr>rc_logs := [log_of ''K'']\<rparr>) [''a'']
    \<and> sample_receipt\<lparr>rc_logs := [log_of ''x'', log_of ''K'']\<rparr> \<noteq> sample_receipt\<lparr>rc_logs := [log_of ''K'']\<rparr>"
proof -
  have "filter (\<lambda>log. str_lower (lg_address log) \<in> {''k''} \<union> str_lower ` set [''a''])
      (rc_logs (sample_receipt\<lparr>rc_logs := [log_of ''x'', log_of ''K'']\<rparr>)) =
    filter (\<lambda>log. str_lower (lg_address log) \<in> {''k''} \<union> str_lower ` set [''a''])
      (rc_logs (sample_receipt\<lparr>rc_logs := [log_of ''K'']\<rparr>))" by code_simp
  from decode_receipt_trusts_emitters [OF this] show ?thesis by (simp add: sample_receipt_def)
qed

theorem finalize_receipt_needs_match_witness:
  "\<exists>db db' valid. finalize_receipt matching_reconciler ''now'' ''h'' sample_receipt db = Inr (db', None)
    \<and> keeps_rows (foreign ''h'' valid) (l_kicks db) (l_kicks db') \<and> map (\<lambda>(tx, _). x_action_id tx) valid = [''id'']
    \<and> map k_status (l_kicks db) = [''SUBMITTED''] \<and> map k_status (l_kicks db') = [''CONFIRMED'']"
proof -
  have check: "case sample_broadcast of Inl _ \<Rightarrow> False | Inr (db, rows) \<Rightarrow>
      kick_table_wf (l_kicks db) \<and> map k_status (l_kicks db) = [''SUBMITTED'']
      \<and> (case finalize_receipt matching_reconciler ''now'' ''h'' sample_receipt db of
           Inl _ \<Rightarrow> False | Inr (db', e) \<Rightarrow> e = None \<and> map k_status (l_kicks db') = [''CONFIRMED''])
      \<and> (case valid_actions matching_reconciler ''h'' sample_receipt (action_list_by_tx_hash db ''h'') of
           Inl _ \<Rightarrow> False | Inr valid \<Rightarrow> map (\<lambda>(tx, _). x_action_id tx) valid = [''id''])"
    by code_simp
  obtain db rows where broadcast: "sample_broadcast = Inr (db, rows)" by (rule sample_run)
  note facts = check [unfolded broadcast sum.case prod.case]
  have run: "kick_table_wf (l_kicks db)" "map k_status (l_kicks db) = [''SUBMITTED'']"
    and fin: "case finalize_receipt matching_reconciler ''now'' ''h'' sample_receipt db of
           Inl _ \<Rightarrow> False | Inr (db', e) \<Rightarrow> e = None \<and> map k_status (l_kicks db') = [''CONFIRMED'']"
    and valid: "case valid_actions matching_reconciler ''h'' sample_receipt (action_list_by_tx_hash db ''h'') of
           Inl _ \<Rightarrow> False | Inr valid \<Rightarrow> map (\<lambda>(tx, _). x_action_id tx) valid = [''id'']"
    using facts by blast+
  obtain db' where db': "finalize_receipt matching_reconciler ''now'' ''h'' sample_receipt db = Inr (db', None)"
    "map k_status (l_kicks db') = [''CONFIRMED'']"
    using fin by (cases "finalize_receipt matching_reconciler ''now'' ''h'' sample_receipt db") auto
  obtain valid where acts: "valid_actions matching_reconciler ''h'' sample_receipt (action_list_by_tx_hash db ''h'') = Inr valid"
    "map (\<lambda>(tx, _). x_action_id tx) valid = [''id'']"
    using valid by (cases "valid_actions matching_reconciler ''h'' sample_receipt (action_list_by_tx_hash db ''h'')") auto
  from finalize_receipt_needs_match [OF run(1) db'(1), folded valid_actions_props [OF acts(1)]] run db' acts show ?thesis
    by (intro exI [of _ db] exI [of _ db'] exI [of _ valid]) blast
qed

end
