(* ===== verification/ActionViews.thy ===== *)
theory ActionViews
  imports ActionAudit Rpc
begin

text \<open>
  The read side of \<open>tidal/api/services/action_audit.py\<close>: \<open>list_actions\<close>, \<open>get_action\<close> and the
  views they build. A view is a record with one field per key; receipt data of a transaction
  is shown only once the receipt is verified.
\<close>

record transaction_payload =
  tp_id :: int
  tp_tx_index :: int
  tp_operation :: string
  tp_to :: string
  tp_data :: string
  tp_value :: string
  tp_chain_id :: int
  tp_gas_estimate :: "int option"
  tp_gas_limit :: "int option"
  tp_tx_hash :: "string option"
  tp_broadcast_at :: "string option"
  tp_receipt_status :: "string option"
  tp_verified_at :: "string option"
  tp_block_number :: "int option"
  tp_gas_used :: "int option"
  tp_gas_price_gwei :: "string option"
  tp_error_message :: "string option"
  tp_created_at :: string
  tp_updated_at :: string

record action_summary =
  as_action_id :: string
  as_action_type :: string
  as_status :: string
  as_operator_id :: string
  as_sender :: "string option"
  as_auction_address :: "string option"
  as_source_address :: "string option"
  as_token_address :: "string option"
  as_created_at :: string
  as_updated_at :: string
  as_transaction_count :: nat
  as_transactions :: "transaction_payload list"

record action_detail =
  ad_summary :: action_summary
  ad_resource_address :: "string option"
  ad_request :: "(string \<times> json) list"
  ad_preview :: "(string \<times> json) list"
  ad_error_message :: "string option"

definition if_verified :: "action_tx \<Rightarrow> 'a option \<Rightarrow> 'a option" where
  "if_verified row v = (if text_truth (x_verified_at row) then v else None)"

definition transaction_payload_of :: "action_tx \<Rightarrow> transaction_payload" where
  "transaction_payload_of row =
     \<lparr>tp_id = x_id row, tp_tx_index = x_tx_index row, tp_operation = x_operation row, tp_to = x_to_address row,
      tp_data = x_data row, tp_value = x_value row, tp_chain_id = x_chain_id row, tp_gas_estimate = x_gas_estimate row,
      tp_gas_limit = x_gas_limit row, tp_tx_hash = x_tx_hash row, tp_broadcast_at = x_broadcast_at row,
      tp_receipt_status = if_verified row (x_receipt_status row), tp_verified_at = x_verified_at row,
      tp_block_number = if_verified row (x_block_number row), tp_gas_used = if_verified row (x_gas_used row),
      tp_gas_price_gwei = if_verified row (x_gas_price_gwei row),
      tp_error_message = if_verified row (x_error_message row), tp_created_at = x_created_at row,
      tp_updated_at = x_updated_at row\<rparr>"

definition action_summary_of :: "api_action \<Rightarrow> action_tx list \<Rightarrow> action_summary" where
  "action_summary_of action transactions =
     \<lparr>as_action_id = a_action_id action, as_action_type = a_action_type action,
      as_status = calculate_action_status transactions, as_operator_id = a_operator_id action,
      as_sender = a_sender action, as_auction_address = a_auction_address action,
      as_source_address = a_source_address action, as_token_address = a_token_address action,
      as_created_at = a_created_at action, as_updated_at = a_updated_at action,
      as_transaction_count = length transactions, as_transactions = map transaction_payload_of transactions\<rparr>"

definition action_detail_of :: "api_action \<Rightarrow> action_tx list \<Rightarrow> action_detail" where
  "action_detail_of action transactions =
     \<lparr>ad_summary = action_summary_of action transactions, ad_resource_address = a_resource_address action,
      ad_request = decode_json (a_request action), ad_preview = decode_json (a_preview action),
      ad_error_message =
        (if list_all (\<lambda>row. text_truth (x_verified_at row)) transactions then a_error_message action else None)\<rparr>"

definition get_action :: "ledger \<Rightarrow> string \<Rightarrow> action_detail option" where
  "get_action db action_id = map_option (\<lambda>row. action_detail_of row (get_action_transactions db action_id))
     (repo_get_action db action_id)"

definition list_actions ::
  "ledger \<Rightarrow> int \<Rightarrow> int \<Rightarrow> string option \<Rightarrow> string option \<Rightarrow> string option \<Rightarrow> action_summary list \<times> nat" where
  "list_actions db limit offset operator_id status action_type =
     (map (\<lambda>row. action_summary_of row (get_action_transactions db (a_action_id row)))
        (repo_list_actions db limit offset operator_id status action_type),
      length (filter (action_matches operator_id status action_type) (l_actions db)))"

text \<open>
  The pages of the action listing, concatenated, are exactly the whole listing, whose
  length is the reported total and whose actions are exactly those that match the filters.
\<close>

theorem list_actions_pages:
  assumes "0 < page_size" "n_total = snd (list_actions db page_size 0 operator_id status action_type)"
  shows "concat (map (\<lambda>page. fst (list_actions db page_size (int page * page_size) operator_id status action_type))
      [0..<(n_total + nat page_size - 1) div nat page_size]) =
    fst (list_actions db (- 1) 0 operator_id status action_type)
    \<and> length (fst (list_actions db (- 1) 0 operator_id status action_type)) = n_total
    \<and> as_action_id ` set (fst (list_actions db (- 1) 0 operator_id status action_type)) =
        a_action_id ` {action \<in> set (l_actions db). action_matches operator_id status action_type action}"
proof -
  define rows where "rows = sort_desc a_created_at (filter (action_matches operator_id status action_type) (l_actions db))"
  define view where "view = (\<lambda>row. action_summary_of row (get_action_transactions db (a_action_id row)))"
  have total: "length rows = n_total" using assms(2) by (simp add: rows_def list_actions_def)
  have page: "fst (list_actions db page_size (int p * page_size) operator_id status action_type) =
      map view (take (nat page_size) (drop (p * nat page_size) rows))" for p
    using assms(1) by (simp add: list_actions_def repo_list_actions_def sql_limit_def rows_def view_def nat_mult_distrib)
  have everything: "fst (list_actions db (- 1) 0 operator_id status action_type) = map view rows"
    by (simp add: list_actions_def repo_list_actions_def sql_limit_def rows_def view_def)
  have pages: "concat (map (\<lambda>p. take (nat page_size) (drop (p * nat page_size) rows)) [0..<(n_total + nat page_size - 1) div nat page_size]) = rows"
    using concat_chunk_calls [of "nat page_size" rows] assms(1) total by (cases "rows = []") (auto simp: chunk_calls_def)
  have "concat (map (\<lambda>p. map view (take (nat page_size) (drop (p * nat page_size) rows))) [0..<(n_total + nat page_size - 1) div nat page_size]) =
      map view (concat (map (\<lambda>p. take (nat page_size) (drop (p * nat page_size) rows)) [0..<(n_total + nat page_size - 1) div nat page_size]))"
    by (simp add: map_concat comp_def)
  moreover have "as_action_id (view row) = a_action_id row" for row
    by (simp add: view_def action_summary_of_def)
  moreover have "set rows = {action \<in> set (l_actions db). action_matches operator_id status action_type action}"
    by (auto simp: rows_def)
  ultimately show ?thesis
    using total pages [simplified] by (simp add: page everything image_image)
qed

definition sample_listing :: ledger where
  "sample_listing = empty_ledger\<lparr>l_actions := map (\<lambda>id. \<lparr>a_action_id = id, a_action_type = ''kick'', a_status = ''PREPARED'',
     a_operator_id = ''op'', a_sender = None, a_resource_address = None, a_auction_address = None,
     a_source_address = None, a_token_address = None, a_request = JNull, a_preview = JNull, a_error_message = None,
     a_created_at = id, a_updated_at = id\<rparr>) [''1'', ''2'', ''3'']\<rparr>"

theorem list_actions_pages_witness:
  "concat (map (\<lambda>page. fst (list_actions sample_listing 2 (int page * 2) None None None)) [0..<2]) =
     fst (list_actions sample_listing (- 1) 0 None None None)
    \<and> map as_action_id (fst (list_actions sample_listing (- 1) 0 None None None)) = [''3'', ''2'', ''1'']"
proof -
  have "snd (list_actions sample_listing 2 0 None None None) = 3" by code_simp
  moreover have "map as_action_id (fst (list_actions sample_listing (- 1) 0 None None None)) = [''3'', ''2'', ''1'']"
    by code_simp
  ultimately show ?thesis
    using list_actions_pages [of 2 3 sample_listing None None None] by simp
qed

end
