(* ===== verification/Candidates.thy ===== *)
theory Candidates
  imports Normalizers Rounds "HOL-Library.Log_Nat"
begin

text \<open>
  The first half of \<open>tidal/transaction_service/evaluator.py\<close>: the rows the shortlist query
  selects, the candidates built from them, the cached enablement filter and the ordering. A table is
  the list of its rows; \<open>NULL\<close> is \<open>None\<close> and never satisfies a comparison. Floats are the
  finite IEEE doubles, as rationals rounded to 53 bits (half to even); texts that denote infinities,
  NaN or overflow do not occur in the columns.
\<close>

section \<open>Doubles\<close>

text \<open>The exponent of the leading bit.\<close>

definition rat_log2 :: "rat \<Rightarrow> int" where
  "rat_log2 x =
     (case quotient_of x of (p, q) \<Rightarrow>
       let k = bitlen p - bitlen q
       in if (if 0 \<le> k then q * 2 ^ nat k \<le> p else q \<le> p * 2 ^ nat (- k)) then k else k - 1)"

definition rat_half_even :: "rat \<Rightarrow> int" where
  "rat_half_even x = (case quotient_of x of (p, q) \<Rightarrow> div_half_even p q)"

definition double_round :: "rat \<Rightarrow> rat" where
  "double_round x =
     (if x = 0 then 0
      else let unit = 2 powi max (- 1074) (rat_log2 \<bar>x\<bar> - 52) in of_int (rat_half_even (x / unit)) * unit)"

definition py_float :: "string \<Rightarrow> rat option" where
  "py_float text = map_option (\<lambda>d. double_round (dec_val d)) (dec_of_string text)"

definition float_mul :: "rat \<Rightarrow> rat \<Rightarrow> rat" where
  "float_mul x y = double_round (x * y)"

section \<open>Tables\<close>

text \<open>\<open>strategies\<close> and \<open>fee_burners\<close>; a fee burner has no vault.\<close>

record source_table_row =
  so_address :: string
  so_vault_address :: "string option"
  so_name :: "string option"
  so_active :: int
  so_auction_address :: "string option"
  so_want_address :: "string option"
  so_auction_version :: "string option"

record token_row =
  to_address :: string
  to_symbol :: "string option"
  to_decimals :: int
  to_price_usd :: "string option"
  to_price_status :: "string option"
  to_price_fetched_at :: "string option"

record balance_row =
  ba_source_address :: string
  ba_token_address :: string
  ba_normalized_balance :: string
  ba_scanned_at :: string

record vault_row =
  va_address :: string
  va_name :: "string option"
  va_symbol :: "string option"

record scan_tables =
  st_vaults :: "vault_row list"
  st_strategies :: "source_table_row list"
  st_fee_burners :: "source_table_row list"
  st_tokens :: "token_row list"
  st_strategy_balances :: "balance_row list"
  st_fee_burner_balances :: "balance_row list"
  st_enabled_scans :: "(string \<times> string) list"
  st_enabled_tokens :: "(string \<times> string \<times> int) list"

record kick_candidate =
  ca_source_type :: string
  ca_source_address :: string
  ca_token_address :: string
  ca_auction_address :: string
  ca_normalized_balance :: string
  ca_price_usd :: string
  ca_want_address :: string
  ca_usd_value :: rat
  ca_decimals :: int
  ca_auction_version :: "string option"
  ca_source_name :: "string option"
  ca_context_type :: "string option"
  ca_context_address :: "string option"
  ca_context_name :: "string option"
  ca_context_symbol :: "string option"
  ca_token_symbol :: "string option"
  ca_want_symbol :: "string option"

section \<open>The query\<close>

definition row_with :: "('r \<Rightarrow> 'k) \<Rightarrow> 'k \<Rightarrow> 'r list \<Rightarrow> 'r option" where
  "row_with key k rows = find (\<lambda>row. key row = k) rows"

definition at_least :: "string option \<Rightarrow> string \<Rightarrow> bool" where
  "at_least column bound \<longleftrightarrow> (case column of None \<Rightarrow> False | Some v \<Rightarrow> bound \<le> v)"

text \<open>
  The value of a balance, if the row passes the query and the checks of the loop: both conversions
  to float succeed and the product reaches the threshold.
\<close>

definition candidate_of ::
  "rat \<Rightarrow> string \<Rightarrow> token_row list \<Rightarrow> string \<Rightarrow> source_table_row \<Rightarrow> token_row \<Rightarrow> balance_row \<Rightarrow> kick_candidate option" where
  "candidate_of usd_threshold min_timestamp tokens source_type source token balance =
     (case (so_auction_address source, so_want_address source, to_price_usd token) of
       (Some auction, Some want, Some price_usd) \<Rightarrow>
         if to_price_status token = Some ''SUCCESS'' \<and> min_timestamp \<le> ba_scanned_at balance
           \<and> at_least (to_price_fetched_at token) min_timestamp \<and> ba_token_address balance \<noteq> want
         then (case (py_float (ba_normalized_balance balance), py_float price_usd) of
           (Some amount, Some price) \<Rightarrow>
             let usd_value = float_mul amount price in
             if usd_value < usd_threshold then None
             else Some \<lparr>ca_source_type = source_type, ca_source_address = ba_source_address balance,
               ca_token_address = ba_token_address balance, ca_auction_address = auction,
               ca_normalized_balance = ba_normalized_balance balance, ca_price_usd = price_usd, ca_want_address = want,
               ca_usd_value = usd_value, ca_decimals = to_decimals token, ca_auction_version = so_auction_version source,
               ca_source_name = so_name source, ca_context_type = None, ca_context_address = None,
               ca_context_name = None, ca_context_symbol = None, ca_token_symbol = to_symbol token,
               ca_want_symbol = Option.bind (row_with to_address want tokens) to_symbol\<rparr>
         | _ \<Rightarrow> None)
         else None
     | _ \<Rightarrow> None)"

text \<open>The vault columns of a strategy row, empty when the outer join finds none.\<close>

definition vault_context :: "vault_row list \<Rightarrow> source_table_row \<Rightarrow> kick_candidate \<Rightarrow> kick_candidate" where
  "vault_context vaults source candidate =
     (let vault = Option.bind (so_vault_address source) (\<lambda>a. row_with va_address a vaults)
      in candidate\<lparr>ca_context_type := Some ''vault'', ca_context_address := map_option va_address vault,
           ca_context_name := Option.bind vault va_name, ca_context_symbol := Option.bind vault va_symbol\<rparr>)"

definition join_balances ::
  "source_table_row list \<Rightarrow> token_row list \<Rightarrow> (source_table_row \<Rightarrow> token_row \<Rightarrow> balance_row \<Rightarrow> kick_candidate option)
     \<Rightarrow> balance_row list \<Rightarrow> kick_candidate list" where
  "join_balances sources tokens build balances =
     List.map_filter (\<lambda>balance.
       case (row_with so_address (ba_source_address balance) sources, row_with to_address (ba_token_address balance) tokens) of
         (Some source, Some token) \<Rightarrow> build source token balance
       | _ \<Rightarrow> None) balances"

definition query_candidates :: "rat \<Rightarrow> string \<Rightarrow> scan_tables \<Rightarrow> kick_candidate list" where
  "query_candidates usd_threshold min_timestamp db =
     join_balances (st_strategies db) (st_tokens db)
       (\<lambda>source token balance. map_option (vault_context (st_vaults db) source)
          (candidate_of usd_threshold min_timestamp (st_tokens db) ''strategy'' source token balance))
       (st_strategy_balances db) @
     join_balances (st_fee_burners db) (st_tokens db)
       (candidate_of usd_threshold min_timestamp (st_tokens db) ''fee_burner'') (st_fee_burner_balances db)"

section \<open>Order and enablement\<close>

type_synonym sort_key = "rat \<times> string \<times> string \<times> string"

definition candidate_sort_key :: "kick_candidate \<Rightarrow> sort_key" where
  "candidate_sort_key c = (- ca_usd_value c, ca_auction_address c, ca_source_address c, ca_token_address c)"

definition sort_candidates :: "kick_candidate list \<Rightarrow> kick_candidate list" where
  "sort_candidates candidates = sort_key candidate_sort_key candidates"

definition best_by_auction :: "kick_candidate list \<Rightarrow> (string \<times> kick_candidate) list" where
  "best_by_auction candidates =
     fold (\<lambda>candidate best.
       case map_of best (ca_auction_address candidate) of
         None \<Rightarrow> dict_set (ca_auction_address candidate) candidate best
       | Some current \<Rightarrow>
           if candidate_sort_key candidate < candidate_sort_key current
           then dict_set (ca_auction_address candidate) candidate best else best) candidates []"

definition best_candidate_per_auction :: "kick_candidate list \<Rightarrow> kick_candidate list" where
  "best_candidate_per_auction candidates = sort_candidates (map snd (best_by_auction candidates))"

definition filter_by_cached_auction_enablement :: "scan_tables \<Rightarrow> kick_candidate list \<Rightarrow> kick_candidate list" where
  "filter_by_cached_auction_enablement db candidates =
     (let enabled_pairs = set (map (\<lambda>(auction, token, _). (auction, token))
       (filter (\<lambda>(_, _, active). active = 1) (st_enabled_tokens db)))
      in filter (\<lambda>c. map_of (st_enabled_scans db) (ca_auction_address c) = Some ''SUCCESS'' \<longrightarrow>
           (ca_auction_address c, ca_token_address c) \<in> enabled_pairs) candidates)"

section \<open>The best candidate of each auction\<close>

lemma best_by_auction_append:
  "best_by_auction (cs @ [c]) = (case map_of (best_by_auction cs) (ca_auction_address c) of
       None \<Rightarrow> dict_set (ca_auction_address c) c (best_by_auction cs)
     | Some current \<Rightarrow> if candidate_sort_key c < candidate_sort_key current
         then dict_set (ca_auction_address c) c (best_by_auction cs) else best_by_auction cs)"
  by (simp add: best_by_auction_def split: option.split)

lemma distinct_best_by_auction: "distinct (map fst (best_by_auction cs))"
  by (induction cs rule: rev_induct) (auto simp: best_by_auction_append best_by_auction_def [of "[]"] split: option.split)

lemma best_by_auction_get:
  "case map_of (best_by_auction cs) a of
     None \<Rightarrow> \<forall>d \<in> set cs. ca_auction_address d \<noteq> a
   | Some c \<Rightarrow> c \<in> set cs \<and> ca_auction_address c = a
       \<and> (\<forall>d \<in> set cs. ca_auction_address d = a \<longrightarrow> candidate_sort_key c \<le> candidate_sort_key d)"
proof (induction cs rule: rev_induct)
  case (snoc c cs)
  then show ?case by (auto simp: best_by_auction_append split: option.splits)
qed (simp add: best_by_auction_def)

lemma best_by_auction_entry:
  "(a, c) \<in> set (best_by_auction cs) \<longleftrightarrow> map_of (best_by_auction cs) a = Some c"
  using distinct_best_by_auction [of cs] by (simp add: map_of_eq_Some_iff)

lemma best_by_auction_key: "(a, c) \<in> set (best_by_auction cs) \<Longrightarrow> ca_auction_address c = a"
  using best_by_auction_get [where cs = cs and a = a] by (simp add: best_by_auction_entry)

lemma best_candidate_per_auction_iff:
  "c \<in> set (best_candidate_per_auction cs) \<longleftrightarrow> map_of (best_by_auction cs) (ca_auction_address c) = Some c"
  by (auto simp: best_candidate_per_auction_def sort_candidates_def best_by_auction_key
      simp flip: best_by_auction_entry intro: image_eqI [where x = "(_, c)"])

lemma distinct_best_auctions: "distinct (map ca_auction_address (best_candidate_per_auction cs))"
proof -
  have "map (\<lambda>p. ca_auction_address (snd p)) (best_by_auction cs) = map fst (best_by_auction cs)"
    by (rule map_cong [OF refl]) (auto simp: best_by_auction_key)
  then have "distinct (map (\<lambda>p. ca_auction_address (snd p)) (best_by_auction cs))"
    by (simp only: distinct_best_by_auction)
  then show ?thesis by (simp add: best_candidate_per_auction_def sort_candidates_def comp_def)
qed

end
