(* ===== verification/KickPolicy.thy ===== *)
theory KickPolicy
  imports Normalizers Json
begin

text \<open>
  \<open>tidal/transaction_service/kick_policy.py\<close>: the kick configuration, read from the values
  \<open>yaml.safe_load\<close> returns (mappings have text keys, numbers are finite), and the questions the
  service asks of it. Every check that raises is a branch. The theorems show what a caller may rely
  on once a configuration was accepted.
\<close>

section \<open>The policies\<close>

record pricing_profile =
  pf_name :: string
  pf_start_price_buffer_bps :: int
  pf_min_price_buffer_bps :: int
  pf_step_decay_rate_bps :: int
  pf_outlier_floor_enabled :: bool

record pricing_policy =
  pp_default_profile_name :: string
  pp_profiles :: "(string \<times> pricing_profile) list"
  pp_profile_overrides :: "((address \<times> address) \<times> string) list"

record token_sizing_policy =
  ts_default_limit :: "dec option"
  ts_token_overrides :: "(address \<times> dec) list"

record ignore_policy =
  ig_ignored_sources :: "address set"
  ig_ignored_auctions :: "address set"
  ig_ignored_auction_tokens :: "(address \<times> address) set"

record cooldown_policy =
  cd_default_minutes :: int
  cd_auction_token_overrides_minutes :: "((address \<times> address) \<times> int) list"

record kick_config =
  kc_pricing_policy :: pricing_policy
  kc_token_sizing_policy :: token_sizing_policy
  kc_ignore_policy :: ignore_policy
  kc_cooldown_policy :: cooldown_policy
  kc_retry_delays_minutes :: "int list"

definition normalize_lookup_value :: "(string \<Rightarrow> bool) \<Rightarrow> string \<Rightarrow> string" where
  "normalize_lookup_value isaddr value =
     (case normalize_address isaddr value of Inr normalized \<Rightarrow> normalized | Inl _ \<Rightarrow> str_lower value)"

definition pricing_resolve :: "(string \<Rightarrow> bool) \<Rightarrow> pricing_policy \<Rightarrow> string \<Rightarrow> string \<Rightarrow> pricing_profile result" where
  "pricing_resolve isaddr policy auction_address sell_token =
     err_bind (normalize_address isaddr auction_address) (\<lambda>auction_key.
     err_bind (normalize_address isaddr sell_token) (\<lambda>sell_token_key.
     let profile_name = (case map_of (pp_profile_overrides policy) (auction_key, sell_token_key) of
         Some name \<Rightarrow> name | None \<Rightarrow> pp_default_profile_name policy)
     in (case map_of (pp_profiles policy) profile_name of
         Some profile \<Rightarrow> Inr profile | None \<Rightarrow> Inl (KeyError profile_name))))"

definition token_sizing_resolve :: "(string \<Rightarrow> bool) \<Rightarrow> token_sizing_policy \<Rightarrow> string \<Rightarrow> dec option result" where
  "token_sizing_resolve isaddr policy token_address =
     err_bind (normalize_address isaddr token_address) (\<lambda>token.
       Inr (case map_of (ts_token_overrides policy) token of Some limit \<Rightarrow> Some limit | None \<Rightarrow> ts_default_limit policy))"

definition ignore_match :: "(string \<Rightarrow> bool) \<Rightarrow> ignore_policy \<Rightarrow> string \<Rightarrow> string \<Rightarrow> string \<Rightarrow> string option" where
  "ignore_match isaddr policy source_address auction_address token_address =
     (if ig_ignored_sources policy = {} \<and> ig_ignored_auctions policy = {} \<and> ig_ignored_auction_tokens policy = {} then None
      else
        let normalized_source = normalize_lookup_value isaddr source_address;
            normalized_auction = normalize_lookup_value isaddr auction_address;
            normalized_token = normalize_lookup_value isaddr token_address
        in if (normalized_auction, normalized_token) \<in> ig_ignored_auction_tokens policy then Some ''auction/token''
           else if normalized_auction \<in> ig_ignored_auctions policy then Some ''auction''
           else if normalized_source \<in> ig_ignored_sources policy then Some ''source''
           else None)"

definition resolve_minutes :: "(string \<Rightarrow> bool) \<Rightarrow> cooldown_policy \<Rightarrow> string \<Rightarrow> string \<Rightarrow> int" where
  "resolve_minutes isaddr policy auction_address token_address =
     (let normalized_auction = normalize_lookup_value isaddr auction_address;
          normalized_token = normalize_lookup_value isaddr token_address
      in (case map_of (cd_auction_token_overrides_minutes policy) (normalized_auction, normalized_token) of
          Some minutes \<Rightarrow> minutes | None \<Rightarrow> cd_default_minutes policy))"

section \<open>Coercions\<close>

definition coerce_bps :: "json \<Rightarrow> string \<Rightarrow> string \<Rightarrow> int result" where
  "coerce_bps value field_name profile_name =
     (case json_int value of
       Inl _ \<Rightarrow> Inl (ValueError (profile_name @ ''.'' @ field_name @ '' must be an integer''))
     | Inr output \<Rightarrow>
         if output < 0 then Inl (ValueError (profile_name @ ''.'' @ field_name @ '' must be non-negative''))
         else Inr output)"

definition coerce_non_negative_int :: "json \<Rightarrow> string \<Rightarrow> int result" where
  "coerce_non_negative_int value field_name =
     (case json_int value of
       Inl _ \<Rightarrow> Inl (ValueError (field_name @ '' must be an integer''))
     | Inr output \<Rightarrow>
         if output < 0 then Inl (ValueError (field_name @ '' must be non-negative'')) else Inr output)"

definition coerce_bool :: "json \<Rightarrow> string \<Rightarrow> string \<Rightarrow> bool \<Rightarrow> bool result" where
  "coerce_bool value field_name profile_name default_value =
     (case value of JNull \<Rightarrow> Inr default_value | JBool b \<Rightarrow> Inr b
      | _ \<Rightarrow> Inl (ValueError (profile_name @ ''.'' @ field_name @ '' must be a boolean'')))"

definition coerce_positive_decimal :: "json \<Rightarrow> string \<Rightarrow> string \<Rightarrow> dec result" where
  "coerce_positive_decimal value field_name scope_name =
     (case dec_of_string (json_str value) of
       None \<Rightarrow> Inl (ValueError (scope_name @ ''.'' @ field_name @ '' must be a number''))
     | Some output \<Rightarrow>
         if dec_leq output (dec_of_int 0) then Inl (ValueError (scope_name @ ''.'' @ field_name @ '' must be greater than zero''))
         else Inr output)"

section \<open>Reading the configuration\<close>

text \<open>\<open>read_yaml\<close> opens a file and parses it; an empty document is null.\<close>

definition load_raw_kick_config :: "(string \<Rightarrow> json result) \<Rightarrow> string \<Rightarrow> (string \<times> json) list result" where
  "load_raw_kick_config read_yaml kick_path =
     err_bind (read_yaml kick_path) (\<lambda>loaded.
       case json_or loaded (JObj []) of
         JObj raw \<Rightarrow> Inr raw
       | _ \<Rightarrow> Inl (ValueError (''Kick config file must contain a mapping object: '' @ kick_path)))"

definition profile_entry ::
  "string \<times> json \<Rightarrow> (string \<times> pricing_profile) list \<Rightarrow> (string \<times> pricing_profile) list result" where
  "profile_entry entry profiles = (case entry of (profile_name, profile_raw) \<Rightarrow>
     (case profile_raw of
       JObj profile_raw \<Rightarrow>
         let profile_key = str_strip profile_name in
         if profile_key = [] then Inl (ValueError ''profile names must be non-empty'')
         else
           err_bind (coerce_bps (json_get profile_raw ''start_price_buffer_bps'') ''start_price_buffer_bps'' profile_key) (\<lambda>start.
           err_bind (coerce_bps (json_get profile_raw ''min_price_buffer_bps'') ''min_price_buffer_bps'' profile_key) (\<lambda>min_bps.
           err_bind (coerce_bps (json_get profile_raw ''step_decay_rate_bps'') ''step_decay_rate_bps'' profile_key) (\<lambda>step.
           err_bind (coerce_bool (json_get profile_raw ''outlier_floor_enabled'') ''outlier_floor_enabled'' profile_key False) (\<lambda>floor.
           Inr (dict_set profile_key \<lparr>pf_name = profile_key, pf_start_price_buffer_bps = start,
             pf_min_price_buffer_bps = min_bps, pf_step_decay_rate_bps = step, pf_outlier_floor_enabled = floor\<rparr> profiles)))))
     | _ \<Rightarrow> Inl (ValueError (''profile '' @ profile_name @ '' must be a mapping''))))"

text \<open>The \<open>rules[index]\<close> of the messages.\<close>

definition at_index :: "string \<Rightarrow> nat \<Rightarrow> string" where
  "at_index rules index = rules @ ''['' @ show_nat index @ '']''"

text \<open>\<open>normalize_address(str(a)), normalize_address(str(b))\<close>, in this order.\<close>

definition normalized_rule :: "(string \<Rightarrow> bool) \<Rightarrow> json \<Rightarrow> json \<Rightarrow> (address \<times> address) result" where
  "normalized_rule isaddr auction token =
     err_bind (normalize_address isaddr (json_str auction)) (\<lambda>auction.
     err_bind (normalize_address isaddr (json_str token)) (\<lambda>token. Inr (auction, token)))"

definition override_entry ::
  "(string \<Rightarrow> bool) \<Rightarrow> (string \<times> pricing_profile) list \<Rightarrow> nat \<times> json \<Rightarrow> ((address \<times> address) \<times> string) list
     \<Rightarrow> ((address \<times> address) \<times> string) list result" where
  "override_entry isaddr profiles item overrides = (case item of (index, entry) \<Rightarrow>
     (case entry of
       JObj entry \<Rightarrow>
         let auction_value = json_get entry ''auction''; token_value = json_get entry ''token'';
             profile_value = json_get entry ''profile'' in
         if auction_value = JNull \<or> token_value = JNull \<or> profile_value = JNull
         then Inl (ValueError (at_index ''profile_overrides'' index @ '' must define auction, token, and profile''))
         else
           let profile_key = str_strip (json_str profile_value) in
           if profile_key = [] then Inl (ValueError (at_index ''profile_overrides'' index @ ''.profile must be non-empty''))
           else if map_of profiles profile_key = None
           then Inl (ValueError (''profile '' @ py_repr_str profile_key @ '' is not defined''))
           else err_bind (normalized_rule isaddr auction_value token_value) (\<lambda>rule.
             if map_of overrides rule \<noteq> None
             then Inl (ValueError (''duplicate profile override: '' @ fst rule @ '' '' @ snd rule))
             else Inr (dict_set rule profile_key overrides))
     | _ \<Rightarrow> Inl (ValueError (at_index ''profile_overrides'' index @ '' must be a mapping''))))"

definition build_pricing_policy :: "(string \<Rightarrow> bool) \<Rightarrow> (string \<times> json) list \<Rightarrow> pricing_policy result" where
  "build_pricing_policy isaddr raw =
     (let default_profile_name = str_strip (json_str (json_or (json_get raw ''default_profile'') (JStr [])))
      in if default_profile_name = [] then Inl (ValueError ''kick config must define default_profile'')
      else (case json_get raw ''profiles'' of
        JObj raw_profiles \<Rightarrow>
          if raw_profiles = [] then Inl (ValueError ''kick config must define profiles'')
          else err_bind (fold_err profile_entry raw_profiles []) (\<lambda>profiles.
            if map_of profiles default_profile_name = None
            then Inl (ValueError (''default profile '' @ py_repr_str default_profile_name @ '' is not defined''))
            else if map_of raw ''auctions'' \<noteq> None
            then Inl (ValueError ''auctions is no longer supported; use profile_overrides'')
            else (case json_or (json_get raw ''profile_overrides'') (JList []) of
              JList raw_profile_overrides \<Rightarrow>
                err_bind (fold_err (override_entry isaddr profiles) (enumerate_list raw_profile_overrides) []) (\<lambda>overrides.
                  Inr \<lparr>pp_default_profile_name = default_profile_name, pp_profiles = profiles,
                    pp_profile_overrides = overrides\<rparr>)
            | _ \<Rightarrow> Inl (ValueError ''profile_overrides must be a list'')))
      | _ \<Rightarrow> Inl (ValueError ''kick config must define profiles'')))"

definition limit_entry ::
  "(string \<Rightarrow> bool) \<Rightarrow> string \<times> json \<Rightarrow> (address \<times> dec) list \<Rightarrow> (address \<times> dec) list result" where
  "limit_entry isaddr item token_overrides = (case item of (token_address, raw_limit) \<Rightarrow>
     err_bind (coerce_positive_decimal raw_limit ''value'' (''usd_kick_limit['' @ token_address @ '']'')) (\<lambda>limit.
     err_bind (normalize_address isaddr token_address) (\<lambda>token. Inr (dict_set token limit token_overrides))))"

definition build_token_sizing_policy :: "(string \<Rightarrow> bool) \<Rightarrow> (string \<times> json) list \<Rightarrow> token_sizing_policy result" where
  "build_token_sizing_policy isaddr raw =
     (let raw_default_limit = json_get raw ''default_usd_kick_limit'' in
      err_bind (if raw_default_limit = JNull then Inr None
        else err_bind (coerce_positive_decimal raw_default_limit ''default_usd_kick_limit'' ''kick'') (\<lambda>d. Inr (Some d))) (\<lambda>default_limit.
      case json_or (json_get raw ''usd_kick_limit'') (JObj []) of
        JObj raw_limits \<Rightarrow>
          err_bind (fold_err (limit_entry isaddr) raw_limits []) (\<lambda>token_overrides.
            Inr \<lparr>ts_default_limit = default_limit, ts_token_overrides = token_overrides\<rparr>)
      | _ \<Rightarrow> Inl (ValueError ''usd_kick_limit must be a mapping'')))"

definition no_ignores :: ignore_policy where
  "no_ignores = \<lparr>ig_ignored_sources = {}, ig_ignored_auctions = {}, ig_ignored_auction_tokens = {}\<rparr>"

definition ignore_entry :: "(string \<Rightarrow> bool) \<Rightarrow> nat \<times> json \<Rightarrow> ignore_policy \<Rightarrow> ignore_policy result" where
  "ignore_entry isaddr item policy = (case item of (index, entry) \<Rightarrow>
     (case entry of
       JObj entry \<Rightarrow>
         let has_source = (json_get entry ''source'' \<noteq> JNull); has_auction = (json_get entry ''auction'' \<noteq> JNull);
             token_value = json_get entry ''token'' in
         if has_source = has_auction
         then Inl (ValueError (at_index ''ignore'' index @ '' must define exactly one of source or auction''))
         else if has_source then
           (if token_value \<noteq> JNull then Inl (ValueError (at_index ''ignore'' index @ ''.token is only valid with auction rules''))
            else err_bind (normalize_address isaddr (json_str (json_get entry ''source''))) (\<lambda>normalized_source.
              if normalized_source \<in> ig_ignored_sources policy
              then Inl (ValueError (''duplicate ignore source rule: '' @ normalized_source))
              else Inr (policy\<lparr>ig_ignored_sources := insert normalized_source (ig_ignored_sources policy)\<rparr>)))
         else err_bind (normalize_address isaddr (json_str (json_get entry ''auction''))) (\<lambda>normalized_auction.
           if token_value = JNull then
             (if normalized_auction \<in> ig_ignored_auctions policy
              then Inl (ValueError (''duplicate ignore auction rule: '' @ normalized_auction))
              else Inr (policy\<lparr>ig_ignored_auctions := insert normalized_auction (ig_ignored_auctions policy)\<rparr>))
           else err_bind (normalize_address isaddr (json_str token_value)) (\<lambda>token.
             if (normalized_auction, token) \<in> ig_ignored_auction_tokens policy
             then Inl (ValueError (''duplicate ignore auction/token rule: '' @ normalized_auction @ '' '' @ token))
             else Inr (policy\<lparr>ig_ignored_auction_tokens :=
               insert (normalized_auction, token) (ig_ignored_auction_tokens policy)\<rparr>)))
     | _ \<Rightarrow> Inl (ValueError (at_index ''ignore'' index @ '' must be a mapping''))))"

definition build_ignore_policy :: "(string \<Rightarrow> bool) \<Rightarrow> (string \<times> json) list \<Rightarrow> ignore_policy result" where
  "build_ignore_policy isaddr raw =
     (case json_or (json_get raw ''ignore'') (JList []) of
       JList raw_ignore \<Rightarrow> fold_err (ignore_entry isaddr) (enumerate_list raw_ignore) no_ignores
     | _ \<Rightarrow> Inl (ValueError ''ignore must be a list''))"

definition cooldown_entry ::
  "(string \<Rightarrow> bool) \<Rightarrow> nat \<times> json \<Rightarrow> ((address \<times> address) \<times> int) list \<Rightarrow> ((address \<times> address) \<times> int) list result" where
  "cooldown_entry isaddr item overrides = (case item of (index, entry) \<Rightarrow>
     (case entry of
       JObj entry \<Rightarrow>
         let auction_value = json_get entry ''auction''; token_value = json_get entry ''token'';
             minutes_value = json_get entry ''minutes'' in
         if auction_value = JNull \<or> token_value = JNull \<or> minutes_value = JNull
         then Inl (ValueError (at_index ''cooldown'' index @ '' must define auction, token, and minutes''))
         else err_bind (normalized_rule isaddr auction_value token_value) (\<lambda>rule.
           if map_of overrides rule \<noteq> None
           then Inl (ValueError (''duplicate cooldown rule: '' @ fst rule @ '' '' @ snd rule))
           else err_bind (coerce_non_negative_int minutes_value (at_index ''cooldown'' index @ ''.minutes'')) (\<lambda>minutes.
             Inr (dict_set rule minutes overrides)))
     | _ \<Rightarrow> Inl (ValueError (at_index ''cooldown'' index @ '' must be a mapping''))))"

definition build_cooldown_policy :: "(string \<Rightarrow> bool) \<Rightarrow> (string \<times> json) list \<Rightarrow> cooldown_policy result" where
  "build_cooldown_policy isaddr raw =
     err_bind (coerce_non_negative_int
       (case map_of raw ''cooldown_minutes'' of None \<Rightarrow> JInt 60 | Some v \<Rightarrow> v) ''cooldown_minutes'') (\<lambda>default_minutes.
     case json_or (json_get raw ''cooldown'') (JList []) of
       JList raw_cooldown \<Rightarrow>
         err_bind (fold_err (cooldown_entry isaddr) (enumerate_list raw_cooldown) []) (\<lambda>overrides.
           Inr \<lparr>cd_default_minutes = default_minutes, cd_auction_token_overrides_minutes = overrides\<rparr>)
     | _ \<Rightarrow> Inl (ValueError ''cooldown must be a list''))"

definition delay_entry :: "nat \<times> json \<Rightarrow> int list \<Rightarrow> int list result" where
  "delay_entry item delays = (case item of (index, raw_delay) \<Rightarrow>
     (case json_int raw_delay of
       Inl _ \<Rightarrow> Inl (ValueError (at_index ''no_fill.retry_delays_minutes'' index @ '' must be an integer''))
     | Inr delay \<Rightarrow>
         if (case raw_delay of JBool _ \<Rightarrow> True | _ \<Rightarrow> False) \<or> delay \<le> 0
         then Inl (ValueError (at_index ''no_fill.retry_delays_minutes'' index @ '' must be a positive integer''))
         else if delays \<noteq> [] \<and> delay \<le> last delays
         then Inl (ValueError ''no_fill.retry_delays_minutes must be strictly increasing'')
         else Inr (delays @ [delay])))"

definition build_no_fill_policy :: "(string \<times> json) list \<Rightarrow> int list result" where
  "build_no_fill_policy raw =
     (case json_get raw ''no_fill'' of
       JObj raw_no_fill \<Rightarrow>
         (case json_get raw_no_fill ''retry_delays_minutes'' of
           JList raw_delays \<Rightarrow>
             if raw_delays = [] then Inl (ValueError ''no_fill.retry_delays_minutes must be a non-empty list'')
             else fold_err delay_entry (enumerate_list raw_delays) []
         | _ \<Rightarrow> Inl (ValueError ''no_fill.retry_delays_minutes must be a non-empty list''))
     | _ \<Rightarrow> Inl (ValueError ''kick config must define no_fill''))"

definition build_kick_config :: "(string \<Rightarrow> bool) \<Rightarrow> (string \<times> json) list \<Rightarrow> kick_config result" where
  "build_kick_config isaddr raw =
     err_bind (build_pricing_policy isaddr raw) (\<lambda>pricing.
     err_bind (build_token_sizing_policy isaddr raw) (\<lambda>sizing.
     err_bind (build_ignore_policy isaddr raw) (\<lambda>ignore.
     err_bind (build_cooldown_policy isaddr raw) (\<lambda>cooldown.
     err_bind (build_no_fill_policy raw) (\<lambda>delays.
     Inr \<lparr>kc_pricing_policy = pricing, kc_token_sizing_policy = sizing, kc_ignore_policy = ignore,
       kc_cooldown_policy = cooldown, kc_retry_delays_minutes = delays\<rparr>)))))"

definition load_kick_config :: "(string \<Rightarrow> bool) \<Rightarrow> (string \<Rightarrow> json result) \<Rightarrow> string option \<Rightarrow> kick_config result" where
  "load_kick_config isaddr read_yaml kick_path =
     (case kick_path of
       None \<Rightarrow> Inl (ValueError ''kick_path is required'')
     | Some path \<Rightarrow> err_bind (load_raw_kick_config read_yaml path) (build_kick_config isaddr))"

section \<open>What an accepted configuration promises\<close>

lemma map_of_appended:
  assumes "list_all2 (\<lambda>x (k, v). key x = k \<and> val x v) xs ys"
  shows "case find (\<lambda>x. key x = k) xs of None \<Rightarrow> map_of ys k = None
    | Some x \<Rightarrow> \<exists>v. map_of ys k = Some v \<and> val x v \<and> x \<in> set xs"
  using assms by (induction rule: list_all2_induct) (auto split: option.splits)

lemma normalize_address_Inr_iff: "normalize_address isaddr a = Inr b \<longleftrightarrow> isaddr a \<and> b = str_lower a"
  by (auto simp: normalize_address_def)

lemma normalize_lookup_value_lower [simp]: "normalize_lookup_value isaddr value = str_lower value"
  by (simp add: normalize_lookup_value_def normalize_address_def)

lemma normalized_rule_Inr:
  "normalized_rule isaddr a t = Inr rule \<longleftrightarrow>
     isaddr (json_str a) \<and> isaddr (json_str t) \<and> rule = (str_lower (json_str a), str_lower (json_str t))"
  by (auto simp: normalized_rule_def err_simps normalize_address_Inr_iff)

subsection \<open>Profiles\<close>

definition profile_ok :: "string \<times> pricing_profile \<Rightarrow> bool" where
  "profile_ok entry \<longleftrightarrow> pf_name (snd entry) = fst entry \<and> 0 \<le> pf_start_price_buffer_bps (snd entry)
     \<and> 0 \<le> pf_min_price_buffer_bps (snd entry) \<and> 0 \<le> pf_step_decay_rate_bps (snd entry)"

lemma set_dict_set: "x \<in> set (dict_set k v d) \<Longrightarrow> x = (k, v) \<or> x \<in> set d"
  by (induction k v d rule: dict_set.induct) (auto split: if_splits)

lemma coerce_bps_nonneg: "coerce_bps value f p = Inr n \<Longrightarrow> 0 \<le> n"
  by (auto simp: coerce_bps_def split: sum.splits if_splits)

lemma profile_entry_ok:
  assumes "profile_entry entry profiles = Inr profiles'" "\<forall>p \<in> set profiles. profile_ok p"
  shows "\<forall>p \<in> set profiles'. profile_ok p"
proof -
  obtain k start mn st fl where eq: "profiles' = dict_set k \<lparr>pf_name = k, pf_start_price_buffer_bps = start,
      pf_min_price_buffer_bps = mn, pf_step_decay_rate_bps = st, pf_outlier_floor_enabled = fl\<rparr> profiles"
    and bounds: "0 \<le> start" "0 \<le> mn" "0 \<le> st"
    using assms(1) by (auto simp: profile_entry_def Let_def err_simps split: prod.splits json.splits if_splits
        dest!: coerce_bps_nonneg)
  show ?thesis
  proof
    fix p assume "p \<in> set profiles'"
    then show "profile_ok p" unfolding eq
      using assms(2) bounds by (auto dest!: set_dict_set simp: profile_ok_def)
  qed
qed

text \<open>The rule of an entry: the pair it names and the text it assigns.\<close>

definition entry_field :: "json \<Rightarrow> string \<Rightarrow> json" where
  "entry_field entry field = (case entry of JObj e \<Rightarrow> json_get e field | _ \<Rightarrow> JNull)"

definition entry_pair :: "json \<Rightarrow> string \<times> string" where
  "entry_pair entry = (str_lower (json_str (entry_field entry ''auction'')), str_lower (json_str (entry_field entry ''token'')))"

lemma override_entry_appends:
  assumes "override_entry isaddr profiles (i, entry) overrides = Inr overrides'"
  shows "\<exists>y. overrides' = overrides @ [y] \<and> (case y of (rule, name) \<Rightarrow> entry_pair entry = rule
    \<and> name = str_strip (json_str (entry_field entry ''profile'')) \<and> map_of profiles name \<noteq> None)"
  using assms
  by (auto simp: override_entry_def Let_def err_simps normalized_rule_Inr entry_pair_def entry_field_def dict_set_fresh
      split: json.splits if_splits)

lemma build_pricing_policy_Inr:
  assumes "build_pricing_policy isaddr raw = Inr policy"
  obtains entries where
    "json_or (json_get raw ''profile_overrides'') (JList []) = JList entries"
    "list_all2 (\<lambda>entry (rule, name). entry_pair entry = rule
       \<and> (name = str_strip (json_str (entry_field entry ''profile'')) \<and> map_of (pp_profiles policy) name \<noteq> None))
       entries (pp_profile_overrides policy)"
    "\<forall>p \<in> set (pp_profiles policy). profile_ok p"
    "pp_default_profile_name policy = str_strip (json_str (json_or (json_get raw ''default_profile'') (JStr [])))"
    "map_of (pp_profiles policy) (pp_default_profile_name policy) \<noteq> None"
proof -
  obtain raw_profiles profiles entries overrides where
    profiles: "fold_err profile_entry raw_profiles [] = Inr profiles"
    and entries: "json_or (json_get raw ''profile_overrides'') (JList []) = JList entries"
    and overrides: "fold_err (override_entry isaddr profiles) (enumerate_list entries) [] = Inr overrides"
    and default: "map_of profiles (str_strip (json_str (json_or (json_get raw ''default_profile'') (JStr [])))) \<noteq> None"
    and policy: "policy = \<lparr>pp_default_profile_name = str_strip (json_str (json_or (json_get raw ''default_profile'') (JStr []))),
      pp_profiles = profiles, pp_profile_overrides = overrides\<rparr>"
    using assms by (auto simp: build_pricing_policy_def Let_def err_simps split: if_splits json.splits)
  have "\<forall>p \<in> set profiles. profile_ok p"
    by (rule fold_err_invariant [OF profiles]) (auto dest: profile_entry_ok)
  moreover have "list_all2 (\<lambda>(_, entry) (rule, name). entry_pair entry = rule
       \<and> (name = str_strip (json_str (entry_field entry ''profile'')) \<and> map_of profiles name \<noteq> None))
       (enumerate_list entries) overrides"
    using fold_err_appends [OF overrides, where R = "\<lambda>(_, entry) (rule, name). entry_pair entry = rule
       \<and> (name = str_strip (json_str (entry_field entry ''profile'')) \<and> map_of profiles name \<noteq> None)"]
      override_entry_appends by fastforce
  ultimately show thesis
    using entries default by (intro that) (simp_all add: policy list_all2_enumerate)
qed

subsection \<open>Limits, cooldowns and delays\<close>

lemma coerce_positive_decimal_pos: "coerce_positive_decimal value f s = Inr d \<Longrightarrow> 0 < dec_val d"
  by (auto simp: coerce_positive_decimal_def dec_leq_iff split: option.splits if_splits)

lemma build_token_sizing_policy_pos:
  assumes "build_token_sizing_policy isaddr raw = Inr policy" "token_sizing_resolve isaddr policy token = Inr (Some limit)"
  shows "0 < dec_val limit"
proof -
  obtain raw_limits where limits: "fold_err (limit_entry isaddr) raw_limits [] = Inr (ts_token_overrides policy)"
    and default: "ts_default_limit policy = Some d \<Longrightarrow> 0 < dec_val d" for d
    using assms(1) by (cases "json_or (json_get raw ''usd_kick_limit'') (JObj [])")
      (auto simp: build_token_sizing_policy_def Let_def err_simps coerce_positive_decimal_pos split: if_splits)
  have "\<forall>d \<in> snd ` set (ts_token_overrides policy). 0 < dec_val d"
    by (rule fold_err_invariant [OF limits])
      (auto simp: limit_entry_def err_simps dest!: set_dict_set coerce_positive_decimal_pos)
  then show ?thesis
    using assms(2) default by (force simp: token_sizing_resolve_def err_simps split: option.splits dest: map_of_SomeD)
qed

definition cooldown_minutes_of :: "json \<Rightarrow> int \<Rightarrow> bool" where
  "cooldown_minutes_of entry minutes \<longleftrightarrow> json_int (entry_field entry ''minutes'') = Inr minutes \<and> 0 \<le> minutes"

lemma coerce_non_negative_int_Inr: "coerce_non_negative_int value f = Inr n \<longleftrightarrow> json_int value = Inr n \<and> 0 \<le> n"
  by (auto simp: coerce_non_negative_int_def split: sum.splits)

lemma cooldown_entry_appends:
  assumes "cooldown_entry isaddr (i, entry) overrides = Inr overrides'"
  shows "\<exists>y. overrides' = overrides @ [y] \<and> (case y of (rule, minutes) \<Rightarrow> entry_pair entry = rule
    \<and> cooldown_minutes_of entry minutes)"
  using assms
  by (auto simp: cooldown_entry_def Let_def err_simps normalized_rule_Inr entry_pair_def entry_field_def dict_set_fresh
      cooldown_minutes_of_def coerce_non_negative_int_Inr split: json.splits if_splits)

lemma build_cooldown_policy_Inr:
  assumes "build_cooldown_policy isaddr raw = Inr policy"
  obtains entries where
    "json_or (json_get raw ''cooldown'') (JList []) = JList entries"
    "list_all2 (\<lambda>entry (rule, minutes). entry_pair entry = rule \<and> cooldown_minutes_of entry minutes)
       entries (cd_auction_token_overrides_minutes policy)"
    "json_int (case map_of raw ''cooldown_minutes'' of None \<Rightarrow> JInt 60 | Some v \<Rightarrow> v) = Inr (cd_default_minutes policy)"
    "0 \<le> cd_default_minutes policy"
proof -
  obtain entries overrides where
    entries: "json_or (json_get raw ''cooldown'') (JList []) = JList entries"
    and overrides: "fold_err (cooldown_entry isaddr) (enumerate_list entries) [] = Inr overrides"
    and policy: "cd_auction_token_overrides_minutes policy = overrides"
      "coerce_non_negative_int (case map_of raw ''cooldown_minutes'' of None \<Rightarrow> JInt 60 | Some v \<Rightarrow> v) ''cooldown_minutes''
        = Inr (cd_default_minutes policy)"
    using assms by (cases "json_or (json_get raw ''cooldown'') (JList [])")
      (auto simp: build_cooldown_policy_def err_simps)
  have "list_all2 (\<lambda>(_, entry) (rule, minutes). entry_pair entry = rule \<and> cooldown_minutes_of entry minutes)
       (enumerate_list entries) overrides"
    using fold_err_appends [OF overrides, where R = "\<lambda>(_, entry) (rule, minutes). entry_pair entry = rule
       \<and> cooldown_minutes_of entry minutes"] cooldown_entry_appends by fastforce
  then show thesis
    using entries policy(2) by (intro that) (simp_all add: policy(1) list_all2_enumerate coerce_non_negative_int_Inr)
qed

lemma resolve_minutes_nonneg:
  assumes "build_cooldown_policy isaddr raw = Inr policy"
  shows "0 \<le> resolve_minutes isaddr policy auction token"
  using build_cooldown_policy_Inr [OF assms]
proof cases
  case (1 entries)
  have "\<forall>y \<in> snd ` set (cd_auction_token_overrides_minutes policy). 0 \<le> y"
    using 1(2) by (auto simp: cooldown_minutes_of_def dest: list_all2_in_set2)
  then show ?thesis
    using 1(4) by (force simp: resolve_minutes_def Let_def split: option.splits dest: map_of_SomeD)
qed

lemma delay_entry_keeps:
  assumes "delay_entry x delays = Inr delays'" "sorted_wrt (<) delays \<and> (\<forall>d \<in> set delays. 0 < d)"
  shows "delays' \<noteq> [] \<and> sorted_wrt (<) delays' \<and> (\<forall>d \<in> set delays'. 0 < d)"
proof -
  obtain d where "delays' = delays @ [d]" "0 < d" "delays \<noteq> [] \<Longrightarrow> last delays < d"
    using assms(1) by (auto simp: delay_entry_def split: prod.splits sum.splits if_splits)
  moreover have "x < d" if "x \<in> set delays" "delays \<noteq> [] \<Longrightarrow> last delays < d" for x
    using assms(2) that by (cases delays rule: rev_cases) (auto simp: sorted_wrt_append)
  ultimately show ?thesis using assms(2) by (auto simp: sorted_wrt_append)
qed

lemma build_no_fill_policy_sorted:
  assumes "build_no_fill_policy raw = Inr delays"
  shows "delays \<noteq> [] \<and> sorted_wrt (<) delays \<and> (\<forall>d \<in> set delays. 0 < d)"
proof -
  obtain x xs where run: "fold_err delay_entry (x # xs) [] = Inr delays"
  proof -
    obtain raw_delays where "raw_delays \<noteq> []" "fold_err delay_entry (enumerate_list raw_delays) [] = Inr delays"
      using assms by (auto simp: build_no_fill_policy_def split: json.splits if_splits)
    then show thesis
      using that by (cases "enumerate_list raw_delays") (auto simp: enumerate_list_def zip_eq_Nil_iff)
  qed
  then obtain s where s: "delay_entry x [] = Inr s" "fold_err delay_entry xs s = Inr delays" by (auto simp: err_simps)
  show ?thesis
  proof (rule fold_err_invariant [OF s(2)])
    show "s \<noteq> [] \<and> sorted_wrt (<) s \<and> (\<forall>d \<in> set s. 0 < d)" using delay_entry_keeps [OF s(1)] by simp
  next
    fix entry t t'
    assume "t \<noteq> [] \<and> sorted_wrt (<) t \<and> (\<forall>d \<in> set t. 0 < d)" "delay_entry entry t = Inr t'"
    then show "t' \<noteq> [] \<and> sorted_wrt (<) t' \<and> (\<forall>d \<in> set t'. 0 < d)" using delay_entry_keeps [of entry t t'] by blast
  qed
qed

text \<open>
  An accepted configuration can be used without a further check: every pair resolves to
  a defined profile with non-negative parameters, limits are positive, cooldowns non-
  negative, and the no-fill delays positive and strictly increasing.
\<close>

theorem build_kick_config_usable:
  assumes "build_kick_config isaddr raw = Inr config"
  shows "(isaddr auction \<longrightarrow> isaddr token \<longrightarrow> (\<exists>profile. pricing_resolve isaddr (kc_pricing_policy config) auction token = Inr profile
        \<and> 0 \<le> pf_start_price_buffer_bps profile \<and> 0 \<le> pf_min_price_buffer_bps profile \<and> 0 \<le> pf_step_decay_rate_bps profile))
    \<and> (token_sizing_resolve isaddr (kc_token_sizing_policy config) token = Inr (Some limit) \<longrightarrow> 0 < dec_val limit)
    \<and> 0 \<le> resolve_minutes isaddr (kc_cooldown_policy config) auction token
    \<and> kc_retry_delays_minutes config \<noteq> [] \<and> sorted_wrt (<) (kc_retry_delays_minutes config)
    \<and> (\<forall>d \<in> set (kc_retry_delays_minutes config). 0 < d)"
proof -
  obtain pricing sizing cooldown delays where parts:
    "build_pricing_policy isaddr raw = Inr pricing" "build_token_sizing_policy isaddr raw = Inr sizing"
    "build_cooldown_policy isaddr raw = Inr cooldown" "build_no_fill_policy raw = Inr delays"
    and config: "kc_pricing_policy config = pricing" "kc_token_sizing_policy config = sizing"
      "kc_cooldown_policy config = cooldown" "kc_retry_delays_minutes config = delays"
    using assms by (auto simp: build_kick_config_def err_simps)
  have "\<exists>profile. pricing_resolve isaddr pricing auction token = Inr profile
        \<and> 0 \<le> pf_start_price_buffer_bps profile \<and> 0 \<le> pf_min_price_buffer_bps profile \<and> 0 \<le> pf_step_decay_rate_bps profile"
    if addrs: "isaddr auction" "isaddr token"
    using build_pricing_policy_Inr [OF parts(1)]
  proof cases
    case (1 entries)
    have known: "map_of (pp_profiles pricing) name \<noteq> None" if "map_of (pp_profile_overrides pricing) rule = Some name" for rule name
      using 1(2) map_of_SomeD [OF that] by (auto dest!: list_all2_in_set2)
    define name where "name = (case map_of (pp_profile_overrides pricing) (str_lower auction, str_lower token) of
        Some name \<Rightarrow> name | None \<Rightarrow> pp_default_profile_name pricing)"
    have "map_of (pp_profiles pricing) name \<noteq> None"
      using known 1(5) by (auto simp: name_def split: option.splits)
    then obtain profile where "map_of (pp_profiles pricing) name = Some profile"
      "pricing_resolve isaddr pricing auction token = Inr profile"
      using addrs by (auto simp: pricing_resolve_def normalize_address_def Let_def name_def)
    moreover from this 1(3) have "profile_ok (name, profile)" by (auto dest: map_of_SomeD)
    ultimately show ?thesis by (auto simp: profile_ok_def)
  qed
  then show ?thesis
    using build_token_sizing_policy_pos [OF parts(2)] resolve_minutes_nonneg [OF parts(3)]
      build_no_fill_policy_sorted [OF parts(4)] by (simp add: config)
qed

subsection \<open>Every rule is in force\<close>

lemma override_in_force:
  assumes "build_pricing_policy isaddr raw = Inr policy" "isaddr auction" "isaddr token"
    and entries: "json_or (json_get raw ''profile_overrides'') (JList []) = JList entries"
  shows "\<exists>profile. pricing_resolve isaddr policy auction token = Inr profile \<and> pf_name profile =
    (case find (\<lambda>entry. entry_pair entry = (str_lower auction, str_lower token)) entries of
       Some entry \<Rightarrow> str_strip (json_str (entry_field entry ''profile''))
     | None \<Rightarrow> str_strip (json_str (json_or (json_get raw ''default_profile'') (JStr []))))"
  using build_pricing_policy_Inr [OF assms(1)]
proof cases
  case (1 entries')
  define name where "name = (case map_of (pp_profile_overrides policy) (str_lower auction, str_lower token) of
      Some name \<Rightarrow> name | None \<Rightarrow> pp_default_profile_name policy)"
  have same: "entries' = entries" using 1(1) entries by simp
  have found: "map_of (pp_profiles policy) name \<noteq> None \<and> name =
    (case find (\<lambda>entry. entry_pair entry = (str_lower auction, str_lower token)) entries of
       Some entry \<Rightarrow> str_strip (json_str (entry_field entry ''profile''))
     | None \<Rightarrow> pp_default_profile_name policy)"
    using map_of_appended [OF 1(2), of "(str_lower auction, str_lower token)"] 1(5)
    by (auto simp: name_def same split: option.splits)
  then obtain profile where profile: "map_of (pp_profiles policy) name = Some profile" by auto
  then have "profile_ok (name, profile)" using 1(3) by (auto dest: map_of_SomeD)
  moreover have "pricing_resolve isaddr policy auction token = Inr profile"
    using assms(2,3) profile by (simp add: pricing_resolve_def normalize_address_def Let_def name_def)
  ultimately show ?thesis using found by (simp add: profile_ok_def 1(4) split: option.splits)
qed

lemma cooldown_in_force:
  assumes "build_cooldown_policy isaddr raw = Inr policy"
    and entries: "json_or (json_get raw ''cooldown'') (JList []) = JList entries"
  shows "json_int (case find (\<lambda>entry. entry_pair entry = (str_lower auction, str_lower token)) entries of
       Some entry \<Rightarrow> entry_field entry ''minutes''
     | None \<Rightarrow> (case map_of raw ''cooldown_minutes'' of None \<Rightarrow> JInt 60 | Some v \<Rightarrow> v)) =
    Inr (resolve_minutes isaddr policy auction token)"
  using build_cooldown_policy_Inr [OF assms(1)]
proof cases
  case (1 entries')
  then show ?thesis
    using map_of_appended [OF 1(2), of "(str_lower auction, str_lower token)"] entries
    by (auto simp: resolve_minutes_def Let_def cooldown_minutes_of_def split: option.splits)
qed

text \<open>The ignore rules as sets of entries.\<close>

definition ignores :: "json \<Rightarrow> string \<Rightarrow> string \<Rightarrow> string \<Rightarrow> bool" where
  "ignores entry source auction token \<longleftrightarrow>
     (if entry_field entry ''source'' \<noteq> JNull then str_lower (json_str (entry_field entry ''source'')) = str_lower source
      else str_lower (json_str (entry_field entry ''auction'')) = str_lower auction
        \<and> (entry_field entry ''token'' = JNull \<or> str_lower (json_str (entry_field entry ''token'')) = str_lower token))"

lemma ignore_match_iff:
  "ignore_match isaddr policy source auction token \<noteq> None \<longleftrightarrow>
     (str_lower auction, str_lower token) \<in> ig_ignored_auction_tokens policy
     \<or> str_lower auction \<in> ig_ignored_auctions policy \<or> str_lower source \<in> ig_ignored_sources policy"
  by (auto simp: ignore_match_def Let_def)

lemma ignore_entry_adds:
  assumes "ignore_entry isaddr (i, entry) policy = Inr policy'"
  shows "ignore_match isaddr policy' source auction token \<noteq> None \<longleftrightarrow>
    ignore_match isaddr policy source auction token \<noteq> None \<or> ignores entry source auction token"
  using assms unfolding ignore_match_iff
  by (auto simp: ignore_entry_def Let_def err_simps normalize_address_Inr_iff ignores_def entry_field_def
      split: json.splits if_splits)

lemma ignores_in_force:
  assumes "build_ignore_policy isaddr raw = Inr policy"
    and entries: "json_or (json_get raw ''ignore'') (JList []) = JList entries"
  shows "ignore_match isaddr policy source auction token \<noteq> None \<longleftrightarrow>
    (\<exists>entry \<in> set entries. ignores entry source auction token)"
proof -
  have loop: "ignore_match isaddr policy source auction token \<noteq> None \<longleftrightarrow>
      ignore_match isaddr p source auction token \<noteq> None \<or> (\<exists>(i, entry) \<in> set items. ignores entry source auction token)"
    if "fold_err (ignore_entry isaddr) items p = Inr policy" for items p
    using that
  proof (induction items arbitrary: p)
    case (Cons item items)
    then obtain i entry p' where "item = (i, entry)" "ignore_entry isaddr (i, entry) p = Inr p'"
      "fold_err (ignore_entry isaddr) items p' = Inr policy" by (cases item) (auto simp: err_simps)
    with ignore_entry_adds [OF this(2), of source auction token] Cons.IH [of p'] show ?case by auto
  qed simp
  have "fold_err (ignore_entry isaddr) (enumerate_list entries) no_ignores = Inr policy"
    using assms by (simp add: build_ignore_policy_def)
  moreover have "set entries = snd ` set (enumerate_list entries)"
    by (simp add: enumerate_list_def flip: set_map)
  moreover have "(\<exists>(i, entry) \<in> S. P entry) \<longleftrightarrow> (\<exists>entry \<in> snd ` S. P entry)"
    for S :: "(nat \<times> json) set" and P by force
  moreover have "ignore_match isaddr no_ignores source auction token = None"
    by (simp add: ignore_match_def no_ignores_def)
  ultimately show ?thesis
    using loop [of "enumerate_list entries" no_ignores] by simp
qed

text \<open>
  C32. In an accepted configuration every rule is in force: the pricing profile, the
  cooldown and the ignore verdict of a pair are those of the entry that names it, in any
  letter case, and the defaults otherwise.
\<close>

theorem kick_config_rules_in_force:
  assumes "build_kick_config isaddr raw = Inr config" "isaddr auction" "isaddr token"
    and "json_or (json_get raw ''profile_overrides'') (JList []) = JList overrides"
    and "json_or (json_get raw ''cooldown'') (JList []) = JList cooldowns"
    and "json_or (json_get raw ''ignore'') (JList []) = JList ignored"
  shows "(\<exists>profile. pricing_resolve isaddr (kc_pricing_policy config) auction token = Inr profile \<and> pf_name profile =
      (case find (\<lambda>entry. entry_pair entry = (str_lower auction, str_lower token)) overrides of
         Some entry \<Rightarrow> str_strip (json_str (entry_field entry ''profile''))
       | None \<Rightarrow> str_strip (json_str (json_or (json_get raw ''default_profile'') (JStr [])))))
    \<and> json_int (case find (\<lambda>entry. entry_pair entry = (str_lower auction, str_lower token)) cooldowns of
         Some entry \<Rightarrow> entry_field entry ''minutes''
       | None \<Rightarrow> (case map_of raw ''cooldown_minutes'' of None \<Rightarrow> JInt 60 | Some v \<Rightarrow> v)) =
      Inr (resolve_minutes isaddr (kc_cooldown_policy config) auction token)
    \<and> (ignore_match isaddr (kc_ignore_policy config) source auction token \<noteq> None \<longleftrightarrow>
        (\<exists>entry \<in> set ignored. ignores entry source auction token))"
proof -
  obtain pricing cooldown ignore where parts: "build_pricing_policy isaddr raw = Inr pricing"
    "build_cooldown_policy isaddr raw = Inr cooldown" "build_ignore_policy isaddr raw = Inr ignore"
    and config: "kc_pricing_policy config = pricing" "kc_cooldown_policy config = cooldown" "kc_ignore_policy config = ignore"
    using assms(1) by (auto simp: build_kick_config_def err_simps)
  show ?thesis
    unfolding config
    by (intro conjI override_in_force [OF parts(1) assms(2-4)] cooldown_in_force [OF parts(2) assms(5)]
        ignores_in_force [OF parts(3) assms(6)])
qed

section \<open>A concrete configuration\<close>

definition sample_config :: "(string \<times> json) list" where
  "sample_config = [(''default_profile'', JStr ''volatile''),
     (''profiles'', JObj [(''volatile'', JObj [(''start_price_buffer_bps'', JInt 1000), (''min_price_buffer_bps'', JInt 500),
        (''step_decay_rate_bps'', JInt 50)]),
       (''stable'', JObj [(''start_price_buffer_bps'', JInt 100), (''min_price_buffer_bps'', JInt 50),
        (''step_decay_rate_bps'', JStr ''2''), (''outlier_floor_enabled'', JBool True)])]),
     (''profile_overrides'', JList [JObj [(''auction'', JStr ''0xA''), (''token'', JStr ''0xB''), (''profile'', JStr ''stable'')]]),
     (''usd_kick_limit'', JObj [(''0xB'', JFloat ''2.5'')]),
     (''ignore'', JList [JObj [(''auction'', JStr ''0xC''), (''token'', JStr ''0xB'')]]),
     (''cooldown'', JList [JObj [(''auction'', JStr ''0xA''), (''token'', JStr ''0xB''), (''minutes'', JInt 5)]]),
     (''no_fill'', JObj [(''retry_delays_minutes'', JList [JInt 60, JInt 240])])]"

lemma sample_config_built:
  "\<exists>config. build_kick_config (\<lambda>_. True) sample_config = Inr config \<and> kc_retry_delays_minutes config = [60, 240]
    \<and> token_sizing_resolve (\<lambda>_. True) (kc_token_sizing_policy config) ''0xb'' = Inr (Some (Dec 25 (- 1)))"
proof -
  have "(case build_kick_config (\<lambda>_. True) sample_config of Inl _ \<Rightarrow> False | Inr config \<Rightarrow>
      kc_retry_delays_minutes config = [60, 240]
      \<and> token_sizing_resolve (\<lambda>_. True) (kc_token_sizing_policy config) ''0xb'' = Inr (Some (Dec 25 (- 1))))"
    by code_simp
  then show ?thesis by (auto split: sum.splits)
qed

theorem build_kick_config_usable_witness:
  "\<exists>config profile. build_kick_config (\<lambda>_. True) sample_config = Inr config
    \<and> pricing_resolve (\<lambda>_. True) (kc_pricing_policy config) ''0xA'' ''0xb'' = Inr profile
    \<and> 0 \<le> pf_start_price_buffer_bps profile \<and> 0 < dec_val (Dec 25 (- 1)) \<and> kc_retry_delays_minutes config \<noteq> []"
proof -
  obtain config where config: "build_kick_config (\<lambda>_. True) sample_config = Inr config"
    and limit: "token_sizing_resolve (\<lambda>_. True) (kc_token_sizing_policy config) ''0xb'' = Inr (Some (Dec 25 (- 1)))"
    using sample_config_built by blast
  note usable = build_kick_config_usable [OF config]
  obtain profile where "pricing_resolve (\<lambda>_. True) (kc_pricing_policy config) ''0xA'' ''0xb'' = Inr profile"
    "0 \<le> pf_start_price_buffer_bps profile" using usable [of "''0xA''" "''0xb''"] by auto
  moreover have "0 < dec_val (Dec 25 (- 1))" using usable [of _ "''0xb''" "Dec 25 (- 1)"] limit by blast
  ultimately show ?thesis using config usable by blast
qed

theorem kick_config_rules_in_force_witness:
  "\<exists>config profile. build_kick_config (\<lambda>_. True) sample_config = Inr config
    \<and> pricing_resolve (\<lambda>_. True) (kc_pricing_policy config) ''0xa'' ''0xB'' = Inr profile \<and> pf_name profile = ''stable''
    \<and> resolve_minutes (\<lambda>_. True) (kc_cooldown_policy config) ''0xa'' ''0xB'' = 5
    \<and> ignore_match (\<lambda>_. True) (kc_ignore_policy config) ''0xs'' ''0xa'' ''0xB'' = None"
proof -
  obtain config where config: "build_kick_config (\<lambda>_. True) sample_config = Inr config"
    using sample_config_built by blast
  define overrides where "overrides = [JObj [(''auction'', JStr ''0xA''), (''token'', JStr ''0xB''), (''profile'', JStr ''stable'')]]"
  define cooldowns where "cooldowns = [JObj [(''auction'', JStr ''0xA''), (''token'', JStr ''0xB''), (''minutes'', JInt 5)]]"
  define ignored where "ignored = [JObj [(''auction'', JStr ''0xC''), (''token'', JStr ''0xB'')]]"
  have lists: "json_or (json_get sample_config ''profile_overrides'') (JList []) = JList overrides"
    "json_or (json_get sample_config ''cooldown'') (JList []) = JList cooldowns"
    "json_or (json_get sample_config ''ignore'') (JList []) = JList ignored"
    unfolding overrides_def cooldowns_def ignored_def by code_simp+
  have finds: "(case find (\<lambda>entry. entry_pair entry = (str_lower ''0xa'', str_lower ''0xB'')) overrides of
      Some entry \<Rightarrow> str_strip (json_str (entry_field entry ''profile''))
      | None \<Rightarrow> str_strip (json_str (json_or (json_get sample_config ''default_profile'') (JStr [])))) = ''stable''"
    "json_int (case find (\<lambda>entry. entry_pair entry = (str_lower ''0xa'', str_lower ''0xB'')) cooldowns of
      Some entry \<Rightarrow> entry_field entry ''minutes''
      | None \<Rightarrow> (case map_of sample_config ''cooldown_minutes'' of None \<Rightarrow> JInt 60 | Some v \<Rightarrow> v)) = Inr 5"
    "\<not> (\<exists>entry \<in> set ignored. ignores entry ''0xs'' ''0xa'' ''0xB'')"
    unfolding overrides_def cooldowns_def ignored_def by code_simp+
  note rules = kick_config_rules_in_force [OF config _ _ lists, of "''0xa''" "''0xB''" "''0xs''", unfolded finds(1,2)]
  show ?thesis using rules finds(3) config by auto
qed

end
