(* ===== verification/Shortlist.thy ===== *)
theory Shortlist
  imports Candidates KickPolicy NoFill
begin

text \<open>
  The second half of \<open>tidal/transaction_service/evaluator.py\<close>: the ignore, no-fill and cooldown
  filters and \<open>build_shortlist\<close>. The clock is read once. The locale \<open>candidate_filter\<close> states
  what the shortlist needs of a filter: it splits the candidates in order by a predicate, and every
  skip names its candidate.
\<close>

section \<open>Decisions\<close>

datatype kick_action = KICK | SKIP

datatype skip_reason = IGNORED | NO_FILL_DEFER | NO_FILL_BLOCK | COOLDOWN

record kick_decision =
  de_candidate :: kick_candidate
  de_action :: kick_action
  de_skip_reason :: "skip_reason option"
  de_detail :: "string option"
  de_policy_data :: "json option"

definition skip_decision :: "kick_candidate \<Rightarrow> skip_reason \<Rightarrow> string \<Rightarrow> json option \<Rightarrow> kick_decision" where
  "skip_decision candidate reason detail policy_data =
     \<lparr>de_candidate = candidate, de_action = SKIP, de_skip_reason = Some reason, de_detail = Some detail,
      de_policy_data = policy_data\<rparr>"

text \<open>The loop of the three filters: a decision skips its candidate, none lets it pass.\<close>

fun split_candidates ::
  "(kick_candidate \<Rightarrow> kick_decision option result) \<Rightarrow> kick_candidate list
     \<Rightarrow> (kick_candidate list \<times> kick_decision list) result" where
  "split_candidates decide [] = Inr ([], [])"
| "split_candidates decide (c # cs) =
     err_bind (decide c) (\<lambda>decision.
     err_bind (split_candidates decide cs) (\<lambda>(allowed, skipped).
       Inr (case decision of None \<Rightarrow> (c # allowed, skipped) | Some d \<Rightarrow> (allowed, d # skipped))))"

section \<open>The filters\<close>

definition ignore_decision :: "(string \<Rightarrow> bool) \<Rightarrow> ignore_policy \<Rightarrow> kick_candidate \<Rightarrow> kick_decision option result" where
  "ignore_decision isaddr policy c =
     Inr (map_option (\<lambda>matched_scope. skip_decision c IGNORED (''ignored by '' @ matched_scope @ '' rule'') None)
       (ignore_match isaddr policy (ca_source_address c) (ca_auction_address c) (ca_token_address c)))"

definition apply_ignore_policy ::
  "(string \<Rightarrow> bool) \<Rightarrow> ignore_policy \<Rightarrow> kick_candidate list \<Rightarrow> (kick_candidate list \<times> kick_decision list) result" where
  "apply_ignore_policy isaddr policy candidates = split_candidates (ignore_decision isaddr policy) candidates"

text \<open>\<open>isoformat\<close> of a datetime: its local time, then its offset unless it is naive.\<close>

definition offset_text :: "int option \<Rightarrow> string" where
  "offset_text offset =
     (case offset of None \<Rightarrow> []
      | Some us \<Rightarrow>
          let a = nat \<bar>us\<bar>; ss = a div 1000000; frac = a mod 1000000
          in (if us < 0 then ''-'' else ''+'') @ pad_digits 2 (ss div 3600) @ '':'' @ pad_digits 2 (ss div 60 mod 60) @
             (if ss mod 60 = 0 \<and> frac = 0 then [] else '':'' @ pad_digits 2 (ss mod 60)) @
             (if frac = 0 then [] else ''.'' @ pad_digits 6 frac))"

definition isoformat :: "datetime \<Rightarrow> string" where
  "isoformat dt = (let s = isoformat_utc (dt_local dt) in take (length s - 6) s @ offset_text (dt_offset dt))"

definition utc_datetime :: "instant \<Rightarrow> datetime" where
  "utc_datetime t = \<lparr>dt_local = t, dt_offset = Some 0\<rparr>"

text \<open>\<open>dt + timedelta(minutes=m)\<close> leaves the range of the type past the year 9999.\<close>

definition plus_minutes :: "datetime \<Rightarrow> int \<Rightarrow> datetime result" where
  "plus_minutes dt minutes =
     (let local = dt_local dt + minutes * usec_per_minute
      in if local < 0 \<or> int (days_before_year 10000) * usec_per_day \<le> local
         then Inl (OtherException ''OverflowError'' ''date value out of range'')
         else Inr (dt\<lparr>dt_local := local\<rparr>))"

definition cooldown_decision ::
  "(string \<Rightarrow> bool) \<Rightarrow> instant \<Rightarrow> kick_tx list \<Rightarrow> cooldown_policy \<Rightarrow> kick_candidate \<Rightarrow> kick_decision option result" where
  "cooldown_decision isaddr now kicks policy c =
     (let cooldown_minutes = resolve_minutes isaddr policy (ca_auction_address c) (ca_token_address c) in
      if cooldown_minutes \<le> 0 then Inr None
      else (case last_kick_for_auction_token kicks (ca_auction_address c) (ca_token_address c) of
        None \<Rightarrow> Inr None
      | Some last_kick \<Rightarrow> (case fromisoformat (k_created_at last_kick) of
          None \<Rightarrow> Inr None
        | Some last_kick_at \<Rightarrow>
            err_bind (plus_minutes last_kick_at cooldown_minutes) (\<lambda>expires_at.
            err_bind (datetime_leq expires_at (utc_datetime now)) (\<lambda>expired.
              Inr (if expired then None
                   else Some (skip_decision c COOLDOWN
                     (''cooldown '' @ show_int cooldown_minutes @ ''m | last kick '' @ isoformat last_kick_at @
                      '' | until '' @ isoformat expires_at) None)))))))"

definition apply_cooldown_policy ::
  "(string \<Rightarrow> bool) \<Rightarrow> instant \<Rightarrow> kick_tx list option \<Rightarrow> cooldown_policy \<Rightarrow> kick_candidate list
     \<Rightarrow> (kick_candidate list \<times> kick_decision list) result" where
  "apply_cooldown_policy isaddr now kick_tx_repository policy candidates =
     (case kick_tx_repository of None \<Rightarrow> Inr (candidates, [])
      | Some kicks \<Rightarrow> split_candidates (cooldown_decision isaddr now kicks policy) candidates)"

definition no_fill_action_value :: "no_fill_action \<Rightarrow> string" where
  "no_fill_action_value action = (case action of ALLOW \<Rightarrow> ''ALLOW'' | DEFER \<Rightarrow> ''DEFER'' | BLOCK \<Rightarrow> ''BLOCK'')"

definition no_fill_reason_value :: "no_fill_reason \<Rightarrow> string" where
  "no_fill_reason_value reason = (case reason of
       INITIAL \<Rightarrow> ''INITIAL'' | PRODUCTIVE_RESET \<Rightarrow> ''PRODUCTIVE_RESET'' | RETRY_DUE \<Rightarrow> ''RETRY_DUE''
     | RETRY_NOT_DUE \<Rightarrow> ''RETRY_NOT_DUE'' | RETRY_EXHAUSTED \<Rightarrow> ''RETRY_EXHAUSTED''
     | OUTCOME_UNKNOWN \<Rightarrow> ''OUTCOME_UNKNOWN'' | ROUND_INCOMPLETE \<Rightarrow> ''ROUND_INCOMPLETE''
     | MANUAL_RETRY_OVERRIDE \<Rightarrow> ''MANUAL_RETRY_OVERRIDE'')"

definition json_of_option :: "('a \<Rightarrow> json) \<Rightarrow> 'a option \<Rightarrow> json" where
  "json_of_option f v = (case v of None \<Rightarrow> JNull | Some x \<Rightarrow> f x)"

definition no_fill_skip :: "kick_candidate \<Rightarrow> no_fill_decision \<Rightarrow> kick_decision option" where
  "no_fill_skip c guard_decision =
     (if nf_action guard_decision = ALLOW then None
      else
        let retry_at = map_option isoformat_utc (nf_retry_at guard_decision);
            reason = no_fill_reason_value (nf_reason_code guard_decision);
            detail = reason @ (case retry_at of None \<Rightarrow> [] | Some t \<Rightarrow> '' | retry at '' @ t)
        in Some (skip_decision c (if nf_action guard_decision = DEFER then NO_FILL_DEFER else NO_FILL_BLOCK) detail
          (Some (JObj [
            (''decision'', JStr (no_fill_action_value (nf_action guard_decision))),
            (''reasonCode'', JStr reason),
            (''consecutiveNoFills'', JInt (int (nf_consecutive_no_fills guard_decision))),
            (''retryOrdinal'', json_of_option (\<lambda>n. JInt (int n)) (nf_retry_ordinal guard_decision)),
            (''retryTotal'', JInt (int (nf_retry_total guard_decision))),
            (''retryAt'', json_of_option JStr retry_at),
            (''kickIds'', JList (map JInt (nf_kick_ids guard_decision))),
            (''recoveryIds'', JList (map JInt (nf_recovery_ids guard_decision)))]))))"

text \<open>The guard holds its retry delays and reads the table of kicks.\<close>

type_synonym no_fill_guard = "int list \<times> kick_tx list"

definition guard_decision_of ::
  "(string \<Rightarrow> bool) \<Rightarrow> instant \<Rightarrow> no_fill_guard \<Rightarrow> bool \<Rightarrow> kick_candidate \<Rightarrow> no_fill_decision result" where
  "guard_decision_of isaddr now guard allow_exhausted_retry c =
     no_fill_guard_decide isaddr (fst guard) now (snd guard) (ca_auction_address c) (ca_token_address c) None
       allow_exhausted_retry"

definition apply_no_fill_policy ::
  "(string \<Rightarrow> bool) \<Rightarrow> instant \<Rightarrow> no_fill_guard option \<Rightarrow> bool \<Rightarrow> kick_candidate list
     \<Rightarrow> (kick_candidate list \<times> kick_decision list) result" where
  "apply_no_fill_policy isaddr now guard allow_exhausted_retry candidates =
     (case guard of None \<Rightarrow> Inr (candidates, [])
      | Some guard \<Rightarrow> split_candidates
          (\<lambda>c. err_bind (guard_decision_of isaddr now guard allow_exhausted_retry c) (\<lambda>d. Inr (no_fill_skip c d))) candidates)"

section \<open>The shortlist\<close>

record shortlist_request =
  rq_usd_threshold :: rat
  rq_max_data_age_seconds :: int
  rq_source_type :: "string option"
  rq_source_address :: "string option"
  rq_auction_address :: "string option"
  rq_token_address :: "string option"
  rq_limit :: "int option"
  rq_ignore_policy :: "ignore_policy option"
  rq_cooldown_policy :: "cooldown_policy option"
  rq_kick_tx_repository :: "kick_tx list option"
  rq_no_fill_guard :: "no_fill_guard option"
  rq_allow_exhausted_retry :: bool

record shortlist_result =
  sl_eligible :: "kick_candidate list"
  sl_selected :: "kick_candidate list"
  sl_ignored_skips :: "kick_decision list"
  sl_no_fill_skips :: "kick_decision list"
  sl_cooldown_skips :: "kick_decision list"
  sl_deferred_same_auction :: "kick_candidate list"
  sl_deferred_same_auction_count :: nat
  sl_limited :: "kick_candidate list"

definition default_cooldown_policy :: cooldown_policy where
  "default_cooldown_policy = \<lparr>cd_default_minutes = 60, cd_auction_token_overrides_minutes = []\<rparr>"

definition matches_text :: "string option \<Rightarrow> string \<Rightarrow> bool" where
  "matches_text wanted column \<longleftrightarrow> (case wanted of None \<Rightarrow> True | Some w \<Rightarrow> str_lower column = w)"

text \<open>The optional scope of the request; an empty text does not by itself switch the filter on.\<close>

definition in_scope :: "shortlist_request \<Rightarrow> kick_candidate \<Rightarrow> bool" where
  "in_scope rq c =
     (let normalized_source = map_option str_lower (rq_source_address rq);
          normalized_auction = map_option str_lower (rq_auction_address rq);
          normalized_token = map_option str_lower (rq_token_address rq);
          given = (\<lambda>v. v \<noteq> None \<and> v \<noteq> Some [])
      in (rq_source_type rq \<noteq> None \<or> given normalized_source \<or> given normalized_auction \<or> given normalized_token) \<longrightarrow>
         (rq_source_type rq = None \<or> rq_source_type rq = Some (ca_source_type c))
         \<and> matches_text normalized_source (ca_source_address c)
         \<and> matches_text normalized_auction (ca_auction_address c)
         \<and> matches_text normalized_token (ca_token_address c))"

text \<open>\<open>xs[:limit]\<close> and \<open>xs[len(xs[:limit]):]\<close>.\<close>

definition py_take :: "int \<Rightarrow> 'a list \<Rightarrow> 'a list" where
  "py_take limit xs = take (if limit < 0 then length xs - nat (- limit) else nat limit) xs"

definition candidate_key :: "kick_candidate \<Rightarrow> string \<times> string \<times> string" where
  "candidate_key c = (ca_source_address c, ca_auction_address c, ca_token_address c)"

definition min_timestamp :: "instant \<Rightarrow> int \<Rightarrow> string" where
  "min_timestamp now max_data_age_seconds = isoformat_utc (now - max_data_age_seconds * usec_per_second)"

definition eligible_candidates :: "instant \<Rightarrow> scan_tables \<Rightarrow> shortlist_request \<Rightarrow> kick_candidate list" where
  "eligible_candidates now db rq =
     sort_candidates (filter (in_scope rq) (filter_by_cached_auction_enablement db
       (query_candidates (rq_usd_threshold rq) (min_timestamp now (rq_max_data_age_seconds rq)) db)))"

definition build_shortlist ::
  "(string \<Rightarrow> bool) \<Rightarrow> instant \<Rightarrow> scan_tables \<Rightarrow> shortlist_request \<Rightarrow> shortlist_result result" where
  "build_shortlist isaddr now db rq =
     (let all_eligible = eligible_candidates now db rq;
          ignore_policy = (case rq_ignore_policy rq of None \<Rightarrow> no_ignores | Some p \<Rightarrow> p);
          cooldown_policy = (case rq_cooldown_policy rq of None \<Rightarrow> default_cooldown_policy | Some p \<Rightarrow> p) in
      err_bind (apply_ignore_policy isaddr ignore_policy all_eligible) (\<lambda>(after_ignore, ignored_skips).
      err_bind (apply_no_fill_policy isaddr now (rq_no_fill_guard rq) (rq_allow_exhausted_retry rq) after_ignore)
        (\<lambda>(after_no_fill, no_fill_skips).
      err_bind (apply_cooldown_policy isaddr now (rq_kick_tx_repository rq) cooldown_policy after_no_fill)
        (\<lambda>(after_cooldown, cooldown_skips).
      let selected_before_limit = best_candidate_per_auction after_cooldown;
          selected = (case rq_limit rq of None \<Rightarrow> selected_before_limit | Some n \<Rightarrow> py_take n selected_before_limit);
          selected_keys = candidate_key ` set selected_before_limit;
          deferred = filter (\<lambda>c. candidate_key c \<notin> selected_keys) (sort_candidates after_cooldown)
      in Inr \<lparr>sl_eligible = all_eligible, sl_selected = selected, sl_ignored_skips = ignored_skips,
           sl_no_fill_skips = no_fill_skips, sl_cooldown_skips = cooldown_skips, sl_deferred_same_auction = deferred,
           sl_deferred_same_auction_count = length deferred,
           sl_limited = drop (length selected) selected_before_limit\<rparr>))))"

definition shortlist_candidates ::
  "(string \<Rightarrow> bool) \<Rightarrow> instant \<Rightarrow> scan_tables \<Rightarrow> shortlist_request \<Rightarrow> kick_candidate list result" where
  "shortlist_candidates isaddr now db rq =
     err_bind (build_shortlist isaddr now db (rq\<lparr>rq_ignore_policy := None, rq_cooldown_policy := None,
       rq_kick_tx_repository := None, rq_no_fill_guard := None, rq_allow_exhausted_retry := False\<rparr>))
       (\<lambda>result. Inr (sl_selected result))"

section \<open>What a filter promises\<close>

locale candidate_filter =
  fixes apply_filter :: "kick_candidate list \<Rightarrow> (kick_candidate list \<times> kick_decision list) result"
    and passes :: "kick_candidate \<Rightarrow> bool"
  assumes allowed: "apply_filter cs = Inr (allowed, skipped) \<Longrightarrow> allowed = filter passes cs"
    and skipped: "apply_filter cs = Inr (allowed, skipped) \<Longrightarrow> map de_candidate skipped = filter (\<lambda>c. \<not> passes c) cs"
begin

lemma parts:
  assumes "apply_filter cs = Inr (al, sk)"
  shows "mset cs = mset al + mset (map de_candidate sk)"
  using allowed [OF assms] skipped [OF assms] by (simp add: mset_filter multiset_partition [symmetric])

lemma allowed_iff: "apply_filter cs = Inr (al, sk) \<Longrightarrow> c \<in> set al \<longleftrightarrow> c \<in> set cs \<and> passes c"
  by (drule allowed) simp

lemma distinct_allowed:
  "apply_filter cs = Inr (al, sk) \<Longrightarrow> distinct (map f cs) \<Longrightarrow> distinct (map f al)"
  by (drule allowed) (simp add: distinct_map_filter)

end

lemma split_candidates_filter:
  assumes "split_candidates decide cs = Inr (al, sk)" "\<And>c d. decide c = Inr (Some d) \<Longrightarrow> de_candidate d = c"
  shows "al = filter (\<lambda>c. decide c = Inr None) cs
    \<and> map de_candidate sk = filter (\<lambda>c. decide c \<noteq> Inr None) cs"
  using assms(1)
proof (induction cs arbitrary: al sk)
  case (Cons c cs)
  then obtain decision al' sk' where "decide c = Inr decision" "split_candidates decide cs = Inr (al', sk')"
    "(al, sk) = (case decision of None \<Rightarrow> (c # al', sk') | Some d \<Rightarrow> (al', d # sk'))"
    by (auto simp: err_simps)
  with Cons.IH [OF this(2)] assms(2) show ?case by (cases decision) auto
qed simp

interpretation ignore_filter: candidate_filter "apply_ignore_policy isaddr policy"
  "\<lambda>c. ignore_match isaddr policy (ca_source_address c) (ca_auction_address c) (ca_token_address c) = None"
  for isaddr policy
proof
  fix cs al sk
  assume "apply_ignore_policy isaddr policy cs = Inr (al, sk)"
  moreover have "de_candidate d = c" if "ignore_decision isaddr policy c = Inr (Some d)" for c d
    using that by (auto simp: ignore_decision_def skip_decision_def)
  ultimately have "al = filter (\<lambda>c. ignore_decision isaddr policy c = Inr None) cs
      \<and> map de_candidate sk = filter (\<lambda>c. ignore_decision isaddr policy c \<noteq> Inr None) cs"
    by (intro split_candidates_filter) (simp_all add: apply_ignore_policy_def)
  then show "al = filter (\<lambda>c. ignore_match isaddr policy (ca_source_address c) (ca_auction_address c)
      (ca_token_address c) = None) cs"
    "map de_candidate sk = filter (\<lambda>c. ignore_match isaddr policy (ca_source_address c) (ca_auction_address c)
      (ca_token_address c) \<noteq> None) cs"
    by (simp_all add: ignore_decision_def)
qed

definition guard_allows ::
  "(string \<Rightarrow> bool) \<Rightarrow> instant \<Rightarrow> no_fill_guard option \<Rightarrow> bool \<Rightarrow> kick_candidate \<Rightarrow> bool" where
  "guard_allows isaddr now guard allow_exhausted_retry c \<longleftrightarrow>
     (case guard of None \<Rightarrow> True
      | Some g \<Rightarrow> (case guard_decision_of isaddr now g allow_exhausted_retry c of
          Inl _ \<Rightarrow> False | Inr d \<Rightarrow> nf_action d = ALLOW))"

lemma no_fill_skip_candidate: "no_fill_skip c d = Some e \<Longrightarrow> de_candidate e = c"
  by (auto simp: no_fill_skip_def Let_def skip_decision_def split: if_splits)

lemma no_fill_skip_None: "no_fill_skip c d = None \<longleftrightarrow> nf_action d = ALLOW"
  by (simp add: no_fill_skip_def Let_def)

interpretation guard_filter: candidate_filter "apply_no_fill_policy isaddr now guard allow_exhausted_retry"
  "guard_allows isaddr now guard allow_exhausted_retry"
  for isaddr now guard allow_exhausted_retry
proof
  fix cs al sk
  assume run: "apply_no_fill_policy isaddr now guard allow_exhausted_retry cs = Inr (al, sk)"
  have "al = filter (guard_allows isaddr now guard allow_exhausted_retry) cs
      \<and> map de_candidate sk = filter (\<lambda>c. \<not> guard_allows isaddr now guard allow_exhausted_retry c) cs"
  proof (cases guard)
    case None
    with run show ?thesis by (auto simp: apply_no_fill_policy_def guard_allows_def)
  next
    case (Some g)
    define decide where "decide = (\<lambda>c. err_bind (guard_decision_of isaddr now g allow_exhausted_retry c)
      (\<lambda>d. Inr (no_fill_skip c d) :: kick_decision option result))"
    have "al = filter (\<lambda>c. decide c = Inr None) cs \<and> map de_candidate sk = filter (\<lambda>c. decide c \<noteq> Inr None) cs"
      using run by (intro split_candidates_filter)
        (auto simp: apply_no_fill_policy_def decide_def Some err_simps no_fill_skip_candidate)
    moreover have "decide c = Inr None \<longleftrightarrow> guard_allows isaddr now guard allow_exhausted_retry c" for c
      by (cases "guard_decision_of isaddr now g allow_exhausted_retry c")
        (simp_all add: decide_def guard_allows_def Some no_fill_skip_None)
    ultimately show ?thesis by simp
  qed
  then show "al = filter (guard_allows isaddr now guard allow_exhausted_retry) cs"
    "map de_candidate sk = filter (\<lambda>c. \<not> guard_allows isaddr now guard allow_exhausted_retry c) cs" by auto
qed

definition cooled_down ::
  "(string \<Rightarrow> bool) \<Rightarrow> instant \<Rightarrow> kick_tx list option \<Rightarrow> cooldown_policy \<Rightarrow> kick_candidate \<Rightarrow> bool" where
  "cooled_down isaddr now repository policy c \<longleftrightarrow>
     (case repository of None \<Rightarrow> True | Some kicks \<Rightarrow> cooldown_decision isaddr now kicks policy c = Inr None)"

lemma cooldown_decision_candidate: "cooldown_decision isaddr now kicks policy c = Inr (Some d) \<Longrightarrow> de_candidate d = c"
  by (auto simp: cooldown_decision_def Let_def err_simps skip_decision_def split: if_splits option.splits)

interpretation cooldown_filter: candidate_filter "apply_cooldown_policy isaddr now repository policy"
  "cooled_down isaddr now repository policy"
  for isaddr now repository policy
proof
  fix cs al sk
  assume run: "apply_cooldown_policy isaddr now repository policy cs = Inr (al, sk)"
  have "al = filter (cooled_down isaddr now repository policy) cs
      \<and> map de_candidate sk = filter (\<lambda>c. \<not> cooled_down isaddr now repository policy c) cs"
  proof (cases repository)
    case (Some kicks)
    then have "split_candidates (cooldown_decision isaddr now kicks policy) cs = Inr (al, sk)"
      using run by (simp add: apply_cooldown_policy_def)
    then have "al = filter (\<lambda>c. cooldown_decision isaddr now kicks policy c = Inr None) cs
        \<and> map de_candidate sk = filter (\<lambda>c. cooldown_decision isaddr now kicks policy c \<noteq> Inr None) cs"
      by (rule split_candidates_filter) (rule cooldown_decision_candidate)
    then show ?thesis by (simp add: Some cooled_down_def cong: filter_cong)
  qed (use run in \<open>auto simp: apply_cooldown_policy_def cooled_down_def\<close>)
  then show "al = filter (cooled_down isaddr now repository policy) cs"
    "map de_candidate sk = filter (\<lambda>c. \<not> cooled_down isaddr now repository policy c) cs" by auto
qed

section \<open>The parts of a shortlist\<close>

lemma build_shortlist_Inr:
  assumes "build_shortlist isaddr now db rq = Inr result"
  obtains after_ignore after_no_fill after_cooldown where
    "apply_ignore_policy isaddr (case rq_ignore_policy rq of None \<Rightarrow> no_ignores | Some p \<Rightarrow> p) (sl_eligible result)
      = Inr (after_ignore, sl_ignored_skips result)"
    "apply_no_fill_policy isaddr now (rq_no_fill_guard rq) (rq_allow_exhausted_retry rq) after_ignore
      = Inr (after_no_fill, sl_no_fill_skips result)"
    "apply_cooldown_policy isaddr now (rq_kick_tx_repository rq)
        (case rq_cooldown_policy rq of None \<Rightarrow> default_cooldown_policy | Some p \<Rightarrow> p) after_no_fill
      = Inr (after_cooldown, sl_cooldown_skips result)"
    "sl_eligible result = eligible_candidates now db rq"
    "sl_selected result = (case rq_limit rq of None \<Rightarrow> best_candidate_per_auction after_cooldown
       | Some n \<Rightarrow> py_take n (best_candidate_per_auction after_cooldown))"
    "sl_deferred_same_auction result = filter (\<lambda>c. candidate_key c \<notin> candidate_key ` set (best_candidate_per_auction after_cooldown))
       (sort_candidates after_cooldown)"
    "sl_limited result = drop (length (sl_selected result)) (best_candidate_per_auction after_cooldown)"
  using assms by (auto simp: build_shortlist_def Let_def err_simps intro: that)

lemma selected_and_limited:
  assumes "s = (case limit of None \<Rightarrow> xs | Some n \<Rightarrow> py_take n xs)"
  shows "s @ drop (length s) xs = xs"
proof -
  obtain k where "s = take k xs"
    using assms that [of "length xs"] by (cases limit) (auto simp: py_take_def split: if_splits)
  then have "s = take (length s) xs" by (cases "k \<le> length xs") simp_all
  then show ?thesis by (metis append_take_drop_id)
qed

lemma best_deferred_parts:
  assumes "distinct (map candidate_key cs)"
  shows "mset cs = mset (best_candidate_per_auction cs)
    + mset (filter (\<lambda>c. candidate_key c \<notin> candidate_key ` set (best_candidate_per_auction cs)) (sort_candidates cs))"
proof -
  define best where "best = best_candidate_per_auction cs"
  have sub: "set best \<subseteq> set cs"
  proof
    fix c assume "c \<in> set best"
    then show "c \<in> set cs"
      using best_by_auction_get [where cs = cs and a = "ca_auction_address c"]
      by (simp add: best_def best_candidate_per_auction_iff)
  qed
  have "distinct best" using distinct_best_auctions [of cs] by (simp add: best_def distinct_map)
  have "distinct cs" using assms by (simp add: distinct_map)
  have "c \<in> set best" if "c \<in> set cs" "candidate_key c \<in> candidate_key ` set best" for c
  proof -
    obtain b where "b \<in> set best" "candidate_key c = candidate_key b" using \<open>candidate_key c \<in> _\<close> by auto
    moreover from this sub have "c = b" using assms \<open>c \<in> set cs\<close> by (auto simp: distinct_map dest: inj_onD)
    ultimately show ?thesis by simp
  qed
  then have "filter (\<lambda>c. candidate_key c \<in> candidate_key ` set best) cs = filter (\<lambda>c. c \<in> set best) cs"
    by (auto intro: filter_cong)
  moreover have "mset (filter (\<lambda>c. c \<in> set best) cs) = mset best"
    using sub \<open>distinct best\<close> \<open>distinct cs\<close>
    by (intro set_eq_iff_mset_eq_distinct [THEN iffD1]) auto
  ultimately have "mset (filter (\<lambda>c. candidate_key c \<in> candidate_key ` set best) cs) = mset best" by simp
  moreover have "mset (filter (\<lambda>c. candidate_key c \<notin> candidate_key ` set best) (sort_candidates cs)) =
      mset (filter (\<lambda>c. candidate_key c \<notin> candidate_key ` set best) cs)"
    by (simp add: sort_candidates_def mset_filter)
  ultimately show ?thesis
    using multiset_partition [of "mset cs" "\<lambda>c. candidate_key c \<in> candidate_key ` set best"]
    by (simp add: mset_filter flip: best_def)
qed

text \<open>
  Every eligible candidate ends in exactly one of the lists of the result: ignored, no-
  fill skipped, cooling down, selected, cut by the limit, or deferred behind a better
  candidate of its auction.
\<close>

theorem shortlist_accounts_for_everyone:
  assumes "build_shortlist isaddr now db rq = Inr result" "distinct (map candidate_key (sl_eligible result))"
  shows "mset (sl_eligible result) =
    mset (map de_candidate (sl_ignored_skips result)) + mset (map de_candidate (sl_no_fill_skips result))
    + mset (map de_candidate (sl_cooldown_skips result)) + mset (sl_selected result) + mset (sl_limited result)
    + mset (sl_deferred_same_auction result)"
  using build_shortlist_Inr [OF assms(1)]
proof cases
  case (1 after_ignore after_no_fill after_cooldown)
  have "distinct (map candidate_key after_cooldown)"
    using cooldown_filter.distinct_allowed [OF 1(3)] guard_filter.distinct_allowed [OF 1(2)]
      ignore_filter.distinct_allowed [OF 1(1)] assms(2) by blast
  then have "mset after_cooldown = mset (best_candidate_per_auction after_cooldown) + mset (sl_deferred_same_auction result)"
    unfolding 1(6) by (rule best_deferred_parts)
  moreover have "mset (best_candidate_per_auction after_cooldown) = mset (sl_selected result) + mset (sl_limited result)"
    using selected_and_limited [OF 1(5)] 1(7) by (metis mset_append)
  ultimately show ?thesis
    using ignore_filter.parts [OF 1(1)] guard_filter.parts [OF 1(2)] cooldown_filter.parts [OF 1(3)]
    by (simp add: ac_simps)
qed

section \<open>What it takes to be selected\<close>

lemma candidate_of_Some:
  assumes "candidate_of usd_threshold min_ts tokens source_type source token balance = Some c"
  shows "usd_threshold \<le> ca_usd_value c \<and> ca_token_address c \<noteq> ca_want_address c"
  using assms by (auto simp: candidate_of_def Let_def split: option.splits if_splits)

lemma join_balances_member:
  "c \<in> set (join_balances sources tokens build balances) \<Longrightarrow>
     \<exists>source token balance. build source token balance = Some c"
  by (auto simp: join_balances_def map_filter_def split: option.splits) blast

lemma query_candidates_member:
  assumes "c \<in> set (query_candidates usd_threshold min_ts db)"
  shows "usd_threshold \<le> ca_usd_value c \<and> ca_token_address c \<noteq> ca_want_address c"
  using assms
  by (auto simp: query_candidates_def vault_context_def Let_def dest!: join_balances_member candidate_of_Some)

lemma eligible_candidates_member:
  "c \<in> set (eligible_candidates now db rq) \<Longrightarrow> rq_usd_threshold rq \<le> ca_usd_value c \<and> ca_token_address c \<noteq> ca_want_address c"
  by (auto simp: eligible_candidates_def sort_candidates_def filter_by_cached_auction_enablement_def Let_def
      dest: query_candidates_member)

lemma cooled_downD:
  assumes "cooled_down isaddr now (Some kicks) policy c"
    and "0 < resolve_minutes isaddr policy (ca_auction_address c) (ca_token_address c)"
    and "last_kick_for_auction_token kicks (ca_auction_address c) (ca_token_address c) = Some last_kick"
    and "fromisoformat (k_created_at last_kick) = Some last_kick_at"
  shows "to_utc last_kick_at + resolve_minutes isaddr policy (ca_auction_address c) (ca_token_address c) * usec_per_minute \<le> now"
  using assms
  by (auto simp: cooled_down_def cooldown_decision_def Let_def err_simps plus_minutes_def datetime_leq_def utc_datetime_def
      to_utc_def split: if_splits option.splits)

text \<open>
  C31. Every selected candidate reaches the value threshold, does not sell the want token,
  is not ignored, is allowed by the no-fill guard, has outlived its cooldown, and is the
  best and only selected candidate of its auction.
\<close>

theorem shortlist_selection_safe:
  assumes "build_shortlist isaddr now db rq = Inr result" "c \<in> set (sl_selected result)"
  shows "rq_usd_threshold rq \<le> ca_usd_value c \<and> ca_token_address c \<noteq> ca_want_address c
    \<and> (rq_ignore_policy rq = Some ignore \<longrightarrow>
        ignore_match isaddr ignore (ca_source_address c) (ca_auction_address c) (ca_token_address c) = None)
    \<and> (rq_no_fill_guard rq = Some (delays, table) \<longrightarrow>
        (\<exists>d. no_fill_guard_decide isaddr delays now table (ca_auction_address c) (ca_token_address c) None
              (rq_allow_exhausted_retry rq) = Inr d \<and> nf_action d = ALLOW))
    \<and> (rq_kick_tx_repository rq = Some kicks \<longrightarrow> rq_cooldown_policy rq = Some cooldown \<longrightarrow>
        0 < resolve_minutes isaddr cooldown (ca_auction_address c) (ca_token_address c) \<longrightarrow>
        last_kick_for_auction_token kicks (ca_auction_address c) (ca_token_address c) = Some last_kick \<longrightarrow>
        fromisoformat (k_created_at last_kick) = Some last_kick_at \<longrightarrow>
        to_utc last_kick_at + resolve_minutes isaddr cooldown (ca_auction_address c) (ca_token_address c) * usec_per_minute \<le> now)
    \<and> (\<forall>d \<in> set (sl_selected result). ca_auction_address d = ca_auction_address c \<longrightarrow> d = c)
    \<and> (\<forall>d \<in> set (sl_deferred_same_auction result). ca_auction_address d = ca_auction_address c \<longrightarrow>
        candidate_sort_key c \<le> candidate_sort_key d)"
  using build_shortlist_Inr [OF assms(1)]
proof cases
  case (1 after_ignore after_no_fill after_cooldown)
  have best: "set (sl_selected result) \<subseteq> set (best_candidate_per_auction after_cooldown)"
    using arg_cong [OF selected_and_limited [OF 1(5)], of set] by auto
  with assms(2) have got: "map_of (best_by_auction after_cooldown) (ca_auction_address c) = Some c"
    by (auto simp: best_candidate_per_auction_iff)
  then have c: "c \<in> set after_cooldown" and least: "\<And>d. d \<in> set after_cooldown \<Longrightarrow>
      ca_auction_address d = ca_auction_address c \<Longrightarrow> candidate_sort_key c \<le> candidate_sort_key d"
    using best_by_auction_get [where cs = after_cooldown and a = "ca_auction_address c"] by auto
  have cooled: "c \<in> set after_no_fill" "cooled_down isaddr now (rq_kick_tx_repository rq)
      (case rq_cooldown_policy rq of None \<Rightarrow> default_cooldown_policy | Some p \<Rightarrow> p) c"
    using cooldown_filter.allowed_iff [OF 1(3), of c] c by auto
  have guarded: "c \<in> set after_ignore" "guard_allows isaddr now (rq_no_fill_guard rq) (rq_allow_exhausted_retry rq) c"
    using guard_filter.allowed_iff [OF 1(2), of c] cooled by auto
  have kept: "c \<in> set (sl_eligible result)"
    "ignore_match isaddr (case rq_ignore_policy rq of None \<Rightarrow> no_ignores | Some p \<Rightarrow> p)
      (ca_source_address c) (ca_auction_address c) (ca_token_address c) = None"
    using ignore_filter.allowed_iff [OF 1(1), of c] guarded by auto
  show ?thesis
  proof (intro conjI impI ballI)
    show "rq_usd_threshold rq \<le> ca_usd_value c" "ca_token_address c \<noteq> ca_want_address c"
      using eligible_candidates_member kept(1) unfolding 1(4) by blast+
    show "ignore_match isaddr ignore (ca_source_address c) (ca_auction_address c) (ca_token_address c) = None"
      if "rq_ignore_policy rq = Some ignore" using kept(2) that by simp
    show "\<exists>d. no_fill_guard_decide isaddr delays now table (ca_auction_address c) (ca_token_address c) None
        (rq_allow_exhausted_retry rq) = Inr d \<and> nf_action d = ALLOW"
      if "rq_no_fill_guard rq = Some (delays, table)"
      using guarded(2) that by (auto simp: guard_allows_def guard_decision_of_def split: sum.splits)
    show "to_utc last_kick_at + resolve_minutes isaddr cooldown (ca_auction_address c) (ca_token_address c) * usec_per_minute \<le> now"
      if "rq_kick_tx_repository rq = Some kicks" "rq_cooldown_policy rq = Some cooldown"
        "0 < resolve_minutes isaddr cooldown (ca_auction_address c) (ca_token_address c)"
        "last_kick_for_auction_token kicks (ca_auction_address c) (ca_token_address c) = Some last_kick"
        "fromisoformat (k_created_at last_kick) = Some last_kick_at"
      using cooled(2) that by (intro cooled_downD) auto
    show "d = c" if "d \<in> set (sl_selected result)" "ca_auction_address d = ca_auction_address c" for d
      using best that got by (auto simp: best_candidate_per_auction_iff)
    show "candidate_sort_key c \<le> candidate_sort_key d"
      if "d \<in> set (sl_deferred_same_auction result)" "ca_auction_address d = ca_auction_address c" for d
      using that least by (auto simp: 1(6) sort_candidates_def)
  qed
qed

section \<open>A concrete shortlist\<close>

definition sample_tables :: scan_tables where
  "sample_tables = \<lparr>st_vaults = [],
     st_strategies = [\<lparr>so_address = ''s'', so_vault_address = Some ''v'', so_name = None, so_active = 1,
       so_auction_address = Some ''a'', so_want_address = Some ''w'', so_auction_version = None\<rparr>],
     st_fee_burners = [],
     st_tokens = [\<lparr>to_address = ''t'', to_symbol = None, to_decimals = 18, to_price_usd = Some ''0.1'',
         to_price_status = Some ''SUCCESS'', to_price_fetched_at = Some ''2024-02-01T00:00:00+00:00''\<rparr>,
       \<lparr>to_address = ''u'', to_symbol = None, to_decimals = 18, to_price_usd = Some ''3'',
         to_price_status = Some ''SUCCESS'', to_price_fetched_at = Some ''2024-02-01T00:00:00+00:00''\<rparr>],
     st_strategy_balances = [\<lparr>ba_source_address = ''s'', ba_token_address = ''t'', ba_normalized_balance = ''3000'',
         ba_scanned_at = ''2024-02-01T00:00:00+00:00''\<rparr>,
       \<lparr>ba_source_address = ''s'', ba_token_address = ''u'', ba_normalized_balance = ''50'',
         ba_scanned_at = ''2024-02-01T00:00:00+00:00''\<rparr>],
     st_fee_burner_balances = [], st_enabled_scans = [], st_enabled_tokens = []\<rparr>"

definition sample_request :: shortlist_request where
  "sample_request = \<lparr>rq_usd_threshold = 100, rq_max_data_age_seconds = 63842342400, rq_source_type = None, rq_source_address = None,
     rq_auction_address = None, rq_token_address = None, rq_limit = Some 5, rq_ignore_policy = Some no_ignores,
     rq_cooldown_policy = Some default_cooldown_policy, rq_kick_tx_repository = Some [], rq_no_fill_guard = Some ([60], []),
     rq_allow_exhausted_retry = False\<rparr>"

definition sample_now :: instant where
  "sample_now = 63842342400000000"

lemma sample_shortlist:
  "\<exists>result. build_shortlist (\<lambda>_. True) sample_now sample_tables sample_request = Inr result
    \<and> map ca_token_address (sl_eligible result) = [''t'', ''u'']
    \<and> map ca_token_address (sl_selected result) = [''t'']
    \<and> distinct (map candidate_key (sl_eligible result))"
proof -
  have "(case build_shortlist (\<lambda>_. True) sample_now sample_tables sample_request of Inl _ \<Rightarrow> False
    | Inr result \<Rightarrow> map ca_token_address (sl_eligible result) = [''t'', ''u'']
      \<and> map ca_token_address (sl_selected result) = [''t''] \<and> distinct (map candidate_key (sl_eligible result)))"
    by code_simp
  then show ?thesis by (auto split: sum.splits)
qed

theorem shortlist_accounts_for_everyone_witness:
  "\<exists>result. build_shortlist (\<lambda>_. True) sample_now sample_tables sample_request = Inr result
    \<and> mset (sl_eligible result) =
      mset (map de_candidate (sl_ignored_skips result)) + mset (map de_candidate (sl_no_fill_skips result))
      + mset (map de_candidate (sl_cooldown_skips result)) + mset (sl_selected result) + mset (sl_limited result)
      + mset (sl_deferred_same_auction result)"
  using sample_shortlist shortlist_accounts_for_everyone by blast

theorem shortlist_selection_safe_witness:
  "\<exists>result c. build_shortlist (\<lambda>_. True) sample_now sample_tables sample_request = Inr result
    \<and> c \<in> set (sl_selected result) \<and> 100 \<le> ca_usd_value c \<and> ca_token_address c \<noteq> ca_want_address c"
proof -
  obtain result where result: "build_shortlist (\<lambda>_. True) sample_now sample_tables sample_request = Inr result"
    and tokens: "map ca_token_address (sl_selected result) = [''t'']"
    by (rule exE [OF sample_shortlist]) (elim conjE, rule that)
  have "sl_selected result \<noteq> []" using arg_cong [OF tokens, of length] by fastforce
  then have c: "hd (sl_selected result) \<in> set (sl_selected result)" by (rule hd_in_set)
  note safe = shortlist_selection_safe [OF result c]
  have "100 \<le> ca_usd_value (hd (sl_selected result))" using conjunct1 [OF safe] by (simp add: sample_request_def)
  with result c conjunct1 [OF conjunct2 [OF safe]] show ?thesis by blast
qed

end
