(* ===== verification/RoundRepair.thy ===== *)
theory RoundRepair
  imports ReconcileInvariants
begin

text \<open>
  \<open>tidal/auction_round_repair.py\<close>: the one-time repair of retained rounds, its baselining of
  rounds nothing can prove any more, and the audit that reports what is left. \<open>is_active\<close> is the
  node's answer to the auction's \<open>isActive(token)\<close>; it does not change during a run.
\<close>

record repair_pair_audit =
  rp_auction_address :: address
  rp_token_address :: address
  rp_outcome :: string
  rp_reason_code :: "string option"
  rp_live_on_chain :: "bool option"
  rp_baseline_kick_ids :: "int list"
  rp_passed :: bool

record repair_report =
  rep_pairs :: "repair_pair_audit list"
  rep_reconciliation_errors :: "reconciliation_error list"
  rep_mutations :: nat

definition report_passed :: "repair_report \<Rightarrow> bool" where
  "report_passed report \<longleftrightarrow> rep_reconciliation_errors report = [] \<and> list_all rp_passed (rep_pairs report)"

definition round_outcome_value :: "round_outcome \<Rightarrow> string" where
  "round_outcome_value outcome = (case outcome of NO_FILL \<Rightarrow> ''NO_FILL'' | PRODUCTIVE \<Rightarrow> ''PRODUCTIVE''
     | INCOMPLETE \<Rightarrow> ''INCOMPLETE'' | UNKNOWN \<Rightarrow> ''UNKNOWN'')"

definition pair_keys :: "(string \<Rightarrow> bool) \<Rightarrow> kick_tx list \<Rightarrow> (address \<times> address) list result" where
  "pair_keys isaddr kicks = traverse_err (kick_pair isaddr) (list_round_operations kicks)"

definition pair_active :: "(address \<Rightarrow> address \<Rightarrow> bool result) \<Rightarrow> address \<Rightarrow> address \<Rightarrow> bool option" where
  "pair_active is_active auction_address token_address =
     (case is_active auction_address token_address of Inl _ \<Rightarrow> None | Inr b \<Rightarrow> Some b)"

definition unproved :: "round_evidence \<Rightarrow> bool" where
  "unproved evidence \<longleftrightarrow> ev_outcome evidence \<in> {UNKNOWN, INCOMPLETE}"

definition baseline_ids :: "kick_tx list \<Rightarrow> int list" where
  "baseline_ids rows = map k_id (filter (\<lambda>row. k_historical_baseline row = 1) rows)"

text \<open>
  The rounds of a pair, newest first, that get a baseline; the newest one only when the chain
  says that its auction is over.
\<close>

definition baseline_due :: "bool option \<Rightarrow> int list \<Rightarrow> nat \<times> round_evidence \<Rightarrow> bool" where
  "baseline_due latest_active baselined_ids = (\<lambda>(index, evidence).
     ev_kick_id evidence \<notin> set baselined_ids \<and> unproved evidence \<and> (index = 0 \<longrightarrow> latest_active = Some False))"

definition set_baseline :: "string \<Rightarrow> round_evidence \<Rightarrow> kick_tx \<Rightarrow> kick_tx" where
  "set_baseline reviewed_at evidence row = row\<lparr>k_historical_baseline := 1,
     k_historical_baseline_reason := Some (ev_reason_code evidence), k_historical_baselined_at := Some reviewed_at\<rparr>"

definition baseline_pair ::
  "(string \<Rightarrow> bool) \<Rightarrow> (address \<Rightarrow> address \<Rightarrow> bool result) \<Rightarrow> string \<Rightarrow> address \<times> address \<Rightarrow> kick_tx list
     \<Rightarrow> kick_tx list result" where
  "baseline_pair isaddr is_active reviewed_at = (\<lambda>(auction, token) kicks.
     let rows = list_pair_operations kicks auction token in
     err_bind (classify_all_pair_operations isaddr rows) (\<lambda>rounds.
       Inr (fold (\<lambda>(_, evidence). kick_update_fields (ev_kick_id evidence) (set_baseline reviewed_at evidence))
         (filter (baseline_due (pair_active is_active auction token) (baseline_ids rows)) (enumerate_list rounds)) kicks)))"

definition baseline_unprovable_rounds ::
  "(string \<Rightarrow> bool) \<Rightarrow> (address \<Rightarrow> address \<Rightarrow> bool result) \<Rightarrow> string \<Rightarrow> (address \<times> address) list \<Rightarrow> kick_tx list
     \<Rightarrow> kick_tx list result" where
  "baseline_unprovable_rounds isaddr is_active reviewed_at pairs kicks =
     fold_err (baseline_pair isaddr is_active reviewed_at) (sorted_set pairs) kicks"

definition audit_pair ::
  "(string \<Rightarrow> bool) \<Rightarrow> (address \<Rightarrow> address \<Rightarrow> bool result) \<Rightarrow> kick_tx list \<Rightarrow> address \<times> address
     \<Rightarrow> repair_pair_audit result" where
  "audit_pair isaddr is_active kicks = (\<lambda>(auction, token).
     let rows = list_pair_operations kicks auction token in
     err_bind (classify_all_pair_operations isaddr rows) (\<lambda>all_rounds.
     err_bind (classify_pair_operations isaddr rows) (\<lambda>sequence.
     let baseline_kick_ids = baseline_ids rows;
         unreviewed = filter (\<lambda>e. ev_kick_id e \<notin> set baseline_kick_ids \<and> unproved e) all_rounds;
         newest = (unreviewed \<noteq> [] \<and> all_rounds \<noteq> [] \<and> ev_kick_id (hd unreviewed) = ev_kick_id (hd all_rounds));
         live = (if newest then pair_active is_active auction token else None);
         outcome_reason = (case rs_rounds sequence of
             [] \<Rightarrow> (if baseline_kick_ids \<noteq> [] then ''HISTORICAL_BASELINE'' else ''NO_HISTORY'', None)
           | latest # _ \<Rightarrow> (round_outcome_value (ev_outcome latest), Some (ev_reason_code latest)))
     in Inr \<lparr>rp_auction_address = auction, rp_token_address = token, rp_outcome = fst outcome_reason,
          rp_reason_code = snd outcome_reason, rp_live_on_chain = live, rp_baseline_kick_ids = baseline_kick_ids,
          rp_passed = (unreviewed = [] \<or> length unreviewed = 1 \<and> ev_outcome (hd unreviewed) = INCOMPLETE \<and> newest
            \<and> live = Some True)\<rparr>)))"

definition audit_pairs ::
  "(string \<Rightarrow> bool) \<Rightarrow> (address \<Rightarrow> address \<Rightarrow> bool result) \<Rightarrow> kick_tx list \<Rightarrow> repair_pair_audit list result" where
  "audit_pairs isaddr is_active kicks =
     err_bind (pair_keys isaddr kicks) (\<lambda>pairs. traverse_err (audit_pair isaddr is_active kicks) (sorted_set pairs))"

definition repair_tx_hashes :: "kick_tx list \<Rightarrow> string list" where
  "repair_tx_hashes kicks = List.map_filter k_tx_hash
     (filter (\<lambda>row. text_truth (k_tx_hash row) \<and> k_operation_type row \<in> {''kick'', ''resolve_auction'', ''sweep_auction''})
       (list_round_operations kicks))"

text \<open>The part of a run that writes; an exception leaves what was committed before it.\<close>

definition apply_repair ::
  "reconciler \<Rightarrow> (address \<Rightarrow> address \<Rightarrow> bool result) \<Rightarrow> string \<Rightarrow> string \<Rightarrow> (address \<times> address) list \<Rightarrow> ledger
     \<Rightarrow> ledger \<times> reconciliation_error list result" where
  "apply_repair r is_active now reviewed_at pairs db =
     (case reconcile_receipts r now (repair_tx_hashes (l_kicks db)) db of (db, errors) \<Rightarrow>
      let db = db\<lparr>l_kicks := rebuild_round_links pairs (l_kicks db)\<rparr> in
      case normalized_pairs (rl_isaddr r) pairs of
        Inl e \<Rightarrow> (db, Inl e)
      | Inr pair_filter \<Rightarrow>
          (case discover_direct_settlements r (Some (set pair_filter)) db of
            ((db, _), Some e) \<Rightarrow> (db, Inl e)
          | ((db, more_errors), None) \<Rightarrow>
              (let db = db\<lparr>l_kicks := rebuild_round_links pairs (l_kicks db)\<rparr> in
               case baseline_unprovable_rounds (rl_isaddr r) is_active reviewed_at pairs (l_kicks db) of
                 Inl e \<Rightarrow> (db, Inl e)
               | Inr kicks \<Rightarrow> (db\<lparr>l_kicks := kicks\<rparr>, Inr (errors @ more_errors)))))"

definition snapshot_mutations :: "kick_tx list \<Rightarrow> kick_tx list \<Rightarrow> nat" where
  "snapshot_mutations before_rows after_rows =
     length (filter (\<lambda>i. kick_get before_rows i \<noteq> kick_get after_rows i)
       (remdups (map k_id before_rows @ map k_id after_rows)))"

definition run_repair ::
  "reconciler \<Rightarrow> (address \<Rightarrow> address \<Rightarrow> bool result) \<Rightarrow> string \<Rightarrow> string \<Rightarrow> bool \<Rightarrow> ledger
     \<Rightarrow> ledger \<times> repair_report result" where
  "run_repair r is_active now reviewed_at apply_changes db =
     (case pair_keys (rl_isaddr r) (l_kicks db) of
       Inl e \<Rightarrow> (db, Inl e)
     | Inr pairs \<Rightarrow>
         (case (if apply_changes then apply_repair r is_active now reviewed_at pairs db else (db, Inr [])) of
           (db', Inl e) \<Rightarrow> (db', Inl e)
         | (db', Inr errors) \<Rightarrow>
             (case audit_pairs (rl_isaddr r) is_active (l_kicks db') of
               Inl e \<Rightarrow> (db', Inl e)
             | Inr audits \<Rightarrow> (db', Inr \<lparr>rep_pairs = audits, rep_reconciliation_errors = errors,
                 rep_mutations = snapshot_mutations (list_round_operations (l_kicks db))
                   (list_round_operations (l_kicks db'))\<rparr>))))"

section \<open>Baselines do not change the classification\<close>

definition same_but_baseline :: "kick_tx list \<Rightarrow> kick_tx list \<Rightarrow> bool" where
  "same_but_baseline kicks kicks' \<longleftrightarrow> map without_baseline kicks = map without_baseline kicks'"

lemma same_but_baseline_ids: "same_but_baseline kicks kicks' \<Longrightarrow> map k_id kicks' = map k_id kicks"
proof -
  assume "same_but_baseline kicks kicks'"
  then have "map k_id (map without_baseline kicks) = map k_id (map without_baseline kicks')"
    by (simp only: same_but_baseline_def)
  then show ?thesis by (simp add: comp_def)
qed

lemma list_pair_operations_without_baseline:
  "list_pair_operations (map without_baseline kicks) auction token = map without_baseline (list_pair_operations kicks auction token)"
  by (simp add: list_pair_operations_def filter_map comp_def sort_key_map)

lemma classify_same_but_baseline:
  assumes "same_but_baseline kicks kicks'"
  shows "classify_all_pair_operations isaddr (list_pair_operations kicks' auction token) =
    classify_all_pair_operations isaddr (list_pair_operations kicks auction token)"
proof -
  have "map without_baseline (list_pair_operations kicks' auction token) =
      map without_baseline (list_pair_operations kicks auction token)"
    using assms by (simp add: same_but_baseline_def flip: list_pair_operations_without_baseline)
  then show ?thesis unfolding classify_all_pair_operations_def by (rule classify_pair_rounds_same_evidence)
qed

definition marked :: "int \<Rightarrow> kick_tx list \<Rightarrow> bool" where
  "marked i kicks \<longleftrightarrow> (\<exists>row \<in> set kicks. k_id row = i \<and> k_historical_baseline row = 1)"

lemma marked_update:
  "marked j (kick_update_fields i (set_baseline reviewed_at ev) kicks) \<longleftrightarrow>
     marked j kicks \<or> j = i \<and> i \<in> set (map k_id kicks)"
  unfolding marked_def kick_update_fields_def set_map bex_simps by (auto simp: set_baseline_def)

lemma set_baseline_update: "same_but_baseline kicks (kick_update_fields i (set_baseline reviewed_at ev) kicks)"
  by (auto simp: same_but_baseline_def kick_update_fields_def set_baseline_def without_baseline_def)

lemma same_but_baseline_trans:
  "same_but_baseline a b \<Longrightarrow> same_but_baseline b c \<Longrightarrow> same_but_baseline a c"
  by (simp add: same_but_baseline_def)

lemma same_but_baseline_refl [simp]: "same_but_baseline a a"
  by (simp add: same_but_baseline_def)

lemma baseline_updates:
  fixes due :: "(nat \<times> round_evidence) list"
  assumes "kicks' = fold (\<lambda>(_, evidence). kick_update_fields (ev_kick_id evidence) (set_baseline reviewed_at evidence)) due kicks"
  shows "same_but_baseline kicks kicks' \<and> (\<forall>j. marked j kicks' \<longleftrightarrow>
    marked j kicks \<or> j \<in> (\<lambda>d. ev_kick_id (snd d)) ` set due \<and> j \<in> set (map k_id kicks))"
  using assms
proof (induction due arbitrary: kicks)
  case (Cons d due)
  define kicks1 where "kicks1 = kick_update_fields (ev_kick_id (snd d)) (set_baseline reviewed_at (snd d)) kicks"
  have first: "same_but_baseline kicks kicks1" unfolding kicks1_def by (rule set_baseline_update)
  have "kicks' = fold (\<lambda>(_, evidence). kick_update_fields (ev_kick_id evidence) (set_baseline reviewed_at evidence)) due kicks1"
    using Cons.prems by (simp add: kicks1_def split: prod.splits)
  from Cons.IH [OF this] have IH: "same_but_baseline kicks1 kicks'" "\<And>j. marked j kicks' \<longleftrightarrow>
    marked j kicks1 \<or> j \<in> (\<lambda>d. ev_kick_id (snd d)) ` set due \<and> j \<in> set (map k_id kicks)"
    by (simp_all only: same_but_baseline_ids [OF first])
  moreover have "marked j kicks1 \<longleftrightarrow> marked j kicks \<or> j = ev_kick_id (snd d) \<and> j \<in> set (map k_id kicks)" for j
    unfolding kicks1_def marked_update by blast
  ultimately show ?case using same_but_baseline_trans [OF first IH(1)] by (simp del: set_map) blast
qed simp

lemma classified_kick_id:
  assumes "classify_all_pair_operations isaddr (list_pair_operations kicks auction token) = Inr rounds" "ev \<in> set rounds"
  shows "ev_kick_id ev \<in> set (map k_id kicks)"
proof -
  have "map ev_kick_id rounds = map k_id (pair_kicks (list_pair_operations kicks auction token))"
    using assms(1) classify_kicks_ids by (simp add: classify_all_pair_operations_def classify_pair_rounds_def)
  then have "ev_kick_id ev \<in> set (map k_id (pair_kicks (list_pair_operations kicks auction token)))"
    using assms(2) by (metis image_eqI list.set_map)
  then show ?thesis by (auto simp: pair_kicks_def list_pair_operations_def)
qed

text \<open>What is left of a pair: everything unproved is marked, except a newest round that may be live.\<close>

definition settled_pair :: "(string \<Rightarrow> bool) \<Rightarrow> (address \<Rightarrow> address \<Rightarrow> bool result) \<Rightarrow> address \<times> address \<Rightarrow> kick_tx list \<Rightarrow> bool" where
  "settled_pair isaddr is_active = (\<lambda>(auction, token) kicks.
     \<forall>rounds. classify_all_pair_operations isaddr (list_pair_operations kicks auction token) = Inr rounds \<longrightarrow>
       (\<forall>i < length rounds. unproved (rounds ! i) \<longrightarrow> marked (ev_kick_id (rounds ! i)) kicks
         \<or> i = 0 \<and> pair_active is_active auction token \<noteq> Some False))"

lemma settled_pair_keeps:
  assumes "settled_pair isaddr is_active p kicks" "same_but_baseline kicks kicks'" "\<And>j. marked j kicks \<Longrightarrow> marked j kicks'"
  shows "settled_pair isaddr is_active p kicks'"
  using assms(1,3) classify_same_but_baseline [OF assms(2)] by (fastforce simp: settled_pair_def split: prod.splits)

lemma baseline_pair_settles:
  assumes "baseline_pair isaddr is_active reviewed_at p kicks = Inr kicks'"
  shows "same_but_baseline kicks kicks'" "marked j kicks \<Longrightarrow> marked j kicks'" "settled_pair isaddr is_active p kicks'"
proof -
  obtain auction token where p: "p = (auction, token)" by (cases p)
  define active where "active = pair_active is_active auction token"
  define rows where "rows = list_pair_operations kicks auction token"
  obtain rounds where rounds: "classify_all_pair_operations isaddr rows = Inr rounds"
    and kicks': "kicks' = fold (\<lambda>(_, evidence). kick_update_fields (ev_kick_id evidence) (set_baseline reviewed_at evidence))
        (filter (baseline_due active (baseline_ids rows)) (enumerate_list rounds)) kicks"
    using assms by (auto simp: baseline_pair_def p err_simps rows_def active_def Let_def)
  note upd = baseline_updates [OF kicks']
  show same: "same_but_baseline kicks kicks'" using upd by blast
  show mono: "marked j kicks \<Longrightarrow> marked j kicks'" for j using upd by blast
  have "marked (ev_kick_id (rounds ! i)) kicks' \<or> i = 0 \<and> active \<noteq> Some False"
    if i: "i < length rounds" "unproved (rounds ! i)" for i
  proof (cases "ev_kick_id (rounds ! i) \<in> set (baseline_ids rows)")
    case True
    then have "marked (ev_kick_id (rounds ! i)) kicks"
      by (auto simp: baseline_ids_def marked_def rows_def list_pair_operations_def)
    then show ?thesis using mono by blast
  next
    case False
    have "(i, rounds ! i) \<in> set (enumerate_list rounds)"
      using i(1) by (force simp: enumerate_list_def set_zip)
    then have "(i, rounds ! i) \<in> set (filter (baseline_due active (baseline_ids rows)) (enumerate_list rounds))"
      if "i \<noteq> 0 \<or> active = Some False" using that False i(2) by (auto simp: baseline_due_def)
    moreover have "ev_kick_id (rounds ! i) \<in> set (map k_id kicks)"
      using classified_kick_id rounds i(1) by (simp add: rows_def)
    ultimately show ?thesis using upd by force
  qed
  then show "settled_pair isaddr is_active p kicks'"
    using rounds classify_same_but_baseline [OF same] by (auto simp: settled_pair_def p rows_def active_def)
qed

lemma baseline_pairs_settle:
  assumes "fold_err (baseline_pair isaddr is_active reviewed_at) pairs kicks = Inr kicks'"
  shows "same_but_baseline kicks kicks' \<and> (\<forall>j. marked j kicks \<longrightarrow> marked j kicks')
    \<and> (\<forall>p \<in> set pairs. settled_pair isaddr is_active p kicks')"
  using assms
proof (induction pairs arbitrary: kicks)
  case (Cons p pairs)
  then obtain kicks1 where first: "baseline_pair isaddr is_active reviewed_at p kicks = Inr kicks1"
    and rest: "fold_err (baseline_pair isaddr is_active reviewed_at) pairs kicks1 = Inr kicks'"
    by (auto simp: err_simps)
  have IH: "same_but_baseline kicks1 kicks' \<and> (\<forall>j. marked j kicks1 \<longrightarrow> marked j kicks')
    \<and> (\<forall>p \<in> set pairs. settled_pair isaddr is_active p kicks')" by (rule Cons.IH [OF rest])
  then have "settled_pair isaddr is_active p kicks'"
    by (intro settled_pair_keeps [OF baseline_pair_settles(3) [OF first]]) blast+
  then show ?case
    using IH baseline_pair_settles(1,2) [OF first] same_but_baseline_trans by auto
qed simp

section \<open>What the audit of a repaired pair can still report\<close>

lemma audit_settled_pair:
  assumes "settled_pair isaddr is_active (auction, token) kicks" "kick_table_wf kicks"
    and "audit_pair isaddr is_active kicks (auction, token) = Inr audit" "\<not> rp_passed audit"
  shows "rp_live_on_chain audit \<noteq> Some False \<and> (rp_live_on_chain audit = Some True \<longrightarrow>
    (\<exists>newest older. classify_all_pair_operations isaddr (list_pair_operations kicks auction token) = Inr (newest # older)
      \<and> ev_outcome newest = UNKNOWN))"
proof -
  define rows where "rows = list_pair_operations kicks auction token"
  define open_rounds where "open_rounds = (\<lambda>rounds. filter (\<lambda>e. ev_kick_id e \<notin> set (baseline_ids rows) \<and> unproved e) rounds)"
  obtain rounds where rounds: "classify_all_pair_operations isaddr rows = Inr rounds"
    and audit: "rp_live_on_chain audit = (if open_rounds rounds \<noteq> [] \<and> rounds \<noteq> []
        \<and> ev_kick_id (hd (open_rounds rounds)) = ev_kick_id (hd rounds) then pair_active is_active auction token else None)"
      "rp_passed audit = (open_rounds rounds = [] \<or> length (open_rounds rounds) = 1
        \<and> ev_outcome (hd (open_rounds rounds)) = INCOMPLETE \<and> open_rounds rounds \<noteq> [] \<and> rounds \<noteq> []
        \<and> ev_kick_id (hd (open_rounds rounds)) = ev_kick_id (hd rounds) \<and> rp_live_on_chain audit = Some True)"
    using assms(3) by (auto simp: audit_pair_def err_simps Let_def rows_def open_rounds_def)
  have in_rows: "ev_kick_id ev \<in> set (baseline_ids rows)" if ev: "ev \<in> set rounds" "marked (ev_kick_id ev) kicks" for ev
  proof -
    obtain row where row: "row \<in> set kicks" "k_id row = ev_kick_id ev" "k_historical_baseline row = 1"
      using ev(2) by (auto simp: marked_def)
    have "map ev_kick_id rounds = map k_id (pair_kicks rows)"
      using rounds classify_kicks_ids by (simp add: classify_all_pair_operations_def classify_pair_rounds_def)
    then have "ev_kick_id ev \<in> set (map k_id (pair_kicks rows))"
      using ev(1) by (metis image_eqI list.set_map)
    then obtain row' where row': "row' \<in> set rows" "k_id row' = ev_kick_id ev" by (auto simp: pair_kicks_def)
    then have "row' = row"
      using row assms(2) inj_onD [of k_id "set kicks" row' row]
      by (simp add: rows_def list_pair_operations_def kick_table_wf_def distinct_map)
    then show ?thesis using row row' by (auto simp: baseline_ids_def intro!: image_eqI [where x = row])
  qed
  have only_newest: "i = 0 \<and> pair_active is_active auction token \<noteq> Some False"
    if "i < length rounds" "rounds ! i \<in> set (open_rounds rounds)" for i
    using assms(1) rounds that in_rows [of "rounds ! i"] by (auto simp: settled_pair_def rows_def open_rounds_def)
  have "open_rounds rounds \<noteq> []" using assms(4) audit(2) by simp
  then obtain newest older where eq: "rounds = newest # older" by (cases rounds) (auto simp: open_rounds_def)
  have "e \<notin> set (open_rounds rounds)" if "e \<in> set older" for e
    using only_newest that unfolding eq by (metis Suc_less_eq in_set_conv_nth length_Cons nat.distinct(1) nth_Cons_Suc)
  moreover have "set (open_rounds older) \<subseteq> set (open_rounds rounds)" "set (open_rounds older) \<subseteq> set older"
    by (auto simp: open_rounds_def eq)
  ultimately have "open_rounds older = []" by (metis empty_subsetI set_empty subset_empty subsetD subsetI)
  with \<open>open_rounds rounds \<noteq> []\<close> have opens: "open_rounds rounds = [newest]"
    by (auto simp: open_rounds_def eq split: if_splits)
  then have active: "pair_active is_active auction token \<noteq> Some False" using only_newest [of 0] eq by simp
  have "newest \<in> set (open_rounds rounds)" by (simp add: opens)
  then have "unproved newest" by (simp add: open_rounds_def)
  then show ?thesis
    using active audit assms(4) opens rounds by (auto simp: eq rows_def unproved_def)
qed

text \<open>Unique row ids survive every write of the reconciler.\<close>

interpretation table: reconciled_invariant kick_table_wf
proof
  show "kick_table_wf (kick_update_fields i f kicks)" if "kick_table_wf kicks" "finalizing f" for kicks f i
    using that(1) finalizing_identity [OF that(2)] by (simp add: kick_table_wf_def identity_def)
qed (simp_all add: wf_insert, simp_all add: kick_table_wf_def)

lemma apply_repair_settles:
  assumes "kick_table_wf (l_kicks db)" "apply_repair r is_active now reviewed_at pairs db = (db', Inr errors)"
  shows "kick_table_wf (l_kicks db') \<and> (\<forall>p \<in> set pairs. settled_pair (rl_isaddr r) is_active p (l_kicks db'))"
proof -
  obtain db1 errors1 where receipts: "reconcile_receipts r now (repair_tx_hashes (l_kicks db)) db = (db1, errors1)"
    by (cases "reconcile_receipts r now (repair_tx_hashes (l_kicks db)) db")
  define db2 where "db2 = db1\<lparr>l_kicks := rebuild_round_links pairs (l_kicks db1)\<rparr>"
  obtain pair_filter db3 errors2 where discovered:
    "discover_direct_settlements r (Some (set pair_filter)) db2 = ((db3, errors2), None)"
    and baseline: "baseline_unprovable_rounds (rl_isaddr r) is_active reviewed_at pairs
      (rebuild_round_links pairs (l_kicks db3)) = Inr (l_kicks db')"
    using assms(2) by (auto simp: apply_repair_def receipts Let_def db2_def split: sum.splits prod.splits option.splits)
  have "kick_table_wf (l_kicks db1)"
    using table.reconcile_receipts_I [OF assms(1), of r now "repair_tx_hashes (l_kicks db)"] by (simp add: receipts)
  then have "kick_table_wf (l_kicks db2)" by (simp add: db2_def rebuild_round_links_links(1))
  then have "kick_table_wf (l_kicks db3)"
    using table.discover_direct_settlements_I [of db2 r "Some (set pair_filter)"] by (simp add: discovered)
  then have "kick_table_wf (rebuild_round_links pairs (l_kicks db3))" by (rule rebuild_round_links_links(1))
  moreover note settled = baseline_pairs_settle [OF baseline [unfolded baseline_unprovable_rounds_def]]
  ultimately show ?thesis
    using same_but_baseline_ids [OF conjunct1 [OF settled]] by (simp add: kick_table_wf_def)
qed

text \<open>
  After a repair run that applies, a known pair fails the audit only if the node could
  not say whether its auction is live, or it is live and its newest round is unknown.
\<close>

theorem repair_failures_are_live:
  assumes "kick_table_wf (l_kicks db)" "run_repair r is_active now reviewed_at True db = (db', Inr report)"
    and "pair_keys (rl_isaddr r) (l_kicks db) = Inr pairs"
    and "audit \<in> set (rep_pairs report)" "\<not> rp_passed audit"
    and "(rp_auction_address audit, rp_token_address audit) \<in> set pairs"
  shows "rp_live_on_chain audit \<noteq> Some False \<and> (rp_live_on_chain audit = Some True \<longrightarrow>
    (\<exists>newest older. classify_all_pair_operations (rl_isaddr r)
        (list_pair_operations (l_kicks db') (rp_auction_address audit) (rp_token_address audit)) = Inr (newest # older)
      \<and> ev_outcome newest = UNKNOWN))"
proof -
  obtain errors audits where applied: "apply_repair r is_active now reviewed_at pairs db = (db', Inr errors)"
    and audits: "audit_pairs (rl_isaddr r) is_active (l_kicks db') = Inr audits" "rep_pairs report = audits"
    using assms(2,3) by (auto simp: run_repair_def split: sum.splits prod.splits)
  note state = apply_repair_settles [OF assms(1) applied]
  obtain p where p: "audit_pair (rl_isaddr r) is_active (l_kicks db') p = Inr audit"
    using audits assms(4) by (auto simp: audit_pairs_def err_simps dest: list_all2_in_set2)
  then have "p = (rp_auction_address audit, rp_token_address audit)"
    by (auto simp: audit_pair_def err_simps Let_def split: prod.splits)
  then show ?thesis
    using audit_settled_pair state p assms(5,6) by blast
qed

text \<open>
  The repair baselines a row only for an unknown or incomplete round of the pair, the
  newest one only when the node says its auction is not active, and changes nothing else of
  the row.
\<close>

theorem repair_baselines_only_unproved:
  assumes "kick_table_wf kicks" "baseline_pair isaddr is_active reviewed_at (auction, token) kicks = Inr kicks'"
    and "kick_get kicks i = Some row" "kick_get kicks' i = Some row'" "row' \<noteq> row"
  shows "\<exists>rounds n. classify_all_pair_operations isaddr (list_pair_operations kicks auction token) = Inr rounds
    \<and> n < length rounds \<and> ev_kick_id (rounds ! n) = i \<and> ev_outcome (rounds ! n) \<in> {UNKNOWN, INCOMPLETE}
    \<and> (n = 0 \<longrightarrow> is_active auction token = Inr False)
    \<and> row' = row\<lparr>k_historical_baseline := 1, k_historical_baseline_reason := Some (ev_reason_code (rounds ! n)),
        k_historical_baselined_at := Some reviewed_at\<rparr>"
proof -
  define rows where "rows = list_pair_operations kicks auction token"
  obtain rounds where rounds: "classify_all_pair_operations isaddr rows = Inr rounds"
    and kicks': "kicks' = fold (\<lambda>(_, evidence). kick_update_fields (ev_kick_id evidence) (set_baseline reviewed_at evidence))
        (filter (baseline_due (pair_active is_active auction token) (baseline_ids rows)) (enumerate_list rounds)) kicks"
    using assms(2) by (auto simp: baseline_pair_def err_simps rows_def Let_def)
  have step: "\<exists>d \<in> set due. ev_kick_id (snd d) = i \<and> row' = set_baseline reviewed_at (snd d) row"
    if "kick_get (fold (\<lambda>(_, evidence). kick_update_fields (ev_kick_id evidence) (set_baseline reviewed_at evidence)) due kicks) i
      = Some row'" for due :: "(nat \<times> round_evidence) list"
    using that assms(5)
  proof (induction due arbitrary: row' rule: rev_induct)
    case Nil
    then show ?case using assms(3) by simp
  next
    case (snoc d due)
    define mid where "mid = fold (\<lambda>(_, evidence). kick_update_fields (ev_kick_id evidence) (set_baseline reviewed_at evidence)) due kicks"
    have "kick_get (kick_update_fields (ev_kick_id (snd d)) (set_baseline reviewed_at (snd d)) mid) i = Some row'"
      using snoc.prems(1) by (simp add: mid_def split: prod.splits)
    then obtain m where m: "kick_get mid i = Some m"
      "row' = (if ev_kick_id (snd d) = i then set_baseline reviewed_at (snd d) m else m)"
      by (auto simp: kick_get_update set_baseline_def split: if_splits)
    show ?case
    proof (cases "m = row")
      case True
      then show ?thesis using m(2) snoc.prems(2) by (auto split: if_splits)
    next
      case False
      then obtain e where "e \<in> set due" "ev_kick_id (snd e) = i" "m = set_baseline reviewed_at (snd e) row"
        using snoc.IH m(1) by (auto simp: mid_def)
      then show ?thesis using m(2) by (auto simp: set_baseline_def)
    qed
  qed
  obtain n ev where due: "(n, ev) \<in> set (enumerate_list rounds)"
    "baseline_due (pair_active is_active auction token) (baseline_ids rows) (n, ev)"
    "ev_kick_id ev = i" "row' = set_baseline reviewed_at ev row"
    using step [OF assms(4) [unfolded kicks']] by auto
  have "n < length rounds" "rounds ! n = ev" using due(1) by (auto simp: enumerate_list_def set_zip)
  then show ?thesis
    using rounds due(2-4) by (intro exI [of _ rounds] exI [of _ n])
      (auto simp: rows_def baseline_due_def unproved_def set_baseline_def pair_active_def split: sum.splits)
qed

section \<open>A concrete repair\<close>

definition stale_kick :: kick_tx where
  "stale_kick = empty_kick_tx\<lparr>k_id := 1, k_auction_address := ''a'', k_token_address := ''t'', k_status := ''SUBMITTED'',
     k_created_at := ''2024-01-01T00:00:00+00:00''\<rparr>"

definition stale_ledger :: ledger where
  "stale_ledger = empty_ledger\<lparr>l_kicks := [stale_kick]\<rparr>"

lemma stale_repair:
  "\<exists>db' report. run_repair sample_reconciler (\<lambda>_ _. Inl AssertionError) ''now'' ''review'' True stale_ledger = (db', Inr report)
    \<and> (\<exists>audit \<in> set (rep_pairs report). \<not> rp_passed audit \<and> rp_auction_address audit = ''a'' \<and> rp_token_address audit = ''t'')"
proof -
  have "(case run_repair sample_reconciler (\<lambda>_ _. Inl AssertionError) ''now'' ''review'' True stale_ledger of
      (_, Inl _) \<Rightarrow> False
    | (_, Inr report) \<Rightarrow> (\<exists>audit \<in> set (rep_pairs report).
        \<not> rp_passed audit \<and> rp_auction_address audit = ''a'' \<and> rp_token_address audit = ''t''))"
    by code_simp
  then show ?thesis
    by (cases "run_repair sample_reconciler (\<lambda>_ _. Inl AssertionError) ''now'' ''review'' True stale_ledger")
      (auto split: sum.splits)
qed

theorem repair_failures_are_live_witness:
  "\<exists>db' report audit. run_repair sample_reconciler (\<lambda>_ _. Inl AssertionError) ''now'' ''review'' True stale_ledger = (db', Inr report)
    \<and> audit \<in> set (rep_pairs report) \<and> \<not> rp_passed audit \<and> rp_live_on_chain audit \<noteq> Some False"
proof -
  have wf: "kick_table_wf (l_kicks stale_ledger)" by code_simp
  have pairs: "pair_keys (rl_isaddr sample_reconciler) (l_kicks stale_ledger) = Inr [(''a'', ''t'')]" by code_simp
  obtain db' report audit where run:
    "run_repair sample_reconciler (\<lambda>_ _. Inl AssertionError) ''now'' ''review'' True stale_ledger = (db', Inr report)"
    and audit: "audit \<in> set (rep_pairs report)" "\<not> rp_passed audit" "rp_auction_address audit = ''a''"
      "rp_token_address audit = ''t''"
    using stale_repair by blast
  have "(rp_auction_address audit, rp_token_address audit) \<in> set [(''a'', ''t'')]" by (simp add: audit)
  from repair_failures_are_live [OF wf run pairs audit(1,2) this] show ?thesis using run audit by blast
qed

theorem repair_baselines_only_unproved_witness:
  "\<exists>rounds n row'. kick_get (case baseline_pair (\<lambda>_. True) (\<lambda>_ _. Inr False) ''review'' (''a'', ''t'') [stale_kick] of
        Inr kicks \<Rightarrow> kicks | Inl _ \<Rightarrow> []) 1 = Some row' \<and> row' \<noteq> stale_kick
    \<and> classify_all_pair_operations (\<lambda>_. True) (list_pair_operations [stale_kick] ''a'' ''t'') = Inr rounds
    \<and> n < length rounds \<and> ev_outcome (rounds ! n) \<in> {UNKNOWN, INCOMPLETE}"
proof -
  define kicks' where "kicks' = [set_baseline ''review'' (incomplete_round stale_kick ''KICK_SUBMITTED'') stale_kick]"
  have run: "baseline_pair (\<lambda>_. True) (\<lambda>_ _. Inr False) ''review'' (''a'', ''t'') [stale_kick] = Inr kicks'"
    unfolding kicks'_def by code_simp
  have wf: "kick_table_wf [stale_kick]" "kick_get [stale_kick] 1 = Some stale_kick" by code_simp+
  have new: "kick_get kicks' 1 = Some (hd kicks')" "hd kicks' \<noteq> stale_kick" unfolding kicks'_def by code_simp+
  from repair_baselines_only_unproved [OF wf(1) run wf(2) new] show ?thesis
    using new by (auto simp: run)
qed

end
