(* ===== verification/AlertDispatch.thy ===== *)
theory AlertDispatch
  imports Prelude
begin

text \<open>
  \<open>tidal/alerts/dispatcher.py\<close> and \<open>tidal/alerts/base.py\<close>: notifications are sent at most once
  after success and attempted at most three times per destination. The sink is a function on a state
  of its own; the redacted error text is constant, because nothing in it is sensitive.
\<close>

record alert_message =
  am_delivery_key :: string
  am_occurrence_id :: string
  am_severity :: string
  am_title :: string
  am_summary :: string
  am_retry_at :: "string option"
  am_links :: "string list"

record delivery_row =
  dv_delivery_key :: string
  dv_destination :: string
  dv_occurrence_id :: string
  dv_attempt_count :: nat
  dv_last_attempt_at :: "string option"
  dv_sent_at :: "string option"
  dv_last_error :: "string option"

type_synonym 's sink = "'s \<Rightarrow> string \<Rightarrow> alert_message \<Rightarrow> 's \<times> unit result"

definition delivery_of :: "string \<Rightarrow> string \<Rightarrow> delivery_row list \<Rightarrow> delivery_row option" where
  "delivery_of key destination rows = find (\<lambda>row. dv_delivery_key row = key \<and> dv_destination row = destination) rows"

definition update_delivery ::
  "string \<Rightarrow> string \<Rightarrow> (delivery_row \<Rightarrow> delivery_row) \<Rightarrow> delivery_row list \<Rightarrow> delivery_row list" where
  "update_delivery key destination f rows =
     map (\<lambda>row. if dv_delivery_key row = key \<and> dv_destination row = destination then f row else row) rows"

text \<open>\<open>INSERT ... ON CONFLICT DO NOTHING\<close>.\<close>

definition ensure_delivery :: "alert_message \<Rightarrow> string \<Rightarrow> delivery_row list \<Rightarrow> delivery_row list" where
  "ensure_delivery message destination rows =
     (if delivery_of (am_delivery_key message) destination rows \<noteq> None then rows
      else rows @ [\<lparr>dv_delivery_key = am_delivery_key message, dv_destination = destination,
        dv_occurrence_id = am_occurrence_id message, dv_attempt_count = 0, dv_last_attempt_at = None, dv_sent_at = None,
        dv_last_error = None\<rparr>])"

definition max_attempts :: nat where
  "max_attempts = 3"

definition dispatch_one ::
  "'s sink \<Rightarrow> string \<Rightarrow> alert_message \<times> string \<Rightarrow> 's \<times> delivery_row list \<Rightarrow> 's \<times> delivery_row list" where
  "dispatch_one send now = (\<lambda>(message, destination) (s, rows).
     let key = am_delivery_key message; rows = ensure_delivery message destination rows in
     case delivery_of key destination rows of
       None \<Rightarrow> (s, rows)
     | Some row \<Rightarrow>
         if dv_sent_at row \<noteq> None \<or> max_attempts \<le> dv_attempt_count row then (s, rows)
         else
           let rows = update_delivery key destination (\<lambda>r. r\<lparr>dv_attempt_count := dv_attempt_count row + 1,
                 dv_last_attempt_at := Some now, dv_last_error := None\<rparr>) rows in
           (case send s destination message of
             (s, Inl _) \<Rightarrow> (s, update_delivery key destination
               (\<lambda>r. r\<lparr>dv_last_error := Some ''alert delivery failed''\<rparr>) rows)
           | (s, Inr _) \<Rightarrow> (s, update_delivery key destination
               (\<lambda>r. r\<lparr>dv_sent_at := Some now, dv_last_error := None\<rparr>) rows)))"

definition dispatch ::
  "'s sink \<Rightarrow> string list \<Rightarrow> string \<Rightarrow> alert_message list \<Rightarrow> 's \<times> delivery_row list \<Rightarrow> 's \<times> delivery_row list" where
  "dispatch send destination_codes now messages =
     fold (dispatch_one send now) (concat (map (\<lambda>m. map (\<lambda>d. (m, d)) destination_codes) messages))"

section \<open>At most three attempts, nothing after a success\<close>

text \<open>
  A sink that logs every attempt with its outcome; the outcome may depend on everything sent before.
\<close>

type_synonym attempt = "(string \<times> string) \<times> bool"

definition logging_sink :: "(attempt list \<Rightarrow> string \<Rightarrow> alert_message \<Rightarrow> bool) \<Rightarrow> attempt list sink" where
  "logging_sink outcome history destination message =
     (let ok = outcome history destination message
      in (history @ [((am_delivery_key message, destination), ok)], if ok then Inr () else Inl AssertionError))"

text \<open>The outcomes of the attempts at one delivery, in order.\<close>

definition attempts :: "string \<times> string \<Rightarrow> attempt list \<Rightarrow> bool list" where
  "attempts kd history = map snd (filter (\<lambda>a. fst a = kd) history)"

definition delivery_ok :: "bool list \<Rightarrow> delivery_row option \<Rightarrow> bool" where
  "delivery_ok outcomes row \<longleftrightarrow> (case row of
       None \<Rightarrow> outcomes = []
     | Some row \<Rightarrow> length outcomes = dv_attempt_count row \<and> dv_attempt_count row \<le> max_attempts
         \<and> (if dv_sent_at row = None then True \<notin> set outcomes
            else \<exists>fails. outcomes = fails @ [True] \<and> True \<notin> set fails))"

definition delivery_inv :: "attempt list \<times> delivery_row list \<Rightarrow> bool" where
  "delivery_inv = (\<lambda>(history, rows). \<forall>key destination.
     delivery_ok (attempts (key, destination) history) (delivery_of key destination rows))"

lemma delivery_of_update:
  "(\<And>r. dv_delivery_key (f r) = dv_delivery_key r \<and> dv_destination (f r) = dv_destination r) \<Longrightarrow>
     delivery_of k d (update_delivery key destination f rows) =
     (if k = key \<and> d = destination then map_option f (delivery_of k d rows) else delivery_of k d rows)"
  by (induction rows) (auto simp: delivery_of_def update_delivery_def)

lemma delivery_of_append:
  "delivery_of k d (rows @ [row]) = (case delivery_of k d rows of Some r \<Rightarrow> Some r
     | None \<Rightarrow> if dv_delivery_key row = k \<and> dv_destination row = d then Some row else None)"
  by (induction rows) (auto simp: delivery_of_def)

lemma attempts_append: "attempts kd (history @ [(kd', ok)]) = attempts kd history @ (if kd = kd' then [ok] else [])"
  by (simp add: attempts_def)

lemma ensure_delivery_inv:
  assumes "delivery_inv (history, rows)"
  shows "delivery_inv (history, ensure_delivery message destination rows)"
proof -
  have "delivery_ok [] (Some \<lparr>dv_delivery_key = k, dv_destination = d, dv_occurrence_id = i, dv_attempt_count = 0,
      dv_last_attempt_at = None, dv_sent_at = None, dv_last_error = None\<rparr>)" for k d i
    by (simp add: delivery_ok_def)
  moreover have "outcomes = []" if "delivery_ok outcomes None" for outcomes
    using that by (simp add: delivery_ok_def)
  moreover have "delivery_ok (attempts (k, d) history) (delivery_of k d rows)" for k d
    using assms by (simp add: delivery_inv_def)
  ultimately have "delivery_ok (attempts (k, d) history) (delivery_of k d (ensure_delivery message destination rows))" for k d
    by (cases "delivery_of k d rows") (auto simp: ensure_delivery_def delivery_of_append, metis+)
  then show ?thesis by (simp add: delivery_inv_def)
qed

lemma ensure_delivery_present: "\<exists>row. delivery_of (am_delivery_key message) destination (ensure_delivery message destination rows) = Some row"
  by (auto simp: ensure_delivery_def delivery_of_append split: option.splits)

lemma dispatch_one_inv:
  assumes "delivery_inv (history, rows)"
  shows "delivery_inv (dispatch_one (logging_sink outcome) now (message, destination) (history, rows))"
proof -
  define rows1 where "rows1 = ensure_delivery message destination rows"
  define key where "key = am_delivery_key message"
  have inv: "delivery_inv (history, rows1)" unfolding rows1_def using assms by (rule ensure_delivery_inv)
  obtain row where row: "delivery_of key destination rows1 = Some row"
    unfolding rows1_def key_def using ensure_delivery_present by blast
  show ?thesis
  proof (cases "dv_sent_at row \<noteq> None \<or> max_attempts \<le> dv_attempt_count row")
    case True
    then show ?thesis using inv row by (simp add: dispatch_one_def rows1_def key_def Let_def)
  next
    case False
    define ok where "ok = outcome history destination message"
    have old: "delivery_ok (attempts (key, destination) history) (Some row)"
      using inv row by (simp add: delivery_inv_def) metis
    have new: "delivery_ok (attempts (key, destination) history @ [ok]) (Some (if ok
        then row\<lparr>dv_attempt_count := dv_attempt_count row + 1, dv_last_attempt_at := Some now, dv_sent_at := Some now, dv_last_error := None\<rparr>
        else row\<lparr>dv_attempt_count := dv_attempt_count row + 1, dv_last_attempt_at := Some now,
          dv_last_error := Some ''alert delivery failed''\<rparr>))"
      using old False by (auto simp: delivery_ok_def)
    have step: "dispatch_one (logging_sink outcome) now (message, destination) (history, rows) =
      (history @ [((key, destination), ok)],
       update_delivery key destination (\<lambda>r. if ok then r\<lparr>dv_sent_at := Some now, dv_last_error := None\<rparr>
           else r\<lparr>dv_last_error := Some ''alert delivery failed''\<rparr>)
         (update_delivery key destination (\<lambda>r. r\<lparr>dv_attempt_count := dv_attempt_count row + 1,
           dv_last_attempt_at := Some now, dv_last_error := None\<rparr>) rows1))"
      using row False by (simp add: dispatch_one_def rows1_def key_def Let_def logging_sink_def ok_def)
    show ?thesis
      unfolding step delivery_inv_def prod.case
    proof (intro allI)
      fix k d
      show "delivery_ok (attempts (k, d) (history @ [((key, destination), ok)])) (delivery_of k d
        (update_delivery key destination (\<lambda>r. if ok then r\<lparr>dv_sent_at := Some now, dv_last_error := None\<rparr>
           else r\<lparr>dv_last_error := Some ''alert delivery failed''\<rparr>)
         (update_delivery key destination (\<lambda>r. r\<lparr>dv_attempt_count := dv_attempt_count row + 1,
           dv_last_attempt_at := Some now, dv_last_error := None\<rparr>) rows1)))"
        using inv row new by (auto simp: delivery_inv_def delivery_of_update attempts_append)
    qed
  qed
qed

lemma dispatch_inv:
  assumes "delivery_inv state"
  shows "delivery_inv (dispatch (logging_sink outcome) destinations now messages state)"
proof -
  have "delivery_inv (fold (dispatch_one (logging_sink outcome) now) work state)" if "delivery_inv state" for work state
    using that
  proof (induction work arbitrary: state)
    case (Cons w work)
    then have "delivery_inv (dispatch_one (logging_sink outcome) now w state)"
      using dispatch_one_inv by (cases w; cases state) auto
    with Cons.IH show ?case by simp
  qed simp
  then show ?thesis using assms by (simp add: dispatch_def)
qed

text \<open>
  C37. Over any sequence of dispatches, whatever the sink answers, an alert is attempted at
  most three times per destination and never again after a successful attempt.
\<close>

theorem alerts_sent_at_most_once:
  assumes "(history, rows) = fold (\<lambda>(now, messages). dispatch (logging_sink outcome) destinations now messages) calls ([], [])"
  shows "length (attempts (key, destination) history) \<le> 3
    \<and> (\<forall>before_ok after_ok. attempts (key, destination) history = before_ok @ True # after_ok \<longrightarrow> after_ok = [] \<and> True \<notin> set before_ok)"
proof -
  have "delivery_inv (fold (\<lambda>(now, messages). dispatch (logging_sink outcome) destinations now messages) calls state)"
    if "delivery_inv state" for state
    using that
  proof (induction calls arbitrary: state)
    case (Cons c calls)
    show ?case using Cons.IH [OF dispatch_inv [OF Cons.prems]] by (simp add: case_prod_beta)
  qed simp
  moreover have "delivery_inv ([], [])" by (simp add: delivery_inv_def delivery_ok_def delivery_of_def attempts_def)
  ultimately have inv: "delivery_inv (history, rows)" using assms by simp
  then have ok: "delivery_ok (attempts (key, destination) history) (delivery_of key destination rows)"
    by (simp add: delivery_inv_def)
  then have "length (attempts (key, destination) history) \<le> 3"
    by (auto simp: delivery_ok_def max_attempts_def split: option.splits)
  moreover have "\<exists>fails tail. attempts (key, destination) history = fails @ tail \<and> True \<notin> set fails \<and> tail \<in> {[], [True]}"
    using ok by (force simp: delivery_ok_def split: option.splits if_splits)
  moreover have "after_ok = [] \<and> True \<notin> set before_ok"
    if "before_ok @ True # after_ok = fails @ tail" "True \<notin> set fails" "tail \<in> {[], [True]}" for before_ok after_ok fails tail
    using that by (auto simp: append_eq_append_conv2 Cons_eq_append_conv append_eq_Cons_conv)
  ultimately show ?thesis by metis
qed

section \<open>A concrete dispatch\<close>

definition sample_alert :: alert_message where
  "sample_alert = \<lparr>am_delivery_key = ''k'', am_occurrence_id = ''o'', am_severity = ''high'', am_title = ''t'', am_summary = ''s'',
     am_retry_at = None, am_links = []\<rparr>"

theorem alerts_sent_at_most_once_witness:
  "attempts (''k'', ''d'') (fst (fold (\<lambda>(now, messages). dispatch (logging_sink (\<lambda>h _ _. h \<noteq> [])) [''d''] now messages)
      [(''1'', [sample_alert]), (''2'', [sample_alert]), (''3'', [sample_alert])] ([], []))) = [False, True]
    \<and> length [False, True] \<le> 3"
proof -
  define final where "final = fold (\<lambda>(now, messages). dispatch (logging_sink (\<lambda>h _ _. h \<noteq> [])) [''d''] now messages)
      [(''1'', [sample_alert]), (''2'', [sample_alert]), (''3'', [sample_alert])] ([], [])"
  have "attempts (''k'', ''d'') (fst final) = [False, True]" unfolding final_def by code_simp
  moreover have "length (attempts (''k'', ''d'') (fst final)) \<le> 3"
    using alerts_sent_at_most_once [of "fst final" "snd final", unfolded prod.collapse, OF final_def] by blast
  ultimately show ?thesis by (simp add: final_def)
qed

end
