(* ===== verification/Outbox.thy ===== *)
theory Outbox
  imports ActionStore KickStore "HOL-Library.Sublist"
begin

text \<open>
  The operator's side of reporting: the answer handling of \<open>tidal/control_plane/client.py\<close> and the
  durable queue of \<open>tidal/control_plane/outbox.py\<close>. The queue is the list of its rows with the
  autoincrement sequence; payloads are kept as values, not as their JSON text. The transport is a
  function on a state of its own, so a server may answer differently every time.
\<close>

section \<open>The client\<close>

datatype client_error =
    ControlPlaneError string "int option"
  | ClientException string

fun client_error_text :: "client_error \<Rightarrow> string" where
  "client_error_text (ControlPlaneError m _) = m"
| "client_error_text (ClientException m) = m"

text \<open>What \<open>httpx\<close> gives back: a transport error, or a response whose body may be JSON.\<close>

datatype http_answer =
    HttpError (he_invalid_url: bool) (he_text: string)
  | HttpResponse (hr_status: int) (hr_text: string) (hr_json: "json option")

definition looks_like_tidal_response :: "json \<Rightarrow> bool" where
  "looks_like_tidal_response payload =
     (case payload of JObj d \<Rightarrow> list_all (\<lambda>k. map_of d k \<noteq> None) [''status'', ''warnings'', ''data''] | _ \<Rightarrow> False)"

text \<open>The first of the three keys that is present; null when there is none.\<close>

definition extract_error_detail :: "json \<Rightarrow> json" where
  "extract_error_detail payload =
     (case payload of
       JObj d \<Rightarrow> (case List.map_filter (map_of d) [''detail'', ''message'', ''error''] of [] \<Rightarrow> JNull | v # _ \<Rightarrow> v)
     | _ \<Rightarrow> JNull)"

definition extract_error_body_text :: "string \<Rightarrow> json" where
  "extract_error_body_text body = (let text = str_strip body in if text = [] then JNull else JStr text)"

definition extract_warning_detail :: "json \<Rightarrow> json" where
  "extract_warning_detail payload =
     (case payload of
       JObj d \<Rightarrow> (case json_get d ''warnings'' of
           JList warnings \<Rightarrow> (case filter (\<lambda>t. t \<noteq> []) (map (\<lambda>w. str_strip (json_str w)) warnings) of
               [] \<Rightarrow> JNull | t # _ \<Rightarrow> JStr t)
         | _ \<Rightarrow> JNull)
     | _ \<Rightarrow> JNull)"

definition transport_error_message :: "string \<Rightarrow> bool \<Rightarrow> string \<Rightarrow> string" where
  "transport_error_message base_url invalid_url text =
     (if invalid_url then ''Invalid TIDAL_API_BASE_URL '' @ [char_of (39 :: nat)] @ base_url @ [char_of (39 :: nat)] @ '': '' @ text
      else ''Could not reach Tidal API at '' @ base_url @ '': '' @ text)"

definition unexpected_response_error :: "string \<Rightarrow> string \<Rightarrow> int \<Rightarrow> client_error" where
  "unexpected_response_error base_url path status_code = ControlPlaneError
     (''Unexpected response from Tidal API at '' @ base_url @ path @ ''; check TIDAL_API_BASE_URL'') (Some status_code)"

definition api_error_message :: "string \<Rightarrow> int \<Rightarrow> json \<Rightarrow> string" where
  "api_error_message base_url status_code detail =
     (let detail_text = (if detail = JNull then [] else str_strip (json_str detail))
      in if status_code = 401 \<and> detail_text = ''Bearer token required'' then ''TIDAL_API_KEY is required for this command''
         else if status_code = 401 \<and> detail_text = ''Invalid bearer token''
           then ''TIDAL_API_KEY is invalid for Tidal API at '' @ base_url
         else if status_code = 503 \<and> detail_text = ''No API keys configured''
           then ''Tidal API at '' @ base_url @ '' has no API keys configured''
         else if detail_text \<noteq> [] then ''API returned '' @ show_int status_code @ '': '' @ detail_text
         else ''API returned HTTP '' @ show_int status_code)"

definition is_success :: "int \<Rightarrow> bool" where
  "is_success status_code \<longleftrightarrow> 200 \<le> status_code \<and> status_code \<le> 299"

text \<open>\<open>ControlPlaneClient.request\<close>, from the answer on.\<close>

definition handle_answer :: "string \<Rightarrow> string \<Rightarrow> bool \<Rightarrow> http_answer \<Rightarrow> client_error + json" where
  "handle_answer base_url path allow_error_status answer =
     (case answer of
       HttpError invalid_url text \<Rightarrow> Inl (ControlPlaneError (transport_error_message base_url invalid_url text) None)
     | HttpResponse status_code text body \<Rightarrow>
         if \<not> is_success status_code then
           let message = (case body of
               None \<Rightarrow> extract_error_body_text text
             | Some payload \<Rightarrow> json_or (json_or (extract_error_detail payload) (extract_warning_detail payload))
                 (extract_error_body_text text))
           in Inl (ControlPlaneError (api_error_message base_url status_code message) (Some status_code))
         else (case body of
             None \<Rightarrow> Inl (unexpected_response_error base_url path status_code)
           | Some payload \<Rightarrow>
               if \<not> looks_like_tidal_response payload then Inl (unexpected_response_error base_url path status_code)
               else if (case payload of JObj d \<Rightarrow> json_get d ''status'' | _ \<Rightarrow> JNull) = JStr ''error'' \<and> \<not> allow_error_status then
                 let message = json_or (json_or (extract_error_detail payload) (extract_warning_detail payload))
                       (JStr ''API returned an error'')
                 in Inl (ControlPlaneError (api_error_message base_url status_code message) (Some status_code))
               else Inr payload))"

section \<open>The queue\<close>

record outbox_row =
  ox_id :: int
  ox_base_url :: string
  ox_action_id :: string
  ox_tx_index :: int
  ox_report_type :: string
  ox_payload :: json
  ox_attempt_count :: nat
  ox_last_error :: "string option"
  ox_created_at :: string
  ox_updated_at :: string

record outbox =
  ob_rows :: "outbox_row list"
  ob_sequence :: int

record pending_report =
  pr_id :: int
  pr_action_id :: string
  pr_tx_index :: int
  pr_report_type :: string
  pr_payload :: json
  pr_attempt_count :: nat
  pr_last_error :: "string option"

definition normalize_base_url :: "string \<Rightarrow> string" where
  "normalize_base_url base_url = str_rstrip_char (CHR ''/'') base_url"

type_synonym report_key = "string \<times> string \<times> int \<times> string"

definition ox_key :: "outbox_row \<Rightarrow> report_key" where
  "ox_key row = (ox_base_url row, ox_action_id row, ox_tx_index row, ox_report_type row)"

text \<open>Rows by id; an id is never used twice.\<close>

definition outbox_get :: "outbox \<Rightarrow> int \<Rightarrow> outbox_row option" where
  "outbox_get ob i = find (\<lambda>row. ox_id row = i) (ob_rows ob)"

definition outbox_insert :: "outbox_row \<Rightarrow> outbox \<Rightarrow> outbox \<times> int" where
  "outbox_insert row ob =
     (ob\<lparr>ob_rows := ob_rows ob @ [row\<lparr>ox_id := ob_sequence ob + 1\<rparr>], ob_sequence := ob_sequence ob + 1\<rparr>, ob_sequence ob + 1)"

definition outbox_update :: "int \<Rightarrow> (outbox_row \<Rightarrow> outbox_row) \<Rightarrow> outbox \<Rightarrow> outbox" where
  "outbox_update i f ob = ob\<lparr>ob_rows := map (\<lambda>row. if ox_id row = i then f row else row) (ob_rows ob)\<rparr>"

text \<open>\<open>INSERT ... ON CONFLICT DO UPDATE\<close>.\<close>

definition outbox_upsert :: "string \<Rightarrow> string \<Rightarrow> string \<Rightarrow> int \<Rightarrow> string \<Rightarrow> json \<Rightarrow> outbox \<Rightarrow> outbox" where
  "outbox_upsert now base_url action_id tx_index report_type payload ob =
     (let key = (normalize_base_url base_url, action_id, tx_index, report_type) in
      if key \<in> set (map ox_key (ob_rows ob)) then
        ob\<lparr>ob_rows := map (\<lambda>row. if ox_key row = key
          then row\<lparr>ox_payload := payload, ox_updated_at := now, ox_last_error := None\<rparr> else row) (ob_rows ob)\<rparr>
      else fst (outbox_insert \<lparr>ox_id = 0, ox_base_url = normalize_base_url base_url,
          ox_action_id = action_id, ox_tx_index = tx_index, ox_report_type = report_type, ox_payload = payload,
          ox_attempt_count = 0, ox_last_error = None, ox_created_at = now, ox_updated_at = now\<rparr> ob))"

text \<open>\<open>int(payload["txIndex"])\<close> comes first.\<close>

definition queue_report :: "string \<Rightarrow> string \<Rightarrow> string \<Rightarrow> string \<Rightarrow> (string \<times> json) list \<Rightarrow> outbox \<Rightarrow> outbox result" where
  "queue_report report_type now base_url action_id payload ob =
     (case map_of payload ''txIndex'' of
       None \<Rightarrow> Inl (KeyError ''txIndex'')
     | Some v \<Rightarrow> err_bind (json_int v) (\<lambda>tx_index.
         Inr (outbox_upsert now base_url action_id tx_index report_type (JObj payload) ob)))"

definition queue_broadcast where "queue_broadcast = queue_report ''broadcast''"
definition queue_submission where "queue_submission = queue_report ''submission''"
definition queue_receipt where "queue_receipt = queue_report ''receipt''"

definition mark_delivered :: "string \<Rightarrow> string \<Rightarrow> int \<Rightarrow> string \<Rightarrow> outbox \<Rightarrow> outbox" where
  "mark_delivered base_url action_id tx_index report_type ob =
     ob\<lparr>ob_rows := filter (\<lambda>row. ox_key row \<noteq> (normalize_base_url base_url, action_id, tx_index, report_type)) (ob_rows ob)\<rparr>"

definition mark_failed :: "string \<Rightarrow> int \<Rightarrow> string \<Rightarrow> outbox \<Rightarrow> outbox" where
  "mark_failed now report_id error ob =
     outbox_update report_id
       (\<lambda>row. row\<lparr>ox_attempt_count := ox_attempt_count row + 1, ox_last_error := Some error, ox_updated_at := now\<rparr>) ob"

definition report_of_row :: "outbox_row \<Rightarrow> pending_report" where
  "report_of_row row = \<lparr>pr_id = ox_id row, pr_action_id = ox_action_id row, pr_tx_index = ox_tx_index row,
     pr_report_type = ox_report_type row, pr_payload = (case ox_payload row of JObj d \<Rightarrow> JObj d | _ \<Rightarrow> JObj []),
     pr_attempt_count = ox_attempt_count row, pr_last_error = ox_last_error row\<rparr>"

definition pending_rows :: "string \<Rightarrow> int \<Rightarrow> bool \<Rightarrow> outbox \<Rightarrow> outbox_row list" where
  "pending_rows base_url limit submissions ob =
     sql_limit limit 0 (sort_key (\<lambda>row. (ox_created_at row, ox_id row))
       (filter (\<lambda>row. ox_base_url row = normalize_base_url base_url \<and> (ox_report_type row = ''submission'') = submissions)
         (ob_rows ob)))"

definition pending_reports :: "string \<Rightarrow> int \<Rightarrow> bool \<Rightarrow> outbox \<Rightarrow> pending_report list" where
  "pending_reports base_url limit submissions ob = map report_of_row (pending_rows base_url limit submissions ob)"

definition pending_count :: "string \<Rightarrow> string option \<Rightarrow> outbox \<Rightarrow> nat" where
  "pending_count base_url report_type ob =
     length (filter (\<lambda>row. ox_base_url row = normalize_base_url base_url
       \<and> (report_type = None \<or> report_type = Some (ox_report_type row))) (ob_rows ob))"

section \<open>Sending\<close>

definition report_path :: "pending_report \<Rightarrow> string" where
  "report_path report = ''/api/v1/tidal/actions/'' @ pr_action_id report @
     (if pr_report_type report = ''broadcast'' then ''/broadcast'' else ''/receipt'')"

type_synonym 's transport = "'s \<Rightarrow> string \<Rightarrow> json \<Rightarrow> 's \<times> http_answer"

definition send_report :: "'s transport \<Rightarrow> string \<Rightarrow> 's \<Rightarrow> pending_report \<Rightarrow> 's \<times> (client_error + json)" where
  "send_report transport base_url s report =
     (case transport s (report_path report) (pr_payload report) of
       (s, answer) \<Rightarrow> (s, handle_answer base_url (report_path report) False answer))"

text \<open>The loop of \<open>flush_pending\<close>; the delivered reports are collected, the code counts them.\<close>

fun flush_loop ::
  "'s transport \<Rightarrow> string \<Rightarrow> string \<Rightarrow> pending_report list \<Rightarrow> 's \<Rightarrow> outbox \<Rightarrow> 's \<times> outbox \<times> pending_report list" where
  "flush_loop transport now base_url [] s ob = (s, ob, [])"
| "flush_loop transport now base_url (report # reports) s ob =
     (case send_report transport base_url s report of
       (s, Inr _) \<Rightarrow>
         (case flush_loop transport now base_url reports s
             (mark_delivered base_url (pr_action_id report) (pr_tx_index report) (pr_report_type report) ob) of
           (s, ob, delivered) \<Rightarrow> (s, ob, report # delivered))
     | (s, Inl error) \<Rightarrow>
         let ob = mark_failed now (pr_id report) (client_error_text error) ob in
         (case error of
           ControlPlaneError _ (Some status_code) \<Rightarrow>
             if 500 \<le> status_code then (s, ob, []) else flush_loop transport now base_url reports s ob
         | _ \<Rightarrow> (s, ob, [])))"

definition flush_pending :: "'s transport \<Rightarrow> string \<Rightarrow> string \<Rightarrow> int \<Rightarrow> 's \<Rightarrow> outbox \<Rightarrow> 's \<times> outbox \<times> nat" where
  "flush_pending transport now client_base_url limit s ob =
     (let base_url = normalize_base_url client_base_url in
      case flush_loop transport now base_url (pending_reports base_url limit False ob) s ob of
        (s, ob, delivered) \<Rightarrow> (s, ob, length delivered))"

section \<open>The queue as a keyed table\<close>

definition outbox_wf :: "outbox \<Rightarrow> bool" where
  "outbox_wf ob \<longleftrightarrow> distinct (map ox_id (ob_rows ob)) \<and> (\<forall>row \<in> set (ob_rows ob). ox_id row \<le> ob_sequence ob)"

lemma outbox_get_None: "outbox_get ob i = None \<longleftrightarrow> i \<notin> ox_id ` set (ob_rows ob)"
  by (auto simp: outbox_get_def find_None_iff)

lemma outbox_get_insert:
  "outbox_get (fst (outbox_insert row ob)) i = (case outbox_get ob i of Some r \<Rightarrow> Some r
     | None \<Rightarrow> if i = ob_sequence ob + 1 then Some (row\<lparr>ox_id := i\<rparr>) else None)"
proof -
  have "find P (xs @ [x]) = (case find P xs of Some r \<Rightarrow> Some r | None \<Rightarrow> if P x then Some x else None)"
    for P :: "outbox_row \<Rightarrow> bool" and xs x by (induction xs) auto
  then show ?thesis by (auto simp: outbox_get_def outbox_insert_def split: option.split)
qed

lemma outbox_get_update:
  "(\<And>r. ox_id (f r) = ox_id r) \<Longrightarrow>
     outbox_get (outbox_update i f ob) j = (if i = j then map_option f (outbox_get ob j) else outbox_get ob j)"
proof -
  assume f: "\<And>r. ox_id (f r) = ox_id r"
  have "find (\<lambda>row. ox_id row = j) (map (\<lambda>row. if ox_id row = i then f row else row) rows) =
      (if i = j then map_option f (find (\<lambda>row. ox_id row = j) rows) else find (\<lambda>row. ox_id row = j) rows)" for rows
    by (induction rows) (auto simp: f)
  then show ?thesis by (simp add: outbox_get_def outbox_update_def)
qed

interpretation outbox_store: row_store outbox_wf outbox_get outbox_insert outbox_update ox_id "\<lambda>i row. row\<lparr>ox_id := i\<rparr>"
proof
  fix t :: outbox and r
  assume wf: "outbox_wf t"
  then have fresh: "ob_sequence t + 1 \<notin> ox_id ` set (ob_rows t)" by (auto simp: outbox_wf_def)
  then show "outbox_get t (snd (outbox_insert r t)) = None" by (simp add: outbox_get_None outbox_insert_def)
  show "outbox_wf (fst (outbox_insert r t))"
    using wf fresh by (auto simp: outbox_wf_def outbox_insert_def)
  show "outbox_get (fst (outbox_insert r t)) i =
      (if i = snd (outbox_insert r t) then Some (r\<lparr>ox_id := i\<rparr>) else outbox_get t i)" for i
  proof -
    have "outbox_get t (ob_sequence t + 1) = None" using fresh by (simp add: outbox_get_None)
    moreover have "snd (outbox_insert r t) = ob_sequence t + 1" by (simp add: outbox_insert_def)
    ultimately show ?thesis by (auto simp: outbox_get_insert split: option.split)
  qed
next
  show "outbox_get t i = Some r \<Longrightarrow> ox_id r = i" for t i r by (auto simp: outbox_get_def find_Some_iff)
  show "outbox_wf t \<Longrightarrow> (\<And>r. ox_id (f r) = ox_id r) \<Longrightarrow> outbox_wf (outbox_update i f t)" for t f i
    by (auto simp: outbox_wf_def outbox_update_def comp_def if_distrib cong: if_cong)
  show "outbox_wf t \<Longrightarrow> (\<And>r. ox_id (f r) = ox_id r) \<Longrightarrow>
      outbox_get (outbox_update i f t) j = (if i = j then map_option f (outbox_get t j) else outbox_get t j)" for t f i j
    by (rule outbox_get_update)
qed

section \<open>A flush keeps what was not delivered\<close>

text \<open>What identifies a row and places it in the queue; failed attempts change none of it.\<close>

definition queued :: "outbox_row \<Rightarrow> int \<times> report_key \<times> json \<times> string" where
  "queued row = (ox_id row, ox_key row, ox_payload row, ox_created_at row)"

definition delivered_key :: "string \<Rightarrow> pending_report \<Rightarrow> report_key" where
  "delivered_key base_url report =
     (normalize_base_url base_url, pr_action_id report, pr_tx_index report, pr_report_type report)"

lemma queued_mark_failed: "map queued (ob_rows (mark_failed now i error ob)) = map queued (ob_rows ob)"
  by (auto simp: mark_failed_def outbox_update_def queued_def ox_key_def)

lemma queued_filter_cong:
  assumes "map queued xs = map queued ys"
  shows "map queued (filter (\<lambda>row. P (ox_key row)) xs) = map queued (filter (\<lambda>row. P (ox_key row)) ys)"
proof -
  have "map queued (filter (\<lambda>row. P (ox_key row)) zs) = filter (\<lambda>q. P (fst (snd q))) (map queued zs)" for zs
    by (induction zs) (auto simp: queued_def)
  then show ?thesis using assms by simp
qed

lemma mark_delivered_rows:
  "ob_rows (mark_delivered base_url (pr_action_id r) (pr_tx_index r) (pr_report_type r) ob) =
     filter (\<lambda>row. ox_key row \<noteq> delivered_key base_url r) (ob_rows ob)"
  by (simp add: mark_delivered_def delivered_key_def)

lemma flush_loop_keeps:
  assumes "flush_loop transport now base_url reports s ob = (s', ob', delivered)"
  shows "map queued (ob_rows ob') =
      map queued (filter (\<lambda>row. ox_key row \<notin> delivered_key base_url ` set delivered) (ob_rows ob))
    \<and> subseq delivered reports
    \<and> (\<forall>r \<in> set delivered. \<exists>t t' x. send_report transport base_url t r = (t', Inr x))"
  using assms
proof (induction reports arbitrary: s ob s' ob' delivered)
  case (Cons r reports)
  obtain t res where send: "send_report transport base_url s r = (t, res)" by (metis prod.collapse)
  show ?case
  proof (cases res)
    case (Inr x)
    define ob1 where "ob1 = mark_delivered base_url (pr_action_id r) (pr_tx_index r) (pr_report_type r) ob"
    obtain rest where loop: "flush_loop transport now base_url reports t ob1 = (s', ob', rest)" and dl: "delivered = r # rest"
      using Cons.prems by (auto simp: send Inr ob1_def split: prod.splits)
    note IH = Cons.IH [OF loop]
    have "filter (\<lambda>row. ox_key row \<notin> delivered_key base_url ` set rest) (ob_rows ob1) =
        filter (\<lambda>row. ox_key row \<notin> delivered_key base_url ` set delivered) (ob_rows ob)"
      by (auto simp: ob1_def mark_delivered_rows dl intro: filter_cong)
    then show ?thesis using IH send Inr dl by auto
  next
    case (Inl e)
    define ob1 where "ob1 = mark_failed now (pr_id r) (client_error_text e) ob"
    show ?thesis
    proof (cases "\<exists>m code. e = ControlPlaneError m (Some code) \<and> code < 500")
      case True
      then have "flush_loop transport now base_url reports t ob1 = (s', ob', delivered)"
        using Cons.prems by (auto simp: send Inl ob1_def Let_def)
      from Cons.IH [OF this] show ?thesis
        using queued_filter_cong [OF queued_mark_failed, of "\<lambda>k. k \<notin> delivered_key base_url ` set delivered"]
        by (auto simp: ob1_def)
    next
      case False
      then have "ob' = ob1" "delivered = []"
        using Cons.prems by (auto simp: send Inl ob1_def Let_def split: client_error.splits option.splits if_splits)
      then show ?thesis by (simp add: ob1_def queued_mark_failed)
    qed
  qed
qed simp

lemma flush_pending_loop:
  assumes "flush_pending transport now base limit s ob = (s', ob', n)"
  obtains delivered where
    "flush_loop transport now (normalize_base_url base) (pending_reports (normalize_base_url base) limit False ob) s ob
      = (s', ob', delivered)" "n = length delivered"
  using assms by (auto simp: flush_pending_def Let_def split: prod.splits)

text \<open>
  C38. Flushing the queue removes only reports the API accepted, in queue order, returns
  their number, and keeps every other report with its id, payload and creation time.
\<close>

theorem flush_keeps_undelivered:
  assumes "flush_pending transport now base limit s ob = (s', ob', n)"
  shows "\<exists>delivered. n = length delivered
    \<and> subseq delivered (pending_reports (normalize_base_url base) limit False ob)
    \<and> (\<forall>r \<in> set delivered. \<exists>t t' x. send_report transport (normalize_base_url base) t r = (t', Inr x))
    \<and> map queued (ob_rows ob') = map queued (filter (\<lambda>row.
        ox_key row \<notin> delivered_key (normalize_base_url base) ` set delivered) (ob_rows ob))"
  using flush_pending_loop [OF assms]
proof cases
  case (1 delivered)
  from flush_loop_keeps [OF 1(1)] 1(2) show ?thesis by blast
qed

section \<open>Rejected reports at the head of the queue\<close>

lemma pending_queued:
  assumes "map queued (ob_rows ob') = map queued (ob_rows ob)"
  shows "map pr_id (pending_reports base limit submissions ob') = map pr_id (pending_reports base limit submissions ob)"
proof -
  define wanted where "wanted = (\<lambda>q :: int \<times> report_key \<times> json \<times> string. case q of
    (i, (b, a, x, t), p, c) \<Rightarrow> b = normalize_base_url base \<and> (t = ''submission'') = submissions)"
  define order where "order = (\<lambda>q :: int \<times> report_key \<times> json \<times> string. (snd (snd (snd q)), fst q))"
  have "map pr_id (pending_reports base limit submissions o') =
      map fst (sql_limit limit 0 (sort_key order (filter wanted (map queued (ob_rows o')))))" for o'
  proof -
    have "filter wanted (map queued rows) = map queued (filter (\<lambda>row. ox_base_url row = normalize_base_url base
        \<and> (ox_report_type row = ''submission'') = submissions) rows)" for rows
      by (induction rows) (auto simp: wanted_def queued_def ox_key_def)
    moreover have "sort_key order (map queued rows) = map queued (sort_key (\<lambda>row. (ox_created_at row, ox_id row)) rows)" for rows
      by (simp add: sort_key_map order_def queued_def)
    moreover have "sql_limit limit 0 (map queued rows) = map queued (sql_limit limit 0 rows)" for rows
      by (simp add: sql_limit_def take_map)
    ultimately show ?thesis
      by (simp add: pending_reports_def pending_rows_def comp_def report_of_row_def queued_def)
  qed
  then show ?thesis using assms by simp
qed

text \<open>
  C39. When the API answers every report that a flush reads with an error status, the flush
  delivers nothing, keeps the queue, and leaves the same reports to be read by the next
  flush, so reports behind them are never sent.
\<close>

theorem rejected_head_starves_queue:
  assumes "\<And>t r. r \<in> set (pending_reports (normalize_base_url base) limit False ob) \<Longrightarrow>
      \<exists>t' m code. send_report transport (normalize_base_url base) t r = (t', Inl (ControlPlaneError m (Some code)))"
    and "flush_pending transport now base limit s ob = (s', ob', n)"
  shows "n = 0 \<and> map queued (ob_rows ob') = map queued (ob_rows ob)
    \<and> map pr_id (pending_reports (normalize_base_url base) limit False ob') =
      map pr_id (pending_reports (normalize_base_url base) limit False ob)"
  using flush_pending_loop [OF assms(2)]
proof cases
  case (1 delivered)
  note keeps = flush_loop_keeps [OF 1(1)]
  have "r \<notin> set delivered" for r
  proof
    assume r: "r \<in> set delivered"
    then obtain t t' x where "send_report transport (normalize_base_url base) t r = (t', Inr x)" using keeps by blast
    moreover have "r \<in> set (pending_reports (normalize_base_url base) limit False ob)"
      using keeps r list_emb_set [of "(=)" delivered _ r] by blast
    ultimately show False using assms(1) [of r t] by auto
  qed
  then have "delivered = []" by (cases delivered) auto
  then have same: "map queued (ob_rows ob') = map queued (ob_rows ob)" using keeps by simp
  show ?thesis by (intro conjI same pending_queued [OF same]) (simp add: 1(2) \<open>delivered = []\<close>)
qed

section \<open>A concrete queue\<close>

definition sample_outbox :: outbox where
  "sample_outbox = outbox_upsert ''2'' ''http://h/'' ''act'' 0 ''receipt'' (JObj [(''txIndex'', JInt 0)])
     (outbox_upsert ''1'' ''http://h'' ''act'' 0 ''broadcast'' (JObj [(''txIndex'', JInt 0)])
       \<lparr>ob_rows = [], ob_sequence = 0\<rparr>)"

definition accepting :: "nat transport" where
  "accepting s path payload = (s + 1,
     if s = 0 then HttpResponse 200 [] (Some (JObj [(''status'', JStr ''ok''), (''warnings'', JList []), (''data'', JNull)]))
     else HttpResponse 503 ''down'' None)"

definition rejecting :: "nat transport" where
  "rejecting s path payload = (s + 1, HttpResponse 404 ''no such action'' None)"

theorem flush_keeps_undelivered_witness:
  "\<exists>s' ob' delivered. flush_pending accepting ''3'' ''http://h'' 100 0 sample_outbox = (s', ob', 1)
    \<and> length delivered = 1 \<and> map ox_report_type (ob_rows ob') = [''receipt'']
    \<and> map queued (ob_rows ob') = map queued (filter (\<lambda>row.
        ox_key row \<notin> delivered_key (normalize_base_url ''http://h'') ` set delivered) (ob_rows sample_outbox))"
proof -
  define result where "result = flush_pending accepting ''3'' ''http://h'' 100 0 sample_outbox"
  have facts: "snd (snd result) = 1" "map ox_report_type (ob_rows (fst (snd result))) = [''receipt'']"
    unfolding result_def by code_simp+
  then obtain s' ob' where run: "result = (s', ob', 1)" by (metis prod.collapse)
  from flush_keeps_undelivered [OF run [unfolded result_def]] facts show ?thesis
    unfolding result_def [symmetric] run by auto
qed

theorem rejected_head_starves_queue_witness:
  "\<exists>s' ob'. flush_pending rejecting ''3'' ''http://h'' 100 0 sample_outbox = (s', ob', 0)
    \<and> map queued (ob_rows ob') = map queued (ob_rows sample_outbox)"
proof -
  obtain s' ob' n where run: "flush_pending rejecting ''3'' ''http://h'' 100 0 sample_outbox = (s', ob', n)"
    by (metis prod.collapse)
  have rejected: "\<exists>t' m code. send_report rejecting (normalize_base_url ''http://h'') t r
      = (t', Inl (ControlPlaneError m (Some code)))" for t r
    by (simp add: send_report_def rejecting_def handle_answer_def is_success_def)
  from rejected_head_starves_queue [OF rejected run] show ?thesis using run by auto
qed

end
