(* ===== verification/Redelivery.thy ===== *)
theory Redelivery
  imports ActionStaging Outbox
begin

text \<open>
  The queue of the operator and the ledger of the API together. The queue delivers a report at least
  once: a report leaves it only after the API answered. Here the API's side is shown to take a second
  delivery of the same broadcast without effect, so a lost answer does no harm.
\<close>

lemma map_sum_err_bind: "map_sum id g (err_bind m f) = err_bind m (\<lambda>x. map_sum id g (f x))"
  by (cases m) simp_all

text \<open>Staging reads the action but not its status, and no other action.\<close>

lemma ensure_action_operations_actions:
  "ensure_action_operations isaddr now (action\<lparr>a_status := s, a_updated_at := u, a_error_message := e\<rparr>) tx (db\<lparr>l_actions := actions\<rparr>) =
     map_sum id (map_prod (\<lambda>d. d\<lparr>l_actions := actions\<rparr>) id) (ensure_action_operations isaddr now action tx db)"
proof -
  define action' where "action' = action\<lparr>a_status := s, a_updated_at := u, a_error_message := e\<rparr>"
  define db' where "db' = db\<lparr>l_actions := actions\<rparr>"
  have "resolve_source_context isaddr db' = resolve_source_context isaddr db"
    by (simp add: fun_eq_iff resolve_source_context_def db'_def split: option.split)
  then have item: "operation_of_item isaddr db' = operation_of_item isaddr db"
    by (intro ext) (simp only: operation_of_item_def)
  have txs: "get_action_transactions db' = get_action_transactions db"
    by (rule get_action_transactions_txs) (simp add: db'_def)
  have same: "a_action_id action' = a_action_id action" "a_preview action' = a_preview action"
    "a_action_type action' = a_action_type action" "a_auction_address action' = a_auction_address action"
    "a_token_address action' = a_token_address action" "a_source_address action' = a_source_address action"
    by (simp_all add: action'_def)
  have "legacy_settle_item action' = legacy_settle_item action"
    by (intro ext) (simp only: legacy_settle_item_def same)
  then have "prepared_items db' action' = prepared_items db action"
    by (intro ext) (simp only: prepared_items_def txs same)
  then have "prepared_log_operations isaddr db' action' t n = prepared_log_operations isaddr db action t n" for t n
    by (simp only: prepared_log_operations_def prepared_preview_operations_def item same)
  moreover have "api_run_id action' = api_run_id action" "l_kicks db' = l_kicks db"
    by (simp_all add: api_run_id_def action'_def db'_def)
  ultimately show ?thesis
    unfolding action'_def [symmetric] db'_def [symmetric]
    by (auto simp: ensure_action_operations_def Let_def db'_def map_sum_err_bind case_prod_beta
      intro!: err_bind_cong split: option.split)
qed

lemma record_broadcast_cases:
  assumes "record_broadcast isaddr now action_id tx_index tx_hash broadcast_at db = Inr (db1, rows)"
  obtains action tx0 dbu tx ids where
    "require_action_transaction db action_id tx_index = Inr (action, tx0)"
    "x_tx_hash tx0 = None \<or> x_tx_hash tx0 = Some tx_hash"
    "dbu = (if x_tx_hash tx0 = None \<or> x_broadcast_at tx0 = None
       then update_transaction_broadcast now action_id tx_index tx_hash broadcast_at db else db)"
    "rows = get_action_transactions dbu action_id"
    "transaction_for_index rows tx_index = Inr tx"
    "ensure_action_operations isaddr now action tx
       (update_action_status action_id (calculate_action_status rows) now None dbu) = Inr (db1, ids)"
  using assms unfolding record_broadcast_def Let_def
  by (auto simp: err_simps split: if_splits)

lemma record_broadcast_intro:
  assumes "require_action_transaction db action_id tx_index = Inr (action, tx0)"
    and "x_tx_hash tx0 = Some tx_hash" "x_broadcast_at tx0 = Some b"
    and "transaction_for_index (get_action_transactions db action_id) tx_index = Inr tx"
    and "ensure_action_operations isaddr now action tx
       (update_action_status action_id (calculate_action_status (get_action_transactions db action_id)) now None db) = Inr (db1, ids)"
  shows "record_broadcast isaddr now action_id tx_index tx_hash broadcast_at db =
    Inr (db1, get_action_transactions db action_id)"
  using assms by (simp add: record_broadcast_def Let_def)

lemma find_map_update:
  "(\<And>r. P (f r) = P r) \<Longrightarrow> find P (map (\<lambda>row. if P row then f row else row) rs) = map_option f (find P rs)"
  by (induction rs) auto

lemma get_action_transaction_update_txs:
  assumes "\<And>r. x_action_id (f r) = x_action_id r" "\<And>r. x_tx_index (f r) = x_tx_index r"
  shows "get_action_transaction (update_txs action_id tx_index f db) action_id tx_index =
    map_option f (get_action_transaction db action_id tx_index)"
  unfolding get_action_transaction_def update_txs_def using assms by (simp add: find_map_update)

lemma repo_get_action_update_status:
  "repo_get_action (update_action_status action_id s u e db) action_id =
     map_option (\<lambda>row. row\<lparr>a_status := s, a_updated_at := u, a_error_message := e\<rparr>) (repo_get_action db action_id)"
  unfolding repo_get_action_def update_action_status_def by (simp add: find_map_update)

text \<open>The rows of the actions without the time of their last change.\<close>

definition undated_actions :: "ledger \<Rightarrow> api_action list" where
  "undated_actions db = map (\<lambda>row. row\<lparr>a_updated_at := []\<rparr>) (l_actions db)"

lemma record_broadcast_again:
  assumes "record_broadcast isaddr now action_id tx_index tx_hash broadcast_at db = Inr (db1, rows)"
    and "kick_table_wf (l_kicks db)"
  shows "record_broadcast isaddr later action_id tx_index tx_hash broadcast_at' db1 =
    Inr (update_action_status action_id (calculate_action_status rows) later None db1, rows)
    \<and> undated_actions (update_action_status action_id (calculate_action_status rows) later None db1) = undated_actions db1"
  using assms(1)
proof (cases rule: record_broadcast_cases)
  case (1 action tx0 dbu tx ids)
  let ?s = "calculate_action_status rows"
  let ?dbs = "update_action_status action_id ?s now None dbu"
  let ?action = "action\<lparr>a_status := ?s, a_updated_at := now, a_error_message := None\<rparr>"
  define f :: "action_tx \<Rightarrow> action_tx" where "f = (if x_tx_hash tx0 = None \<or> x_broadcast_at tx0 = None
    then (\<lambda>row. row\<lparr>x_tx_hash := Some tx_hash, x_broadcast_at := Some broadcast_at, x_updated_at := now\<rparr>)
    else (\<lambda>row. row))"
  have dbu: "dbu = update_txs action_id tx_index f db"
    using 1(3) by (simp add: f_def update_transaction_broadcast_def)
  have db1: "db1 = ?dbs\<lparr>l_kicks := l_kicks db1\<rparr>" by (rule ensure_action_operations_frame [OF 1(6)])
  have tabs: "l_txs db1 = l_txs dbu" "l_actions db1 = l_actions ?dbs"
    using arg_cong [OF db1, of l_txs] arg_cong [OF db1, of l_actions] by (simp_all add: update_action_status_def)
  have found: "repo_get_action db action_id = Some action" "get_action_transaction db action_id tx_index = Some tx0"
    using 1(1) by (auto simp: require_action_transaction_def split: option.splits)
  have "get_action_transaction dbu action_id tx_index = Some (f tx0)"
    using get_action_transaction_update_txs [of f action_id tx_index db] found(2) by (simp add: dbu f_def)
  then have got_tx: "get_action_transaction db1 action_id tx_index = Some (f tx0)"
    by (simp add: get_action_transaction_def tabs)
  have "repo_get_action dbu action_id = Some action"
    using found(1) by (simp add: repo_get_action_def dbu update_txs_def)
  then have "repo_get_action ?dbs action_id = Some ?action" by (simp add: repo_get_action_update_status)
  then have got_action: "repo_get_action db1 action_id = Some ?action" by (simp add: repo_get_action_def tabs)
  have rows: "get_action_transactions db1 action_id = rows"
    by (simp only: 1(4) get_action_transactions_txs [of db1 dbu] tabs)
  have kicks: "kick_table_wf (l_kicks ?dbs)"
    using assms(2) by (simp add: update_action_status_def dbu update_txs_def)
  have "ensure_action_operations isaddr later action tx db1 = Inr (db1, ids)"
    by (rule ensure_action_operations_again [OF 1(6) kicks])
  then have again: "ensure_action_operations isaddr later ?action tx (update_action_status action_id ?s later None db1) =
      Inr (update_action_status action_id ?s later None db1, ids)"
    by (simp add: ensure_action_operations_actions update_action_status_def)
  have "record_broadcast isaddr later action_id tx_index tx_hash broadcast_at' db1 =
    Inr (update_action_status action_id ?s later None db1, get_action_transactions db1 action_id)"
  proof (rule record_broadcast_intro)
    show "require_action_transaction db1 action_id tx_index = Inr (?action, f tx0)"
      by (simp add: require_action_transaction_def got_tx got_action)
    show "x_tx_hash (f tx0) = Some tx_hash" using 1(2) by (auto simp: f_def)
    show "x_broadcast_at (f tx0) = Some (the (x_broadcast_at (f tx0)))" using 1(2) by (auto simp: f_def)
    show "transaction_for_index (get_action_transactions db1 action_id) tx_index = Inr tx" by (simp only: rows 1(5))
  qed (simp only: rows again)
  moreover have "undated_actions (update_action_status action_id ?s later None db1) = undated_actions db1"
    by (simp add: undated_actions_def update_action_status_def tabs)
  ultimately show ?thesis by (simp only: rows)
qed

text \<open>
  C40. When a broadcast report that was recorded is delivered again, at any later time, the
  API accepts it, returns the same transactions and changes nothing but the update time of
  the action.
\<close>

theorem redelivered_broadcast_harmless:
  assumes "record_broadcast isaddr now action_id tx_index tx_hash broadcast_at db = Inr (db1, rows)"
    and "kick_table_wf (l_kicks db)"
  shows "\<exists>db2. record_broadcast isaddr later action_id tx_index tx_hash broadcast_at' db1 = Inr (db2, rows)
    \<and> l_txs db2 = l_txs db1 \<and> l_kicks db2 = l_kicks db1 \<and> undated_actions db2 = undated_actions db1"
  using record_broadcast_again [OF assms, of later broadcast_at'] by (auto simp: update_action_status_def)

theorem redelivered_broadcast_harmless_witness:
  "\<exists>db1 rows db2. sample_broadcast = Inr (db1, rows)
    \<and> record_broadcast (\<lambda>_. True) ''later'' ''id'' 0 ''h'' ''b2'' db1 = Inr (db2, rows)
    \<and> l_txs db2 = l_txs db1 \<and> l_kicks db2 = l_kicks db1 \<and> undated_actions db2 = undated_actions db1"
proof -
  have created: "case sample_created of Inl _ \<Rightarrow> False | Inr (db, action_id) \<Rightarrow> l_kicks db = []" by code_simp
  obtain db db1 rows where run: "sample_created = Inr (db, ''id'')" "sample_broadcast = Inr (db1, rows)"
    "record_broadcast (\<lambda>_. True) (isoformat_utc 0) ''id'' 0 ''h'' ''b'' db = Inr (db1, rows)"
    by (rule sample_run)
  have "kick_table_wf (l_kicks db)" using created by (simp add: run(1) kick_table_wf_def)
  from redelivered_broadcast_harmless [OF run(3) this, of "''later''" "''b2''"] run(2) show ?thesis by auto
qed

end
