(* ===== verification/DecimalError.thy ===== *)
theory DecimalError
  imports PyDecimal
begin

text \<open>
  How far the 78-digit decimal operations overestimate: every rounding of a non-negative value adds
  at most the relative error \<open>dec_ulp\<close>, one part in $10^{77}$.
\<close>

definition dec_ulp :: rat where
  "dec_ulp = 1 / 10 ^ 77"

lemma div_half_even_upper:
  assumes "0 < b"
  shows "b * div_half_even a b \<le> a + b"
proof -
  obtain q r where qr: "a div b = q" "a mod b = r" "a = b * q + r" by (metis mult_div_mod_eq)
  moreover have "0 \<le> r" using qr(2) assms by auto
  ultimately show ?thesis using assms unfolding div_half_even_def Let_def qr(1,2) by (simp add: qr(3) distrib_left)
qed

lemma div_half_even_nonneg: "0 \<le> a \<Longrightarrow> 0 < b \<Longrightarrow> 0 \<le> div_half_even a b"
  by (simp add: div_half_even_def Let_def pos_imp_zdiv_nonneg_iff)

lemma num_digits_lower_int: "0 < c \<Longrightarrow> (10::int) ^ (num_digits (nat c) - 1) \<le> c"
  using num_digits_lower [of "nat c"] by (simp add: le_nat_iff)

lemma num_digits_upper_int: "0 \<le> c \<Longrightarrow> c < (10::int) ^ num_digits (nat c)"
  using num_digits_upper [of "nat c"] by (simp add: nat_less_iff)

lemma dec_fix_upper:
  assumes "0 \<le> dec_coef x"
  shows "dec_val (dec_fix x) \<le> dec_val x * (1 + dec_ulp) \<and> 0 \<le> dec_coef (dec_fix x)"
proof (cases "num_digits (nat \<bar>dec_coef x\<bar>) \<le> dec_prec")
  case True
  then show ?thesis using assms by (simp add: dec_fix_def dec_ulp_def dec_val_def mult_le_cancel_left1)
next
  case False
  let ?c = "dec_coef x"
  define k where "k = num_digits (nat ?c) - dec_prec"
  define q where "q = div_half_even ?c (10 ^ k)"
  have pos: "0 < ?c" and n: "num_digits (nat ?c) = k + 78"
    using assms False by (auto simp: k_def dec_prec_def num_digits_simp [of 0] less_le)
  have big: "10 ^ (k + 77) \<le> ?c" using num_digits_lower_int [OF pos] by (simp add: n add.commute)
  have q: "0 \<le> q" "10 ^ k * q \<le> ?c + 10 ^ k"
    using assms by (simp_all add: q_def div_half_even_upper div_half_even_nonneg)
  have "(of_int (10 ^ k * q) :: rat) \<le> of_int (?c + 10 ^ k)" using q(2) by (simp only: of_int_le_iff)
  moreover have "(10::rat) ^ k * 10 ^ 77 \<le> of_int ?c"
    using big by (metis of_int_le_iff of_int_numeral of_int_power power_add)
  ultimately have bound: "(10::rat) ^ k * of_int q \<le> of_int ?c * (1 + dec_ulp)"
    by (simp add: dec_ulp_def field_simps)
  have eq: "dec_fix x = (if q = 10 ^ dec_prec then Dec (10 ^ (dec_prec - 1)) (dec_exp x + int k + 1)
      else Dec q (dec_exp x + int k))"
    using False pos by (simp add: dec_fix_def Let_def k_def q_def)
  have "(10::rat) ^ 77 * 10 powi (dec_exp x + int k + 1) = 10 ^ 78 * 10 powi (dec_exp x + int k)"
    by (simp add: power_int_add)
  then have rounded: "dec_val (dec_fix x) = of_int q * 10 powi (dec_exp x + int k) \<and> 0 \<le> dec_coef (dec_fix x)"
    using q(1) by (simp add: eq dec_val_def dec_prec_def)
  have "dec_val (dec_fix x) = (10 ^ k * of_int q) * 10 powi dec_exp x"
    using rounded by (simp add: power_int_add)
  also have "\<dots> \<le> (of_int ?c * (1 + dec_ulp)) * 10 powi dec_exp x"
    by (rule mult_right_mono [OF bound]) (simp add: less_imp_le)
  finally show ?thesis using rounded by (simp add: dec_val_def mult_ac)
qed

lemma dec_mul_upper:
  assumes "0 \<le> dec_coef x" "0 \<le> dec_coef y"
  shows "dec_val (dec_mul x y) \<le> dec_val x * dec_val y * (1 + dec_ulp) \<and> 0 \<le> dec_coef (dec_mul x y)"
proof -
  have "dec_val (Dec (dec_coef x * dec_coef y) (dec_exp x + dec_exp y)) = dec_val x * dec_val y"
    by (simp add: dec_val_def power_int_add)
  then show ?thesis
    using dec_fix_upper [of "Dec (dec_coef x * dec_coef y) (dec_exp x + dec_exp y)"] assms by (simp add: dec_mul_def)
qed

lemma quotient_large:
  assumes "0 < a" "0 < b" "shift = int (num_digits (nat b)) - int (num_digits (nat a)) + int dec_prec + 1"
  shows "(10::rat) ^ 77 * of_int (if 0 \<le> shift then b else b * 10 ^ nat (- shift))
    \<le> of_int (if 0 \<le> shift then a * 10 ^ nat shift else a)"
proof -
  let ?na = "num_digits (nat a)" and ?nb = "num_digits (nat b)"
  have a: "(10::int) ^ (?na - 1) \<le> a" and b: "b \<le> (10::int) ^ ?nb"
    using num_digits_lower_int [OF assms(1)] num_digits_upper_int [of b] assms(2) by simp_all
  obtain m where na: "?na = Suc m" by (metis gr0_implies_Suc num_digits_pos)
  have "(10::int) ^ 77 * (if 0 \<le> shift then b else b * 10 ^ nat (- shift))
    \<le> (if 0 \<le> shift then a * 10 ^ nat shift else a)"
  proof (cases "0 \<le> shift")
    case True
    then have e: "?nb + 77 \<le> ?na - 1 + nat shift" using assms(3) unfolding na by (simp add: dec_prec_def)
    have "10 ^ 77 * b \<le> 10 ^ (?nb + 77)" using b by (simp add: power_add)
    also have "\<dots> \<le> 10 ^ (?na - 1 + nat shift)" using e by (rule power_increasing) simp
    also have "\<dots> \<le> a * 10 ^ nat shift" using a by (simp add: power_add)
    finally show ?thesis using True by simp
  next
    case False
    then have e: "?nb + 77 + nat (- shift) \<le> ?na - 1" using assms(3) unfolding na by (simp add: dec_prec_def)
    have "10 ^ 77 * (b * 10 ^ nat (- shift)) \<le> 10 ^ (?nb + 77 + nat (- shift))" using b by (simp add: power_add)
    also have "\<dots> \<le> 10 ^ (?na - 1)" using e by (rule power_increasing) simp
    also have "\<dots> \<le> a" by (rule a)
    finally show ?thesis using False by simp
  qed
  then show ?thesis by (metis of_int_le_iff of_int_mult of_int_numeral of_int_power)
qed

lemma dec_div_upper:
  assumes "0 \<le> dec_coef x" "0 < dec_coef y" "dec_div x y = Inr z"
  shows "dec_val z \<le> dec_val x / dec_val y * (1 + dec_ulp) ^ 2 \<and> 0 \<le> dec_coef z"
proof (cases "dec_coef x = 0")
  case True
  then show ?thesis using assms by (auto simp: dec_div_def dec_val_def)
next
  case False
  define a where "a = dec_coef x"
  define b where "b = dec_coef y"
  define shift where "shift = int (num_digits (nat b)) - int (num_digits (nat a)) + int dec_prec + 1"
  define e where "e = dec_exp x - dec_exp y - shift"
  define num where "num = (if 0 \<le> shift then a * 10 ^ nat shift else a)"
  define den where "den = (if 0 \<le> shift then b else b * 10 ^ nat (- shift))"
  have pos: "0 < a" "0 < b" using assms False by (simp_all add: a_def b_def)
  have den: "0 < den" "0 \<le> num" using pos by (simp_all add: den_def num_def)
  have "(of_int num / of_int den :: rat) = of_int a / of_int b * 10 powi shift"
    by (cases "0 \<le> shift") (simp_all add: num_def den_def power_int_def divide_simps)
  moreover have "(10::rat) powi shift * 10 powi e = 10 powi dec_exp x / 10 powi dec_exp y"
    by (simp add: e_def flip: power_int_add power_int_diff)
  ultimately have exact: "of_int num / of_int den * 10 powi e = dec_val x / dec_val y"
    by (simp only: mult.assoc) (simp add: dec_val_def a_def b_def)
  define w where "w = (if num mod den \<noteq> 0
    then Dec (if num div den mod 5 = 0 then num div den + 1 else num div den) e
    else case dec_strip (dec_exp x - dec_exp y) (num div den) e of (c, e') \<Rightarrow> Dec c e')"
  have parts: "\<bar>dec_coef x\<bar> = a" "\<bar>dec_coef y\<bar> = b" "sgn (dec_coef x) * sgn (dec_coef y) = 1"
    "dec_coef x \<noteq> 0" "dec_coef y \<noteq> 0"
    using pos by (simp_all add: a_def b_def)
  have "dec_div x y = Inr (dec_fix w)"
    unfolding dec_div_def Let_def parts(1,2,3) shift_def [symmetric] e_def [symmetric] num_def [symmetric] den_def [symmetric]
      w_def using parts(4,5) by (simp split: prod.split)
  then have z: "z = dec_fix w" using assms(3) by simp
  have quot: "0 \<le> num div den" using den by (simp add: pos_imp_zdiv_nonneg_iff)
  have "(of_int (num div den) :: rat) \<le> of_int num / of_int den"
    by (metis floor_divide_of_int_eq of_int_floor_le)
  moreover have "1 \<le> (of_int num / of_int den :: rat) * dec_ulp"
    using quotient_large [OF pos shift_def] den by (simp add: num_def [symmetric] den_def [symmetric] dec_ulp_def field_simps)
  ultimately have q: "of_int (num div den) + 1 \<le> (of_int num / of_int den :: rat) * (1 + dec_ulp)"
    unfolding distrib_left mult_1_right by linarith
  have w: "0 \<le> dec_coef w \<and> dec_val w \<le> (of_int (num div den) + 1) * 10 powi e"
  proof (cases "num mod den = 0")
    case True
    obtain c e' where st: "dec_strip (dec_exp x - dec_exp y) (num div den) e = (c, e')" by (metis surj_pair)
    with True dec_strip_val [OF st] dec_strip_abs_le [OF st quot] show ?thesis
      by (simp add: w_def dec_val_def less_imp_le)
  next
    case False
    then show ?thesis using quot by (simp add: w_def dec_val_def less_imp_le)
  qed
  have "dec_val z \<le> dec_val w * (1 + dec_ulp)" "0 \<le> dec_coef z" using dec_fix_upper [of w] w by (simp_all add: z)
  have "dec_val w \<le> (of_int (num div den) + 1) * 10 powi e" using w by blast
  also have "\<dots> \<le> (of_int num / of_int den * (1 + dec_ulp)) * 10 powi e"
    by (rule mult_right_mono [OF q]) (simp add: less_imp_le)
  also have "\<dots> = (of_int num / of_int den * 10 powi e) * (1 + dec_ulp)" by (simp only: mult_ac)
  finally have "dec_val w \<le> dec_val x / dec_val y * (1 + dec_ulp)" by (simp only: exact)
  have ulp: "0 \<le> 1 + dec_ulp" by (simp add: dec_ulp_def)
  note \<open>dec_val z \<le> dec_val w * (1 + dec_ulp)\<close>
  also have "dec_val w * (1 + dec_ulp) \<le> dec_val x / dec_val y * (1 + dec_ulp) * (1 + dec_ulp)"
    by (rule mult_right_mono [OF _ ulp]) fact
  finally show ?thesis using \<open>0 \<le> dec_coef z\<close> by (simp add: power2_eq_square mult.assoc)
qed

text \<open>A quotient of whole numbers with a short decimal expansion is exact.\<close>

lemma dec_div_decimal:
  assumes "0 < a" "0 < b" "0 < c" "a * 10 ^ j = c * b" "j = 0 \<or> c mod 10 \<noteq> 0" "c < 10 ^ dec_prec" "a < 10 ^ 40" "j \<le> 39"
  shows "dec_div (Dec a 0) (Dec b 0) = Inr (Dec c (- int j))"
proof -
  define k where "k = num_digits (nat b) + dec_prec + 1 - num_digits (nat a)"
  have "num_digits (nat a) \<le> 40" using assms by (intro num_digits_int) simp_all
  then have shift: "int (num_digits (nat b)) - int (num_digits (nat a)) + int dec_prec + 1 = int k" "j \<le> k"
    using assms(8) by (simp_all add: k_def dec_prec_def)
  have "a * 10 ^ k = (c * 10 ^ (k - j)) * b"
  proof -
    have "a * 10 ^ k = (a * 10 ^ j) * 10 ^ (k - j)" using shift(2) by (simp add: mult.assoc flip: power_add)
    then show ?thesis by (simp add: assms(4) mult_ac)
  qed
  then have q: "a * 10 ^ k div b = c * 10 ^ (k - j)" "a * 10 ^ k mod b = 0"
    using assms(2) by simp_all
  have "dec_strip 0 (c * 10 ^ (k - j)) (- int k) = dec_strip 0 c (- int j)"
    using dec_strip_mult [of "- int k" "k - j" 0 c] shift(2) by (simp add: of_nat_diff)
  also have "\<dots> = (c, - int j)" using assms(5) by (auto simp: dec_strip.simps [of 0 c "- int j"])
  finally have "dec_strip 0 (c * 10 ^ (k - j)) (- int k) = (c, - int j)" .
  moreover have "dec_fix (Dec c (- int j)) = Dec c (- int j)" using assms(3,6) by (intro dec_fix_small) simp
  moreover have "\<bar>a\<bar> = a" "\<bar>b\<bar> = b" "sgn a * sgn b = 1" using assms(1,2) by simp_all
  ultimately show ?thesis
    using assms(1,2) unfolding dec_div_def Let_def dec.sel by (simp only: shift(1)) (simp add: q)
qed

lemma dec_div_whole:
  "0 < b \<Longrightarrow> 0 < c \<Longrightarrow> c < 10 ^ dec_prec \<Longrightarrow> c * b < 10 ^ 40 \<Longrightarrow> dec_div (Dec (c * b) 0) (Dec b 0) = Inr (Dec c 0)"
  using dec_div_decimal [of "c * b" b c 0] by simp

end
