(* ===== verification/KickSizing.thy ===== *)
theory KickSizing
  imports PriceUnits KickPolicy Candidates DecimalError
begin

text \<open>
  The data of a kick (\<open>transaction_service/types.py\<close>), the helpers of
  \<open>transaction_service/kick_shared.py\<close> and the choice of the trusted floor quote in
  \<open>transaction_service/kick_prepare.py\<close>. A quote response is the JSON object the price service
  returned. Shown here: the amount sold is capped by the token's USD limit, and the floor quote is
  never above the best quote and discards it only as a lone outlier.
\<close>

section \<open>The data of a kick\<close>

datatype kick_status = CONFIRMED | REVERTED | SUBMITTED | ESTIMATE_FAILED | ERROR | DRY_RUN | USER_SKIPPED | SKIPPED

datatype kick_skip_reason = AUCTION_PRICE_GRANULARITY

text \<open>\<open>QuoteResult\<close> of \<open>pricing/token_price_agg.py\<close>.\<close>

record quote_result =
  qr_amount_out_raw :: "int option"
  qr_token_out_decimals :: "int option"
  qr_provider_statuses :: "(string \<times> string option) list"
  qr_raw_response :: "(string \<times> json) list option"
  qr_provider_amounts :: "(string \<times> int) list"
  qr_request_url :: "string option"

definition curve_quote_available :: "quote_result \<Rightarrow> bool" where
  "curve_quote_available q \<longleftrightarrow> 0 < (case map_of (qr_provider_amounts q) ''curve'' of None \<Rightarrow> 0 | Some v \<Rightarrow> v)"

text \<open>\<open>AuctionInspection\<close>, the fields the preparation of a kick reads or writes.\<close>

record auction_inspection =
  ai_auction_address :: string
  ai_is_active_auction :: "bool option"
  ai_auction_version :: "string option"
  ai_compatibility_error :: "string option"
  ai_auction_length_seconds :: "int option"
  ai_step_duration_seconds :: "int option"

record execution_report =
  er_operation :: string
  er_sender :: "string option"
  er_tx_hash :: string
  er_broadcast_at :: string
  er_chain_id :: int
  er_gas_estimate :: "int option"
  er_receipt_status :: "string option"
  er_block_number :: "int option"
  er_gas_used :: "int option"

record kick_result =
  kr_kick_tx_id :: int
  kr_status :: kick_status
  kr_tx_hash :: "string option"
  kr_gas_used :: "int option"
  kr_gas_price_gwei :: "string option"
  kr_block_number :: "int option"
  kr_error_message :: "string option"
  kr_sell_amount :: "string option"
  kr_starting_price :: "string option"
  kr_minimum_price :: "string option"
  kr_minimum_quote :: "string option"
  kr_live_balance_raw :: "int option"
  kr_usd_value :: "string option"
  kr_quote_response_json :: "json option"
  kr_reason_code :: "kick_skip_reason option"
  kr_reason_data :: "json option"
  kr_execution_report :: "execution_report option"

definition kick_result_of :: "kick_status \<Rightarrow> string \<Rightarrow> kick_result" where
  "kick_result_of status error_message =
     \<lparr>kr_kick_tx_id = 0, kr_status = status, kr_tx_hash = None, kr_gas_used = None, kr_gas_price_gwei = None,
      kr_block_number = None, kr_error_message = Some error_message, kr_sell_amount = None, kr_starting_price = None,
      kr_minimum_price = None, kr_minimum_quote = None, kr_live_balance_raw = None, kr_usd_value = None,
      kr_quote_response_json = None, kr_reason_code = None, kr_reason_data = None,
      kr_execution_report = None\<rparr>"

record prepared_kick =
  pk_candidate :: kick_candidate
  pk_starting_price_encoding :: starting_price_encoding
  pk_sell_amount :: int
  pk_starting_price_raw :: int
  pk_minimum_price_scaled_1e18 :: int
  pk_minimum_quote_unscaled :: int
  pk_sell_amount_str :: string
  pk_starting_price_raw_str :: string
  pk_minimum_price_scaled_1e18_str :: string
  pk_minimum_quote_unscaled_str :: string
  pk_usd_value_str :: string
  pk_live_balance_raw :: int
  pk_normalized_balance :: string
  pk_quote_amount_str :: string
  pk_start_price_buffer_bps :: int
  pk_min_price_buffer_bps :: int
  pk_step_decay_rate_bps :: int
  pk_pricing_profile_name :: string
  pk_quote_response_json :: "json option"
  pk_want_price_usd_str :: "string option"

section \<open>Symbols and quote metadata\<close>

definition clean_quote_response :: "(string \<times> json) list \<Rightarrow> string option \<Rightarrow> (string \<times> json) list" where
  "clean_quote_response raw request_url =
     (case map_of raw ''summary'' of None \<Rightarrow> [] | Some v \<Rightarrow> [(''summary'', v)]) @
     (case map_of raw ''providers'' of None \<Rightarrow> [] | Some v \<Rightarrow> [(''providers'', v)]) @
     (case json_get raw ''token_out'' of
        JObj token_out \<Rightarrow> (case map_of token_out ''decimals'' of None \<Rightarrow> [] | Some v \<Rightarrow> [(''tokenOutDecimals'', v)])
      | _ \<Rightarrow> []) @
     (case request_url of None \<Rightarrow> [] | Some url \<Rightarrow> if url = [] then [] else [(''requestUrl'', JStr url)])"

definition is_alnum :: "char \<Rightarrow> bool" where
  "is_alnum c \<longleftrightarrow> is_digit c \<or> (65 \<le> char_code c \<and> char_code c \<le> 90) \<or> (97 \<le> char_code c \<and> char_code c \<le> 122)"

definition normalize_symbol :: "json \<Rightarrow> string option" where
  "normalize_symbol symbol =
     (if symbol = JNull then None
      else let normalized = map lower_char (filter is_alnum (str_strip (json_str symbol)))
           in if normalized = [] then None else Some normalized)"

definition normalize_address_or_none :: "(string \<Rightarrow> bool) \<Rightarrow> json \<Rightarrow> string option" where
  "normalize_address_or_none isaddr addr =
     (if addr = JNull then None
      else case normalize_address isaddr (json_str addr) of Inl _ \<Rightarrow> None | Inr a \<Rightarrow> Some a)"

definition quote_metadata_resolves_to_want ::
  "(string \<Rightarrow> bool) \<Rightarrow> kick_candidate \<Rightarrow> (string \<times> json) list option \<Rightarrow> bool" where
  "quote_metadata_resolves_to_want isaddr candidate raw =
     (case raw of None \<Rightarrow> False
      | Some raw \<Rightarrow> (case json_get raw ''token_in'' of
          JObj token_in \<Rightarrow>
            let token_in_address = normalize_address_or_none isaddr (json_get token_in ''address'');
                want_address = normalize_address_or_none isaddr (JStr (ca_want_address candidate));
                token_in_symbol = normalize_symbol (json_get token_in ''symbol'');
                want_symbol = normalize_symbol (column_json (ca_want_symbol candidate))
            in (token_in_address \<noteq> None \<and> want_address \<noteq> None \<and> token_in_address = want_address)
               \<or> (token_in_symbol \<noteq> None \<and> want_symbol \<noteq> None \<and> token_in_symbol = want_symbol)
        | _ \<Rightarrow> False))"

definition candidate_symbol_matches_want :: "kick_candidate \<Rightarrow> bool" where
  "candidate_symbol_matches_want candidate =
     (let token_symbol = normalize_symbol (column_json (ca_token_symbol candidate));
          want_symbol = normalize_symbol (column_json (ca_want_symbol candidate))
      in token_symbol \<noteq> None \<and> want_symbol \<noteq> None \<and> token_symbol = want_symbol)"

definition kick_key :: "(string \<Rightarrow> bool) \<Rightarrow> kick_candidate \<Rightarrow> (address \<times> address) result" where
  "kick_key isaddr candidate =
     err_bind (normalize_address isaddr (ca_auction_address candidate)) (\<lambda>auction.
     err_bind (normalize_address isaddr (ca_token_address candidate)) (\<lambda>token. Inr (auction, token)))"

definition is_active_auction_error :: "string option \<Rightarrow> bool" where
  "is_active_auction_error message =
     (case message of None \<Rightarrow> False | Some m \<Rightarrow> m \<noteq> [] \<and> str_contains ''active auction'' (str_lower m))"

definition default_pricing_policy :: "int \<Rightarrow> int \<Rightarrow> int \<Rightarrow> pricing_policy" where
  "default_pricing_policy start_price_buffer_bps min_price_buffer_bps step_decay_rate_bps =
     (let default_profile = \<lparr>pf_name = ''volatile'', pf_start_price_buffer_bps = start_price_buffer_bps,
        pf_min_price_buffer_bps = min_price_buffer_bps, pf_step_decay_rate_bps = step_decay_rate_bps,
        pf_outlier_floor_enabled = False\<rparr>
      in \<lparr>pp_default_profile_name = pf_name default_profile, pp_profiles = [(pf_name default_profile, default_profile)],
          pp_profile_overrides = []\<rparr>)"

section \<open>The amount to sell\<close>

record selected_sell_size =
  ss_full_live_balance_raw :: int
  ss_full_live_balance_normalized :: string
  ss_full_live_usd_value :: dec
  ss_selected_sell_raw :: int
  ss_selected_sell_normalized :: string
  ss_selected_sell_usd_value :: dec
  ss_max_usd_per_kick :: "dec option"

text \<open>\<open>Decimal(10) ** d\<close>; the caller has rejected a negative \<open>d\<close> before.\<close>

definition usd_cap_raw :: "dec \<Rightarrow> dec \<Rightarrow> int \<Rightarrow> int result" where
  "usd_cap_raw max_usd price_usd decimals =
     err_bind (dec_div max_usd price_usd) (\<lambda>tokens. Inr (dec_floor (dec_mul tokens (dec_ten_pow (nat decimals)))))"

text \<open>The limit of the token and the amount it leaves.\<close>

definition limited_sell_raw ::
  "(string \<Rightarrow> bool) \<Rightarrow> token_sizing_policy option \<Rightarrow> kick_candidate \<Rightarrow> dec \<Rightarrow> int \<Rightarrow> (dec option \<times> int) result" where
  "limited_sell_raw isaddr policy candidate price_usd live_balance_raw =
     (case policy of None \<Rightarrow> Inr (None, live_balance_raw)
      | Some policy \<Rightarrow>
          (case token_sizing_resolve isaddr policy (ca_token_address candidate) of
             Inl e \<Rightarrow> Inl e
           | Inr None \<Rightarrow> Inr (None, live_balance_raw)
           | Inr (Some limit) \<Rightarrow>
               if dec_leq price_usd (dec_of_int 0)
               then Inl (ValueError ''cached token price must be positive for token sizing'')
               else err_bind (usd_cap_raw limit price_usd (ca_decimals candidate)) (\<lambda>cap.
                 Inr (Some limit, min live_balance_raw (max cap 0)))))"

definition select_sell_size ::
  "(string \<Rightarrow> bool) \<Rightarrow> token_sizing_policy option \<Rightarrow> kick_candidate \<Rightarrow> int \<Rightarrow> selected_sell_size result" where
  "select_sell_size isaddr policy candidate live_balance_raw =
     err_bind (to_decimal_string live_balance_raw (ca_decimals candidate)) (\<lambda>full_normalized.
     err_bind (parse_decimal (ca_price_usd candidate)) (\<lambda>price_usd.
     err_bind (parse_decimal full_normalized) (\<lambda>full.
     err_bind (limited_sell_raw isaddr policy candidate price_usd live_balance_raw) (\<lambda>(max_usd, selected_raw).
     err_bind (to_decimal_string selected_raw (ca_decimals candidate)) (\<lambda>selected_normalized.
     err_bind (parse_decimal selected_normalized) (\<lambda>selected.
     Inr \<lparr>ss_full_live_balance_raw = live_balance_raw, ss_full_live_balance_normalized = full_normalized,
       ss_full_live_usd_value = dec_mul full price_usd, ss_selected_sell_raw = selected_raw,
       ss_selected_sell_normalized = selected_normalized, ss_selected_sell_usd_value = dec_mul selected price_usd,
       ss_max_usd_per_kick = max_usd\<rparr>))))))"

section \<open>The trusted floor quote\<close>

definition is_successful_quote_status :: "string option \<Rightarrow> bool" where
  "is_successful_quote_status status =
     (case status of None \<Rightarrow> True | Some s \<Rightarrow> str_lower s \<in> {''ok'', ''success'', ''successful''})"

definition median_int :: "int list \<Rightarrow> int" where
  "median_int values =
     (let ordered = sort values; midpoint = length ordered div 2
      in if length ordered mod 2 \<noteq> 0 then ordered ! midpoint
         else (ordered ! (midpoint - 1) + ordered ! midpoint) div 2)"

definition successful_amounts :: "quote_result \<Rightarrow> int list" where
  "successful_amounts q =
     map snd (filter (\<lambda>(provider, amount). 0 < amount
       \<and> is_successful_quote_status (Option.bind (map_of (qr_provider_statuses q) provider) id)) (qr_provider_amounts q))"

definition select_floor_quote_amount_raw :: "quote_result \<Rightarrow> pricing_profile \<Rightarrow> int option" where
  "select_floor_quote_amount_raw q profile =
     (case qr_amount_out_raw q of None \<Rightarrow> None
      | Some high_amount \<Rightarrow>
          if high_amount \<le> 0 \<or> \<not> pf_outlier_floor_enabled profile then Some high_amount
          else
            let amounts = successful_amounts q;
                non_high_amounts = filter (\<lambda>amount. amount < high_amount) amounts
            in if length non_high_amounts < 2 then Some high_amount
               else
                 let threshold_bps = pf_min_price_buffer_bps profile;
                     matching_high_count = length (filter (\<lambda>amount. amount = high_amount) amounts);
                     has_nearby_provider = 1 < matching_high_count
                       \<or> list_ex (\<lambda>amount. 0 < \<bar>high_amount - amount\<bar> * 10000
                           \<and> \<bar>high_amount - amount\<bar> * 10000 \<le> high_amount * threshold_bps) amounts
                 in if has_nearby_provider then Some high_amount else Some (median_int non_high_amounts))"

section \<open>The USD cap holds\<close>

lemma dec_coef_pos_iff: "0 < dec_coef x \<longleftrightarrow> 0 < dec_val x"
  by (metis dec_val_def powi10_pos mult_pos_pos of_int_0_less_iff zero_less_mult_pos2)

lemma select_sell_size_raw:
  assumes "select_sell_size isaddr policy candidate live_balance_raw = Inr s"
  shows "ss_full_live_balance_raw s = live_balance_raw \<and> ss_selected_sell_raw s \<le> live_balance_raw"
proof -
  obtain price max_usd raw where "limited_sell_raw isaddr policy candidate price live_balance_raw = Inr (max_usd, raw)"
    "ss_full_live_balance_raw s = live_balance_raw" "ss_selected_sell_raw s = raw"
    using assms by (auto simp: select_sell_size_def err_simps)
  then show ?thesis
    by (auto simp: limited_sell_raw_def err_simps split: option.splits sum.splits if_splits)
qed

lemma usd_cap_raw_upper:
  assumes "usd_cap_raw limit price d = Inr cap" "0 < dec_val limit" "0 < dec_val price"
  shows "of_int cap / 10 ^ nat d * dec_val price \<le> dec_val limit * (1 + dec_ulp) ^ 3"
proof -
  obtain tokens where t: "dec_div limit price = Inr tokens" "cap = dec_floor (dec_mul tokens (dec_ten_pow (nat d)))"
    using assms(1) by (auto simp: usd_cap_raw_def err_simps)
  have ten: "0 \<le> dec_coef (dec_ten_pow (nat d))" by (simp add: dec_ten_pow_def)
  have div: "dec_val tokens \<le> dec_val limit / dec_val price * (1 + dec_ulp) ^ 2" "0 \<le> dec_coef tokens"
    using dec_div_upper [OF _ _ t(1)] assms(2,3) by (simp_all add: dec_coef_pos_iff less_imp_le)
  have ulp: "0 \<le> 1 + dec_ulp" by (simp add: dec_ulp_def)
  have "of_int cap \<le> dec_val (dec_mul tokens (dec_ten_pow (nat d)))" by (simp add: t(2) dec_simps)
  also have "\<dots> \<le> dec_val tokens * 10 ^ nat d * (1 + dec_ulp)"
    using dec_mul_upper [OF div(2) ten] by simp
  also have "\<dots> \<le> dec_val limit / dec_val price * (1 + dec_ulp) ^ 2 * 10 ^ nat d * (1 + dec_ulp)"
    by (intro mult_right_mono div(1) ulp) simp
  finally have "of_int cap \<le> dec_val limit / dec_val price * 10 ^ nat d * (1 + dec_ulp) ^ 3"
    by (simp add: power2_eq_square power3_eq_cube mult_ac)
  then show ?thesis using assms(3) by (simp add: field_simps)
qed

text \<open>The USD limit on a kick of the token, if there is one.\<close>

definition limit_in_force :: "(string \<Rightarrow> bool) \<Rightarrow> token_sizing_policy option \<Rightarrow> kick_candidate \<Rightarrow> dec option result" where
  "limit_in_force isaddr policy candidate =
     (case policy of None \<Rightarrow> Inr None | Some p \<Rightarrow> token_sizing_resolve isaddr p (ca_token_address candidate))"

text \<open>
  C30. The amount chosen for a kick is between zero and the live balance, with or without a
  sizing policy. Without a limit for the token it is the whole live balance. With a positive
  limit, as the configuration demands, the cached price is positive and the value of the
  amount at that price exceeds the limit by at most the rounding of three 78-digit
  operations.
\<close>

theorem sized_sell_within_cap:
  assumes "select_sell_size isaddr policy candidate live_balance_raw = Inr s" "0 \<le> live_balance_raw"
    and "\<And>limit. limit_in_force isaddr policy candidate = Inr (Some limit) \<Longrightarrow> 0 < dec_val limit"
  shows "0 \<le> ss_selected_sell_raw s \<and> ss_selected_sell_raw s \<le> live_balance_raw
    \<and> (\<exists>in_force price. limit_in_force isaddr policy candidate = Inr in_force \<and> parse_decimal (ca_price_usd candidate) = Inr price
        \<and> (case in_force of None \<Rightarrow> ss_selected_sell_raw s = live_balance_raw
           | Some limit \<Rightarrow> 0 < dec_val price
               \<and> of_int (ss_selected_sell_raw s) / 10 ^ nat (ca_decimals candidate) * dec_val price \<le> dec_val limit * (1 + dec_ulp) ^ 3))"
proof -
  obtain price max_usd where p: "parse_decimal (ca_price_usd candidate) = Inr price"
    and raw: "limited_sell_raw isaddr policy candidate price live_balance_raw = Inr (max_usd, ss_selected_sell_raw s)"
    using assms(1) by (auto simp: select_sell_size_def err_simps)
  from raw consider (full) "limit_in_force isaddr policy candidate = Inr None" "ss_selected_sell_raw s = live_balance_raw"
    | (limited) limit cap where "limit_in_force isaddr policy candidate = Inr (Some limit)" "0 < dec_val price"
        "usd_cap_raw limit price (ca_decimals candidate) = Inr cap" "ss_selected_sell_raw s = min live_balance_raw (max cap 0)"
    by (auto simp: limited_sell_raw_def limit_in_force_def err_simps dec_simps not_le split: option.splits sum.splits if_splits)
  then show ?thesis
  proof cases
    case full
    then show ?thesis using p assms(2) by (intro conjI exI [of _ None] exI [of _ price]) auto
  next
    case limited
    let ?limit = "dec_val limit * (1 + dec_ulp) ^ 3"
    have positive: "0 < dec_val limit" by (rule assms(3) [OF limited(1)])
    have "of_int cap / 10 ^ nat (ca_decimals candidate) * dec_val price \<le> ?limit"
      by (rule usd_cap_raw_upper [OF limited(3) positive limited(2)])
    moreover have "0 \<le> ?limit" using positive by (simp add: dec_ulp_def)
    moreover have "of_int (ss_selected_sell_raw s) / 10 ^ nat (ca_decimals candidate) * dec_val price
        \<le> of_int (max cap 0) / 10 ^ nat (ca_decimals candidate) * dec_val price"
      using limited(2) by (intro mult_right_mono divide_right_mono) (simp_all add: limited(4))
    ultimately have "of_int (ss_selected_sell_raw s) / 10 ^ nat (ca_decimals candidate) * dec_val price \<le> ?limit"
      by (cases "0 \<le> cap") (auto simp: max_def)
    then show ?thesis using p limited assms(2) by (intro conjI exI [of _ "Some limit"] exI [of _ price]) auto
  qed
qed

section \<open>The median discards only outliers\<close>

lemma sorted_nth_counts:
  assumes "sorted ys" "k < length ys"
  shows "Suc k \<le> length (filter (\<lambda>a. a \<le> ys ! k) ys)" "length ys - k \<le> length (filter (\<lambda>a. ys ! k \<le> a) ys)"
proof -
  have "\<forall>a \<in> set (take (Suc k) ys). a \<le> ys ! k" "\<forall>a \<in> set (drop k ys). ys ! k \<le> a"
    using assms by (auto simp: in_set_conv_nth sorted_iff_nth_mono)
  then have "filter (\<lambda>a. a \<le> ys ! k) (take (Suc k) ys) = take (Suc k) ys"
    "filter (\<lambda>a. ys ! k \<le> a) (drop k ys) = drop k ys"
    by (simp_all add: filter_id_conv)
  then have "length (filter (\<lambda>a. a \<le> ys ! k) (take (Suc k) ys @ drop (Suc k) ys)) \<ge> Suc k"
    "length (filter (\<lambda>a. ys ! k \<le> a) (take k ys @ drop k ys)) \<ge> length ys - k"
    using assms(2) by (simp_all only: filter_append length_append) simp_all
  then show "Suc k \<le> length (filter (\<lambda>a. a \<le> ys ! k) ys)" "length ys - k \<le> length (filter (\<lambda>a. ys ! k \<le> a) ys)"
    by simp_all
qed

lemma length_filter_mono: "(\<And>x. P x \<Longrightarrow> Q x) \<Longrightarrow> length (filter P xs) \<le> length (filter Q xs)"
  by (induction xs) (auto intro: le_SucI)

lemma length_filter_sort: "length (filter P (sort xs)) = length (filter P xs)"
  by (metis mset_filter mset_sort size_mset)

lemma median_int_half:
  assumes "xs \<noteq> []"
  shows "length xs \<le> 2 * length (filter (\<lambda>a. a \<le> median_int xs) xs)"
    and "length xs \<le> 2 * length (filter (\<lambda>a. median_int xs \<le> a) xs)"
proof -
  define ys where "ys = sort xs"
  define m where "m = length ys div 2"
  have m: "m < length ys" "length xs = length ys" "sorted ys" using assms by (simp_all add: ys_def m_def)
  have counts: "length (filter P xs) = length (filter P ys)" for P by (simp add: ys_def length_filter_sort)
  obtain i j where ij: "i < length ys" "j < length ys" "length ys \<le> 2 * Suc i" "length ys \<le> 2 * (length ys - j)"
    "ys ! i \<le> median_int xs" "median_int xs \<le> ys ! j"
  proof (cases "even (length ys)")
    case True
    have "0 < m" using True m by (auto simp: m_def elim!: evenE)
    moreover have le: "ys ! (m - 1) \<le> ys ! m" using m by (intro sorted_nth_mono) simp_all
    moreover have "median_int xs = (ys ! (m - 1) + ys ! m) div 2"
      using True by (simp add: median_int_def Let_def ys_def m_def)
    ultimately show thesis using that [of "m - 1" m] m True by (auto simp: m_def elim!: evenE)
  next
    case False
    then have "median_int xs = ys ! m" by (simp add: median_int_def Let_def ys_def m_def odd_iff_mod_2_eq_one)
    with False show thesis using that [of m m] m by (auto simp: m_def elim!: oddE)
  qed
  have "length ys \<le> 2 * length (filter (\<lambda>a. a \<le> ys ! i) ys)"
    by (rule order_trans [OF ij(3) mult_le_mono2 [OF sorted_nth_counts(1) [OF m(3) ij(1)]]])
  moreover have "length ys \<le> 2 * length (filter (\<lambda>a. ys ! j \<le> a) ys)"
    by (rule order_trans [OF ij(4) mult_le_mono2 [OF sorted_nth_counts(2) [OF m(3) ij(2)]]])
  moreover have "2 * length (filter (\<lambda>a. a \<le> ys ! i) ys) \<le> 2 * length (filter (\<lambda>a. a \<le> median_int xs) ys)"
    "2 * length (filter (\<lambda>a. ys ! j \<le> a) ys) \<le> 2 * length (filter (\<lambda>a. median_int xs \<le> a) ys)"
    using ij(5,6) by (auto intro!: mult_le_mono2 length_filter_mono)
  ultimately have "length ys \<le> 2 * length (filter (\<lambda>a. a \<le> median_int xs) ys)
      \<and> length ys \<le> 2 * length (filter (\<lambda>a. median_int xs \<le> a) ys)"
    by (blast intro: order_trans)
  then show "length xs \<le> 2 * length (filter (\<lambda>a. a \<le> median_int xs) xs)"
    "length xs \<le> 2 * length (filter (\<lambda>a. median_int xs \<le> a) xs)" by (simp_all only: counts m(2))
qed

lemma floor_quote_range:
  assumes "select_floor_quote_amount_raw q profile = Some fq" "qr_amount_out_raw q = Some high" "0 < high"
  shows "0 < fq \<and> fq \<le> high
    \<and> (fq \<noteq> high \<longrightarrow> pf_outlier_floor_enabled profile
      \<and> (\<exists>lower. lower = filter (\<lambda>amount. amount < high) (successful_amounts q) \<and> 2 \<le> length lower
        \<and> (\<forall>amount \<in> set lower. high * pf_min_price_buffer_bps profile < (high - amount) * 10000)
        \<and> length lower \<le> 2 * length (filter (\<lambda>a. a \<le> fq) lower)
        \<and> length lower \<le> 2 * length (filter (\<lambda>a. fq \<le> a) lower))
      \<and> length (filter (\<lambda>amount. amount = high) (successful_amounts q)) \<le> 1)"
proof (cases "fq = high")
  case False
  define lower where "lower = filter (\<lambda>amount. amount < high) (successful_amounts q)"
  have far: "\<forall>amount \<in> set lower. high * pf_min_price_buffer_bps profile < (high - amount) * 10000"
    and rest: "pf_outlier_floor_enabled profile" "2 \<le> length lower" "fq = median_int lower"
      "length (filter (\<lambda>amount. amount = high) (successful_amounts q)) \<le> 1"
    using assms False
    by (auto simp: select_floor_quote_amount_raw_def Let_def lower_def list_ex_iff not_le split: if_splits)
  have "lower \<noteq> []" using rest(2) by auto
  note half = median_int_half [OF this]
  have pos: "0 < a" "a < high" if "a \<in> set lower" for a
    using that by (auto simp: lower_def successful_amounts_def)
  have "filter (\<lambda>a. a \<le> fq) lower \<noteq> []" "filter (\<lambda>a. fq \<le> a) lower \<noteq> []"
    using half rest(2,3) by auto
  then obtain a b where "a \<in> set lower" "a \<le> fq" "b \<in> set lower" "fq \<le> b"
    by (auto simp: filter_empty_conv)
  then have "0 < fq" "fq \<le> high" using pos(1) [of a] pos(2) [of b] by simp_all
  with far rest half show ?thesis unfolding lower_def [symmetric] by simp
qed (use assms(3) in simp)

text \<open>
  The trusted floor quote is positive and at most the quote; it is lower only when the
  profile allows it, at least two other providers succeeded, all of them fall short of the
  quote by more than the profile's buffer and no second provider shares the quote, and then
  it is a median of the other amounts.
\<close>

theorem floor_quote_discards_only_outliers:
  assumes "select_floor_quote_amount_raw q profile = Some fq" "qr_amount_out_raw q = Some high" "0 < high"
  shows "0 < fq \<and> fq \<le> high
    \<and> (fq \<noteq> high \<longrightarrow> pf_outlier_floor_enabled profile
      \<and> (\<exists>lower. lower = filter (\<lambda>amount. amount < high) (successful_amounts q) \<and> 2 \<le> length lower
        \<and> (\<forall>amount \<in> set lower. high * pf_min_price_buffer_bps profile < (high - amount) * 10000)
        \<and> length lower \<le> 2 * length (filter (\<lambda>a. a \<le> fq) lower)
        \<and> length lower \<le> 2 * length (filter (\<lambda>a. fq \<le> a) lower))
      \<and> length (filter (\<lambda>amount. amount = high) (successful_amounts q)) \<le> 1)"
  by (rule floor_quote_range [OF assms])

section \<open>Concrete amounts and quotes\<close>

definition sample_candidate :: kick_candidate where
  "sample_candidate = \<lparr>ca_source_type = ''strategy'', ca_source_address = ''0xs'', ca_token_address = ''0xt'',
     ca_auction_address = ''0xa'', ca_normalized_balance = ''10'', ca_price_usd = ''4'', ca_want_address = ''0xw'',
     ca_usd_value = 40, ca_decimals = 2, ca_auction_version = Some ''1.0.4'', ca_source_name = None, ca_context_type = Some ''vault'',
     ca_context_address = None, ca_context_name = None, ca_context_symbol = None, ca_token_symbol = Some ''TKN'',
     ca_want_symbol = Some ''WNT''\<rparr>"

definition sample_sizing :: token_sizing_policy where
  "sample_sizing = \<lparr>ts_default_limit = Some (Dec 20 0), ts_token_overrides = []\<rparr>"

lemma sample_divisions:
  "dec_div (Dec 20 0) (Dec 4 0) = Inr (Dec 5 0)" "dec_div (Dec 1000 0) (Dec 100 0) = Inr (Dec 10 0)"
  "dec_div (Dec 500 0) (Dec 100 0) = Inr (Dec 5 0)"
  using dec_div_whole [of 4 5] dec_div_whole [of 100 10] dec_div_whole [of 100 5] by (simp_all add: dec_prec_def)

lemma sample_to_decimal: "to_decimal_string 1000 2 = Inr ''10''" "to_decimal_string 500 2 = Inr ''5''"
  by (simp_all add: to_decimal_string_def dec_of_int_def dec_ten_pow_def dec_prec_def sample_divisions) code_simp+

lemma sample_texts:
  "parse_decimal ''4'' = Inr (Dec 4 0)" "parse_decimal ''10'' = Inr (Dec 10 0)" "parse_decimal ''5'' = Inr (Dec 5 0)"
  "dec_mul (Dec 10 0) (Dec 4 0) = Dec 40 0" "dec_mul (Dec 5 0) (Dec 4 0) = Dec 20 0"
  by code_simp+

lemma sample_cap: "usd_cap_raw (Dec 20 0) (Dec 4 0) 2 = Inr 500"
proof -
  have "dec_floor (dec_mul (Dec 5 0) (dec_ten_pow (nat 2))) = 500" by code_simp
  then show ?thesis by (simp add: usd_cap_raw_def sample_divisions)
qed

lemma sample_limit: "token_sizing_resolve (\<lambda>_. True) sample_sizing (ca_token_address sample_candidate) = Inr (Some (Dec 20 0))"
  by code_simp

lemma sample_size:
  "select_sell_size (\<lambda>_. True) (Some sample_sizing) sample_candidate 1000 =
    Inr \<lparr>ss_full_live_balance_raw = 1000, ss_full_live_balance_normalized = ''10'', ss_full_live_usd_value = Dec 40 0,
      ss_selected_sell_raw = 500, ss_selected_sell_normalized = ''5'', ss_selected_sell_usd_value = Dec 20 0,
      ss_max_usd_per_kick = Some (Dec 20 0)\<rparr>"
proof -
  have "ca_price_usd sample_candidate = ''4''" "ca_decimals sample_candidate = 2" by (simp_all add: sample_candidate_def)
  moreover have "\<not> dec_leq (Dec 4 0) (dec_of_int 0)" by code_simp
  ultimately show ?thesis by (simp add: select_sell_size_def limited_sell_raw_def sample_to_decimal sample_texts sample_limit sample_cap)
qed

theorem sized_sell_within_cap_witness:
  "\<exists>s price. select_sell_size (\<lambda>_. True) (Some sample_sizing) sample_candidate 1000 = Inr s
    \<and> ss_selected_sell_raw s = 500 \<and> parse_decimal (ca_price_usd sample_candidate) = Inr price
    \<and> of_int (ss_selected_sell_raw s) / 100 * dec_val price \<le> 20 * (1 + dec_ulp) ^ 3"
proof -
  have "nat (ca_decimals sample_candidate) = 2" by (simp add: sample_candidate_def)
  moreover have "limit_in_force (\<lambda>_. True) (Some sample_sizing) sample_candidate = Inr (Some (Dec 20 0))"
    by (simp add: limit_in_force_def sample_limit)
  moreover have "0 < dec_val limit" if "limit_in_force (\<lambda>_. True) (Some sample_sizing) sample_candidate = Inr (Some limit)" for limit
    using that by (auto simp: limit_in_force_def sample_limit dec_val_def)
  ultimately show ?thesis using sized_sell_within_cap [OF sample_size] sample_size by (auto simp: dec_val_def)
qed

definition sample_quote :: "int list \<Rightarrow> quote_result" where
  "sample_quote amounts = \<lparr>qr_amount_out_raw = Some 1000, qr_token_out_decimals = Some 2, qr_provider_statuses = [],
     qr_raw_response = None, qr_provider_amounts = zip [''curve'', ''b'', ''c'', ''d''] amounts, qr_request_url = None\<rparr>"

definition sample_profile :: pricing_profile where
  "sample_profile = \<lparr>pf_name = ''volatile'', pf_start_price_buffer_bps = 1000, pf_min_price_buffer_bps = 500,
     pf_step_decay_rate_bps = 50, pf_outlier_floor_enabled = True\<rparr>"

theorem floor_quote_discards_only_outliers_witness:
  "select_floor_quote_amount_raw (sample_quote [1000, 700, 800]) sample_profile = Some 750 \<and> (0::int) < 750 \<and> (750::int) \<le> 1000
    \<and> select_floor_quote_amount_raw (sample_quote [1000, 700, 960]) sample_profile = Some 1000"
proof -
  have f: "select_floor_quote_amount_raw (sample_quote [1000, 700, 800]) sample_profile = Some 750" by code_simp
  moreover have "select_floor_quote_amount_raw (sample_quote [1000, 700, 960]) sample_profile = Some 1000" by code_simp
  moreover have "qr_amount_out_raw (sample_quote [1000, 700, 800]) = Some 1000" by (simp add: sample_quote_def)
  ultimately show ?thesis using floor_quote_discards_only_outliers [OF f, of 1000] by simp
qed

end
