(* ===== verification/KickPrepare.thy ===== *)
theory KickPrepare
  imports KickSizing
begin

text \<open>
  \<open>KickPreparer\<close> of \<open>transaction_service/kick_prepare.py\<close>: the live inspection of the
  shortlisted auctions and the preparation of one kick, in the stages of the code. The node, the
  token reader and the price service are functions of the environment; of several reads gathered
  at once the first failing one in argument order stands for the first in time. Warnings that are
  only logged are left out.
\<close>

record prepare_env =
  pe_isaddr :: "string \<Rightarrow> bool"
  pe_read_version :: "string list \<Rightarrow> (string \<times> string option) list result"
  pe_read_active :: "string list \<Rightarrow> (string \<times> bool option) list result"
  pe_read_length :: "string list \<Rightarrow> (string \<times> int option) list result"
  pe_read_step :: "string list \<Rightarrow> (string \<times> int option) list result"
  pe_read_balance :: "string \<Rightarrow> string \<Rightarrow> int result"
  pe_read_decimals :: "string \<Rightarrow> int result"
  pe_quote :: "string \<Rightarrow> string \<Rightarrow> string \<Rightarrow> quote_result result"
  pe_quote_usd :: "string \<Rightarrow> int \<Rightarrow> dec option result"
  pe_usd_threshold :: dec
  pe_require_curve_quote :: bool
  pe_pricing_policy :: pricing_policy
  pe_token_sizing_policy :: "token_sizing_policy option"

section \<open>Inspection\<close>

text \<open>\<open>f"{text!r}"\<close> of a nullable text.\<close>

definition repr_opt :: "string option \<Rightarrow> string" where
  "repr_opt v = (case v of None \<Rightarrow> ''None'' | Some s \<Rightarrow> py_repr_str s)"

definition version_mismatch :: "string option \<Rightarrow> string option \<Rightarrow> string" where
  "version_mismatch stored fresh =
     ''stored auction version '' @ repr_opt stored @ '' does not match onchain version '' @ repr_opt fresh"

definition version_error :: "string option \<Rightarrow> string option" where
  "version_error version =
     (case approved_auction_spec_for_version version of Inl e \<Rightarrow> Some (exn_str e) | Inr _ \<Rightarrow> None)"

definition compatibility_error :: "string option \<Rightarrow> string option \<Rightarrow> string option" where
  "compatibility_error stored fresh =
     (let err = version_error stored;
          err = (case fresh of None \<Rightarrow> Some ''auction version() read failed''
            | Some _ \<Rightarrow> (case version_error fresh of Some e \<Rightarrow> Some e | None \<Rightarrow> err))
      in if err = None \<and> fresh \<noteq> stored then Some (version_mismatch stored fresh) else err)"

type_synonym inspections = "((address \<times> address) \<times> auction_inspection) list"

definition fresh_of :: "(string \<times> string option) list \<Rightarrow> address \<Rightarrow> string option" where
  "fresh_of fresh_versions auction = Option.bind (map_of fresh_versions auction) id"

definition inspect_step ::
  "(string \<times> string option) list \<Rightarrow> (address \<times> address) \<times> kick_candidate
     \<Rightarrow> inspections \<times> (address \<times> bool list) list \<Rightarrow> inspections \<times> (address \<times> bool list) list" where
  "inspect_step fresh_versions = (\<lambda>((auction, token), candidate) (inspections, checks).
     let fresh = fresh_of fresh_versions auction;
         err = compatibility_error (ca_auction_version candidate) fresh
     in (dict_set (auction, token) \<lparr>ai_auction_address = auction, ai_is_active_auction = None,
           ai_auction_version = fresh, ai_compatibility_error = err, ai_auction_length_seconds = None,
           ai_step_duration_seconds = None\<rparr> inspections,
         dict_append auction (err = None) checks))"

text \<open>One stale row of a shared auction fails the whole address.\<close>

definition block_inspection :: "(address \<times> bool list) list \<Rightarrow> address \<times> address \<Rightarrow> auction_inspection \<Rightarrow> auction_inspection" where
  "block_inspection checks key inspection =
     (if (case map_of checks (fst key) of None \<Rightarrow> False | Some oks \<Rightarrow> \<not> list_all id oks) \<and> ai_compatibility_error inspection = None
      then inspection\<lparr>ai_compatibility_error := Some ''conflicting stored auction versions for the same auction address''\<rparr>
      else inspection)"

definition approved_addresses :: "(address \<times> bool list) list \<Rightarrow> address list" where
  "approved_addresses checks = sort (map fst (filter (\<lambda>(_, oks). list_all id oks) checks))"

definition fill_inspection ::
  "(string \<times> bool option) list \<Rightarrow> (string \<times> int option) list \<Rightarrow> (string \<times> int option) list
     \<Rightarrow> address \<times> address \<Rightarrow> auction_inspection \<Rightarrow> auction_inspection" where
  "fill_inspection active_flags auction_lengths step_durations key inspection =
     (if ai_compatibility_error inspection \<noteq> None then inspection
      else inspection\<lparr>ai_is_active_auction := Option.bind (map_of active_flags (fst key)) id,
        ai_auction_length_seconds := Option.bind (map_of auction_lengths (fst key)) id,
        ai_step_duration_seconds := Option.bind (map_of step_durations (fst key)) id\<rparr>)"

definition inspect_candidates :: "prepare_env \<Rightarrow> kick_candidate list \<Rightarrow> inspections result" where
  "inspect_candidates env candidates =
     (if candidates = [] then Inr []
      else
        err_bind (traverse_err (kick_key (pe_isaddr env)) candidates) (\<lambda>keys.
        err_bind (pe_read_version env (sorted_set (map fst keys))) (\<lambda>fresh_versions.
        let (inspections, checks) = fold (inspect_step fresh_versions) (zip keys candidates) ([], []);
            approved = approved_addresses checks;
            inspections = map (\<lambda>(key, i). (key, block_inspection checks key i)) inspections
        in if approved = [] then Inr inspections
           else
             err_bind (pe_read_active env approved) (\<lambda>active_flags.
             err_bind (pe_read_length env approved) (\<lambda>auction_lengths.
             err_bind (pe_read_step env approved) (\<lambda>step_durations.
             Inr (map (\<lambda>(key, i). (key, fill_inspection active_flags auction_lengths step_durations key i)) inspections)))))))"

section \<open>One kick\<close>

text \<open>
  The outcome of a preparation: \<open>Inr (Inl r)\<close> is the result that ends it early, \<open>Inl\<close> an exception
  that leaves the method.
\<close>

type_synonym 'a outcome = "(kick_result + 'a) result"

definition refuse :: "kick_status \<Rightarrow> string \<Rightarrow> 'a outcome" where
  "refuse status message = Inr (Inl (kick_result_of status message))"

definition proceed :: "'a \<Rightarrow> 'a outcome" where
  "proceed x = Inr (Inr x)"

definition stage :: "'a outcome \<Rightarrow> ('a \<Rightarrow> 'b outcome) \<Rightarrow> 'b outcome" where
  "stage m f = err_bind m (\<lambda>r. case r of Inl k \<Rightarrow> Inr (Inl k) | Inr x \<Rightarrow> f x)"

text \<open>\<open>try: ... except Exception as exc\<close> with an error result.\<close>

definition or_refuse :: "'a result \<Rightarrow> (exn \<Rightarrow> kick_result) \<Rightarrow> 'a outcome" where
  "or_refuse m handler = (case m of Inl e \<Rightarrow> Inr (Inl (handler e)) | Inr x \<Rightarrow> Inr (Inr x))"

text \<open>\<open>try: ... except ValueError as exc\<close>.\<close>

definition or_refuse_value :: "'a result \<Rightarrow> (string \<Rightarrow> kick_result) \<Rightarrow> 'a outcome" where
  "or_refuse_value m handler = (case m of Inl (ValueError message) \<Rightarrow> Inr (Inl (handler message))
     | Inl e \<Rightarrow> Inl e | Inr x \<Rightarrow> Inr (Inr x))"

definition check_inspection :: "kick_candidate \<Rightarrow> auction_inspection option \<Rightarrow> (auction_inspection \<times> auction_spec \<times> int \<times> int) outcome" where
  "check_inspection candidate inspection =
     (case inspection of None \<Rightarrow> refuse ERROR ''auction inspection missing''
      | Some i \<Rightarrow>
          case ai_compatibility_error i of Some e \<Rightarrow> refuse ERROR (''auction compatibility check failed: '' @ e)
          | None \<Rightarrow>
            if ca_auction_version candidate \<noteq> ai_auction_version i
            then refuse ERROR (version_mismatch (ca_auction_version candidate) (ai_auction_version i))
            else (case ai_is_active_auction i of
              None \<Rightarrow> refuse ERROR ''auction isAnActiveAuction() read failed''
            | Some True \<Rightarrow> refuse SKIPPED ''auction still active''
            | Some False \<Rightarrow>
                (case ai_auction_length_seconds i of
                   Some auction_length \<Rightarrow>
                     if auction_length \<le> 0 then refuse ERROR ''auction auctionLength() read failed or returned zero''
                     else (case ai_step_duration_seconds i of
                         Some step \<Rightarrow>
                           if step \<le> 0 then refuse ERROR ''auction stepDuration() read failed or returned zero''
                           else stage (or_refuse_value (approved_auction_spec_for_version (ai_auction_version i))
                               (kick_result_of ERROR)) (\<lambda>spec. proceed (i, spec, auction_length, step))
                       | None \<Rightarrow> refuse ERROR ''auction stepDuration() read failed or returned zero'')
                 | None \<Rightarrow> refuse ERROR ''auction auctionLength() read failed or returned zero'')))"

definition read_tokens :: "prepare_env \<Rightarrow> kick_candidate \<Rightarrow> (int \<times> int \<times> int) outcome" where
  "read_tokens env candidate =
     stage (or_refuse
       (err_bind (pe_read_balance env (ca_token_address candidate) (ca_source_address candidate)) (\<lambda>live_balance_raw.
        err_bind (pe_read_decimals env (ca_token_address candidate)) (\<lambda>sell_decimals.
        err_bind (pe_read_decimals env (ca_want_address candidate)) (\<lambda>want_decimals.
        Inr (live_balance_raw, sell_decimals, want_decimals)))))
       (\<lambda>e. kick_result_of ERROR (''live token read failed: '' @ exn_str e)))
     (\<lambda>(live_balance_raw, sell_decimals, want_decimals).
       if sell_decimals \<noteq> ca_decimals candidate
       then refuse ERROR (''sell token decimals mismatch: cached '' @ show_int (ca_decimals candidate) @ '', onchain ''
         @ show_int sell_decimals)
       else if \<not> (0 \<le> sell_decimals \<and> sell_decimals \<le> 18) \<or> \<not> (0 \<le> want_decimals \<and> want_decimals \<le> 18)
       then refuse ERROR ''auction tokens must have between 0 and 18 decimals''
       else proceed (live_balance_raw, sell_decimals, want_decimals))"

definition prepare_size :: "prepare_env \<Rightarrow> kick_candidate \<Rightarrow> int \<Rightarrow> (selected_sell_size \<times> pricing_profile) outcome" where
  "prepare_size env candidate live_balance_raw =
     stage (or_refuse (select_sell_size (pe_isaddr env) (pe_token_sizing_policy env) candidate live_balance_raw)
       (\<lambda>e. kick_result_of ERROR (''token sizing failed: '' @ exn_str e)))
     (\<lambda>selected.
       if dec_less (ss_full_live_usd_value selected) (pe_usd_threshold env)
       then Inr (Inl ((kick_result_of SKIPPED ''below threshold on live balance'')
         \<lparr>kr_live_balance_raw := Some live_balance_raw, kr_usd_value := Some (dec_str (ss_full_live_usd_value selected))\<rparr>))
       else err_bind (pricing_resolve (pe_isaddr env) (pe_pricing_policy env) (ca_auction_address candidate)
           (ca_token_address candidate)) (\<lambda>profile.
         let sell_amount = ss_selected_sell_raw selected;
             refusal = (\<lambda>message. (kick_result_of SKIPPED message)\<lparr>kr_live_balance_raw := Some live_balance_raw,
               kr_sell_amount := Some (show_int sell_amount),
               kr_usd_value := Some (dec_str (ss_selected_sell_usd_value selected))\<rparr>)
         in if sell_amount \<le> 0 then Inr (Inl (refusal ''token sizing cap rounds to zero''))
            else if dec_less (ss_selected_sell_usd_value selected) (pe_usd_threshold env)
            then Inr (Inl (refusal ''below threshold after token sizing cap''))
            else proceed (selected, profile)))"

definition prepare_quote ::
  "prepare_env \<Rightarrow> kick_candidate \<Rightarrow> int \<Rightarrow> int \<Rightarrow> (quote_result \<times> int \<times> json option) outcome" where
  "prepare_quote env candidate sell_amount want_decimals =
     stage (or_refuse (pe_quote env (ca_token_address candidate) (ca_want_address candidate) (show_int sell_amount))
       (\<lambda>e. kick_result_of ERROR (''quote API failed: '' @ exn_str e)))
     (\<lambda>q.
       if quote_metadata_resolves_to_want (pe_isaddr env) candidate (qr_raw_response q)
       then refuse SKIPPED ''sell token resolves to want token in quote API''
       else
         let quote_response = map_option (\<lambda>raw. JObj (clean_quote_response raw (qr_request_url q))) (qr_raw_response q);
             refusal = (\<lambda>message. Inr (Inl ((kick_result_of ERROR message)\<lparr>kr_quote_response_json := quote_response\<rparr>)))
         in case qr_amount_out_raw q of
              None \<Rightarrow> refusal ''no quote available for this pair''
            | Some amount_out \<Rightarrow>
                if pe_require_curve_quote env \<and> \<not> curve_quote_available q
                then refusal (''curve quote unavailable (status: '' @
                  (case map_of (qr_provider_statuses q) ''curve'' of None \<Rightarrow> ''not present'' | Some None \<Rightarrow> ''None'' | Some (Some s) \<Rightarrow> s)
                  @ '')'')
                else (case qr_token_out_decimals q of
                    None \<Rightarrow> refusal ''quote response is missing want token decimals''
                  | Some d \<Rightarrow>
                      if d \<noteq> want_decimals
                      then refusal (''want token decimals mismatch: quote '' @ show_int d @ '', onchain '' @ show_int want_decimals)
                      else proceed (q, amount_out, quote_response)))"

record kick_prices =
  kp_amount_out_normalized :: dec
  kp_starting_price_raw :: int
  kp_floor_quote_amount_raw :: int
  kp_minimum_price_scaled_1e18 :: int
  kp_minimum_quote_unscaled :: int

text \<open>What the whole lot is worth at the minimum price, in raw want tokens.\<close>

definition minimum_full_lot_quote_raw :: "int \<Rightarrow> int \<Rightarrow> int \<Rightarrow> int \<Rightarrow> int" where
  "minimum_full_lot_quote_raw sell_amount sell_decimals want_decimals minimum_price_scaled_1e18 =
     (sell_amount * 10 ^ nat (18 - sell_decimals) * minimum_price_scaled_1e18) div 10 ^ 18 div 10 ^ nat (18 - want_decimals)"

definition prepare_prices ::
  "auction_spec \<Rightarrow> pricing_profile \<Rightarrow> int \<Rightarrow> int \<Rightarrow> int \<Rightarrow> quote_result \<Rightarrow> int \<Rightarrow> json option \<Rightarrow> kick_prices outcome" where
  "prepare_prices spec profile sell_amount sell_decimals want_decimals q amount_out quote_response =
     err_bind (normalized_token_amount amount_out want_decimals) (\<lambda>amount_out_normalized.
     stage (or_refuse_value
         (encode_starting_price_raw amount_out want_decimals (pf_start_price_buffer_bps profile) (spec_encoding spec))
         (\<lambda>message. (kick_result_of ERROR (''starting price encoding failed: '' @ message))\<lparr>kr_quote_response_json := quote_response\<rparr>))
       (\<lambda>starting_price_raw.
     case select_floor_quote_amount_raw q profile of
       None \<Rightarrow> Inl (TypeError ''conversion from NoneType to Decimal is not supported'')
     | Some floor_quote \<Rightarrow>
         err_bind (compute_minimum_price_scaled_1e18 floor_quote want_decimals sell_amount sell_decimals
             (pf_min_price_buffer_bps profile)) (\<lambda>minimum_price.
         err_bind (compute_minimum_quote_unscaled minimum_price sell_amount sell_decimals) (\<lambda>minimum_quote.
         if floor_quote \<le> minimum_full_lot_quote_raw sell_amount sell_decimals want_decimals minimum_price
         then Inr (Inl ((kick_result_of SKIPPED ''minimum full-lot quote is not below the trusted floor quote'')
           \<lparr>kr_quote_response_json := quote_response\<rparr>))
         else proceed \<lparr>kp_amount_out_normalized = amount_out_normalized, kp_starting_price_raw = starting_price_raw,
           kp_floor_quote_amount_raw = floor_quote, kp_minimum_price_scaled_1e18 = minimum_price,
           kp_minimum_quote_unscaled = minimum_quote\<rparr>))))"

definition want_symbol_text :: "kick_candidate \<Rightarrow> string" where
  "want_symbol_text candidate =
     (case ca_want_symbol candidate of None \<Rightarrow> ''want-token'' | Some s \<Rightarrow> if s = [] then ''want-token'' else s)"

definition check_terminal_ask ::
  "kick_candidate \<Rightarrow> auction_spec \<Rightarrow> pricing_profile \<Rightarrow> selected_sell_size \<Rightarrow> int \<Rightarrow> int \<Rightarrow> int \<Rightarrow> int \<Rightarrow> kick_prices
     \<Rightarrow> json option \<Rightarrow> unit outcome" where
  "check_terminal_ask candidate spec profile selected sell_decimals want_decimals auction_length step_duration prices quote_response =
     (let sell_amount = ss_selected_sell_raw selected; floor_quote = kp_floor_quote_amount_raw prices;
          live_balance_raw = ss_full_live_balance_raw selected in
      stage (or_refuse_value
        (latent_terminal_full_lot_ask_raw (spec_encoding spec) (kp_starting_price_raw prices) sell_amount sell_decimals
          want_decimals (pf_step_decay_rate_bps profile) step_duration auction_length)
        (\<lambda>message. (kick_result_of ERROR (''terminal ask calculation failed: '' @ message))
          \<lparr>kr_quote_response_json := quote_response\<rparr>))
      (\<lambda>terminal_ask_raw.
        if terminal_ask_raw \<le> floor_quote then proceed ()
        else
          err_bind (to_decimal_string floor_quote want_decimals) (\<lambda>floor_quote_display.
          err_bind (to_decimal_string terminal_ask_raw want_decimals) (\<lambda>terminal_display.
          let symbol = want_symbol_text candidate; is_v104_rounding_pause = spec_version spec = ''1.0.4'' in
          Inr (Inl ((kick_result_of SKIPPED
              (''quote '' @ floor_quote_display @ '' '' @ symbol @ '' is below latent terminal full-lot ask '' @ terminal_display
               @ '' '' @ symbol))
            \<lparr>kr_sell_amount := Some (show_int sell_amount), kr_live_balance_raw := Some live_balance_raw,
             kr_usd_value := Some (dec_str (ss_selected_sell_usd_value selected)), kr_quote_response_json := quote_response,
             kr_reason_code := (if is_v104_rounding_pause then Some AUCTION_PRICE_GRANULARITY else None),
             kr_reason_data := (if is_v104_rounding_pause
               then Some (JObj [(''sourceBalanceRaw'', JStr (show_int live_balance_raw)),
                 (''sellAmountRaw'', JStr (show_int sell_amount)), (''floorQuoteAmountRaw'', JStr (show_int floor_quote)),
                 (''terminalAskRaw'', JStr (show_int terminal_ask_raw)), (''wantDecimals'', JInt want_decimals)])
               else None)\<rparr>))))))"

definition want_price_text :: "prepare_env \<Rightarrow> kick_candidate \<Rightarrow> int \<Rightarrow> string option" where
  "want_price_text env candidate want_decimals =
     (case pe_quote_usd env (ca_want_address candidate) want_decimals of Inl _ \<Rightarrow> None | Inr price \<Rightarrow> map_option dec_str price)"

definition prepared_kick_of ::
  "kick_candidate \<Rightarrow> auction_spec \<Rightarrow> pricing_profile \<Rightarrow> selected_sell_size \<Rightarrow> kick_prices \<Rightarrow> json option \<Rightarrow> string option
     \<Rightarrow> prepared_kick" where
  "prepared_kick_of candidate spec profile selected prices quote_response want_price =
     \<lparr>pk_candidate = candidate, pk_starting_price_encoding = spec_encoding spec,
      pk_sell_amount = ss_selected_sell_raw selected, pk_starting_price_raw = kp_starting_price_raw prices,
      pk_minimum_price_scaled_1e18 = kp_minimum_price_scaled_1e18 prices,
      pk_minimum_quote_unscaled = kp_minimum_quote_unscaled prices,
      pk_sell_amount_str = show_int (ss_selected_sell_raw selected),
      pk_starting_price_raw_str = show_int (kp_starting_price_raw prices),
      pk_minimum_price_scaled_1e18_str = show_int (kp_minimum_price_scaled_1e18 prices),
      pk_minimum_quote_unscaled_str = show_int (kp_minimum_quote_unscaled prices),
      pk_usd_value_str = dec_str (ss_selected_sell_usd_value selected),
      pk_live_balance_raw = ss_full_live_balance_raw selected,
      pk_normalized_balance = ss_selected_sell_normalized selected,
      pk_quote_amount_str = dec_str (kp_amount_out_normalized prices),
      pk_start_price_buffer_bps = pf_start_price_buffer_bps profile,
      pk_min_price_buffer_bps = pf_min_price_buffer_bps profile,
      pk_step_decay_rate_bps = pf_step_decay_rate_bps profile, pk_pricing_profile_name = pf_name profile,
      pk_quote_response_json = quote_response, pk_want_price_usd_str = want_price\<rparr>"

definition prepare_kick :: "prepare_env \<Rightarrow> kick_candidate \<Rightarrow> auction_inspection option \<Rightarrow> prepared_kick outcome" where
  "prepare_kick env candidate inspection =
     (if ca_token_address candidate = ca_want_address candidate then refuse SKIPPED ''sell token matches want token''
      else if candidate_symbol_matches_want candidate then refuse SKIPPED ''sell token symbol matches want token''
      else
        err_bind (case inspection of Some i \<Rightarrow> Inr (Some i)
          | None \<Rightarrow> err_bind (inspect_candidates env [candidate]) (\<lambda>inspections.
              err_bind (kick_key (pe_isaddr env) candidate) (\<lambda>key. Inr (map_of inspections key)))) (\<lambda>inspection.
        stage (check_inspection candidate inspection) (\<lambda>(i, spec, auction_length, step_duration).
        stage (read_tokens env candidate) (\<lambda>(live_balance_raw, sell_decimals, want_decimals).
        stage (prepare_size env candidate live_balance_raw) (\<lambda>(selected, profile).
        stage (prepare_quote env candidate (ss_selected_sell_raw selected) want_decimals) (\<lambda>(q, amount_out, quote_response).
        stage (prepare_prices spec profile (ss_selected_sell_raw selected) sell_decimals want_decimals q amount_out quote_response) (\<lambda>prices.
        stage (check_terminal_ask candidate spec profile selected sell_decimals want_decimals auction_length step_duration prices quote_response) (\<lambda>_.
        proceed (prepared_kick_of candidate spec profile selected prices quote_response
          (want_price_text env candidate want_decimals))))))))))"

section \<open>The stages\<close>

lemma stage_done [simp]: "stage m f = Inr (Inr y) \<longleftrightarrow> (\<exists>x. m = Inr (Inr x) \<and> f x = Inr (Inr y))"
proof (cases m)
  case (Inr r)
  then show ?thesis by (cases r) (simp_all add: stage_def)
qed (simp add: stage_def)

lemma outcome_done [simp]:
  "proceed x = Inr (Inr y) \<longleftrightarrow> x = y" "refuse status message \<noteq> Inr (Inr y)"
  "or_refuse r handler = Inr (Inr z) \<longleftrightarrow> r = Inr z" "or_refuse_value r handle = Inr (Inr z) \<longleftrightarrow> r = Inr z"
  by (auto simp: proceed_def refuse_def or_refuse_def or_refuse_value_def split: sum.splits exn.splits)

lemma check_inspection_done:
  assumes "check_inspection candidate inspection = Inr (Inr (i, spec, auction_length, step_duration))"
  shows "inspection = Some i \<and> ai_compatibility_error i = None \<and> ai_auction_version i = ca_auction_version candidate
    \<and> ai_is_active_auction i = Some False \<and> ai_auction_length_seconds i = Some auction_length \<and> 0 < auction_length
    \<and> ai_step_duration_seconds i = Some step_duration \<and> 0 < step_duration
    \<and> approved_auction_spec_for_version (ai_auction_version i) = Inr spec"
  using assms by (auto simp: check_inspection_def not_le split: option.splits bool.splits if_splits)

lemma read_tokens_done:
  assumes "read_tokens env candidate = Inr (Inr (live, sell_decimals, want_decimals))"
  shows "pe_read_balance env (ca_token_address candidate) (ca_source_address candidate) = Inr live
    \<and> pe_read_decimals env (ca_token_address candidate) = Inr sell_decimals
    \<and> pe_read_decimals env (ca_want_address candidate) = Inr want_decimals
    \<and> sell_decimals = ca_decimals candidate \<and> 0 \<le> sell_decimals \<and> sell_decimals \<le> 18 \<and> 0 \<le> want_decimals \<and> want_decimals \<le> 18"
  using assms by (auto simp: read_tokens_def err_simps split: if_splits)

lemma prepare_size_done:
  assumes "prepare_size env candidate live = Inr (Inr (selected, profile))"
  shows "select_sell_size (pe_isaddr env) (pe_token_sizing_policy env) candidate live = Inr selected
    \<and> pricing_resolve (pe_isaddr env) (pe_pricing_policy env) (ca_auction_address candidate) (ca_token_address candidate) = Inr profile
    \<and> 0 < ss_selected_sell_raw selected
    \<and> dec_val (pe_usd_threshold env) \<le> dec_val (ss_selected_sell_usd_value selected)"
  using assms by (auto simp: prepare_size_def Let_def err_simps dec_simps not_le not_less split: if_splits)

lemma prepare_quote_done:
  assumes "prepare_quote env candidate sell want_decimals = Inr (Inr (q, amount_out, response))"
  shows "pe_quote env (ca_token_address candidate) (ca_want_address candidate) (show_int sell) = Inr q
    \<and> qr_amount_out_raw q = Some amount_out \<and> qr_token_out_decimals q = Some want_decimals
    \<and> (pe_require_curve_quote env \<longrightarrow> curve_quote_available q)
    \<and> \<not> quote_metadata_resolves_to_want (pe_isaddr env) candidate (qr_raw_response q)"
  using assms by (auto simp: prepare_quote_def Let_def split: if_splits option.splits)

lemma prepare_prices_done:
  assumes "prepare_prices spec profile sell sell_decimals want_decimals q amount_out response = Inr (Inr prices)"
  shows "encode_starting_price_raw amount_out want_decimals (pf_start_price_buffer_bps profile) (spec_encoding spec)
      = Inr (kp_starting_price_raw prices)
    \<and> select_floor_quote_amount_raw q profile = Some (kp_floor_quote_amount_raw prices)
    \<and> compute_minimum_price_scaled_1e18 (kp_floor_quote_amount_raw prices) want_decimals sell sell_decimals
        (pf_min_price_buffer_bps profile) = Inr (kp_minimum_price_scaled_1e18 prices)
    \<and> minimum_full_lot_quote_raw sell sell_decimals want_decimals (kp_minimum_price_scaled_1e18 prices)
        < kp_floor_quote_amount_raw prices"
  using assms by (auto simp: prepare_prices_def err_simps split: if_splits option.splits)

lemma check_terminal_ask_done:
  assumes "check_terminal_ask candidate spec profile selected sell_decimals want_decimals auction_length step_duration prices response
    = Inr (Inr u)"
  shows "\<exists>terminal. latent_terminal_full_lot_ask_raw (spec_encoding spec) (kp_starting_price_raw prices)
      (ss_selected_sell_raw selected) sell_decimals want_decimals (pf_step_decay_rate_bps profile) step_duration auction_length = Inr terminal
    \<and> terminal \<le> kp_floor_quote_amount_raw prices"
  using assms by (auto simp: check_terminal_ask_def Let_def err_simps split: if_splits)

lemma prepare_kick_done:
  assumes "prepare_kick env candidate (Some inspection) = Inr (Inr kick)"
  obtains spec auction_length step_duration live sell_decimals want_decimals selected profile q amount_out response prices u where
    "ca_token_address candidate \<noteq> ca_want_address candidate" "\<not> candidate_symbol_matches_want candidate"
    "check_inspection candidate (Some inspection) = Inr (Inr (inspection, spec, auction_length, step_duration))"
    "read_tokens env candidate = Inr (Inr (live, sell_decimals, want_decimals))"
    "prepare_size env candidate live = Inr (Inr (selected, profile))"
    "prepare_quote env candidate (ss_selected_sell_raw selected) want_decimals = Inr (Inr (q, amount_out, response))"
    "prepare_prices spec profile (ss_selected_sell_raw selected) sell_decimals want_decimals q amount_out response = Inr (Inr prices)"
    "check_terminal_ask candidate spec profile selected sell_decimals want_decimals auction_length step_duration prices response
      = Inr (Inr u)"
    "kick = prepared_kick_of candidate spec profile selected prices response (want_price_text env candidate want_decimals)"
proof -
  from assms obtain i spec auction_length step_duration where
    "check_inspection candidate (Some inspection) = Inr (Inr (i, spec, auction_length, step_duration))"
    by (auto simp: prepare_kick_def split: if_splits)
  with check_inspection_done [OF this] assms show thesis
    by (auto simp: prepare_kick_def split: if_splits intro: that)
qed

section \<open>A prepared kick is priced around its quote\<close>

text \<open>
  C28. A prepared kick brackets its quote: its starting price is worth at least the buffered
  quote, the whole lot at its minimum price is worth less than the trusted floor quote, and
  the ask the on-chain decay reaches by the end of the auction is no higher than that floor
  quote, which is positive and at most the quote.
\<close>

theorem prepared_kick_brackets_quote:
  assumes "prepare_kick env candidate (Some inspection) = Inr (Inr kick)"
  shows "\<exists>spec profile sell_decimals want_decimals auction_length step_duration q amount_out floor_quote terminal.
      approved_auction_spec_for_version (ai_auction_version inspection) = Inr spec
    \<and> ai_auction_length_seconds inspection = Some auction_length \<and> ai_step_duration_seconds inspection = Some step_duration
    \<and> pe_read_decimals env (ca_token_address candidate) = Inr sell_decimals
    \<and> pe_read_decimals env (ca_want_address candidate) = Inr want_decimals
    \<and> pe_quote env (ca_token_address candidate) (ca_want_address candidate) (show_int (pk_sell_amount kick)) = Inr q
    \<and> qr_amount_out_raw q = Some amount_out \<and> qr_token_out_decimals q = Some want_decimals
    \<and> pricing_resolve (pe_isaddr env) (pe_pricing_policy env) (ca_auction_address candidate) (ca_token_address candidate) = Inr profile
    \<and> buffered_quote amount_out want_decimals (pf_start_price_buffer_bps profile)
        \<le> of_int (pk_starting_price_raw kick) * price_unit (spec_encoding spec)
    \<and> select_floor_quote_amount_raw q profile = Some floor_quote \<and> 0 < floor_quote \<and> floor_quote \<le> amount_out
    \<and> minimum_full_lot_quote_raw (pk_sell_amount kick) sell_decimals want_decimals (pk_minimum_price_scaled_1e18 kick) < floor_quote
    \<and> latent_terminal_full_lot_ask_raw (spec_encoding spec) (pk_starting_price_raw kick) (pk_sell_amount kick) sell_decimals
        want_decimals (pk_step_decay_rate_bps kick) step_duration auction_length = Inr terminal
    \<and> terminal \<le> floor_quote"
  using assms
proof (cases rule: prepare_kick_done)
  case (1 spec auction_length step_duration live sell_decimals want_decimals selected profile q amount_out response prices u)
  note kick = 1(9)
  have encode: "encode_starting_price_raw amount_out want_decimals (pf_start_price_buffer_bps profile) (spec_encoding spec)
      = Inr (kp_starting_price_raw prices)"
    and floor_quote: "select_floor_quote_amount_raw q profile = Some (kp_floor_quote_amount_raw prices)"
    using prepare_prices_done [OF 1(7)] by simp_all
  have pos: "0 < amount_out"
    and start: "kp_starting_price_raw prices =
        \<lceil>buffered_quote amount_out want_decimals (pf_start_price_buffer_bps profile) / price_unit (spec_encoding spec)\<rceil>"
    using encode by (simp_all add: encode_starting_price_iff)
  have "buffered_quote amount_out want_decimals (pf_start_price_buffer_bps profile) / price_unit (spec_encoding spec)
      \<le> of_int (kp_starting_price_raw prices)"
    unfolding start by (rule le_of_int_ceiling)
  then have worth: "buffered_quote amount_out want_decimals (pf_start_price_buffer_bps profile)
      \<le> of_int (kp_starting_price_raw prices) * price_unit (spec_encoding spec)"
    using price_unit_pos [of "spec_encoding spec"] by (simp add: pos_divide_le_eq)
  have out: "qr_amount_out_raw q = Some amount_out" using prepare_quote_done [OF 1(6)] by simp
  obtain terminal where terminal: "latent_terminal_full_lot_ask_raw (spec_encoding spec) (kp_starting_price_raw prices)
      (ss_selected_sell_raw selected) sell_decimals want_decimals (pf_step_decay_rate_bps profile) step_duration auction_length
      = Inr terminal" "terminal \<le> kp_floor_quote_amount_raw prices"
    using check_terminal_ask_done [OF 1(8)] by blast
  have pk: "pk_sell_amount kick = ss_selected_sell_raw selected" "pk_starting_price_raw kick = kp_starting_price_raw prices"
    "pk_minimum_price_scaled_1e18 kick = kp_minimum_price_scaled_1e18 prices" "pk_step_decay_rate_bps kick = pf_step_decay_rate_bps profile"
    by (simp_all add: kick prepared_kick_of_def)
  note inspected = check_inspection_done [OF 1(3)] and tokens = read_tokens_done [OF 1(4)]
    and quoted = prepare_quote_done [OF 1(6)] and in_range = floor_quote_range [OF floor_quote out pos]
  show ?thesis
    unfolding pk
  proof (intro exI conjI)
    show "approved_auction_spec_for_version (ai_auction_version inspection) = Inr spec" using inspected by blast
    show "ai_auction_length_seconds inspection = Some auction_length" using inspected by blast
    show "ai_step_duration_seconds inspection = Some step_duration" using inspected by blast
    show "pe_read_decimals env (ca_token_address candidate) = Inr sell_decimals" using tokens by blast
    show "pe_read_decimals env (ca_want_address candidate) = Inr want_decimals" using tokens by blast
    show "pe_quote env (ca_token_address candidate) (ca_want_address candidate) (show_int (ss_selected_sell_raw selected)) = Inr q"
      using quoted by blast
    show "qr_amount_out_raw q = Some amount_out" by (rule out)
    show "qr_token_out_decimals q = Some want_decimals" using quoted by blast
    show "pricing_resolve (pe_isaddr env) (pe_pricing_policy env) (ca_auction_address candidate) (ca_token_address candidate)
        = Inr profile" using prepare_size_done [OF 1(5)] by blast
    show "buffered_quote amount_out want_decimals (pf_start_price_buffer_bps profile)
        \<le> of_int (kp_starting_price_raw prices) * price_unit (spec_encoding spec)" by (rule worth)
    show "select_floor_quote_amount_raw q profile = Some (kp_floor_quote_amount_raw prices)" by (rule floor_quote)
    show "0 < kp_floor_quote_amount_raw prices" "kp_floor_quote_amount_raw prices \<le> amount_out" using in_range by blast+
    show "minimum_full_lot_quote_raw (ss_selected_sell_raw selected) sell_decimals want_decimals (kp_minimum_price_scaled_1e18 prices)
        < kp_floor_quote_amount_raw prices" using prepare_prices_done [OF 1(7)] by blast
    show "latent_terminal_full_lot_ask_raw (spec_encoding spec) (kp_starting_price_raw prices) (ss_selected_sell_raw selected)
        sell_decimals want_decimals (pf_step_decay_rate_bps profile) step_duration auction_length = Inr terminal"
      by (rule terminal(1))
    show "terminal \<le> kp_floor_quote_amount_raw prices" by (rule terminal(2))
  qed
qed

text \<open>
  C29. A prepared kick can be sold: the token is not the want token, the auction is
  compatible, of the stored version and not active, the decimals agree with the chain, the
  amount is positive and within the live balance, and its value reaches the threshold.
\<close>

theorem prepared_kick_sellable:
  assumes "prepare_kick env candidate (Some inspection) = Inr (Inr kick)"
    and "pe_read_balance env (ca_token_address candidate) (ca_source_address candidate) = Inr live"
  shows "pk_candidate kick = candidate \<and> ca_token_address candidate \<noteq> ca_want_address candidate
    \<and> ai_compatibility_error inspection = None \<and> ai_auction_version inspection = ca_auction_version candidate
    \<and> ai_is_active_auction inspection = Some False
    \<and> pe_read_decimals env (ca_token_address candidate) = Inr (ca_decimals candidate)
    \<and> 0 < pk_sell_amount kick \<and> pk_sell_amount kick \<le> live
    \<and> (\<exists>usd_value. pk_usd_value_str kick = dec_str usd_value \<and> dec_val (pe_usd_threshold env) \<le> dec_val usd_value)"
  using assms(1)
proof (cases rule: prepare_kick_done)
  case (1 spec auction_length step_duration live' sell_decimals want_decimals selected profile q amount_out response prices u)
  have "live' = live" using read_tokens_done [OF 1(4)] assms(2) by simp
  moreover have "ss_selected_sell_raw selected \<le> live'"
    using prepare_size_done [OF 1(5)] select_sell_size_raw by blast
  ultimately show ?thesis
    using check_inspection_done [OF 1(3)] read_tokens_done [OF 1(4)] prepare_size_done [OF 1(5)] 1(1,9)
    by (auto simp: prepared_kick_of_def)
qed

section \<open>The inspection fails closed\<close>

lemma compatibility_error_None:
  "compatibility_error stored fresh = None \<longleftrightarrow>
     fresh = stored \<and> stored \<noteq> None \<and> (\<exists>spec. approved_auction_spec_for_version stored = Inr spec)"
  by (auto simp: compatibility_error_def Let_def version_error_def split: option.splits sum.splits if_splits)

lemma map_of_map_entry: "map_of (map (\<lambda>(k, v). (k, f k v)) d) key = map_option (f key) (map_of d key)"
  by (induction d) auto

text \<open>What the loop over the candidates leaves for the pairs it has seen.\<close>

definition auction_checks :: "(string \<times> string option) list \<Rightarrow> address \<Rightarrow> ((address \<times> address) \<times> kick_candidate) list \<Rightarrow> bool list" where
  "auction_checks fresh_versions auction ps =
     map (\<lambda>(_, c). compatibility_error (ca_auction_version c) (fresh_of fresh_versions auction) = None)
       (filter (\<lambda>(k, _). fst k = auction) ps)"

lemma inspect_step_eq:
  "inspect_step fresh_versions ((a, t), c) (ins, ch) =
    (dict_set (a, t) \<lparr>ai_auction_address = a, ai_is_active_auction = None, ai_auction_version = fresh_of fresh_versions a,
       ai_compatibility_error = compatibility_error (ca_auction_version c) (fresh_of fresh_versions a),
       ai_auction_length_seconds = None, ai_step_duration_seconds = None\<rparr> ins,
     dict_append a (compatibility_error (ca_auction_version c) (fresh_of fresh_versions a) = None) ch)"
  by (simp add: inspect_step_def Let_def)

lemma map_map_entry:
  "map (\<lambda>(k, v). (k, f k v)) (map (\<lambda>(k, v). (k, g k v)) d) = map (\<lambda>(k, v). (k, f k (g k v))) d"
  by (induction d) auto

lemma inspect_loop:
  assumes "fold (inspect_step fresh_versions) ps ([], []) = (inspections, checks)"
  shows "(\<forall>(k, c) \<in> set ps. map_of inspections k \<noteq> None)
    \<and> (\<forall>k i. map_of inspections k = Some i \<longrightarrow> ai_auction_version i = fresh_of fresh_versions (fst k)
        \<and> ai_is_active_auction i = None
        \<and> (\<exists>c. (k, c) \<in> set ps \<and> ai_compatibility_error i = compatibility_error (ca_auction_version c) (fresh_of fresh_versions (fst k))))
    \<and> (\<forall>a. map_of checks a = (if auction_checks fresh_versions a ps = [] then None else Some (auction_checks fresh_versions a ps)))"
  using assms
proof (induction ps arbitrary: inspections checks rule: rev_induct)
  case Nil
  then show ?case by (simp add: auction_checks_def)
next
  case (snoc p ps)
  obtain a t c where p: "p = ((a, t), c)" by (metis surj_pair)
  obtain ins ch where prev: "fold (inspect_step fresh_versions) ps ([], []) = (ins, ch)" by (metis surj_pair)
  have step: "inspections = dict_set (a, t) \<lparr>ai_auction_address = a, ai_is_active_auction = None,
      ai_auction_version = fresh_of fresh_versions a,
      ai_compatibility_error = compatibility_error (ca_auction_version c) (fresh_of fresh_versions a),
      ai_auction_length_seconds = None, ai_step_duration_seconds = None\<rparr> ins"
    "checks = dict_append a (compatibility_error (ca_auction_version c) (fresh_of fresh_versions a) = None) ch"
    using snoc.prems by (simp_all add: prev p inspect_step_eq)
  have checks: "auction_checks fresh_versions b (ps @ [p]) = auction_checks fresh_versions b ps @
      (if b = a then [compatibility_error (ca_auction_version c) (fresh_of fresh_versions a) = None] else [])" for b
    by (auto simp: auction_checks_def p)
  note IH = snoc.IH [OF prev]
  show ?case
    using IH by (auto simp: step p checks [unfolded p] dict_append_def split: if_splits)
qed

lemma inspect_candidates_done:
  assumes "inspect_candidates env candidates = Inr inspections" "candidates \<noteq> []"
  obtains keys fresh_versions ins checks g where
    "traverse_err (kick_key (pe_isaddr env)) candidates = Inr keys"
    "pe_read_version env (sorted_set (map fst keys)) = Inr fresh_versions"
    "fold (inspect_step fresh_versions) (zip keys candidates) ([], []) = (ins, checks)"
    "inspections = map (\<lambda>(k, i). (k, g k (block_inspection checks k i))) ins"
    "\<And>k i. ai_compatibility_error (g k i) = ai_compatibility_error i \<and> ai_auction_version (g k i) = ai_auction_version i
      \<and> (ai_compatibility_error i \<noteq> None \<longrightarrow> g k i = i)"
proof -
  obtain keys fresh_versions where pre: "traverse_err (kick_key (pe_isaddr env)) candidates = Inr keys"
    "pe_read_version env (sorted_set (map fst keys)) = Inr fresh_versions"
    using assms by (auto simp: inspect_candidates_def err_bind_Inr_iff)
  obtain ins checks where loop: "fold (inspect_step fresh_versions) (zip keys candidates) ([], []) = (ins, checks)"
    by (metis surj_pair)
  show thesis
  proof (cases "approved_addresses checks = []")
    case True
    then have "inspections = map (\<lambda>(k, i). (k, block_inspection checks k i)) ins"
      using assms by (auto simp: inspect_candidates_def pre loop Let_def)
    then show thesis using that [OF pre loop, of "\<lambda>k i. i"] by simp
  next
    case False
    then have "\<exists>active lengths steps. inspections =
        map (\<lambda>(k, i). (k, fill_inspection active lengths steps k (block_inspection checks k i))) ins"
      using assms by (auto simp: inspect_candidates_def pre loop Let_def err_simps map_map_entry simp del: map_map)
    then obtain active lengths steps where "inspections =
        map (\<lambda>(k, i). (k, fill_inspection active lengths steps k (block_inspection checks k i))) ins" by blast
    then show thesis
      using that [OF pre loop, of "fill_inspection active lengths steps"] by (simp add: fill_inspection_def)
  qed
qed

text \<open>
  The live inspection fails closed per auction: a candidate whose inspection carries an
  error gets no live reads, and it carries none only if the stored version of every
  candidate of the same auction is the approved version read on chain.
\<close>

theorem inspection_fails_closed:
  assumes "inspect_candidates env candidates = Inr inspections" "c \<in> set candidates" "kick_key (pe_isaddr env) c = Inr key"
  shows "\<exists>i. map_of inspections key = Some i
    \<and> (ai_compatibility_error i \<noteq> None \<longrightarrow> ai_is_active_auction i = None)
    \<and> (ai_compatibility_error i = None \<longrightarrow> (\<forall>d \<in> set candidates. \<forall>k. kick_key (pe_isaddr env) d = Inr k \<and> fst k = fst key \<longrightarrow>
        ca_auction_version d = ai_auction_version i \<and> (\<exists>spec. approved_auction_spec_for_version (ca_auction_version d) = Inr spec)))"
proof -
  have "candidates \<noteq> []" using assms(2) by auto
  from assms(1) this show ?thesis
  proof (rule inspect_candidates_done)
    fix keys fresh_versions ins checks g
    assume keys: "traverse_err (kick_key (pe_isaddr env)) candidates = Inr keys"
      and loop: "fold (inspect_step fresh_versions) (zip keys candidates) ([], []) = (ins, checks)"
      and result: "inspections = map (\<lambda>(k, i). (k, g k (block_inspection checks k i))) ins"
      and g: "\<And>k i. ai_compatibility_error (g k i) = ai_compatibility_error i \<and> ai_auction_version (g k i) = ai_auction_version i
        \<and> (ai_compatibility_error i \<noteq> None \<longrightarrow> g k i = i)"
    have zipped: "(k, d) \<in> set (zip keys candidates) \<longleftrightarrow> d \<in> set candidates \<and> kick_key (pe_isaddr env) d = Inr k" for k d
      using keys by (auto simp: err_simps list_all2_conv_all_nth set_zip in_set_conv_nth)
    note loop' = inspect_loop [OF loop]
    have "(key, c) \<in> set (zip keys candidates)" using zipped assms(2,3) by simp
    then have "map_of ins key \<noteq> None" using loop' by blast
    then obtain i where i: "map_of ins key = Some i" by blast
    define i' where "i' = g key (block_inspection checks key i)"
    have got: "map_of inspections key = Some i'" by (simp add: result map_of_map_entry i i'_def)
    have idle: "ai_is_active_auction i = None" "ai_auction_version i = fresh_of fresh_versions (fst key)" using loop' i by blast+
    then have "ai_is_active_auction (block_inspection checks key i) = None" by (simp add: block_inspection_def)
    then have inactive: "ai_is_active_auction i' = None" if "ai_compatibility_error i' \<noteq> None"
      using that g [of key "block_inspection checks key i"] by (simp add: i'_def)
    have agree: "ca_auction_version d = ai_auction_version i' \<and> (\<exists>spec. approved_auction_spec_for_version (ca_auction_version d) = Inr spec)"
      if "ai_compatibility_error i' = None" "d \<in> set candidates" "kick_key (pe_isaddr env) d = Inr k" "fst k = fst key" for d k
    proof -
      let ?oks = "auction_checks fresh_versions (fst key) (zip keys candidates)"
      have d: "(k, d) \<in> set (zip keys candidates)" using that zipped by simp
      have in_oks: "(compatibility_error (ca_auction_version d) (fresh_of fresh_versions (fst key)) = None) \<in> set ?oks"
        using d that(4) by (force simp: auction_checks_def)
      then have "map_of checks (fst key) = Some ?oks" using loop' by auto
      moreover have "ai_compatibility_error (block_inspection checks key i) = None" using that(1) g by (simp add: i'_def)
      ultimately have "list_all id ?oks" by (auto simp: block_inspection_def split: if_splits)
      then have "compatibility_error (ca_auction_version d) (fresh_of fresh_versions (fst key)) = None"
        using in_oks by (auto simp: list_all_iff)
      moreover have "ai_auction_version i' = fresh_of fresh_versions (fst key)"
        using idle(2) g by (simp add: i'_def block_inspection_def)
      ultimately show ?thesis by (auto simp: compatibility_error_None)
    qed
    from got inactive agree show ?thesis by blast
  qed
qed

section \<open>A concrete preparation\<close>

definition sample_pricing :: pricing_policy where
  "sample_pricing = \<lparr>pp_default_profile_name = ''volatile'', pp_profiles = [(''volatile'', sample_profile)], pp_profile_overrides = []\<rparr>"

definition sample_env :: prepare_env where
  "sample_env = \<lparr>pe_isaddr = (\<lambda>_. True), pe_read_version = (\<lambda>as. Inr (map (\<lambda>a. (a, Some ''1.0.4'')) as)),
     pe_read_active = (\<lambda>as. Inr (map (\<lambda>a. (a, Some False)) as)), pe_read_length = (\<lambda>as. Inr (map (\<lambda>a. (a, Some 1200)) as)),
     pe_read_step = (\<lambda>as. Inr (map (\<lambda>a. (a, Some 60)) as)), pe_read_balance = (\<lambda>_ _. Inr 1000),
     pe_read_decimals = (\<lambda>_. Inr 2), pe_quote = (\<lambda>_ _ _. Inr (sample_quote [1000, 990, 980])),
     pe_quote_usd = (\<lambda>_ _. Inr None), pe_usd_threshold = Dec 10 0, pe_require_curve_quote = True,
     pe_pricing_policy = sample_pricing, pe_token_sizing_policy = Some sample_sizing\<rparr>"

definition sample_inspection :: auction_inspection where
  "sample_inspection = \<lparr>ai_auction_address = ''0xa'', ai_is_active_auction = Some False, ai_auction_version = Some ''1.0.4'',
     ai_compatibility_error = None, ai_auction_length_seconds = Some 1200, ai_step_duration_seconds = Some 60\<rparr>"

definition sample_spec :: auction_spec where
  "sample_spec = hd APPROVED_AUCTION_SPECS"

definition stale_candidate :: kick_candidate where
  "stale_candidate = sample_candidate\<lparr>ca_token_address := ''0xu'', ca_auction_version := Some ''1.0.5''\<rparr>"

theorem inspection_fails_closed_witness:
  "(\<exists>i. map_of (projr (inspect_candidates sample_env [sample_candidate])) (''0xa'', ''0xt'') = Some i
      \<and> ai_compatibility_error i = None \<and> ca_auction_version sample_candidate = ai_auction_version i)
    \<and> (\<exists>i. map_of (projr (inspect_candidates sample_env [sample_candidate, stale_candidate])) (''0xa'', ''0xt'') = Some i
      \<and> ai_compatibility_error i \<noteq> None \<and> ai_is_active_auction i = None)"
proof -
  have key: "kick_key (pe_isaddr sample_env) sample_candidate = Inr (''0xa'', ''0xt'')" by code_simp
  have one: "case inspect_candidates sample_env [sample_candidate] of Inl _ \<Rightarrow> False
    | Inr ins \<Rightarrow> map_option ai_compatibility_error (map_of ins (''0xa'', ''0xt'')) = Some None" by code_simp
  then obtain ins where ins: "inspect_candidates sample_env [sample_candidate] = Inr ins"
    "map_option ai_compatibility_error (map_of ins (''0xa'', ''0xt'')) = Some None" by (auto split: sum.splits)
  have two: "case inspect_candidates sample_env [sample_candidate, stale_candidate] of Inl _ \<Rightarrow> False
    | Inr ins \<Rightarrow> map_option (\<lambda>i. ai_compatibility_error i = None) (map_of ins (''0xa'', ''0xt'')) = Some False" by code_simp
  then obtain ins' where ins': "inspect_candidates sample_env [sample_candidate, stale_candidate] = Inr ins'"
    "map_option (\<lambda>i. ai_compatibility_error i = None) (map_of ins' (''0xa'', ''0xt'')) = Some False" by (auto split: sum.splits)
  from inspection_fails_closed [OF ins(1) _ key] inspection_fails_closed [OF ins'(1) _ key] ins ins' key show ?thesis by auto
qed

lemma sample_check:
  "check_inspection sample_candidate (Some sample_inspection) = Inr (Inr (sample_inspection, sample_spec, 1200, 60))"
  by code_simp

lemma sample_tokens: "read_tokens sample_env sample_candidate = Inr (Inr (1000, 2, 2))"
  by code_simp

definition sample_selected :: selected_sell_size where
  "sample_selected = \<lparr>ss_full_live_balance_raw = 1000, ss_full_live_balance_normalized = ''10'', ss_full_live_usd_value = Dec 40 0,
      ss_selected_sell_raw = 500, ss_selected_sell_normalized = ''5'', ss_selected_sell_usd_value = Dec 20 0,
      ss_max_usd_per_kick = Some (Dec 20 0)\<rparr>"

lemma sample_prepare_size: "prepare_size sample_env sample_candidate 1000 = Inr (Inr (sample_selected, sample_profile))"
proof -
  have "pricing_resolve (pe_isaddr sample_env) (pe_pricing_policy sample_env) (ca_auction_address sample_candidate)
      (ca_token_address sample_candidate) = Inr sample_profile" by code_simp
  moreover have "select_sell_size (pe_isaddr sample_env) (pe_token_sizing_policy sample_env) sample_candidate 1000 = Inr sample_selected"
    using sample_size by (simp add: sample_env_def sample_selected_def)
  moreover have "\<not> dec_less (ss_full_live_usd_value sample_selected) (pe_usd_threshold sample_env)"
    "\<not> dec_less (ss_selected_sell_usd_value sample_selected) (pe_usd_threshold sample_env)" by code_simp+
  ultimately show ?thesis by (simp add: prepare_size_def or_refuse_def stage_def proceed_def Let_def) (simp add: sample_selected_def)
qed

lemma sample_prepare_quote:
  "prepare_quote sample_env sample_candidate 500 2 = Inr (Inr (sample_quote [1000, 990, 980], 1000, None))"
  by code_simp

lemma sample_price_divisions:
  "dec_div (Dec 500 0) (Dec 10000 0) = Inr (Dec 5 (- 2))" "dec_div (Dec 10 0) (Dec 5 0) = Inr (Dec 2 0)"
  "dec_div (Dec 1900000000000000000 0) WAD = Inr (Dec 19 (- 1))"
  using dec_div_decimal [of 500 10000 5 2] dec_div_whole [of 5 2] dec_div_decimal [of 1900000000000000000 "10 ^ 18" 19 1]
  by (simp_all add: dec_prec_def WAD_def dec_ten_pow_def)

lemma sample_amounts: "normalized_token_amount 1000 2 = Inr (Dec 10 0)" "normalized_token_amount 500 2 = Inr (Dec 5 0)"
  by (simp_all add: normalized_token_amount_def sample_to_decimal sample_texts)

lemma sample_minimum: "compute_minimum_price_scaled_1e18 1000 2 500 2 500 = Inr 1900000000000000000"
proof -
  have "dec_sub (Dec 1 0) (Dec 5 (- 2)) = Dec 95 (- 2)" "dec_mul (Dec 2 0) (Dec 95 (- 2)) = Dec 190 (- 2)" by code_simp+
  moreover have "\<not> dec_leq (Dec 5 0) (Dec 0 0)" "dec_max (Dec 0 0) (Dec 190 (- 2)) = Dec 190 (- 2)" by code_simp+
  moreover have "dec_floor (dec_mul (Dec 190 (- 2)) WAD) = 1900000000000000000"
    by (simp add: dec_mul_def dec_fix_small dec_prec_def WAD_def dec_ten_pow_def dec_floor_def)
  ultimately show ?thesis
    by (simp add: compute_minimum_price_scaled_1e18_def compute_floor_rate_def sample_amounts sample_price_divisions dec_of_int_def)
qed

lemma sample_minimum_quote: "compute_minimum_quote_unscaled 1900000000000000000 500 2 = Inr 9"
proof -
  have "dec_floor (dec_mul (Dec 5 0) (Dec 19 (- 1))) = 9" by code_simp
  then show ?thesis by (simp add: compute_minimum_quote_unscaled_def sample_amounts sample_price_divisions dec_of_int_def)
qed

definition sample_prices :: kick_prices where
  "sample_prices = \<lparr>kp_amount_out_normalized = Dec 10 0, kp_starting_price_raw = 11, kp_floor_quote_amount_raw = 1000,
     kp_minimum_price_scaled_1e18 = 1900000000000000000, kp_minimum_quote_unscaled = 9\<rparr>"

lemma sample_prepare_prices:
  "prepare_prices sample_spec sample_profile 500 2 2 (sample_quote [1000, 990, 980]) 1000 None = Inr (Inr sample_prices)"
proof -
  have "encode_starting_price_raw 1000 2 (pf_start_price_buffer_bps sample_profile) (spec_encoding sample_spec) = Inr 11"
    "select_floor_quote_amount_raw (sample_quote [1000, 990, 980]) sample_profile = Some 1000"
    "minimum_full_lot_quote_raw 500 2 2 1900000000000000000 = 950" "pf_min_price_buffer_bps sample_profile = 500"
    by code_simp+
  then show ?thesis
    by (simp add: prepare_prices_def sample_amounts sample_minimum sample_minimum_quote or_refuse_value_def stage_def proceed_def
        sample_prices_def)
qed

lemma sample_terminal:
  "check_terminal_ask sample_candidate sample_spec sample_profile sample_selected 2 2 1200 60 sample_prices None = Inr (Inr ())"
proof -
  have "case latent_terminal_full_lot_ask_raw (spec_encoding sample_spec) 11 500 2 2 50 60 1200 of Inl _ \<Rightarrow> False | Inr t \<Rightarrow> t \<le> 1000"
    by code_simp
  then show ?thesis
    by (auto simp: check_terminal_ask_def Let_def sample_prices_def sample_selected_def sample_profile_def or_refuse_value_def
        stage_def proceed_def split: sum.splits)
qed

lemma sample_prepared:
  obtains kick where "prepare_kick sample_env sample_candidate (Some sample_inspection) = Inr (Inr kick)"
    "pk_sell_amount kick = 500" "pk_starting_price_raw kick = 11"
proof -
  have "ss_selected_sell_raw sample_selected = 500" by (simp add: sample_selected_def)
  moreover have "ca_token_address sample_candidate \<noteq> ca_want_address sample_candidate"
    "\<not> candidate_symbol_matches_want sample_candidate" by code_simp+
  ultimately show thesis
    using that [of "prepared_kick_of sample_candidate sample_spec sample_profile sample_selected sample_prices None
      (want_price_text sample_env sample_candidate 2)"]
    by (simp add: prepare_kick_def sample_check sample_tokens sample_prepare_size sample_prepare_quote sample_prepare_prices
        sample_terminal stage_def proceed_def) (simp add: prepared_kick_of_def sample_prices_def)
qed

theorem prepared_kick_brackets_quote_witness:
  "\<exists>kick q amount_out floor_quote. prepare_kick sample_env sample_candidate (Some sample_inspection) = Inr (Inr kick)
    \<and> pe_quote sample_env ''0xt'' ''0xw'' (show_int (pk_sell_amount kick)) = Inr q \<and> qr_amount_out_raw q = Some amount_out
    \<and> 0 < floor_quote \<and> floor_quote \<le> amount_out"
proof -
  obtain kick where kick: "prepare_kick sample_env sample_candidate (Some sample_inspection) = Inr (Inr kick)"
    by (rule sample_prepared)
  have "ca_token_address sample_candidate = ''0xt''" "ca_want_address sample_candidate = ''0xw''" by (simp_all add: sample_candidate_def)
  with prepared_kick_brackets_quote [OF kick] kick show ?thesis by metis
qed

theorem prepared_kick_sellable_witness:
  "\<exists>kick. prepare_kick sample_env sample_candidate (Some sample_inspection) = Inr (Inr kick)
    \<and> pk_sell_amount kick = 500 \<and> pk_sell_amount kick \<le> 1000 \<and> pk_candidate kick = sample_candidate"
proof -
  obtain kick where kick: "prepare_kick sample_env sample_candidate (Some sample_inspection) = Inr (Inr kick)" "pk_sell_amount kick = 500"
    by (rule sample_prepared)
  have "pe_read_balance sample_env (ca_token_address sample_candidate) (ca_source_address sample_candidate) = Inr 1000"
    by (simp add: sample_env_def)
  from prepared_kick_sellable [OF kick(1) this] kick show ?thesis by blast
qed

end
