(* ===== verification/KickPlan.thy ===== *)
theory KickPlan
  imports KickPrepare Settlement Shortlist
begin

text \<open>
  \<open>KickPlanner.plan\<close> of \<open>transaction_service/planner.py\<close> with the intents of
  \<open>transaction_service/kick_tx.py\<close>: from the shortlist over the live inspections, the pending
  resolutions and the last look of the no-fill guard to the transactions of one plan. The call
  encoder, checksums and gas estimation are parameters; the text \<open>_format_execution_error\<close> makes of
  a failed estimate is the estimate's error. The planner mutates one plan; here each stage returns it.
\<close>

section \<open>Intents\<close>

record tx_intent =
  ti_operation :: string
  ti_to :: string
  ti_data :: string
  ti_chain_id :: int
  ti_sender :: "string option"
  ti_value :: string
  ti_gas_estimate :: "int option"
  ti_gas_limit :: "int option"

record prepared_resolve =
  rv_candidate :: kick_candidate
  rv_sell_token :: string
  rv_path :: int
  rv_reason :: string
  rv_balance_raw :: int
  rv_requires_force :: bool
  rv_receiver :: "string option"
  rv_token_symbol :: "string option"
  rv_normalized_balance :: "string option"

text \<open>The arguments of one \<open>kick\<close> call: source, auction, token, amount, want, starting price, minimum price, decay.\<close>

type_synonym kick_args = "string \<times> string \<times> string \<times> int \<times> string \<times> int \<times> int \<times> int"

record tx_builder =
  tb_isaddr :: "string \<Rightarrow> bool"
  tb_checksum :: "string \<Rightarrow> string result"
  tb_encode_kick :: "kick_args \<Rightarrow> string result"
  tb_encode_batch :: "kick_args list \<Rightarrow> string result"
  tb_encode_resolve :: "string \<Rightarrow> string \<Rightarrow> bool \<Rightarrow> string result"
  tb_kicker_address :: string
  tb_chain_id :: int

definition kicker_intent :: "tx_builder \<Rightarrow> string \<Rightarrow> string option \<Rightarrow> string result \<Rightarrow> tx_intent result" where
  "kicker_intent tb operation sender tx_data =
     err_bind (tb_checksum tb (tb_kicker_address tb)) (\<lambda>kicker_address.
     err_bind tx_data (\<lambda>tx_data.
     err_bind (normalize_address (tb_isaddr tb) kicker_address) (\<lambda>to_address.
     Inr \<lparr>ti_operation = operation, ti_to = to_address, ti_data = tx_data, ti_chain_id = tb_chain_id tb, ti_sender = sender,
       ti_value = ''0x0'', ti_gas_estimate = None, ti_gas_limit = None\<rparr>)))"

definition kick_args_of :: "tx_builder \<Rightarrow> prepared_kick \<Rightarrow> kick_args result" where
  "kick_args_of tb kick =
     (let c = pk_candidate kick in
      err_bind (tb_checksum tb (ca_source_address c)) (\<lambda>source.
      err_bind (tb_checksum tb (ca_auction_address c)) (\<lambda>auction.
      err_bind (tb_checksum tb (ca_token_address c)) (\<lambda>token.
      err_bind (tb_checksum tb (ca_want_address c)) (\<lambda>want.
      Inr (source, auction, token, pk_sell_amount kick, want, pk_starting_price_raw kick, pk_minimum_price_scaled_1e18 kick,
        pk_step_decay_rate_bps kick))))))"

definition build_single_kick_intent :: "tx_builder \<Rightarrow> string option \<Rightarrow> prepared_kick \<Rightarrow> tx_intent result" where
  "build_single_kick_intent tb sender kick =
     kicker_intent tb ''kick'' sender (err_bind (kick_args_of tb kick) (tb_encode_kick tb))"

definition build_batch_kick_intent :: "tx_builder \<Rightarrow> string option \<Rightarrow> prepared_kick list \<Rightarrow> tx_intent result" where
  "build_batch_kick_intent tb sender kicks =
     kicker_intent tb ''kick'' sender (err_bind (traverse_err (kick_args_of tb) kicks) (tb_encode_batch tb))"

definition build_resolve_auction_intent :: "tx_builder \<Rightarrow> string option \<Rightarrow> prepared_resolve \<Rightarrow> tx_intent result" where
  "build_resolve_auction_intent tb sender operation =
     kicker_intent tb ''resolve-auction'' sender
       (err_bind (tb_checksum tb (ca_auction_address (rv_candidate operation))) (\<lambda>auction.
        err_bind (tb_checksum tb (rv_sell_token operation)) (\<lambda>token.
        tb_encode_resolve tb auction token (rv_requires_force operation))))"

section \<open>The plan\<close>

record skipped_candidate =
  sk_candidate :: kick_candidate
  sk_reason :: string
  sk_result :: "kick_result option"
  sk_blocked_token_address :: "string option"
  sk_blocked_token_symbol :: "string option"
  sk_blocked_reason :: "string option"
  sk_next_step :: "string option"

definition skipped_because :: "kick_candidate \<Rightarrow> string \<Rightarrow> kick_result option \<Rightarrow> skipped_candidate" where
  "skipped_because candidate reason kick_result =
     \<lparr>sk_candidate = candidate, sk_reason = reason, sk_result = kick_result, sk_blocked_token_address = None,
      sk_blocked_token_symbol = None, sk_blocked_reason = None, sk_next_step = None\<rparr>"

record kick_plan =
  pl_source_type :: "string option"
  pl_source_address :: "string option"
  pl_auction_address :: "string option"
  pl_token_address :: "string option"
  pl_limit :: "int option"
  pl_eligible_count :: nat
  pl_selected_count :: nat
  pl_ready_count :: nat
  pl_ignored_skips :: "json list"
  pl_no_fill_skips :: "json list"
  pl_cooldown_skips :: "json list"
  pl_deferred_same_auction_count :: nat
  pl_limited_count :: nat
  pl_ranked_candidates :: "kick_candidate list"
  pl_kick_operations :: "prepared_kick list"
  pl_resolve_operations :: "prepared_resolve list"
  pl_tx_intents :: "tx_intent list"
  pl_skipped_during_prepare :: "skipped_candidate list"
  pl_warnings :: "string list"

definition plan_status :: "kick_plan \<Rightarrow> string" where
  "plan_status plan = (if pl_tx_intents plan \<noteq> [] then ''ok'' else ''noop'')"

definition plan_skip :: "skipped_candidate list \<Rightarrow> kick_plan \<Rightarrow> kick_plan" where
  "plan_skip skipped plan = plan\<lparr>pl_skipped_during_prepare := pl_skipped_during_prepare plan @ skipped\<rparr>"

definition plan_warn :: "string list \<Rightarrow> kick_plan \<Rightarrow> kick_plan" where
  "plan_warn warnings plan = plan\<lparr>pl_warnings := pl_warnings plan @ warnings\<rparr>"

definition plan_resolve :: "prepared_resolve \<Rightarrow> tx_intent \<Rightarrow> kick_plan \<Rightarrow> kick_plan" where
  "plan_resolve operation intent plan = plan\<lparr>pl_resolve_operations := pl_resolve_operations plan @ [operation],
     pl_tx_intents := pl_tx_intents plan @ [intent]\<rparr>"

definition plan_kicks :: "prepared_kick list \<Rightarrow> tx_intent list \<Rightarrow> kick_plan \<Rightarrow> kick_plan" where
  "plan_kicks kicks intents plan = plan\<lparr>pl_kick_operations := pl_kick_operations plan @ kicks,
     pl_tx_intents := pl_tx_intents plan @ intents\<rparr>"

text \<open>Where the code adds the kicks to the count; \<open>count_resolves\<close> where it does not.\<close>

definition count_ready :: "kick_plan \<Rightarrow> kick_plan" where
  "count_ready plan = plan\<lparr>pl_ready_count := length (pl_resolve_operations plan) + length (pl_kick_operations plan)\<rparr>"

definition count_resolves :: "kick_plan \<Rightarrow> kick_plan" where
  "count_resolves plan = plan\<lparr>pl_ready_count := length (pl_resolve_operations plan)\<rparr>"

definition skip_payload :: "kick_decision \<Rightarrow> (string \<times> json) list" where
  "skip_payload decision =
     (let c = de_candidate decision in
      [(''sourceAddress'', JStr (ca_source_address c)), (''auctionAddress'', JStr (ca_auction_address c)),
       (''tokenAddress'', JStr (ca_token_address c)), (''tokenSymbol'', column_json (ca_token_symbol c)),
       (''detail'', column_json (de_detail decision))])"

definition ignore_skip_payloads :: "shortlist_result \<Rightarrow> json list" where
  "ignore_skip_payloads shortlist = map (JObj \<circ> skip_payload) (sl_ignored_skips shortlist)"

definition cooldown_skip_payloads :: "shortlist_result \<Rightarrow> json list" where
  "cooldown_skip_payloads shortlist = map (JObj \<circ> skip_payload) (sl_cooldown_skips shortlist)"

definition no_fill_skip_payloads :: "shortlist_result \<Rightarrow> json list" where
  "no_fill_skip_payloads shortlist =
     map (\<lambda>d. JObj (skip_payload d @ (case de_policy_data d of Some (JObj entries) \<Rightarrow> entries | _ \<Rightarrow> []))) (sl_no_fill_skips shortlist)"

definition prepared_estimate_failure :: "string \<Rightarrow> prepared_kick \<Rightarrow> skipped_candidate" where
  "prepared_estimate_failure reason kick =
     skipped_because (pk_candidate kick) reason (Some ((kick_result_of ESTIMATE_FAILED reason)\<lparr>
       kr_sell_amount := Some (pk_sell_amount_str kick), kr_starting_price := Some (pk_starting_price_raw_str kick),
       kr_minimum_price := Some (pk_minimum_price_scaled_1e18_str kick),
       kr_minimum_quote := Some (pk_minimum_quote_unscaled_str kick), kr_live_balance_raw := Some (pk_live_balance_raw kick),
       kr_usd_value := Some (pk_usd_value_str kick), kr_quote_response_json := pk_quote_response_json kick\<rparr>))"

section \<open>Gas estimates\<close>

text \<open>\<open>f"{n:,}"\<close>.\<close>

fun group_thousands :: "string \<Rightarrow> string" where
  "group_thousands (a # b # c # d # rest) = a # b # c # CHR '','' # group_thousands (d # rest)"
| "group_thousands digits = digits"

definition show_int_commas :: "int \<Rightarrow> string" where
  "show_int_commas n = (if n < 0 then ''-'' else []) @ rev (group_thousands (rev (show_nat (nat \<bar>n\<bar>))))"

definition gas_cap_warning :: "int option \<Rightarrow> int \<Rightarrow> string option" where
  "gas_cap_warning gas_estimate gas_cap =
     (case gas_estimate of None \<Rightarrow> None
      | Some g \<Rightarrow> if g \<le> gas_cap then None
          else Some (''Gas estimate '' @ show_int_commas g @ '' exceeds txn_max_gas_limit '' @ show_int_commas gas_cap))"

text \<open>\<open>int(gas_estimate * 1.2)\<close>, the product of doubles.\<close>

definition gas_with_buffer :: "int \<Rightarrow> int" where
  "gas_with_buffer gas_estimate =
     (let product = float_mul (double_round (of_int gas_estimate)) (double_round (12 / 10))
      in if product < 0 then \<lceil>product\<rceil> else \<lfloor>product\<rfloor>)"

datatype estimator =
    Estimate_Fn "string option \<Rightarrow> string \<Rightarrow> string \<Rightarrow> int \<Rightarrow> (int option \<times> int option \<times> string option) result"
  | Estimate_Node "(tx_intent \<Rightarrow> string + int) option"

definition estimate_intent :: "estimator \<Rightarrow> int \<Rightarrow> tx_intent \<Rightarrow> (tx_intent \<times> string option) result" where
  "estimate_intent estimator gas_cap intent =
     (case estimator of
        Estimate_Fn f \<Rightarrow>
          err_bind (f (ti_sender intent) (ti_to intent) (ti_data intent) gas_cap) (\<lambda>(gas_estimate, gas_limit, gas_warning).
          Inr (intent\<lparr>ti_gas_estimate := gas_estimate, ti_gas_limit := gas_limit\<rparr>,
            (if gas_warning \<noteq> None \<and> gas_warning \<noteq> Some [] then gas_warning else gas_cap_warning gas_estimate gas_cap)))
      | Estimate_Node node \<Rightarrow>
          if ti_sender intent = None then Inr (intent, Some ''No sender provided for gas estimation.'')
          else (case node of
              None \<Rightarrow> Inr (intent, Some ''No web3 client provided for gas estimation.'')
            | Some estimate_gas \<Rightarrow> (case estimate_gas intent of
                Inl text \<Rightarrow> Inr (intent, Some (''Gas estimate failed: '' @ text))
              | Inr g \<Rightarrow> Inr (intent\<lparr>ti_gas_estimate := Some g, ti_gas_limit := Some (min (gas_with_buffer g) gas_cap)\<rparr>,
                  gas_cap_warning (Some g) gas_cap))))"

section \<open>The stages of the plan\<close>

record plan_env =
  ple_prepare :: prepare_env
  ple_tx_builder :: tx_builder
  ple_estimator :: estimator
  ple_estimate_transactions :: bool
  ple_sender :: "string option"
  ple_max_gas_limit :: int
  ple_tables :: scan_tables
  ple_guard_statuses :: "(string list \<Rightarrow> (string \<times> int option) list result) option"
  ple_inspect_settlements :: "address list \<Rightarrow> (address \<times> settlement_inspection) list result"
  ple_kicks :: "kick_tx list"
  ple_retry_delays_minutes :: "int list"
  ple_ignore_policy :: ignore_policy
  ple_cooldown_policy :: cooldown_policy
  ple_usd_threshold :: rat
  ple_data_freshness_limit_seconds :: int
  ple_now :: instant
  ple_guard_now :: "kick_candidate \<Rightarrow> instant"
  ple_batch :: bool
  ple_allow_killed_gauge :: bool
  ple_allow_no_fill_retry :: bool

abbreviation ple_isaddr :: "plan_env \<Rightarrow> string \<Rightarrow> bool" where
  "ple_isaddr env \<equiv> pe_isaddr (ple_prepare env)"

text \<open>\<open>_filter_kick_guard_disabled_candidates\<close>: strategies whose gauge is killed are skipped.\<close>

definition killed :: "(string \<times> int option) list \<Rightarrow> kick_candidate \<Rightarrow> bool" where
  "killed statuses c \<longleftrightarrow> ca_source_type c = ''strategy'' \<and> map_of statuses (ca_source_address c) = Some (Some 1)"

definition filter_kick_guard :: "plan_env \<Rightarrow> kick_candidate list \<Rightarrow> kick_plan \<Rightarrow> (kick_candidate list \<times> kick_plan) result" where
  "filter_kick_guard env candidates plan =
     (case ple_guard_statuses env of None \<Rightarrow> Inr (candidates, plan)
      | Some get_many \<Rightarrow>
          let strategies = map ca_source_address (filter (\<lambda>c. ca_source_type c = ''strategy'') candidates) in
          if strategies = [] then Inr (candidates, plan)
          else err_bind (get_many strategies) (\<lambda>statuses.
            Inr (filter (\<lambda>c. \<not> killed statuses c) candidates,
              plan_skip (map (\<lambda>c. skipped_because c ''strategy gauge is killed'' None) (filter (killed statuses) candidates)) plan)))"

text \<open>The reason a candidate fails the version check, none when it passes.\<close>

definition version_refusal :: "plan_env \<Rightarrow> inspections \<Rightarrow> kick_candidate \<Rightarrow> string option result" where
  "version_refusal env inspections c =
     err_bind (kick_key (ple_isaddr env) c) (\<lambda>key.
     Inr (case map_of inspections key of
         None \<Rightarrow> Some ''auction compatibility inspection missing''
       | Some i \<Rightarrow> (case ai_compatibility_error i of
           Some e \<Rightarrow> Some (''auction compatibility check failed: '' @ e)
         | None \<Rightarrow> if ca_auction_version c \<noteq> ai_auction_version i
             then Some (version_mismatch (ca_auction_version c) (ai_auction_version i)) else None)))"

definition version_step ::
  "plan_env \<Rightarrow> inspections \<Rightarrow> kick_candidate \<Rightarrow> kick_candidate list \<times> kick_plan \<Rightarrow> (kick_candidate list \<times> kick_plan) result" where
  "version_step env inspections c = (\<lambda>(safe, plan).
     err_bind (version_refusal env inspections c) (\<lambda>refusal.
     Inr (case refusal of None \<Rightarrow> (safe @ [c], plan)
       | Some reason \<Rightarrow> (safe, plan_skip [skipped_because c reason (Some (kick_result_of ERROR reason))] plan))))"

definition group_by_auction ::
  "(string \<Rightarrow> bool) \<Rightarrow> kick_candidate list \<Rightarrow> (address \<times> kick_candidate list) list result" where
  "group_by_auction isaddr candidates =
     fold_err (\<lambda>c groups. err_bind (kick_key isaddr c) (\<lambda>key. Inr (dict_append (fst key) c groups))) candidates []"

definition operator_settle_command :: "tx_builder \<Rightarrow> string \<Rightarrow> string option \<Rightarrow> bool \<Rightarrow> string result" where
  "operator_settle_command tb auction token force =
     err_bind (tb_checksum tb auction) (\<lambda>auction.
     err_bind (case token of None \<Rightarrow> Inr [] | Some t \<Rightarrow> err_bind (tb_checksum tb t) (\<lambda>t. Inr ('' --token '' @ t))) (\<lambda>suffix.
     Inr (''tidal auction settle '' @ auction @ suffix @ (if force then '' --force'' else []))))"

definition operator_sweep_command :: "tx_builder \<Rightarrow> string \<Rightarrow> string \<Rightarrow> string result" where
  "operator_sweep_command tb auction token =
     err_bind (tb_checksum tb auction) (\<lambda>auction. err_bind (tb_checksum tb token) (\<lambda>token.
     Inr (''tidal auction sweep '' @ auction @ '' --token '' @ token)))"

definition lookup_token_symbol :: "token_row list \<Rightarrow> string \<Rightarrow> string option \<Rightarrow> string option" where
  "lookup_token_symbol tokens token_address fallback =
     (case Option.bind (row_with to_address token_address tokens) to_symbol of
        Some symbol \<Rightarrow> if symbol = [] then fallback else Some symbol | None \<Rightarrow> fallback)"

definition needs_manual_sweep :: "lot_preview \<Rightarrow> string option \<Rightarrow> bool" where
  "needs_manual_sweep preview gas_warning \<longleftrightarrow>
     lp_path preview = Some PATH_SWEEP_AND_RESET \<and> (case gas_warning of None \<Rightarrow> False | Some w \<Rightarrow> str_contains ''Amount is zero.'' w)"

definition anchor_symbol :: "plan_env \<Rightarrow> kick_candidate \<Rightarrow> lot_preview \<Rightarrow> string option" where
  "anchor_symbol env anchor preview =
     lookup_token_symbol (st_tokens (ple_tables env)) (lp_token_address preview)
       (if lp_token_address preview = ca_token_address anchor then ca_token_symbol anchor else None)"

definition zero_if_none :: "int option \<Rightarrow> int" where
  "zero_if_none v = (case v of None \<Rightarrow> 0 | Some i \<Rightarrow> i)"

definition resolve_operation :: "plan_env \<Rightarrow> kick_candidate \<Rightarrow> lot_preview \<Rightarrow> prepared_resolve result" where
  "resolve_operation env anchor preview =
     err_bind (if lp_balance_raw preview \<noteq> None \<and> lp_token_address preview = ca_token_address anchor
         then err_bind (to_decimal_string (zero_if_none (lp_balance_raw preview)) (ca_decimals anchor)) (\<lambda>t. Inr (Some t))
         else Inr None) (\<lambda>normalized_balance.
     Inr \<lparr>rv_candidate = anchor, rv_sell_token = lp_token_address preview, rv_path = zero_if_none (lp_path preview),
       rv_reason = path_reason (zero_if_none (lp_path preview)), rv_balance_raw = zero_if_none (lp_balance_raw preview),
       rv_requires_force = (lp_requires_force preview = Some True), rv_receiver = lp_receiver preview,
       rv_token_symbol = anchor_symbol env anchor preview, rv_normalized_balance = normalized_balance\<rparr>)"

text \<open>One actionable preview: the plan, the tokens resolved so far and the preview that needs a manual sweep.\<close>

type_synonym resolve_state = "kick_plan \<times> (address \<times> address) set \<times> lot_preview option"

definition resolve_preview ::
  "plan_env \<Rightarrow> address \<Rightarrow> kick_candidate \<Rightarrow> lot_preview \<Rightarrow> resolve_state \<Rightarrow> resolve_state result" where
  "resolve_preview env auction anchor preview = (\<lambda>(plan, resolved, manual).
     let token_key = (auction, lp_token_address preview) in
     if token_key \<in> resolved then Inr (plan, resolved, manual)
     else
       let resolved = insert token_key resolved in
       err_bind (resolve_operation env anchor preview) (\<lambda>operation.
       err_bind (build_resolve_auction_intent (ple_tx_builder env) (ple_sender env) operation) (\<lambda>intent.
       if \<not> ple_estimate_transactions env then Inr (plan_resolve operation intent plan, resolved, manual)
       else err_bind (estimate_intent (ple_estimator env) (ple_max_gas_limit env) intent) (\<lambda>(intent, gas_warning).
         case gas_warning of
           None \<Rightarrow> Inr (plan_resolve operation intent plan, resolved, manual)
         | Some warning \<Rightarrow>
             let plan = plan_warn [warning] plan in
             if needs_manual_sweep preview gas_warning then
               err_bind (case rv_token_symbol operation of
                   Some s \<Rightarrow> if s = [] then tb_checksum (ple_tx_builder env) (lp_token_address preview) else Inr s
                 | None \<Rightarrow> tb_checksum (ple_tx_builder env) (lp_token_address preview)) (\<lambda>token.
               let hint = ''Resolve failed for '' @ token @ ''. This token may require a manual sweep.''
               in Inr (if hint \<in> set (pl_warnings plan) then plan else plan_warn [hint] plan, resolved, Some preview))
             else Inr (plan, resolved, manual)))))"

definition blocked_candidate ::
  "string \<Rightarrow> string \<Rightarrow> string option \<Rightarrow> string \<Rightarrow> string option \<Rightarrow> kick_candidate \<Rightarrow> skipped_candidate" where
  "blocked_candidate reason token symbol blocked_reason next_step c =
     (skipped_because c reason None)\<lparr>sk_blocked_token_address := Some token, sk_blocked_token_symbol := symbol,
       sk_blocked_reason := Some blocked_reason, sk_next_step := next_step\<rparr>"

definition block_for_settlement ::
  "plan_env \<Rightarrow> address \<Rightarrow> kick_candidate list \<Rightarrow> lot_preview list \<Rightarrow> lot_preview option \<Rightarrow> skipped_candidate list result" where
  "block_for_settlement env auction grp previews manual =
     (let blocker = (case manual of Some p \<Rightarrow> p | None \<Rightarrow> hd previews);
          token = lp_token_address blocker; tb = ple_tx_builder env;
          symbol = anchor_symbol env (hd grp) blocker;
          blocker_reason = path_reason (zero_if_none (lp_path blocker)) in
      err_bind (if manual \<noteq> None then operator_sweep_command tb auction token
          else if length previews = 1 then operator_settle_command tb auction (Some token) False
          else operator_settle_command tb auction None False) (\<lambda>next_step.
      Inr (map (blocked_candidate (if manual \<noteq> None then ''auction requires manual sweep before kick''
        else ''auction requires settlement before kick'') token symbol blocker_reason (Some next_step)) grp)))"

definition block_for_live_lot ::
  "plan_env \<Rightarrow> address \<Rightarrow> kick_candidate list \<Rightarrow> lot_preview list \<Rightarrow> skipped_candidate list result" where
  "block_for_live_lot env auction grp live =
     (let token = lp_token_address (hd live); symbol = anchor_symbol env (hd grp) (hd live);
          live_reason = path_reason (zero_if_none (lp_path (hd live))) in
      err_bind (if length live = 1
          then err_bind (operator_settle_command (ple_tx_builder env) auction (Some token) True) (\<lambda>c. Inr (Some c))
          else Inr None) (\<lambda>next_step.
      Inr (map (blocked_candidate ''auction still active with live sell balance'' token symbol live_reason next_step) grp)))"

text \<open>One auction: its candidates are skipped while anything on it is left to resolve.\<close>

type_synonym auction_state = "kick_plan \<times> (address \<times> address) set \<times> kick_candidate list"

definition resolve_auction ::
  "plan_env \<Rightarrow> (address \<times> settlement_inspection) list \<Rightarrow> address \<times> kick_candidate list \<Rightarrow> auction_state \<Rightarrow> auction_state result" where
  "resolve_auction env inspections = (\<lambda>(auction, grp) (plan, resolved, clean).
     err_bind (dict_get inspections auction) (\<lambda>inspection.
     if preview_failures inspection \<noteq> []
     then Inr (plan_skip (map (\<lambda>c. skipped_because c ''auction resolution preview failed'' None) grp) plan, resolved, clean)
     else
       let actionable = default_actionable_previews inspection in
       if actionable \<noteq> [] then
         err_bind (fold_err (resolve_preview env auction (hd grp)) actionable (plan, resolved, None)) (\<lambda>(plan, resolved, manual).
         err_bind (block_for_settlement env auction grp actionable manual) (\<lambda>skipped.
         Inr (plan_skip skipped plan, resolved, clean)))
       else
         let live = live_funded_previews inspection in
         if live \<noteq> [] then
           err_bind (block_for_live_lot env auction grp live) (\<lambda>skipped. Inr (plan_skip skipped plan, resolved, clean))
         else Inr (plan, resolved, clean @ grp)))"

section \<open>The kicks\<close>

text \<open>The guard looks at every candidate once more; then the kick is prepared.\<close>

definition prepare_step ::
  "plan_env \<Rightarrow> inspections \<Rightarrow> kick_candidate \<Rightarrow> prepared_kick list \<times> kick_plan \<Rightarrow> (prepared_kick list \<times> kick_plan) result" where
  "prepare_step env inspections c = (\<lambda>(prepared, plan).
     err_bind (guard_decision_of (ple_isaddr env) (ple_guard_now env c) (ple_retry_delays_minutes env, ple_kicks env)
         (ple_allow_no_fill_retry env) c) (\<lambda>final_guard.
     if nf_action final_guard \<noteq> ALLOW then
       let reason = no_fill_reason_value (nf_reason_code final_guard) @
         (case nf_retry_at final_guard of None \<Rightarrow> [] | Some t \<Rightarrow> '' | retry at '' @ isoformat_utc t)
       in Inr (prepared, plan_skip [skipped_because c reason None] plan)
     else
       err_bind (kick_key (ple_isaddr env) c) (\<lambda>key.
       err_bind (prepare_kick (ple_prepare env) c (map_of inspections key)) (\<lambda>outcome.
       case outcome of
         Inl kick_result \<Rightarrow>
           let reason = (case kr_error_message kick_result of
               None \<Rightarrow> ''candidate was skipped during prepare''
             | Some m \<Rightarrow> if m = [] then ''candidate was skipped during prepare'' else m)
           in Inr (prepared, plan_skip [skipped_because c reason (Some kick_result)] plan)
       | Inr kick \<Rightarrow> Inr (prepared @ [kick], plan)))))"

definition prepare_single_kick_intent :: "plan_env \<Rightarrow> prepared_kick \<Rightarrow> ((prepared_kick \<times> tx_intent) option \<times> string option) result" where
  "prepare_single_kick_intent env kick =
     err_bind (build_single_kick_intent (ple_tx_builder env) (ple_sender env) kick) (\<lambda>intent.
     if \<not> ple_estimate_transactions env then Inr (Some (kick, intent), None)
     else err_bind (estimate_intent (ple_estimator env) (ple_max_gas_limit env) intent) (\<lambda>(intent, gas_warning).
       Inr (if gas_warning = None then (Some (kick, intent), None) else (None, gas_warning))))"

text \<open>The kicks one by one: those that go through with their intents, and those that fail with their warnings.\<close>

type_synonym single_results = "(prepared_kick \<times> tx_intent) list \<times> (prepared_kick \<times> string) list"

definition single_step :: "plan_env \<Rightarrow> prepared_kick \<Rightarrow> single_results \<Rightarrow> single_results result" where
  "single_step env kick = (\<lambda>(good, bad).
     err_bind (prepare_single_kick_intent env kick) (\<lambda>(recovered, warning).
     case warning of
       Some w \<Rightarrow> Inr (good, bad @ [(kick, w)])
     | None \<Rightarrow> (case recovered of None \<Rightarrow> Inl AssertionError | Some r \<Rightarrow> Inr (good @ [r], bad))))"

definition plan_single_results :: "single_results \<Rightarrow> kick_plan \<Rightarrow> kick_plan" where
  "plan_single_results = (\<lambda>(good, bad) plan.
     plan_skip (map (\<lambda>(kick, w). prepared_estimate_failure w kick) bad)
       (plan_warn (map snd bad) (plan_kicks (map fst good) (map snd good) plan)))"

definition fail_all :: "prepared_kick list \<Rightarrow> string \<Rightarrow> kick_plan \<Rightarrow> kick_plan" where
  "fail_all kicks warning plan =
     count_resolves (plan_skip (map (prepared_estimate_failure warning) kicks) (plan_warn [warning] plan))"

definition plan_batch :: "plan_env \<Rightarrow> prepared_kick list \<Rightarrow> kick_plan \<Rightarrow> kick_plan result" where
  "plan_batch env kicks plan =
     err_bind (build_batch_kick_intent (ple_tx_builder env) (ple_sender env) kicks) (\<lambda>intent.
     if \<not> ple_estimate_transactions env then Inr (count_ready (plan_kicks kicks [intent] plan))
     else err_bind (estimate_intent (ple_estimator env) (ple_max_gas_limit env * max (int (length kicks)) 1) intent) (\<lambda>(intent, warning).
       case warning of
         None \<Rightarrow> Inr (count_ready (plan_kicks kicks [intent] plan))
       | Some w \<Rightarrow>
           if \<not> is_active_auction_error warning then Inr (fail_all kicks w plan)
           else err_bind (fold_err (single_step env) kicks ([], [])) (\<lambda>(good, bad).
             if good = [] then Inr (fail_all kicks w plan)
             else Inr (count_ready (plan_single_results (good, bad) plan)))))"

definition plan_transactions :: "plan_env \<Rightarrow> prepared_kick list \<Rightarrow> kick_plan \<Rightarrow> kick_plan result" where
  "plan_transactions env kicks plan =
     (if kicks = [] then Inr (count_resolves plan)
      else if \<not> ple_batch env then
        err_bind (fold_err (single_step env) kicks ([], [])) (\<lambda>results. Inr (count_ready (plan_single_results results plan)))
      else if length kicks = 1 then
        err_bind (fold_err (single_step env) kicks ([], [])) (\<lambda>results.
          Inr (if snd results \<noteq> [] then count_resolves (plan_single_results results plan)
               else count_ready (plan_single_results results plan)))
      else plan_batch env kicks plan)"

section \<open>The whole plan\<close>

definition initial_plan :: "shortlist_request \<Rightarrow> shortlist_result \<Rightarrow> kick_candidate list \<Rightarrow> kick_plan" where
  "initial_plan rq shortlist ranked =
     \<lparr>pl_source_type = rq_source_type rq, pl_source_address = rq_source_address rq, pl_auction_address = rq_auction_address rq,
      pl_token_address = rq_token_address rq, pl_limit = rq_limit rq, pl_eligible_count = length (sl_eligible shortlist),
      pl_selected_count = length (sl_selected shortlist) + length (sl_limited shortlist),
      pl_ready_count = length (sl_selected shortlist), pl_ignored_skips = ignore_skip_payloads shortlist,
      pl_no_fill_skips = no_fill_skip_payloads shortlist, pl_cooldown_skips = cooldown_skip_payloads shortlist,
      pl_deferred_same_auction_count = sl_deferred_same_auction_count shortlist,
      pl_limited_count = length (sl_limited shortlist), pl_ranked_candidates = ranked, pl_kick_operations = [],
      pl_resolve_operations = [], pl_tx_intents = [], pl_skipped_during_prepare = [], pl_warnings = []\<rparr>"

text \<open>The request of a plan: the caller's scope with the policies of the settings.\<close>

definition plan_request ::
  "plan_env \<Rightarrow> string option \<Rightarrow> string option \<Rightarrow> string option \<Rightarrow> string option \<Rightarrow> int option \<Rightarrow> shortlist_request" where
  "plan_request env source_type source_address auction_address token_address limit =
     \<lparr>rq_usd_threshold = ple_usd_threshold env, rq_max_data_age_seconds = ple_data_freshness_limit_seconds env,
      rq_source_type = source_type, rq_source_address = source_address, rq_auction_address = auction_address,
      rq_token_address = token_address, rq_limit = limit, rq_ignore_policy = Some (ple_ignore_policy env),
      rq_cooldown_policy = Some (ple_cooldown_policy env), rq_kick_tx_repository = Some (ple_kicks env),
      rq_no_fill_guard = Some (ple_retry_delays_minutes env, ple_kicks env),
      rq_allow_exhausted_retry = ple_allow_no_fill_retry env\<rparr>"

definition plan_resolutions ::
  "plan_env \<Rightarrow> kick_candidate list \<Rightarrow> kick_plan \<Rightarrow> (kick_candidate list \<times> kick_plan) result" where
  "plan_resolutions env candidates plan =
     err_bind (group_by_auction (ple_isaddr env) candidates) (\<lambda>groups.
     err_bind (ple_inspect_settlements env (sort (map fst groups))) (\<lambda>inspections.
     err_bind (fold_err (resolve_auction env inspections) groups (plan, {}, [])) (\<lambda>(plan, _, clean). Inr (clean, plan))))"

definition plan_candidates :: "plan_env \<Rightarrow> kick_candidate list \<Rightarrow> kick_plan \<Rightarrow> kick_plan result" where
  "plan_candidates env candidates plan =
     err_bind (inspect_candidates (ple_prepare env) candidates) (\<lambda>kick_inspections.
     err_bind (fold_err (version_step env kick_inspections) candidates ([], plan)) (\<lambda>(candidates, plan).
     if candidates = [] then Inr (count_ready plan)
     else
       err_bind (plan_resolutions env candidates plan) (\<lambda>(clean, plan).
       err_bind (fold_err (prepare_step env kick_inspections) clean ([], plan)) (\<lambda>(kicks, plan).
       plan_transactions env kicks plan))))"

definition kick_plan_of :: "plan_env \<Rightarrow> shortlist_request \<Rightarrow> kick_plan result" where
  "kick_plan_of env rq =
     err_bind (build_shortlist (ple_isaddr env) (ple_now env) (ple_tables env) rq) (\<lambda>shortlist.
     let ranked = sort_candidates (sl_selected shortlist); plan = initial_plan rq shortlist ranked in
     if ranked = [] then Inr plan
     else if ple_allow_killed_gauge env then plan_candidates env ranked plan
     else err_bind (filter_kick_guard env ranked plan) (\<lambda>(candidates, plan).
       if candidates = [] then Inr (count_ready plan) else plan_candidates env candidates plan))"

end
