(* ===== verification/PlanAccounting.thy ===== *)
theory PlanAccounting
  imports KickPlan
begin

text \<open>
  What a plan of \<open>KickPlan\<close> guarantees: it accounts for every ranked candidate, its transactions are
  the resolutions followed by the kicks and its ready count is their operations, and a kick is only
  planned on an auction with nothing left to resolve, after the guard allowed it once more.
\<close>

section \<open>Accounting through the loops\<close>

text \<open>A loop that books every element once adds up what it books.\<close>

lemma fold_err_books:
  fixes \<phi> :: "'s \<Rightarrow> 'm::comm_monoid_add"
  assumes "fold_err f xs s = Inr t" "\<And>x s t. x \<in> set xs \<Longrightarrow> f x s = Inr t \<Longrightarrow> \<phi> t = \<phi> s + \<psi> x"
  shows "\<phi> t = \<phi> s + sum_list (map \<psi> xs)"
  using assms
proof (induction xs arbitrary: s)
  case (Cons x xs)
  from Cons.prems(1) obtain u where u: "f x s = Inr u" "fold_err f xs u = Inr t" by (auto simp: err_simps)
  have "\<phi> t = \<phi> u + sum_list (map \<psi> xs)" using Cons.IH [OF u(2)] Cons.prems(2) by simp
  then show ?case using Cons.prems(2) [OF _ u(1)] by (simp add: add.assoc)
qed simp

lemma sum_list_singletons [simp]: "sum_list (map (\<lambda>x. {#f x#}) xs) = mset (map f xs)"
  by (induction xs) simp_all

text \<open>The candidates a plan has disposed of.\<close>

definition booked :: "kick_plan \<Rightarrow> kick_candidate multiset" where
  "booked plan = mset (map pk_candidate (pl_kick_operations plan)) + mset (map sk_candidate (pl_skipped_during_prepare plan))"

lemma skipped_because_candidate [simp]: "sk_candidate (skipped_because c reason r) = c"
  by (simp add: skipped_because_def)

lemma blocked_candidate_candidate [simp]: "sk_candidate (blocked_candidate a b c d e x) = x"
  by (simp add: blocked_candidate_def)

lemma estimate_failure_candidate [simp]: "sk_candidate (prepared_estimate_failure w kick) = pk_candidate kick"
  by (simp add: prepared_estimate_failure_def)

lemma booked_simps [simp]:
  "booked (plan_skip skipped plan) = booked plan + mset (map sk_candidate skipped)"
  "booked (plan_warn ws plan) = booked plan"
  "booked (plan_resolve operation intent plan) = booked plan"
  "booked (plan_kicks kicks intents plan) = booked plan + mset (map pk_candidate kicks)"
  "booked (count_ready plan) = booked plan" "booked (count_resolves plan) = booked plan"
  by (simp_all add: booked_def plan_skip_def plan_warn_def plan_resolve_def plan_kicks_def count_ready_def count_resolves_def)

lemma version_step_books:
  "version_step env inspections c (safe, plan) = Inr (safe', plan') \<Longrightarrow> mset safe' + booked plan' = mset safe + booked plan + {#c#}"
  by (auto simp: version_step_def err_simps split: option.splits)

lemma resolve_preview_booked:
  "resolve_preview env auction anchor preview (plan, resolved, manual) = Inr (plan', resolved', manual') \<Longrightarrow> booked plan' = booked plan"
  by (auto simp: resolve_preview_def Let_def err_simps split: if_splits option.splits prod.splits)

lemma block_for_settlement_candidates:
  "block_for_settlement env auction grp previews manual = Inr skipped \<Longrightarrow> map sk_candidate skipped = grp"
  by (auto simp: block_for_settlement_def Let_def err_simps comp_def split: if_splits)

lemma block_for_live_lot_candidates:
  "block_for_live_lot env auction grp live = Inr skipped \<Longrightarrow> map sk_candidate skipped = grp"
  by (auto simp: block_for_live_lot_def Let_def err_simps comp_def split: if_splits)

text \<open>The four ways one auction can go.\<close>

lemma resolve_auction_cases:
  assumes "resolve_auction env inspections (auction, grp) (plan, resolved, clean) = Inr (plan', resolved', clean')"
  obtains inspection where "dict_get inspections auction = Inr inspection"
    "clean' = clean @ grp" "plan' = plan" "resolved' = resolved"
    "preview_failures inspection = []" "default_actionable_previews inspection = []" "live_funded_previews inspection = []"
  | skipped "plan1" manual where "clean' = clean" "map sk_candidate skipped = grp" "plan' = plan_skip skipped plan1"
      "plan1 = plan \<and> resolved' = resolved \<or> (\<exists>previews. fold_err (resolve_preview env auction (hd grp)) previews (plan, resolved, None) = Inr (plan1, resolved', manual))"
proof -
  obtain inspection where i: "dict_get inspections auction = Inr inspection"
    using assms by (auto simp: resolve_auction_def err_simps)
  show thesis
  proof (cases "preview_failures inspection = []")
    case False
    then show thesis
      using assms i that(2) [of "map (\<lambda>c. skipped_because c ''auction resolution preview failed'' None) grp" plan]
      by (auto simp: resolve_auction_def comp_def)
  next
    case ok: True
    show thesis
    proof (cases "default_actionable_previews inspection = []")
      case False
      then obtain plan1 manual skipped where
        "fold_err (resolve_preview env auction (hd grp)) (default_actionable_previews inspection) (plan, resolved, None)
          = Inr (plan1, resolved', manual)"
        "block_for_settlement env auction grp (default_actionable_previews inspection) manual = Inr skipped"
        "plan' = plan_skip skipped plan1" "clean' = clean"
        using assms i ok by (auto simp: resolve_auction_def Let_def err_simps)
      then show thesis using that(2) block_for_settlement_candidates by blast
    next
      case none: True
      show thesis
      proof (cases "live_funded_previews inspection = []")
        case False
        then obtain skipped where "block_for_live_lot env auction grp (live_funded_previews inspection) = Inr skipped"
          "plan' = plan_skip skipped plan" "clean' = clean" "resolved' = resolved"
          using assms i ok none by (auto simp: resolve_auction_def Let_def err_simps)
        then show thesis using that(2) block_for_live_lot_candidates by blast
      next
        case True
        with assms i ok none that(1) [OF i] show thesis by (auto simp: resolve_auction_def Let_def)
      qed
    qed
  qed
qed

lemma resolve_previews_booked:
  assumes "fold_err (resolve_preview env auction anchor) previews (plan, resolved, manual) = Inr (plan', resolved', manual')"
  shows "booked plan' = booked plan"
  using fold_err_invariant [OF assms, of "\<lambda>s. booked (fst s) = booked plan"] resolve_preview_booked by force

lemma resolve_auction_books:
  assumes "resolve_auction env inspections (auction, grp) (plan, resolved, clean) = Inr (plan', resolved', clean')"
  shows "mset clean' + booked plan' = mset clean + booked plan + mset grp"
  using assms by (cases rule: resolve_auction_cases) (auto dest: resolve_previews_booked)

lemma prepare_kick_candidate: "prepare_kick env c inspection = Inr (Inr kick) \<Longrightarrow> pk_candidate kick = c"
  by (auto simp: prepare_kick_def err_bind_Inr_iff prepared_kick_of_def split: if_splits)

text \<open>A prepared kick passed the last look of the guard and the whole preparation; otherwise the candidate is skipped.\<close>

lemma prepare_step_cases:
  assumes "prepare_step env inspections c (prepared, plan) = Inr (prepared', plan')"
  obtains (skipped) reason r where "prepared' = prepared" "plan' = plan_skip [skipped_because c reason r] plan"
  | (kick) guard key kick where "prepared' = prepared @ [kick]" "plan' = plan"
      "guard_decision_of (ple_isaddr env) (ple_guard_now env c) (ple_retry_delays_minutes env, ple_kicks env)
        (ple_allow_no_fill_retry env) c = Inr guard" "nf_action guard = ALLOW" "kick_key (ple_isaddr env) c = Inr key"
      "prepare_kick (ple_prepare env) c (map_of inspections key) = Inr (Inr kick)"
proof -
  obtain guard where g: "guard_decision_of (ple_isaddr env) (ple_guard_now env c) (ple_retry_delays_minutes env, ple_kicks env)
      (ple_allow_no_fill_retry env) c = Inr guard"
    using assms by (auto simp: prepare_step_def err_simps)
  show thesis
  proof (cases "nf_action guard = ALLOW")
    case False
    then show thesis using assms g skipped by (auto simp: prepare_step_def Let_def)
  next
    case True
    then obtain key outcome where k: "kick_key (ple_isaddr env) c = Inr key"
      "prepare_kick (ple_prepare env) c (map_of inspections key) = Inr outcome"
      using assms g by (auto simp: prepare_step_def err_simps)
    show thesis
    proof (cases outcome)
      case (Inl r)
      then show thesis using assms g True k skipped by (auto simp: prepare_step_def Let_def)
    next
      case (Inr pk)
      then show thesis using assms g True k kick [OF _ _ g True k(1), of pk] by (auto simp: prepare_step_def)
    qed
  qed
qed

lemma prepare_step_books:
  assumes "prepare_step env inspections c (prepared, plan) = Inr (prepared', plan')"
  shows "mset (map pk_candidate prepared') + booked plan' = mset (map pk_candidate prepared) + booked plan + {#c#}"
  using assms by (cases rule: prepare_step_cases) (auto simp: prepare_kick_candidate)

section \<open>Accounting through the stages\<close>

lemma single_step_books:
  assumes "single_step env kick (good, bad) = Inr (good', bad')"
  shows "mset (map (pk_candidate \<circ> fst) good') + mset (map (pk_candidate \<circ> fst) bad')
    = mset (map (pk_candidate \<circ> fst) good) + mset (map (pk_candidate \<circ> fst) bad) + {#pk_candidate kick#}"
proof -
  obtain recovered warning where r: "prepare_single_kick_intent env kick = Inr (recovered, warning)"
    using assms by (auto simp: single_step_def err_simps)
  have same: "fst x = kick" if "recovered = Some x" for x
    using r that by (auto simp: prepare_single_kick_intent_def err_simps split: if_splits)
  show ?thesis using assms r same by (auto simp: single_step_def split: option.splits)
qed

lemma single_steps_books:
  assumes "fold_err (single_step env) kicks ([], []) = Inr (good, bad)"
  shows "mset (map (pk_candidate \<circ> fst) good) + mset (map (pk_candidate \<circ> fst) bad) = mset (map pk_candidate kicks)"
  using fold_err_books [OF assms, of "\<lambda>(good, bad). mset (map (pk_candidate \<circ> fst) good) + mset (map (pk_candidate \<circ> fst) bad)"
      "\<lambda>kick. {#pk_candidate kick#}"] single_step_books by (force simp: split_beta)

lemma plan_single_results_books:
  assumes "fold_err (single_step env) kicks ([], []) = Inr results"
  shows "booked (plan_single_results results plan) = booked plan + mset (map pk_candidate kicks)"
proof -
  obtain good bad where r: "results = (good, bad)" by fastforce
  have skipped: "image_mset (sk_candidate \<circ> (\<lambda>(kick, w). prepared_estimate_failure w kick)) (mset bad)
      = image_mset (pk_candidate \<circ> fst) (mset bad)"
    by (rule image_mset_cong) auto
  have "booked (plan_single_results results plan) = booked plan + (mset (map (pk_candidate \<circ> fst) good) + mset (map (pk_candidate \<circ> fst) bad))"
    by (simp add: plan_single_results_def r multiset.map_comp skipped ac_simps)
  then show ?thesis using single_steps_books assms unfolding r by metis
qed

lemma fail_all_books: "booked (fail_all kicks w plan) = booked plan + mset (map pk_candidate kicks)"
  by (simp add: fail_all_def comp_def)

lemma plan_batch_books:
  assumes "plan_batch env kicks plan = Inr plan'"
  shows "booked plan' = booked plan + mset (map pk_candidate kicks)"
  using assms
  by (auto simp: plan_batch_def err_simps fail_all_books plan_single_results_books split: if_splits option.splits)

lemma plan_transactions_books:
  assumes "plan_transactions env kicks plan = Inr plan'"
  shows "booked plan' = booked plan + mset (map pk_candidate kicks)"
  using assms
  by (auto simp: plan_transactions_def err_simps plan_batch_books plan_single_results_books split: if_splits)

text \<open>Grouping keeps every candidate, under the key of its auction.\<close>

lemma dict_append_mset: "mset (concat (map snd (dict_append k c groups))) = mset (concat (map snd groups)) + {#c#}"
proof (induction groups)
  case (Cons g groups)
  then show ?case by (cases g) (auto simp: dict_append_def)
qed (simp add: dict_append_def)

lemma dict_append_group:
  assumes "(a, grp) \<in> set (dict_append k c groups)" "x \<in> set grp"
  shows "(a = k \<and> x = c) \<or> (\<exists>grp'. (a, grp') \<in> set groups \<and> x \<in> set grp')"
  using assms
proof (induction groups)
  case (Cons g groups)
  then show ?case by (cases g) (fastforce simp: dict_append_def split: if_splits)
qed (simp add: dict_append_def)

lemma group_by_auction_books:
  assumes "group_by_auction isaddr cs = Inr groups"
  shows "mset (concat (map snd groups)) = mset cs"
  using fold_err_books [OF assms [unfolded group_by_auction_def], of "\<lambda>groups. mset (concat (map snd groups))" "\<lambda>c. {#c#}"]
  by (fastforce simp: err_simps dict_append_mset)

lemma group_by_auction_key:
  assumes "group_by_auction isaddr cs = Inr groups" "(a, grp) \<in> set groups" "c \<in> set grp"
  shows "\<exists>token. kick_key isaddr c = Inr (a, token)"
proof -
  have "\<forall>(a, grp) \<in> set groups. \<forall>c \<in> set grp. \<exists>token. kick_key isaddr c = Inr (a, token)"
    by (rule fold_err_invariant [OF assms(1) [unfolded group_by_auction_def]])
      (use dict_append_group in \<open>fastforce simp: err_simps\<close>)+
  with assms(2,3) show ?thesis by blast
qed

lemma sum_list_groups: "sum_list (map (mset \<circ> snd) groups) = mset (concat (map snd groups))"
  by (induction groups) simp_all

lemma plan_resolutions_books:
  assumes "plan_resolutions env candidates plan = Inr (clean, plan')"
  shows "mset clean + booked plan' = mset candidates + booked plan"
proof -
  obtain groups inspections resolved where g: "group_by_auction (ple_isaddr env) candidates = Inr groups"
    and f: "fold_err (resolve_auction env inspections) groups (plan, {}, []) = Inr (plan', resolved, clean)"
    using assms by (auto simp: plan_resolutions_def err_simps)
  have "mset clean + booked plan' = booked plan + sum_list (map (mset \<circ> snd) groups)"
    using fold_err_books [OF f, of "\<lambda>(plan, resolved, clean). mset clean + booked plan" "mset \<circ> snd"] resolve_auction_books by force
  then show ?thesis using group_by_auction_books [OF g] by (simp add: sum_list_groups)
qed

lemma plan_candidates_books:
  assumes "plan_candidates env candidates plan = Inr plan'"
  shows "booked plan' = booked plan + mset candidates"
proof -
  obtain inspections safe plan1 where v: "fold_err (version_step env inspections) candidates ([], plan) = Inr (safe, plan1)"
    and rest: "(if safe = [] then Inr (count_ready plan1)
     else err_bind (plan_resolutions env safe plan1) (\<lambda>(clean, plan).
       err_bind (fold_err (prepare_step env inspections) clean ([], plan)) (\<lambda>(kicks, plan). plan_transactions env kicks plan))) = Inr plan'"
    using assms by (auto simp: plan_candidates_def err_simps)
  have safe: "mset safe + booked plan1 = booked plan + mset candidates"
    using fold_err_books [OF v, of "\<lambda>(safe, plan). mset safe + booked plan" "\<lambda>c. {#c#}"] version_step_books by force
  show ?thesis
  proof (cases "safe = []")
    case True
    with rest safe show ?thesis by auto
  next
    case False
    then obtain clean plan2 kicks plan3 where r: "plan_resolutions env safe plan1 = Inr (clean, plan2)"
      and p: "fold_err (prepare_step env inspections) clean ([], plan2) = Inr (kicks, plan3)"
      and t: "plan_transactions env kicks plan3 = Inr plan'"
      using rest by (auto simp: err_simps)
    have "mset (map pk_candidate kicks) + booked plan3 = booked plan2 + mset clean"
      using fold_err_books [OF p, of "\<lambda>(kicks, plan). mset (map pk_candidate kicks) + booked plan" "\<lambda>c. {#c#}"] prepare_step_books by force
    then show ?thesis
      using plan_transactions_books [OF t] plan_resolutions_books [OF r] safe by (simp add: ac_simps)
  qed
qed

lemma mset_filter_partition: "mset (filter P xs) + mset (filter (\<lambda>x. \<not> P x) xs) = mset xs"
  using mset_filter_split [of xs "\<lambda>_. True" P "\<lambda>x. \<not> P x"] by simp

lemma filter_kick_guard_books:
  assumes "filter_kick_guard env candidates plan = Inr (kept, plan')"
  shows "mset kept + booked plan' = mset candidates + booked plan"
  using assms mset_filter_partition [of "killed statuses" candidates for statuses]
  by (auto simp: filter_kick_guard_def Let_def err_simps comp_def ac_simps split: option.splits if_splits)

abbreviation plan_start :: "shortlist_request \<Rightarrow> shortlist_result \<Rightarrow> kick_plan" where
  "plan_start rq shortlist \<equiv> initial_plan rq shortlist (sort_candidates (sl_selected shortlist))"

lemma kick_plan_cases:
  assumes "kick_plan_of env rq = Inr plan" "build_shortlist (ple_isaddr env) (ple_now env) (ple_tables env) rq = Inr shortlist"
  obtains (none) "sl_selected shortlist = [] \<and> plan = plan_start rq shortlist"
  | (some) kept plan1 where
      "kept = sort_candidates (sl_selected shortlist) \<and> plan1 = plan_start rq shortlist
        \<or> \<not> ple_allow_killed_gauge env \<and> filter_kick_guard env (sort_candidates (sl_selected shortlist)) (plan_start rq shortlist) = Inr (kept, plan1)"
      "kept = [] \<and> plan = count_ready plan1 \<or> plan_candidates env kept plan1 = Inr plan"
proof -
  define ranked where "ranked = sort_candidates (sl_selected shortlist)"
  define start where "start = initial_plan rq shortlist ranked"
  have p: "(if ranked = [] then Inr start
     else if ple_allow_killed_gauge env then plan_candidates env ranked start
     else err_bind (filter_kick_guard env ranked start) (\<lambda>(candidates, plan).
       if candidates = [] then Inr (count_ready plan) else plan_candidates env candidates plan)) = Inr plan"
    using assms(1) unfolding kick_plan_of_def assms(2) ranked_def start_def by (simp add: Let_def split del: if_split)
  consider "ranked = []" | "ranked \<noteq> []" "ple_allow_killed_gauge env" | "ranked \<noteq> []" "\<not> ple_allow_killed_gauge env" by blast
  then show thesis
  proof cases
    case 1
    then have "mset (sl_selected shortlist) = mset []" unfolding ranked_def sort_candidates_def by (metis mset_sort)
    then have "sl_selected shortlist = [] \<and> plan = plan_start rq shortlist" using 1 p by (simp add: start_def ranked_def)
    then show thesis by (rule none)
  next
    case 2
    then show thesis using p some [of ranked start] start_def ranked_def by simp
  next
    case 3
    then obtain kept plan1 where k: "filter_kick_guard env ranked start = Inr (kept, plan1)" using p by (auto simp: err_simps)
    with 3 p have "kept = [] \<and> plan = count_ready plan1 \<or> plan_candidates env kept plan1 = Inr plan" by (auto split: if_splits)
    with k 3 show thesis using some [of kept plan1] unfolding start_def ranked_def by blast
  qed
qed

lemma kick_plan_books:
  assumes "kick_plan_of env rq = Inr plan" "build_shortlist (ple_isaddr env) (ple_now env) (ple_tables env) rq = Inr shortlist"
  shows "booked plan = mset (sl_selected shortlist)"
  using assms
proof (cases rule: kick_plan_cases)
  case none
  then show ?thesis by (simp add: booked_def initial_plan_def)
next
  case (some kept plan1)
  have "mset kept + booked plan1 = mset (sort_candidates (sl_selected shortlist))"
    using some(1) filter_kick_guard_books [of env _ "plan_start rq shortlist"] by (auto simp: booked_def initial_plan_def)
  moreover have "booked plan = booked plan1 + mset kept" using some(2) plan_candidates_books by auto
  ultimately show ?thesis by (simp add: sort_candidates_def ac_simps)
qed

section \<open>The transactions of a plan\<close>

text \<open>An intent before its gas was estimated.\<close>

definition without_gas :: "tx_intent \<Rightarrow> tx_intent" where
  "without_gas intent = intent\<lparr>ti_gas_estimate := None, ti_gas_limit := None\<rparr>"

lemma kicker_intent_fresh: "kicker_intent tb operation sender d = Inr intent \<Longrightarrow> without_gas intent = intent"
  by (auto simp: kicker_intent_def without_gas_def err_simps)

lemma estimate_intent_call: "estimate_intent estimator cap intent = Inr (intent', w) \<Longrightarrow> without_gas intent' = without_gas intent"
  by (auto simp: estimate_intent_def without_gas_def err_simps split: estimator.splits if_splits option.splits sum.splits)

definition resolves_planned :: "plan_env \<Rightarrow> kick_plan \<Rightarrow> bool" where
  "resolves_planned env plan \<longleftrightarrow> pl_kick_operations plan = [] \<and>
     list_all2 (\<lambda>operation intent. build_resolve_auction_intent (ple_tx_builder env) (ple_sender env) operation = Inr (without_gas intent))
       (pl_resolve_operations plan) (pl_tx_intents plan)"

lemma resolves_planned_simps [simp]:
  "resolves_planned env (plan_skip skipped plan) = resolves_planned env plan"
  "resolves_planned env (plan_warn ws plan) = resolves_planned env plan"
  "resolves_planned env (count_ready plan) = resolves_planned env plan"
  "resolves_planned env (count_resolves plan) = resolves_planned env plan"
  by (simp_all add: resolves_planned_def plan_skip_def plan_warn_def count_ready_def count_resolves_def)

lemma resolves_planned_resolve:
  assumes "resolves_planned env plan"
    "build_resolve_auction_intent (ple_tx_builder env) (ple_sender env) operation = Inr (without_gas intent)"
  shows "resolves_planned env (plan_resolve operation intent plan)"
  using assms by (auto simp: resolves_planned_def plan_resolve_def list_all2_appendI)

lemma resolve_preview_planned:
  assumes "resolve_preview env auction anchor preview (plan, resolved, manual) = Inr (plan', resolved', manual')" "resolves_planned env plan"
  shows "resolves_planned env plan'"
proof (cases "(auction, lp_token_address preview) \<in> resolved")
  case True
  then show ?thesis using assms by (simp add: resolve_preview_def)
next
  case False
  then obtain operation intent where o: "resolve_operation env anchor preview = Inr operation"
    "build_resolve_auction_intent (ple_tx_builder env) (ple_sender env) operation = Inr intent"
    using assms by (auto simp: resolve_preview_def Let_def err_simps)
  have fresh: "without_gas intent = intent" using o(2) kicker_intent_fresh unfolding build_resolve_auction_intent_def by blast
  show ?thesis
  proof (cases "ple_estimate_transactions env")
    case False
    with assms o fresh \<open>_ \<notin> resolved\<close> show ?thesis by (auto simp: resolve_preview_def intro: resolves_planned_resolve)
  next
    case True
    then obtain intent' w where e: "estimate_intent (ple_estimator env) (ple_max_gas_limit env) intent = Inr (intent', w)"
      using assms o False by (auto simp: resolve_preview_def Let_def err_simps)
    have "without_gas intent' = intent" using estimate_intent_call [OF e] fresh by simp
    then show ?thesis
      using assms o e True False
      by (cases w) (auto simp: resolve_preview_def Let_def err_simps intro: resolves_planned_resolve split: if_splits)
  qed
qed

lemma resolve_auction_planned:
  assumes "resolve_auction env inspections (auction, grp) (plan, resolved, clean) = Inr (plan', resolved', clean')" "resolves_planned env plan"
  shows "resolves_planned env plan'"
  using assms(1)
proof (cases rule: resolve_auction_cases)
  case (2 skipped plan1 manual)
  then show ?thesis
    using assms(2) fold_err_invariant [of "resolve_preview env auction (hd grp)" _ _ _ "\<lambda>s. resolves_planned env (fst s)"]
      resolve_preview_planned by fastforce
qed (use assms(2) in simp)

lemma plan_resolutions_planned:
  assumes "plan_resolutions env candidates plan = Inr (clean, plan')" "resolves_planned env plan"
  shows "resolves_planned env plan'"
proof -
  obtain groups inspections resolved where f: "fold_err (resolve_auction env inspections) groups (plan, {}, []) = Inr (plan', resolved, clean)"
    using assms by (auto simp: plan_resolutions_def err_simps)
  show ?thesis
    using fold_err_invariant [OF f, of "\<lambda>s. resolves_planned env (fst s)"] assms(2) resolve_auction_planned by force
qed

text \<open>What the finished plan sends: one call per resolution, then one call per kick or one batch of them.\<close>

definition intents_planned :: "plan_env \<Rightarrow> kick_plan \<Rightarrow> bool" where
  "intents_planned env plan \<longleftrightarrow>
     (\<exists>resolves kicks. pl_tx_intents plan = resolves @ kicks \<and>
       list_all2 (\<lambda>operation intent. build_resolve_auction_intent (ple_tx_builder env) (ple_sender env) operation = Inr (without_gas intent))
         (pl_resolve_operations plan) resolves \<and>
       (list_all2 (\<lambda>kick intent. build_single_kick_intent (ple_tx_builder env) (ple_sender env) kick = Inr (without_gas intent))
          (pl_kick_operations plan) kicks
        \<or> 2 \<le> length (pl_kick_operations plan) \<and> (\<exists>intent. kicks = [intent] \<and>
            build_batch_kick_intent (ple_tx_builder env) (ple_sender env) (pl_kick_operations plan) = Inr (without_gas intent)))) \<and>
     pl_ready_count plan = length (pl_resolve_operations plan) + length (pl_kick_operations plan)"

lemma planned_no_kicks:
  assumes "resolves_planned env plan"
  shows "intents_planned env (count_ready plan)" "intents_planned env (count_resolves plan)"
  using assms by (auto simp: intents_planned_def resolves_planned_def count_ready_def count_resolves_def)

lemma planned_kicks:
  assumes "resolves_planned env plan"
    "list_all2 (\<lambda>kick intent. build_single_kick_intent (ple_tx_builder env) (ple_sender env) kick = Inr (without_gas intent)) kicks intents
     \<or> 2 \<le> length kicks \<and> (\<exists>intent. intents = [intent] \<and>
         build_batch_kick_intent (ple_tx_builder env) (ple_sender env) kicks = Inr (without_gas intent))"
  shows "intents_planned env (count_ready (plan_kicks kicks intents plan))"
  unfolding intents_planned_def
proof (intro conjI exI)
  show "pl_tx_intents (count_ready (plan_kicks kicks intents plan)) = pl_tx_intents plan @ intents"
    by (simp add: count_ready_def plan_kicks_def)
qed (use assms in \<open>auto simp: resolves_planned_def count_ready_def plan_kicks_def\<close>)

definition single_calls :: "plan_env \<Rightarrow> (prepared_kick \<times> tx_intent) list \<Rightarrow> bool" where
  "single_calls env good \<longleftrightarrow>
     (\<forall>(kick, intent) \<in> set good. build_single_kick_intent (ple_tx_builder env) (ple_sender env) kick = Inr (without_gas intent))"

lemma prepare_single_call:
  assumes "prepare_single_kick_intent env kick = Inr (Some (k, intent), w)"
  shows "k = kick \<and> build_single_kick_intent (ple_tx_builder env) (ple_sender env) kick = Inr (without_gas intent)"
proof -
  obtain i where b: "build_single_kick_intent (ple_tx_builder env) (ple_sender env) kick = Inr i"
    using assms by (auto simp: prepare_single_kick_intent_def err_simps)
  have "without_gas i = i" using b kicker_intent_fresh unfolding build_single_kick_intent_def by blast
  then show ?thesis
    using assms b by (auto simp: prepare_single_kick_intent_def err_simps dest: estimate_intent_call split: if_splits)
qed

lemma single_step_calls:
  assumes "single_step env kick (good, bad) = Inr (good', bad')" "single_calls env good"
  shows "single_calls env good'"
  using assms prepare_single_call [of env kick]
  by (fastforce simp: single_step_def single_calls_def err_simps split: option.splits)

lemma single_steps_calls:
  assumes "fold_err (single_step env) kicks ([], []) = Inr results"
  shows "single_calls env (fst results)"
  using fold_err_invariant [OF assms, of "\<lambda>s. single_calls env (fst s)"] single_step_calls
  by (force simp: single_calls_def)

lemma planned_singles:
  assumes "resolves_planned env plan" "fold_err (single_step env) kicks ([], []) = Inr results"
  shows "intents_planned env (count_ready (plan_single_results results plan))"
proof -
  have list: "list_all2 (\<lambda>kick intent. build_single_kick_intent (ple_tx_builder env) (ple_sender env) kick = Inr (without_gas intent))
      (map fst (fst results)) (map snd (fst results))"
    using single_steps_calls [OF assms(2)] by (auto simp: single_calls_def list_all2_map1 list_all2_map2 list_all2_same)
  have frame: "count_ready (plan_single_results results plan)
      = count_ready (plan_kicks (map fst (fst results)) (map snd (fst results))
          (plan_skip (map (\<lambda>(kick, w). prepared_estimate_failure w kick) (snd results)) (plan_warn (map snd (snd results)) plan)))"
    by (simp add: plan_single_results_def split_beta count_ready_def plan_kicks_def plan_skip_def plan_warn_def)
  show ?thesis unfolding frame by (rule planned_kicks) (use assms(1) list in simp_all)
qed

lemma fail_all_planned: "resolves_planned env plan \<Longrightarrow> intents_planned env (fail_all kicks w plan)"
  unfolding fail_all_def by (rule planned_no_kicks) simp

lemma planned_batch:
  assumes "resolves_planned env plan" "2 \<le> length kicks"
    "build_batch_kick_intent (ple_tx_builder env) (ple_sender env) kicks = Inr (without_gas intent)"
  shows "intents_planned env (count_ready (plan_kicks kicks [intent] plan))"
  by (rule planned_kicks [OF assms(1)]) (use assms(2,3) in simp)

lemma plan_batch_planned:
  assumes "plan_batch env kicks plan = Inr plan'" "resolves_planned env plan" "2 \<le> length kicks"
  shows "intents_planned env plan'"
proof -
  obtain i where b: "build_batch_kick_intent (ple_tx_builder env) (ple_sender env) kicks = Inr i"
    using assms(1) by (auto simp: plan_batch_def err_simps)
  have fresh: "without_gas i = i" using b kicker_intent_fresh unfolding build_batch_kick_intent_def by blast
  show ?thesis
    using assms b fresh
    by (auto simp: plan_batch_def err_simps dest!: estimate_intent_call
        intro!: planned_batch planned_singles fail_all_planned split: if_splits option.splits)
qed

lemma single_step_good:
  assumes "single_step env kick (good, bad) = Inr (good', bad')"
  shows "length good' + length bad' = Suc (length good + length bad)"
  using arg_cong [OF single_step_books [OF assms], of size] by simp

text \<open>A single kick that fails leaves nothing to count.\<close>

lemma single_failed:
  assumes "fold_err (single_step env) [kick] ([], []) = Inr results" "snd results \<noteq> []"
  shows "fst results = []"
proof -
  have "single_step env kick ([], []) = Inr results" using assms(1) by (cases "single_step env kick ([], [])") auto
  then have "length (fst results) + length (snd results) = 1" using single_step_good [of env kick "[]" "[]" "fst results" "snd results"] by simp
  then show ?thesis using assms(2) by (cases "snd results") simp_all
qed

lemma plan_transactions_planned:
  assumes "plan_transactions env kicks plan = Inr plan'" "resolves_planned env plan"
  shows "intents_planned env plan'"
proof -
  consider (none) "kicks = []" | (batch) "2 \<le> length kicks" "ple_batch env" | (singles) "kicks \<noteq> []" "\<not> ple_batch env \<or> length kicks = 1"
    by (cases kicks; cases "tl kicks") auto
  then show ?thesis
  proof cases
    case none
    then have "plan' = count_resolves plan" using assms(1) by (simp add: plan_transactions_def)
    then show ?thesis using planned_no_kicks(2) [OF assms(2)] by simp
  next
    case batch
    then have "kicks \<noteq> []" "length kicks \<noteq> 1" by auto
    with batch(2) have "plan_batch env kicks plan = Inr plan'" using assms(1) by (simp add: plan_transactions_def)
    then show ?thesis using plan_batch_planned assms(2) batch by blast
  next
    case singles
    obtain results where r: "fold_err (single_step env) kicks ([], []) = Inr results"
      using assms(1) singles by (auto simp: plan_transactions_def err_simps split: if_splits)
    have counted: "intents_planned env (count_ready (plan_single_results results plan))" using planned_singles [OF assms(2) r] .
    have "plan' = count_ready (plan_single_results results plan)
        \<or> (length kicks = 1 \<and> snd results \<noteq> [] \<and> plan' = count_resolves (plan_single_results results plan))"
      using assms(1) singles r by (auto simp: plan_transactions_def split: if_splits)
    then show ?thesis
    proof
      assume failed: "length kicks = 1 \<and> snd results \<noteq> [] \<and> plan' = count_resolves (plan_single_results results plan)"
      then obtain kick where "kicks = [kick]" by (auto simp: length_Suc_conv)
      then have "fst results = []" using single_failed r failed by blast
      then have "resolves_planned env (plan_single_results results plan)"
        using assms(2) by (simp add: plan_single_results_def split_beta plan_kicks_def resolves_planned_def plan_skip_def plan_warn_def)
      then show ?thesis using failed planned_no_kicks(2) by simp
    qed (use counted in simp)
  qed
qed

lemma prepare_steps_planned:
  assumes "fold_err (prepare_step env inspections) candidates (prepared, plan) = Inr (kicks, plan')" "resolves_planned env plan"
  shows "resolves_planned env plan'"
proof -
  have "resolves_planned env (snd t)" if "prepare_step env inspections c s = Inr t" "resolves_planned env (snd s)" for c s t
    using that by (cases s; cases t) (auto elim!: prepare_step_cases)
  then show ?thesis using fold_err_invariant [OF assms(1), of "\<lambda>s. resolves_planned env (snd s)"] assms(2) by auto
qed

lemma version_steps_planned:
  assumes "fold_err (version_step env inspections) candidates ([], plan) = Inr (safe, plan')" "resolves_planned env plan"
  shows "resolves_planned env plan'"
  using fold_err_invariant [OF assms(1), of "\<lambda>s. resolves_planned env (snd s)"] assms(2)
  by (fastforce simp: version_step_def err_simps split: option.splits)

lemma plan_candidates_cases:
  assumes "plan_candidates env candidates plan = Inr plan'"
  obtains inspections "plan1" where "inspect_candidates (ple_prepare env) candidates = Inr inspections"
      "fold_err (version_step env inspections) candidates ([], plan) = Inr ([], plan1)" "plan' = count_ready plan1"
  | inspections safe "plan1" clean "plan2" kicks "plan3" where "inspect_candidates (ple_prepare env) candidates = Inr inspections"
      "fold_err (version_step env inspections) candidates ([], plan) = Inr (safe, plan1)"
      "plan_resolutions env safe plan1 = Inr (clean, plan2)"
      "fold_err (prepare_step env inspections) clean ([], plan2) = Inr (kicks, plan3)"
      "plan_transactions env kicks plan3 = Inr plan'"
proof -
  obtain inspections safe plan1 where v: "inspect_candidates (ple_prepare env) candidates = Inr inspections"
      "fold_err (version_step env inspections) candidates ([], plan) = Inr (safe, plan1)"
    and rest: "(if safe = [] then Inr (count_ready plan1)
     else err_bind (plan_resolutions env safe plan1) (\<lambda>(clean, plan).
       err_bind (fold_err (prepare_step env inspections) clean ([], plan)) (\<lambda>(kicks, plan). plan_transactions env kicks plan))) = Inr plan'"
    using assms by (auto simp: plan_candidates_def err_simps)
  show thesis
  proof (cases "safe = []")
    case True
    with v rest that(1) show thesis by simp
  next
    case False
    with rest obtain clean plan2 kicks plan3 where "plan_resolutions env safe plan1 = Inr (clean, plan2)"
      "fold_err (prepare_step env inspections) clean ([], plan2) = Inr (kicks, plan3)" "plan_transactions env kicks plan3 = Inr plan'"
      by (auto simp: err_simps)
    with v that(2) show thesis by blast
  qed
qed

lemma plan_candidates_planned:
  assumes "plan_candidates env candidates plan = Inr plan'" "resolves_planned env plan"
  shows "intents_planned env plan'"
  using assms(1)
proof (cases rule: plan_candidates_cases)
  case (1 inspections plan1)
  show ?thesis unfolding 1(3) by (rule planned_no_kicks(1) [OF version_steps_planned [OF 1(2) assms(2)]])
next
  case (2 inspections safe plan1 clean plan2 kicks plan3)
  show ?thesis
    by (rule plan_transactions_planned [OF 2(5) prepare_steps_planned [OF 2(4) plan_resolutions_planned [OF 2(3)
      version_steps_planned [OF 2(2) assms(2)]]]])
qed

lemma kick_plan_planned:
  assumes "kick_plan_of env rq = Inr plan"
  shows "intents_planned env plan"
proof -
  obtain shortlist where sl: "build_shortlist (ple_isaddr env) (ple_now env) (ple_tables env) rq = Inr shortlist"
    using assms by (auto simp: kick_plan_of_def err_simps)
  have start: "resolves_planned env (plan_start rq shortlist)" by (simp add: resolves_planned_def initial_plan_def)
  from assms sl show ?thesis
  proof (cases rule: kick_plan_cases)
    case none
    then show ?thesis by (simp add: intents_planned_def initial_plan_def)
  next
    case (some kept plan1)
    have "resolves_planned env plan1"
      using some(1) start by (auto simp: filter_kick_guard_def Let_def err_simps split: if_splits option.splits)
    then show ?thesis using some(2) plan_candidates_planned planned_no_kicks by blast
  qed
qed

section \<open>What a planned kick passed\<close>

text \<open>
  A planned kick was prepared from its candidate over the live inspection, the guard allowed it at that
  moment, and the settlement inspection of its auction had nothing failed, nothing to settle and no live lot.
\<close>

definition settlement_clear :: "plan_env \<Rightarrow> address \<Rightarrow> bool" where
  "settlement_clear env auction \<longleftrightarrow>
     (\<exists>auctions inspections settlement. ple_inspect_settlements env auctions = Inr inspections \<and> auction \<in> set auctions \<and>
        dict_get inspections auction = Inr settlement \<and> preview_failures settlement = [] \<and>
        default_actionable_previews settlement = [] \<and> live_funded_previews settlement = [])"

definition kick_prepared :: "plan_env \<Rightarrow> inspections \<Rightarrow> prepared_kick \<Rightarrow> bool" where
  "kick_prepared env inspections kick \<longleftrightarrow>
     (\<exists>key guard. kick_key (ple_isaddr env) (pk_candidate kick) = Inr key \<and>
        prepare_kick (ple_prepare env) (pk_candidate kick) (map_of inspections key) = Inr (Inr kick) \<and>
        guard_decision_of (ple_isaddr env) (ple_guard_now env (pk_candidate kick)) (ple_retry_delays_minutes env, ple_kicks env)
          (ple_allow_no_fill_retry env) (pk_candidate kick) = Inr guard \<and> nf_action guard = ALLOW)"

definition kick_cleared :: "plan_env \<Rightarrow> prepared_kick \<Rightarrow> bool" where
  "kick_cleared env kick \<longleftrightarrow>
     (\<exists>inspections auction token. kick_prepared env inspections kick \<and>
        kick_key (ple_isaddr env) (pk_candidate kick) = Inr (auction, token) \<and> settlement_clear env auction)"

lemma prepare_steps_prepared:
  assumes "fold_err (prepare_step env inspections) candidates ([], plan) = Inr (kicks, plan')" "kick \<in> set kicks"
  shows "kick_prepared env inspections kick \<and> pk_candidate kick \<in> set candidates"
proof -
  let ?P = "\<lambda>s. \<forall>k \<in> set (fst s). kick_prepared env inspections k \<and> pk_candidate k \<in> set candidates"
  have step: "?P t" if "c \<in> set candidates" "?P s" "prepare_step env inspections c s = Inr t" for c s t
  proof -
    obtain prepared p prepared' p' where st: "s = (prepared, p)" "t = (prepared', p')" by (cases s; cases t) auto
    from that(3) [unfolded st] show ?thesis
    proof (cases rule: prepare_step_cases)
      case (skipped reason r)
      then show ?thesis using that(2) st by simp
    next
      case (kick guard key kick)
      have "pk_candidate kick = c" using kick(6) by (rule prepare_kick_candidate)
      then have "kick_prepared env inspections kick" using kick unfolding kick_prepared_def by blast
      then show ?thesis using that(1,2) st kick(1) \<open>pk_candidate kick = c\<close> by auto
    qed
  qed
  have "?P (kicks, plan')" by (rule fold_err_invariant [where P = ?P, OF assms(1) _ step]) auto
  then show ?thesis using assms(2) by simp
qed

lemma plan_resolutions_clear:
  assumes "plan_resolutions env candidates plan = Inr (clean, plan')" "c \<in> set clean"
  shows "\<exists>auction token. kick_key (ple_isaddr env) c = Inr (auction, token) \<and> settlement_clear env auction"
proof -
  obtain groups inspections resolved where g: "group_by_auction (ple_isaddr env) candidates = Inr groups"
    and i: "ple_inspect_settlements env (sort (map fst groups)) = Inr inspections"
    and f: "fold_err (resolve_auction env inspections) groups (plan, {}, []) = Inr (plan', resolved, clean)"
    using assms by (auto simp: plan_resolutions_def err_simps)
  let ?P = "\<lambda>s. \<forall>c \<in> set (snd (snd s)). \<exists>auction token. kick_key (ple_isaddr env) c = Inr (auction, token) \<and> settlement_clear env auction"
  have step: "?P t" if "x \<in> set groups" "?P s" "resolve_auction env inspections x s = Inr t" for x s t
  proof -
    obtain auction grp p r cl p' r' cl' where x: "x = (auction, grp)" "s = (p, r, cl)" "t = (p', r', cl')"
      by (cases x; cases s; cases t) auto
    from that(3) [unfolded x] show ?thesis
    proof (cases rule: resolve_auction_cases)
      case (1 inspection)
      have "auction \<in> set (sort (map fst groups))" using that(1) x(1) by force
      then have "settlement_clear env auction" using 1 i unfolding settlement_clear_def by blast
      then show ?thesis using that(1,2) x 1(2) group_by_auction_key [OF g] by fastforce
    qed (use that(2) x in simp)
  qed
  have "?P (plan', resolved, clean)" by (rule fold_err_invariant [where P = ?P, OF f _ step]) auto
  then show ?thesis using assms(2) by simp
qed

lemma kick_operations_simps [simp]:
  "pl_kick_operations (plan_skip skipped plan) = pl_kick_operations plan"
  "pl_kick_operations (plan_warn ws plan) = pl_kick_operations plan"
  "pl_kick_operations (count_ready plan) = pl_kick_operations plan"
  "pl_kick_operations (count_resolves plan) = pl_kick_operations plan"
  "pl_kick_operations (fail_all kicks w plan) = pl_kick_operations plan"
  "pl_kick_operations (plan_kicks kicks intents plan) = pl_kick_operations plan @ kicks"
  "pl_kick_operations (plan_single_results results plan) = pl_kick_operations plan @ map fst (fst results)"
  by (simp_all add: fail_all_def plan_single_results_def split_beta plan_skip_def plan_warn_def count_ready_def count_resolves_def plan_kicks_def)

lemma single_steps_kicks:
  assumes "fold_err (single_step env) kicks ([], []) = Inr results" "kick \<in> fst ` set (fst results)"
  shows "kick \<in> set kicks"
proof -
  let ?P = "\<lambda>s. fst ` set (fst s) \<subseteq> set kicks"
  have step: "?P t" if prems: "k \<in> set kicks" "?P s" "single_step env k s = Inr t" for k s t
  proof -
    obtain recovered w where r: "prepare_single_kick_intent env k = Inr (recovered, w)"
      using prems(3) by (cases s) (auto simp: single_step_def err_simps)
    have "fst x = k" if "recovered = Some x" for x using prepare_single_call [of env k "fst x" "snd x" w] r that by simp
    then have "set (fst t) \<subseteq> set (fst s) \<union> {x. fst x = k}"
      using prems(3) r by (cases s; cases w; cases recovered) (auto simp: single_step_def)
    then show ?thesis using prems(1,2) by auto
  qed
  have "?P results" by (rule fold_err_invariant [where P = ?P, OF assms(1) _ step]) auto
  then show ?thesis using assms(2) by blast
qed

lemma plan_batch_kicks:
  assumes "plan_batch env kicks plan = Inr plan'"
  shows "set (pl_kick_operations plan') \<subseteq> set (pl_kick_operations plan) \<union> set kicks"
proof -
  obtain intent where i: "build_batch_kick_intent (ple_tx_builder env) (ple_sender env) kicks = Inr intent"
    using assms by (auto simp: plan_batch_def err_simps)
  consider x where "plan' = count_ready (plan_kicks kicks [x] plan)" | w where "plan' = fail_all kicks w plan"
    | results where "fold_err (single_step env) kicks ([], []) = Inr results" "plan' = count_ready (plan_single_results results plan)"
    using assms i by (auto simp: plan_batch_def err_simps split: if_splits option.splits)
  then show ?thesis
  proof cases
    case (3 results)
    then show ?thesis using single_steps_kicks [OF 3(1)] by auto
  qed simp_all
qed

lemma plan_transactions_kicks:
  assumes "plan_transactions env kicks plan = Inr plan'"
  shows "set (pl_kick_operations plan') \<subseteq> set (pl_kick_operations plan) \<union> set kicks"
proof (cases "kicks = [] \<or> ple_batch env \<and> length kicks \<noteq> 1")
  case True
  then consider "plan' = count_resolves plan" | "plan_batch env kicks plan = Inr plan'"
    using assms by (cases "kicks = []") (simp_all add: plan_transactions_def)
  then show ?thesis using plan_batch_kicks by cases simp_all
next
  case False
  then obtain results where r: "fold_err (single_step env) kicks ([], []) = Inr results"
    "pl_kick_operations plan' = pl_kick_operations plan @ map fst (fst results)"
    using assms by (auto simp: plan_transactions_def err_simps split: if_splits)
  then show ?thesis using single_steps_kicks [OF r(1)] by auto
qed

lemma kick_plan_cleared:
  assumes "kick_plan_of env rq = Inr plan" "kick \<in> set (pl_kick_operations plan)"
  shows "kick_cleared env kick"
proof -
  obtain shortlist where sl: "build_shortlist (ple_isaddr env) (ple_now env) (ple_tables env) rq = Inr shortlist"
    using assms by (auto simp: kick_plan_of_def err_simps)
  have start: "resolves_planned env (plan_start rq shortlist)" by (simp add: resolves_planned_def initial_plan_def)
  from assms(1) sl show ?thesis
  proof (cases rule: kick_plan_cases)
    case none
    then show ?thesis using assms(2) by (simp add: initial_plan_def)
  next
    case (some kept plan1)
    have planned: "resolves_planned env plan1"
      using some(1) start by (auto simp: filter_kick_guard_def Let_def err_simps split: if_splits option.splits)
    then have "plan \<noteq> count_ready plan1" using assms(2) by (auto simp: resolves_planned_def)
    with some(2) have p: "plan_candidates env kept plan1 = Inr plan" by blast
    then show ?thesis
    proof (cases rule: plan_candidates_cases)
      case (1 inspections plan2)
      then show ?thesis using version_steps_planned [OF 1(2) planned] assms(2) by (simp add: resolves_planned_def)
    next
      case (2 inspections safe plan2 clean plan3 kicks plan4)
      have "resolves_planned env plan4"
        by (rule prepare_steps_planned [OF 2(4) plan_resolutions_planned [OF 2(3) version_steps_planned [OF 2(2) planned]]])
      then have k: "kick \<in> set kicks" using plan_transactions_kicks [OF 2(5)] assms(2) by (auto simp: resolves_planned_def)
      show ?thesis
        using prepare_steps_prepared [OF 2(4) k] plan_resolutions_clear [OF 2(3)] unfolding kick_cleared_def by blast
    qed
  qed
qed

section \<open>The properties\<close>

text \<open>
  C27. A plan accounts for the whole selection: the shortlist's selected candidates are,
  each counted once, the candidates of the planned kicks and the candidates skipped with a
  reason while preparing.
\<close>

theorem plan_accounts_for_selection:
  assumes "kick_plan_of env rq = Inr plan" "build_shortlist (ple_isaddr env) (ple_now env) (ple_tables env) rq = Inr shortlist"
  shows "mset (map pk_candidate (pl_kick_operations plan)) + mset (map sk_candidate (pl_skipped_during_prepare plan))
    = mset (sl_selected shortlist)"
  using kick_plan_books [OF assms] by (simp only: booked_def)

text \<open>
  The transactions of a plan are its operations and nothing else: one call per planned
  resolution, in order, then one call per planned kick, in order, or a single batch call
  carrying all of at least two kicks; each is the call the builder encodes for the
  operation, up to the estimated gas, and the ready count is the number of operations.
\<close>

theorem plan_transactions_are_operations:
  assumes "kick_plan_of env rq = Inr plan"
  shows "\<exists>resolves kicks. pl_tx_intents plan = resolves @ kicks
    \<and> list_all2 (\<lambda>operation intent. build_resolve_auction_intent (ple_tx_builder env) (ple_sender env) operation = Inr (without_gas intent))
        (pl_resolve_operations plan) resolves
    \<and> (list_all2 (\<lambda>kick intent. build_single_kick_intent (ple_tx_builder env) (ple_sender env) kick = Inr (without_gas intent))
          (pl_kick_operations plan) kicks
       \<or> 2 \<le> length (pl_kick_operations plan) \<and> (\<exists>intent. kicks = [intent] \<and>
            build_batch_kick_intent (ple_tx_builder env) (ple_sender env) (pl_kick_operations plan) = Inr (without_gas intent)))
    \<and> pl_ready_count plan = length (pl_resolve_operations plan) + length (pl_kick_operations plan)"
  using kick_plan_planned [OF assms] unfolding intents_planned_def by blast

text \<open>
  C5. A kick is planned only when it may be sent: the no-fill guard, asked again after the
  shortlist, allowed its candidate, the kick is what the preparation made of the candidate,
  and the settlement inspection of its auction showed no failed preview, nothing to settle
  and no live lot.
\<close>

theorem planned_kick_was_cleared:
  assumes "kick_plan_of env rq = Inr plan" "kick \<in> set (pl_kick_operations plan)"
  shows "\<exists>auction token inspection guard auctions settlements settlement.
    kick_key (ple_isaddr env) (pk_candidate kick) = Inr (auction, token)
    \<and> prepare_kick (ple_prepare env) (pk_candidate kick) inspection = Inr (Inr kick)
    \<and> guard_decision_of (ple_isaddr env) (ple_guard_now env (pk_candidate kick)) (ple_retry_delays_minutes env, ple_kicks env)
        (ple_allow_no_fill_retry env) (pk_candidate kick) = Inr guard \<and> nf_action guard = ALLOW
    \<and> ple_inspect_settlements env auctions = Inr settlements \<and> auction \<in> set auctions
    \<and> dict_get settlements auction = Inr settlement \<and> preview_failures settlement = []
    \<and> default_actionable_previews settlement = [] \<and> live_funded_previews settlement = []"
  using kick_plan_cleared [OF assms] unfolding kick_cleared_def kick_prepared_def settlement_clear_def by blast

section \<open>A concrete plan\<close>

definition sample_plan_tables :: scan_tables where
  "sample_plan_tables = \<lparr>st_vaults = [],
     st_strategies = [\<lparr>so_address = ''0xs'', so_vault_address = Some ''v'', so_name = None, so_active = 1,
       so_auction_address = Some ''0xa'', so_want_address = Some ''0xw'', so_auction_version = Some ''1.0.4''\<rparr>],
     st_fee_burners = [],
     st_tokens = [\<lparr>to_address = ''0xt'', to_symbol = Some ''TKN'', to_decimals = 2, to_price_usd = Some ''4'',
         to_price_status = Some ''SUCCESS'', to_price_fetched_at = Some ''2024-02-01T00:00:00+00:00''\<rparr>,
       \<lparr>to_address = ''0xw'', to_symbol = Some ''WNT'', to_decimals = 2, to_price_usd = Some ''1'',
         to_price_status = Some ''SUCCESS'', to_price_fetched_at = Some ''2024-02-01T00:00:00+00:00''\<rparr>],
     st_strategy_balances = [\<lparr>ba_source_address = ''0xs'', ba_token_address = ''0xt'', ba_normalized_balance = ''10'',
         ba_scanned_at = ''2024-02-01T00:00:00+00:00''\<rparr>],
     st_fee_burner_balances = [], st_enabled_scans = [], st_enabled_tokens = []\<rparr>"

definition sample_builder :: tx_builder where
  "sample_builder = \<lparr>tb_isaddr = (\<lambda>_. True), tb_checksum = Inr, tb_encode_kick = (\<lambda>_. Inr ''0x01''), tb_encode_batch = (\<lambda>_. Inr ''0x02''),
     tb_encode_resolve = (\<lambda>_ _ _. Inr ''0x03''), tb_kicker_address = ''0xk'', tb_chain_id = 1\<rparr>"

definition clear_settlement :: settlement_inspection where
  "clear_settlement = \<lparr>si_auction_address = ''0xa'', si_is_active_auction = Some False, si_enabled_tokens = [],
     si_requested_token = None, si_lot_previews = []\<rparr>"

definition sample_plan_env :: plan_env where
  "sample_plan_env = \<lparr>ple_prepare = sample_env, ple_tx_builder = sample_builder, ple_estimator = Estimate_Node None,
     ple_estimate_transactions = False, ple_sender = Some ''0xo'', ple_max_gas_limit = 500000, ple_tables = sample_plan_tables,
     ple_guard_statuses = None, ple_inspect_settlements = (\<lambda>as. Inr (map (\<lambda>a. (a, clear_settlement)) as)), ple_kicks = [],
     ple_retry_delays_minutes = [60], ple_ignore_policy = no_ignores, ple_cooldown_policy = default_cooldown_policy,
     ple_usd_threshold = 10, ple_data_freshness_limit_seconds = 63842342400, ple_now = sample_now, ple_guard_now = (\<lambda>_. sample_now),
     ple_batch = True, ple_allow_killed_gauge = False, ple_allow_no_fill_retry = False\<rparr>"

definition sample_plan_request :: shortlist_request where
  "sample_plan_request = plan_request sample_plan_env None None None None None"

lemma sample_plan_shortlist:
  obtains shortlist where "build_shortlist (ple_isaddr sample_plan_env) (ple_now sample_plan_env) (ple_tables sample_plan_env) sample_plan_request
      = Inr shortlist" "sl_selected shortlist = [sample_candidate]"
proof -
  have "case build_shortlist (ple_isaddr sample_plan_env) (ple_now sample_plan_env) (ple_tables sample_plan_env) sample_plan_request of
    Inl _ \<Rightarrow> False | Inr shortlist \<Rightarrow> sl_selected shortlist = [sample_candidate]" by code_simp
  then show thesis using that by (auto split: sum.splits)
qed

lemma sample_key: "kick_key (ple_isaddr sample_plan_env) sample_candidate = Inr (''0xa'', ''0xt'')" by code_simp

lemma sample_inspections:
  obtains ins where "inspect_candidates (ple_prepare sample_plan_env) [sample_candidate] = Inr ins"
    "map_of ins (''0xa'', ''0xt'') = Some KickPrepare.sample_inspection"
proof -
  have "case inspect_candidates (ple_prepare sample_plan_env) [sample_candidate] of Inl _ \<Rightarrow> False
    | Inr ins \<Rightarrow> map_of ins (''0xa'', ''0xt'') = Some KickPrepare.sample_inspection" by code_simp
  then show thesis using that by (auto split: sum.splits)
qed

lemma sample_version:
  assumes "map_of ins (''0xa'', ''0xt'') = Some KickPrepare.sample_inspection"
  shows "version_step sample_plan_env ins sample_candidate ([], plan) = Inr ([sample_candidate], plan)"
proof -
  have "ca_auction_version sample_candidate = ai_auction_version KickPrepare.sample_inspection"
    "ai_compatibility_error KickPrepare.sample_inspection = None" by code_simp+
  then show ?thesis using assms by (simp add: version_step_def version_refusal_def sample_key)
qed

lemma sample_resolutions: "plan_resolutions sample_plan_env [sample_candidate] plan = Inr ([sample_candidate], plan)"
proof -
  have "group_by_auction (ple_isaddr sample_plan_env) [sample_candidate] = Inr [(''0xa'', [sample_candidate])]" by code_simp
  moreover have "ple_inspect_settlements sample_plan_env [''0xa''] = Inr [(''0xa'', clear_settlement)]" by (simp add: sample_plan_env_def)
  moreover have "preview_failures clear_settlement = []" "default_actionable_previews clear_settlement = []"
    "live_funded_previews clear_settlement = []" by code_simp+
  ultimately show ?thesis by (simp add: plan_resolutions_def resolve_auction_def dict_get_def)
qed

lemma sample_plan_guard:
  obtains guard where "guard_decision_of (ple_isaddr sample_plan_env) (ple_guard_now sample_plan_env sample_candidate)
    (ple_retry_delays_minutes sample_plan_env, ple_kicks sample_plan_env) (ple_allow_no_fill_retry sample_plan_env) sample_candidate = Inr guard"
    "nf_action guard = ALLOW"
proof -
  have "case guard_decision_of (ple_isaddr sample_plan_env) (ple_guard_now sample_plan_env sample_candidate)
    (ple_retry_delays_minutes sample_plan_env, ple_kicks sample_plan_env) (ple_allow_no_fill_retry sample_plan_env) sample_candidate of
    Inl _ \<Rightarrow> False | Inr guard \<Rightarrow> nf_action guard = ALLOW" by code_simp
  then show thesis using that by (auto split: sum.splits)
qed

lemma sample_prepare_step:
  assumes "map_of ins (''0xa'', ''0xt'') = Some KickPrepare.sample_inspection"
  obtains kick where "prepare_step sample_plan_env ins sample_candidate ([], plan) = Inr ([kick], plan)" "pk_sell_amount kick = 500"
proof -
  obtain kick where "prepare_kick sample_env sample_candidate (Some KickPrepare.sample_inspection) = Inr (Inr kick)" "pk_sell_amount kick = 500"
    by (rule sample_prepared)
  then have "prepare_kick (ple_prepare sample_plan_env) sample_candidate (Some KickPrepare.sample_inspection) = Inr (Inr kick)"
    "pk_sell_amount kick = 500" by (simp_all add: sample_plan_env_def)
  moreover obtain guard where "guard_decision_of (ple_isaddr sample_plan_env) (ple_guard_now sample_plan_env sample_candidate)
    (ple_retry_delays_minutes sample_plan_env, ple_kicks sample_plan_env) (ple_allow_no_fill_retry sample_plan_env) sample_candidate = Inr guard"
    "nf_action guard = ALLOW" by (rule sample_plan_guard)
  ultimately show thesis using that assms by (simp add: prepare_step_def sample_key)
qed

lemma sample_transactions:
  obtains intent where "plan_transactions sample_plan_env [kick] plan = Inr (count_ready (plan_kicks [kick] [intent] plan))"
proof -
  have "normalize_address (\<lambda>_. True) ''0xk'' = Inr ''0xk''" by code_simp
  then obtain intent where "build_single_kick_intent (ple_tx_builder sample_plan_env) (ple_sender sample_plan_env) kick = Inr intent"
    by (simp add: build_single_kick_intent_def kicker_intent_def kick_args_of_def Let_def sample_plan_env_def sample_builder_def)
  moreover have "\<not> ple_estimate_transactions sample_plan_env" "ple_batch sample_plan_env" by (simp_all add: sample_plan_env_def)
  ultimately have "plan_transactions sample_plan_env [kick] plan = Inr (count_ready (plan_single_results ([(kick, intent)], []) plan))"
    by (simp add: plan_transactions_def single_step_def prepare_single_kick_intent_def)
  moreover have "count_ready (plan_single_results ([(kick, intent)], []) plan) = count_ready (plan_kicks [kick] [intent] plan)"
    by (simp add: plan_single_results_def plan_skip_def plan_warn_def plan_kicks_def count_ready_def)
  ultimately show thesis using that by simp
qed

lemma sample_plan:
  obtains plan kick shortlist where "kick_plan_of sample_plan_env sample_plan_request = Inr plan" "pl_kick_operations plan = [kick]"
    "pk_sell_amount kick = 500" "pl_ready_count plan = 1"
    "build_shortlist (ple_isaddr sample_plan_env) (ple_now sample_plan_env) (ple_tables sample_plan_env) sample_plan_request = Inr shortlist"
    "sl_selected shortlist = [sample_candidate]"
proof -
  obtain sl where sl: "build_shortlist (ple_isaddr sample_plan_env) (ple_now sample_plan_env) (ple_tables sample_plan_env) sample_plan_request
      = Inr sl" "sl_selected sl = [sample_candidate]" by (rule sample_plan_shortlist)
  define start where "start = initial_plan sample_plan_request sl [sample_candidate]"
  obtain ins where ins: "inspect_candidates (ple_prepare sample_plan_env) [sample_candidate] = Inr ins"
    "map_of ins (''0xa'', ''0xt'') = Some KickPrepare.sample_inspection" by (rule sample_inspections)
  obtain kick where kick: "prepare_step sample_plan_env ins sample_candidate ([], start) = Inr ([kick], start)" "pk_sell_amount kick = 500"
    by (rule sample_prepare_step [OF ins(2)])
  obtain intent where t: "plan_transactions sample_plan_env [kick] start = Inr (count_ready (plan_kicks [kick] [intent] start))"
    by (rule sample_transactions)
  have guard: "ple_guard_statuses sample_plan_env = None" by (simp add: sample_plan_env_def)
  have candidates: "plan_candidates sample_plan_env [sample_candidate] start = Inr (count_ready (plan_kicks [kick] [intent] start))"
    by (simp add: plan_candidates_def ins sample_version sample_resolutions kick t)
  have "kick_plan_of sample_plan_env sample_plan_request = Inr (count_ready (plan_kicks [kick] [intent] start))"
    unfolding kick_plan_of_def sl(1)
    by (simp add: sl(2) sort_candidates_def filter_kick_guard_def guard candidates Let_def flip: start_def)
  moreover have "pl_kick_operations (count_ready (plan_kicks [kick] [intent] start)) = [kick]"
    "pl_ready_count (count_ready (plan_kicks [kick] [intent] start)) = 1"
    by (simp_all add: start_def initial_plan_def plan_kicks_def count_ready_def)
  ultimately show thesis using that sl kick(2) by blast
qed

theorem plan_accounts_for_selection_witness:
  "\<exists>plan kick. kick_plan_of sample_plan_env sample_plan_request = Inr plan \<and> pl_kick_operations plan = [kick]
    \<and> pk_candidate kick = sample_candidate \<and> pl_skipped_during_prepare plan = []"
proof -
  obtain plan kick shortlist where p: "kick_plan_of sample_plan_env sample_plan_request = Inr plan" "pl_kick_operations plan = [kick]"
    "build_shortlist (ple_isaddr sample_plan_env) (ple_now sample_plan_env) (ple_tables sample_plan_env) sample_plan_request = Inr shortlist"
    "sl_selected shortlist = [sample_candidate]" by (rule sample_plan)
  have "{#pk_candidate kick#} + mset (map sk_candidate (pl_skipped_during_prepare plan)) = {#sample_candidate#}"
    using plan_accounts_for_selection [OF p(1,3)] p(2,4) by simp
  then have "pk_candidate kick = sample_candidate \<and> pl_skipped_during_prepare plan = []" by simp
  with p show ?thesis by blast
qed

theorem plan_transactions_are_operations_witness:
  "\<exists>plan kick intent. kick_plan_of sample_plan_env sample_plan_request = Inr plan \<and> pl_kick_operations plan = [kick]
    \<and> pl_tx_intents plan = [intent] \<and> ti_data intent = ''0x01'' \<and> pl_ready_count plan = 1"
proof -
  obtain plan kick where p: "kick_plan_of sample_plan_env sample_plan_request = Inr plan" "pl_kick_operations plan = [kick]"
    "pl_ready_count plan = 1" by (rule sample_plan)
  from plan_transactions_are_operations [OF p(1)] p(2,3) obtain intent where
    i: "pl_tx_intents plan = [intent]"
      "build_single_kick_intent (ple_tx_builder sample_plan_env) (ple_sender sample_plan_env) kick = Inr (without_gas intent)"
    by (auto simp: list_all2_Cons1)
  have "ti_data (without_gas intent) = ''0x01''"
    using i(2) by (auto simp: build_single_kick_intent_def kicker_intent_def kick_args_of_def Let_def err_simps sample_plan_env_def
        sample_builder_def dest!: sym [of _ "without_gas intent"])
  with p i(1) show ?thesis by (auto simp: without_gas_def)
qed

theorem planned_kick_was_cleared_witness:
  "\<exists>plan kick inspection guard. kick_plan_of sample_plan_env sample_plan_request = Inr plan \<and> kick \<in> set (pl_kick_operations plan)
    \<and> prepare_kick sample_env (pk_candidate kick) inspection = Inr (Inr kick)
    \<and> guard_decision_of (\<lambda>_. True) sample_now ([60], []) False (pk_candidate kick) = Inr guard \<and> nf_action guard = ALLOW"
proof -
  obtain plan kick where p: "kick_plan_of sample_plan_env sample_plan_request = Inr plan" "pl_kick_operations plan = [kick]"
    by (rule sample_plan)
  then have k: "kick \<in> set (pl_kick_operations plan)" by simp
  have env: "ple_prepare sample_plan_env = sample_env" "pe_isaddr sample_env = (\<lambda>_. True)"
    "ple_guard_now sample_plan_env = (\<lambda>_. sample_now)" "ple_retry_delays_minutes sample_plan_env = [60]"
    "ple_kicks sample_plan_env = []" "ple_allow_no_fill_retry sample_plan_env = False"
    by (simp_all add: sample_plan_env_def sample_env_def)
  from planned_kick_was_cleared [OF p(1) k] p(1) k show ?thesis unfolding env by blast
qed

end
