(* ===== verification/KickExecute.thy ===== *)
theory KickExecute
  imports KickPlan ReconcileInvariants
begin

text \<open>
  \<open>KickExecutor\<close> of \<open>transaction_service/kick_execute.py\<close>: the checks before a transaction, the
  operator's confirmation, the broadcast, the \<open>kick_txs\<close> rows and the receipt. The node and the signer
  are parameters: an answer may depend on how many calls were made before. A call that raises is \<open>Inl\<close>;
  for a gas estimate the text \<open>_format_execution_error\<close> makes of the exception is its error. Inserts
  commit at once, so an exception that leaves a method keeps the rows written before it.
\<close>

section \<open>State and environment\<close>

record fee_tx =
  ft_to :: string
  ft_data :: string
  ft_chain_id :: int
  ft_gas :: int
  ft_max_fee_per_gas :: int
  ft_max_priority_fee_per_gas :: int
  ft_nonce :: int

record txn_run =
  tr_run_id :: string
  tr_started_at :: string
  tr_finished_at :: "string option"
  tr_status :: string
  tr_candidates_found :: int
  tr_kicks_attempted :: int
  tr_kicks_succeeded :: int
  tr_kicks_failed :: int
  tr_live :: bool
  tr_error_summary :: "string option"

text \<open>The calls made so far, the tables, and what left the process: transactions and reports.\<close>

record exec_state =
  xs_calls :: nat
  xs_ledger :: ledger
  xs_runs :: "txn_run list"
  xs_sent :: "(string \<times> fee_tx) list"
  xs_reports :: "execution_report list"

type_synonym 'a exec = "exec_state \<Rightarrow> 'a result \<times> exec_state"

record exec_node =
  en_base_fee :: "nat \<Rightarrow> int result"
  en_estimate_gas :: "nat \<Rightarrow> string \<Rightarrow> string \<Rightarrow> string \<Rightarrow> string + int"
  en_max_priority_fee :: "nat \<Rightarrow> int result"
  en_transaction_count :: "nat \<Rightarrow> int result"
  en_send :: "nat \<Rightarrow> fee_tx \<Rightarrow> string result"
  en_receipt :: "nat \<Rightarrow> string \<Rightarrow> receipt result"
  en_now :: "nat \<Rightarrow> string"

text \<open>
  What the operator is asked to confirm. The keys \<open>strategy\<close> and \<open>strategy_name\<close> repeat the source, and
  \<open>quote_spot_warning_threshold_pct\<close> is a constant of the executor.
\<close>

record kick_summary =
  ks_source :: string
  ks_source_name :: "string option"
  ks_source_type :: string
  ks_sender :: string
  ks_token :: string
  ks_token_symbol :: "string option"
  ks_auction :: string
  ks_sell_amount :: string
  ks_usd_value :: string
  ks_starting_price :: string
  ks_starting_price_display :: string
  ks_minimum_price :: string
  ks_minimum_price_scaled_1e18 :: string
  ks_minimum_quote :: string
  ks_minimum_quote_display :: string
  ks_minimum_price_display :: string
  ks_sell_price_usd :: string
  ks_want_address :: string
  ks_want_symbol :: "string option"
  ks_want_price_usd :: "string option"
  ks_quote_rate :: string
  ks_start_rate :: string
  ks_floor_rate :: string
  ks_buffer_bps :: int
  ks_min_buffer_bps :: int
  ks_step_decay_rate_bps :: int
  ks_pricing_profile_name :: string
  ks_quote_amount :: string

record batch_summary =
  bs_kicks :: "kick_summary list"
  bs_batch_size :: nat
  bs_total_usd :: string
  bs_gas_estimate :: int
  bs_gas_limit :: int
  bs_base_fee_gwei :: rat
  bs_priority_fee_gwei :: rat
  bs_max_fee_per_gas_gwei :: rat
  bs_gas_cost_eth :: rat

text \<open>The executor: \<open>xe_base_fee_cap_text\<close> is the text of the configured cap.\<close>

record exec_env =
  xe_node :: exec_node
  xe_builder :: tx_builder
  xe_signer :: "string option"
  xe_base_fee_cap_gwei :: rat
  xe_base_fee_cap_text :: string
  xe_max_priority_fee_gwei :: int
  xe_skip_base_fee_check :: bool
  xe_max_gas_limit :: int
  xe_chain_id :: int
  xe_confirm :: "(batch_summary \<Rightarrow> bool) option"
  xe_reconciler :: "reconciler option"

definition exec_return :: "'a \<Rightarrow> 'a exec" where
  "exec_return x s = (Inr x, s)"

definition exec_raise :: "exn \<Rightarrow> 'a exec" where
  "exec_raise e s = (Inl e, s)"

definition exec_bind :: "'a exec \<Rightarrow> ('a \<Rightarrow> 'b exec) \<Rightarrow> 'b exec" where
  "exec_bind m f s = (case m s of (Inl e, t) \<Rightarrow> (Inl e, t) | (Inr x, t) \<Rightarrow> f x t)"

definition exec_lift :: "'a result \<Rightarrow> 'a exec" where
  "exec_lift r s = (r, s)"

text \<open>One call of the node, its answer kept as a value for a \<open>try\<close>.\<close>

definition ask :: "(nat \<Rightarrow> 'a) \<Rightarrow> 'a exec" where
  "ask answer s = (Inr (answer (xs_calls s)), s\<lparr>xs_calls := Suc (xs_calls s)\<rparr>)"

fun exec_each :: "('a \<Rightarrow> 'b exec) \<Rightarrow> 'a list \<Rightarrow> 'b list exec" where
  "exec_each f [] = exec_return []"
| "exec_each f (x # xs) = exec_bind (f x) (\<lambda>y. exec_bind (exec_each f xs) (\<lambda>ys. exec_return (y # ys)))"

definition with_kicks :: "(kick_tx list \<Rightarrow> kick_tx list \<times> 'a) \<Rightarrow> 'a exec" where
  "with_kicks f s =
     (case f (l_kicks (xs_ledger s)) of (kicks, x) \<Rightarrow> (Inr x, s\<lparr>xs_ledger := (xs_ledger s)\<lparr>l_kicks := kicks\<rparr>\<rparr>))"

section \<open>Operation rows\<close>

type_synonym kwargs = "(string \<times> json) list"

definition kw_str :: "kwargs \<Rightarrow> string \<Rightarrow> string option" where
  "kw_str kwargs name = (case map_of kwargs name of Some (JStr s) \<Rightarrow> Some s | _ \<Rightarrow> None)"

definition kw_int :: "kwargs \<Rightarrow> string \<Rightarrow> int option" where
  "kw_int kwargs name = (case map_of kwargs name of Some (JInt i) \<Rightarrow> Some i | _ \<Rightarrow> None)"

definition operation_row :: "string \<Rightarrow> kick_candidate \<Rightarrow> string \<Rightarrow> string \<Rightarrow> string \<Rightarrow> kwargs \<Rightarrow> kick_tx" where
  "operation_row run_id candidate now operation_type status kwargs =
     (let token_address = kw_str kwargs ''token_address'';
          detail = empty_kick_detail\<lparr>
            kd_token_symbol := (case kw_str kwargs ''token_symbol'' of None \<Rightarrow> ca_token_symbol candidate | Some s \<Rightarrow> Some s),
            kd_want_address := Some (ca_want_address candidate), kd_want_symbol := ca_want_symbol candidate,
            kd_price_usd := (case token_address of None \<Rightarrow> Some (ca_price_usd candidate)
              | Some t \<Rightarrow> if str_lower t = str_lower (ca_token_address candidate) then Some (ca_price_usd candidate) else None),
            kd_starting_price := kw_str kwargs ''starting_price'', kd_minimum_price := kw_str kwargs ''minimum_price'',
            kd_minimum_quote := kw_str kwargs ''minimum_quote'', kd_usd_value := kw_str kwargs ''usd_value'',
            kd_quote_amount := kw_str kwargs ''quote_amount'', kd_quote_response_json := kw_str kwargs ''quote_response_json'',
            kd_start_price_buffer_bps := kw_int kwargs ''start_price_buffer_bps'',
            kd_min_price_buffer_bps := kw_int kwargs ''min_price_buffer_bps'',
            kd_step_decay_rate_bps := kw_int kwargs ''step_decay_rate_bps'',
            kd_normalized_balance := kw_str kwargs ''normalized_balance'',
            kd_stuck_abort_reason := kw_str kwargs ''stuck_abort_reason''\<rparr>
      in empty_kick_tx\<lparr>k_run_id := run_id, k_operation_type := operation_type, k_source_type := Some (ca_source_type candidate),
           k_source_address := Some (ca_source_address candidate),
           k_strategy_address := (if ca_source_type candidate = ''strategy'' then Some (ca_source_address candidate) else None),
           k_token_address := (case token_address of None \<Rightarrow> ca_token_address candidate
             | Some t \<Rightarrow> if t = [] then ca_token_address candidate else t),
           k_auction_address := ca_auction_address candidate, k_status := status, k_created_at := now,
           k_error_message := kw_str kwargs ''error_message'', k_sell_amount := kw_str kwargs ''sell_amount'',
           k_requested_sell_amount := kw_str kwargs ''requested_sell_amount'', k_tx_hash := kw_str kwargs ''tx_hash'',
           k_detail := detail\<rparr>)"

definition insert_operation_tx ::
  "string \<Rightarrow> kick_candidate \<Rightarrow> string \<Rightarrow> string \<Rightarrow> string \<Rightarrow> kwargs \<Rightarrow> int exec" where
  "insert_operation_tx run_id candidate now operation_type status kwargs =
     (let row = operation_row run_id candidate now operation_type status kwargs in
      with_kicks (\<lambda>kicks.
        let round_kick = (if operation_type \<in> {''resolve_auction'', ''sweep_auction''}
          then latest_confirmed_unclosed_kick kicks (k_auction_address row) (k_token_address row) None else None)
        in kick_insert (row\<lparr>k_round_kick_id := map_option k_id round_kick\<rparr>) kicks))"

definition kick_status_value :: "kick_status \<Rightarrow> string" where
  "kick_status_value status = (case status of SUBMITTED \<Rightarrow> ''SUBMITTED'' | CONFIRMED \<Rightarrow> ''CONFIRMED'' | REVERTED \<Rightarrow> ''REVERTED''
     | DRY_RUN \<Rightarrow> ''DRY_RUN'' | ERROR \<Rightarrow> ''ERROR'' | ESTIMATE_FAILED \<Rightarrow> ''ESTIMATE_FAILED'' | SKIPPED \<Rightarrow> ''SKIP'' | USER_SKIPPED \<Rightarrow> ''USER_SKIPPED'')"

text \<open>The keywords \<open>_fail\<close> takes; another one is a \<open>TypeError\<close> of the call, before its body.\<close>

definition fail_parameters :: "string list" where
  "fail_parameters = [''token_address'', ''token_symbol'', ''sell_amount'', ''starting_price'', ''minimum_price'', ''minimum_quote'',
     ''usd_value'', ''quote_amount'', ''quote_response_json'', ''start_price_buffer_bps'', ''min_price_buffer_bps'',
     ''step_decay_rate_bps'', ''normalized_balance'', ''stuck_abort_reason'']"

definition unexpected_keyword :: "string \<Rightarrow> exn" where
  "unexpected_keyword name = TypeError (''KickExecutor._fail() got an unexpected keyword argument '' @ CHR 0x27 # name @ [CHR 0x27])"

definition fail_operation ::
  "string \<Rightarrow> kick_candidate \<Rightarrow> string \<Rightarrow> string \<Rightarrow> kick_status \<Rightarrow> string \<Rightarrow> kwargs \<Rightarrow> kick_result exec" where
  "fail_operation run_id candidate now operation_type status error_message kwargs =
     (case find (\<lambda>(name, _). name \<notin> set fail_parameters) kwargs of
        Some (name, _) \<Rightarrow> exec_raise (unexpected_keyword name)
      | None \<Rightarrow>
          exec_bind (insert_operation_tx run_id candidate now operation_type (kick_status_value status)
            ((''error_message'', JStr error_message) # kwargs)) (\<lambda>kick_tx_id.
          exec_return ((kick_result_of status error_message)\<lparr>kr_kick_tx_id := kick_tx_id\<rparr>)))"

definition opt_str :: "string option \<Rightarrow> json" where
  "opt_str v = (case v of None \<Rightarrow> JNull | Some s \<Rightarrow> JStr s)"

fun json_dumps :: "json \<Rightarrow> string" where
  "json_dumps JNull = ''null''"
| "json_dumps (JBool b) = (if b then ''true'' else ''false'')"
| "json_dumps (JInt i) = show_int i"
| "json_dumps (JFloat f) = f"
| "json_dumps (JStr s) = json_string s"
| "json_dumps (JList vs) = ''['' @ join_str '', '' (map json_dumps vs) @ '']''"
| "json_dumps (JObj entries) = ''{'' @ join_str '', '' (map (\<lambda>(k, v). json_string k @ '': '' @ json_dumps v) entries) @ ''}''"

definition pk_audit_kwargs :: "prepared_kick \<Rightarrow> kwargs" where
  "pk_audit_kwargs kick =
     [(''requested_sell_amount'', JStr (pk_sell_amount_str kick)), (''starting_price'', JStr (pk_starting_price_raw_str kick)),
      (''minimum_price'', JStr (pk_minimum_price_scaled_1e18_str kick)), (''minimum_quote'', JStr (pk_minimum_quote_unscaled_str kick)),
      (''usd_value'', JStr (pk_usd_value_str kick)), (''quote_amount'', JStr (pk_quote_amount_str kick)),
      (''quote_response_json'', opt_str (map_option json_dumps (pk_quote_response_json kick))),
      (''start_price_buffer_bps'', JInt (pk_start_price_buffer_bps kick)), (''min_price_buffer_bps'', JInt (pk_min_price_buffer_bps kick)),
      (''step_decay_rate_bps'', JInt (pk_step_decay_rate_bps kick)), (''normalized_balance'', JStr (pk_normalized_balance kick))]"

definition resolve_audit_kwargs :: "prepared_resolve \<Rightarrow> kwargs" where
  "resolve_audit_kwargs operation =
     [(''token_address'', JStr (rv_sell_token operation)), (''token_symbol'', opt_str (rv_token_symbol operation)),
      (''stuck_abort_reason'', JStr (rv_reason operation))]"

text \<open>A prepare-time failure; the requested amount is passed on as the keyword \<open>requested_sell_amount\<close>.\<close>

definition record_prepare_failure :: "string \<Rightarrow> exec_env \<Rightarrow> kick_candidate \<Rightarrow> kick_result \<Rightarrow> kick_result exec" where
  "record_prepare_failure run_id env candidate result =
     exec_bind (ask (en_now (xe_node env))) (\<lambda>now.
     exec_bind (fail_operation run_id candidate now ''kick'' (kr_status result)
       (case kr_error_message result of None \<Rightarrow> ''candidate preparation failed''
        | Some m \<Rightarrow> if m = [] then ''candidate preparation failed'' else m)
       [(''requested_sell_amount'', opt_str (kr_sell_amount result)), (''starting_price'', opt_str (kr_starting_price result)),
        (''minimum_price'', opt_str (kr_minimum_price result)), (''minimum_quote'', opt_str (kr_minimum_quote result)),
        (''usd_value'', opt_str (kr_usd_value result)),
        (''quote_response_json'', opt_str (map_option json_dumps (kr_quote_response_json result)))]) (\<lambda>persisted.
     exec_return (result\<lparr>kr_kick_tx_id := kr_kick_tx_id persisted, kr_status := kr_status persisted,
       kr_error_message := kr_error_message persisted, kr_reason_code := None, kr_reason_data := None\<rparr>)))"

definition fail_batch :: "string \<Rightarrow> prepared_kick list \<Rightarrow> string \<Rightarrow> kick_status \<Rightarrow> string \<Rightarrow> kick_result list exec" where
  "fail_batch run_id kicks now status error_message =
     exec_each (\<lambda>kick. fail_operation run_id (pk_candidate kick) now ''kick'' status error_message (pk_audit_kwargs kick)) kicks"

section \<open>Fees and the broadcast\<close>

text \<open>\<open>f"{x:.2f}"\<close>\<close>

definition show_fixed2 :: "rat \<Rightarrow> string" where
  "show_fixed2 x =
     (let n = nat \<bar>rat_half_even (x * 100)\<bar>
      in (if x < 0 then ''-'' else []) @ show_nat (n div 100) @ ''.'' @ pad_digits 2 (n mod 100))"

definition py_truncate :: "rat \<Rightarrow> int" where
  "py_truncate x = (if x < 0 then \<lceil>x\<rceil> else \<lfloor>x\<rfloor>)"

definition gwei_of_wei :: "int \<Rightarrow> rat" where
  "gwei_of_wei wei = double_round (double_round (of_int wei) / 10 ^ 9)"

text \<open>The base fee in gwei, or why nothing may be sent.\<close>

definition check_base_fee :: "exec_env \<Rightarrow> (string + rat) exec" where
  "check_base_fee env = exec_bind (ask (en_base_fee (xe_node env))) (\<lambda>answer.
     exec_return (case answer of
         Inl e \<Rightarrow> Inl (''base fee check failed: '' @ exn_str e)
       | Inr base_fee_wei \<Rightarrow>
           let base_fee_gwei = gwei_of_wei base_fee_wei in
           if \<not> xe_skip_base_fee_check env \<and> xe_base_fee_cap_gwei env < base_fee_gwei
           then Inl (''base fee '' @ show_fixed2 base_fee_gwei @ '' gwei exceeds cap '' @ xe_base_fee_cap_text env)
           else Inr base_fee_gwei))"

definition resolve_priority_fee_wei :: "exec_env \<Rightarrow> int exec" where
  "resolve_priority_fee_wei env = exec_bind (ask (en_max_priority_fee (xe_node env))) (\<lambda>suggested.
     exec_return (min (case suggested of Inl _ \<Rightarrow> 100000000 | Inr wei \<Rightarrow> wei) (xe_max_priority_fee_gwei env * 10 ^ 9)))"

definition fee_base_gwei :: "exec_env \<Rightarrow> rat \<Rightarrow> rat" where
  "fee_base_gwei env base_fee_gwei = (if xe_skip_base_fee_check env then base_fee_gwei else xe_base_fee_cap_gwei env)"

definition require_signer :: "exec_env \<Rightarrow> string exec" where
  "require_signer env = (case xe_signer env of
     None \<Rightarrow> exec_raise (RuntimeError ''Signer is required for live execution.'') | Some a \<Rightarrow> exec_return a)"

text \<open>Signing and sending; the transaction is out as soon as the node returned its hash.\<close>

definition send_transaction :: "exec_env \<Rightarrow> string \<Rightarrow> string \<Rightarrow> int \<Rightarrow> rat \<Rightarrow> int \<Rightarrow> (string result) exec" where
  "send_transaction env target tx_data gas_limit base_fee_gwei priority_fee_wei =
     exec_bind (ask (en_transaction_count (xe_node env))) (\<lambda>nonce. exec_bind (exec_lift nonce) (\<lambda>nonce.
     let max_fee_wei = py_truncate (float_mul (fee_base_gwei env base_fee_gwei) (10 ^ 9)) + priority_fee_wei;
         full_tx = \<lparr>ft_to = target, ft_data = tx_data, ft_chain_id = xe_chain_id env, ft_gas = gas_limit,
           ft_max_fee_per_gas = max_fee_wei, ft_max_priority_fee_per_gas = priority_fee_wei, ft_nonce = nonce\<rparr>
     in exec_bind (ask (\<lambda>t. en_send (xe_node env) t full_tx)) (\<lambda>answer s.
          case answer of Inl e \<Rightarrow> (Inr (Inl e), s)
          | Inr tx_hash \<Rightarrow> (Inr (Inr tx_hash), s\<lparr>xs_sent := xs_sent s @ [(tx_hash, full_tx)]\<rparr>))))"

text \<open>The status a mined transaction gives its rows, and its gas price.\<close>

definition final_status :: "receipt \<Rightarrow> kick_status" where
  "final_status receipt = (if rc_status receipt = Some 1 then CONFIRMED else REVERTED)"

definition exec_report ::
  "exec_env \<Rightarrow> string \<Rightarrow> string \<Rightarrow> string \<Rightarrow> string \<Rightarrow> int \<Rightarrow> receipt option \<Rightarrow> execution_report" where
  "exec_report env operation sender tx_hash broadcast_at gas_estimate receipt =
     \<lparr>er_operation = operation, er_sender = Some sender, er_tx_hash = tx_hash, er_broadcast_at = broadcast_at,
      er_chain_id = xe_chain_id env, er_gas_estimate = Some gas_estimate,
      er_receipt_status = map_option (\<lambda>r. kick_status_value (final_status r)) receipt,
      er_block_number = map_option rc_block_number receipt, er_gas_used = Option.bind receipt rc_gas_used\<rparr>"

definition reconcile_receipt :: "exec_env \<Rightarrow> reconciler \<Rightarrow> string \<Rightarrow> receipt \<Rightarrow> unit exec" where
  "reconcile_receipt env r tx_hash receipt =
     exec_bind (ask (en_now (xe_node env))) (\<lambda>now s.
       case finalize_receipt r now tx_hash receipt (xs_ledger s) of
         Inl e \<Rightarrow> (Inl e, s)
       | Inr (db, _) \<Rightarrow> (Inr (), s\<lparr>xs_ledger := db\<rparr>))"

definition update_receipt_status :: "int \<Rightarrow> receipt \<Rightarrow> unit exec" where
  "update_receipt_status kick_tx_id receipt =
     with_kicks (\<lambda>kicks. (kick_update_status kick_tx_id (kick_status_value (final_status receipt)) None (rc_gas_used receipt)
       (receipt_gas_price receipt) (Some (rc_block_number receipt)) None kicks, ()))"

section \<open>The confirmation\<close>

definition starting_price_amount_str :: "prepared_kick \<Rightarrow> string result" where
  "starting_price_amount_str kick =
     (if pk_starting_price_encoding kick = WHOLE_WANT then Inr (show_int_commas (pk_starting_price_raw kick))
      else err_bind (decode_starting_price_amount (pk_starting_price_raw kick) (pk_starting_price_encoding kick)) (\<lambda>amount.
        Inr (dec_format_f amount)))"

definition quote_rate :: "prepared_kick \<Rightarrow> string result" where
  "quote_rate kick =
     err_bind (parse_decimal (pk_quote_amount_str kick)) (\<lambda>quote_amount.
     err_bind (parse_decimal (pk_normalized_balance kick)) (\<lambda>balance.
     err_bind (dec_div quote_amount balance) (\<lambda>rate. Inr (dec_str rate))))"

definition start_rate :: "prepared_kick \<Rightarrow> string result" where
  "start_rate kick =
     err_bind (decode_starting_price_amount (pk_starting_price_raw kick) (pk_starting_price_encoding kick)) (\<lambda>amount.
     err_bind (parse_decimal (pk_normalized_balance kick)) (\<lambda>balance.
     err_bind (dec_div amount balance) (\<lambda>rate. Inr (dec_str rate))))"

definition floor_rate :: "prepared_kick \<Rightarrow> string result" where
  "floor_rate kick = err_bind (dec_div (dec_of_int (pk_minimum_price_scaled_1e18 kick)) WAD) (\<lambda>rate. Inr (dec_str rate))"

definition kick_summary_of :: "string \<Rightarrow> prepared_kick \<Rightarrow> kick_summary result" where
  "kick_summary_of sender kick =
     (let c = pk_candidate kick; want_symbol = want_symbol_text c in
      err_bind (starting_price_amount_str kick) (\<lambda>starting_price_amount.
      err_bind (format_buffer_pct (pk_start_price_buffer_bps kick)) (\<lambda>start_buffer.
      err_bind (format_buffer_pct (pk_min_price_buffer_bps kick)) (\<lambda>min_buffer.
      err_bind (quote_rate kick) (\<lambda>quote_rate. err_bind (start_rate kick) (\<lambda>start_rate. err_bind (floor_rate kick) (\<lambda>floor_rate.
      Inr \<lparr>ks_source = ca_source_address c, ks_source_name = ca_source_name c, ks_source_type = ca_source_type c,
        ks_sender = sender, ks_token = ca_token_address c, ks_token_symbol = ca_token_symbol c, ks_auction = ca_auction_address c,
        ks_sell_amount = pk_normalized_balance kick, ks_usd_value = pk_usd_value_str kick,
        ks_starting_price = pk_starting_price_raw_str kick,
        ks_starting_price_display = starting_price_amount @ '' '' @ want_symbol @ '' (+'' @ start_buffer @ '' buffer)'',
        ks_minimum_price = pk_minimum_price_scaled_1e18_str kick,
        ks_minimum_price_scaled_1e18 = pk_minimum_price_scaled_1e18_str kick, ks_minimum_quote = pk_minimum_quote_unscaled_str kick,
        ks_minimum_quote_display = show_int_commas (pk_minimum_quote_unscaled kick) @ '' '' @ want_symbol @ '' (-'' @ min_buffer @ '' buffer)'',
        ks_minimum_price_display = show_int_commas (pk_minimum_price_scaled_1e18 kick) @ '' (scaled 1e18 floor)'',
        ks_sell_price_usd = ca_price_usd c, ks_want_address = ca_want_address c, ks_want_symbol = ca_want_symbol c,
        ks_want_price_usd = pk_want_price_usd_str kick, ks_quote_rate = quote_rate, ks_start_rate = start_rate,
        ks_floor_rate = floor_rate, ks_buffer_bps = pk_start_price_buffer_bps kick, ks_min_buffer_bps = pk_min_price_buffer_bps kick,
        ks_step_decay_rate_bps = pk_step_decay_rate_bps kick, ks_pricing_profile_name = pk_pricing_profile_name kick,
        ks_quote_amount = pk_quote_amount_str kick\<rparr>)))))))"

definition batch_summary_of ::
  "exec_env \<Rightarrow> string \<Rightarrow> prepared_kick list \<Rightarrow> int \<Rightarrow> int \<Rightarrow> rat \<Rightarrow> int \<Rightarrow> batch_summary result" where
  "batch_summary_of env sender kicks gas_estimate gas_limit base_fee_gwei priority_fee_wei =
     err_bind (traverse_err (kick_summary_of sender) kicks) (\<lambda>summaries.
     err_bind (traverse_err (\<lambda>kick. parse_decimal (pk_usd_value_str kick)) kicks) (\<lambda>values.
     let priority_fee_gwei = gwei_of_wei priority_fee_wei in
     Inr \<lparr>bs_kicks = summaries, bs_batch_size = length kicks, bs_total_usd = dec_str (foldl dec_add (dec_of_int 0) values),
       bs_gas_estimate = gas_estimate, bs_gas_limit = gas_limit, bs_base_fee_gwei = base_fee_gwei,
       bs_priority_fee_gwei = priority_fee_gwei,
       bs_max_fee_per_gas_gwei = double_round (fee_base_gwei env base_fee_gwei + priority_fee_gwei),
       bs_gas_cost_eth = double_round (float_mul (double_round (of_int gas_estimate)) base_fee_gwei / 10 ^ 9)\<rparr>))"

definition confirmed :: "exec_env \<Rightarrow> string \<Rightarrow> prepared_kick list \<Rightarrow> int \<Rightarrow> int \<Rightarrow> rat \<Rightarrow> int \<Rightarrow> bool exec" where
  "confirmed env sender kicks gas_estimate gas_limit base_fee_gwei priority_fee_wei =
     (case xe_confirm env of None \<Rightarrow> exec_return True
      | Some confirm \<Rightarrow> exec_bind (exec_lift (batch_summary_of env sender kicks gas_estimate gas_limit base_fee_gwei priority_fee_wei))
          (\<lambda>summary. exec_return (confirm summary)))"

section \<open>Kicks\<close>

text \<open>The result of a kick that was sent, before the fields its receipt adds.\<close>

definition sent_kick_result :: "prepared_kick \<Rightarrow> int \<Rightarrow> kick_status \<Rightarrow> kick_result" where
  "sent_kick_result kick kick_tx_id status =
     (kick_result_of status [])\<lparr>kr_kick_tx_id := kick_tx_id, kr_error_message := None, kr_sell_amount := Some (pk_sell_amount_str kick),
       kr_starting_price := Some (pk_starting_price_raw_str kick), kr_minimum_price := Some (pk_minimum_price_scaled_1e18_str kick),
       kr_minimum_quote := Some (pk_minimum_quote_unscaled_str kick), kr_live_balance_raw := Some (pk_live_balance_raw kick),
       kr_usd_value := Some (pk_usd_value_str kick)\<rparr>"

definition user_skip :: "string \<Rightarrow> string \<Rightarrow> prepared_kick \<Rightarrow> kick_result exec" where
  "user_skip run_id now kick =
     exec_bind (insert_operation_tx run_id (pk_candidate kick) now ''kick'' (kick_status_value USER_SKIPPED) (pk_audit_kwargs kick))
       (\<lambda>kick_tx_id. exec_return (sent_kick_result kick kick_tx_id USER_SKIPPED))"

definition insert_submitted :: "string \<Rightarrow> string \<Rightarrow> string \<Rightarrow> prepared_kick \<Rightarrow> int exec" where
  "insert_submitted run_id now tx_hash kick =
     insert_operation_tx run_id (pk_candidate kick) now ''kick'' (kick_status_value SUBMITTED)
       ((''tx_hash'', JStr tx_hash) # pk_audit_kwargs kick)"

definition receipt_result ::
  "exec_env \<Rightarrow> string \<Rightarrow> string \<Rightarrow> string \<Rightarrow> int \<Rightarrow> receipt \<Rightarrow> int \<times> prepared_kick \<Rightarrow> kick_result exec" where
  "receipt_result env sender tx_hash now gas_estimate receipt = (\<lambda>(kick_tx_id, kick).
     exec_bind (if xe_reconciler env = None then update_receipt_status kick_tx_id receipt else exec_return ()) (\<lambda>_ s.
       (Inr ((sent_kick_result kick kick_tx_id (final_status receipt))\<lparr>kr_tx_hash := Some tx_hash, kr_gas_used := rc_gas_used receipt,
          kr_gas_price_gwei := receipt_gas_price receipt, kr_block_number := Some (rc_block_number receipt),
          kr_sell_amount := Option.bind (kick_get (l_kicks (xs_ledger s)) kick_tx_id) k_sell_amount,
          kr_execution_report := Some (exec_report env ''kick'' sender tx_hash now gas_estimate (Some receipt))\<rparr>), s)))"

text \<open>After the broadcast: one row per kick, then the receipt.\<close>

definition settle_kicks ::
  "exec_env \<Rightarrow> string \<Rightarrow> prepared_kick list \<Rightarrow> string \<Rightarrow> string \<Rightarrow> string \<Rightarrow> int \<Rightarrow> kick_result list exec" where
  "settle_kicks env run_id kicks now sender tx_hash gas_estimate =
     exec_bind (exec_each (insert_submitted run_id now tx_hash) kicks) (\<lambda>kick_tx_ids.
     exec_bind (ask (\<lambda>t. en_receipt (xe_node env) t tx_hash)) (\<lambda>answer.
     case answer of
       Inl e \<Rightarrow> exec_return (map (\<lambda>(kick_tx_id, kick). (sent_kick_result kick kick_tx_id SUBMITTED)\<lparr>kr_tx_hash := Some tx_hash,
           kr_error_message := Some (''receipt timeout: '' @ exn_str e),
           kr_execution_report := Some (exec_report env ''kick'' sender tx_hash now gas_estimate None)\<rparr>) (zip kick_tx_ids kicks))
     | Inr receipt \<Rightarrow>
         exec_bind (case xe_reconciler env of None \<Rightarrow> exec_return () | Some r \<Rightarrow> reconcile_receipt env r tx_hash receipt) (\<lambda>_.
         exec_each (receipt_result env sender tx_hash now gas_estimate receipt) (zip kick_tx_ids kicks))))"

definition execute_tx :: "exec_env \<Rightarrow> prepared_kick list \<Rightarrow> string \<Rightarrow> string \<Rightarrow> kick_result list exec" where
  "execute_tx env kicks tx_data run_id =
     exec_bind (ask (en_now (xe_node env))) (\<lambda>now.
     exec_bind (require_signer env) (\<lambda>sender.
     exec_bind (exec_lift (tb_checksum (xe_builder env) (tb_kicker_address (xe_builder env)))) (\<lambda>kicker_address.
     exec_bind (check_base_fee env) (\<lambda>base_fee.
     case base_fee of Inl message \<Rightarrow> fail_batch run_id kicks now ERROR message
     | Inr base_fee_gwei \<Rightarrow>
     exec_bind (ask (\<lambda>t. en_estimate_gas (xe_node env) t sender kicker_address tx_data)) (\<lambda>estimate.
     case estimate of Inl message \<Rightarrow> fail_batch run_id kicks now ESTIMATE_FAILED message
     | Inr gas_estimate \<Rightarrow>
     let batch_gas_cap = xe_max_gas_limit env * int (length kicks); gas_limit = min (gas_with_buffer gas_estimate) batch_gas_cap in
     if batch_gas_cap < gas_estimate
     then fail_batch run_id kicks now ERROR (''gas estimate '' @ show_int gas_estimate @ '' exceeds batch cap '' @ show_int batch_gas_cap)
     else
     exec_bind (resolve_priority_fee_wei env) (\<lambda>priority_fee_wei.
     exec_bind (confirmed env sender kicks gas_estimate gas_limit base_fee_gwei priority_fee_wei) (\<lambda>yes.
     if \<not> yes then exec_each (user_skip run_id now) kicks
     else
     exec_bind (send_transaction env kicker_address tx_data gas_limit base_fee_gwei priority_fee_wei) (\<lambda>answer.
     case answer of Inl e \<Rightarrow> fail_batch run_id kicks now ERROR (''send failed: '' @ exn_str e)
     | Inr tx_hash \<Rightarrow> settle_kicks env run_id kicks now sender tx_hash gas_estimate))))))))"

definition execute_single :: "exec_env \<Rightarrow> string \<Rightarrow> prepared_kick \<Rightarrow> kick_result exec" where
  "execute_single env run_id kick =
     exec_bind (require_signer env) (\<lambda>sender.
     exec_bind (exec_lift (build_single_kick_intent (xe_builder env) (Some sender) kick)) (\<lambda>intent.
     exec_bind (execute_tx env [kick] (ti_data intent) run_id) (\<lambda>results.
     case results of [] \<Rightarrow> exec_raise IndexError | r # _ \<Rightarrow> exec_return r)))"

definition execute_batch :: "exec_env \<Rightarrow> string \<Rightarrow> prepared_kick list \<Rightarrow> kick_result list exec" where
  "execute_batch env run_id kicks =
     (if length kicks = 1 then exec_each (execute_single env run_id) kicks
      else
        exec_bind (require_signer env) (\<lambda>sender.
        exec_bind (exec_lift (build_batch_kick_intent (xe_builder env) (Some sender) kicks)) (\<lambda>intent.
        exec_bind (ask (\<lambda>t. en_estimate_gas (xe_node env) t sender (ti_to intent) (ti_data intent))) (\<lambda>estimate.
        if is_active_auction_error (case estimate of Inl message \<Rightarrow> Some message | Inr _ \<Rightarrow> None)
        then exec_each (execute_single env run_id) kicks
        else execute_tx env kicks (ti_data intent) run_id))))"

section \<open>Resolutions\<close>

definition resolve_result :: "prepared_resolve \<Rightarrow> int \<Rightarrow> kick_status \<Rightarrow> string \<Rightarrow> kick_result" where
  "resolve_result operation kick_tx_id status tx_hash =
     (kick_result_of status [])\<lparr>kr_kick_tx_id := kick_tx_id, kr_error_message := None, kr_tx_hash := Some tx_hash,
       kr_sell_amount := Some (show_int (rv_balance_raw operation))\<rparr>"

definition settle_resolve ::
  "exec_env \<Rightarrow> string \<Rightarrow> prepared_resolve \<Rightarrow> string \<Rightarrow> string \<Rightarrow> string \<Rightarrow> int \<Rightarrow> kick_result exec" where
  "settle_resolve env run_id operation now sender tx_hash gas_estimate =
     exec_bind (insert_operation_tx run_id (rv_candidate operation) now ''resolve_auction'' (kick_status_value SUBMITTED)
       ((''tx_hash'', JStr tx_hash) # resolve_audit_kwargs operation)) (\<lambda>kick_tx_id.
     exec_bind (ask (\<lambda>t. en_receipt (xe_node env) t tx_hash)) (\<lambda>answer.
     case answer of
       Inl e \<Rightarrow> exec_return ((resolve_result operation kick_tx_id SUBMITTED tx_hash)\<lparr>
         kr_error_message := Some (''receipt timeout: '' @ exn_str e),
         kr_execution_report := Some (exec_report env ''resolve-auction'' sender tx_hash now gas_estimate None)\<rparr>)
     | Inr receipt \<Rightarrow>
         exec_bind (case xe_reconciler env of None \<Rightarrow> update_receipt_status kick_tx_id receipt
           | Some r \<Rightarrow> reconcile_receipt env r tx_hash receipt) (\<lambda>_.
         exec_return ((resolve_result operation kick_tx_id (final_status receipt) tx_hash)\<lparr>kr_gas_used := rc_gas_used receipt,
           kr_gas_price_gwei := receipt_gas_price receipt, kr_block_number := Some (rc_block_number receipt),
           kr_execution_report := Some (exec_report env ''resolve-auction'' sender tx_hash now gas_estimate (Some receipt))\<rparr>))))"

definition fail_resolve :: "string \<Rightarrow> prepared_resolve \<Rightarrow> string \<Rightarrow> kick_status \<Rightarrow> string \<Rightarrow> kick_result exec" where
  "fail_resolve run_id operation now status message =
     fail_operation run_id (rv_candidate operation) now ''resolve_auction'' status message (resolve_audit_kwargs operation)"

definition execute_resolve_auction :: "exec_env \<Rightarrow> string \<Rightarrow> prepared_resolve \<Rightarrow> kick_result exec" where
  "execute_resolve_auction env run_id operation =
     exec_bind (ask (en_now (xe_node env))) (\<lambda>now.
     exec_bind (require_signer env) (\<lambda>sender.
     exec_bind (check_base_fee env) (\<lambda>base_fee.
     case base_fee of Inl message \<Rightarrow> fail_resolve run_id operation now ERROR message
     | Inr base_fee_gwei \<Rightarrow>
     exec_bind (exec_lift (build_resolve_auction_intent (xe_builder env) (Some sender) operation)) (\<lambda>intent.
     exec_bind (ask (\<lambda>t. en_estimate_gas (xe_node env) t sender (ti_to intent) (ti_data intent))) (\<lambda>estimate.
     case estimate of Inl message \<Rightarrow> fail_resolve run_id operation now ESTIMATE_FAILED message
     | Inr gas_estimate \<Rightarrow>
     if xe_max_gas_limit env < gas_estimate
     then fail_resolve run_id operation now ERROR
       (''gas estimate '' @ show_int gas_estimate @ '' exceeds batch cap '' @ show_int (xe_max_gas_limit env))
     else
     exec_bind (resolve_priority_fee_wei env) (\<lambda>priority_fee_wei.
     exec_bind (send_transaction env (ti_to intent) (ti_data intent) (min (gas_with_buffer gas_estimate) (xe_max_gas_limit env))
       base_fee_gwei priority_fee_wei) (\<lambda>answer.
     case answer of Inl e \<Rightarrow> fail_resolve run_id operation now ERROR (''send failed: '' @ exn_str e)
     | Inr tx_hash \<Rightarrow> settle_resolve env run_id operation now sender tx_hash gas_estimate)))))))"

end
