(* ===== verification/KickService.thy ===== *)
theory KickService
  imports KickExecute
begin

text \<open>
  \<open>TxnService\<close> of \<open>transaction_service/service.py\<close>: one run from the plan to the \<open>txn_runs\<close> row. The
  run id is an input, and the file lock is held or not. The report callback's own failures are only logged.
\<close>

record run_result =
  rr_run_id :: string
  rr_status :: string
  rr_candidates_found :: int
  rr_kicks_attempted :: int
  rr_kicks_succeeded :: int
  rr_kicks_failed :: int
  rr_eligible_candidates_found :: "int option"
  rr_deferred_same_auction_count :: int
  rr_limited_candidate_count :: int
  rr_failure_summary :: "(string \<times> int) list option"

record run_request =
  rn_live :: bool
  rn_batch :: bool
  rn_source_type :: "string option"
  rn_source_address :: "string option"
  rn_auction_address :: "string option"
  rn_limit :: "int option"
  rn_token_address :: "string option"
  rn_allow_no_fill_retry :: bool

record service_env =
  se_executor :: exec_env
  se_planner :: plan_env
  se_reports :: bool

section \<open>The runs table\<close>

definition run_create :: "string \<Rightarrow> string \<Rightarrow> bool \<Rightarrow> txn_run list \<Rightarrow> txn_run list" where
  "run_create run_id started_at live runs = runs @ [\<lparr>tr_run_id = run_id, tr_started_at = started_at, tr_finished_at = None,
     tr_status = ''RUNNING'', tr_candidates_found = 0, tr_kicks_attempted = 0, tr_kicks_succeeded = 0, tr_kicks_failed = 0,
     tr_live = live, tr_error_summary = None\<rparr>]"

definition run_finalize ::
  "string \<Rightarrow> string \<Rightarrow> string \<Rightarrow> int \<Rightarrow> int \<Rightarrow> int \<Rightarrow> int \<Rightarrow> string option \<Rightarrow> txn_run list \<Rightarrow> txn_run list" where
  "run_finalize run_id finished_at status found attempted succeeded failed error_summary runs =
     map (\<lambda>run. if tr_run_id run = run_id
       then run\<lparr>tr_finished_at := Some finished_at, tr_status := status, tr_candidates_found := found, tr_kicks_attempted := attempted,
         tr_kicks_succeeded := succeeded, tr_kicks_failed := failed, tr_error_summary := error_summary\<rparr> else run) runs"

definition with_runs :: "(txn_run list \<Rightarrow> txn_run list) \<Rightarrow> unit exec" where
  "with_runs f s = (Inr (), s\<lparr>xs_runs := f (xs_runs s)\<rparr>)"

section \<open>Counting results\<close>

text \<open>Succeeded, failed, attempted, and the messages of the failures.\<close>

type_synonym tally = "int \<times> int \<times> int \<times> string list"

definition failed_status :: "kick_status \<Rightarrow> bool" where
  "failed_status status \<longleftrightarrow> status \<in> {REVERTED, ERROR, ESTIMATE_FAILED}"

definition add_message :: "kick_result \<Rightarrow> string list \<Rightarrow> string list" where
  "add_message result messages =
     (case kr_error_message result of None \<Rightarrow> messages | Some m \<Rightarrow> if m = [] then messages else messages @ [m])"

definition tally_exec_result :: "kick_result \<Rightarrow> tally \<Rightarrow> tally" where
  "tally_exec_result result = (\<lambda>(succeeded, failed, attempted, messages).
     if kr_status result = CONFIRMED then (succeeded + 1, failed, attempted, messages)
     else if failed_status (kr_status result) then (succeeded, failed + 1, attempted, add_message result messages)
     else if kr_status result = USER_SKIPPED then (succeeded, failed, attempted - 1, messages)
     else (succeeded, failed, attempted, messages))"

definition emit_execution_report :: "service_env \<Rightarrow> kick_result \<Rightarrow> unit exec" where
  "emit_execution_report env result s =
     (Inr (), case kr_execution_report result of None \<Rightarrow> s
      | Some report \<Rightarrow> if se_reports env then s\<lparr>xs_reports := xs_reports s @ [report]\<rparr> else s)"

definition tally_result :: "service_env \<Rightarrow> kick_result \<Rightarrow> tally \<Rightarrow> tally exec" where
  "tally_result env result t = exec_bind (emit_execution_report env result) (\<lambda>_. exec_return (tally_exec_result result t))"

fun exec_fold :: "('a \<Rightarrow> 'b \<Rightarrow> 'b exec) \<Rightarrow> 'a list \<Rightarrow> 'b \<Rightarrow> 'b exec" where
  "exec_fold f [] t = exec_return t"
| "exec_fold f (x # xs) t = exec_bind (f x t) (exec_fold f xs)"

text \<open>A candidate that failed while preparing; a skip is only skipped.\<close>

definition persist_prepare_failure :: "service_env \<Rightarrow> string \<Rightarrow> kick_candidate \<Rightarrow> kick_result \<Rightarrow> kick_result exec" where
  "persist_prepare_failure env run_id candidate result =
     (if kr_status result = SKIPPED then exec_return result
      else record_prepare_failure run_id (se_executor env) candidate result)"

definition apply_prepare_result :: "service_env \<Rightarrow> string \<Rightarrow> skipped_candidate \<Rightarrow> tally \<Rightarrow> tally exec" where
  "apply_prepare_result env run_id skipped = (\<lambda>(succeeded, failed, attempted, messages).
     case sk_result skipped of None \<Rightarrow> exec_return (succeeded, failed, attempted, messages)
     | Some result \<Rightarrow>
         if kr_status result = SKIPPED then exec_return (succeeded, failed, attempted, messages)
         else exec_bind (persist_prepare_failure env run_id (sk_candidate skipped) result) (\<lambda>result.
           exec_return (if kr_status result = SKIPPED then (succeeded, failed, attempted - 1, messages)
             else if failed_status (kr_status result) then (succeeded, failed + 1, attempted, add_message result messages)
             else (succeeded, failed, attempted, messages))))"

section \<open>Dry runs\<close>

definition insert_dry_run_kick_row :: "string \<Rightarrow> string \<Rightarrow> prepared_kick \<Rightarrow> int exec" where
  "insert_dry_run_kick_row run_id now kick =
     with_kicks (kick_insert (operation_row run_id (pk_candidate kick) now ''kick'' ''DRY_RUN'' (pk_audit_kwargs kick)))"

definition insert_dry_run_resolve_row :: "string \<Rightarrow> string \<Rightarrow> prepared_resolve \<Rightarrow> int exec" where
  "insert_dry_run_resolve_row run_id now operation =
     with_kicks (kick_insert (let c = rv_candidate operation in
       empty_kick_tx\<lparr>k_run_id := run_id, k_operation_type := ''resolve_auction'', k_source_type := Some (ca_source_type c),
         k_source_address := Some (ca_source_address c),
         k_strategy_address := (if ca_source_type c = ''strategy'' then Some (ca_source_address c) else None),
         k_token_address := rv_sell_token operation, k_auction_address := ca_auction_address c, k_status := ''DRY_RUN'',
         k_created_at := now, k_detail := empty_kick_detail\<lparr>
           kd_want_address := Some (ca_want_address c), kd_want_symbol := ca_want_symbol c,
           kd_token_symbol := (case rv_token_symbol operation of None \<Rightarrow> ca_token_symbol c | Some s \<Rightarrow> Some s),
           kd_stuck_abort_reason := Some (rv_reason operation), kd_normalized_balance := rv_normalized_balance operation\<rparr>\<rparr>))"

section \<open>A run\<close>

definition planner_sender :: "service_env \<Rightarrow> string option" where
  "planner_sender env = xe_signer (se_executor env)"

definition run_plan :: "service_env \<Rightarrow> run_request \<Rightarrow> exec_state \<Rightarrow> kick_plan result" where
  "run_plan env rq s =
     (let pe = (se_planner env)\<lparr>ple_kicks := l_kicks (xs_ledger s), ple_sender := (if rn_live rq then planner_sender env else None),
        ple_batch := rn_batch rq, ple_estimate_transactions := rn_live rq, ple_allow_killed_gauge := False,
        ple_allow_no_fill_retry := rn_allow_no_fill_retry rq\<rparr>
      in kick_plan_of pe (plan_request pe (rn_source_type rq) (rn_source_address rq) (rn_auction_address rq)
           (rn_token_address rq) (rn_limit rq)))"

definition execute_plan :: "service_env \<Rightarrow> run_request \<Rightarrow> string \<Rightarrow> kick_plan \<Rightarrow> tally \<Rightarrow> tally exec" where
  "execute_plan env rq run_id plan t =
     exec_bind (exec_fold (\<lambda>operation t. exec_bind (execute_resolve_auction (se_executor env) run_id operation) (\<lambda>r. tally_result env r t))
       (pl_resolve_operations plan) t) (\<lambda>t.
     let kicks = pl_kick_operations plan;
         kick_intent_count = length (filter (\<lambda>intent. ti_operation intent = ''kick'') (pl_tx_intents plan)) in
     if kicks = [] then exec_return t
     else if \<not> rn_batch rq \<or> length kicks = 1 \<or> kick_intent_count \<noteq> 1
     then exec_fold (\<lambda>kick t. exec_bind (execute_single (se_executor env) run_id kick) (\<lambda>r. tally_result env r t)) kicks t
     else exec_bind (execute_batch (se_executor env) run_id kicks) (\<lambda>results. exec_fold (tally_result env) results t))"

definition dry_run_plan :: "service_env \<Rightarrow> string \<Rightarrow> kick_plan \<Rightarrow> unit exec" where
  "dry_run_plan env run_id plan =
     exec_bind (ask (en_now (xe_node (se_executor env)))) (\<lambda>now.
     exec_bind (exec_each (insert_dry_run_resolve_row run_id now) (pl_resolve_operations plan)) (\<lambda>_.
     exec_bind (exec_each (insert_dry_run_kick_row run_id now) (pl_kick_operations plan)) (\<lambda>_. exec_return ())))"

definition run_status :: "bool \<Rightarrow> int \<Rightarrow> int \<Rightarrow> string" where
  "run_status live succeeded failed =
     (if \<not> live then ''DRY_RUN'' else if failed > 0 \<and> succeeded = 0 then ''FAILED''
      else if failed > 0 then ''PARTIAL_SUCCESS'' else ''SUCCESS'')"

text \<open>\<open>dict(Counter(messages))\<close>\<close>

definition count_messages :: "string list \<Rightarrow> (string \<times> int) list" where
  "count_messages messages =
     fold (\<lambda>m counts. dict_set m ((case map_of counts m of None \<Rightarrow> 0 | Some n \<Rightarrow> n) + 1) counts) messages []"

definition finish_run :: "service_env \<Rightarrow> run_request \<Rightarrow> string \<Rightarrow> kick_plan \<Rightarrow> tally \<Rightarrow> run_result exec" where
  "finish_run env rq run_id plan = (\<lambda>(succeeded, failed, attempted, messages).
     let found = int (length (pl_ranked_candidates plan)); status = run_status (rn_live rq) succeeded failed in
     exec_bind (ask (en_now (xe_node (se_executor env)))) (\<lambda>finished_at.
     exec_bind (with_runs (run_finalize run_id finished_at status found attempted succeeded failed
       (if failed \<noteq> 0 then Some (show_int failed @ '' failures'') else None))) (\<lambda>_.
     exec_return \<lparr>rr_run_id = run_id, rr_status = status, rr_candidates_found = found, rr_kicks_attempted = attempted,
       rr_kicks_succeeded = succeeded, rr_kicks_failed = failed, rr_eligible_candidates_found = Some (int (pl_eligible_count plan)),
       rr_deferred_same_auction_count = int (pl_deferred_same_auction_count plan),
       rr_limited_candidate_count = int (pl_limited_count plan),
       rr_failure_summary = (if messages = [] then None else Some (count_messages messages))\<rparr>)))"

definition run_body :: "service_env \<Rightarrow> run_request \<Rightarrow> string \<Rightarrow> kick_plan \<Rightarrow> tally exec" where
  "run_body env rq run_id plan =
     exec_bind (exec_fold (apply_prepare_result env run_id) (pl_skipped_during_prepare plan)
       (0, 0, int (length (pl_resolve_operations plan)) + int (length (pl_kick_operations plan)), [])) (\<lambda>t.
     if rn_live rq then execute_plan env rq run_id plan t
     else exec_bind (dry_run_plan env run_id plan) (\<lambda>_. exec_return t))"

definition run_service :: "service_env \<Rightarrow> run_request \<Rightarrow> string \<Rightarrow> string \<Rightarrow> run_result exec" where
  "run_service env rq run_id started_at =
     exec_bind (with_runs (run_create run_id started_at (rn_live rq))) (\<lambda>_.
     exec_bind (\<lambda>s. (run_plan env rq s, s)) (\<lambda>plan.
     exec_bind (run_body env rq run_id plan) (finish_run env rq run_id plan)))"

definition lock_held_result :: "string \<Rightarrow> run_result" where
  "lock_held_result run_id = \<lparr>rr_run_id = run_id, rr_status = ''FAILED'', rr_candidates_found = 0, rr_kicks_attempted = 0,
     rr_kicks_succeeded = 0, rr_kicks_failed = 0, rr_eligible_candidates_found = None, rr_deferred_same_auction_count = 0,
     rr_limited_candidate_count = 0, rr_failure_summary = None\<rparr>"

definition run_once :: "service_env \<Rightarrow> bool \<Rightarrow> run_request \<Rightarrow> string \<Rightarrow> run_result exec" where
  "run_once env lock_free rq run_id =
     exec_bind (ask (en_now (xe_node (se_executor env)))) (\<lambda>started_at.
     if rn_live rq \<and> \<not> lock_free then exec_return (lock_held_result run_id) else run_service env rq run_id started_at)"

end
