(* ===== verification/ExecutionSafety.thy ===== *)
theory ExecutionSafety
  imports KickService
begin

text \<open>
  What the executor of \<open>KickExecute\<close> guarantees about the tables and the transactions it sends. The
  locale \<open>exec_order\<close> lifts a preorder on states that every single step respects to whole executions;
  it is interpreted for what may be sent, for the rows that must stay and for the runs table.
\<close>

section \<open>Sequencing\<close>

definition obeys :: "(exec_state \<Rightarrow> exec_state \<Rightarrow> bool) \<Rightarrow> 'a exec \<Rightarrow> bool" where
  "obeys R m \<longleftrightarrow> (\<forall>s. R s (snd (m s)))"

lemma obeysD: "obeys R m \<Longrightarrow> m s = (r, t) \<Longrightarrow> R s t"
  unfolding obeys_def by (metis snd_conv)

lemma exec_bind_Inr [simp]:
  "exec_bind m f s = (Inr y, u) \<longleftrightarrow> (\<exists>x t. m s = (Inr x, t) \<and> f x t = (Inr y, u))"
  by (auto simp: exec_bind_def split: prod.splits sum.splits)

lemma exec_bind_cases:
  assumes "exec_bind m f s = (r, u)"
  obtains (raised) e where "m s = (Inl e, u)" "r = Inl e" | (continued) x t where "m s = (Inr x, t)" "f x t = (r, u)"
  using assms by (auto simp: exec_bind_def split: prod.splits sum.splits)

lemma exec_return_eq [simp]: "exec_return x s = (r, t) \<longleftrightarrow> r = Inr x \<and> t = s"
  by (auto simp: exec_return_def)

lemma exec_lift_Inr [simp]: "exec_lift r s = (Inr x, t) \<longleftrightarrow> r = Inr x \<and> t = s"
  by (auto simp: exec_lift_def)

locale exec_order =
  fixes R :: "exec_state \<Rightarrow> exec_state \<Rightarrow> bool"
  assumes refl: "R s s" and trans: "R s t \<Longrightarrow> R t u \<Longrightarrow> R s u"
    and called: "R s (s\<lparr>xs_calls := n\<rparr>)"
begin

lemma obeys_bind: "obeys R m \<Longrightarrow> (\<And>x. obeys R (f x)) \<Longrightarrow> obeys R (exec_bind m f)"
  unfolding obeys_def exec_bind_def by (auto split: prod.splits sum.splits intro: trans) (metis snd_conv trans)+

lemma obeys_bind_if:
  assumes "obeys R m" "\<And>s x t. m s = (Inr x, t) \<Longrightarrow> Q x" "\<And>x. Q x \<Longrightarrow> obeys R (f x)"
  shows "obeys R (exec_bind m f)"
proof -
  have "R s (snd (exec_bind m f s))" for s
  proof (cases "m s")
    case (Pair r t)
    have "R s t" using assms(1) Pair by (auto simp: obeys_def dest: spec [of _ s])
    moreover have "R t (snd (f x t))" if "r = Inr x" for x using assms(2) [of s x t] assms(3) [of x] Pair that by (simp add: obeys_def)
    ultimately show ?thesis using Pair trans by (cases r) (auto simp: exec_bind_def)
  qed
  then show ?thesis by (simp add: obeys_def)
qed

lemma obeys_return: "obeys R (exec_return x)" "obeys R (exec_raise e)" "obeys R (exec_lift r)"
  by (simp_all add: obeys_def exec_return_def exec_raise_def exec_lift_def refl)

lemma obeys_read: "obeys R (\<lambda>s. (g s, s))"
  by (simp add: obeys_def refl)

lemma obeys_ask: "obeys R (ask answer)"
  by (simp add: obeys_def ask_def called)

lemma obeys_each: "(\<And>x. obeys R (f x)) \<Longrightarrow> obeys R (exec_each f xs)"
  by (induction xs) (auto intro: obeys_bind obeys_return)

lemma obeys_fold: "(\<And>x t. obeys R (f x t)) \<Longrightarrow> obeys R (exec_fold f xs t)"
  by (induction xs arbitrary: t) (auto intro: obeys_bind obeys_return)

lemma obeys_frames:
  "obeys R (check_base_fee env)" "obeys R (resolve_priority_fee_wei env)" "obeys R (require_signer env)"
  "obeys R (confirmed env sender kicks g l b p)"
  by (auto simp: check_base_fee_def resolve_priority_fee_wei_def require_signer_def confirmed_def
      intro!: obeys_bind obeys_ask obeys_return split: option.splits)

end

text \<open>How an execution ends, step by step after steps that only call the node.\<close>

definition ends :: "(exec_state \<Rightarrow> 'a result \<Rightarrow> exec_state \<Rightarrow> bool) \<Rightarrow> 'a exec \<Rightarrow> bool" where
  "ends P m \<longleftrightarrow> (\<forall>s r t. m s = (r, t) \<longrightarrow> P s r t)"

lemma endsD: "ends P m \<Longrightarrow> m s = (r, t) \<Longrightarrow> P s r t"
  unfolding ends_def by blast

definition only_called :: "exec_state \<Rightarrow> exec_state \<Rightarrow> bool" where
  "only_called s t \<longleftrightarrow> (\<exists>n. t = s\<lparr>xs_calls := n\<rparr>)"

interpretation called: exec_order only_called
proof
  show "only_called s s" for s unfolding only_called_def by (rule exI [of _ "xs_calls s"]) simp
qed (auto simp: only_called_def)

lemma only_called_same:
  assumes "only_called s t"
  shows "xs_ledger t = xs_ledger s" "xs_sent t = xs_sent s" "xs_runs t = xs_runs s" "xs_reports t = xs_reports s"
  using assms by (auto simp: only_called_def)

lemma ends_after_calls:
  assumes "obeys only_called m" "\<And>s x t. m s = (Inr x, t) \<Longrightarrow> Q x" "\<And>x. Q x \<Longrightarrow> ends P (f x)"
    and "\<And>s u r t. only_called s u \<Longrightarrow> P u r t \<Longrightarrow> P s r t" "\<And>s e t. only_called s t \<Longrightarrow> P s (Inl e) t"
  shows "ends P (exec_bind m f)"
  unfolding ends_def
proof (intro allI impI)
  fix s r u
  assume "exec_bind m f s = (r, u)"
  then show "P s r u"
  proof (cases rule: exec_bind_cases)
    case (raised e)
    then show ?thesis using assms(5) obeysD [OF assms(1)] by blast
  next
    case (continued x t)
    have "P t r u" using assms(3) [OF assms(2) [OF continued(1)]] continued(2) by (rule endsD)
    then show ?thesis using assms(4) obeysD [OF assms(1) continued(1)] by blast
  qed
qed

section \<open>Rows that stay\<close>

definition row_place :: "kick_tx \<Rightarrow> string \<times> string \<times> string \<times> string option" where
  "row_place row = (k_run_id row, k_auction_address row, k_token_address row, k_tx_hash row)"

definition rows_kept :: "kick_tx list \<Rightarrow> kick_tx list \<Rightarrow> bool" where
  "rows_kept old new \<longleftrightarrow> kick_table_wf new
     \<and> (\<forall>i row. kick_get old i = Some row \<longrightarrow> (\<exists>row'. kick_get new i = Some row' \<and> row_place row' = row_place row))"

lemma rows_kept_refl: "kick_table_wf old \<Longrightarrow> rows_kept old old"
  by (simp add: rows_kept_def)

lemma rows_kept_trans: "rows_kept a b \<Longrightarrow> rows_kept b c \<Longrightarrow> rows_kept a c"
  unfolding rows_kept_def by metis

lemma rows_kept_update:
  assumes "rows_kept old new" "\<And>r. k_id (f r) = k_id r" "\<And>r. row_place (f r) = row_place r"
  shows "rows_kept old (kick_update_fields i f new)"
proof -
  have "kick_table_wf (kick_update_fields i f new)" using kick_store.wf_upd assms(1,2) by (simp add: rows_kept_def)
  moreover have "\<exists>row'. kick_get (kick_update_fields i f new) j = Some row' \<and> row_place row' = row_place row"
    if got: "kick_get old j = Some row" for j row
  proof -
    obtain row' where "kick_get new j = Some row'" "row_place row' = row_place row" using assms(1) got unfolding rows_kept_def by blast
    then show ?thesis using assms(3) by (auto simp: kick_get_update [OF assms(2)])
  qed
  ultimately show ?thesis unfolding rows_kept_def by blast
qed

lemma rows_kept_insert: "rows_kept old new \<Longrightarrow> rows_kept old (fst (kick_insert row new))"
  unfolding rows_kept_def using kick_store.wf_ins kick_store.ins_keeps by metis

interpretation kept: reconciled_invariant "rows_kept old" for old
proof
  show "kick_table_wf kicks" if "rows_kept old kicks" for old kicks using that by (simp add: rows_kept_def)
  show "rows_kept old (kick_update_fields i f kicks)" if "rows_kept old kicks" "finalizing f" for old kicks f i
    using that(1) finalizing_identity [OF that(2)] by (intro rows_kept_update) (auto simp: identity_def row_place_def)
qed (auto intro!: rows_kept_insert rows_kept_update simp: row_place_def)

definition rows_stay :: "exec_state \<Rightarrow> exec_state \<Rightarrow> bool" where
  "rows_stay s t \<longleftrightarrow> (kick_table_wf (l_kicks (xs_ledger s)) \<longrightarrow> rows_kept (l_kicks (xs_ledger s)) (l_kicks (xs_ledger t)))"

interpretation stay: exec_order rows_stay
proof
  show "rows_stay s u" if "rows_stay s t" "rows_stay t u" for s t u
    using that rows_kept_trans unfolding rows_stay_def by (metis rows_kept_def)
qed (auto simp: rows_stay_def rows_kept_refl)

text \<open>The other parts of the state a step may touch.\<close>

definition unsent :: "exec_state \<Rightarrow> exec_state \<Rightarrow> bool" where
  "unsent s t \<longleftrightarrow> xs_sent t = xs_sent s \<and> xs_runs t = xs_runs s"

interpretation unsent: exec_order unsent
  by unfold_locales (auto simp: unsent_def)

lemma with_kicks_unsent [simp]: "obeys unsent (with_kicks f)"
  by (auto simp: obeys_def with_kicks_def unsent_def split: prod.splits)

lemma insert_operation_unsent: "obeys unsent (insert_operation_tx r c n o' st kw)"
  by (simp add: insert_operation_tx_def Let_def)

lemma insert_operation_stays: "obeys rows_stay (insert_operation_tx r c n o' st kw)"
  by (auto simp: obeys_def insert_operation_tx_def with_kicks_def Let_def rows_stay_def split: prod.splits)
    (metis fst_conv rows_kept_insert rows_kept_refl)+

lemma reconcile_stays: "obeys rows_stay (reconcile_receipt env r h receipt)"
proof -
  have "rows_stay s t" if "finalize_receipt r now h receipt (xs_ledger s) = Inr (db, e)" "t = s\<lparr>xs_ledger := db\<rparr>" for s t now db e
    using kept.finalize_receipt_I [OF _ that(1)] rows_kept_refl that(2) by (auto simp: rows_stay_def)
  then show ?thesis
    unfolding reconcile_receipt_def
    by (intro stay.obeys_bind stay.obeys_ask) (auto simp: obeys_def stay.refl split: sum.splits)
qed

lemma update_receipt_stays: "obeys rows_stay (update_receipt_status i receipt)"
proof -
  have "rows_kept old (kick_update_status i st None g p b None old)" if "kick_table_wf old" for old st g p b
    unfolding kick_update_status_def by (rule rows_kept_update [OF rows_kept_refl [OF that]]) (auto simp: Let_def row_place_def)
  then show ?thesis by (auto simp: obeys_def update_receipt_status_def with_kicks_def rows_stay_def)
qed

section \<open>Failures of a kick\<close>

text \<open>The audit keywords of a kick start with one \<open>_fail\<close> does not take.\<close>

lemma fail_operation_kick:
  "fail_operation run_id c now operation_type st message (pk_audit_kwargs kick) s = (Inl (unexpected_keyword ''requested_sell_amount''), s)"
proof -
  have "''requested_sell_amount'' \<notin> set fail_parameters" by code_simp
  then show ?thesis by (simp add: fail_operation_def pk_audit_kwargs_def exec_raise_def)
qed

lemma fail_batch_raises:
  "kicks \<noteq> [] \<Longrightarrow> fail_batch run_id kicks now st message s = (Inl (unexpected_keyword ''requested_sell_amount''), s)"
  by (cases kicks) (simp_all add: fail_batch_def fail_operation_kick exec_bind_def)

lemma record_prepare_failure_raises:
  "\<exists>t. record_prepare_failure run_id env c result s = (Inl (unexpected_keyword ''requested_sell_amount''), t) \<and> only_called s t"
proof -
  have "''requested_sell_amount'' \<notin> set fail_parameters" by code_simp
  then show ?thesis
    by (auto simp: record_prepare_failure_def fail_operation_def exec_raise_def exec_bind_def ask_def only_called_def)
qed

lemma fail_batch_ends: "fail_batch run_id kicks now st message s = (r, t) \<Longrightarrow>
  t = s \<and> (r = Inr [] \<and> kicks = [] \<or> r = Inl (unexpected_keyword ''requested_sell_amount''))"
  by (cases "kicks = []") (auto simp: fail_batch_raises, auto simp: fail_batch_def)

section \<open>The rows of a broadcast\<close>

definition recorded :: "string \<Rightarrow> string \<Rightarrow> int \<Rightarrow> prepared_kick \<Rightarrow> kick_tx list \<Rightarrow> bool" where
  "recorded run_id tx_hash i kick kicks \<longleftrightarrow> (\<exists>row. kick_get kicks i = Some row
     \<and> row_place row = (run_id, ca_auction_address (pk_candidate kick), ca_token_address (pk_candidate kick), Some tx_hash))"

lemma recorded_kept: "recorded run_id h i kick old \<Longrightarrow> rows_kept old new \<Longrightarrow> recorded run_id h i kick new"
  unfolding recorded_def rows_kept_def by metis

lemma submitted_place:
  "row_place (operation_row run_id (pk_candidate kick) now ''kick'' st ((''tx_hash'', JStr h) # pk_audit_kwargs kick))
    = (run_id, ca_auction_address (pk_candidate kick), ca_token_address (pk_candidate kick), Some h)"
  by (simp add: operation_row_def row_place_def kw_str_def pk_audit_kwargs_def Let_def)

lemma insert_submitted_Inr:
  "insert_submitted run_id now h kick s = (Inr (next_rowid (l_kicks (xs_ledger s))), s\<lparr>xs_ledger := (xs_ledger s)\<lparr>l_kicks :=
     fst (kick_insert ((operation_row run_id (pk_candidate kick) now ''kick'' ''SUBMITTED''
       ((''tx_hash'', JStr h) # pk_audit_kwargs kick))\<lparr>k_round_kick_id := None\<rparr>) (l_kicks (xs_ledger s)))\<rparr>\<rparr>)"
  by (simp add: insert_submitted_def insert_operation_tx_def with_kicks_def Let_def kick_status_value_def kick_insert_def)

lemma insert_submitted_recorded:
  assumes "insert_submitted run_id now h kick s = (Inr i, t)" "kick_table_wf (l_kicks (xs_ledger s))"
  shows "recorded run_id h i kick (l_kicks (xs_ledger t))" "kick_get (l_kicks (xs_ledger s)) i = None"
    "rows_kept (l_kicks (xs_ledger s)) (l_kicks (xs_ledger t))"
proof -
  define row where "row = (operation_row run_id (pk_candidate kick) now ''kick'' ''SUBMITTED''
    ((''tx_hash'', JStr h) # pk_audit_kwargs kick))\<lparr>k_round_kick_id := None\<rparr>"
  have t: "l_kicks (xs_ledger t) = fst (kick_insert row (l_kicks (xs_ledger s)))" and i: "i = snd (kick_insert row (l_kicks (xs_ledger s)))"
    using assms(1) by (auto simp: insert_submitted_Inr row_def kick_insert_def)
  have place: "row_place (row\<lparr>k_id := j\<rparr>) = (run_id, ca_auction_address (pk_candidate kick), ca_token_address (pk_candidate kick), Some h)"
    for j
    using submitted_place [of run_id kick now "''SUBMITTED''" h] by (simp add: row_def row_place_def)
  show "recorded run_id h i kick (l_kicks (xs_ledger t))"
    unfolding recorded_def t i using kick_store.lookup_ins [OF assms(2), of row] place by simp
  show "kick_get (l_kicks (xs_ledger s)) i = None" unfolding i by (rule kick_store.ins_fresh [OF assms(2)])
  show "rows_kept (l_kicks (xs_ledger s)) (l_kicks (xs_ledger t))"
    unfolding t by (rule rows_kept_insert [OF rows_kept_refl [OF assms(2)]])
qed

lemma inserts_recorded:
  assumes "exec_each (insert_submitted run_id now h) kicks s = (Inr ids, t)" "kick_table_wf (l_kicks (xs_ledger s))"
  shows "list_all2 (\<lambda>i kick. recorded run_id h i kick (l_kicks (xs_ledger t))) ids kicks \<and> distinct ids
    \<and> (\<forall>i \<in> set ids. kick_get (l_kicks (xs_ledger s)) i = None) \<and> rows_kept (l_kicks (xs_ledger s)) (l_kicks (xs_ledger t))"
  using assms
proof (induction kicks arbitrary: s ids)
  case Nil
  then show ?case by (simp add: rows_kept_refl)
next
  case (Cons kick kicks)
  obtain i u js where i: "insert_submitted run_id now h kick s = (Inr i, u)"
    and js: "exec_each (insert_submitted run_id now h) kicks u = (Inr js, t)" and ids: "ids = i # js"
    using Cons.prems(1) by auto
  note first = insert_submitted_recorded [OF i Cons.prems(2)]
  have wf: "kick_table_wf (l_kicks (xs_ledger u))" using first(3) by (simp add: rows_kept_def)
  note rest = Cons.IH [OF js wf]
  have "recorded run_id h i kick (l_kicks (xs_ledger t))" using first(1) rest recorded_kept by blast
  moreover have "kick_get (l_kicks (xs_ledger u)) i \<noteq> None" using first(1) by (auto simp: recorded_def)
  then have "i \<notin> set js" using rest by auto
  moreover have "kick_get (l_kicks (xs_ledger s)) j = None" if "j \<in> set js" for j
    using rest that first(3) unfolding rows_kept_def by (metis not_None_eq)
  ultimately show ?case using rest first(2,3) rows_kept_trans ids by auto
qed

lemma inserts_sent: "obeys unsent (exec_each (insert_submitted run_id now h) kicks)"
  by (intro unsent.obeys_each) (simp add: insert_submitted_def insert_operation_unsent)

lemma inserts_return: "exec_each (insert_submitted run_id now h) kicks s \<noteq> (Inl e, t)"
  by (induction kicks arbitrary: s) (auto simp: insert_submitted_Inr exec_return_def elim!: exec_bind_cases)

section \<open>After the broadcast\<close>

definition sent_status :: "kick_status \<Rightarrow> bool" where
  "sent_status st \<longleftrightarrow> st \<in> {SUBMITTED, CONFIRMED, REVERTED}"

lemma receipt_result_Inr:
  "receipt_result env sender h now g receipt (i, kick) s = (Inr r, t) \<Longrightarrow>
    kr_kick_tx_id r = i \<and> kr_tx_hash r = Some h \<and> sent_status (kr_status r)"
  by (auto simp: receipt_result_def sent_kick_result_def kick_result_of_def sent_status_def final_status_def split: if_splits)

lemma receipt_results_Inr:
  "exec_each (receipt_result env sender h now g receipt) xs s = (Inr rs, t) \<Longrightarrow>
    map kr_kick_tx_id rs = map fst xs \<and> (\<forall>r \<in> set rs. kr_tx_hash r = Some h \<and> sent_status (kr_status r))"
proof (induction xs arbitrary: s rs)
  case (Cons x xs)
  obtain i kick where x: "x = (i, kick)" by (cases x)
  from Cons.prems obtain r u rs' where "receipt_result env sender h now g receipt (i, kick) s = (Inr r, u)"
    "exec_each (receipt_result env sender h now g receipt) xs u = (Inr rs', t)" "rs = r # rs'" by (auto simp: x)
  then show ?case using receipt_result_Inr Cons.IH x by auto
qed simp

lemma update_receipt_unsent: "obeys unsent (update_receipt_status i receipt)"
  by (simp add: update_receipt_status_def)

lemma reconcile_unsent: "obeys unsent (reconcile_receipt env r h receipt)"
  unfolding reconcile_receipt_def
  by (intro unsent.obeys_bind unsent.obeys_ask) (auto simp: obeys_def unsent_def split: sum.splits)

lemma receipt_result_obeys:
  "obeys rows_stay (receipt_result env sender h now g receipt x)" "obeys unsent (receipt_result env sender h now g receipt x)"
  unfolding receipt_result_def
  by (auto simp: split_beta intro!: stay.obeys_bind update_receipt_stays stay.obeys_return stay.obeys_read)
    (auto simp: split_beta intro!: unsent.obeys_bind update_receipt_unsent unsent.obeys_return unsent.obeys_read)

lemma settle_after_receipt_obeys:
  "obeys rows_stay (exec_bind (case xe_reconciler env of None \<Rightarrow> exec_return () | Some r \<Rightarrow> reconcile_receipt env r h receipt)
     (\<lambda>_. exec_each (receipt_result env sender h now g receipt) xs))"
  "obeys unsent (exec_bind (case xe_reconciler env of None \<Rightarrow> exec_return () | Some r \<Rightarrow> reconcile_receipt env r h receipt)
     (\<lambda>_. exec_each (receipt_result env sender h now g receipt) xs))"
  by (cases "xe_reconciler env"; simp add: stay.obeys_bind stay.obeys_each receipt_result_obeys stay.obeys_return reconcile_stays)
    (cases "xe_reconciler env"; simp add: unsent.obeys_bind unsent.obeys_each receipt_result_obeys unsent.obeys_return reconcile_unsent)

definition kicks_recorded ::
  "string \<Rightarrow> string \<Rightarrow> prepared_kick list \<Rightarrow> exec_state \<Rightarrow> kick_result list result \<Rightarrow> exec_state \<Rightarrow> bool" where
  "kicks_recorded run_id h kicks s r t \<longleftrightarrow> unsent s t
     \<and> (kick_table_wf (l_kicks (xs_ledger s)) \<longrightarrow> (\<exists>ids. distinct ids
        \<and> (\<forall>i \<in> set ids. kick_get (l_kicks (xs_ledger s)) i = None)
        \<and> list_all2 (\<lambda>i kick. recorded run_id h i kick (l_kicks (xs_ledger t))) ids kicks
        \<and> (\<forall>results. r = Inr results \<longrightarrow> map kr_kick_tx_id results = ids
            \<and> (\<forall>x \<in> set results. kr_tx_hash x = Some h \<and> sent_status (kr_status x)))))"

lemma settle_rest_records:
  assumes ids: "exec_each (insert_submitted run_id now h) kicks s = (Inr ids, u)"
    and rest: "exec_bind (ask (\<lambda>t. en_receipt (xe_node env) t h)) (\<lambda>answer. case answer of
       Inl e \<Rightarrow> exec_return (map (\<lambda>(kick_tx_id, kick). (sent_kick_result kick kick_tx_id SUBMITTED)\<lparr>kr_tx_hash := Some h,
           kr_error_message := Some (''receipt timeout: '' @ exn_str e),
           kr_execution_report := Some (exec_report env ''kick'' sender h now g None)\<rparr>) (zip ids kicks))
     | Inr receipt \<Rightarrow>
         exec_bind (case xe_reconciler env of None \<Rightarrow> exec_return () | Some r \<Rightarrow> reconcile_receipt env r h receipt) (\<lambda>_.
         exec_each (receipt_result env sender h now g receipt) (zip ids kicks))) u = (r, t)"
  shows "kicks_recorded run_id h kicks s r t"
proof -
  define v where "v = u\<lparr>xs_calls := Suc (xs_calls u)\<rparr>"
  have sent: "unsent s u" by (rule obeysD [OF inserts_sent ids])
  have after: "unsent s t \<and> rows_stay v t \<and> (\<forall>results. r = Inr results \<longrightarrow> length ids = length kicks \<longrightarrow>
      map kr_kick_tx_id results = ids \<and> (\<forall>x \<in> set results. kr_tx_hash x = Some h \<and> sent_status (kr_status x)))"
  proof (cases "en_receipt (xe_node env) (xs_calls u) h")
    case (Inl e)
    then have "t = v" "r = Inr (map (\<lambda>(kick_tx_id, kick). (sent_kick_result kick kick_tx_id SUBMITTED)\<lparr>kr_tx_hash := Some h,
           kr_error_message := Some (''receipt timeout: '' @ exn_str e),
           kr_execution_report := Some (exec_report env ''kick'' sender h now g None)\<rparr>) (zip ids kicks))"
      using rest by (auto simp: exec_bind_def ask_def exec_return_def v_def)
    then show ?thesis
      using sent by (auto simp: unsent_def v_def stay.refl sent_kick_result_def kick_result_of_def sent_status_def comp_def split_beta)
  next
    case (Inr receipt)
    then have step: "exec_bind (case xe_reconciler env of None \<Rightarrow> exec_return () | Some r \<Rightarrow> reconcile_receipt env r h receipt) (\<lambda>_.
         exec_each (receipt_result env sender h now g receipt) (zip ids kicks)) v = (r, t)"
      using rest by (auto simp: exec_bind_def ask_def v_def)
    have "map kr_kick_tx_id results = map fst (zip ids kicks) \<and> (\<forall>x \<in> set results. kr_tx_hash x = Some h \<and> sent_status (kr_status x))"
      if "r = Inr results" for results
      using step receipt_results_Inr unfolding that exec_bind_Inr by blast
    then show ?thesis
      using obeysD [OF settle_after_receipt_obeys(1) step] obeysD [OF settle_after_receipt_obeys(2) step] sent
      by (auto simp: unsent_def v_def)
  qed
  show ?thesis
    unfolding kicks_recorded_def
  proof (intro conjI impI)
    show "unsent s t" using after by blast
    assume wf: "kick_table_wf (l_kicks (xs_ledger s))"
    note rows = inserts_recorded [OF ids wf]
    have kept: "rows_kept (l_kicks (xs_ledger u)) (l_kicks (xs_ledger t))"
      using after rows by (auto simp: rows_stay_def v_def rows_kept_def)
    have "list_all2 (\<lambda>i kick. recorded run_id h i kick (l_kicks (xs_ledger t))) ids kicks"
      using rows recorded_kept [OF _ kept] by (auto elim: list_all2_mono)
    moreover have "length ids = length kicks" using rows list_all2_lengthD by blast
    ultimately show "\<exists>ids. distinct ids \<and> (\<forall>i \<in> set ids. kick_get (l_kicks (xs_ledger s)) i = None)
        \<and> list_all2 (\<lambda>i kick. recorded run_id h i kick (l_kicks (xs_ledger t))) ids kicks
        \<and> (\<forall>results. r = Inr results \<longrightarrow> map kr_kick_tx_id results = ids
            \<and> (\<forall>x \<in> set results. kr_tx_hash x = Some h \<and> sent_status (kr_status x)))"
      using rows after by blast
  qed
qed

lemma settle_kicks_records:
  assumes "settle_kicks env run_id kicks now sender h g s = (r, t)"
  shows "kicks_recorded run_id h kicks s r t"
  using assms unfolding settle_kicks_def
proof (cases rule: exec_bind_cases)
  case (raised e)
  then show ?thesis using inserts_return by blast
next
  case (continued ids u)
  then show ?thesis by (rule settle_rest_records)
qed

section \<open>One transaction\<close>

text \<open>What had to hold before a transaction left.\<close>

definition gas_cap :: "exec_env \<Rightarrow> 'a list \<Rightarrow> int" where
  "gas_cap env kicks = xe_max_gas_limit env * int (length kicks)"

text \<open>The base fee a transaction may be sent at: below the cap, unless the check is switched off.\<close>

definition base_fee_cleared :: "exec_env \<Rightarrow> rat \<Rightarrow> bool" where
  "base_fee_cleared env base_fee_gwei \<longleftrightarrow> (xe_skip_base_fee_check env \<or> base_fee_gwei \<le> xe_base_fee_cap_gwei env)
     \<and> (\<exists>n wei. en_base_fee (xe_node env) n = Inr wei \<and> base_fee_gwei = gwei_of_wei wei)"

text \<open>The operator, when asked, said yes to the summary of exactly these kicks, this gas and these fees.\<close>

definition operator_agreed :: "exec_env \<Rightarrow> string \<Rightarrow> prepared_kick list \<Rightarrow> int \<Rightarrow> int \<Rightarrow> rat \<Rightarrow> int \<Rightarrow> bool" where
  "operator_agreed env sender kicks gas gas_limit base_fee_gwei priority_fee_wei \<longleftrightarrow>
     (\<forall>confirm. xe_confirm env = Some confirm \<longrightarrow> (\<exists>summary.
        batch_summary_of env sender kicks gas gas_limit base_fee_gwei priority_fee_wei = Inr summary \<and> confirm summary))"

definition send_cleared :: "exec_env \<Rightarrow> prepared_kick list \<Rightarrow> string \<Rightarrow> fee_tx \<Rightarrow> bool" where
  "send_cleared env kicks tx_data tx \<longleftrightarrow> (\<exists>sender base_fee_gwei gas. xe_signer env = Some sender
     \<and> base_fee_cleared env base_fee_gwei
     \<and> tb_checksum (xe_builder env) (tb_kicker_address (xe_builder env)) = Inr (ft_to tx) \<and> ft_data tx = tx_data
     \<and> (\<exists>n. en_estimate_gas (xe_node env) n sender (ft_to tx) tx_data = Inr gas) \<and> gas \<le> gas_cap env kicks
     \<and> ft_gas tx = min (gas_with_buffer gas) (gas_cap env kicks)
     \<and> operator_agreed env sender kicks gas (ft_gas tx) base_fee_gwei (ft_max_priority_fee_per_gas tx)
     \<and> ft_max_priority_fee_per_gas tx \<le> xe_max_priority_fee_gwei env * 10 ^ 9
     \<and> ft_max_fee_per_gas tx = py_truncate (float_mul (if xe_skip_base_fee_check env then base_fee_gwei else xe_base_fee_cap_gwei env)
         (10 ^ 9)) + ft_max_priority_fee_per_gas tx)"

definition tx_outcome ::
  "exec_env \<Rightarrow> prepared_kick list \<Rightarrow> string \<Rightarrow> string \<Rightarrow> exec_state \<Rightarrow> kick_result list result \<Rightarrow> exec_state \<Rightarrow> bool" where
  "tx_outcome env kicks tx_data run_id s r t \<longleftrightarrow>
     xs_runs t = xs_runs s \<and> ((xs_sent t = xs_sent s \<and> (case r of Inl _ \<Rightarrow> xs_ledger t = xs_ledger s
        | Inr results \<Rightarrow> (kicks = [] \<or> xe_confirm env \<noteq> None) \<and> (\<forall>x \<in> set results. kr_status x = USER_SKIPPED)))
     \<or> (\<exists>h tx u. xs_sent t = xs_sent s @ [(h, tx)] \<and> send_cleared env kicks tx_data tx
          \<and> xs_ledger u = xs_ledger s \<and> xs_sent u = xs_sent t \<and> kicks_recorded run_id h kicks u r t))"

lemma tx_outcome_called:
  "only_called s u \<Longrightarrow> tx_outcome env kicks tx_data run_id u r t \<Longrightarrow> tx_outcome env kicks tx_data run_id s r t"
  "only_called s t \<Longrightarrow> tx_outcome env kicks tx_data run_id s (Inl e) t"
  using only_called_same unfolding tx_outcome_def by (auto split: sum.splits)

lemma fail_batch_outcome: "ends (tx_outcome env kicks tx_data run_id) (fail_batch run_id kicks now st message)"
  by (auto simp: ends_def tx_outcome_def dest!: fail_batch_ends)

lemma insert_operation_done: "insert_operation_tx run_id c now operation_type st kw s \<noteq> (Inl e, t)"
  by (auto simp: insert_operation_tx_def with_kicks_def Let_def split: prod.splits)

lemma user_skips_done:
  "exec_each (user_skip run_id now) kicks s = (r, t) \<Longrightarrow> \<exists>results. r = Inr results \<and> (\<forall>x \<in> set results. kr_status x = USER_SKIPPED)"
proof (induction kicks arbitrary: s r t)
  case (Cons kick kicks)
  have "user_skip run_id now kick s = (Inl e, u) \<Longrightarrow> False" for e u
    using insert_operation_done by (auto simp: user_skip_def exec_return_def elim!: exec_bind_cases)
  then obtain x u where x: "user_skip run_id now kick s = (Inr x, u)" by (cases "user_skip run_id now kick s"; cases "fst (user_skip run_id now kick s)") auto
  then have status: "kr_status x = USER_SKIPPED" by (auto simp: user_skip_def sent_kick_result_def kick_result_of_def)
  obtain q v where q: "exec_each (user_skip run_id now) kicks u = (q, v)" by (cases "exec_each (user_skip run_id now) kicks u")
  then obtain results where "q = Inr results" "\<forall>x \<in> set results. kr_status x = USER_SKIPPED" using Cons.IH by blast
  then show ?case using Cons.prems x q status by (auto simp: exec_bind_def exec_return_def)
qed (simp add: exec_return_def)

lemma user_skips_outcome:
  assumes "xe_confirm env \<noteq> None"
  shows "ends (tx_outcome env kicks tx_data run_id) (exec_each (user_skip run_id now) kicks)"
proof -
  have sent: "obeys unsent (exec_each (user_skip run_id now) kicks)"
    unfolding user_skip_def by (intro unsent.obeys_each unsent.obeys_bind insert_operation_unsent unsent.obeys_return)
  have "tx_outcome env kicks tx_data run_id s r t" if e: "exec_each (user_skip run_id now) kicks s = (r, t)" for s r t
    using user_skips_done [OF e] obeysD [OF sent e] assms by (auto simp: tx_outcome_def unsent_def)
  then show ?thesis unfolding ends_def by blast
qed

lemma check_base_fee_Inr: "check_base_fee env s = (Inr (Inr g), t) \<Longrightarrow> base_fee_cleared env g"
  by (auto simp: check_base_fee_def base_fee_cleared_def ask_def exec_bind_def exec_return_def Let_def split: sum.splits if_splits)

lemma confirmed_Inr:
  "confirmed env sender kicks g l b p s = (Inr True, t) \<Longrightarrow> operator_agreed env sender kicks g l b p"
  by (auto simp: confirmed_def operator_agreed_def split: option.splits)

lemma confirmed_False: "confirmed env sender kicks g l b p s = (Inr False, t) \<Longrightarrow> xe_confirm env \<noteq> None"
  by (auto simp: confirmed_def split: option.splits)

lemma resolve_priority_fee_Inr:
  "resolve_priority_fee_wei env s = (Inr p, t) \<Longrightarrow> p \<le> xe_max_priority_fee_gwei env * 10 ^ 9"
  by (auto simp: resolve_priority_fee_wei_def ask_def)

lemma send_transaction_cases:
  assumes "send_transaction env target tx_data gas_limit b p s = (r, t)"
  obtains (unsent) "only_called s t" "\<And>h. r \<noteq> Inr (Inr h)"
  | (sent) h tx u where "r = Inr (Inr h)" "only_called s u" "t = u\<lparr>xs_sent := xs_sent s @ [(h, tx)]\<rparr>" "ft_to tx = target" "ft_data tx = tx_data"
      "ft_gas tx = gas_limit" "ft_max_priority_fee_per_gas tx = p"
      "ft_max_fee_per_gas tx = py_truncate (float_mul (fee_base_gwei env b) (10 ^ 9)) + p"
proof -
  let ?n = "en_transaction_count (xe_node env) (xs_calls s)"
  show thesis
  proof (cases ?n)
    case (Inl e)
    then show thesis
      using assms unsent by (auto simp: send_transaction_def exec_bind_def ask_def exec_lift_def only_called_def)
  next
    case (Inr nonce)
    define tx where "tx = \<lparr>ft_to = target, ft_data = tx_data, ft_chain_id = xe_chain_id env, ft_gas = gas_limit,
      ft_max_fee_per_gas = py_truncate (float_mul (fee_base_gwei env b) (10 ^ 9)) + p, ft_max_priority_fee_per_gas = p, ft_nonce = nonce\<rparr>"
    let ?u = "s\<lparr>xs_calls := Suc (Suc (xs_calls s))\<rparr>"
    show thesis
    proof (cases "en_send (xe_node env) (Suc (xs_calls s)) tx")
      case (Inl e)
      then show thesis
        using assms unsent \<open>?n = _\<close> Inl [unfolded tx_def]
        by (auto simp: send_transaction_def exec_bind_def ask_def exec_lift_def only_called_def Let_def)
    next
      case (Inr h)
      then have "r = Inr (Inr h)" "t = ?u\<lparr>xs_sent := xs_sent s @ [(h, tx)]\<rparr>"
        using assms \<open>?n = _\<close> Inr [unfolded tx_def]
        by (auto simp: send_transaction_def exec_bind_def ask_def exec_lift_def Let_def tx_def)
      moreover have "only_called s ?u" by (auto simp: only_called_def)
      ultimately show thesis using sent [of h ?u tx] by (simp add: tx_def)
    qed
  qed
qed

lemma ends_cases:
  "(\<And>e. x = Inl e \<Longrightarrow> ends P (f e)) \<Longrightarrow> (\<And>y. x = Inr y \<Longrightarrow> ends P (g y)) \<Longrightarrow> ends P (case x of Inl e \<Rightarrow> f e | Inr y \<Rightarrow> g y)"
  by (cases x) auto

lemma send_outcome:
  assumes "\<And>tx. ft_to tx = target \<Longrightarrow> ft_data tx = tx_data \<Longrightarrow> ft_gas tx = gas_limit \<Longrightarrow> ft_max_priority_fee_per_gas tx = p
      \<Longrightarrow> ft_max_fee_per_gas tx = py_truncate (float_mul (fee_base_gwei env b) (10 ^ 9)) + p \<Longrightarrow> send_cleared env kicks tx_data tx"
  shows "ends (tx_outcome env kicks tx_data run_id) (exec_bind (send_transaction env target tx_data gas_limit b p) (\<lambda>answer.
     case answer of Inl e \<Rightarrow> fail_batch run_id kicks now ERROR (''send failed: '' @ exn_str e)
     | Inr tx_hash \<Rightarrow> settle_kicks env run_id kicks now sender tx_hash g))"
  unfolding ends_def
proof (intro allI impI)
  fix s r t
  assume "exec_bind (send_transaction env target tx_data gas_limit b p) (\<lambda>answer.
     case answer of Inl e \<Rightarrow> fail_batch run_id kicks now ERROR (''send failed: '' @ exn_str e)
     | Inr tx_hash \<Rightarrow> settle_kicks env run_id kicks now sender tx_hash g) s = (r, t)"
  then show "tx_outcome env kicks tx_data run_id s r t"
  proof (cases rule: exec_bind_cases)
    case (raised e)
    then show ?thesis
      by (cases rule: send_transaction_cases [OF raised(1)]) (auto intro: tx_outcome_called(2))
  next
    case (continued answer u)
    from continued(1) show ?thesis
    proof (cases rule: send_transaction_cases)
      case unsent
      then obtain e where "answer = Inl e" by (cases answer) auto
      then have "tx_outcome env kicks tx_data run_id u r t" using continued(2) endsD [OF fail_batch_outcome] by simp
      then show ?thesis by (rule tx_outcome_called(1) [OF unsent(1)])
    next
      case (sent h tx v)
      have "kicks_recorded run_id h kicks u r t" using settle_kicks_records continued(2) sent(1) by simp
      moreover have "xs_ledger u = xs_ledger s" "xs_sent u = xs_sent s @ [(h, tx)]" "xs_runs u = xs_runs s" using only_called_same [OF sent(2)] sent(3) by simp_all
      moreover have "send_cleared env kicks tx_data tx" by (rule assms) (use sent in simp_all)
      ultimately show ?thesis unfolding tx_outcome_def kicks_recorded_def unsent_def by (metis (no_types, lifting))
    qed
  qed
qed

lemma ask_Inr: "ask answer s = (Inr x, t) \<Longrightarrow> \<exists>n. x = answer n"
  by (auto simp: ask_def)

lemma require_signer_Inr: "require_signer env s = (Inr sender, t) \<Longrightarrow> xe_signer env = Some sender"
  by (auto simp: require_signer_def exec_raise_def split: option.splits)

text \<open>From the priority fee on, with the fee, the estimate and the signer in place.\<close>

lemma checked_send_outcome:
  assumes signer: "xe_signer env = Some sender" and est: "\<exists>n. Inr gas = en_estimate_gas (xe_node env) n sender kicker tx_data"
    and target: "tb_checksum (xe_builder env) (tb_kicker_address (xe_builder env)) = Inr kicker"
    and fee: "base_fee_cleared env g"
    and within: "gas \<le> gas_cap env kicks" and limit: "gas_limit = min (gas_with_buffer gas) (gas_cap env kicks)"
  shows "ends (tx_outcome env kicks tx_data run_id) (exec_bind (resolve_priority_fee_wei env) (\<lambda>p.
    exec_bind (confirmed env sender kicks gas gas_limit g p) (\<lambda>yes.
    if \<not> yes then exec_each (user_skip run_id now) kicks
    else exec_bind (send_transaction env kicker tx_data gas_limit g p)
      (\<lambda>answer. case answer of Inl e \<Rightarrow> fail_batch run_id kicks now ERROR (''send failed: '' @ exn_str e)
        | Inr tx_hash \<Rightarrow> settle_kicks env run_id kicks now sender tx_hash gas))))"
proof -
  note after = ends_after_calls [where P = "tx_outcome env kicks tx_data run_id", OF _ _ _ tx_outcome_called]
  show ?thesis
  proof (rule after [OF called.obeys_frames(2) resolve_priority_fee_Inr], assumption, goal_cases)
    case (1 p)
    note priority = 1
    show ?case
    proof (rule after [OF called.obeys_frames(4), where Q = "\<lambda>yes. if yes then operator_agreed env sender kicks gas gas_limit g p
        else xe_confirm env \<noteq> None"], goal_cases)
      case (2 yes)
      show ?case
      proof (cases yes)
        case True
        have agreed: "operator_agreed env sender kicks gas gas_limit g p" using 2 True by simp
        have "send_cleared env kicks tx_data tx" if tx: "ft_to tx = kicker" "ft_data tx = tx_data" "ft_gas tx = gas_limit"
          "ft_max_priority_fee_per_gas tx = p" "ft_max_fee_per_gas tx = py_truncate (float_mul (fee_base_gwei env g) (10 ^ 9)) + p" for tx
        proof -
          obtain n where "en_estimate_gas (xe_node env) n sender kicker tx_data = Inr gas" using est by metis
          then show ?thesis
            unfolding send_cleared_def tx
            by (intro exI [of _ sender] exI [of _ g] exI [of _ gas])
              (use signer fee target within limit agreed priority in \<open>auto simp: fee_base_gwei_def\<close>)
        qed
        then show ?thesis by (simp only: True not_True_eq_False if_False) (rule send_outcome)
      qed (use 2 user_skips_outcome in simp)
    qed (use confirmed_Inr confirmed_False in auto)
  qed
qed

lemma execute_tx_outcome: "ends (tx_outcome env kicks tx_data run_id) (execute_tx env kicks tx_data run_id)"
proof -
  note after = ends_after_calls [where P = "tx_outcome env kicks tx_data run_id", OF _ _ _ tx_outcome_called]
  show ?thesis
    unfolding execute_tx_def Let_def
  proof (rule after [OF called.obeys_ask, where Q = "\<lambda>_. True"], goal_cases)
    case (2 now)
    show ?case
    proof (rule after [OF called.obeys_frames(3) require_signer_Inr], assumption, goal_cases)
      case (1 sender)
      note signer = 1
      show ?case
      proof (rule after [OF called.obeys_return(3), where Q = "\<lambda>k. tb_checksum (xe_builder env) (tb_kicker_address (xe_builder env)) = Inr k"],
          goal_cases)
        case (2 kicker)
        note target = 2
        show ?case
        proof (rule after [OF called.obeys_frames(1), where Q = "\<lambda>b. \<forall>g. b = Inr g \<longrightarrow> base_fee_cleared env g"], goal_cases)
          case (2 base_fee)
          note fee = 2
          show ?case
          proof (rule ends_cases [OF fail_batch_outcome], rule after [OF called.obeys_ask ask_Inr], assumption, goal_cases)
            case (1 g estimate)
            note est = 1
            show ?case
            proof (rule ends_cases [OF fail_batch_outcome], goal_cases)
              case (1 gas)
              have "gas \<le> gas_cap env kicks \<Longrightarrow> ?case"
                using checked_send_outcome [OF signer est(2) [unfolded 1] target _ _ refl, of g, unfolded gas_cap_def] fee est(1)
                unfolding gas_cap_def by (simp add: not_less [symmetric])
              moreover have "\<not> gas \<le> gas_cap env kicks \<Longrightarrow> ?case" by (simp add: gas_cap_def not_le fail_batch_outcome)
              ultimately show ?case by blast
            qed
          qed
        qed (use check_base_fee_Inr in blast)
      qed simp
    qed
  qed simp
qed

section \<open>Transactions of a run\<close>

text \<open>New transactions carry only the given call data.\<close>

definition sends_within :: "string set \<Rightarrow> exec_state \<Rightarrow> exec_state \<Rightarrow> bool" where
  "sends_within D s t \<longleftrightarrow> xs_runs t = xs_runs s \<and> (\<exists>new. xs_sent t = xs_sent s @ new \<and> (\<forall>(h, tx) \<in> set new. ft_data tx \<in> D))"

interpretation within: exec_order "sends_within D" for D
proof
  show "sends_within D s u" if "sends_within D s t" "sends_within D t u" for s t u
    using that by (auto simp: sends_within_def)
qed (auto simp: sends_within_def)

lemma unsent_within: "obeys unsent m \<Longrightarrow> obeys (sends_within D) m"
  by (auto simp: obeys_def unsent_def sends_within_def)

lemma sent_within:
  assumes "xs_sent t = xs_sent s @ [(h, tx)]" "ft_data tx \<in> D" "xs_runs t = xs_runs s"
  shows "sends_within D s t"
  using assms by (auto simp: sends_within_def)

lemma execute_tx_within: "tx_data \<in> D \<Longrightarrow> obeys (sends_within D) (execute_tx env kicks tx_data run_id)"
proof -
  assume d: "tx_data \<in> D"
  have "sends_within D s t" if "execute_tx env kicks tx_data run_id s = (r, t)" for s r t
    using endsD [OF execute_tx_outcome that] d
    by (auto simp: tx_outcome_def send_cleared_def sends_within_def)
  then show ?thesis unfolding obeys_def by (metis prod.collapse)
qed

lemma fail_operation_unsent: "obeys unsent (fail_operation run_id c now operation_type st message kw)"
  unfolding fail_operation_def
  by (auto split: option.splits intro: unsent.obeys_return unsent.obeys_bind insert_operation_unsent)

definition single_calldata :: "exec_env \<Rightarrow> prepared_kick \<Rightarrow> string set" where
  "single_calldata env kick = {ti_data intent |intent sender. build_single_kick_intent (xe_builder env) (Some sender) kick = Inr intent}"

definition batch_calldata :: "exec_env \<Rightarrow> prepared_kick list \<Rightarrow> string set" where
  "batch_calldata env kicks = {ti_data intent |intent sender. build_batch_kick_intent (xe_builder env) (Some sender) kicks = Inr intent}"

definition resolve_calldata :: "exec_env \<Rightarrow> prepared_resolve \<Rightarrow> string set" where
  "resolve_calldata env operation =
     {ti_data intent |intent sender. build_resolve_auction_intent (xe_builder env) (Some sender) operation = Inr intent}"

lemma intent_then_within:
  assumes "\<And>intent. build = Inr intent \<Longrightarrow> obeys (sends_within D) (f intent)"
  shows "obeys (sends_within D) (exec_bind (exec_lift build) f)"
  by (rule within.obeys_bind_if [OF within.obeys_return(3), where Q = "\<lambda>intent. build = Inr intent"]) (use assms in auto)

lemma execute_single_within:
  assumes "single_calldata env kick \<subseteq> D"
  shows "obeys (sends_within D) (execute_single env run_id kick)"
  unfolding execute_single_def
proof (rule within.obeys_bind [OF within.obeys_frames(3)], rule intent_then_within, rule within.obeys_bind)
  show "obeys (sends_within D) (execute_tx env [kick] (ti_data intent) run_id)"
    if "build_single_kick_intent (xe_builder env) (Some sender) kick = Inr intent" for sender intent
    using that assms by (intro execute_tx_within) (auto simp: single_calldata_def)
qed (auto intro: within.obeys_return split: list.splits)

lemma execute_batch_within:
  assumes "batch_calldata env kicks \<subseteq> D" "\<forall>kick \<in> set kicks. single_calldata env kick \<subseteq> D"
  shows "obeys (sends_within D) (execute_batch env run_id kicks)"
proof -
  have "obeys (sends_within D) (exec_each (execute_single env run_id) ks)" if "set ks \<subseteq> set kicks" for ks
    using that by (induction ks) (use assms(2) in \<open>auto intro!: within.obeys_bind within.obeys_return execute_single_within\<close>)
  note each = this [OF subset_refl]
  have "ti_data intent \<in> D" if "build_batch_kick_intent (xe_builder env) (Some sender) kicks = Inr intent" for sender intent
    using that assms(1) by (auto simp: batch_calldata_def)
  then show ?thesis
    unfolding execute_batch_def using each
    by (auto intro!: within.obeys_bind [OF within.obeys_frames(3)] intent_then_within within.obeys_bind [OF within.obeys_ask] execute_tx_within)
qed

lemma settle_resolve_unsent: "obeys unsent (settle_resolve env run_id operation now sender h g)"
proof -
  have "obeys unsent (case xe_reconciler env of None \<Rightarrow> update_receipt_status i receipt | Some r \<Rightarrow> reconcile_receipt env r h receipt)"
    for i receipt by (simp add: update_receipt_unsent reconcile_unsent split: option.splits)
  then show ?thesis
    unfolding settle_resolve_def
    by (intro unsent.obeys_bind insert_operation_unsent unsent.obeys_ask) (auto intro!: unsent.obeys_bind unsent.obeys_return split: sum.splits)
qed

lemma send_transaction_within:
  assumes "tx_data \<in> D"
  shows "obeys (sends_within D) (send_transaction env target tx_data gas_limit b p)"
proof -
  have "sends_within D s t" if "send_transaction env target tx_data gas_limit b p s = (r, t)" for s r t
    using that
  proof (cases rule: send_transaction_cases)
    case unsent
    then show ?thesis using within.called by (auto simp: only_called_def)
  next
    case (sent h tx u)
    then show ?thesis using assms only_called_same [OF sent(2)] by (intro sent_within [of _ _ h tx]) auto
  qed
  then show ?thesis unfolding obeys_def by (metis prod.collapse)
qed

lemma execute_resolve_within:
  assumes "resolve_calldata env operation \<subseteq> D"
  shows "obeys (sends_within D) (execute_resolve_auction env run_id operation)"
proof -
  have fails: "obeys (sends_within D) (fail_resolve run_id operation now st message)" for now st message
    unfolding fail_resolve_def by (rule unsent_within [OF fail_operation_unsent])
  have settles: "obeys (sends_within D) (settle_resolve env run_id operation now sender h g)" for now sender h g
    by (rule unsent_within [OF settle_resolve_unsent])
  have "ti_data intent \<in> D" if "build_resolve_auction_intent (xe_builder env) (Some sender) operation = Inr intent" for sender intent
    using that assms by (auto simp: resolve_calldata_def)
  then show ?thesis
    unfolding execute_resolve_auction_def using fails settles
    by (intro within.obeys_bind [OF within.obeys_ask] within.obeys_bind [OF within.obeys_frames(3)] within.obeys_bind [OF within.obeys_frames(1)])
      (auto intro!: intent_then_within within.obeys_bind [OF within.obeys_ask] within.obeys_bind [OF within.obeys_frames(2)]
        within.obeys_bind [OF send_transaction_within] split: sum.splits)
qed

text \<open>The call data a plan may lead to.\<close>

definition planned_calldata :: "exec_env \<Rightarrow> kick_plan \<Rightarrow> string set" where
  "planned_calldata env plan = (\<Union>operation \<in> set (pl_resolve_operations plan). resolve_calldata env operation)
     \<union> (\<Union>kick \<in> set (pl_kick_operations plan). single_calldata env kick) \<union> batch_calldata env (pl_kick_operations plan)"

lemma tally_result_unsent: "obeys unsent (tally_result env r t)"
  by (auto simp: tally_result_def emit_execution_report_def obeys_def exec_bind_def exec_return_def unsent_def split: option.splits)

lemma obeys_fold_on:
  assumes "exec_order R" "\<And>x t. x \<in> set xs \<Longrightarrow> obeys R (f x t)"
  shows "obeys R (exec_fold f xs t)"
  using assms(2)
proof (induction xs arbitrary: t)
  case Nil
  then show ?case using exec_order.obeys_return(1) [OF assms(1)] by simp
next
  case (Cons x xs)
  show ?case unfolding exec_fold.simps by (rule exec_order.obeys_bind [OF assms(1)]) (use Cons in simp_all)
qed

lemma execute_plan_within: "obeys (sends_within (planned_calldata (se_executor env) plan)) (execute_plan env rq run_id plan t)"
proof -
  let ?D = "planned_calldata (se_executor env) plan"
  note tallied = unsent_within [OF tally_result_unsent, of ?D]
  have resolves: "obeys (sends_within ?D) (exec_fold (\<lambda>operation t. exec_bind (execute_resolve_auction (se_executor env) run_id operation)
      (\<lambda>r. tally_result env r t)) (pl_resolve_operations plan) t)" for t
    by (rule obeys_fold_on [OF within.exec_order_axioms], rule within.obeys_bind [OF execute_resolve_within tallied])
      (auto simp: planned_calldata_def)
  have singles: "obeys (sends_within ?D) (exec_fold (\<lambda>kick t. exec_bind (execute_single (se_executor env) run_id kick)
      (\<lambda>r. tally_result env r t)) (pl_kick_operations plan) t)" for t
    by (rule obeys_fold_on [OF within.exec_order_axioms], rule within.obeys_bind [OF execute_single_within tallied])
      (auto simp: planned_calldata_def)
  have batch: "obeys (sends_within ?D) (exec_bind (execute_batch (se_executor env) run_id (pl_kick_operations plan))
      (\<lambda>results. exec_fold (tally_result env) results t))" for t
    by (rule within.obeys_bind [OF execute_batch_within within.obeys_fold [OF tallied]]) (auto simp: planned_calldata_def)
  show ?thesis
    unfolding execute_plan_def Let_def
    by (rule within.obeys_bind [OF resolves]) (use singles batch in \<open>simp add: within.obeys_return\<close>)
qed

lemma prepare_failures_unsent: "obeys unsent (apply_prepare_result env run_id skipped t)"
  unfolding apply_prepare_result_def persist_prepare_failure_def record_prepare_failure_def
  by (auto simp: split_beta intro!: unsent.obeys_return unsent.obeys_bind unsent.obeys_ask fail_operation_unsent split: option.splits)

lemma dry_run_unsent: "obeys unsent (dry_run_plan env run_id plan)"
  unfolding dry_run_plan_def insert_dry_run_resolve_row_def insert_dry_run_kick_row_def
  by (intro unsent.obeys_bind unsent.obeys_ask unsent.obeys_each unsent.obeys_return with_kicks_unsent)

lemma run_body_obeys:
  "rn_live rq \<Longrightarrow> obeys (sends_within (planned_calldata (se_executor env) plan)) (run_body env rq run_id plan)"
  "\<not> rn_live rq \<Longrightarrow> obeys unsent (run_body env rq run_id plan)"
proof -
  let ?D = "planned_calldata (se_executor env) plan"
  show "obeys (sends_within ?D) (run_body env rq run_id plan)" if "rn_live rq"
    using that unfolding run_body_def
    by (simp, intro within.obeys_bind within.obeys_fold unsent_within [OF prepare_failures_unsent] execute_plan_within)
  show "obeys unsent (run_body env rq run_id plan)" if "\<not> rn_live rq"
    using that unfolding run_body_def
    by (simp, intro unsent.obeys_bind unsent.obeys_fold prepare_failures_unsent dry_run_unsent unsent.obeys_return)
qed

text \<open>The parts of a run: the row, the plan, the body and the final update of the row.\<close>

abbreviation started :: "string \<Rightarrow> string \<Rightarrow> run_request \<Rightarrow> exec_state \<Rightarrow> exec_state" where
  "started run_id started_at rq s \<equiv> s\<lparr>xs_runs := run_create run_id started_at (rn_live rq) (xs_runs s)\<rparr>"

lemma with_runs_then: "exec_bind (with_runs f) g s = g () (s\<lparr>xs_runs := f (xs_runs s)\<rparr>)"
  by (simp add: exec_bind_def with_runs_def)

lemma run_service_eq:
  "run_service env rq run_id started_at s = (case run_plan env rq (started run_id started_at rq s) of
     Inl e \<Rightarrow> (Inl e, started run_id started_at rq s)
   | Inr plan \<Rightarrow> exec_bind (run_body env rq run_id plan) (finish_run env rq run_id plan) (started run_id started_at rq s))"
  unfolding run_service_def with_runs_then by (simp add: exec_bind_def split: sum.split)

lemma run_service_cases:
  assumes "run_service env rq run_id started_at s = (r, t)"
  obtains (no_plan) e where "run_plan env rq (started run_id started_at rq s) = Inl e" "r = Inl e" "t = started run_id started_at rq s"
  | (raised) plan e where "run_plan env rq (started run_id started_at rq s) = Inr plan"
      "run_body env rq run_id plan (started run_id started_at rq s) = (Inl e, t)" "r = Inl e"
  | (finished) plan y u where "run_plan env rq (started run_id started_at rq s) = Inr plan"
      "run_body env rq run_id plan (started run_id started_at rq s) = (Inr y, u)" "finish_run env rq run_id plan y u = (r, t)"
proof (cases "run_plan env rq (started run_id started_at rq s)")
  case (Inl e)
  show thesis by (rule no_plan [OF Inl]) (use assms in \<open>simp_all add: run_service_eq Inl\<close>)
next
  case (Inr plan)
  have rest: "exec_bind (run_body env rq run_id plan) (finish_run env rq run_id plan) (started run_id started_at rq s) = (r, t)"
    using assms unfolding run_service_eq Inr by (simp only: sum.case)
  show thesis using rest
  proof (cases rule: exec_bind_cases)
    case (raised e)
    then show thesis by (rule that(2) [OF Inr])
  next
    case (continued y u)
    then show thesis by (rule that(3) [OF Inr])
  qed
qed

lemma finish_run_row:
  assumes "finish_run env rq run_id plan (succeeded, failed, attempted, messages) u = (r, t)"
  shows "\<exists>finished_at summary. t = u\<lparr>xs_calls := Suc (xs_calls u), xs_runs := run_finalize run_id finished_at
    (run_status (rn_live rq) succeeded failed) (int (length (pl_ranked_candidates plan))) attempted succeeded failed summary (xs_runs u)\<rparr>"
  using assms by (simp add: finish_run_def Let_def exec_bind_def ask_def with_runs_def exec_return_def) blast

lemma finish_run_result:
  assumes "finish_run env rq run_id plan (succeeded, failed, attempted, messages) u = (r, t)"
  shows "\<exists>result. r = Inr result \<and> rr_kicks_succeeded result = succeeded \<and> rr_kicks_failed result = failed
    \<and> rr_kicks_attempted result = attempted \<and> rr_status result = run_status (rn_live rq) succeeded failed
    \<and> rr_candidates_found result = int (length (pl_ranked_candidates plan)) \<and> rr_run_id result = run_id"
  using assms by (simp add: finish_run_def Let_def exec_bind_def ask_def with_runs_def exec_return_def)
    (auto simp only: sum.inject run_result.simps)

lemma run_service_sends:
  assumes "run_service env rq run_id started_at s = (r, t)"
  shows "\<exists>new. xs_sent t = xs_sent s @ new \<and> (new \<noteq> [] \<longrightarrow> rn_live rq \<and> (\<exists>plan.
    run_plan env rq (started run_id started_at rq s) = Inr plan \<and> (\<forall>(h, tx) \<in> set new. ft_data tx \<in> planned_calldata (se_executor env) plan)))"
proof -
  have body: "\<exists>new. xs_sent u = xs_sent s @ new \<and> (new \<noteq> [] \<longrightarrow> rn_live rq \<and> (\<forall>(h, tx) \<in> set new. ft_data tx \<in> planned_calldata (se_executor env) plan))"
    if "run_body env rq run_id plan (started run_id started_at rq s) = (y, u)" for plan y u
  proof (cases "rn_live rq")
    case True
    then show ?thesis using obeysD [OF run_body_obeys(1) that] by (auto simp: sends_within_def)
  next
    case False
    then show ?thesis using obeysD [OF run_body_obeys(2) that] by (simp add: unsent_def)
  qed
  from assms show ?thesis
  proof (cases rule: run_service_cases)
    case (finished plan y u)
    obtain a b c d where y: "y = (a, b, c, d)" by (cases y)
    have "xs_sent t = xs_sent u" using finish_run_row [OF finished(3) [unfolded y]] by auto
    then show ?thesis using body [OF finished(2)] finished(1) by auto
  next
    case (raised plan e)
    then show ?thesis using body by blast
  qed simp
qed

end
