(* ===== verification/RunProperties.thy ===== *)
theory RunProperties
  imports ExecutionSafety PlanAccounting
begin

text \<open>
  The properties of a run of \<open>TxnService\<close> and of the transactions of \<open>KickExecutor\<close>, with the concrete runs
  that show their hypotheses can hold: a kick that is sent and mined, one refused for its base fee, and
  a live run of a whole plan.
\<close>

section \<open>Prepare failures\<close>

lemma prepare_failures_abort:
  assumes "skipped \<in> set skips" "sk_result skipped = Some result" "kr_status result \<noteq> SKIPPED"
  shows "\<exists>t. exec_fold (apply_prepare_result env run_id) skips tally s = (Inl (unexpected_keyword ''requested_sell_amount''), t)
    \<and> only_called s t"
  using assms(1)
proof (induction skips arbitrary: tally)
  case (Cons first rest)
  obtain succeeded failed attempted messages where tally: "tally = (succeeded, failed, attempted, messages)" by (cases tally)
  show ?case
  proof (cases "\<exists>r. sk_result first = Some r \<and> kr_status r \<noteq> SKIPPED")
    case True
    then obtain r where r: "sk_result first = Some r" "kr_status r \<noteq> SKIPPED" by blast
    obtain t where "record_prepare_failure run_id (se_executor env) (sk_candidate first) r s
        = (Inl (unexpected_keyword ''requested_sell_amount''), t)" "only_called s t"
      using record_prepare_failure_raises by blast
    then show ?thesis using r by (simp add: tally apply_prepare_result_def persist_prepare_failure_def exec_bind_def)
  next
    case False
    then have "apply_prepare_result env run_id first tally s = (Inr tally, s)"
      by (auto simp: tally apply_prepare_result_def exec_return_def split: option.splits)
    moreover have "skipped \<in> set rest" using Cons.prems False assms(2,3) by auto
    ultimately show ?thesis using Cons.IH by (simp add: exec_bind_def)
  qed
qed simp

lemma run_body_prepare_failure:
  assumes "skipped \<in> set (pl_skipped_during_prepare plan)" "sk_result skipped = Some result" "kr_status result \<noteq> SKIPPED"
  shows "\<exists>t. run_body env rq run_id plan s = (Inl (unexpected_keyword ''requested_sell_amount''), t) \<and> only_called s t"
proof -
  obtain t where "exec_fold (apply_prepare_result env run_id) (pl_skipped_during_prepare plan)
      (0, 0, int (length (pl_resolve_operations plan)) + int (length (pl_kick_operations plan)), []) s
      = (Inl (unexpected_keyword ''requested_sell_amount''), t)" "only_called s t"
    using prepare_failures_abort [OF assms] by blast
  then show ?thesis by (simp add: run_body_def exec_bind_def)
qed

lemma run_aborts:
  assumes "run_plan env rq (started run_id started_at rq s) = Inr plan"
    and "skipped \<in> set (pl_skipped_during_prepare plan)" "sk_result skipped = Some result" "kr_status result \<noteq> SKIPPED"
  shows "\<exists>t. run_service env rq run_id started_at s = (Inl (unexpected_keyword ''requested_sell_amount''), t)
    \<and> xs_sent t = xs_sent s \<and> xs_ledger t = xs_ledger s \<and> xs_runs t = run_create run_id started_at (rn_live rq) (xs_runs s)"
proof -
  obtain t where t: "run_body env rq run_id plan (started run_id started_at rq s) = (Inl (unexpected_keyword ''requested_sell_amount''), t)"
    "only_called (started run_id started_at rq s) t"
    using run_body_prepare_failure [OF assms(2-)] by blast
  have "run_service env rq run_id started_at s = (Inl (unexpected_keyword ''requested_sell_amount''), t)"
    unfolding run_service_eq assms(1) sum.case by (simp add: exec_bind_def t(1))
  then show ?thesis using only_called_same [OF t(2)] by simp
qed

section \<open>The counts of a run\<close>

text \<open>A tally with \<open>n\<close> operations still to count.\<close>

definition tally_ok :: "int \<Rightarrow> nat \<Rightarrow> tally \<Rightarrow> bool" where
  "tally_ok planned n = (\<lambda>(succeeded, failed, attempted, _).
     0 \<le> succeeded \<and> 0 \<le> failed \<and> succeeded + failed + int n \<le> attempted \<and> attempted \<le> planned)"

lemma tally_exec_result_ok: "tally_ok planned (Suc n) t \<Longrightarrow> tally_ok planned n (tally_exec_result r t)"
  by (cases t) (auto simp: tally_ok_def tally_exec_result_def)

lemma tally_ok_fewer: "tally_ok planned n t \<Longrightarrow> m \<le> n \<Longrightarrow> tally_ok planned m t"
  by (cases t) (auto simp: tally_ok_def)

lemma tally_result_Inr: "tally_result env r t s = (Inr t', u) \<Longrightarrow> t' = tally_exec_result r t"
  by (auto simp: tally_result_def)

lemma tally_fold_ok:
  assumes "exec_fold (\<lambda>x t. exec_bind (run x) (\<lambda>r. tally_result env r t)) xs t s = (Inr t', u)"
    and "tally_ok planned (length xs + n) t"
  shows "tally_ok planned n t'"
  using assms
proof (induction xs arbitrary: t s)
  case (Cons x xs)
  obtain r v t1 w where r: "tally_result env r t v = (Inr t1, w)"
    and w: "exec_fold (\<lambda>x t. exec_bind (run x) (\<lambda>r. tally_result env r t)) xs t1 w = (Inr t', u)"
    using Cons.prems(1) unfolding exec_fold.simps exec_bind_Inr by blast
  have "tally_ok planned (length xs + n) t1"
    unfolding tally_result_Inr [OF r] by (rule tally_exec_result_ok) (use Cons.prems(2) in simp)
  then show ?case by (rule Cons.IH [OF w])
qed simp

lemma return_then: "exec_bind (exec_return x) f = f x"
  by (rule ext) (simp add: exec_bind_def exec_return_def)

lemma tally_results_ok:
  assumes "exec_fold (tally_result env) results t s = (Inr t', u)" "tally_ok planned (length results + n) t"
  shows "tally_ok planned n t'"
proof (rule tally_fold_ok [where run = exec_return])
  have "exec_fold (\<lambda>x t. exec_bind (exec_return x) (\<lambda>r. tally_result env r t)) results t s = exec_fold (tally_result env) results t s"
    by (simp only: return_then)
  then show "exec_fold (\<lambda>x t. exec_bind (exec_return x) (\<lambda>r. tally_result env r t)) results t s = (Inr t', u)"
    using assms(1) by simp
qed (rule assms(2))

lemma exec_each_length: "exec_each f xs s = (Inr ys, t) \<Longrightarrow> length ys = length xs"
  by (induction xs arbitrary: s ys) auto

text \<open>An execution that returns a list returns \<open>n\<close> results.\<close>

definition returns_results :: "nat \<Rightarrow> 'a list exec \<Rightarrow> bool" where
  "returns_results n m \<longleftrightarrow> (\<forall>s results t. m s = (Inr results, t) \<longrightarrow> length results = n)"

lemma returns_results_bind: "(\<And>x. returns_results n (f x)) \<Longrightarrow> returns_results n (exec_bind m f)"
  unfolding returns_results_def exec_bind_Inr by blast

lemma returns_results_bind_length:
  assumes "\<And>s x t. m s = (Inr x, t) \<Longrightarrow> Q x" "\<And>x. Q x \<Longrightarrow> returns_results n (f x)"
  shows "returns_results n (exec_bind m f)"
  using assms unfolding returns_results_def exec_bind_Inr by blast

lemma returns_results_return: "length xs = n \<Longrightarrow> returns_results n (exec_return xs)"
  by (simp add: returns_results_def)

lemma returns_results_each: "length xs = n \<Longrightarrow> returns_results n (exec_each f xs)"
  unfolding returns_results_def using exec_each_length by blast

lemma returns_results_if: "returns_results n a \<Longrightarrow> returns_results n b \<Longrightarrow> returns_results n (if c then a else b)"
  by simp

lemma returns_results_sum:
  "(\<And>e. returns_results n (f e)) \<Longrightarrow> (\<And>x. returns_results n (g x)) \<Longrightarrow> returns_results n (case_sum f g answer)"
  by (cases answer) simp_all

lemmas returns_results_intros = returns_results_bind returns_results_return returns_results_each returns_results_if returns_results_sum

lemma settle_kicks_returns: "returns_results (length kicks) (settle_kicks env run_id kicks now sender h g)"
  unfolding settle_kicks_def
  by (rule returns_results_bind_length [where Q = "\<lambda>ids. length ids = length kicks"]) (auto intro!: returns_results_intros dest: exec_each_length)

lemma fail_batch_returns: "returns_results (length kicks) (fail_batch run_id kicks now st message)"
  unfolding fail_batch_def by (rule returns_results_each) simp

lemma execute_tx_returns: "returns_results (length kicks) (execute_tx env kicks tx_data run_id)"
  unfolding execute_tx_def Let_def by (intro returns_results_intros settle_kicks_returns fail_batch_returns refl)

lemma execute_batch_length: "execute_batch env run_id kicks s = (Inr results, t) \<Longrightarrow> length results = length kicks"
proof -
  have "returns_results (length kicks) (execute_batch env run_id kicks)"
    unfolding execute_batch_def by (intro returns_results_intros execute_tx_returns refl)
  then show "execute_batch env run_id kicks s = (Inr results, t) \<Longrightarrow> length results = length kicks"
    unfolding returns_results_def by blast
qed

lemma execute_plan_ok:
  assumes "execute_plan env rq run_id plan t s = (Inr t', u)"
    and "tally_ok planned (length (pl_resolve_operations plan) + length (pl_kick_operations plan)) t"
  shows "tally_ok planned 0 t'"
proof -
  let ?kicks = "pl_kick_operations plan"
  obtain t1 v where resolves: "exec_fold (\<lambda>operation t. exec_bind (execute_resolve_auction (se_executor env) run_id operation)
      (\<lambda>r. tally_result env r t)) (pl_resolve_operations plan) t s = (Inr t1, v)"
    and kicks: "(if ?kicks = [] then exec_return t1
      else if \<not> rn_batch rq \<or> length ?kicks = 1 \<or> length (filter (\<lambda>intent. ti_operation intent = ''kick'') (pl_tx_intents plan)) \<noteq> 1
      then exec_fold (\<lambda>kick t. exec_bind (execute_single (se_executor env) run_id kick) (\<lambda>r. tally_result env r t)) ?kicks t1
      else exec_bind (execute_batch (se_executor env) run_id ?kicks) (\<lambda>results. exec_fold (tally_result env) results t1)) v = (Inr t', u)"
    using assms(1) unfolding execute_plan_def Let_def exec_bind_Inr by blast
  have t1: "tally_ok planned (length ?kicks) t1" by (rule tally_fold_ok [OF resolves]) (use assms(2) in simp)
  consider (none) "?kicks = []" | (single) "?kicks \<noteq> []" "\<not> rn_batch rq \<or> length ?kicks = 1
      \<or> length (filter (\<lambda>intent. ti_operation intent = ''kick'') (pl_tx_intents plan)) \<noteq> 1"
    | (batch) "?kicks \<noteq> []" "\<not> (\<not> rn_batch rq \<or> length ?kicks = 1
      \<or> length (filter (\<lambda>intent. ti_operation intent = ''kick'') (pl_tx_intents plan)) \<noteq> 1)" by blast
  then show ?thesis
  proof cases
    case none
    then show ?thesis using kicks t1 by simp
  next
    case single
    have "exec_fold (\<lambda>kick t. exec_bind (execute_single (se_executor env) run_id kick) (\<lambda>r. tally_result env r t)) ?kicks t1 v = (Inr t', u)"
      using kicks unfolding if_not_P [OF single(1)] if_P [OF single(2)] .
    then show ?thesis by (rule tally_fold_ok) (use t1 in simp)
  next
    case batch
    obtain results w where results: "execute_batch (se_executor env) run_id ?kicks v = (Inr results, w)"
      and w: "exec_fold (tally_result env) results t1 w = (Inr t', u)"
      using kicks unfolding if_not_P [OF batch(1)] if_not_P [OF batch(2)] exec_bind_Inr by blast
    show ?thesis by (rule tally_results_ok [OF w]) (use t1 execute_batch_length [OF results] in simp)
  qed
qed

lemma prepare_results_keep:
  assumes "exec_fold (apply_prepare_result env run_id) skips tally s = (Inr t, u)"
  shows "t = tally"
  using assms
proof (induction skips arbitrary: tally s)
  case (Cons skipped skips)
  obtain succeeded failed attempted messages where tally: "tally = (succeeded, failed, attempted, messages)" by (cases tally)
  have "tally' = tally" if "apply_prepare_result env run_id skipped tally s = (Inr tally', v)" for tally' v
  proof (cases "\<exists>r. sk_result skipped = Some r \<and> kr_status r \<noteq> SKIPPED")
    case True
    then obtain r where r: "sk_result skipped = Some r" "kr_status r \<noteq> SKIPPED" by blast
    have "record_prepare_failure run_id (se_executor env) (sk_candidate skipped) r s \<noteq> (Inr x, w)" for x w
      using record_prepare_failure_raises by (metis old.sum.distinct(1) prod.inject)
    then show ?thesis using that r by (simp add: tally apply_prepare_result_def persist_prepare_failure_def)
  next
    case False
    then show ?thesis using that by (auto simp: tally apply_prepare_result_def split: option.splits)
  qed
  then show ?case using Cons by auto
qed simp

lemma run_body_ok:
  assumes "run_body env rq run_id plan s = (Inr t, u)"
  shows "tally_ok (int (length (pl_resolve_operations plan) + length (pl_kick_operations plan))) 0 t"
proof -
  let ?n = "length (pl_resolve_operations plan) + length (pl_kick_operations plan)"
  have start: "tally_ok (int ?n) ?n (0, 0, int (length (pl_resolve_operations plan)) + int (length (pl_kick_operations plan)), messages)"
    for messages by (simp add: tally_ok_def)
  show ?thesis
  proof (cases "rn_live rq")
    case True
    then show ?thesis using assms start by (auto simp: run_body_def dest!: prepare_results_keep intro: execute_plan_ok)
  next
    case False
    then show ?thesis using assms start tally_ok_fewer by (fastforce simp: run_body_def dest!: prepare_results_keep)
  qed
qed

lemma run_body_runs:
  assumes "run_body env rq run_id plan s = (r, t)"
  shows "xs_runs t = xs_runs s"
proof (cases "rn_live rq")
  case True
  then show ?thesis using obeysD [OF run_body_obeys(1) assms] by (simp add: sends_within_def)
next
  case False
  then show ?thesis using obeysD [OF run_body_obeys(2) assms] by (simp add: unsent_def)
qed

definition run_row_of :: "txn_run \<Rightarrow> run_result \<Rightarrow> bool" where
  "run_row_of row result \<longleftrightarrow> tr_status row = rr_status result \<and> tr_candidates_found row = rr_candidates_found result
     \<and> tr_kicks_attempted row = rr_kicks_attempted result \<and> tr_kicks_succeeded row = rr_kicks_succeeded result
     \<and> tr_kicks_failed row = rr_kicks_failed result \<and> tr_finished_at row \<noteq> None"

lemma run_finalize_rows:
  "filter (\<lambda>row. tr_run_id row \<noteq> run_id) (run_finalize run_id finished_at status found attempted succeeded failed summary runs)
     = filter (\<lambda>row. tr_run_id row \<noteq> run_id) runs"
  by (induction runs) (auto simp: run_finalize_def)

lemma run_returns:
  assumes "run_service env rq run_id started_at s = (Inr result, t)"
  obtains plan where "run_plan env rq (started run_id started_at rq s) = Inr plan"
    "0 \<le> rr_kicks_succeeded result" "0 \<le> rr_kicks_failed result"
    "rr_kicks_succeeded result + rr_kicks_failed result \<le> rr_kicks_attempted result"
    "rr_kicks_attempted result \<le> int (length (pl_resolve_operations plan) + length (pl_kick_operations plan))"
    "rr_status result = run_status (rn_live rq) (rr_kicks_succeeded result) (rr_kicks_failed result)"
    "\<forall>row \<in> set (xs_runs t). tr_run_id row = run_id \<longrightarrow> run_row_of row result"
    "filter (\<lambda>row. tr_run_id row \<noteq> run_id) (xs_runs t) = filter (\<lambda>row. tr_run_id row \<noteq> run_id) (xs_runs s)"
    "length (xs_runs t) = Suc (length (xs_runs s))"
    "tr_run_id (last (xs_runs t)) = run_id" "tr_started_at (last (xs_runs t)) = started_at" "tr_live (last (xs_runs t)) = rn_live rq"
  using assms
proof (cases rule: run_service_cases)
  case (finished plan y u)
  obtain succeeded failed attempted messages where y: "y = (succeeded, failed, attempted, messages)" by (cases y)
  have fields: "rr_kicks_succeeded result = succeeded" "rr_kicks_failed result = failed" "rr_kicks_attempted result = attempted"
    "rr_status result = run_status (rn_live rq) succeeded failed" "rr_candidates_found result = int (length (pl_ranked_candidates plan))"
    using finish_run_result [OF finished(3) [unfolded y]] unfolding sum.inject by blast+
  obtain finished_at summary where row: "xs_runs t = run_finalize run_id finished_at (run_status (rn_live rq) succeeded failed)
      (int (length (pl_ranked_candidates plan))) attempted succeeded failed summary (xs_runs u)"
    using finish_run_row [OF finished(3) [unfolded y]] by auto
  have runs: "xs_runs u = run_create run_id started_at (rn_live rq) (xs_runs s)" using run_body_runs [OF finished(2)] by simp
  have "run_row_of row result" if row_in: "row \<in> set (xs_runs t)" and row_id: "tr_run_id row = run_id" for row
  proof -
    obtain old where "old \<in> set (xs_runs u)" "row = (if tr_run_id old = run_id then old\<lparr>tr_finished_at := Some finished_at,
        tr_status := run_status (rn_live rq) succeeded failed, tr_candidates_found := int (length (pl_ranked_candidates plan)),
        tr_kicks_attempted := attempted, tr_kicks_succeeded := succeeded, tr_kicks_failed := failed,
        tr_error_summary := summary\<rparr> else old)"
      using row_in unfolding row run_finalize_def by auto
    then show ?thesis using row_id by (cases "tr_run_id old = run_id") (simp_all add: run_row_of_def fields)
  qed
  moreover have "filter (\<lambda>row. tr_run_id row \<noteq> run_id) (xs_runs t) = filter (\<lambda>row. tr_run_id row \<noteq> run_id) (xs_runs s)"
    unfolding row run_finalize_rows runs by (simp add: run_create_def)
  moreover have "length (xs_runs t) = Suc (length (xs_runs s))" "tr_run_id (last (xs_runs t)) = run_id"
    "tr_started_at (last (xs_runs t)) = started_at" "tr_live (last (xs_runs t)) = rn_live rq"
    unfolding row runs by (simp_all add: run_finalize_def run_create_def)
  moreover have "0 \<le> succeeded \<and> 0 \<le> failed \<and> succeeded + failed \<le> attempted
      \<and> attempted \<le> int (length (pl_resolve_operations plan) + length (pl_kick_operations plan))"
    using run_body_ok [OF finished(2)] by (simp add: y tally_ok_def)
  ultimately show thesis by (intro that [OF finished(1)]) (simp_all add: fields)
qed simp_all

section \<open>Concrete executions\<close>

definition sample_node :: exec_node where
  "sample_node = \<lparr>en_base_fee = (\<lambda>_. Inr (10 ^ 9)), en_estimate_gas = (\<lambda>_ _ _ _. Inr 100000), en_max_priority_fee = (\<lambda>_. Inr 100),
     en_transaction_count = (\<lambda>_. Inr 7), en_send = (\<lambda>_ _. Inr ''0xh''), en_receipt = (\<lambda>_ _. Inr sample_receipt),
     en_now = (\<lambda>_. ''2026-01-01T00:00:00Z'')\<rparr>"

definition sample_exec_env :: exec_env where
  "sample_exec_env = \<lparr>xe_node = sample_node, xe_builder = sample_builder, xe_signer = Some ''0xo'', xe_base_fee_cap_gwei = 5,
     xe_base_fee_cap_text = ''5'', xe_max_priority_fee_gwei = 2, xe_skip_base_fee_check = False, xe_max_gas_limit = 500000,
     xe_chain_id = 1, xe_confirm = None, xe_reconciler = None\<rparr>"

definition congested_env :: exec_env where
  "congested_env = sample_exec_env\<lparr>xe_base_fee_cap_gwei := 1 / 2\<rparr>"

definition fresh_state :: exec_state where
  "fresh_state = \<lparr>xs_calls = 0, xs_ledger = empty_ledger, xs_runs = [], xs_sent = [], xs_reports = []\<rparr>"

lemma sample_base_fee: "gwei_of_wei (10 ^ 9) = 1"
  by code_simp

lemma sample_checks:
  "require_signer sample_exec_env s = (Inr ''0xo'', s)"
  "check_base_fee sample_exec_env s = (Inr (Inr 1), s\<lparr>xs_calls := Suc (xs_calls s)\<rparr>)"
  "resolve_priority_fee_wei sample_exec_env s = (Inr 100, s\<lparr>xs_calls := Suc (xs_calls s)\<rparr>)"
  "confirmed sample_exec_env sender kicks g l b p s = (Inr True, s)"
  by (simp_all add: sample_exec_env_def sample_node_def require_signer_def check_base_fee_def resolve_priority_fee_wei_def confirmed_def
      ask_def exec_bind_def exec_return_def Let_def sample_base_fee [simplified])

lemma sample_send:
  "\<exists>tx. send_transaction sample_exec_env target tx_data g b p s
     = (Inr (Inr ''0xh''), s\<lparr>xs_calls := Suc (Suc (xs_calls s)), xs_sent := xs_sent s @ [(''0xh'', tx)]\<rparr>)"
  by (simp add: sample_exec_env_def sample_node_def send_transaction_def ask_def exec_bind_def exec_lift_def Let_def) blast

lemma sample_send_then:
  "\<exists>tx u. exec_bind (send_transaction sample_exec_env target tx_data g b p) f s = f (Inr ''0xh'') u
     \<and> xs_sent u = xs_sent s @ [(''0xh'', tx)] \<and> xs_ledger u = xs_ledger s"
proof -
  obtain tx where "send_transaction sample_exec_env target tx_data g b p s
     = (Inr (Inr ''0xh''), s\<lparr>xs_calls := Suc (Suc (xs_calls s)), xs_sent := xs_sent s @ [(''0xh'', tx)]\<rparr>)"
    using sample_send by blast
  then have "exec_bind (send_transaction sample_exec_env target tx_data g b p) f s
      = f (Inr ''0xh'') (s\<lparr>xs_calls := Suc (Suc (xs_calls s)), xs_sent := xs_sent s @ [(''0xh'', tx)]\<rparr>)"
    by (simp add: exec_bind_def)
  then show ?thesis by (intro exI [of _ tx] exI [of _ "s\<lparr>xs_calls := Suc (Suc (xs_calls s)), xs_sent := xs_sent s @ [(''0xh'', tx)]\<rparr>"]) simp
qed

lemma sample_settled:
  "\<exists>result t. settle_kicks sample_exec_env run_id [kick] now sender h g s = (Inr [result], t) \<and> kr_status result = CONFIRMED
     \<and> kr_execution_report result \<noteq> None \<and> kr_error_message result = None"
  by (simp add: settle_kicks_def sample_exec_env_def sample_node_def insert_submitted_Inr exec_bind_def ask_def exec_return_def
      receipt_result_def update_receipt_status_def with_kicks_def sent_kick_result_def kick_result_of_def final_status_def sample_receipt_def)

lemma sample_executed:
  "\<exists>result t tx. execute_tx sample_exec_env [kick] tx_data run_id s = (Inr [result], t) \<and> kr_status result = CONFIRMED
     \<and> kr_execution_report result \<noteq> None \<and> kr_error_message result = None \<and> xs_sent t = xs_sent s @ [(''0xh'', tx)]"
proof -
  let ?now = "en_now (xe_node sample_exec_env) (xs_calls s)"
  define v where "v = s\<lparr>xs_calls := Suc (Suc (Suc (Suc (xs_calls s))))\<rparr>"
  let ?send = "exec_bind (send_transaction sample_exec_env ''0xk'' tx_data (min (gas_with_buffer 100000) 500000) 1 100) (case_sum
     (\<lambda>e. fail_batch run_id [kick] ?now ERROR (''send failed: '' @ exn_str e))
     (\<lambda>tx_hash. settle_kicks sample_exec_env run_id [kick] ?now ''0xo'' tx_hash 100000))"
  have node: "en_estimate_gas (xe_node sample_exec_env) n sender to tx_data = Inr 100000" "tb_checksum (xe_builder sample_exec_env) a = Inr a"
    "tb_kicker_address (xe_builder sample_exec_env) = ''0xk''" "xe_max_gas_limit sample_exec_env = 500000" for n sender to a
    by (simp_all add: sample_exec_env_def sample_node_def sample_builder_def)
  have "execute_tx sample_exec_env [kick] tx_data run_id s = ?send v"
    unfolding execute_tx_def
    by (simp add: exec_bind_def [of "ask f" for f] exec_bind_def [of "require_signer e" for e] exec_bind_def [of "exec_lift r" for r]
        exec_bind_def [of "check_base_fee e" for e] exec_bind_def [of "resolve_priority_fee_wei e" for e]
        exec_bind_def [of "confirmed e a ks g l b p" for e a ks g l b p] ask_def exec_lift_def node sample_checks Let_def v_def)
  moreover obtain tx u where "?send v = settle_kicks sample_exec_env run_id [kick] ?now ''0xo'' ''0xh'' 100000 u"
    "xs_sent u = xs_sent v @ [(''0xh'', tx)]"
    using sample_send_then [of "''0xk''" tx_data "min (gas_with_buffer 100000) 500000" 1 100 "case_sum
     (\<lambda>e. fail_batch run_id [kick] ?now ERROR (''send failed: '' @ exn_str e))
     (\<lambda>tx_hash. settle_kicks sample_exec_env run_id [kick] ?now ''0xo'' tx_hash 100000)" v] unfolding sum.case by blast
  moreover obtain result t where "settle_kicks sample_exec_env run_id [kick] ?now ''0xo'' ''0xh'' 100000 u = (Inr [result], t)"
    "kr_status result = CONFIRMED" "kr_execution_report result \<noteq> None" "kr_error_message result = None"
    using sample_settled by blast
  moreover have "xs_sent t = xs_sent u"
    using settle_kicks_records calculation(4) by (auto simp: kicks_recorded_def unsent_def)
  ultimately show ?thesis by (auto simp: v_def)
qed

text \<open>A live run over the tables of \<open>sample_plan_env\<close>, with an estimator to choose.\<close>

definition live_plan_env :: "estimator \<Rightarrow> plan_env" where
  "live_plan_env estimator = sample_plan_env\<lparr>ple_estimator := estimator, ple_estimate_transactions := True\<rparr>"

definition live_service_env :: "estimator \<Rightarrow> service_env" where
  "live_service_env estimator = \<lparr>se_executor = sample_exec_env, se_planner = live_plan_env estimator, se_reports = True\<rparr>"

definition live_request :: run_request where
  "live_request = \<lparr>rn_live = True, rn_batch = True, rn_source_type = None, rn_source_address = None, rn_auction_address = None,
     rn_limit = None, rn_token_address = None, rn_allow_no_fill_retry = False\<rparr>"

lemma live_plan_fields:
  "ple_prepare (live_plan_env estimator) = ple_prepare sample_plan_env"
  "ple_isaddr (live_plan_env estimator) = ple_isaddr sample_plan_env"
  "ple_guard_now (live_plan_env estimator) = ple_guard_now sample_plan_env"
  "ple_retry_delays_minutes (live_plan_env estimator) = ple_retry_delays_minutes sample_plan_env"
  "ple_kicks (live_plan_env estimator) = ple_kicks sample_plan_env"
  "ple_allow_no_fill_retry (live_plan_env estimator) = ple_allow_no_fill_retry sample_plan_env"
  by (simp_all add: live_plan_env_def)

lemma live_run_plan:
  assumes "xs_ledger s = empty_ledger"
  shows "run_plan (live_service_env estimator) live_request s = kick_plan_of (live_plan_env estimator) sample_plan_request"
proof -
  have "(live_plan_env estimator)\<lparr>ple_kicks := [], ple_sender := Some ''0xo'', ple_batch := True, ple_estimate_transactions := True,
      ple_allow_killed_gauge := False, ple_allow_no_fill_retry := False\<rparr> = live_plan_env estimator"
    by (simp add: live_plan_env_def sample_plan_env_def)
  moreover have "plan_request (live_plan_env estimator) None None None None None = sample_plan_request"
    by (simp add: live_plan_env_def sample_plan_request_def plan_request_def)
  moreover have "l_kicks (xs_ledger s) = []" by (simp add: assms empty_ledger_def)
  ultimately show ?thesis
    by (simp add: run_plan_def live_service_env_def live_request_def planner_sender_def sample_exec_env_def Let_def)
qed

lemma live_resolutions: "plan_resolutions (live_plan_env estimator) [sample_candidate] plan = Inr ([sample_candidate], plan)"
proof -
  have "group_by_auction (ple_isaddr sample_plan_env) [sample_candidate] = Inr [(''0xa'', [sample_candidate])]" by code_simp
  moreover have "ple_inspect_settlements sample_plan_env [''0xa''] = Inr [(''0xa'', clear_settlement)]" by (simp add: sample_plan_env_def)
  moreover have "preview_failures clear_settlement = []" "default_actionable_previews clear_settlement = []"
    "live_funded_previews clear_settlement = []" by code_simp+
  ultimately show ?thesis by (simp add: plan_resolutions_def resolve_auction_def dict_get_def live_plan_env_def)
qed

lemma live_plan:
  obtains kick start where "kick_plan_of (live_plan_env estimator) sample_plan_request = plan_transactions (live_plan_env estimator) [kick] start"
    "pl_skipped_during_prepare start = []" "pl_kick_operations start = []" "pl_resolve_operations start = []" "pl_tx_intents start = []"
proof -
  obtain sl where sl: "build_shortlist (ple_isaddr sample_plan_env) (ple_now sample_plan_env) (ple_tables sample_plan_env) sample_plan_request
      = Inr sl" "sl_selected sl = [sample_candidate]" by (rule sample_plan_shortlist)
  define start where "start = initial_plan sample_plan_request sl [sample_candidate]"
  obtain ins where ins: "inspect_candidates (ple_prepare sample_plan_env) [sample_candidate] = Inr ins"
    "map_of ins (''0xa'', ''0xt'') = Some KickPrepare.sample_inspection" by (rule sample_inspections)
  obtain kick where kick: "prepare_step sample_plan_env ins sample_candidate ([], start) = Inr ([kick], start)"
    by (rule sample_prepare_step [OF ins(2)])
  have same: "version_step (live_plan_env estimator) = version_step sample_plan_env"
    "prepare_step (live_plan_env estimator) = prepare_step sample_plan_env"
    "ple_prepare (live_plan_env estimator) = ple_prepare sample_plan_env"
  proof -
    note fields = live_plan_fields [of estimator]
    show "version_step (live_plan_env estimator) = version_step sample_plan_env"
      by (simp only: fun_eq_iff version_step_def version_refusal_def fields) simp
    show "prepare_step (live_plan_env estimator) = prepare_step sample_plan_env" by (simp only: fun_eq_iff prepare_step_def fields) simp
    show "ple_prepare (live_plan_env estimator) = ple_prepare sample_plan_env" by (rule fields)
  qed
  have candidates: "plan_candidates (live_plan_env estimator) [sample_candidate] start = plan_transactions (live_plan_env estimator) [kick] start"
    by (simp add: plan_candidates_def same ins sample_version live_resolutions kick)
  have "ple_guard_statuses (live_plan_env estimator) = None" "ple_allow_killed_gauge (live_plan_env estimator) = False"
    by (simp_all add: live_plan_env_def sample_plan_env_def)
  moreover have "build_shortlist (ple_isaddr (live_plan_env estimator)) (ple_now (live_plan_env estimator))
      (ple_tables (live_plan_env estimator)) sample_plan_request = Inr sl" using sl(1) by (simp add: live_plan_env_def)
  ultimately have "kick_plan_of (live_plan_env estimator) sample_plan_request = plan_transactions (live_plan_env estimator) [kick] start"
    unfolding kick_plan_of_def
    by (simp add: sl(2) sort_candidates_def filter_kick_guard_def candidates Let_def flip: start_def)
  then show thesis by (rule that) (simp_all add: start_def initial_plan_def)
qed

lemma live_intent:
  obtains intent where "build_single_kick_intent (ple_tx_builder (live_plan_env estimator)) (ple_sender (live_plan_env estimator)) kick = Inr intent"
    "ti_sender intent = Some ''0xo''" "build_single_kick_intent sample_builder (Some ''0xo'') kick = Inr intent" "ti_data intent = ''0x01''"
proof -
  have "normalize_address (\<lambda>_. True) ''0xk'' = Inr ''0xk''" by code_simp
  then show thesis using that
    by (simp add: build_single_kick_intent_def kicker_intent_def kick_args_of_def Let_def live_plan_env_def sample_plan_env_def sample_builder_def)
qed

definition reliable_estimator :: estimator where
  "reliable_estimator = Estimate_Fn (\<lambda>_ _ _ _. Inr (Some 100000, Some 120000, None))"

lemma live_plan_sends:
  obtains plan kick where "kick_plan_of (live_plan_env reliable_estimator) sample_plan_request = Inr plan"
    "pl_kick_operations plan = [kick]" "pl_resolve_operations plan = []" "pl_skipped_during_prepare plan = []"
proof -
  obtain kick start where p: "kick_plan_of (live_plan_env reliable_estimator) sample_plan_request
      = plan_transactions (live_plan_env reliable_estimator) [kick] start"
    "pl_skipped_during_prepare start = []" "pl_kick_operations start = []" "pl_resolve_operations start = []" "pl_tx_intents start = []"
    by (rule live_plan)
  obtain intent where "build_single_kick_intent (ple_tx_builder (live_plan_env reliable_estimator))
    (ple_sender (live_plan_env reliable_estimator)) kick = Inr intent" by (rule live_intent)
  then have "\<exists>i. prepare_single_kick_intent (live_plan_env reliable_estimator) kick = Inr (Some (kick, i), None)"
    by (simp add: prepare_single_kick_intent_def estimate_intent_def live_plan_env_def sample_plan_env_def reliable_estimator_def gas_cap_warning_def)
  then obtain i where "prepare_single_kick_intent (live_plan_env reliable_estimator) kick = Inr (Some (kick, i), None)" by blast
  moreover have "ple_batch (live_plan_env reliable_estimator)" by (simp add: live_plan_env_def sample_plan_env_def)
  ultimately have "plan_transactions (live_plan_env reliable_estimator) [kick] start
      = Inr (count_ready (plan_single_results ([(kick, i)], []) start))"
    by (simp add: plan_transactions_def single_step_def)
  moreover have "pl_kick_operations (count_ready (plan_single_results ([(kick, i)], []) start)) = [kick]"
    "pl_resolve_operations (count_ready (plan_single_results ([(kick, i)], []) start)) = []"
    "pl_skipped_during_prepare (count_ready (plan_single_results ([(kick, i)], []) start)) = []"
    using p(2-4) by (cases start; simp add: plan_single_results_def plan_skip_def plan_warn_def plan_kicks_def count_ready_def)+
  ultimately show thesis using p(1) that by metis
qed

lemma live_plan_fails:
  obtains plan skipped result where "kick_plan_of (live_plan_env (Estimate_Node None)) sample_plan_request = Inr plan"
    "skipped \<in> set (pl_skipped_during_prepare plan)" "sk_result skipped = Some result" "kr_status result = ESTIMATE_FAILED"
proof -
  let ?E = "live_plan_env (Estimate_Node None)"
  obtain kick start where p: "kick_plan_of ?E sample_plan_request = plan_transactions ?E [kick] start" by (rule live_plan)
  obtain intent where "build_single_kick_intent (ple_tx_builder ?E) (ple_sender ?E) kick = Inr intent" "ti_sender intent = Some ''0xo''"
    by (rule live_intent)
  then have "prepare_single_kick_intent ?E kick = Inr (None, Some ''No web3 client provided for gas estimation.'')"
    by (simp add: prepare_single_kick_intent_def estimate_intent_def live_plan_env_def)
  moreover have "ple_batch ?E" by (simp add: live_plan_env_def sample_plan_env_def)
  ultimately have "plan_transactions ?E [kick] start
      = Inr (count_resolves (plan_single_results ([], [(kick, ''No web3 client provided for gas estimation.'')]) start))"
    by (simp add: plan_transactions_def single_step_def)
  then have plan: "kick_plan_of ?E sample_plan_request
      = Inr (count_resolves (plan_single_results ([], [(kick, ''No web3 client provided for gas estimation.'')]) start))" unfolding p .
  have "prepared_estimate_failure ''No web3 client provided for gas estimation.'' kick
      \<in> set (pl_skipped_during_prepare (count_resolves (plan_single_results ([], [(kick, ''No web3 client provided for gas estimation.'')]) start)))"
    by (cases start) (simp add: plan_single_results_def plan_skip_def plan_warn_def plan_kicks_def count_resolves_def)
  then show thesis
    by (rule that [OF plan]) (simp add: prepared_estimate_failure_def skipped_because_def kick_result_of_def)+
qed

lemma live_run_returns:
  "\<exists>result t tx. run_service (live_service_env reliable_estimator) live_request ''run'' now fresh_state = (Inr result, t)
     \<and> rr_kicks_succeeded result = 1 \<and> xs_sent t = [(''0xh'', tx)]"
proof -
  let ?env = "live_service_env reliable_estimator" and ?start = "started ''run'' now live_request fresh_state"
  obtain plan kick where plan: "kick_plan_of (live_plan_env reliable_estimator) sample_plan_request = Inr plan"
    "pl_kick_operations plan = [kick]" "pl_resolve_operations plan = []" "pl_skipped_during_prepare plan = []" by (rule live_plan_sends)
  then have run: "run_plan ?env live_request ?start = Inr plan" by (simp add: live_run_plan fresh_state_def)
  obtain intent where intent: "build_single_kick_intent sample_builder (Some ''0xo'') kick = Inr intent" "ti_data intent = ''0x01''"
    by (rule live_intent)
  obtain result t tx where executed: "execute_tx sample_exec_env [kick] ''0x01'' ''run'' ?start = (Inr [result], t)"
    "kr_status result = CONFIRMED" "xs_sent t = xs_sent ?start @ [(''0xh'', tx)]" using sample_executed by blast
  have builder: "xe_builder sample_exec_env = sample_builder" by (simp add: sample_exec_env_def)
  have single: "execute_single sample_exec_env ''run'' kick ?start = (Inr result, t)"
    unfolding execute_single_def exec_bind_def sample_checks exec_lift_def builder by (simp add: intent executed(1) exec_return_def)
  have folded: "exec_fold (\<lambda>kick t. exec_bind (execute_single sample_exec_env ''run'' kick) (\<lambda>r. tally_result ?env r t)) [kick] (0, 0, 1, []) ?start
      = (Inr (1, 0, 1, []), snd (emit_execution_report ?env result t))"
    by (simp add: exec_bind_def single tally_result_def emit_execution_report_def exec_return_def tally_exec_result_def executed(2))
  have batch: "rn_live live_request" "se_executor ?env = sample_exec_env" by (simp_all add: live_request_def live_service_env_def)
  have body: "run_body ?env live_request ''run'' plan ?start = (Inr (1, 0, 1, []), snd (emit_execution_report ?env result t))"
    unfolding run_body_def execute_plan_def plan(2-4) exec_fold.simps return_then batch(2) using batch(1) folded
    by (simp add: return_then Let_def)
  obtain r v where finish: "finish_run ?env live_request ''run'' plan (1, 0, 1, []) (snd (emit_execution_report ?env result t)) = (r, v)"
    by (cases "finish_run ?env live_request ''run'' plan (1, 0, 1, []) (snd (emit_execution_report ?env result t))")
  then have "run_service ?env live_request ''run'' now fresh_state = (r, v)"
    unfolding run_service_eq run sum.case by (simp add: exec_bind_def body)
  moreover have "xs_sent v = [(''0xh'', tx)]"
    using finish_run_row [OF finish] executed(3) by (auto simp: emit_execution_report_def fresh_state_def split: option.splits)
  moreover obtain x where "r = Inr x" "rr_kicks_succeeded x = 1" using finish_run_result [OF finish] by blast
  ultimately show ?thesis by blast
qed

section \<open>The properties\<close>

text \<open>
  C6. Safety of a broadcast: the executor sends at most one transaction for its kicks, and
  only after every check. It read a base fee and, unless the base-fee check is switched off
  for the run, that fee is at most the cap. The node estimated exactly this call from the
  signer to the kicker within the gas cap of the batch, and the gas limit is the buffered
  estimate, never above that cap. The operator, when asked, said yes to the summary of
  exactly these kicks with this estimate, gas limit, base fee and priority fee. The priority
  fee is under its maximum, and the maximum fee adds it to the configured cap, or to the
  base fee itself when the check is switched off. Every kick then has a row of its own, new
  in the table, with the run, the auction, the token and the hash.
\<close>

theorem sent_kick_cleared_and_recorded:
  assumes "execute_tx env kicks tx_data run_id s = (r, t)" "xs_sent t \<noteq> xs_sent s" "kick_table_wf (l_kicks (xs_ledger s))"
  shows "\<exists>h tx ids. xs_sent t = xs_sent s @ [(h, tx)] \<and> send_cleared env kicks tx_data tx
    \<and> distinct ids \<and> (\<forall>i \<in> set ids. kick_get (l_kicks (xs_ledger s)) i = None)
    \<and> list_all2 (\<lambda>i kick. recorded run_id h i kick (l_kicks (xs_ledger t))) ids kicks"
proof -
  from endsD [OF execute_tx_outcome assms(1)] assms(2) obtain h tx u where
    sent: "xs_sent t = xs_sent s @ [(h, tx)]" "send_cleared env kicks tx_data tx" "xs_ledger u = xs_ledger s"
      "kicks_recorded run_id h kicks u r t" unfolding tx_outcome_def by blast
  from sent(4) assms(3) show ?thesis unfolding kicks_recorded_def sent(3) using sent(1,2) by blast
qed

theorem sent_kick_cleared_and_recorded_witness:
  "\<exists>kick result t tx i. execute_tx sample_exec_env [kick] ''0x01'' ''run'' fresh_state = (Inr [result], t) \<and> kr_status result = CONFIRMED
     \<and> xs_sent t = [(''0xh'', tx)] \<and> ft_gas tx = min (gas_with_buffer 100000) 500000 \<and> recorded ''run'' ''0xh'' i kick (l_kicks (xs_ledger t))"
proof -
  fix kick
  obtain result t tx where e: "execute_tx sample_exec_env [kick] ''0x01'' ''run'' fresh_state = (Inr [result], t)"
    "kr_status result = CONFIRMED" "xs_sent t = xs_sent fresh_state @ [(''0xh'', tx)]" using sample_executed by blast
  have "kick_table_wf (l_kicks (xs_ledger fresh_state))" by code_simp
  from sent_kick_cleared_and_recorded [OF e(1) _ this] e(3) obtain ids where
    "send_cleared sample_exec_env [kick] ''0x01'' tx" "list_all2 (\<lambda>i kick. recorded ''run'' ''0xh'' i kick (l_kicks (xs_ledger t))) ids [kick]"
    by auto
  moreover from this(2) obtain i where "recorded ''run'' ''0xh'' i kick (l_kicks (xs_ledger t))" by (auto simp: list_all2_Cons2)
  moreover have "ft_gas tx = min (gas_with_buffer 100000) 500000"
    using calculation(1) unfolding send_cleared_def by (auto simp: gas_cap_def sample_exec_env_def sample_node_def)
  moreover have "xs_sent t = [(''0xh'', tx)]" using e(3) by (simp add: fresh_state_def)
  ultimately show ?thesis using e(1,2) by blast
qed

text \<open>
  C9. When a kick is not sent and nobody was asked to confirm it, whatever refused it (the
  base fee, the gas estimate, the gas cap, the node), the executor returns no failed result:
  it raises, and no row records the failure.
\<close>

theorem refused_kick_raises:
  assumes "execute_tx env kicks tx_data run_id s = (r, t)" "xs_sent t = xs_sent s" "xe_confirm env = None" "kicks \<noteq> []"
  shows "(\<exists>e. r = Inl e) \<and> xs_ledger t = xs_ledger s"
  using endsD [OF execute_tx_outcome assms(1)] assms(2-) by (cases r) (auto simp: tx_outcome_def)

lemma congested_raises:
  "\<exists>t. execute_tx congested_env [kick] tx_data run_id s = (Inl (unexpected_keyword ''requested_sell_amount''), t) \<and> xs_sent t = xs_sent s"
proof -
  define u where "u = s\<lparr>xs_calls := Suc (xs_calls s)\<rparr>"
  have "\<exists>m. check_base_fee congested_env u = (Inr (Inl m), u\<lparr>xs_calls := Suc (xs_calls u)\<rparr>)"
    by (simp add: congested_env_def sample_exec_env_def sample_node_def check_base_fee_def ask_def exec_bind_def exec_return_def Let_def
        sample_base_fee [simplified])
  then obtain m where "check_base_fee congested_env (s\<lparr>xs_calls := Suc (xs_calls s)\<rparr>) = (Inr (Inl m), s\<lparr>xs_calls := Suc (Suc (xs_calls s))\<rparr>)"
    by (auto simp: u_def)
  moreover have "xe_signer congested_env = Some ''0xo''" "tb_checksum (xe_builder congested_env) a = Inr a" for a
    by (simp_all add: congested_env_def sample_exec_env_def sample_builder_def)
  ultimately show ?thesis
    by (simp add: execute_tx_def exec_bind_def [of "ask f" for f] exec_bind_def [of "require_signer e" for e] exec_bind_def [of "exec_lift r" for r]
        exec_bind_def [of "check_base_fee e" for e] ask_def exec_lift_def return_then require_signer_def fail_batch_raises)
qed

theorem refused_kick_raises_witness:
  "\<exists>kick t. execute_tx congested_env [kick] ''0x01'' ''run'' fresh_state = (Inl (unexpected_keyword ''requested_sell_amount''), t)
     \<and> l_kicks (xs_ledger t) = []"
proof -
  fix kick
  obtain t where t: "execute_tx congested_env [kick] ''0x01'' ''run'' fresh_state = (Inl (unexpected_keyword ''requested_sell_amount''), t)"
    "xs_sent t = xs_sent fresh_state" using congested_raises by blast
  have "xe_confirm congested_env = None" by (simp add: congested_env_def sample_exec_env_def)
  from refused_kick_raises [OF t this] have "l_kicks (xs_ledger t) = []" by (simp add: fresh_state_def empty_ledger_def)
  with t(1) show ?thesis by blast
qed

text \<open>
  C8. One candidate that fails while preparing, other than by being skipped, ends the whole
  run: the run raises although other operations were ready, nothing is sent, no operation
  row is written, not even for the failed candidate, and the row of the run stays as it was
  created, with the status RUNNING.
\<close>

theorem prepare_failure_aborts_run:
  assumes "run_plan env rq (started run_id started_at rq s) = Inr plan"
    and "skipped \<in> set (pl_skipped_during_prepare plan)" "sk_result skipped = Some result" "kr_status result \<noteq> SKIPPED"
  shows "\<exists>t. run_service env rq run_id started_at s = (Inl (unexpected_keyword ''requested_sell_amount''), t)
    \<and> xs_sent t = xs_sent s \<and> xs_ledger t = xs_ledger s \<and> xs_runs t = run_create run_id started_at (rn_live rq) (xs_runs s)"
  by (rule run_aborts [OF assms])

theorem prepare_failure_aborts_run_witness:
  "\<exists>t row. run_service (live_service_env (Estimate_Node None)) live_request ''run'' ''2026-01-01T00:00:00Z'' fresh_state
       = (Inl (unexpected_keyword ''requested_sell_amount''), t)
     \<and> xs_runs t = [row] \<and> tr_status row = ''RUNNING'' \<and> l_kicks (xs_ledger t) = []"
proof -
  obtain plan skipped result where p: "kick_plan_of (live_plan_env (Estimate_Node None)) sample_plan_request = Inr plan"
    "skipped \<in> set (pl_skipped_during_prepare plan)" "sk_result skipped = Some result" "kr_status result = ESTIMATE_FAILED"
    by (rule live_plan_fails)
  have "run_plan (live_service_env (Estimate_Node None)) live_request (started ''run'' ''2026-01-01T00:00:00Z'' live_request fresh_state)
      = Inr plan" using p(1) by (simp add: live_run_plan fresh_state_def)
  moreover have "kr_status result \<noteq> SKIPPED" by (simp add: p(4))
  ultimately show ?thesis
    using prepare_failure_aborts_run p(2,3) by (fastforce simp: run_create_def fresh_state_def empty_ledger_def)
qed

text \<open>
  C7. A run sends nothing but its plan: every transaction it sends carries the call data of
  an operation the planner planned for this very run, and a run that is not live sends
  nothing at all, however the run ends.
\<close>

theorem run_sends_only_planned:
  assumes "run_service env rq run_id started_at s = (r, t)"
  shows "\<exists>new. xs_sent t = xs_sent s @ new \<and> (new \<noteq> [] \<longrightarrow> rn_live rq \<and> (\<exists>plan.
    run_plan env rq (started run_id started_at rq s) = Inr plan \<and> (\<forall>(h, tx) \<in> set new. ft_data tx \<in> planned_calldata (se_executor env) plan)))"
  by (rule run_service_sends [OF assms])

theorem run_sends_only_planned_witness:
  "\<exists>result t tx plan. run_service (live_service_env reliable_estimator) live_request ''run'' ''now'' fresh_state = (Inr result, t)
     \<and> xs_sent t = [(''0xh'', tx)] \<and> ft_data tx \<in> planned_calldata sample_exec_env plan"
proof -
  obtain result t tx where run: "run_service (live_service_env reliable_estimator) live_request ''run'' ''now'' fresh_state = (Inr result, t)"
    "xs_sent t = [(''0xh'', tx)]" using live_run_returns by blast
  from run_sends_only_planned [OF run(1)] run(2) have "\<exists>plan. ft_data tx \<in> planned_calldata (se_executor (live_service_env reliable_estimator)) plan"
    by (auto simp: fresh_state_def)
  with run show ?thesis by (auto simp: live_service_env_def)
qed

text \<open>
  C10. A run that returns appends exactly one row to the runs table and leaves the rows of
  other runs untouched. The new row has the id, the start time and the live flag of the run,
  is finished, and carries the status and the counts of the result: succeeded and failed
  operations are at most the attempted ones, those at most the operations of the plan, and
  the status follows from them.
\<close>

theorem run_counts_recorded:
  assumes "run_service env rq run_id started_at s = (Inr result, t)"
  shows "\<exists>plan row runs. run_plan env rq (started run_id started_at rq s) = Inr plan
    \<and> xs_runs t = runs @ [row] \<and> length runs = length (xs_runs s)
    \<and> filter (\<lambda>row. tr_run_id row \<noteq> run_id) runs = filter (\<lambda>row. tr_run_id row \<noteq> run_id) (xs_runs s)
    \<and> tr_run_id row = run_id \<and> tr_started_at row = started_at \<and> tr_live row = rn_live rq \<and> run_row_of row result
    \<and> 0 \<le> rr_kicks_succeeded result \<and> 0 \<le> rr_kicks_failed result
    \<and> rr_kicks_succeeded result + rr_kicks_failed result \<le> rr_kicks_attempted result
    \<and> rr_kicks_attempted result \<le> int (length (pl_resolve_operations plan) + length (pl_kick_operations plan))
    \<and> rr_status result = run_status (rn_live rq) (rr_kicks_succeeded result) (rr_kicks_failed result)"
proof (rule run_returns [OF assms], goal_cases)
  case (1 plan)
  then have rows: "xs_runs t = butlast (xs_runs t) @ [last (xs_runs t)]"
    by (metis append_butlast_last_id length_0_conv nat.distinct(1))
  moreover have "filter (\<lambda>row. tr_run_id row \<noteq> run_id) (butlast (xs_runs t)) = filter (\<lambda>row. tr_run_id row \<noteq> run_id) (xs_runs s)"
    using 1(8,10) by (subst (asm) rows) simp
  moreover have "run_row_of (last (xs_runs t)) result"
    using 1(7,10) rows by (metis in_set_conv_decomp)
  ultimately show ?case using 1 by (intro exI [of _ plan] exI [of _ "last (xs_runs t)"] exI [of _ "butlast (xs_runs t)"]) simp
qed

theorem run_counts_recorded_witness:
  "\<exists>result t row. run_service (live_service_env reliable_estimator) live_request ''run'' ''now'' fresh_state = (Inr result, t)
     \<and> rr_kicks_succeeded result = 1 \<and> rr_kicks_failed result \<le> rr_kicks_attempted result - 1
     \<and> xs_runs t = [row] \<and> tr_run_id row = ''run'' \<and> tr_started_at row = ''now'' \<and> tr_kicks_succeeded row = 1
     \<and> tr_status row = run_status True 1 (rr_kicks_failed result)"
proof -
  obtain result t where run: "run_service (live_service_env reliable_estimator) live_request ''run'' ''now'' fresh_state = (Inr result, t)"
    "rr_kicks_succeeded result = 1" using live_run_returns by blast
  from run_counts_recorded [OF run(1)] obtain row runs where "xs_runs t = runs @ [row]" "length runs = length (xs_runs fresh_state)"
    "tr_run_id row = ''run''" "tr_started_at row = ''now''" "run_row_of row result"
    "rr_kicks_succeeded result + rr_kicks_failed result \<le> rr_kicks_attempted result"
    "rr_status result = run_status (rn_live live_request) (rr_kicks_succeeded result) (rr_kicks_failed result)" by blast
  with run show ?thesis
    by (intro exI [of _ result] exI [of _ t] exI [of _ row]) (simp add: run_row_of_def fresh_state_def live_request_def)
qed

end
