(* ===== verification/PlanPayload.thy ===== *)
theory PlanPayload
  imports PlanAccounting ActionAudit KickExecute
begin

text \<open>
  The payloads of a plan in \<open>transaction_service/types.py\<close>: what the API returns to the operator and
  stores with the action. Every prepared operation is tagged with the index of the transaction that
  carries it; \<open>api/services/action_audit.py\<close> reads these tags back when the broadcast is reported.
\<close>

section \<open>Payloads\<close>

type_synonym payload = "(string \<times> json) list"

definition column_int :: "int option \<Rightarrow> json" where
  "column_int column = (case column of None \<Rightarrow> JNull | Some i \<Rightarrow> JInt i)"

definition intent_payload :: "tx_intent \<Rightarrow> payload" where
  "intent_payload intent =
     [(''operation'', JStr (ti_operation intent)), (''to'', JStr (ti_to intent)), (''data'', JStr (ti_data intent)),
      (''value'', JStr (ti_value intent)), (''chainId'', JInt (ti_chain_id intent)), (''sender'', column_json (ti_sender intent)),
      (''gasEstimate'', column_int (ti_gas_estimate intent)), (''gasLimit'', column_int (ti_gas_limit intent))]"

definition payload_str :: "payload \<Rightarrow> string \<Rightarrow> string result" where
  "payload_str payload key = (case map_of payload key of None \<Rightarrow> Inl (KeyError key) | Some v \<Rightarrow> Inr (json_str v))"

definition payload_int :: "payload \<Rightarrow> string \<Rightarrow> int option result" where
  "payload_int payload key =
     (let v = json_get payload key in if v = JNull then Inr None else err_bind (json_int v) (\<lambda>i. Inr (Some i)))"

definition intent_from_payload :: "payload \<Rightarrow> tx_intent result" where
  "intent_from_payload payload =
     err_bind (payload_str payload ''operation'') (\<lambda>operation.
     err_bind (payload_str payload ''to'') (\<lambda>to_address.
     err_bind (payload_str payload ''data'') (\<lambda>tx_data.
     err_bind (case map_of payload ''chainId'' of None \<Rightarrow> Inl (KeyError ''chainId'') | Some v \<Rightarrow> json_int v) (\<lambda>chain_id.
     err_bind (payload_int payload ''gasEstimate'') (\<lambda>gas_estimate.
     err_bind (payload_int payload ''gasLimit'') (\<lambda>gas_limit.
     Inr \<lparr>ti_operation = operation, ti_to = to_address, ti_data = tx_data, ti_chain_id = chain_id,
       ti_sender = (let v = json_get payload ''sender'' in if v = JNull then None else Some (json_str v)),
       ti_value = json_str (json_or (json_get payload ''value'') (JStr ''0x0'')), ti_gas_estimate = gas_estimate,
       ti_gas_limit = gas_limit\<rparr>))))))"

definition skip_reason_value :: "kick_skip_reason \<Rightarrow> string" where
  "skip_reason_value reason = (case reason of AUCTION_PRICE_GRANULARITY \<Rightarrow> ''AUCTION_PRICE_GRANULARITY'')"

definition skipped_payload :: "skipped_candidate \<Rightarrow> payload" where
  "skipped_payload skipped =
     (let c = sk_candidate skipped;
          opt = (\<lambda>key column. case column of None \<Rightarrow> [] | Some v \<Rightarrow> [(key, v)])
      in [(''sourceType'', JStr (ca_source_type c)), (''sourceAddress'', JStr (ca_source_address c)),
          (''sourceName'', column_json (ca_source_name c)), (''auctionAddress'', JStr (ca_auction_address c)),
          (''tokenAddress'', JStr (ca_token_address c)), (''tokenSymbol'', column_json (ca_token_symbol c)),
          (''wantSymbol'', column_json (ca_want_symbol c)), (''reason'', JStr (sk_reason skipped))]
        @ opt ''reasonCode'' (map_option (JStr \<circ> skip_reason_value) (Option.bind (sk_result skipped) kr_reason_code))
        @ opt ''reasonData'' (Option.bind (sk_result skipped) kr_reason_data)
        @ opt ''blockedTokenAddress'' (map_option JStr (sk_blocked_token_address skipped))
        @ opt ''blockedTokenSymbol'' (map_option JStr (sk_blocked_token_symbol skipped))
        @ opt ''blockedReason'' (map_option JStr (sk_blocked_reason skipped))
        @ opt ''nextStep'' (map_option JStr (sk_next_step skipped)))"

definition resolve_preview_item :: "prepared_resolve \<Rightarrow> payload" where
  "resolve_preview_item item =
     (let c = rv_candidate item in
      [(''operation'', JStr ''resolve-auction''), (''auctionAddress'', JStr (ca_auction_address c)),
       (''sourceAddress'', JStr (ca_source_address c)), (''sourceName'', column_json (ca_source_name c)),
       (''sourceType'', JStr (ca_source_type c)), (''tokenAddress'', JStr (rv_sell_token item)),
       (''tokenSymbol'', column_json (rv_token_symbol item)), (''wantAddress'', JStr (ca_want_address c)),
       (''wantSymbol'', column_json (ca_want_symbol c)), (''reason'', JStr (rv_reason item)), (''path'', JInt (rv_path item)),
       (''requiresForce'', JBool (rv_requires_force item)), (''balanceRaw'', JStr (show_int (rv_balance_raw item))),
       (''normalizedBalance'', column_json (rv_normalized_balance item)), (''receiver'', column_json (rv_receiver item))])"

definition encoding_value :: "starting_price_encoding \<Rightarrow> string" where
  "encoding_value encoding = (case encoding of WHOLE_WANT \<Rightarrow> ''whole_want'' | WAD_WANT \<Rightarrow> ''wad_want'')"

definition kick_preview_item :: "prepared_kick \<Rightarrow> payload result" where
  "kick_preview_item item =
     (let c = pk_candidate item; want_symbol = want_symbol_text c in
      err_bind (starting_price_amount_str item) (\<lambda>amount.
      err_bind (format_buffer_pct (pk_start_price_buffer_bps item)) (\<lambda>start_buffer.
      err_bind (format_buffer_pct (pk_min_price_buffer_bps item)) (\<lambda>min_buffer.
      err_bind (quote_rate item) (\<lambda>quote_rate. err_bind (start_rate item) (\<lambda>start_rate. err_bind (floor_rate item) (\<lambda>floor_rate.
      Inr [(''operation'', JStr ''kick''), (''auctionAddress'', JStr (ca_auction_address c)),
        (''sourceAddress'', JStr (ca_source_address c)), (''sourceName'', column_json (ca_source_name c)),
        (''sourceType'', JStr (ca_source_type c)), (''tokenAddress'', JStr (ca_token_address c)),
        (''tokenSymbol'', column_json (ca_token_symbol c)), (''wantAddress'', JStr (ca_want_address c)),
        (''wantSymbol'', column_json (ca_want_symbol c)), (''wantPriceUsd'', column_json (pk_want_price_usd_str item)),
        (''sellAmount'', JStr (pk_normalized_balance item)), (''auctionVersion'', column_json (ca_auction_version c)),
        (''startingPriceEncoding'', JStr (encoding_value (pk_starting_price_encoding item))),
        (''startingPrice'', JStr (pk_starting_price_raw_str item)),
        (''startingPriceDisplay'', JStr (amount @ '' '' @ want_symbol @ '' (+'' @ start_buffer @ '' buffer)'')),
        (''minimumPrice'', JStr (pk_minimum_price_scaled_1e18_str item)),
        (''minimumPriceDisplay'', JStr (show_int_commas (pk_minimum_price_scaled_1e18 item) @ '' (scaled 1e18 floor)'')),
        (''minimumQuote'', JStr (pk_minimum_quote_unscaled_str item)),
        (''minimumQuoteDisplay'', JStr (show_int_commas (pk_minimum_quote_unscaled item) @ '' '' @ want_symbol @ '' (-'' @ min_buffer @ '' buffer)'')),
        (''minimumPriceScaled1e18'', JStr (pk_minimum_price_scaled_1e18_str item)),
        (''quoteAmount'', JStr (pk_quote_amount_str item)),
        (''quoteResponseJson'', opt_str (map_option json_dumps (pk_quote_response_json item))),
        (''usdValue'', JStr (pk_usd_value_str item)), (''bufferBps'', JInt (pk_start_price_buffer_bps item)),
        (''minBufferBps'', JInt (pk_min_price_buffer_bps item)), (''pricingProfileName'', JStr (pk_pricing_profile_name item)),
        (''stepDecayRateBps'', JInt (pk_step_decay_rate_bps item)), (''quoteRate'', JStr quote_rate),
        (''startRate'', JStr start_rate), (''floorRate'', JStr floor_rate)])))))))"

section \<open>Transaction indexes\<close>

definition canonical_operation_name :: "json \<Rightarrow> string" where
  "canonical_operation_name value = str_replace_char (CHR ''-'') ''_'' (str_strip (json_str (json_or value (JStr []))))"

definition intent_indexes :: "tx_intent list \<Rightarrow> (string \<times> nat list) list" where
  "intent_indexes intents =
     fold (\<lambda>(i, intent) d. dict_append (canonical_operation_name (JStr (ti_operation intent))) i d) (enumerate 0 intents) []"

fun tag_operations :: "(string \<Rightarrow> nat list) \<Rightarrow> (string \<times> nat) list \<Rightarrow> payload list \<Rightarrow> payload list" where
  "tag_operations indexes counts [] = []"
| "tag_operations indexes counts (operation # operations) =
     (let name = canonical_operation_name (json_get operation ''operation'');
          tx_indexes = indexes name;
          prepared_index = (case map_of counts name of None \<Rightarrow> 0 | Some n \<Rightarrow> n)
      in if tx_indexes = [] then operation # tag_operations indexes counts operations
         else if length tx_indexes = 1
         then dict_set ''txIndex'' (JInt (int (hd tx_indexes))) operation # tag_operations indexes counts operations
         else dict_set ''txIndex'' (JInt (int (tx_indexes ! min prepared_index (length tx_indexes - 1)))) operation
           # tag_operations indexes (dict_set name (prepared_index + 1) counts) operations)"

definition with_tx_indexes :: "payload list \<Rightarrow> tx_intent list \<Rightarrow> payload list" where
  "with_tx_indexes operations intents =
     tag_operations (\<lambda>name. case map_of (intent_indexes intents) name of None \<Rightarrow> [] | Some is \<Rightarrow> is) [] operations"

definition prepared_operations_preview :: "kick_plan \<Rightarrow> payload list result" where
  "prepared_operations_preview plan =
     err_bind (traverse_err kick_preview_item (pl_kick_operations plan)) (\<lambda>kicks.
     Inr (with_tx_indexes (map resolve_preview_item (pl_resolve_operations plan) @ kicks) (pl_tx_intents plan)))"

definition preview_payload :: "kick_plan \<Rightarrow> payload result" where
  "preview_payload plan =
     err_bind (prepared_operations_preview plan) (\<lambda>prepared_operations.
     Inr [(''sourceType'', column_json (pl_source_type plan)), (''sourceAddress'', column_json (pl_source_address plan)),
       (''auctionAddress'', column_json (pl_auction_address plan)), (''tokenAddress'', column_json (pl_token_address plan)),
       (''limit'', column_int (pl_limit plan)), (''eligibleCount'', JInt (int (pl_eligible_count plan))),
       (''selectedCount'', JInt (int (pl_selected_count plan))), (''readyCount'', JInt (int (pl_ready_count plan))),
       (''ignoredCount'', JInt (int (length (pl_ignored_skips plan)))), (''ignoredSkips'', JList (pl_ignored_skips plan)),
       (''noFillCount'', JInt (int (length (pl_no_fill_skips plan)))), (''noFillSkips'', JList (pl_no_fill_skips plan)),
       (''deferredSameAuctionCount'', JInt (int (pl_deferred_same_auction_count plan))),
       (''limitedCount'', JInt (int (pl_limited_count plan))),
       (''cooldownCount'', JInt (int (length (pl_cooldown_skips plan)))), (''cooldownSkips'', JList (pl_cooldown_skips plan)),
       (''skippedDuringPrepare'', JList (map (JObj \<circ> skipped_payload) (pl_skipped_during_prepare plan))),
       (''preparedOperations'', JList (map JObj prepared_operations))])"

section \<open>Round trip\<close>

lemma intent_payload_roundtrip: "ti_value intent \<noteq> [] \<Longrightarrow> intent_from_payload (intent_payload intent) = Inr intent"
  by (cases intent) (simp add: intent_from_payload_def intent_payload_def payload_str_def payload_int_def json_get_def column_json_def
      column_int_def json_or_def json_str_def json_int_def Let_def split: option.splits)

section \<open>The transaction of every operation\<close>

definition tagged :: "nat \<Rightarrow> payload \<Rightarrow> payload" where
  "tagged i operation = dict_set ''txIndex'' (JInt (int i)) operation"

lemma tag_run:
  assumes "\<forall>operation \<in> set operations. canonical_operation_name (json_get operation ''operation'') = name"
    and "case map_of counts name of None \<Rightarrow> c = 0 | Some n \<Rightarrow> c = n" and "c + length operations \<le> length (indexes name)" "length (indexes name) \<noteq> 1"
  shows "\<exists>counts'. tag_operations indexes counts (operations @ rest)
       = map (\<lambda>(j, operation). tagged (indexes name ! j) operation) (enumerate c operations) @ tag_operations indexes counts' rest
     \<and> (\<forall>other. other \<noteq> name \<longrightarrow> map_of counts' other = map_of counts other)"
  using assms
proof (induction operations arbitrary: counts c)
  case (Cons operation operations)
  have more: "indexes name \<noteq> []" "min c (length (indexes name) - 1) = c" using Cons.prems(3) by auto
  have now: "(case map_of counts name of None \<Rightarrow> 0 | Some n \<Rightarrow> n) = c" using Cons.prems(2) by (auto split: option.splits)
  obtain counts' where rest: "tag_operations indexes (dict_set name (c + 1) counts) (operations @ rest)
      = map (\<lambda>(j, operation). tagged (indexes name ! j) operation) (enumerate (Suc c) operations) @ tag_operations indexes counts' rest"
    "\<forall>other. other \<noteq> name \<longrightarrow> map_of counts' other = map_of (dict_set name (c + 1) counts) other"
    using Cons.IH [where c = "Suc c" and counts = "dict_set name (c + 1) counts"] Cons.prems by auto
  have "tag_operations indexes counts ((operation # operations) @ rest) = tagged (indexes name ! c) operation
      # tag_operations indexes (dict_set name (c + 1) counts) (operations @ rest)"
    using Cons.prems(1,4) more now by (simp add: tagged_def Let_def)
  then show ?case using rest by (intro exI [of _ counts']) simp
qed auto

lemma tag_run_single:
  assumes "\<forall>operation \<in> set operations. canonical_operation_name (json_get operation ''operation'') = name" "indexes name = [i]"
  shows "tag_operations indexes counts (operations @ rest) = map (tagged i) operations @ tag_operations indexes counts rest"
  using assms by (induction operations arbitrary: counts) (auto simp: tagged_def Let_def)

lemma tag_each:
  assumes "\<forall>operation \<in> set operations. canonical_operation_name (json_get operation ''operation'') = name"
    and "map_of counts name = None" "length operations = length (indexes name)"
  shows "\<exists>counts'. tag_operations indexes counts (operations @ rest)
       = map (\<lambda>(i, operation). tagged i operation) (zip (indexes name) operations) @ tag_operations indexes counts' rest
     \<and> (\<forall>other. other \<noteq> name \<longrightarrow> map_of counts' other = map_of counts other)"
proof (cases "length (indexes name) = 1")
  case True
  then obtain i operation where one: "indexes name = [i]" "operations = [operation]"
    using assms(3) by (auto simp: length_Suc_conv)
  then show ?thesis using tag_run_single [where operations = operations and indexes = indexes and name = name, OF assms(1) one(1)] by (intro exI [of _ counts]) simp
next
  case False
  have "map (\<lambda>(j, operation). tagged (indexes name ! j) operation) (enumerate 0 operations)
      = map (\<lambda>(i, operation). tagged i operation) (zip (indexes name) operations)"
    by (rule nth_equalityI) (simp_all add: assms(3) nth_enumerate_eq)
  then show ?thesis using tag_run [where c = 0 and counts = counts and indexes = indexes and rest = rest, OF assms(1)] assms(2,3) False by simp
qed

lemma intent_index_list:
  "(case map_of (intent_indexes intents) name of None \<Rightarrow> [] | Some is \<Rightarrow> is)
     = map fst (filter (\<lambda>(i, intent). canonical_operation_name (JStr (ti_operation intent)) = name) (enumerate 0 intents))"
proof -
  have "(case map_of (fold (\<lambda>(i, intent) d. dict_append (canonical_operation_name (JStr (ti_operation intent))) i d) xs d) name of
       None \<Rightarrow> [] | Some is \<Rightarrow> is)
     = (case map_of d name of None \<Rightarrow> [] | Some is \<Rightarrow> is)
       @ map fst (filter (\<lambda>(i, intent). canonical_operation_name (JStr (ti_operation intent)) = name) xs)" for xs d
    by (induction xs arbitrary: d) (auto simp: dict_append_def split: option.splits)
  from this [of "enumerate 0 intents" "[]"] show ?thesis by (simp add: intent_indexes_def)
qed

lemma enumerate_filter_all:
  assumes "\<forall>x \<in> set xs. P x"
  shows "filter (\<lambda>(i, x). P x) (enumerate n xs) = enumerate n xs" "filter (\<lambda>(i, x). \<not> P x) (enumerate n xs) = []"
  using assms by (induction xs arbitrary: n) auto

lemma operation_names:
  "canonical_operation_name (JStr ''resolve-auction'') = ''resolve_auction''" "canonical_operation_name (JStr ''kick'') = ''kick''"
  "normalize_operation_text ''resolve-auction'' = Some ''resolve_auction''" "normalize_operation_text ''kick'' = Some ''kick''"
  by code_simp+

lemma two_kinds_indexes:
  assumes "\<forall>intent \<in> set resolves. ti_operation intent = ''resolve-auction''" "\<forall>intent \<in> set kicks. ti_operation intent = ''kick''"
  shows "(case map_of (intent_indexes (resolves @ kicks)) ''resolve_auction'' of None \<Rightarrow> [] | Some is \<Rightarrow> is) = [0..<length resolves]"
    and "(case map_of (intent_indexes (resolves @ kicks)) ''kick'' of None \<Rightarrow> [] | Some is \<Rightarrow> is)
      = [length resolves..<length resolves + length kicks]"
proof -
  have names: "\<forall>intent \<in> set resolves. canonical_operation_name (JStr (ti_operation intent)) = ''resolve_auction''"
    "\<forall>intent \<in> set kicks. canonical_operation_name (JStr (ti_operation intent)) = ''kick''"
    using assms operation_names by simp_all
  have other: "\<forall>intent \<in> set resolves. canonical_operation_name (JStr (ti_operation intent)) \<noteq> ''kick''"
    "\<forall>intent \<in> set kicks. canonical_operation_name (JStr (ti_operation intent)) \<noteq> ''resolve_auction''"
    using names by simp_all
  show "(case map_of (intent_indexes (resolves @ kicks)) ''resolve_auction'' of None \<Rightarrow> [] | Some is \<Rightarrow> is) = [0..<length resolves]"
    unfolding intent_index_list
    using enumerate_filter_all(1) [OF names(1), of 0] enumerate_filter_all(2) [where P = "\<lambda>i. canonical_operation_name (JStr (ti_operation i)) \<noteq> ''resolve_auction''", OF other(2)]
    by (simp add: enumerate_append_eq)
  show "(case map_of (intent_indexes (resolves @ kicks)) ''kick'' of None \<Rightarrow> [] | Some is \<Rightarrow> is)
      = [length resolves..<length resolves + length kicks]"
    unfolding intent_index_list
    using enumerate_filter_all(1) [OF names(2)] enumerate_filter_all(2) [where P = "\<lambda>i. canonical_operation_name (JStr (ti_operation i)) \<noteq> ''kick''", OF other(1)]
    by (simp add: enumerate_append_eq)
qed

text \<open>What a prepared operation is about.\<close>

definition operation_target :: "payload \<Rightarrow> json \<times> json" where
  "operation_target operation = (json_get operation ''auctionAddress'', json_get operation ''tokenAddress'')"

definition resolve_target :: "prepared_resolve \<Rightarrow> json \<times> json" where
  "resolve_target item = (JStr (ca_auction_address (rv_candidate item)), JStr (rv_sell_token item))"

definition kick_target :: "prepared_kick \<Rightarrow> json \<times> json" where
  "kick_target item = (JStr (ca_auction_address (pk_candidate item)), JStr (ca_token_address (pk_candidate item)))"

lemma resolve_item: "json_get (resolve_preview_item item) ''operation'' = JStr ''resolve-auction''"
  "operation_target (resolve_preview_item item) = resolve_target item"
  by (simp_all add: resolve_preview_item_def operation_target_def resolve_target_def json_get_def Let_def)

lemma kick_item:
  assumes "kick_preview_item item = Inr payload"
  shows "json_get payload ''operation'' = JStr ''kick''" "operation_target payload = kick_target item"
  using assms by (auto simp: kick_preview_item_def operation_target_def kick_target_def json_get_def Let_def err_simps)

lemma kick_items:
  assumes "traverse_err kick_preview_item kicks = Inr payloads"
  shows "map operation_target payloads = map kick_target kicks" "\<forall>p \<in> set payloads. json_get p ''operation'' = JStr ''kick''"
proof -
  have each: "list_all2 (\<lambda>kick payload. kick_preview_item kick = Inr payload) kicks payloads"
    using assms by (induction kicks arbitrary: payloads) (auto simp: err_simps)
  show "map operation_target payloads = map kick_target kicks"
    using each kick_item(2) by (induction rule: list_all2_induct) auto
  show "\<forall>p \<in> set payloads. json_get p ''operation'' = JStr ''kick''"
    using each kick_item(1) by (induction rule: list_all2_induct) auto
qed

lemma tagged_get:
  "json_get (tagged i p) ''operation'' = json_get p ''operation''" "operation_target (tagged i p) = operation_target p"
  "valid_tx_index (json_get (tagged i p) ''txIndex'') = Some (int i)"
  by (simp_all add: tagged_def json_get_def operation_target_def valid_tx_index_def json_int_def)

text \<open>The items an operation report finds for one transaction.\<close>

lemma matching_tagged:
  assumes "\<forall>x \<in> set same. normalize_operation_type (json_get (snd x) ''operation'') = Some name"
    and "\<forall>p \<in> set others. normalize_operation_type (json_get p ''operation'') \<noteq> Some name"
    and "mixed = map (\<lambda>(i, p). tagged i p) same @ others \<or> mixed = others @ map (\<lambda>(i, p). tagged i p) same"
  shows "map operation_target (matching_items name (int i) (map JObj mixed)) = map (operation_target \<circ> snd) (filter (\<lambda>(j, p). j = i) same)"
proof -
  have objects: "List.map_filter (\<lambda>item. case item of JObj entries \<Rightarrow> Some entries | _ \<Rightarrow> None) (map JObj xs) = xs" for xs
    by (induction xs) (simp_all add: map_filter_simps)
  have named: "normalize_operation_type (json_get p ''operation'') = Some name" if "(j, p) \<in> set same" for j p
    using assms(1) that by force
  have same: "filter (\<lambda>entries. normalize_operation_type (json_get entries ''operation'') = Some name) mixed = map (\<lambda>(i, p). tagged i p) same"
    using assms(2,3) named by (auto simp: filter_id_conv filter_empty_conv tagged_get)
  have targets: "map operation_target (filter (\<lambda>item. valid_tx_index (json_get item ''txIndex'') = Some (int i)) (map (\<lambda>(i, p). tagged i p) same))
      = map (operation_target \<circ> snd) (filter (\<lambda>(j, p). j = i) same)"
    by (induction same) (auto simp: tagged_get)
  show ?thesis
  proof (cases same)
    case Nil
    then show ?thesis using same by (simp add: matching_items_def objects)
  next
    case (Cons x xs)
    then have "list_ex (\<lambda>item. valid_tx_index (json_get item ''txIndex'') \<noteq> None) (map (\<lambda>(i, p). tagged i p) same)"
      by (cases x) (simp add: tagged_get)
    then show ?thesis using same targets by (simp add: matching_items_def objects Let_def)
  qed
qed

text \<open>The tags of a plan's operations.\<close>

lemma with_tx_indexes_eq:
  assumes "\<forall>intent \<in> set resolves. ti_operation intent = ''resolve-auction''" "\<forall>intent \<in> set kicks. ti_operation intent = ''kick''"
    and "\<forall>p \<in> set R. json_get p ''operation'' = JStr ''resolve-auction''" "\<forall>p \<in> set K. json_get p ''operation'' = JStr ''kick''"
    and "length R = length resolves" "length K = length kicks \<or> length kicks = 1"
  shows "with_tx_indexes (R @ K) (resolves @ kicks) = map (\<lambda>(i, p). tagged i p) (zip [0..<length R] R)
    @ map (\<lambda>(i, p). tagged i p) (if length K = length kicks then zip [length R..<length R + length K] K else map (Pair (length R)) K)"
proof -
  let ?indexes = "\<lambda>name. case map_of (intent_indexes (resolves @ kicks)) name of None \<Rightarrow> [] | Some is \<Rightarrow> is"
  note indexes = two_kinds_indexes [OF assms(1,2)]
  have names: "\<forall>p \<in> set R. canonical_operation_name (json_get p ''operation'') = ''resolve_auction''"
    "\<forall>p \<in> set K. canonical_operation_name (json_get p ''operation'') = ''kick''"
    using assms(3,4) by (simp_all add: operation_names)
  have "length R = length (?indexes ''resolve_auction'')" by (simp only: indexes length_upt assms(5))
  then obtain counts where resolved: "tag_operations ?indexes [] (R @ K)
      = map (\<lambda>(i, p). tagged i p) (zip [0..<length R] R) @ tag_operations ?indexes counts K" "map_of counts ''kick'' = None"
    using tag_each [where name = "''resolve_auction''" and indexes = ?indexes and counts = "[]" and rest = K, OF names(1)]
    unfolding indexes assms(5) by auto
  have "tag_operations ?indexes counts (K @ []) = map (\<lambda>(i, p). tagged i p)
      (if length K = length kicks then zip [length R..<length R + length K] K else map (Pair (length R)) K)"
  proof (cases "length K = length kicks")
    case True
    have "length K = length (?indexes ''kick'')" by (simp only: indexes length_upt True diff_add_inverse)
    then show ?thesis
      using tag_each [where name = "''kick''" and indexes = ?indexes and counts = counts and rest = "[]", OF names(2) resolved(2)]
      unfolding indexes assms(5) True by auto
  next
    case False
    then have "?indexes ''kick'' = [length R]" using assms(6) unfolding indexes assms(5) by auto
    from tag_run_single [where operations = K and indexes = ?indexes and name = "''kick''" and counts = counts and rest = "[]", OF names(2) this]
    show ?thesis using False by (simp add: comp_def)
  qed
  then show ?thesis by (simp add: with_tx_indexes_def resolved(1))
qed

lemma intent_operations:
  "build_resolve_auction_intent tb sender operation = Inr (without_gas intent) \<Longrightarrow> ti_operation intent = ''resolve-auction''"
  "build_single_kick_intent tb sender kick = Inr (without_gas intent) \<Longrightarrow> ti_operation intent = ''kick''"
  "build_batch_kick_intent tb sender kicks = Inr (without_gas intent) \<Longrightarrow> ti_operation intent = ''kick''"
  by (auto simp: build_resolve_auction_intent_def build_single_kick_intent_def build_batch_kick_intent_def kicker_intent_def
      without_gas_def err_simps dest: arg_cong [where f = ti_operation])

lemma normalized_types:
  "normalize_operation_type (JStr ''resolve-auction'') = Some ''resolve_auction''" "normalize_operation_type (JStr ''kick'') = Some ''kick''"
  by code_simp+

text \<open>The operations a report of transaction \<open>i\<close> will find in the preview.\<close>

definition reported_targets :: "payload list \<Rightarrow> tx_intent \<Rightarrow> nat \<Rightarrow> (json \<times> json) list" where
  "reported_targets items intent i = (case normalize_operation_text (ti_operation intent) of None \<Rightarrow> []
     | Some name \<Rightarrow> map operation_target (matching_items name (int i) (map JObj items)))"

lemma filter_zip_index:
  assumes "i < length xs"
  shows "map (g \<circ> snd) (filter (\<lambda>(j, p). j = n + i) (zip [n..<n + length xs] xs)) = [g (xs ! i)]"
  using assms
proof (induction xs arbitrary: n i)
  case (Cons x xs)
  have up: "[n..<n + length (x # xs)] = n # [Suc n..<Suc n + length xs]" by (simp add: upt_conv_Cons del: upt_Suc)
  show ?case
  proof (cases i)
    case 0
    have "filter (\<lambda>(j, p). j = n) (zip [Suc n..<Suc n + length xs] xs) = []"
      by (auto simp: filter_empty_conv dest: set_zip_leftD)
    then show ?thesis unfolding up 0 by simp
  next
    case (Suc k)
    then show ?thesis using Cons.IH [of k "Suc n"] Cons.prems unfolding up by simp
  qed
qed simp

lemma reported_resolves:
  assumes "ti_operation intent = ''resolve-auction''" "i < length R" "\<forall>p \<in> set R. json_get p ''operation'' = JStr ''resolve-auction''"
    and "\<forall>x \<in> set K. json_get (snd x) ''operation'' = JStr ''kick''"
  shows "reported_targets (map (\<lambda>(i, p). tagged i p) (zip [0..<length R] R) @ map (\<lambda>(i, p). tagged i p) K) intent i = [operation_target (R ! i)]"
proof -
  have "\<forall>x \<in> set (zip [0..<length R] R). normalize_operation_type (json_get (snd x) ''operation'') = Some ''resolve_auction''"
    using assms(3) by (auto simp: normalized_types dest: set_zip_rightD)
  moreover have "\<forall>p \<in> set (map (\<lambda>(i, p). tagged i p) K). normalize_operation_type (json_get p ''operation'') \<noteq> Some ''resolve_auction''"
    using assms(4) by (auto simp: tagged_get normalized_types)
  ultimately have "map operation_target (matching_items ''resolve_auction'' (int i)
      (map JObj (map (\<lambda>(i, p). tagged i p) (zip [0..<length R] R) @ map (\<lambda>(i, p). tagged i p) K)))
    = map (operation_target \<circ> snd) (filter (\<lambda>(j, p). j = i) (zip [0..<length R] R))"
    by (rule matching_tagged) simp
  then show ?thesis
    using filter_zip_index [OF assms(2), of operation_target 0] by (simp add: reported_targets_def assms(1) operation_names)
qed

lemma reported_kicks:
  assumes "ti_operation intent = ''kick''" "\<forall>p \<in> set R. json_get p ''operation'' = JStr ''resolve-auction''"
    and "\<forall>x \<in> set K. json_get (snd x) ''operation'' = JStr ''kick''"
  shows "reported_targets (map (\<lambda>(i, p). tagged i p) (zip [0..<length R] R) @ map (\<lambda>(i, p). tagged i p) K) intent i
    = map (operation_target \<circ> snd) (filter (\<lambda>(j, p). j = i) K)"
proof -
  have "\<forall>x \<in> set K. normalize_operation_type (json_get (snd x) ''operation'') = Some ''kick''"
    using assms(3) by (simp add: normalized_types)
  moreover have "\<forall>p \<in> set (map (\<lambda>(i, p). tagged i p) (zip [0..<length R] R)). normalize_operation_type (json_get p ''operation'') \<noteq> Some ''kick''"
    using assms(2) by (auto simp: tagged_get normalized_types dest: set_zip_rightD)
  ultimately have "map operation_target (matching_items ''kick'' (int i)
      (map JObj (map (\<lambda>(i, p). tagged i p) (zip [0..<length R] R) @ map (\<lambda>(i, p). tagged i p) K)))
    = map (operation_target \<circ> snd) (filter (\<lambda>(j, p). j = i) K)"
    by (rule matching_tagged) simp
  then show ?thesis by (simp add: reported_targets_def assms(1) operation_names)
qed

text \<open>What transaction \<open>i\<close> of a plan carries, and what its report finds.\<close>

definition transaction_explained :: "plan_env \<Rightarrow> kick_plan \<Rightarrow> payload list \<Rightarrow> nat \<Rightarrow> bool" where
  "transaction_explained env plan items i \<longleftrightarrow>
     (let intent = pl_tx_intents plan ! i; targets = reported_targets items intent i;
          tb = ple_tx_builder env; sender = ple_sender env in
      (\<exists>operation \<in> set (pl_resolve_operations plan). build_resolve_auction_intent tb sender operation = Inr (without_gas intent)
         \<and> targets = [resolve_target operation])
      \<or> (\<exists>kick \<in> set (pl_kick_operations plan). build_single_kick_intent tb sender kick = Inr (without_gas intent)
         \<and> targets = [kick_target kick])
      \<or> 2 \<le> length (pl_kick_operations plan) \<and> build_batch_kick_intent tb sender (pl_kick_operations plan) = Inr (without_gas intent)
         \<and> targets = map kick_target (pl_kick_operations plan))"

lemma plan_explained:
  assumes "intents_planned env plan" "prepared_operations_preview plan = Inr items" "i < length (pl_tx_intents plan)"
  shows "transaction_explained env plan items i"
proof -
  let ?tb = "ple_tx_builder env" and ?sender = "ple_sender env"
  let ?R = "map resolve_preview_item (pl_resolve_operations plan)"
  obtain K where K: "traverse_err kick_preview_item (pl_kick_operations plan) = Inr K"
    and items: "items = with_tx_indexes (?R @ K) (pl_tx_intents plan)"
    using assms(2) by (auto simp: prepared_operations_preview_def err_simps)
  obtain resolves kicks where plan: "pl_tx_intents plan = resolves @ kicks"
    and resolves: "list_all2 (\<lambda>operation intent. build_resolve_auction_intent ?tb ?sender operation = Inr (without_gas intent))
        (pl_resolve_operations plan) resolves"
    and kicks: "list_all2 (\<lambda>kick intent. build_single_kick_intent ?tb ?sender kick = Inr (without_gas intent)) (pl_kick_operations plan) kicks
      \<or> 2 \<le> length (pl_kick_operations plan) \<and> (\<exists>intent. kicks = [intent]
          \<and> build_batch_kick_intent ?tb ?sender (pl_kick_operations plan) = Inr (without_gas intent))"
    using assms(1) unfolding intents_planned_def by blast
  have lengths: "length (pl_resolve_operations plan) = length resolves" "length K = length (pl_kick_operations plan)"
    using list_all2_lengthD [OF resolves] kick_items(1) [OF K] by (simp, metis length_map)
  have ops: "\<forall>intent \<in> set resolves. ti_operation intent = ''resolve-auction''" "\<forall>intent \<in> set kicks. ti_operation intent = ''kick''"
    using resolves kicks intent_operations by (auto simp: list_all2_conv_all_nth in_set_conv_nth) metis+
  have R: "\<forall>p \<in> set ?R. json_get p ''operation'' = JStr ''resolve-auction''" by (auto simp: resolve_item)
  note K_op = kick_items(2) [OF K]
  have either: "length K = length kicks \<or> length kicks = 1" using kicks lengths(2) list_all2_lengthD by fastforce
  define tags where "tags = (if length K = length kicks then zip [length ?R..<length ?R + length K] K else map (Pair (length ?R)) K)"
  have tagged: "items = map (\<lambda>(i, p). tagged i p) (zip [0..<length ?R] ?R) @ map (\<lambda>(i, p). tagged i p) tags"
    unfolding items plan tags_def by (rule with_tx_indexes_eq [OF ops R K_op _ either]) (simp add: lengths(1))
  have tags_op: "\<forall>x \<in> set tags. json_get (snd x) ''operation'' = JStr ''kick''"
    using K_op by (auto simp: tags_def dest: set_zip_rightD)
  show ?thesis
  proof (cases "i < length resolves")
    case True
    then have intent: "pl_tx_intents plan ! i = resolves ! i" by (simp add: plan nth_append)
    have "build_resolve_auction_intent ?tb ?sender (pl_resolve_operations plan ! i) = Inr (without_gas (resolves ! i))"
      using resolves True by (simp add: list_all2_conv_all_nth)
    moreover have "reported_targets items (resolves ! i) i = [resolve_target (pl_resolve_operations plan ! i)]"
      unfolding tagged using True lengths(1) ops(1)
      by (subst reported_resolves [OF _ _ R tags_op]) (simp_all add: resolve_item)
    moreover have "pl_resolve_operations plan ! i \<in> set (pl_resolve_operations plan)" using True lengths(1) by simp
    ultimately show ?thesis unfolding transaction_explained_def Let_def intent by blast
  next
    case False
    define k where "k = i - length resolves"
    have i: "i = length ?R + k" "k < length kicks" using False assms(3) lengths(1) by (simp_all add: k_def plan)
    have intent: "pl_tx_intents plan ! i = kicks ! k" using False by (simp add: plan nth_append k_def)
    have found: "reported_targets items (kicks ! k) i = map (operation_target \<circ> snd) (filter (\<lambda>(j, p). j = i) tags)"
      unfolding tagged by (rule reported_kicks [OF _ R tags_op]) (use ops(2) i(2) in simp)
    show ?thesis
    proof (cases "length K = length kicks")
      case True
      have one: "build_single_kick_intent ?tb ?sender (pl_kick_operations plan ! k) = Inr (without_gas (kicks ! k))"
        using kicks True i(2) lengths(2) by (auto simp: list_all2_conv_all_nth)
      have "operation_target (K ! k) = kick_target (pl_kick_operations plan ! k)"
        using kick_items(1) [OF K] i(2) True lengths(2) by (metis nth_map)
      then have "reported_targets items (kicks ! k) i = [kick_target (pl_kick_operations plan ! k)]"
        unfolding found unfolding tags_def i(1) if_P [OF True] using filter_zip_index [of k K operation_target "length ?R"] i(2) True by simp
      moreover have "pl_kick_operations plan ! k \<in> set (pl_kick_operations plan)" using True i(2) lengths(2) by simp
      ultimately show ?thesis using one unfolding transaction_explained_def Let_def intent by blast
    next
      case False
      then have batch: "build_batch_kick_intent ?tb ?sender (pl_kick_operations plan) = Inr (without_gas (kicks ! k))" "k = 0"
        "2 \<le> length (pl_kick_operations plan)"
        using kicks i(2) lengths(2) list_all2_lengthD by fastforce+
      have "filter (\<lambda>(j, p). j = i) tags = tags" using False batch(2) i(1) by (auto simp: tags_def filter_id_conv)
      then have "reported_targets items (kicks ! k) i = map kick_target (pl_kick_operations plan)"
        using kick_items(1) [OF K] False by (simp add: found tags_def comp_def)
      then show ?thesis using batch(1,3) unfolding transaction_explained_def Let_def intent by blast
    qed
  qed
qed

end
