(* ===== verification/ActionPrepare.thy ===== *)
theory ActionPrepare
  imports PlanPayload Settlement
begin

text \<open>
  \<open>api/services/action_prepare.py\<close>: the kick, settle and sweep actions an operator asks the API for.
  A service answers with a status, warnings and a payload, and stores the action when there is something
  to sign. The planner, the node and the encoders are parameters; a float argument comes with the text
  JSON gives it; a transaction is the record whose payload the API returns.
\<close>

section \<open>Responses\<close>

record prepare_settings =
  ps_chain_id :: int
  ps_max_gas_limit :: int
  ps_usd_threshold :: rat

record prepared_response =
  pr_status :: string
  pr_warnings :: "string list"
  pr_payload :: payload

definition tx_of_intent :: "tx_intent \<Rightarrow> prepared_tx" where
  "tx_of_intent intent = \<lparr>p_operation = ti_operation intent, p_to = ti_to intent, p_data = ti_data intent,
     p_value = Some (ti_value intent), p_chain_id = ti_chain_id intent, p_gas_estimate = ti_gas_estimate intent,
     p_gas_limit = ti_gas_limit intent\<rparr>"

definition transactions_json :: "tx_intent list \<Rightarrow> json" where
  "transactions_json intents = JList (map (JObj \<circ> intent_payload) intents)"

definition unsigned_response :: "string \<Rightarrow> string list \<Rightarrow> payload \<Rightarrow> prepared_response" where
  "unsigned_response status warnings preview =
     \<lparr>pr_status = status, pr_warnings = warnings, pr_payload = [(''preview'', JObj preview), (''transactions'', JList [])]\<rparr>"

definition action_response :: "string \<Rightarrow> string \<Rightarrow> string list \<Rightarrow> payload \<Rightarrow> tx_intent list \<Rightarrow> prepared_response" where
  "action_response action_id action_type warnings preview transactions =
     \<lparr>pr_status = ''ok'', pr_warnings = warnings, pr_payload = [(''actionId'', JStr action_id), (''actionType'', JStr action_type),
        (''preview'', JObj preview), (''transactions'', transactions_json transactions)]\<rparr>"

text \<open>Who prepares, when, and the id of the action to create.\<close>

record prepare_call =
  pc_now :: string
  pc_action_id :: string
  pc_operator_id :: string

definition store_action ::
  "prepare_call \<Rightarrow> string \<Rightarrow> string option \<Rightarrow> payload \<Rightarrow> payload \<Rightarrow> tx_intent list
     \<Rightarrow> string option \<Rightarrow> string option \<Rightarrow> string option \<Rightarrow> string option \<Rightarrow> string list \<Rightarrow> ledger
     \<Rightarrow> (ledger \<times> prepared_response) result" where
  "store_action call action_type sender request preview transactions resource_address auction_address source_address token_address
       warnings db =
     err_bind (create_prepared_action (pc_now call) (pc_action_id call) (pc_operator_id call) action_type sender (JObj request)
       (JObj preview) (map tx_of_intent transactions) resource_address auction_address source_address token_address db) (\<lambda>(db, action_id).
     Inr (db, action_response action_id action_type warnings preview transactions))"

section \<open>Kick\<close>

record kick_request =
  kq_source_type :: "string option"
  kq_source_address :: "string option"
  kq_auction_address :: "string option"
  kq_token_address :: "string option"
  kq_limit :: "int option"
  kq_sender :: "string option"
  kq_min_usd_value :: "(rat \<times> string) option"
  kq_require_curve_quote :: "bool option"
  kq_txn_max_gas_limit :: "int option"
  kq_allow_killed_gauge :: bool
  kq_allow_no_fill_retry :: bool

definition settings_with_kick_overrides :: "prepare_settings \<Rightarrow> int option \<Rightarrow> (rat \<times> string) option \<Rightarrow> prepare_settings" where
  "settings_with_kick_overrides settings txn_max_gas_limit min_usd_value =
     settings\<lparr>ps_max_gas_limit := (case txn_max_gas_limit of None \<Rightarrow> ps_max_gas_limit settings | Some g \<Rightarrow> g),
       ps_usd_threshold := (case min_usd_value of None \<Rightarrow> ps_usd_threshold settings | Some (v, _) \<Rightarrow> v)\<rparr>"

definition column_bool :: "bool option \<Rightarrow> json" where
  "column_bool column = (case column of None \<Rightarrow> JNull | Some b \<Rightarrow> JBool b)"

definition kick_request_payload :: "kick_request \<Rightarrow> prepare_settings \<Rightarrow> payload" where
  "kick_request_payload rq settings =
     [(''sourceType'', column_json (kq_source_type rq)), (''sourceAddress'', column_json (kq_source_address rq)),
      (''auctionAddress'', column_json (kq_auction_address rq)), (''tokenAddress'', column_json (kq_token_address rq)),
      (''limit'', column_int (kq_limit rq)),
      (''minUsdValue'', case kq_min_usd_value rq of None \<Rightarrow> JNull | Some (_, text) \<Rightarrow> JFloat text),
      (''sender'', column_json (kq_sender rq)), (''requireCurveQuote'', column_bool (kq_require_curve_quote rq)),
      (''txnMaxGasLimit'', JInt (ps_max_gas_limit settings)), (''allowKilledGauge'', JBool (kq_allow_killed_gauge rq)),
      (''allowNoFillRetry'', JBool (kq_allow_no_fill_retry rq))]"

definition kick_action_env :: "plan_env \<Rightarrow> kick_request \<Rightarrow> plan_env" where
  "kick_action_env env rq = env\<lparr>ple_sender := kq_sender rq, ple_batch := True, ple_estimate_transactions := True,
     ple_allow_killed_gauge := kq_allow_killed_gauge rq, ple_allow_no_fill_retry := kq_allow_no_fill_retry rq\<rparr>"

text \<open>\<open>service\<close> is \<open>build_txn_service\<close>, its planner.\<close>

definition prepare_kick_action ::
  "(prepare_settings \<Rightarrow> bool option \<Rightarrow> plan_env) \<Rightarrow> prepare_settings \<Rightarrow> prepare_call \<Rightarrow> kick_request \<Rightarrow> ledger
     \<Rightarrow> (ledger \<times> prepared_response) result" where
  "prepare_kick_action service settings call rq db =
     (if kq_allow_no_fill_retry rq \<and> \<not> (text_truth (kq_auction_address rq) \<and> text_truth (kq_token_address rq))
      then Inl (APIError ''allowNoFillRetry requires an exact auctionAddress and tokenAddress pair'' 422)
      else
        let effective = settings_with_kick_overrides settings (kq_txn_max_gas_limit rq) (kq_min_usd_value rq);
            env = kick_action_env (service effective (kq_require_curve_quote rq)) rq in
        err_bind (kick_plan_of env (plan_request env (kq_source_type rq) (kq_source_address rq) (kq_auction_address rq)
          (kq_token_address rq) (kq_limit rq))) (\<lambda>plan.
        err_bind (preview_payload plan) (\<lambda>preview.
        if pl_tx_intents plan = [] then Inr (db, unsigned_response (plan_status plan) (pl_warnings plan) preview)
        else store_action call ''kick'' (kq_sender rq) (kick_request_payload rq effective) preview (pl_tx_intents plan)
          (text_or (kq_auction_address rq) (kq_source_address rq)) (kq_auction_address rq) (kq_source_address rq) (kq_token_address rq)
          (pl_warnings plan) db)))"

section \<open>Estimates\<close>

record action_node =
  an_isaddr :: "string \<Rightarrow> bool"
  an_checksum :: "string \<Rightarrow> string"
  an_estimate :: "string \<Rightarrow> string \<Rightarrow> string \<Rightarrow> string + int"
  an_inspect :: "string \<Rightarrow> string option \<Rightarrow> settlement_inspection result"
  an_kicker_address :: string
  an_encode_resolve :: "string \<Rightarrow> string \<Rightarrow> bool \<Rightarrow> string"
  an_encode_sweep :: "string \<Rightarrow> string \<Rightarrow> string"
  an_token_symbol :: "address \<Rightarrow> string option"

definition estimate_transaction ::
  "action_node \<Rightarrow> string option \<Rightarrow> string \<Rightarrow> string \<Rightarrow> int \<Rightarrow> int option \<times> int option \<times> string option" where
  "estimate_transaction node sender target tx_data gas_cap =
     (case sender of None \<Rightarrow> (None, None, Some ''No sender provided for gas estimation.'')
      | Some sender \<Rightarrow> (case an_estimate node sender target tx_data of
          Inl text \<Rightarrow> (None, None, Some (''Gas estimate failed: '' @ text))
        | Inr gas_estimate \<Rightarrow> (Some gas_estimate, Some (min (gas_with_buffer gas_estimate) gas_cap), None)))"

definition call_intent ::
  "action_node \<Rightarrow> prepare_settings \<Rightarrow> string option \<Rightarrow> settlement_call \<Rightarrow> int option \<Rightarrow> int option \<Rightarrow> tx_intent result" where
  "call_intent node settings sender call gas_estimate gas_limit =
     err_bind (normalize_address (an_isaddr node) (sc_target_address call)) (\<lambda>target.
     Inr \<lparr>ti_operation = str_replace_char (CHR ''_'') ''-'' (sc_operation_type call), ti_to = target, ti_data = sc_data call,
       ti_chain_id = ps_chain_id settings, ti_sender = sender, ti_value = ''0x0'', ti_gas_estimate = gas_estimate, ti_gas_limit = gas_limit\<rparr>)"

section \<open>Settle\<close>

definition serialize_preview :: "lot_preview \<Rightarrow> json" where
  "serialize_preview p = JObj [(''token_address'', JStr (lp_token_address p)), (''path'', column_int (lp_path p)),
     (''active'', column_bool (lp_active p)), (''kicked_at'', column_int (lp_kicked_at p)), (''balance_raw'', column_int (lp_balance_raw p)),
     (''requires_force'', column_bool (lp_requires_force p)), (''receiver'', column_json (lp_receiver p)), (''read_ok'', JBool (lp_read_ok p)),
     (''error_message'', column_json (lp_error_message p))]"

definition serialize_inspection :: "settlement_inspection \<Rightarrow> json" where
  "serialize_inspection inspection = JObj [(''auction_address'', JStr (si_auction_address inspection)),
     (''is_active_auction'', column_bool (si_is_active_auction inspection)), (''enabled_tokens'', JList (map JStr (si_enabled_tokens inspection))),
     (''requested_token'', column_json (si_requested_token inspection)), (''lot_previews'', JList (map serialize_preview (si_lot_previews inspection)))]"

definition status_value :: "settlement_status \<Rightarrow> string" where
  "status_value status = (case status of Actionable \<Rightarrow> ''actionable'' | Noop \<Rightarrow> ''noop'' | SettlementError \<Rightarrow> ''error'')"

definition serialize_operation :: "settlement_operation \<Rightarrow> json" where
  "serialize_operation op = JObj [(''operation_type'', JStr (so_operation_type op)), (''token_address'', JStr (so_token_address op)),
     (''path'', JInt (so_path op)), (''reason'', JStr (so_reason op)), (''balance_raw'', JInt (so_balance_raw op)),
     (''requires_force'', JBool (so_requires_force op)), (''receiver'', column_json (so_receiver op))]"

definition serialize_decision :: "settlement_decision \<Rightarrow> json" where
  "serialize_decision decision = JObj [(''status'', JStr (status_value (sd_status decision))),
     (''operations'', JList (map serialize_operation (sd_operations decision))), (''reason'', JStr (sd_reason decision))]"

definition settle_operation_payload :: "string \<Rightarrow> settlement_operation \<Rightarrow> payload" where
  "settle_operation_payload auction op =
     [(''operation'', JStr ''resolve-auction''), (''auctionAddress'', JStr auction), (''tokenAddress'', JStr (so_token_address op)),
      (''reason'', JStr (so_reason op)), (''path'', JInt (so_path op)), (''requiresForce'', JBool (so_requires_force op)),
      (''balanceRaw'', JStr (show_int (so_balance_raw op))), (''receiver'', column_json (so_receiver op))]"

record settle_state =
  ss_warnings :: "string list"
  ss_transactions :: "tx_intent list"
  ss_operations :: "payload list"
  ss_manual :: bool

definition add_warning :: "string \<Rightarrow> string list \<Rightarrow> string list" where
  "add_warning w warnings = (if w \<in> set warnings then warnings else warnings @ [w])"

definition operation_by_token :: "settlement_operation list \<Rightarrow> address \<Rightarrow> settlement_operation option" where
  "operation_by_token operations = map_of (rev (map (\<lambda>op. (so_token_address op, op)) operations))"

definition manual_sweep_needed :: "settlement_operation \<Rightarrow> string option \<Rightarrow> bool" where
  "manual_sweep_needed op gas_warning \<longleftrightarrow> so_path op = PATH_SWEEP_AND_RESET
     \<and> (case gas_warning of None \<Rightarrow> False | Some w \<Rightarrow> str_contains ''Amount is zero.'' w)"

definition manual_sweep_hints :: "action_node \<Rightarrow> string \<Rightarrow> settlement_operation \<Rightarrow> string list \<Rightarrow> string list" where
  "manual_sweep_hints node auction op warnings =
     (let token = so_token_address op;
          token_label = (case an_token_symbol node token of None \<Rightarrow> token | Some s \<Rightarrow> if s = [] then token else s);
          command = ''tidal auction sweep '' @ an_checksum node auction @ '' --token '' @ an_checksum node token
      in add_warning (''Next Step: '' @ command)
        (add_warning (''Resolve failed for '' @ token_label @ ''. This token may require a manual sweep.'') warnings))"

definition settle_step ::
  "action_node \<Rightarrow> prepare_settings \<Rightarrow> string option \<Rightarrow> string \<Rightarrow> settlement_operation list \<Rightarrow> settlement_call \<Rightarrow> settle_state
     \<Rightarrow> settle_state result" where
  "settle_step node settings sender auction operations call st =
     (let matching = operation_by_token operations (sc_token_address call);
          (gas_estimate, gas_limit, gas_warning) =
            estimate_transaction node sender (sc_target_address call) (sc_data call) (ps_max_gas_limit settings);
          warnings = (case gas_warning of None \<Rightarrow> ss_warnings st | Some w \<Rightarrow> if w = [] then ss_warnings st else add_warning w (ss_warnings st))
      in case matching of
           Some op \<Rightarrow>
             if manual_sweep_needed op gas_warning
             then Inr (st\<lparr>ss_warnings := manual_sweep_hints node auction op warnings, ss_manual := True\<rparr>)
             else err_bind (call_intent node settings sender call gas_estimate gas_limit) (\<lambda>intent.
               Inr (st\<lparr>ss_warnings := warnings, ss_transactions := ss_transactions st @ [intent],
                 ss_operations := ss_operations st @ [tagged (length (ss_transactions st)) (settle_operation_payload auction op)]\<rparr>))
         | None \<Rightarrow> err_bind (call_intent node settings sender call gas_estimate gas_limit) (\<lambda>intent.
             Inr (st\<lparr>ss_warnings := warnings, ss_transactions := ss_transactions st @ [intent]\<rparr>)))"

definition settle_preview :: "settlement_inspection \<Rightarrow> json \<Rightarrow> bool \<Rightarrow> payload list \<Rightarrow> payload" where
  "settle_preview inspection decision force operations =
     [(''inspection'', serialize_inspection inspection), (''decision'', decision), (''requestedForce'', JBool force),
      (''preparedOperations'', JList (map JObj operations))]"

definition summary_decision :: "string \<Rightarrow> string \<Rightarrow> json" where
  "summary_decision status reason = JObj [(''status'', JStr status), (''operations'', JList []), (''reason'', JStr reason)]"

definition preview_decision :: "settlement_decision \<Rightarrow> settle_state \<Rightarrow> json" where
  "preview_decision decision st =
     (if ss_manual st \<and> ss_transactions st = [] then summary_decision ''noop'' ''manual sweep required before settlement''
      else if ss_operations st \<noteq> [] \<and> length (ss_operations st) \<noteq> length (sd_operations decision)
      then summary_decision ''actionable'' (''prepared '' @ show_nat (length (ss_operations st)) @ '' resolvable lot(s)'')
      else serialize_decision decision)"

definition settle_request_payload :: "string \<Rightarrow> string option \<Rightarrow> string option \<Rightarrow> bool \<Rightarrow> payload" where
  "settle_request_payload auction sender token force =
     [(''auctionAddress'', JStr auction), (''sender'', column_json sender), (''tokenAddress'', column_json token), (''force'', JBool force)]"

text \<open>The calls of an actionable decision.\<close>

definition settle_transactions ::
  "action_node \<Rightarrow> prepare_settings \<Rightarrow> prepare_call \<Rightarrow> string option \<Rightarrow> string \<Rightarrow> string option \<Rightarrow> bool \<Rightarrow> settlement_inspection
     \<Rightarrow> settlement_decision \<Rightarrow> ledger \<Rightarrow> (ledger \<times> prepared_response) result" where
  "settle_transactions node settings call sender auction token force inspection decision db =
     err_bind (build_auction_settlement_calls (an_isaddr node) (an_checksum node) (an_encode_resolve node) (an_kicker_address node)
       auction decision) (\<lambda>calls.
     err_bind (fold_err (settle_step node settings sender auction (sd_operations decision)) calls
       \<lparr>ss_warnings = [], ss_transactions = [], ss_operations = [], ss_manual = False\<rparr>) (\<lambda>st.
     let preview = settle_preview inspection (preview_decision decision st) force (ss_operations st) in
     if ss_transactions st = [] then Inr (db, unsigned_response ''noop'' (ss_warnings st) preview)
     else store_action call ''settle'' sender (settle_request_payload auction sender token force) preview (ss_transactions st)
       (Some auction) (Some auction) None
       (case sd_operations decision of [] \<Rightarrow> token | op # _ \<Rightarrow> Some (so_token_address op)) (ss_warnings st) db))"

definition prepare_settle_action ::
  "action_node \<Rightarrow> prepare_settings \<Rightarrow> prepare_call \<Rightarrow> string \<Rightarrow> string option \<Rightarrow> string option \<Rightarrow> bool \<Rightarrow> ledger
     \<Rightarrow> (ledger \<times> prepared_response) result" where
  "prepare_settle_action node settings call auction_address sender token_address force db =
     err_bind (normalize_address (an_isaddr node) auction_address) (\<lambda>auction.
     err_bind (case token_address of None \<Rightarrow> Inr None | Some t \<Rightarrow> if t = [] then Inr None
         else err_bind (normalize_address (an_isaddr node) t) (\<lambda>t. Inr (Some t))) (\<lambda>token.
     if force \<and> token = None then Inl (APIError ''force requires tokenAddress'' 422)
     else
       err_bind (an_inspect node auction token) (\<lambda>inspection.
       err_bind (decide_auction_settlement (an_isaddr node) (an_checksum node) inspection token force) (\<lambda>decision.
       case sd_status decision of
         Noop \<Rightarrow> Inr (db, unsigned_response ''noop'' [] (settle_preview inspection (serialize_decision decision) force
           (map (settle_operation_payload auction) (sd_operations decision))))
       | SettlementError \<Rightarrow> Inl (APIError (sd_reason decision) 409)
       | Actionable \<Rightarrow> settle_transactions node settings call sender auction token force inspection decision db))))"

section \<open>Sweep\<close>

definition sweep_decision :: "string \<Rightarrow> string \<Rightarrow> json" where
  "sweep_decision status reason = JObj [(''status'', JStr status), (''reason'', JStr reason)]"

definition sweep_preview :: "settlement_inspection \<Rightarrow> json \<Rightarrow> payload list \<Rightarrow> payload" where
  "sweep_preview inspection decision operations =
     [(''inspection'', serialize_inspection inspection), (''decision'', decision), (''preparedOperations'', JList (map JObj operations))]"

definition sweep_operation_payload :: "string \<Rightarrow> string \<Rightarrow> string option \<Rightarrow> lot_preview \<Rightarrow> int \<Rightarrow> payload" where
  "sweep_operation_payload auction token symbol preview balance_raw =
     [(''operation'', JStr ''sweep-auction''), (''txIndex'', JInt 0), (''auctionAddress'', JStr auction), (''tokenAddress'', JStr token),
      (''tokenSymbol'', column_json symbol), (''reason'', JStr ''manual auction sweep''), (''path'', column_int (lp_path preview)),
      (''balanceRaw'', JStr (show_int balance_raw)), (''receiver'', column_json (lp_receiver preview))]"

definition sweep_failure :: "lot_preview option \<Rightarrow> string" where
  "sweep_failure preview =
     (case preview of None \<Rightarrow> ''resolve preview failed for the requested token''
      | Some p \<Rightarrow> (case lp_error_message p of None \<Rightarrow> ''resolve preview failed for the requested token''
          | Some m \<Rightarrow> if m = [] then ''resolve preview failed for the requested token'' else m))"

definition prepare_sweep_action ::
  "action_node \<Rightarrow> prepare_settings \<Rightarrow> prepare_call \<Rightarrow> string \<Rightarrow> string option \<Rightarrow> string \<Rightarrow> ledger
     \<Rightarrow> (ledger \<times> prepared_response) result" where
  "prepare_sweep_action node settings call auction_address sender token_address db =
     err_bind (normalize_address (an_isaddr node) auction_address) (\<lambda>auction.
     err_bind (normalize_address (an_isaddr node) token_address) (\<lambda>token.
     err_bind (an_inspect node auction (Some token)) (\<lambda>inspection.
     err_bind (preview_for_token (an_isaddr node) inspection token) (\<lambda>preview.
     case preview of
       None \<Rightarrow> Inl (APIError (sweep_failure None) 409)
     | Some p \<Rightarrow>
         if \<not> lp_read_ok p then Inl (APIError (sweep_failure (Some p)) 409)
         else
           let balance_raw = (case lp_balance_raw p of None \<Rightarrow> 0 | Some b \<Rightarrow> b) in
           if balance_raw = 0
           then Inr (db, unsigned_response ''noop'' [] (sweep_preview inspection
             (sweep_decision ''noop'' ''requested token has no auction balance to sweep'') []))
           else
             let preview = sweep_preview inspection (sweep_decision ''actionable'' ''manual sweep prepared'')
                   [sweep_operation_payload auction token (an_token_symbol node token) p balance_raw] in
             err_bind (build_auction_sweep_call (an_isaddr node) (an_checksum node) (an_encode_sweep node) (an_kicker_address node)
               auction token) (\<lambda>sweep.
             let (gas_estimate, gas_limit, gas_warning) =
                   estimate_transaction node sender (sc_target_address sweep) (sc_data sweep) (ps_max_gas_limit settings) in
             err_bind (call_intent node settings sender sweep gas_estimate gas_limit) (\<lambda>intent.
             store_action call ''sweep'' sender
               [(''auctionAddress'', JStr auction), (''sender'', column_json sender), (''tokenAddress'', JStr token)] preview [intent]
               (Some auction) (Some auction) None (Some token)
               (case gas_warning of None \<Rightarrow> [] | Some w \<Rightarrow> if w = [] then [] else [w]) db))))))"

section \<open>What is stored\<close>

text \<open>The rows of an action carry its transactions, in order and unchanged.\<close>

definition stored_as :: "string \<Rightarrow> tx_intent list \<Rightarrow> action_tx list \<Rightarrow> bool" where
  "stored_as action_id intents rows \<longleftrightarrow> length rows = length intents \<and> (\<forall>i < length intents.
     let row = rows ! i; intent = intents ! i in
     x_action_id row = action_id \<and> x_tx_index row = int i \<and> x_operation row = ti_operation intent \<and> x_to_address row = ti_to intent
     \<and> x_data row = ti_data intent \<and> x_value row = ti_value intent \<and> x_chain_id row = ti_chain_id intent
     \<and> x_gas_limit row = ti_gas_limit intent \<and> x_tx_hash row = None)"

lemma stored_row_as:
  assumes "row\<lparr>x_id := 0\<rparr> = (new_tx_row now action_id (i, tx_of_intent intent))\<lparr>x_id := 0\<rparr>"
  shows "x_action_id row = action_id \<and> x_tx_index row = int i \<and> x_operation row = ti_operation intent \<and> x_to_address row = ti_to intent
     \<and> x_data row = ti_data intent \<and> x_value row = ti_value intent \<and> x_chain_id row = ti_chain_id intent
     \<and> x_gas_limit row = ti_gas_limit intent \<and> x_tx_hash row = None"
  using assms by (cases row) (simp add: new_tx_row_def tx_of_intent_def)

lemma store_action_Inr:
  assumes "store_action call action_type sender request preview transactions resource_address auction_address source_address token_address
    warnings db = Inr (db', response)"
  obtains action rows where "l_actions db' = l_actions db @ [action]" "l_txs db' = l_txs db @ rows" "l_kicks db' = l_kicks db"
    "a_action_id action = pc_action_id call" "a_status action = ''PREPARED''" "a_action_type action = action_type"
    "a_preview action = JObj preview" "stored_as (pc_action_id call) transactions rows" "pr_status response = ''ok''"
proof -
  let ?new = "map (new_tx_row (pc_now call) (pc_action_id call)) (enumerate 0 (map tx_of_intent transactions))"
  obtain rows where rows: "fold (\<lambda>row txs. txs @ [row\<lparr>x_id := next_tx_id txs\<rparr>]) ?new (l_txs db) = l_txs db @ rows"
    "map (\<lambda>row. row\<lparr>x_id := 0\<rparr>) rows = map (\<lambda>row. row\<lparr>x_id := 0\<rparr>) ?new"
    using stored_rows [of ?new "l_txs db"] by (elim exE conjE)
  have length: "length rows = length transactions" using arg_cong [where f = length, OF rows(2)] by simp
  have "(rows ! i)\<lparr>x_id := 0\<rparr> = (new_tx_row (pc_now call) (pc_action_id call) (i, tx_of_intent (transactions ! i)))\<lparr>x_id := 0\<rparr>"
    if "i < length transactions" for i
    using arg_cong [where f = "\<lambda>xs. xs ! i", OF rows(2)] that length by (simp add: nth_enumerate_eq)
  then have "stored_as (pc_action_id call) transactions rows"
    using length stored_row_as unfolding stored_as_def Let_def by blast
  then show thesis
    using assms that rows(1)
    by (auto simp: store_action_def action_response_def create_prepared_action_def action_create_def err_simps split: if_splits)
qed

lemma prepared_items_found:
  assumes "a_preview action = JObj preview" "map_of preview ''preparedOperations'' = Some (JList items)"
  shows "prepared_items db action operation_type tx_index = Some items"
  using assms by (simp add: prepared_items_def decode_json_def json_get_def)

lemma preview_payload_items:
  assumes "preview_payload plan = Inr preview"
  obtains items where "prepared_operations_preview plan = Inr items" "map_of preview ''preparedOperations'' = Some (JList (map JObj items))"
proof -
  obtain items where "prepared_operations_preview plan = Inr items" using assms by (auto simp: preview_payload_def err_simps)
  moreover from this have "map_of preview ''preparedOperations'' = Some (JList (map JObj items))"
    using assms by (auto simp: preview_payload_def)
  ultimately show thesis by (rule that)
qed

lemma kick_action_explained:
  assumes "prepare_kick_action service settings call rq db = Inr (db', response)" "pr_status response = ''ok''"
    and "env = kick_action_env (service (settings_with_kick_overrides settings (kq_txn_max_gas_limit rq) (kq_min_usd_value rq))
      (kq_require_curve_quote rq)) rq"
  shows "\<exists>plan items action rows. kick_plan_of env (plan_request env (kq_source_type rq) (kq_source_address rq) (kq_auction_address rq)
       (kq_token_address rq) (kq_limit rq)) = Inr plan
     \<and> l_actions db' = l_actions db @ [action] \<and> a_action_id action = pc_action_id call \<and> a_status action = ''PREPARED''
     \<and> prepared_items db' action operation_type tx_index = Some (map JObj items)
     \<and> l_txs db' = l_txs db @ rows \<and> stored_as (pc_action_id call) (pl_tx_intents plan) rows \<and> rows \<noteq> []
     \<and> (\<forall>i < length rows. transaction_explained env plan items i)"
proof -
  obtain plan preview where plan: "kick_plan_of env (plan_request env (kq_source_type rq) (kq_source_address rq) (kq_auction_address rq)
       (kq_token_address rq) (kq_limit rq)) = Inr plan" "preview_payload plan = Inr preview"
    and stored: "(if pl_tx_intents plan = [] then Inr (db, unsigned_response (plan_status plan) (pl_warnings plan) preview)
        else store_action call ''kick'' (kq_sender rq) (kick_request_payload rq (settings_with_kick_overrides settings (kq_txn_max_gas_limit rq)
          (kq_min_usd_value rq))) preview (pl_tx_intents plan) (text_or (kq_auction_address rq) (kq_source_address rq))
          (kq_auction_address rq) (kq_source_address rq) (kq_token_address rq) (pl_warnings plan) db) = Inr (db', response)"
    using assms(1) by (auto simp: prepare_kick_action_def Let_def err_simps assms(3) split: if_splits)
  obtain items where items: "prepared_operations_preview plan = Inr items" "map_of preview ''preparedOperations'' = Some (JList (map JObj items))"
    using plan(2) by (rule preview_payload_items)
  have some: "pl_tx_intents plan \<noteq> []"
    using stored assms(2) by (auto simp: unsigned_response_def plan_status_def)
  obtain action rows where action: "l_actions db' = l_actions db @ [action]" "l_txs db' = l_txs db @ rows"
    "a_action_id action = pc_action_id call" "a_status action = ''PREPARED''" "a_preview action = JObj preview"
    "stored_as (pc_action_id call) (pl_tx_intents plan) rows"
    using stored unfolding if_not_P [OF some] by (rule store_action_Inr)
  have "length rows = length (pl_tx_intents plan)" using action(6) by (simp add: stored_as_def)
  moreover have "transaction_explained env plan items i" if "i < length (pl_tx_intents plan)" for i
    by (rule plan_explained [OF kick_plan_planned [OF plan(1)] items(1) that])
  moreover have "prepared_items db' action operation_type tx_index = Some (map JObj items)"
    by (rule prepared_items_found [OF action(5) items(2)])
  ultimately show ?thesis using plan(1) action some by (intro exI [of _ plan] exI [of _ items] exI [of _ action] exI [of _ rows]) auto
qed

section \<open>Settlement transactions\<close>

text \<open>The call of an operation, within the gas cap.\<close>

definition settles_with :: "action_node \<Rightarrow> prepare_settings \<Rightarrow> string \<Rightarrow> settlement_operation \<Rightarrow> tx_intent \<Rightarrow> bool" where
  "settles_with node settings auction op intent \<longleftrightarrow> ti_operation intent = ''resolve-auction''
     \<and> ti_data intent = an_encode_resolve node (an_checksum node auction) (an_checksum node (so_token_address op)) (so_requires_force op)
     \<and> (\<forall>g. ti_gas_limit intent = Some g \<longrightarrow> g \<le> ps_max_gas_limit settings)"

definition settle_inv :: "action_node \<Rightarrow> prepare_settings \<Rightarrow> string \<Rightarrow> settlement_operation list \<Rightarrow> settle_state \<Rightarrow> bool" where
  "settle_inv node settings auction operations st \<longleftrightarrow> length (ss_operations st) = length (ss_transactions st)
     \<and> (\<forall>i < length (ss_transactions st). \<exists>op \<in> set operations. \<exists>op'. settles_with node settings auction op (ss_transactions st ! i)
          \<and> so_token_address op' = so_token_address op \<and> ss_operations st ! i = tagged i (settle_operation_payload auction op'))"

lemma operation_by_token_Some:
  assumes "op \<in> set operations"
  obtains op' where "operation_by_token operations (so_token_address op) = Some op'" "so_token_address op' = so_token_address op"
proof -
  have "\<exists>op'. operation_by_token operations (so_token_address op) = Some op'"
    unfolding not_None_eq [symmetric] operation_by_token_def map_of_eq_None_iff using assms by (auto simp: image_iff)
  then obtain op' where "operation_by_token operations (so_token_address op) = Some op'" by blast
  moreover from this have "so_token_address op' = so_token_address op"
    by (auto simp: operation_by_token_def dest!: map_of_SomeD)
  ultimately show thesis by (rule that)
qed

lemma estimate_transaction_cap: "estimate_transaction node sender target d cap = (g, Some limit, w) \<Longrightarrow> limit \<le> cap"
  by (auto simp: estimate_transaction_def split: option.splits sum.splits)

lemma settle_step_inv:
  assumes "settle_step node settings sender auction operations call st = Inr st'" "settle_inv node settings auction operations st"
    and op: "op \<in> set operations" "sc_operation_type call = ''resolve_auction''" "sc_token_address call = so_token_address op"
      "sc_data call = an_encode_resolve node (an_checksum node auction) (an_checksum node (so_token_address op)) (so_requires_force op)"
  shows "settle_inv node settings auction operations st'"
proof -
  obtain op' where op': "operation_by_token operations (sc_token_address call) = Some op'" "so_token_address op' = so_token_address op"
    using operation_by_token_Some [OF op(1)] op(3) by metis
  obtain g limit w where estimate: "estimate_transaction node sender (sc_target_address call) (sc_data call) (ps_max_gas_limit settings) = (g, limit, w)"
    by (cases "estimate_transaction node sender (sc_target_address call) (sc_data call) (ps_max_gas_limit settings)")
  show ?thesis
  proof (cases "manual_sweep_needed op' w")
    case True
    then show ?thesis using assms(1,2) by (auto simp: settle_step_def op'(1) estimate Let_def settle_inv_def)
  next
    case False
    then obtain intent where intent: "call_intent node settings sender call g limit = Inr intent"
      and st': "ss_transactions st' = ss_transactions st @ [intent]"
        "ss_operations st' = ss_operations st @ [tagged (length (ss_transactions st)) (settle_operation_payload auction op')]"
      using assms(1) by (auto simp: settle_step_def op'(1) estimate Let_def err_simps)
    have name: "str_replace_char (CHR ''_'') ''-'' ''resolve_auction'' = ''resolve-auction''" by code_simp
    have "settles_with node settings auction op intent"
      using intent estimate_transaction_cap [of node sender] estimate op(2,4)
      by (auto simp: settles_with_def call_intent_def err_simps name)
    then show ?thesis using assms(2) op(1) op'(2) unfolding settle_inv_def st' by (fastforce simp: nth_append less_Suc_eq)
  qed
qed

lemma settle_loop_inv:
  assumes "build_auction_settlement_calls (an_isaddr node) (an_checksum node) (an_encode_resolve node) (an_kicker_address node) auction decision
      = Inr calls" "str_lower auction = auction"
    and "fold_err (settle_step node settings sender auction (sd_operations decision)) calls
      \<lparr>ss_warnings = [], ss_transactions = [], ss_operations = [], ss_manual = False\<rparr> = Inr st"
  shows "settle_inv node settings auction (sd_operations decision) st"
proof (rule fold_err_invariant [OF assms(3)])
  show "settle_inv node settings auction (sd_operations decision) \<lparr>ss_warnings = [], ss_transactions = [], ss_operations = [], ss_manual = False\<rparr>"
    by (simp add: settle_inv_def)
next
  fix call s t
  assume "call \<in> set calls" and inv: "settle_inv node settings auction (sd_operations decision) s"
    and step: "settle_step node settings sender auction (sd_operations decision) call s = Inr t"
  then obtain op where op: "op \<in> set (sd_operations decision)" "sc_operation_type call = ''resolve_auction''" "sc_token_address call = so_token_address op"
    "sc_data call = an_encode_resolve node (an_checksum node auction) (an_checksum node (so_token_address op)) (so_requires_force op)"
    using assms(1,2) by (auto simp: build_auction_settlement_calls_def err_simps normalize_address_Inr split: if_splits)
  show "settle_inv node settings auction (sd_operations decision) t" by (rule settle_step_inv [OF step inv op])
qed

lemma settle_operations_found:
  assumes "settle_inv node settings auction operations st" "i < length (ss_transactions st)"
  shows "\<exists>op \<in> set operations. settles_with node settings auction op (ss_transactions st ! i)
    \<and> map operation_target (matching_items ''resolve_auction'' (int i) (map JObj (ss_operations st))) = [(JStr auction, JStr (so_token_address op))]"
proof -
  let ?n = "length (ss_transactions st)"
  obtain f h where fh: "\<forall>i < ?n. f i \<in> set operations \<and> settles_with node settings auction (f i) (ss_transactions st ! i)
      \<and> so_token_address (h i) = so_token_address (f i) \<and> ss_operations st ! i = tagged i (settle_operation_payload auction (h i))"
    using assms(1) unfolding settle_inv_def by metis
  define bases where "bases = map (\<lambda>i. settle_operation_payload auction (h i)) [0..<?n]"
  have operations: "ss_operations st = map (\<lambda>(i, p). tagged i p) (zip [0..<?n] bases) @ []"
  proof (rule nth_equalityI)
    show "length (ss_operations st) = length (map (\<lambda>(i, p). tagged i p) (zip [0..<?n] bases) @ [])"
      using assms(1) by (simp add: settle_inv_def bases_def)
    then show "ss_operations st ! i = (map (\<lambda>(i, p). tagged i p) (zip [0..<?n] bases) @ []) ! i" if "i < length (ss_operations st)" for i
      using that fh by (simp add: bases_def)
  qed
  have names: "\<forall>x \<in> set (zip [0..<?n] bases). normalize_operation_type (json_get (snd x) ''operation'') = Some ''resolve_auction''"
    by (auto simp: bases_def settle_operation_payload_def json_get_def normalized_types dest!: set_zip_rightD)
  have "map operation_target (matching_items ''resolve_auction'' (int i) (map JObj (ss_operations st)))
      = map (operation_target \<circ> snd) (filter (\<lambda>(j, p). j = i) (zip [0..<?n] bases))"
    using matching_tagged [OF names _ disjI1 [OF operations]] by simp
  also have "\<dots> = [operation_target (bases ! i)]"
    using filter_zip_index [of i bases operation_target 0] assms(2) by (simp add: bases_def)
  also have "operation_target (bases ! i) = (JStr auction, JStr (so_token_address (f i)))"
  proof -
    have "so_token_address (h i) = so_token_address (f i)" using fh assms(2) by blast
    then show ?thesis using assms(2) by (simp add: bases_def settle_operation_payload_def operation_target_def json_get_def)
  qed
  finally have found: "map operation_target (matching_items ''resolve_auction'' (int i) (map JObj (ss_operations st)))
      = [(JStr auction, JStr (so_token_address (f i)))]" .
  have "f i \<in> set operations" "settles_with node settings auction (f i) (ss_transactions st ! i)" using fh assms(2) by blast+
  then show ?thesis by (intro bexI [of _ "f i"] conjI found)
qed

lemma settle_transactions_consistent:
  assumes "settle_transactions node settings call sender auction token force inspection decision db = Inr (db', response)"
    and "str_lower auction = auction"
  shows "pr_status response = ''noop'' \<and> db' = db \<or> pr_status response = ''ok'' \<and>
    (\<exists>action intents rows items. l_actions db' = l_actions db @ [action] \<and> a_action_id action = pc_action_id call
       \<and> a_status action = ''PREPARED'' \<and> l_txs db' = l_txs db @ rows \<and> stored_as (pc_action_id call) intents rows \<and> rows \<noteq> []
       \<and> prepared_items db' action ''resolve_auction'' tx_index = Some items
       \<and> (\<forall>i < length intents. \<exists>op \<in> set (sd_operations decision). settles_with node settings auction op (intents ! i)
            \<and> map operation_target (matching_items ''resolve_auction'' (int i) items) = [(JStr auction, JStr (so_token_address op))]))"
proof -
  obtain calls st where calls: "build_auction_settlement_calls (an_isaddr node) (an_checksum node) (an_encode_resolve node)
      (an_kicker_address node) auction decision = Inr calls"
    and st: "fold_err (settle_step node settings sender auction (sd_operations decision)) calls
      \<lparr>ss_warnings = [], ss_transactions = [], ss_operations = [], ss_manual = False\<rparr> = Inr st"
    and answer: "(if ss_transactions st = []
       then Inr (db, unsigned_response ''noop'' (ss_warnings st) (settle_preview inspection (preview_decision decision st) force (ss_operations st)))
       else store_action call ''settle'' sender (settle_request_payload auction sender token force)
         (settle_preview inspection (preview_decision decision st) force (ss_operations st)) (ss_transactions st) (Some auction) (Some auction) None
         (case sd_operations decision of [] \<Rightarrow> token | op # _ \<Rightarrow> Some (so_token_address op)) (ss_warnings st) db) = Inr (db', response)"
    using assms(1) unfolding settle_transactions_def err_bind_Inr_iff Let_def by blast
  have inv: "settle_inv node settings auction (sd_operations decision) st" by (rule settle_loop_inv [OF calls assms(2) st])
  show ?thesis
  proof (cases "ss_transactions st = []")
    case True
    then show ?thesis using answer by (auto simp: unsigned_response_def)
  next
    case False
    obtain action rows where action: "l_actions db' = l_actions db @ [action]" "l_txs db' = l_txs db @ rows"
      "a_action_id action = pc_action_id call" "a_status action = ''PREPARED''"
      "a_preview action = JObj (settle_preview inspection (preview_decision decision st) force (ss_operations st))"
      "stored_as (pc_action_id call) (ss_transactions st) rows" "pr_status response = ''ok''"
      using answer unfolding if_not_P [OF False] by (rule store_action_Inr)
    have "prepared_items db' action ''resolve_auction'' tx_index = Some (map JObj (ss_operations st))"
      by (rule prepared_items_found [OF action(5)]) (simp add: settle_preview_def)
    moreover have "rows \<noteq> []" using action(6) False by (auto simp: stored_as_def)
    ultimately show ?thesis using action settle_operations_found [OF inv] by blast
  qed
qed

lemma settle_action_consistent:
  assumes "prepare_settle_action node settings call auction_address sender token_address force db = Inr (db', response)"
  shows "pr_status response = ''noop'' \<and> db' = db \<or> pr_status response = ''ok'' \<and>
    (\<exists>auction token inspection decision action intents rows items.
       normalize_address (an_isaddr node) auction_address = Inr auction \<and> an_inspect node auction token = Inr inspection
       \<and> decide_auction_settlement (an_isaddr node) (an_checksum node) inspection token force = Inr decision
       \<and> l_actions db' = l_actions db @ [action] \<and> a_action_id action = pc_action_id call \<and> a_status action = ''PREPARED''
       \<and> l_txs db' = l_txs db @ rows \<and> stored_as (pc_action_id call) intents rows \<and> rows \<noteq> []
       \<and> prepared_items db' action ''resolve_auction'' tx_index = Some items
       \<and> (\<forall>i < length intents. \<exists>op \<in> set (sd_operations decision). settles_with node settings auction op (intents ! i)
            \<and> map operation_target (matching_items ''resolve_auction'' (int i) items) = [(JStr auction, JStr (so_token_address op))]))"
proof -
  obtain auction token where auction: "normalize_address (an_isaddr node) auction_address = Inr auction"
    and checked: "(if force \<and> token = None then Inl (APIError ''force requires tokenAddress'' 422)
     else
       err_bind (an_inspect node auction token) (\<lambda>inspection.
       err_bind (decide_auction_settlement (an_isaddr node) (an_checksum node) inspection token force) (\<lambda>decision.
       case sd_status decision of
         Noop \<Rightarrow> Inr (db, unsigned_response ''noop'' [] (settle_preview inspection (serialize_decision decision) force
           (map (settle_operation_payload auction) (sd_operations decision))))
       | SettlementError \<Rightarrow> Inl (APIError (sd_reason decision) 409)
       | Actionable \<Rightarrow> settle_transactions node settings call sender auction token force inspection decision db))) = Inr (db', response)"
    using assms unfolding prepare_settle_action_def err_bind_Inr_iff by blast
  then obtain inspection decision where pre: "an_inspect node auction token = Inr inspection"
    "decide_auction_settlement (an_isaddr node) (an_checksum node) inspection token force = Inr decision"
    and rest: "(case sd_status decision of
         Noop \<Rightarrow> Inr (db, unsigned_response ''noop'' [] (settle_preview inspection (serialize_decision decision) force
           (map (settle_operation_payload auction) (sd_operations decision))))
       | SettlementError \<Rightarrow> Inl (APIError (sd_reason decision) 409)
       | Actionable \<Rightarrow> settle_transactions node settings call sender auction token force inspection decision db) = Inr (db', response)"
    by (cases "force \<and> token = None") (auto simp: err_bind_Inr_iff)
  show ?thesis
  proof (cases "sd_status decision")
    case Actionable
    have "str_lower auction = auction" using auction by (simp add: normalize_address_Inr)
    with rest [unfolded Actionable, simplified] show ?thesis
      using settle_transactions_consistent [of node settings call sender auction token force inspection decision db db' response tx_index] auction pre
      by blast
  qed (use rest in \<open>auto simp: unsigned_response_def\<close>)
qed

section \<open>Properties\<close>

text \<open>
  C11. A kick action answered with ok is the plan made for the request: one new action with
  the status PREPARED, whose rows carry the transactions of the plan in order and unchanged,
  and whose stored operations, as the audit reads them back when a broadcast is reported,
  name for every transaction exactly the lots it resolves or kicks.
\<close>

theorem prepared_kick_action_explained:
  assumes "prepare_kick_action service settings call rq db = Inr (db', response)" "pr_status response = ''ok''"
    and "env = kick_action_env (service (settings_with_kick_overrides settings (kq_txn_max_gas_limit rq) (kq_min_usd_value rq))
      (kq_require_curve_quote rq)) rq"
  shows "\<exists>plan items action rows. kick_plan_of env (plan_request env (kq_source_type rq) (kq_source_address rq) (kq_auction_address rq)
       (kq_token_address rq) (kq_limit rq)) = Inr plan
     \<and> l_actions db' = l_actions db @ [action] \<and> a_action_id action = pc_action_id call \<and> a_status action = ''PREPARED''
     \<and> prepared_items db' action operation_type tx_index = Some (map JObj items)
     \<and> l_txs db' = l_txs db @ rows \<and> stored_as (pc_action_id call) (pl_tx_intents plan) rows \<and> rows \<noteq> []
     \<and> (\<forall>i < length rows. transaction_explained env plan items i)"
  by (rule kick_action_explained [OF assms])

definition settle_plan_env :: plan_env where
  "settle_plan_env = sample_plan_env\<lparr>ple_estimator := Estimate_Fn (\<lambda>_ _ _ _. Inr (Some 100000, Some 120000, None)),
     ple_inspect_settlements := (\<lambda>as. Inr (map (\<lambda>a. (a, clear_settlement\<lparr>si_lot_previews := [\<lparr>
     lp_token_address = ''0xt'', lp_path = Some PATH_SETTLE_ONLY, lp_active = Some True, lp_kicked_at = Some 5, lp_balance_raw = Some 0,
     lp_requires_force = Some False, lp_receiver = Some ''0xs'', lp_read_ok = True, lp_error_message = None\<rparr>]\<rparr>)) as))\<rparr>"

definition sample_settings :: prepare_settings where
  "sample_settings = \<lparr>ps_chain_id = 1, ps_max_gas_limit = 500000, ps_usd_threshold = 10\<rparr>"

definition sample_call :: prepare_call where
  "sample_call = \<lparr>pc_now = ''2026-01-01T00:00:00Z'', pc_action_id = ''id'', pc_operator_id = ''op''\<rparr>"

definition sample_kick_request :: kick_request where
  "sample_kick_request = \<lparr>kq_source_type = None, kq_source_address = None, kq_auction_address = None, kq_token_address = None,
     kq_limit = None, kq_sender = Some ''0xo'', kq_min_usd_value = None, kq_require_curve_quote = None, kq_txn_max_gas_limit = None,
     kq_allow_killed_gauge = False, kq_allow_no_fill_retry = False\<rparr>"

lemma sample_kick_action:
  "case prepare_kick_action (\<lambda>_ _. settle_plan_env) sample_settings sample_call sample_kick_request empty_ledger of
     Inl _ \<Rightarrow> False | Inr (_, response) \<Rightarrow> pr_status response = ''ok''"
  by code_simp

theorem prepared_kick_action_explained_witness:
  "\<exists>db response action intents. prepare_kick_action (\<lambda>_ _. settle_plan_env) sample_settings sample_call sample_kick_request empty_ledger
       = Inr (db, response)
     \<and> l_actions db = [action] \<and> a_status action = ''PREPARED'' \<and> l_txs db \<noteq> [] \<and> stored_as ''id'' intents (l_txs db)"
proof -
  obtain db response where prepared: "prepare_kick_action (\<lambda>_ _. settle_plan_env) sample_settings sample_call sample_kick_request empty_ledger
      = Inr (db, response)" "pr_status response = ''ok''" using sample_kick_action by (auto split: sum.splits)
  have empty: "l_actions empty_ledger = []" "l_txs empty_ledger = []" "pc_action_id sample_call = ''id''"
    by (simp_all add: empty_ledger_def sample_call_def)
  from prepared_kick_action_explained [OF prepared refl, of "''kick''" 0]
  show ?thesis using prepared(1) unfolding empty append_Nil by fastforce
qed

text \<open>
  C12. A settle action answers noop and changes nothing, or stores one action with at least
  one transaction: each is the resolve call of an operation the settlement decision chose,
  its gas limit within the cap, and the stored operations name exactly that lot for its
  index, also when a lot was left out for a manual sweep.
\<close>

theorem prepared_settlement_explained:
  assumes "prepare_settle_action node settings call auction_address sender token_address force db = Inr (db', response)"
  shows "pr_status response = ''noop'' \<and> db' = db \<or> pr_status response = ''ok'' \<and>
    (\<exists>auction token inspection decision action intents rows items.
       normalize_address (an_isaddr node) auction_address = Inr auction \<and> an_inspect node auction token = Inr inspection
       \<and> decide_auction_settlement (an_isaddr node) (an_checksum node) inspection token force = Inr decision
       \<and> l_actions db' = l_actions db @ [action] \<and> a_action_id action = pc_action_id call \<and> a_status action = ''PREPARED''
       \<and> l_txs db' = l_txs db @ rows \<and> stored_as (pc_action_id call) intents rows \<and> rows \<noteq> []
       \<and> prepared_items db' action ''resolve_auction'' tx_index = Some items
       \<and> (\<forall>i < length intents. \<exists>op \<in> set (sd_operations decision). settles_with node settings auction op (intents ! i)
            \<and> map operation_target (matching_items ''resolve_auction'' (int i) items) = [(JStr auction, JStr (so_token_address op))]))"
  by (rule settle_action_consistent [OF assms])

definition sample_action_node :: action_node where
  "sample_action_node = \<lparr>an_isaddr = (\<lambda>_. True), an_checksum = id, an_estimate = (\<lambda>_ _ _. Inr 100000),
     an_inspect = (\<lambda>_ _. Inr (clear_settlement\<lparr>si_lot_previews := [\<lparr>lp_token_address = ''0xt'', lp_path = Some PATH_SETTLE_ONLY,
       lp_active = Some True, lp_kicked_at = Some 5, lp_balance_raw = Some 0, lp_requires_force = Some False, lp_receiver = Some ''0xs'',
       lp_read_ok = True, lp_error_message = None\<rparr>]\<rparr>)),
     an_kicker_address = ''0xk'', an_encode_resolve = (\<lambda>_ _ _. ''0x03''), an_encode_sweep = (\<lambda>_ _. ''0x04''), an_token_symbol = (\<lambda>_. None)\<rparr>"

lemma sample_settle_action:
  "case prepare_settle_action sample_action_node sample_settings sample_call ''0xa'' None None False empty_ledger of
     Inl _ \<Rightarrow> False | Inr (_, response) \<Rightarrow> pr_status response = ''ok''"
  by code_simp

theorem prepared_settlement_explained_witness:
  "\<exists>db response rows. prepare_settle_action sample_action_node sample_settings sample_call ''0xa'' None None False empty_ledger = Inr (db, response)
     \<and> l_txs db = rows \<and> rows \<noteq> []"
proof -
  obtain db response where prepared: "prepare_settle_action sample_action_node sample_settings sample_call ''0xa'' None None False empty_ledger
      = Inr (db, response)" "pr_status response = ''ok''" using sample_settle_action by (auto split: sum.splits)
  from prepared_settlement_explained [OF prepared(1)] prepared(2) have "l_txs db \<noteq> []" by auto
  with prepared(1) show ?thesis by blast
qed

end
