(* ===== verification/TokenEnable.thy ===== *)
theory TokenEnable
  imports KickPlan Rpc Json
begin

text \<open>
  \<open>ops/auction_enable.py\<close>: the tokens an auction could sell but has not enabled. The source behind an
  auction is resolved, candidate tokens are collected from the chain, the database and the operator, and
  each is probed. The calls to the node, the encoders and the byte decoding are fields of \<open>enable_node\<close>.
\<close>

section \<open>Data\<close>

record enable_inspection =
  ei_auction_address :: address
  ei_governance :: address
  ei_want :: address
  ei_receiver :: address
  ei_version :: "string option"
  ei_in_configured_factory :: bool
  ei_governance_matches_required :: bool
  ei_enabled_tokens :: "address list"

record source_resolution =
  sr_source_type :: string
  sr_source_address :: address
  sr_source_name :: "string option"
  sr_warnings :: "string list"

text \<open>The origins of a token are a set; its members are listed.\<close>

record token_discovery =
  td_tokens_by_address :: "(address \<times> string list) list"
  td_notes :: "string list"

record token_probe =
  tp_token_address :: address
  tp_origins :: "string list"
  tp_symbol :: "string option"
  tp_decimals :: "int option"
  tp_raw_balance :: "int option"
  tp_normalized_balance :: "string option"
  tp_status :: string
  tp_reason :: string
  tp_detail :: "string option"

record enable_plan =
  ep_to_address :: address
  ep_data :: string
  ep_call_succeeded :: bool
  ep_gas_estimate :: "int option"
  ep_error_message :: "string option"
  ep_sender_authorized :: "bool option"
  ep_authorization_target :: "address option"

record fee_burner =
  fb_address :: string
  fb_want_address :: string
  fb_label :: "string option"

text \<open>A token symbol as the contract returns it.\<close>

datatype symbol_value = Symbol_Bytes string | Symbol_Text string | Symbol_Missing

record enable_settings =
  es_fee_burners :: "fee_burner list"
  es_kicker_address :: "string option"
  es_multicall_enabled :: bool
  es_multicall_address :: "string option"
  es_batch_calls :: int
  es_rewards_index_max :: nat

record enable_node =
  en_isaddr :: "string \<Rightarrow> bool"
  en_checksum :: "string \<Rightarrow> string"
  en_version :: "address \<Rightarrow> string result"
  en_auction_governance :: "address \<Rightarrow> string result"
  en_auction_want :: "address \<Rightarrow> string result"
  en_auction_receiver :: "address \<Rightarrow> string result"
  en_enabled_auctions :: "address \<Rightarrow> string list result"
  en_all_auctions :: "address \<Rightarrow> string list result"
  en_strategy_want :: "address \<Rightarrow> string result"
  en_strategy_name :: "address \<Rightarrow> string option result"
  en_rewards_token :: "address \<Rightarrow> nat \<Rightarrow> string result"
  en_is_spender :: "address \<Rightarrow> string \<Rightarrow> bool result"
  en_approvals :: "address \<Rightarrow> string \<Rightarrow> string list result"
  en_symbol :: "address \<Rightarrow> symbol_value result"
  en_decode_bytes :: "string \<Rightarrow> string"
  en_decimals :: "address \<Rightarrow> int result"
  en_balance :: "address \<Rightarrow> address \<Rightarrow> int result"
  en_enable_call :: "address \<Rightarrow> address \<Rightarrow> address \<Rightarrow> unit result"
  en_token_scaler :: "address \<Rightarrow> address \<Rightarrow> int result"
  en_aggregate_tokens :: "address \<Rightarrow> address \<Rightarrow> address list \<Rightarrow> (bool \<times> string) list result"
  en_decode_scaler :: "string \<Rightarrow> int result"
  en_owner :: "address \<Rightarrow> string result"
  en_keeper :: "address \<Rightarrow> string \<Rightarrow> bool result"
  en_encode_enable :: "string \<Rightarrow> string \<Rightarrow> string list \<Rightarrow> string"
  en_enable_tokens_call :: "string \<Rightarrow> string \<Rightarrow> string \<Rightarrow> string list \<Rightarrow> unit result"
  en_enable_tokens_gas :: "string \<Rightarrow> string \<Rightarrow> string \<Rightarrow> string list \<Rightarrow> int result"

text \<open>The address tables of the database; \<open>None\<close> when there is no file.\<close>

record token_tables =
  tt_strategy_tokens :: "(string \<times> string) list"
  tt_strategy_balances :: "(string \<times> string) list"
  tt_fee_burner_tokens :: "(string \<times> string) list"
  tt_fee_burner_balances :: "(string \<times> string) list"

definition REQUIRED_GOVERNANCE_ADDRESS :: address where
  "REQUIRED_GOVERNANCE_ADDRESS = ''0xb634316e06cc0b358437cbadd4dc94f1d3a92b3b''"

definition CORE_REWARD_TOKENS :: "address list" where
  "CORE_REWARD_TOKENS = [''0xd533a949740bb3306d119cc777fa900ba034cd52'', ''0x4e3fbd56cd56c3e72c1403e103b45db9da5b9d2b'']"

definition ZERO_ADDRESS :: address where
  "ZERO_ADDRESS = ''0x0000000000000000000000000000000000000000''"

section \<open>Text\<close>

definition format_probe_reason :: "string \<Rightarrow> string" where
  "format_probe_reason reason = str_replace_char (CHR ''_'') '' '' reason"

definition display_label :: "enable_node \<Rightarrow> token_probe \<Rightarrow> string" where
  "display_label node probe =
     (case tp_symbol probe of None \<Rightarrow> ''UNKNOWN'' | Some s \<Rightarrow> if s = [] then ''UNKNOWN'' else s)
     @ '' ('' @ en_checksum node (tp_token_address probe) @ '')''"

text \<open>\<open>s.split(",")\<close>\<close>

fun split_commas :: "string \<Rightarrow> string list" where
  "split_commas [] = [[]]"
| "split_commas (c # cs) =
     (if c = CHR '','' then [] # split_commas cs
      else case split_commas cs of [] \<Rightarrow> [[c]] | chunk # chunks \<Rightarrow> (c # chunk) # chunks)"

definition parse_manual_token_input :: "(string \<Rightarrow> bool) \<Rightarrow> string \<Rightarrow> address list result" where
  "parse_manual_token_input isaddr raw =
     traverse_err (normalize_address isaddr)
       (filter (\<lambda>value. value \<noteq> []) (map str_strip (split_commas (str_replace_char (char_of (10 :: nat)) '','' raw))))"

definition nonempty :: "string \<Rightarrow> string option" where
  "nonempty s = (if s = [] then None else Some s)"

section \<open>The source behind an auction\<close>

fun burner_source ::
  "enable_node \<Rightarrow> address \<Rightarrow> address \<Rightarrow> fee_burner list \<Rightarrow> source_resolution option result" where
  "burner_source node receiver auction_want [] = Inr None"
| "burner_source node receiver auction_want (burner # burners) =
     err_bind (normalize_address (en_isaddr node) (fb_address burner)) (\<lambda>burner_address.
     if burner_address \<noteq> receiver then burner_source node receiver auction_want burners
     else err_bind (normalize_address (en_isaddr node) (fb_want_address burner)) (\<lambda>expected_want.
       Inr (Some \<lparr>sr_source_type = ''fee_burner'', sr_source_address = receiver,
         sr_source_name = Some (case fb_label burner of None \<Rightarrow> ''Fee Burner'' | Some l \<Rightarrow> if l = [] then ''Fee Burner'' else l),
         sr_warnings = (if expected_want = auction_want then [] else
           [''configured fee burner want is '' @ en_checksum node expected_want @ '', but auction want is ''
            @ en_checksum node auction_want])\<rparr>)))"

definition resolve_source_type ::
  "enable_node \<Rightarrow> string \<Rightarrow> string \<Rightarrow> fee_burner list \<Rightarrow> string option \<Rightarrow> string option \<Rightarrow> source_resolution result" where
  "resolve_source_type node receiver auction_want burners strategy_want strategy_name =
     err_bind (normalize_address (en_isaddr node) receiver) (\<lambda>receiver.
     err_bind (normalize_address (en_isaddr node) auction_want) (\<lambda>auction_want.
     err_bind (burner_source node receiver auction_want burners) (\<lambda>burner.
     case burner of Some resolution \<Rightarrow> Inr resolution
     | None \<Rightarrow>
         err_bind (case strategy_want of None \<Rightarrow> Inr False | Some w \<Rightarrow> if w = [] then Inr False
             else err_bind (normalize_address (en_isaddr node) w) (\<lambda>w. Inr (w = auction_want))) (\<lambda>is_strategy.
         if is_strategy
         then Inr \<lparr>sr_source_type = ''strategy'', sr_source_address = receiver, sr_source_name = strategy_name, sr_warnings = []\<rparr>
         else Inl (RuntimeError
           ''receiver is neither a configured fee burner nor a strategy whose want matches the auction'')))))"

section \<open>Inspection\<close>

text \<open>Any exception becomes a \<open>RuntimeError\<close> with its text.\<close>

definition runtime_failure :: "string \<Rightarrow> 'a result \<Rightarrow> 'a result" where
  "runtime_failure prefix outcome = (case outcome of Inl e \<Rightarrow> Inl (RuntimeError (prefix @ exn_str e)) | Inr v \<Rightarrow> Inr v)"

definition call_address :: "enable_node \<Rightarrow> string result \<Rightarrow> address result" where
  "call_address node answer = err_bind answer (normalize_address (en_isaddr node))"

definition factory_holds :: "enable_node \<Rightarrow> address \<Rightarrow> auction_spec \<Rightarrow> bool" where
  "factory_holds node auction_address spec =
     (case err_bind (en_all_auctions node (spec_factory_address spec)) (traverse_err (normalize_address (en_isaddr node))) of
        Inl _ \<Rightarrow> False | Inr auctions \<Rightarrow> auction_address \<in> set auctions)"

definition inspect_auction :: "enable_node \<Rightarrow> string \<Rightarrow> enable_inspection result" where
  "inspect_auction node auction_address =
     err_bind (normalize_address (en_isaddr node) auction_address) (\<lambda>auction_address.
     err_bind (runtime_failure (''unsupported or unreadable auction version for '' @ auction_address @ '': '')
       (err_bind (en_version node auction_address) (\<lambda>text.
        let version = nonempty (str_strip text) in
        err_bind (approved_auction_spec_for_version version) (\<lambda>_. Inr version)))) (\<lambda>version.
     err_bind (runtime_failure (''failed to load auction metadata for '' @ auction_address @ '': '')
       (err_bind (call_address node (en_auction_governance node auction_address)) (\<lambda>governance.
        err_bind (call_address node (en_auction_want node auction_address)) (\<lambda>want.
        err_bind (call_address node (en_auction_receiver node auction_address)) (\<lambda>receiver.
        Inr (governance, want, receiver)))))) (\<lambda>(governance, want, receiver).
     if want = ZERO_ADDRESS then Inl (RuntimeError ''auction want is zero address'')
     else if receiver = ZERO_ADDRESS then Inl (RuntimeError ''auction receiver is zero address'')
     else
       let enabled_tokens = (case err_bind (en_enabled_auctions node auction_address) (traverse_err (normalize_address (en_isaddr node))) of
             Inl _ \<Rightarrow> [] | Inr tokens \<Rightarrow> tokens)
       in Inr \<lparr>ei_auction_address = auction_address, ei_governance = governance, ei_want = want, ei_receiver = receiver,
            ei_version = version, ei_in_configured_factory = list_ex (factory_holds node auction_address) APPROVED_AUCTION_SPECS,
            ei_governance_matches_required = (governance = REQUIRED_GOVERNANCE_ADDRESS), ei_enabled_tokens = enabled_tokens\<rparr>)))"

definition read_strategy_want :: "enable_node \<Rightarrow> address \<Rightarrow> address option" where
  "read_strategy_want node strategy = (case call_address node (en_strategy_want node strategy) of Inl _ \<Rightarrow> None | Inr w \<Rightarrow> Some w)"

definition read_strategy_name :: "enable_node \<Rightarrow> address \<Rightarrow> string option" where
  "read_strategy_name node strategy =
     (case en_strategy_name node strategy of Inl _ \<Rightarrow> None | Inr None \<Rightarrow> None | Inr (Some name) \<Rightarrow> nonempty (str_strip name))"

definition resolve_source :: "enable_node \<Rightarrow> enable_settings \<Rightarrow> enable_inspection \<Rightarrow> source_resolution result" where
  "resolve_source node settings inspection =
     resolve_source_type node (ei_receiver inspection) (ei_want inspection) (es_fee_burners settings)
       (read_strategy_want node (ei_receiver inspection)) (read_strategy_name node (ei_receiver inspection))"

section \<open>Discovery\<close>

definition add_token :: "enable_node \<Rightarrow> string \<Rightarrow> string \<Rightarrow> (address \<times> string list) list \<Rightarrow> (address \<times> string list) list result" where
  "add_token node origin token_address tokens =
     err_bind (normalize_address (en_isaddr node) token_address) (\<lambda>token. Inr (dict_append token origin tokens))"

text \<open>The approvals are added up to the first that is no address.\<close>

fun add_approvals ::
  "enable_node \<Rightarrow> string list \<Rightarrow> (address \<times> string list) list \<Rightarrow> (address \<times> string list) list \<times> exn option" where
  "add_approvals node [] tokens = (tokens, None)"
| "add_approvals node (approval # approvals) tokens =
     (case add_token node ''trade_handler_approval'' approval tokens of
        Inl e \<Rightarrow> (tokens, Some e)
      | Inr tokens \<Rightarrow> add_approvals node approvals tokens)"

definition burner_tokens :: "enable_node \<Rightarrow> enable_inspection \<Rightarrow> address \<Rightarrow> token_discovery" where
  "burner_tokens node inspection burner =
     (let spender = en_checksum node (ei_governance inspection);
          (allowed, notes) = (case en_is_spender node burner spender of
              Inl e \<Rightarrow> (False, [''failed to verify token spender permissions: '' @ exn_str e])
            | Inr b \<Rightarrow> (b, []))
      in if \<not> allowed
         then \<lparr>td_tokens_by_address = [], td_notes = notes @
           [short_address (ei_governance inspection) @ '' is not an allowed fee burner token spender'']\<rparr>
         else case en_approvals node burner spender of
             Inl e \<Rightarrow> \<lparr>td_tokens_by_address = [], td_notes = notes @ [''failed to read fee burner approvals: '' @ exn_str e]\<rparr>
           | Inr approvals \<Rightarrow> (case add_approvals node approvals [] of
               (tokens, None) \<Rightarrow> \<lparr>td_tokens_by_address = tokens, td_notes = notes\<rparr>
             | (tokens, Some e) \<Rightarrow> \<lparr>td_tokens_by_address = tokens,
                 td_notes = notes @ [''failed to read fee burner approvals: '' @ exn_str e]\<rparr>))"

text \<open>\<open>n\<close> more indexes, from \<open>index\<close>; the first that fails or is zero ends the list.\<close>

fun rewards_loop :: "enable_node \<Rightarrow> address \<Rightarrow> nat \<Rightarrow> nat \<Rightarrow> address list \<Rightarrow> address list" where
  "rewards_loop node strategy index 0 output = output"
| "rewards_loop node strategy index (Suc n) output =
     (case call_address node (en_rewards_token node strategy index) of
        Inl _ \<Rightarrow> output
      | Inr token \<Rightarrow>
          if token = ZERO_ADDRESS then output
          else rewards_loop node strategy (index + 1) n (if token \<in> set output then output else output @ [token]))"

definition read_strategy_rewards_tokens :: "enable_node \<Rightarrow> enable_settings \<Rightarrow> address \<Rightarrow> address list" where
  "read_strategy_rewards_tokens node settings strategy = rewards_loop node strategy 0 (es_rewards_index_max settings) []"

definition load_historical_tokens :: "enable_node \<Rightarrow> token_tables option \<Rightarrow> string \<Rightarrow> address \<Rightarrow> address list" where
  "load_historical_tokens node tables source_type source_address =
     (case tables of None \<Rightarrow> []
      | Some t \<Rightarrow>
          let rows = (if source_type = ''strategy'' then tt_strategy_tokens t @ tt_strategy_balances t
                else tt_fee_burner_tokens t @ tt_fee_burner_balances t)
          in case traverse_err (normalize_address (en_isaddr node)) (map snd (filter (\<lambda>row. fst row = source_address) rows)) of
               Inl _ \<Rightarrow> [] | Inr tokens \<Rightarrow> sorted_set tokens)"

definition discover_tokens ::
  "enable_node \<Rightarrow> enable_settings \<Rightarrow> token_tables option \<Rightarrow> enable_inspection \<Rightarrow> source_resolution \<Rightarrow> string list
     \<Rightarrow> token_discovery result" where
  "discover_tokens node settings tables inspection source manual_tokens =
     (let source_address = sr_source_address source in
      err_bind (if sr_source_type source = ''fee_burner'' then Inr (burner_tokens node inspection source_address)
        else err_bind (fold_err (add_token node ''core_reward_token'') CORE_REWARD_TOKENS []) (\<lambda>tokens.
          err_bind (fold_err (add_token node ''strategy_rewards'') (read_strategy_rewards_tokens node settings source_address) tokens)
            (\<lambda>tokens. Inr \<lparr>td_tokens_by_address = tokens, td_notes = []\<rparr>))) (\<lambda>found.
      err_bind (fold_err (add_token node ''local_db'') (load_historical_tokens node tables (sr_source_type source) source_address)
        (td_tokens_by_address found)) (\<lambda>tokens.
      err_bind (fold_err (add_token node ''manual'') manual_tokens tokens) (\<lambda>tokens.
      Inr (found\<lparr>td_tokens_by_address := tokens\<rparr>)))))"

section \<open>Which tokens are enabled\<close>

definition read_token_enabled_direct :: "enable_node \<Rightarrow> address \<Rightarrow> address \<Rightarrow> bool option" where
  "read_token_enabled_direct node auction token =
     (case en_token_scaler node auction token of Inl _ \<Rightarrow> None | Inr scaler \<Rightarrow> Some (scaler \<noteq> 0))"

definition decode_token_enabled :: "enable_node \<Rightarrow> string \<Rightarrow> bool result" where
  "decode_token_enabled node return_data = err_bind (en_decode_scaler node return_data) (\<lambda>scaler. Inr (scaler \<noteq> 0))"

text \<open>One Multicall3 batch; \<open>zip\<close> is strict.\<close>

definition read_enabled_chunk ::
  "enable_node \<Rightarrow> address \<Rightarrow> address \<Rightarrow> address list \<Rightarrow> (address \<times> bool option) list \<Rightarrow> (address \<times> bool option) list result" where
  "read_enabled_chunk node multicall auction chunk output =
     err_bind (en_aggregate_tokens node multicall auction chunk) (\<lambda>raw_results.
     if length raw_results \<noteq> length chunk then Inl (ValueError ''zip() argument 2 has another length'')
     else fold_err (\<lambda>(token, success, return_data) output.
       if \<not> success then Inr (dict_set token None output)
       else err_bind (decode_token_enabled node return_data) (\<lambda>b. Inr (dict_set token (Some b) output)))
       (zip chunk raw_results) output)"

definition read_enabled_all_direct :: "enable_node \<Rightarrow> address \<Rightarrow> address list \<Rightarrow> (address \<times> bool option) list" where
  "read_enabled_all_direct node auction tokens = map (\<lambda>token. (token, read_token_enabled_direct node auction token)) tokens"

definition read_enabled_multicall ::
  "enable_node \<Rightarrow> enable_settings \<Rightarrow> address \<Rightarrow> address \<Rightarrow> address list \<Rightarrow> (address \<times> bool option) list" where
  "read_enabled_multicall node settings multicall auction tokens =
     (let batch = (if es_batch_calls settings = 0 then 100 else es_batch_calls settings) in
      case fold_err (read_enabled_chunk node multicall auction) (chunk_calls tokens (nat (max batch 1))) [] of
        Inl _ \<Rightarrow> read_enabled_all_direct node auction tokens
      | Inr output \<Rightarrow> fold (\<lambda>token output.
          if Option.bind (map_of output token) id = None then dict_set token (read_token_enabled_direct node auction token) output
          else output) tokens output)"

definition read_token_enabled_many ::
  "enable_node \<Rightarrow> enable_settings \<Rightarrow> string \<Rightarrow> string list \<Rightarrow> (address \<times> bool option) list result" where
  "read_token_enabled_many node settings auction_address token_addresses =
     err_bind (normalize_address (en_isaddr node) auction_address) (\<lambda>auction.
     err_bind (traverse_err (normalize_address (en_isaddr node)) token_addresses) (\<lambda>tokens.
     let tokens = sorted_set tokens in
     if tokens = [] then Inr []
     else if \<not> es_multicall_enabled settings then Inr (read_enabled_all_direct node auction tokens)
     else
       let raw_multicall = str_strip (case es_multicall_address settings of None \<Rightarrow> [] | Some a \<Rightarrow> a) in
       if raw_multicall = [] then Inr (read_enabled_all_direct node auction tokens)
       else case normalize_address (en_isaddr node) raw_multicall of
           Inl _ \<Rightarrow> Inr (read_enabled_all_direct node auction tokens)
         | Inr multicall \<Rightarrow> Inr (read_enabled_multicall node settings multicall auction tokens)))"

section \<open>Probes\<close>

definition read_token_symbol :: "enable_node \<Rightarrow> address \<Rightarrow> string option" where
  "read_token_symbol node token =
     (case en_symbol node token of
        Inl _ \<Rightarrow> None
      | Inr (Symbol_Bytes raw) \<Rightarrow> nonempty (en_decode_bytes node (str_rstrip_char (char_of (0 :: nat)) raw))
      | Inr (Symbol_Text text) \<Rightarrow> nonempty (str_strip text)
      | Inr Symbol_Missing \<Rightarrow> None)"

definition probe_of ::
  "address \<Rightarrow> string list \<Rightarrow> string option \<Rightarrow> int option \<Rightarrow> int option \<Rightarrow> string option \<Rightarrow> string \<Rightarrow> string option \<Rightarrow> token_probe" where
  "probe_of token origins symbol decimals raw_balance normalized_balance reason detail =
     \<lparr>tp_token_address = token, tp_origins = origins, tp_symbol = symbol, tp_decimals = decimals, tp_raw_balance = raw_balance,
      tp_normalized_balance = normalized_balance, tp_status = (if reason = ''eligible'' then ''eligible'' else ''skip''),
      tp_reason = reason, tp_detail = detail\<rparr>"

text \<open>A token that is neither the want token nor enabled.\<close>

definition probe_balance ::
  "enable_node \<Rightarrow> enable_inspection \<Rightarrow> address \<Rightarrow> address \<Rightarrow> string list \<Rightarrow> string option \<Rightarrow> token_probe result" where
  "probe_balance node inspection holder token origins symbol =
     (case en_decimals node token of
        Inl e \<Rightarrow> Inr (probe_of token origins symbol None None None ''decimals_call_failed'' (Some (exn_str e)))
      | Inr decimals \<Rightarrow>
          if 18 < decimals then Inr (probe_of token origins symbol (Some decimals) None None ''unsupported_decimals'' None)
          else case en_balance node token holder of
            Inl e \<Rightarrow> Inr (probe_of token origins symbol (Some decimals) None None ''balance_call_failed'' (Some (exn_str e)))
          | Inr raw_balance \<Rightarrow>
              err_bind (to_decimal_string raw_balance decimals) (\<lambda>normalized_balance.
              if raw_balance = 0
              then Inr (probe_of token origins symbol (Some decimals) (Some 0) (Some normalized_balance) ''zero_balance'' None)
              else case en_enable_call node (ei_auction_address inspection) token (ei_governance inspection) of
                Inl e \<Rightarrow> Inr (probe_of token origins symbol (Some decimals) (Some raw_balance) (Some normalized_balance)
                  ''enable_call_failed'' (Some (exn_str e)))
              | Inr _ \<Rightarrow> Inr (probe_of token origins symbol (Some decimals) (Some raw_balance) (Some normalized_balance)
                  ''eligible'' None)))"

definition probe_token ::
  "enable_node \<Rightarrow> enable_inspection \<Rightarrow> address \<Rightarrow> token_discovery \<Rightarrow> (address \<times> bool option) list \<Rightarrow> address \<Rightarrow> token_probe result" where
  "probe_token node inspection holder discovery enabled_by_state token =
     (let origins = sorted_set (case map_of (td_tokens_by_address discovery) token of None \<Rightarrow> [] | Some os \<Rightarrow> os);
          symbol = read_token_symbol node token
      in if token = ei_want inspection then Inr (probe_of token origins symbol None None None ''token_is_want'' None)
         else if token \<in> set (ei_enabled_tokens inspection) then Inr (probe_of token origins symbol None None None ''already_enabled'' None)
         else if map_of enabled_by_state token = Some (Some True)
         then Inr (probe_of token origins symbol None None None ''already_enabled'' None)
         else probe_balance node inspection holder token origins symbol)"

definition probe_tokens ::
  "enable_node \<Rightarrow> enable_settings \<Rightarrow> enable_inspection \<Rightarrow> source_resolution \<Rightarrow> token_discovery \<Rightarrow> token_probe list result" where
  "probe_tokens node settings inspection source discovery =
     (let discovered = sorted_set (map fst (td_tokens_by_address discovery)) in
      err_bind (read_token_enabled_many node settings (ei_auction_address inspection)
        (filter (\<lambda>token. token \<noteq> ei_want inspection \<and> token \<notin> set (ei_enabled_tokens inspection)) discovered)) (\<lambda>enabled_by_state.
      traverse_err (probe_token node inspection (sr_source_address source) discovery enabled_by_state) discovered))"

section \<open>The transaction that enables\<close>

definition require_auction_kicker_address :: "enable_node \<Rightarrow> enable_settings \<Rightarrow> address result" where
  "require_auction_kicker_address node settings =
     (let raw = str_strip (case es_kicker_address settings of None \<Rightarrow> [] | Some a \<Rightarrow> a) in
      if raw = [] then Inl (RuntimeError ''auction_kicker_address is not configured'')
      else err_bind (normalize_address (en_isaddr node) raw) (\<lambda>kicker.
        if kicker = ZERO_ADDRESS then Inl (RuntimeError ''auction_kicker_address is not configured'') else Inr kicker))"

definition is_authorized_kicker :: "enable_node \<Rightarrow> address \<Rightarrow> string \<Rightarrow> bool result" where
  "is_authorized_kicker node kicker caller =
     err_bind (normalize_address (en_isaddr node) caller) (\<lambda>caller.
     err_bind (call_address node (en_owner node kicker)) (\<lambda>owner.
     err_bind (normalize_address (en_isaddr node) owner) (\<lambda>owner.
     if owner = caller then Inr True else en_keeper node kicker (en_checksum node caller))))"

text \<open>The checksummed arguments of \<open>enableTokens\<close>.\<close>

definition enable_tokens_arguments :: "enable_node \<Rightarrow> enable_inspection \<Rightarrow> string list \<Rightarrow> (string \<times> string list) result" where
  "enable_tokens_arguments node inspection tokens =
     err_bind (traverse_err (normalize_address (en_isaddr node)) tokens) (\<lambda>tokens.
     if tokens = [] then Inl (RuntimeError ''no eligible tokens to enable'')
     else Inr (en_checksum node (ei_auction_address inspection), map (en_checksum node) tokens))"

definition build_execution_plan ::
  "enable_node \<Rightarrow> enable_settings \<Rightarrow> enable_inspection \<Rightarrow> string option \<Rightarrow> string list \<Rightarrow> enable_plan result" where
  "build_execution_plan node settings inspection caller tokens =
     (if \<not> ei_governance_matches_required inspection
      then Inl (RuntimeError (''auction governance does not match the configured Yearn trade handler; ''
        @ ''enable-tokens only supports standard Yearn auctions via AuctionKicker''))
      else
        err_bind (require_auction_kicker_address node settings) (\<lambda>kicker.
        err_bind (enable_tokens_arguments node inspection tokens) (\<lambda>(auction, arguments).
        let tx_data = en_encode_enable node kicker auction arguments in
        case (case caller of None \<Rightarrow> None | Some c \<Rightarrow> nonempty c) of
          None \<Rightarrow> Inr \<lparr>ep_to_address = kicker, ep_data = tx_data, ep_call_succeeded = False, ep_gas_estimate = None,
            ep_error_message = Some ''no caller address provided for enableTokens() preview'', ep_sender_authorized = None,
            ep_authorization_target = Some kicker\<rparr>
        | Some caller \<Rightarrow>
            err_bind (normalize_address (en_isaddr node) caller) (\<lambda>caller.
            err_bind (is_authorized_kicker node kicker caller) (\<lambda>authorized.
            let previewed = en_enable_tokens_call node kicker (en_checksum node caller) auction arguments;
                estimated = en_enable_tokens_gas node kicker (en_checksum node caller) auction arguments;
                call_error = (case previewed of Inl e \<Rightarrow> Some (exn_str e) | Inr _ \<Rightarrow> None)
            in Inr \<lparr>ep_to_address = kicker, ep_data = tx_data, ep_call_succeeded = (call_error = None),
                 ep_gas_estimate = (case estimated of Inl _ \<Rightarrow> None | Inr gas \<Rightarrow> Some gas),
                 ep_error_message = (case estimated of Inr _ \<Rightarrow> call_error
                   | Inl e \<Rightarrow> (case call_error of None \<Rightarrow> Some (exn_str e) | Some m \<Rightarrow> Some m)),
                 ep_sender_authorized = Some authorized, ep_authorization_target = Some kicker\<rparr>)))))"

text \<open>Sending it: the answers of the node at that moment, and the signer.\<close>

record send_node =
  sn_signer_address :: address
  sn_base_fee :: "int option result"
  sn_priority_fee :: "int result"
  sn_gas_price :: "int result"
  sn_chain_id :: "int result"
  sn_nonce :: "string \<Rightarrow> int result"

record enable_transaction =
  et_to :: address
  et_data :: string
  et_from :: string
  et_chain_id :: int
  et_nonce :: int
  et_max_fee :: int
  et_priority_fee :: int
  et_gas :: "int option"

definition enable_fees :: "send_node \<Rightarrow> (int \<times> int) result" where
  "enable_fees chain =
     err_bind (sn_base_fee chain) (\<lambda>base.
     let base_fee = (case base of None \<Rightarrow> 0 | Some b \<Rightarrow> b);
         priority_fee = (case sn_priority_fee chain of Inl _ \<Rightarrow> 10 ^ 9 | Inr p \<Rightarrow> p) in
     if 0 < base_fee then Inr (base_fee * 2 + priority_fee, priority_fee)
     else err_bind (sn_gas_price chain) (\<lambda>max_fee. Inr (max_fee, 0)))"

definition send_enable_transaction ::
  "enable_node \<Rightarrow> enable_settings \<Rightarrow> send_node \<Rightarrow> (enable_transaction \<Rightarrow> int result) \<Rightarrow> (enable_transaction \<Rightarrow> string result)
     \<Rightarrow> enable_inspection \<Rightarrow> string list \<Rightarrow> (string \<times> int) result" where
  "send_enable_transaction node settings chain estimate sign_and_send inspection tokens =
     err_bind (require_auction_kicker_address node settings) (\<lambda>kicker.
     if \<not> ei_governance_matches_required inspection
     then Inl (RuntimeError (''auction governance does not match the configured Yearn trade handler; ''
       @ ''enable-tokens only supports standard Yearn auctions via AuctionKicker''))
     else
       err_bind (is_authorized_kicker node kicker (sn_signer_address chain)) (\<lambda>authorized.
       if \<not> authorized
       then Inl (RuntimeError (en_checksum node (sn_signer_address chain) @ '' is not an authorized keeper on '' @ en_checksum node kicker))
       else
         err_bind (enable_tokens_arguments node inspection tokens) (\<lambda>(auction, arguments).
         err_bind (enable_fees chain) (\<lambda>(max_fee, priority_fee).
         err_bind (sn_chain_id chain) (\<lambda>chain_id.
         err_bind (sn_nonce chain (en_checksum node (sn_signer_address chain))) (\<lambda>nonce.
         let tx = \<lparr>et_to = kicker, et_data = en_encode_enable node kicker auction arguments,
               et_from = en_checksum node (sn_signer_address chain), et_chain_id = chain_id, et_nonce = nonce, et_max_fee = max_fee,
               et_priority_fee = priority_fee, et_gas = None\<rparr> in
         err_bind (estimate tx) (\<lambda>gas_estimate.
         err_bind (sign_and_send (tx\<lparr>et_gas := Some (gas_with_buffer gas_estimate)\<rparr>)) (\<lambda>tx_hash.
         Inr (if str_starts ''0x'' tx_hash then tx_hash else ''0x'' @ tx_hash, gas_estimate)))))))))"

section \<open>What a probe says\<close>

lemma probe_of_simps [simp]:
  "tp_token_address (probe_of token origins symbol decimals raw balance reason detail) = token"
  "tp_status (probe_of token origins symbol decimals raw balance reason detail) = (if reason = ''eligible'' then ''eligible'' else ''skip'')"
  "tp_raw_balance (probe_of token origins symbol decimals raw balance reason detail) = raw"
  "tp_decimals (probe_of token origins symbol decimals raw balance reason detail) = decimals"
  by (simp_all add: probe_of_def)

lemma probe_balance_address: "probe_balance node inspection holder token origins symbol = Inr probe \<Longrightarrow> tp_token_address probe = token"
  by (cases "en_enable_call node (ei_auction_address inspection) token (ei_governance inspection)")
    (auto simp: probe_balance_def err_simps split: sum.splits if_splits)

lemma probe_balance_eligible:
  assumes "probe_balance node inspection holder token origins symbol = Inr probe" "tp_status probe = ''eligible''"
  shows "\<exists>decimals raw. en_decimals node token = Inr decimals \<and> decimals \<le> 18 \<and> en_balance node token holder = Inr raw \<and> raw \<noteq> 0
    \<and> tp_raw_balance probe = Some raw \<and> en_enable_call node (ei_auction_address inspection) token (ei_governance inspection) = Inr ()"
  using assms by (cases "en_enable_call node (ei_auction_address inspection) token (ei_governance inspection)")
    (auto simp: probe_balance_def err_simps split: sum.splits if_splits)

lemma probe_token_address:
  "probe_token node inspection holder discovery state token = Inr probe \<Longrightarrow> tp_token_address probe = token"
  by (auto simp: probe_token_def Let_def probe_balance_address split: if_splits)

section \<open>What the auction says of its tokens\<close>

text \<open>Multicall3 agrees with single calls: the sub-call of a token that succeeds returns what its own call returns.\<close>

definition aggregate_agrees :: "enable_node \<Rightarrow> bool" where
  "aggregate_agrees node \<longleftrightarrow> (\<forall>multicall auction chunk raw. en_aggregate_tokens node multicall auction chunk = Inr raw \<longrightarrow>
     list_all2 (\<lambda>token (success, data). success \<longrightarrow> en_decode_scaler node data = en_token_scaler node auction token) chunk raw)"

text \<open>What the batches have recorded so far is no reading, or the reading of the token's own call.\<close>

definition readings_direct :: "enable_node \<Rightarrow> address \<Rightarrow> (address \<times> bool option) list \<Rightarrow> bool" where
  "readings_direct node auction output \<longleftrightarrow>
     (\<forall>token b. map_of output token = Some (Some b) \<longrightarrow> read_token_enabled_direct node auction token = Some b)"

lemma read_enabled_chunk_direct:
  assumes agrees: "aggregate_agrees node" and "read_enabled_chunk node multicall auction chunk output = Inr output'"
    and start: "readings_direct node auction output"
  shows "readings_direct node auction output'"
proof -
  obtain raw where raw: "en_aggregate_tokens node multicall auction chunk = Inr raw"
    and run: "fold_err (\<lambda>(token, success, return_data) output.
       if \<not> success then Inr (dict_set token None output)
       else err_bind (decode_token_enabled node return_data) (\<lambda>b. Inr (dict_set token (Some b) output)))
       (zip chunk raw) output = Inr output'"
    using assms(2) by (auto simp: read_enabled_chunk_def err_simps split: if_splits)
  have each: "success \<longrightarrow> en_decode_scaler node data = en_token_scaler node auction token"
    if "(token, success, data) \<in> set (zip chunk raw)" for token success data
    using agrees raw that by (fastforce simp: aggregate_agrees_def list_all2_iff)
  show ?thesis
    by (rule fold_err_invariant [where P = "readings_direct node auction", OF run])
      (use start each in \<open>auto simp: readings_direct_def read_token_enabled_direct_def decode_token_enabled_def err_simps
        split: if_splits\<close>)
qed

definition fill_reading :: "enable_node \<Rightarrow> address \<Rightarrow> address \<Rightarrow> (address \<times> bool option) list \<Rightarrow> (address \<times> bool option) list" where
  "fill_reading node auction token out =
     (if Option.bind (map_of out token) id = None then dict_set token (read_token_enabled_direct node auction token) out else out)"

definition fill_readings :: "enable_node \<Rightarrow> address \<Rightarrow> address list \<Rightarrow> (address \<times> bool option) list \<Rightarrow> (address \<times> bool option) list" where
  "fill_readings node auction = fold (fill_reading node auction)"

lemma fill_reading_step:
  "readings_direct node auction out \<Longrightarrow> readings_direct node auction (fill_reading node auction token out)"
  "map_of out a \<noteq> None \<Longrightarrow> map_of (fill_reading node auction token out) a \<noteq> None"
  "map_of (fill_reading node auction token out) token \<noteq> None"
  by (auto simp: fill_reading_def readings_direct_def Option.bind_eq_Some_conv)

lemma fill_readings_direct: "readings_direct node auction out \<Longrightarrow> readings_direct node auction (fill_readings node auction tokens out)"
  unfolding fill_readings_def by (induction tokens arbitrary: out) (simp_all add: fill_reading_step(1))

lemma fill_readings_present:
  "token \<in> set tokens \<or> map_of out token \<noteq> None \<Longrightarrow> map_of (fill_readings node auction tokens out) token \<noteq> None"
  unfolding fill_readings_def
proof (induction tokens arbitrary: out)
  case (Cons t tokens)
  then have "token \<in> set tokens \<or> map_of (fill_reading node auction t out) token \<noteq> None"
    using fill_reading_step(2,3) by fastforce
  then show ?case unfolding fold_simps by (rule Cons.IH)
qed simp

lemma fill_missing:
  assumes "readings_direct node auction out"
  shows "token \<in> set tokens \<Longrightarrow> map_of (fill_readings node auction tokens out) token = Some (read_token_enabled_direct node auction token)"
proof (induction tokens rule: rev_induct)
  case (snoc t tokens)
  have step: "fill_readings node auction (tokens @ [t]) out = fill_reading node auction t (fill_readings node auction tokens out)"
    by (simp add: fill_readings_def)
  have kept: "readings_direct node auction (fill_readings node auction tokens out)" by (rule fill_readings_direct [OF assms])
  show ?case
  proof (cases "token = t")
    case True
    then show ?thesis using kept unfolding step fill_reading_def
      by (cases "map_of (fill_readings node auction tokens out) t"; cases "the (map_of (fill_readings node auction tokens out) t)")
        (auto simp: readings_direct_def)
  qed (use snoc in \<open>simp add: step fill_reading_def\<close>)
qed simp

lemma read_token_enabled_many_present:
  assumes "read_token_enabled_many node settings auction tokens = Inr state" "token \<in> str_lower ` set tokens"
  shows "map_of state token \<noteq> None"
    and "\<not> es_multicall_enabled settings \<or> aggregate_agrees node \<Longrightarrow>
      map_of state token = Some (read_token_enabled_direct node (str_lower auction) token)"
proof -
  let ?direct = "read_token_enabled_direct node (str_lower auction)"
  obtain normalized where norm: "traverse_err (normalize_address (en_isaddr node)) tokens = Inr normalized"
    using assms(1) by (auto simp: read_token_enabled_many_def err_bind_Inr_iff)
  have lower: "normalized = map str_lower tokens"
    using norm by (induction tokens arbitrary: normalized) (auto simp: err_bind_Inr_iff normalize_address_Inr)
  define asked where "asked = sorted_set normalized"
  have asked: "token \<in> set asked" using assms(2) by (simp add: asked_def lower)
  then have "asked \<noteq> []" by auto
  then have some: "sorted_set normalized \<noteq> []" by (simp add: asked_def)
  have all_direct: "map_of (read_enabled_all_direct node (str_lower auction) asked) token = Some (?direct token)"
    using asked by (simp add: read_enabled_all_direct_def map_of_map_restrict)
  consider (direct) "state = read_enabled_all_direct node (str_lower auction) asked"
    | (batched) multicall where "es_multicall_enabled settings" "state = read_enabled_multicall node settings multicall (str_lower auction) asked"
    using assms(1) unfolding read_token_enabled_many_def norm err_bind.simps Let_def if_not_P [OF some]
    by (auto simp: err_bind_Inr_iff normalize_address_Inr asked_def split: if_splits sum.splits)
  note cases = this
  have "map_of state token \<noteq> None \<and> (\<not> es_multicall_enabled settings \<or> aggregate_agrees node \<longrightarrow> map_of state token = Some (?direct token))"
    using cases
  proof cases
    case direct
    then show ?thesis using all_direct by simp
  next
    case batched
    show ?thesis
    proof (cases "fold_err (read_enabled_chunk node multicall (str_lower auction)) (chunk_calls asked (nat (max
        (if es_batch_calls settings = 0 then 100 else es_batch_calls settings) 1))) []")
      case (Inl e)
      then show ?thesis using batched all_direct by (simp add: read_enabled_multicall_def Let_def)
    next
      case (Inr out)
      have state: "state = fill_readings node (str_lower auction) asked out"
        using batched Inr by (simp add: read_enabled_multicall_def Let_def fill_readings_def fill_reading_def [abs_def])
      then have "map_of state token \<noteq> None" using asked fill_readings_present by blast
      moreover have "map_of state token = Some (?direct token)" if agrees: "aggregate_agrees node"
      proof -
        have "readings_direct node (str_lower auction) out"
          by (rule fold_err_invariant [where P = "readings_direct node (str_lower auction)", OF Inr])
            (auto simp: readings_direct_def [of _ _ "[]"] intro: read_enabled_chunk_direct [OF agrees])
        then show ?thesis using fill_missing asked unfolding state by blast
      qed
      ultimately show ?thesis using batched(1) by blast
    qed
  qed
  then show "map_of state token \<noteq> None"
    and "\<not> es_multicall_enabled settings \<or> aggregate_agrees node \<Longrightarrow> map_of state token = Some (?direct token)" by blast+
qed

text \<open>The tokens whose state is asked for, and what was learnt about one that is probed further.\<close>

definition unlisted_tokens :: "enable_inspection \<Rightarrow> token_discovery \<Rightarrow> address list" where
  "unlisted_tokens inspection discovery = filter (\<lambda>token. token \<noteq> ei_want inspection \<and> token \<notin> set (ei_enabled_tokens inspection))
     (sorted_set (map fst (td_tokens_by_address discovery)))"

definition found_disabled :: "enable_node \<Rightarrow> enable_settings \<Rightarrow> enable_inspection \<Rightarrow> token_discovery \<Rightarrow> address \<Rightarrow> bool" where
  "found_disabled node settings inspection discovery token \<longleftrightarrow>
     (\<exists>state reading. read_token_enabled_many node settings (ei_auction_address inspection) (unlisted_tokens inspection discovery) = Inr state
        \<and> map_of state token = Some reading \<and> reading \<noteq> Some True)
     \<and> (\<not> es_multicall_enabled settings \<or> aggregate_agrees node \<longrightarrow>
        read_token_enabled_direct node (ei_auction_address inspection) token \<noteq> Some True)"

definition may_enable :: "enable_node \<Rightarrow> enable_inspection \<Rightarrow> address \<Rightarrow> address \<Rightarrow> bool" where
  "may_enable node inspection holder token \<longleftrightarrow> token \<noteq> ei_want inspection \<and> token \<notin> set (ei_enabled_tokens inspection)
     \<and> (\<exists>decimals raw. en_decimals node token = Inr decimals \<and> decimals \<le> 18 \<and> en_balance node token holder = Inr raw \<and> raw \<noteq> 0)
     \<and> en_enable_call node (ei_auction_address inspection) token (ei_governance inspection) = Inr ()"

lemma probe_token_eligible:
  assumes "probe_token node inspection holder discovery state token = Inr probe" "tp_status probe = ''eligible''"
  shows "may_enable node inspection holder token \<and> map_of state token \<noteq> Some (Some True)"
  using assms probe_balance_eligible unfolding probe_token_def Let_def may_enable_def by (fastforce split: if_splits)

lemma probe_tokens_addresses:
  assumes "probe_tokens node settings inspection source discovery = Inr probes"
  shows "map tp_token_address probes = sorted_set (map fst (td_tokens_by_address discovery))"
proof -
  obtain state where "list_all2 (\<lambda>token probe. probe_token node inspection (sr_source_address source) discovery state token = Inr probe)
      (sorted_set (map fst (td_tokens_by_address discovery))) probes"
    using assms by (auto simp: probe_tokens_def Let_def err_simps)
  then show ?thesis by (induction rule: list_all2_induct) (auto dest: probe_token_address)
qed

text \<open>Discovery normalises every token, and an inspection the auction.\<close>

definition lower_keys :: "(address \<times> 'a) list \<Rightarrow> bool" where
  "lower_keys tokens \<longleftrightarrow> (\<forall>a \<in> fst ` set tokens. str_lower a = a)"

lemma add_token_lower: "add_token node origin t tokens = Inr tokens' \<Longrightarrow> lower_keys tokens \<Longrightarrow> lower_keys tokens'"
  unfolding add_token_def lower_keys_def dict_append_def err_bind_Inr_iff sum.inject
  by (elim exE conjE, hypsubst) (simp only: keys_dict_set ball_simps, blast dest: normalize_address_lower)

lemma add_tokens_lower:
  assumes "fold_err (add_token node origin) ts tokens = Inr tokens'" "lower_keys tokens"
  shows "lower_keys tokens'"
  by (rule fold_err_invariant [where P = lower_keys, OF assms(1)]) (use assms(2) add_token_lower in auto)

lemma add_approvals_lower: "lower_keys tokens \<Longrightarrow> lower_keys (fst (add_approvals node approvals tokens))"
  by (induction approvals arbitrary: tokens) (auto split: sum.splits dest: add_token_lower)

lemma burner_tokens_lower: "lower_keys (td_tokens_by_address (burner_tokens node inspection burner))"
proof -
  have "lower_keys tokens" if "add_approvals node approvals [] = (tokens, e)" for approvals tokens e
    using add_approvals_lower [of "[]" node approvals] that by (simp add: lower_keys_def)
  then show ?thesis
    by (auto simp: burner_tokens_def Let_def split: prod.splits sum.splits option.splits) (simp_all add: lower_keys_def)
qed

lemma discover_tokens_lower:
  assumes "discover_tokens node settings tables inspection source manual_tokens = Inr discovery"
  shows "lower_keys (td_tokens_by_address discovery)"
proof -
  have none: "lower_keys ([] :: (address \<times> string list) list)" by (simp add: lower_keys_def)
  obtain found :: token_discovery and tokens where found: "lower_keys (td_tokens_by_address found)"
    and tokens: "fold_err (add_token node ''local_db'') (load_historical_tokens node tables (sr_source_type source) (sr_source_address source))
      (td_tokens_by_address found) = Inr tokens"
    and manual: "fold_err (add_token node ''manual'') manual_tokens tokens = Inr (td_tokens_by_address discovery)"
  proof (cases "sr_source_type source = ''fee_burner''")
    case True
    then show thesis using assms burner_tokens_lower
      by (auto simp: discover_tokens_def Let_def err_bind_Inr_iff
          intro!: that [of "burner_tokens node inspection (sr_source_address source)"])
  next
    case False
    then obtain core all tokens where "fold_err (add_token node ''core_reward_token'') CORE_REWARD_TOKENS [] = Inr core"
      "fold_err (add_token node ''strategy_rewards'') (read_strategy_rewards_tokens node settings (sr_source_address source)) core = Inr all"
      "fold_err (add_token node ''local_db'') (load_historical_tokens node tables (sr_source_type source) (sr_source_address source)) all
        = Inr tokens" "fold_err (add_token node ''manual'') manual_tokens tokens = Inr (td_tokens_by_address discovery)"
      using assms unfolding discover_tokens_def Let_def by (auto simp: err_bind_Inr_iff)
    then show thesis using add_tokens_lower none by (intro that [of "\<lparr>td_tokens_by_address = all, td_notes = []\<rparr>" tokens]) auto
  qed
  show ?thesis by (rule add_tokens_lower [OF manual add_tokens_lower [OF tokens found]])
qed

lemma inspect_auction_lower:
  "inspect_auction node auction = Inr inspection \<Longrightarrow> str_lower (ei_auction_address inspection) = ei_auction_address inspection"
  by (auto simp: inspect_auction_def err_bind_Inr_iff Let_def split: if_splits dest: normalize_address_lower)

lemma probe_tokens_eligible:
  assumes "probe_tokens node settings inspection source discovery = Inr probes" "probe \<in> set probes" "tp_status probe = ''eligible''"
    and "lower_keys (td_tokens_by_address discovery)" "str_lower (ei_auction_address inspection) = ei_auction_address inspection"
  shows "may_enable node inspection (sr_source_address source) (tp_token_address probe)
    \<and> found_disabled node settings inspection discovery (tp_token_address probe)"
proof -
  let ?all = "sorted_set (map fst (td_tokens_by_address discovery))"
  obtain state where state: "read_token_enabled_many node settings (ei_auction_address inspection) (unlisted_tokens inspection discovery) = Inr state"
    and probed: "list_all2 (\<lambda>token probe. probe_token node inspection (sr_source_address source) discovery state token = Inr probe) ?all probes"
    using assms(1) by (auto simp: probe_tokens_def Let_def err_simps unlisted_tokens_def)
  obtain i where "i < length ?all" "probe_token node inspection (sr_source_address source) discovery state (?all ! i) = Inr probe"
    using probed assms(2) unfolding list_all2_conv_all_nth in_set_conv_nth by auto
  then obtain token where token: "token \<in> set ?all" "probe_token node inspection (sr_source_address source) discovery state token = Inr probe"
    using nth_mem by blast
  note eligible = probe_token_eligible [OF token(2) assms(3)]
  have name: "tp_token_address probe = token" by (rule probe_token_address [OF token(2)])
  have "str_lower token = token" using assms(4) token(1) by (auto simp: lower_keys_def)
  then have asked: "token \<in> str_lower ` set (unlisted_tokens inspection discovery)"
    using token(1) eligible by (force simp: unlisted_tokens_def may_enable_def)
  note present = read_token_enabled_many_present [OF state asked, unfolded assms(5)]
  have "found_disabled node settings inspection discovery token"
    unfolding found_disabled_def using state present eligible by auto
  then show ?thesis using eligible by (simp add: name)
qed

end
