(* ===== verification/EnableAction.thy ===== *)
theory EnableAction
  imports ActionPrepare TokenEnable
begin

text \<open>
  The \<open>enable_tokens\<close> action of \<open>api/services/action_prepare.py\<close>: the address the operator gave may be
  that of a fee burner, the tokens that probe as eligible are enabled in batches whose estimated gas
  stays under the cap, and every batch becomes a transaction of the stored action.
\<close>

section \<open>The auction an address stands for\<close>

record burner_row =
  br_address :: string
  br_name :: "string option"
  br_auction_address :: "string option"
  br_want_address :: "string option"
  br_auction_error_message :: "string option"

record alias_candidate =
  al_want_address :: "string option"
  al_name :: "string option"
  al_role :: string
  al_auction_address :: "string option"
  al_auction_error_message :: "string option"

text \<open>The table, or the failure of the query, which reads as no row.\<close>

definition load_fee_burner_alias_rows :: "burner_row list result \<Rightarrow> address \<Rightarrow> burner_row list" where
  "load_fee_burner_alias_rows table normalized_address =
     (case table of Inl _ \<Rightarrow> []
      | Inr rows \<Rightarrow> filter (\<lambda>row. br_address row = normalized_address \<or> br_want_address row = Some normalized_address) rows)"

definition alias_role :: "address \<Rightarrow> address \<Rightarrow> string" where
  "alias_role normalized_address burner = (if normalized_address = burner then ''fee burner address'' else ''want token'')"

definition text_default :: "string option \<Rightarrow> string \<Rightarrow> string" where
  "text_default text default_text = (case text of None \<Rightarrow> default_text | Some t \<Rightarrow> if t = [] then default_text else t)"

definition configured_alias ::
  "enable_node \<Rightarrow> address \<Rightarrow> fee_burner \<Rightarrow> (address \<times> alias_candidate) list \<Rightarrow> (address \<times> alias_candidate) list" where
  "configured_alias node normalized_address burner candidates =
     (case (normalize_address (en_isaddr node) (fb_address burner), normalize_address (en_isaddr node) (fb_want_address burner)) of
        (Inr burner_address, Inr want_address) \<Rightarrow>
          if normalized_address \<noteq> burner_address \<and> normalized_address \<noteq> want_address then candidates
          else dict_set burner_address \<lparr>al_want_address = Some want_address, al_name = Some (text_default (fb_label burner) ''fee burner''),
            al_role = alias_role normalized_address burner_address, al_auction_address = None, al_auction_error_message = None\<rparr> candidates
      | _ \<Rightarrow> candidates)"

definition row_want :: "enable_node \<Rightarrow> burner_row \<Rightarrow> address option" where
  "row_want node row = (case br_want_address row of None \<Rightarrow> None
     | Some w \<Rightarrow> if w = [] then None else (case normalize_address (en_isaddr node) w of Inl _ \<Rightarrow> None | Inr w \<Rightarrow> Some w))"

definition stored_alias ::
  "enable_node \<Rightarrow> address \<Rightarrow> burner_row \<Rightarrow> (address \<times> alias_candidate) list \<Rightarrow> (address \<times> alias_candidate) list" where
  "stored_alias node normalized_address row candidates =
     (case normalize_address (en_isaddr node) (br_address row) of
        Inl _ \<Rightarrow> candidates
      | Inr burner_address \<Rightarrow>
          let want_address = row_want node row in
          if normalized_address \<noteq> burner_address \<and> want_address \<noteq> Some normalized_address then candidates
          else
            let candidate = (case map_of candidates burner_address of Some c \<Rightarrow> c
                  | None \<Rightarrow> \<lparr>al_want_address = want_address, al_name = Some (text_default (br_name row) ''fee burner''),
                      al_role = alias_role normalized_address burner_address, al_auction_address = None, al_auction_error_message = None\<rparr>)
            in dict_set burner_address (candidate\<lparr>
                 al_name := Some (text_default (text_or (br_name row) (al_name candidate)) ''fee burner''),
                 al_want_address := text_or want_address (al_want_address candidate),
                 al_auction_address := text_or (br_auction_address row) (al_auction_address candidate),
                 al_auction_error_message := text_or (br_auction_error_message row) (al_auction_error_message candidate)\<rparr>) candidates)"

record alias_resolution =
  ar_auction_address :: address
  ar_warnings :: "string list"

definition alias_failure :: "enable_node \<Rightarrow> address \<Rightarrow> string \<Rightarrow> alias_candidate \<Rightarrow> string" where
  "alias_failure node normalized_address source_name candidate =
     (let message = en_checksum node normalized_address @ '' is '' @ source_name @ char_of (39 :: nat) # ''s '' @ al_role candidate
            @ '', not an auction address; no cached auction mapping is available. ''
            @ ''Run tidal-server scan run, or pass the auction address.'';
          mapping_error = str_strip (text_default (al_auction_error_message candidate) [])
      in if mapping_error = [] then message else message @ '' Last mapping error: '' @ mapping_error)"

definition resolve_enable_tokens_auction_alias ::
  "enable_node \<Rightarrow> enable_settings \<Rightarrow> burner_row list result \<Rightarrow> string \<Rightarrow> alias_resolution option result" where
  "resolve_enable_tokens_auction_alias node settings table requested_address =
     err_bind (normalize_address (en_isaddr node) requested_address) (\<lambda>normalized_address.
     let candidates = fold (stored_alias node normalized_address) (load_fee_burner_alias_rows table normalized_address)
           (fold (configured_alias node normalized_address) (es_fee_burners settings) [])
     in case candidates of
          [] \<Rightarrow> Inr None
        | [(_, candidate)] \<Rightarrow>
            let source_name = text_default (nonempty (str_strip (text_default (al_name candidate) ''fee burner''))) ''fee burner'' in
            (case text_default (al_auction_address candidate) [] of
               [] \<Rightarrow> Inl (RuntimeError (alias_failure node normalized_address source_name candidate))
             | raw \<Rightarrow> (case normalize_address (en_isaddr node) raw of
                 Inl _ \<Rightarrow> Inl (RuntimeError (''cached auction mapping for '' @ source_name @ '' is invalid; run tidal-server scan run''))
               | Inr auction \<Rightarrow> Inr (Some \<lparr>ar_auction_address = auction, ar_warnings = [''Resolved '' @ source_name @ '' ''
                   @ al_role candidate @ '' to auction '' @ en_checksum node auction @ ''.'']\<rparr>)))
        | _ \<Rightarrow> Inl (RuntimeError (en_checksum node normalized_address @ '' matches multiple fee burners; pass the auction address'')))"

section \<open>Batches\<close>

definition gas_limit_from_estimate :: "int option \<Rightarrow> int \<Rightarrow> int option" where
  "gas_limit_from_estimate gas_estimate gas_cap = map_option (\<lambda>g. min (gas_with_buffer g) gas_cap) gas_estimate"

definition over_cap :: "int \<Rightarrow> enable_plan \<Rightarrow> bool" where
  "over_cap gas_cap plan \<longleftrightarrow> (case ep_gas_estimate plan of None \<Rightarrow> False | Some g \<Rightarrow> gas_cap < g)"

record batch_state =
  bs_batches :: "(address list \<times> enable_plan) list"
  bs_tokens :: "address list"
  bs_plan :: "enable_plan option"

definition close_batch :: "batch_state \<Rightarrow> (address list \<times> enable_plan) list" where
  "close_batch st = (case bs_plan st of None \<Rightarrow> bs_batches st | Some plan \<Rightarrow> bs_batches st @ [(bs_tokens st, plan)])"

definition batch_over_cap :: "enable_node \<Rightarrow> address \<Rightarrow> enable_plan \<Rightarrow> int \<Rightarrow> exn" where
  "batch_over_cap node token plan gas_cap = RuntimeError (''enable-tokens batch for '' @ en_checksum node token @ '' estimates ''
     @ show_int_commas (case ep_gas_estimate plan of None \<Rightarrow> 0 | Some g \<Rightarrow> g) @ '' gas, above txn_max_gas_limit '' @ show_int_commas gas_cap)"

definition batch_step :: "enable_node \<Rightarrow> (address list \<Rightarrow> enable_plan result) \<Rightarrow> int \<Rightarrow> address \<Rightarrow> batch_state \<Rightarrow> batch_state result" where
  "batch_step node build gas_cap token st =
     err_bind (build (bs_tokens st @ [token])) (\<lambda>tentative.
     err_bind (if over_cap gas_cap tentative \<and> bs_tokens st \<noteq> []
         then err_bind (build [token]) (\<lambda>single. Inr (close_batch st, [token], single))
         else Inr (bs_batches st, bs_tokens st @ [token], tentative)) (\<lambda>(batches, tokens, plan).
     if over_cap gas_cap plan then Inl (batch_over_cap node token plan gas_cap)
     else Inr \<lparr>bs_batches = batches, bs_tokens = tokens, bs_plan = Some plan\<rparr>))"

definition build_enable_token_batches ::
  "enable_node \<Rightarrow> (address list \<Rightarrow> enable_plan result) \<Rightarrow> int \<Rightarrow> address list \<Rightarrow> (address list \<times> enable_plan) list result" where
  "build_enable_token_batches node build gas_cap selected_tokens =
     err_bind (fold_err (batch_step node build gas_cap) selected_tokens \<lparr>bs_batches = [], bs_tokens = [], bs_plan = None\<rparr>)
       (\<lambda>st. Inr (close_batch st))"

definition enable_tokens_transaction ::
  "enable_node \<Rightarrow> prepare_settings \<Rightarrow> string option \<Rightarrow> int \<Rightarrow> enable_plan \<Rightarrow> tx_intent result" where
  "enable_tokens_transaction node settings sender gas_cap plan =
     err_bind (normalize_address (en_isaddr node) (ep_to_address plan)) (\<lambda>target.
     Inr \<lparr>ti_operation = ''enable-tokens'', ti_to = target, ti_data = ep_data plan, ti_chain_id = ps_chain_id settings,
       ti_sender = sender, ti_value = ''0x0'', ti_gas_estimate = ep_gas_estimate plan,
       ti_gas_limit = gas_limit_from_estimate (ep_gas_estimate plan) gas_cap\<rparr>)"

definition enable_operation_payload ::
  "address \<Rightarrow> source_resolution \<Rightarrow> enable_inspection \<Rightarrow> token_probe \<Rightarrow> address \<Rightarrow> nat \<Rightarrow> payload" where
  "enable_operation_payload auction source inspection probe token tx_index =
     [(''operation'', JStr ''enable-tokens''), (''txIndex'', JInt (int tx_index)), (''auctionAddress'', JStr auction),
      (''sourceType'', JStr (sr_source_type source)), (''sourceAddress'', JStr (sr_source_address source)),
      (''sourceName'', column_json (sr_source_name source)), (''tokenAddress'', JStr token), (''tokenSymbol'', column_json (tp_symbol probe)),
      (''wantAddress'', JStr (ei_want inspection)), (''balanceRaw'', column_json (map_option show_int (tp_raw_balance probe))),
      (''normalizedBalance'', column_json (tp_normalized_balance probe)), (''reason'', JStr (tp_reason probe))]"

text \<open>The tokens of the batches, each with the index of its batch.\<close>

definition indexed_tokens :: "(address list \<times> enable_plan) list \<Rightarrow> (nat \<times> address) list" where
  "indexed_tokens batches = concat (map (\<lambda>(i, batch). map (Pair i) (fst batch)) (enumerate 0 batches))"

definition enable_token_prepared_operations ::
  "address \<Rightarrow> source_resolution \<Rightarrow> enable_inspection \<Rightarrow> (address \<times> token_probe) list \<Rightarrow> (address list \<times> enable_plan) list
     \<Rightarrow> payload list result" where
  "enable_token_prepared_operations auction source inspection probes_by_token batches =
     traverse_err (\<lambda>(i, token). case map_of probes_by_token token of
         None \<Rightarrow> Inl (KeyError token)
       | Some probe \<Rightarrow> Inr (enable_operation_payload auction source inspection probe token i)) (indexed_tokens batches)"

section \<open>The preview\<close>

definition serialize_enable_inspection :: "enable_inspection \<Rightarrow> json" where
  "serialize_enable_inspection inspection = JObj [(''auction_address'', JStr (ei_auction_address inspection)),
     (''governance'', JStr (ei_governance inspection)), (''want'', JStr (ei_want inspection)), (''receiver'', JStr (ei_receiver inspection)),
     (''version'', column_json (ei_version inspection)), (''in_configured_factory'', JBool (ei_in_configured_factory inspection)),
     (''governance_matches_required'', JBool (ei_governance_matches_required inspection)),
     (''enabled_tokens'', JList (map JStr (ei_enabled_tokens inspection)))]"

definition serialize_source :: "source_resolution \<Rightarrow> json" where
  "serialize_source source = JObj [(''source_type'', JStr (sr_source_type source)), (''source_address'', JStr (sr_source_address source)),
     (''source_name'', column_json (sr_source_name source)), (''warnings'', JList (map JStr (sr_warnings source)))]"

definition serialize_probe :: "token_probe \<Rightarrow> payload" where
  "serialize_probe probe = [(''token_address'', JStr (tp_token_address probe)), (''origins'', JList (map JStr (tp_origins probe))),
     (''symbol'', column_json (tp_symbol probe)), (''decimals'', column_int (tp_decimals probe)),
     (''raw_balance'', column_int (tp_raw_balance probe)), (''normalized_balance'', column_json (tp_normalized_balance probe)),
     (''status'', JStr (tp_status probe)), (''reason'', JStr (tp_reason probe)), (''detail'', column_json (tp_detail probe))]"

definition enable_preview ::
  "enable_inspection \<Rightarrow> source_resolution \<Rightarrow> payload list \<Rightarrow> address list \<Rightarrow> payload" where
  "enable_preview inspection source probes selected =
     [(''inspection'', serialize_enable_inspection inspection), (''source'', serialize_source source),
      (''probes'', JList (map JObj probes)), (''selectedTokens'', JList (map JStr selected))]"

definition labelled_probe :: "token_probe \<Rightarrow> payload" where
  "labelled_probe probe = serialize_probe probe @ [(''reasonLabel'', JStr (format_probe_reason (tp_reason probe)))]"

definition plan_errors :: "enable_plan list \<Rightarrow> string list" where
  "plan_errors plans = List.map_filter (\<lambda>plan. Option.bind (ep_error_message plan) nonempty) plans"

definition total_gas :: "enable_plan list \<Rightarrow> int option" where
  "total_gas plans = (if list_all (\<lambda>plan. ep_gas_estimate plan \<noteq> None) plans
     then Some (sum_list (List.map_filter ep_gas_estimate plans)) else None)"

definition execution_preview ::
  "string option \<Rightarrow> int \<Rightarrow> enable_plan \<Rightarrow> (address list \<times> enable_plan) list \<Rightarrow> payload list \<Rightarrow> payload" where
  "execution_preview sender gas_cap first batches operations =
     (let plans = map snd batches in
      [(''executionTarget'', JStr (ep_to_address first)), (''previewSender'', column_json sender),
       (''previewSenderAuthorized'', column_bool (ep_sender_authorized first)),
       (''authorizationTarget'', column_json (ep_authorization_target first)),
       (''executionPreview'', JObj [(''call_succeeded'', JBool (list_all ep_call_succeeded plans)),
          (''gas_estimate'', column_int (total_gas plans)),
          (''error_message'', column_json (case plan_errors plans of [] \<Rightarrow> None | m # _ \<Rightarrow> Some m))]),
       (''executionBatches'', JList (map (\<lambda>(tokens, plan). JObj [(''tokens'', JList (map JStr tokens)),
          (''call_succeeded'', JBool (ep_call_succeeded plan)), (''gas_estimate'', column_int (ep_gas_estimate plan)),
          (''error_message'', column_json (ep_error_message plan))]) batches)),
       (''preparedOperations'', JList (map JObj operations)), (''txnMaxGasLimit'', JInt gas_cap)])"

section \<open>The action\<close>

text \<open>\<open>except RuntimeError\<close>\<close>

definition catch_runtime :: "'a result \<Rightarrow> (string \<Rightarrow> 'b result) \<Rightarrow> ('a \<Rightarrow> 'b result) \<Rightarrow> 'b result" where
  "catch_runtime outcome handler continuation =
     (case outcome of Inr v \<Rightarrow> continuation v | Inl (RuntimeError m) \<Rightarrow> handler m | Inl e \<Rightarrow> Inl e)"

type_synonym enable_findings = "enable_inspection \<times> source_resolution \<times> token_discovery \<times> token_probe list"

definition enable_probes ::
  "enable_node \<Rightarrow> enable_settings \<Rightarrow> token_tables option \<Rightarrow> address \<Rightarrow> string list \<Rightarrow> enable_findings result" where
  "enable_probes node esettings tables auction extra_tokens =
     err_bind (inspect_auction node auction) (\<lambda>inspection.
     err_bind (resolve_source node esettings inspection) (\<lambda>source.
     err_bind (traverse_err (normalize_address (en_isaddr node)) extra_tokens) (\<lambda>manual_tokens.
     err_bind (discover_tokens node esettings tables inspection source manual_tokens) (\<lambda>discovery.
     err_bind (probe_tokens node esettings inspection source discovery) (\<lambda>probes.
     Inr (inspection, source, discovery, probes))))))"

definition effective_gas_cap :: "int option \<Rightarrow> prepare_settings \<Rightarrow> int" where
  "effective_gas_cap txn_max_gas_limit settings =
     (case txn_max_gas_limit of None \<Rightarrow> ps_max_gas_limit settings | Some g \<Rightarrow> if g = 0 then ps_max_gas_limit settings else g)"

text \<open>The batches are known.\<close>

definition store_enable_action ::
  "enable_node \<Rightarrow> prepare_settings \<Rightarrow> prepare_call \<Rightarrow> address \<Rightarrow> string option \<Rightarrow> string list \<Rightarrow> int
     \<Rightarrow> enable_inspection \<Rightarrow> source_resolution \<Rightarrow> payload \<Rightarrow> token_probe list \<Rightarrow> string list \<Rightarrow> (address list \<times> enable_plan) list
     \<Rightarrow> ledger \<Rightarrow> (ledger \<times> prepared_response) result" where
  "store_enable_action node settings call auction sender extra_tokens gas_cap inspection source preview eligible warnings batches db =
     (case batches of [] \<Rightarrow> Inl IndexError
      | (_, first) # _ \<Rightarrow>
          let probes_by_token = rev (map (\<lambda>probe. (tp_token_address probe, probe)) eligible) in
          err_bind (enable_token_prepared_operations auction source inspection probes_by_token batches) (\<lambda>operations.
          err_bind (traverse_err (\<lambda>batch. enable_tokens_transaction node settings sender gas_cap (snd batch)) batches) (\<lambda>transactions.
          store_action call ''enable_tokens'' sender
            [(''auctionAddress'', JStr auction), (''sender'', column_json sender), (''extraTokens'', JList (map JStr extra_tokens)),
             (''txnMaxGasLimit'', JInt gas_cap)]
            (preview @ execution_preview sender gas_cap first batches operations) transactions
            (Some auction) (Some auction) (Some (sr_source_address source)) None
            (warnings @ fold add_warning (plan_errors (map snd batches)) []) db)))"

definition enable_eligible ::
  "enable_node \<Rightarrow> enable_settings \<Rightarrow> prepare_settings \<Rightarrow> prepare_call \<Rightarrow> address \<Rightarrow> string option \<Rightarrow> string list \<Rightarrow> int option
     \<Rightarrow> string list \<Rightarrow> enable_findings \<Rightarrow> ledger \<Rightarrow> (ledger \<times> prepared_response) result" where
  "enable_eligible node esettings settings call auction sender extra_tokens txn_max_gas_limit resolution_warnings findings db =
     (case findings of (inspection, source, discovery, probes) \<Rightarrow>
        let warnings = resolution_warnings @ sr_warnings source @ td_notes discovery
              @ (if ei_in_configured_factory inspection then [] else [''Auction is not in the configured factory.'']);
            eligible = filter (\<lambda>probe. tp_status probe = ''eligible'') probes in
        if eligible = []
        then Inr (db, unsigned_response ''noop'' warnings (enable_preview inspection source (map serialize_probe probes) []))
        else
          let selected = map tp_token_address eligible;
              gas_cap = effective_gas_cap txn_max_gas_limit settings;
              preview = enable_preview inspection source (map labelled_probe probes) selected in
          catch_runtime (build_enable_token_batches node (build_execution_plan node esettings inspection sender) gas_cap selected)
            (\<lambda>m. Inr (db, unsigned_response ''error'' (warnings @ [m]) preview))
            (\<lambda>batches. store_enable_action node settings call auction sender extra_tokens gas_cap inspection source preview eligible
               warnings batches db))"

definition prepare_enable_tokens_action ::
  "enable_node \<Rightarrow> enable_settings \<Rightarrow> token_tables option \<Rightarrow> burner_row list result \<Rightarrow> prepare_settings \<Rightarrow> prepare_call \<Rightarrow> string
     \<Rightarrow> string option \<Rightarrow> string list \<Rightarrow> int option \<Rightarrow> ledger \<Rightarrow> (ledger \<times> prepared_response) result" where
  "prepare_enable_tokens_action node esettings tables burner_table settings call auction_address sender extra_tokens txn_max_gas_limit db =
     err_bind (normalize_address (en_isaddr node) auction_address) (\<lambda>normalized_auction.
     catch_runtime (resolve_enable_tokens_auction_alias node esettings burner_table normalized_auction)
       (\<lambda>m. Inr (db, unsigned_response ''error'' [m] []))
       (\<lambda>resolution.
         let auction = (case resolution of None \<Rightarrow> normalized_auction | Some r \<Rightarrow> ar_auction_address r);
             resolution_warnings = (case resolution of None \<Rightarrow> [] | Some r \<Rightarrow> ar_warnings r) in
         catch_runtime (enable_probes node esettings tables auction extra_tokens)
           (\<lambda>m. Inr (db, unsigned_response ''error'' (resolution_warnings @ [m]) []))
           (\<lambda>findings. enable_eligible node esettings settings call auction sender extra_tokens txn_max_gas_limit resolution_warnings
              findings db)))"

section \<open>Batches partition the tokens\<close>

text \<open>The next batch starts with a token that would have put this one over the cap.\<close>

definition full_before ::
  "(address list \<Rightarrow> enable_plan result) \<Rightarrow> int \<Rightarrow> address list \<times> enable_plan \<Rightarrow> address list \<times> enable_plan \<Rightarrow> bool" where
  "full_before build gas_cap batch following \<longleftrightarrow> (\<exists>plan. build (fst batch @ [hd (fst following)]) = Inr plan \<and> over_cap gas_cap plan)"

definition sound_batch :: "(address list \<Rightarrow> enable_plan result) \<Rightarrow> int \<Rightarrow> address list \<times> enable_plan \<Rightarrow> bool" where
  "sound_batch build gas_cap batch \<longleftrightarrow> fst batch \<noteq> [] \<and> build (fst batch) = Inr (snd batch) \<and> \<not> over_cap gas_cap (snd batch)"

definition batch_inv :: "(address list \<Rightarrow> enable_plan result) \<Rightarrow> int \<Rightarrow> address list \<Rightarrow> batch_state \<Rightarrow> bool" where
  "batch_inv build gas_cap taken st \<longleftrightarrow> concat (map fst (close_batch st)) = taken \<and> list_all (sound_batch build gas_cap) (close_batch st)
     \<and> successively (full_before build gas_cap) (close_batch st) \<and> (bs_plan st = None \<longrightarrow> bs_batches st = [] \<and> bs_tokens st = [])"

lemma batch_step_inv:
  assumes "batch_inv build gas_cap taken st" "batch_step node build gas_cap token st = Inr st'"
  shows "batch_inv build gas_cap (taken @ [token]) st'"
proof -
  obtain tentative where tentative: "build (bs_tokens st @ [token]) = Inr tentative"
    using assms(2) by (auto simp: batch_step_def err_simps)
  show ?thesis
  proof (cases "over_cap gas_cap tentative \<and> bs_tokens st \<noteq> []")
    case True
    then obtain single where single: "build [token] = Inr single" "\<not> over_cap gas_cap single"
      "st' = \<lparr>bs_batches = close_batch st, bs_tokens = [token], bs_plan = Some single\<rparr>"
      using assms(2) tentative by (auto simp: batch_step_def err_simps split: if_splits)
    obtain plan where "bs_plan st = Some plan" using assms(1) True by (cases "bs_plan st") (auto simp: batch_inv_def)
    then have "full_before build gas_cap (last (close_batch st)) ([token], single)" "close_batch st \<noteq> []"
      using True tentative by (auto simp: full_before_def close_batch_def)
    then show ?thesis
      using assms(1) single by (simp add: batch_inv_def close_batch_def successively_append_iff sound_batch_def)
  next
    case False
    have st': "st' = \<lparr>bs_batches = bs_batches st, bs_tokens = bs_tokens st @ [token], bs_plan = Some tentative\<rparr>"
      "\<not> over_cap gas_cap tentative"
      using assms(2) False unfolding batch_step_def tentative err_bind.simps if_not_P [OF False] by (auto split: if_splits)
    have sound: "sound_batch build gas_cap (bs_tokens st @ [token], tentative)" using tentative st'(2) by (simp add: sound_batch_def)
    show ?thesis
    proof (cases "bs_plan st")
      case None
      then show ?thesis using assms(1) sound by (auto simp: batch_inv_def close_batch_def st'(1))
    next
      case (Some plan)
      moreover have "bs_tokens st \<noteq> []" using assms(1) Some by (simp add: batch_inv_def close_batch_def sound_batch_def)
      ultimately show ?thesis
        using assms(1) sound by (auto simp: batch_inv_def close_batch_def st'(1) successively_append_iff full_before_def)
    qed
  qed
qed

lemma batch_fold_inv:
  "fold_err (batch_step node build gas_cap) tokens st = Inr st' \<Longrightarrow> batch_inv build gas_cap taken st \<Longrightarrow>
    batch_inv build gas_cap (taken @ tokens) st'"
proof (induction tokens arbitrary: st taken)
  case (Cons token tokens)
  then obtain next_st where "batch_step node build gas_cap token st = Inr next_st"
    "fold_err (batch_step node build gas_cap) tokens next_st = Inr st'" by (auto simp: err_simps)
  then show ?case using Cons.IH [of next_st "taken @ [token]"] batch_step_inv Cons.prems(2) by simp
qed simp

lemma enable_batches:
  assumes "build_enable_token_batches node build gas_cap selected = Inr batches"
  shows "concat (map fst batches) = selected" "list_all (sound_batch build gas_cap) batches"
    "successively (full_before build gas_cap) batches"
  using assms batch_fold_inv [of node build gas_cap selected "\<lparr>bs_batches = [], bs_tokens = [], bs_plan = None\<rparr>" _ "[]"]
  by (auto simp: build_enable_token_batches_def err_simps batch_inv_def close_batch_def [of "\<lparr>bs_batches = [], bs_tokens = [], bs_plan = None\<rparr>"])

section \<open>What is stored\<close>

lemma enable_items:
  assumes "enable_token_prepared_operations auction source inspection probes batches = Inr operations" "i < length batches"
  shows "map operation_target (matching_items ''enable_tokens'' (int i) (map JObj operations))
    = map (\<lambda>token. (JStr auction, JStr token)) (fst (batches ! i))"
proof -
  have each: "list_all2 (\<lambda>(j, token) operation. \<exists>probe. operation = enable_operation_payload auction source inspection probe token j)
      (indexed_tokens batches) operations"
    using assms(1) unfolding enable_token_prepared_operations_def err_simps
    by (elim list_all2_mono) (auto split: option.splits)
  let ?same = "zip (map fst (indexed_tokens batches)) operations"
  have retag: "tagged j (enable_operation_payload auction source inspection probe token j)
      = enable_operation_payload auction source inspection probe token j" for j probe token
    by (simp add: tagged_def enable_operation_payload_def)
  have same: "operations = map (\<lambda>(i, p). tagged i p) ?same @ []"
    using each by (induction rule: list_all2_induct) (auto simp: retag)
  have name: "normalize_operation_type (JStr ''enable-tokens'') = Some ''enable_tokens''" by code_simp
  have names: "\<forall>x \<in> set ?same. normalize_operation_type (json_get (snd x) ''operation'') = Some ''enable_tokens''"
    using each by (induction rule: list_all2_induct) (auto simp: name enable_operation_payload_def json_get_def)
  have "map operation_target (matching_items ''enable_tokens'' (int i) (map JObj operations))
      = map (operation_target \<circ> snd) (filter (\<lambda>(j, p). j = i) ?same)"
    using matching_tagged [OF names _ disjI1 [OF same]] by simp
  also have "\<dots> = map (\<lambda>(j, token). (JStr auction, JStr token)) (filter (\<lambda>(j, token). j = i) (indexed_tokens batches))"
    using each by (induction rule: list_all2_induct) (auto simp: enable_operation_payload_def operation_target_def json_get_def)
  also have "filter (\<lambda>(j, token). j = i) (indexed_tokens batches) = map (Pair i) (fst (batches ! i))"
  proof -
    have "filter (\<lambda>(j, token). j = n + i) (concat (map (\<lambda>(i, batch). map (Pair i) (fst batch)) (enumerate n batches)))
        = map (Pair (n + i)) (fst (batches ! i))" for n
      using assms(2)
    proof (induction batches arbitrary: n i)
      case (Cons batch batches)
      have other: "filter (\<lambda>(j, token). j = n) (concat (map (\<lambda>(i, batch). map (Pair i) (fst batch)) (enumerate m batches))) = []"
        if "n < m" for m
        using that by (auto simp: filter_empty_conv in_set_enumerate_eq)
      show ?case
      proof (cases i)
        case 0
        then show ?thesis using other [of "Suc n"] by (simp add: filter_map comp_def filter_True)
      next
        case (Suc k)
        then show ?thesis using Cons.IH [of k "Suc n"] Cons.prems by (simp add: filter_map comp_def)
      qed
    qed simp
    from this [of 0] show ?thesis by (simp add: indexed_tokens_def)
  qed
  finally show ?thesis by (simp add: comp_def)
qed

lemma catch_runtime_Inr:
  "catch_runtime outcome handler continuation = Inr x \<longleftrightarrow>
    (\<exists>v. outcome = Inr v \<and> continuation v = Inr x) \<or> (\<exists>m. outcome = Inl (RuntimeError m) \<and> handler m = Inr x)"
  by (auto simp: catch_runtime_def split: sum.splits exn.splits)

lemma execution_plan:
  assumes "build_execution_plan node esettings inspection caller tokens = Inr plan"
  obtains kicker arguments where "ei_governance_matches_required inspection" "require_auction_kicker_address node esettings = Inr kicker"
    "enable_tokens_arguments node inspection tokens = Inr arguments" "ep_to_address plan = kicker"
    "ep_data plan = en_encode_enable node kicker (fst arguments) (snd arguments)"
proof -
  have "ei_governance_matches_required inspection" using assms by (auto simp: build_execution_plan_def split: if_splits)
  moreover obtain kicker auction arguments where "require_auction_kicker_address node esettings = Inr kicker"
    "enable_tokens_arguments node inspection tokens = Inr (auction, arguments)" "ep_to_address plan = kicker"
    "ep_data plan = en_encode_enable node kicker auction arguments"
    using assms by (auto simp: build_execution_plan_def err_simps Let_def split: if_splits option.splits)
  ultimately show thesis using that by auto
qed

lemma require_kicker_lower: "require_auction_kicker_address node esettings = Inr kicker \<Longrightarrow> str_lower kicker = kicker"
  by (auto simp: require_auction_kicker_address_def Let_def err_simps normalize_address_Inr split: if_splits)

text \<open>The call that enables a batch, sent to the configured kicker.\<close>

definition enables_with ::
  "enable_node \<Rightarrow> enable_settings \<Rightarrow> enable_inspection \<Rightarrow> int \<Rightarrow> address list \<Rightarrow> tx_intent \<Rightarrow> bool" where
  "enables_with node esettings inspection gas_cap tokens intent \<longleftrightarrow> ti_operation intent = ''enable-tokens'' \<and> tokens \<noteq> []
     \<and> require_auction_kicker_address node esettings = Inr (ti_to intent)
     \<and> (\<exists>arguments. enable_tokens_arguments node inspection tokens = Inr arguments
          \<and> ti_data intent = en_encode_enable node (ti_to intent) (fst arguments) (snd arguments))
     \<and> (\<forall>g. ti_gas_estimate intent = Some g \<longrightarrow> g \<le> gas_cap) \<and> (\<forall>g. ti_gas_limit intent = Some g \<longrightarrow> g \<le> gas_cap)"

lemma transaction_enables:
  assumes "sound_batch (build_execution_plan node esettings inspection sender) gas_cap batch"
    and "enable_tokens_transaction node settings caller gas_cap (snd batch) = Inr intent"
  shows "enables_with node esettings inspection gas_cap (fst batch) intent"
proof -
  obtain kicker arguments where plan: "require_auction_kicker_address node esettings = Inr kicker"
    "enable_tokens_arguments node inspection (fst batch) = Inr arguments" "ep_to_address (snd batch) = kicker"
    "ep_data (snd batch) = en_encode_enable node kicker (fst arguments) (snd arguments)"
    using assms(1) by (auto simp: sound_batch_def elim: execution_plan)
  then show ?thesis
    using assms require_kicker_lower [OF plan(1)]
    by (auto simp: enables_with_def sound_batch_def over_cap_def enable_tokens_transaction_def err_simps normalize_address_Inr
        gas_limit_from_estimate_def split: option.splits)
qed

definition enable_explained ::
  "enable_node \<Rightarrow> enable_settings \<Rightarrow> enable_inspection \<Rightarrow> address \<Rightarrow> int \<Rightarrow> json list \<Rightarrow> address list list \<Rightarrow> tx_intent list \<Rightarrow> bool" where
  "enable_explained node esettings inspection auction gas_cap items batches intents \<longleftrightarrow> length intents = length batches
     \<and> (\<forall>i < length batches. enables_with node esettings inspection gas_cap (batches ! i) (intents ! i)
          \<and> map operation_target (matching_items ''enable_tokens'' (int i) items) = map (\<lambda>token. (JStr auction, JStr token)) (batches ! i))"

lemma enable_stored:
  assumes "store_enable_action node settings call auction sender extra_tokens gas_cap inspection source preview eligible warnings batches db
      = Inr (db', response)" "map_of preview ''preparedOperations'' = None"
    and "list_all (sound_batch (build_execution_plan node esettings inspection caller) gas_cap) batches"
  shows "pr_status response = ''ok'' \<and> batches \<noteq> [] \<and> (\<exists>action intents rows items. l_actions db' = l_actions db @ [action]
      \<and> a_action_id action = pc_action_id call \<and> a_status action = ''PREPARED'' \<and> l_txs db' = l_txs db @ rows
      \<and> stored_as (pc_action_id call) intents rows \<and> prepared_items db' action ''enable_tokens'' tx_index = Some items
      \<and> enable_explained node esettings inspection auction gas_cap items (map fst batches) intents)"
proof (cases batches)
  case Nil
  then show ?thesis using assms(1) by (simp add: store_enable_action_def)
next
  case (Cons first_batch others)
  let ?probes = "rev (map (\<lambda>probe. (tp_token_address probe, probe)) eligible)"
  obtain operations intents where operations: "enable_token_prepared_operations auction source inspection ?probes batches = Inr operations"
    and intents: "traverse_err (\<lambda>batch. enable_tokens_transaction node settings sender gas_cap (snd batch)) batches = Inr intents"
    and stored: "store_action call ''enable_tokens'' sender
            [(''auctionAddress'', JStr auction), (''sender'', column_json sender), (''extraTokens'', JList (map JStr extra_tokens)),
             (''txnMaxGasLimit'', JInt gas_cap)]
            (preview @ execution_preview sender gas_cap (snd first_batch) batches operations) intents
            (Some auction) (Some auction) (Some (sr_source_address source)) None
            (warnings @ fold add_warning (plan_errors (map snd batches)) []) db = Inr (db', response)"
    using assms(1) unfolding store_enable_action_def Cons by (cases first_batch) (auto simp: err_bind_Inr_iff Let_def)
  obtain action rows where action: "l_actions db' = l_actions db @ [action]" "l_txs db' = l_txs db @ rows"
    "a_action_id action = pc_action_id call" "a_status action = ''PREPARED''"
    "a_preview action = JObj (preview @ execution_preview sender gas_cap (snd first_batch) batches operations)"
    "stored_as (pc_action_id call) intents rows" "pr_status response = ''ok''"
    using stored by (rule store_action_Inr)
  have items: "prepared_items db' action ''enable_tokens'' tx_index = Some (map JObj operations)"
    by (rule prepared_items_found [OF action(5)]) (simp add: map_add_def assms(2) execution_preview_def Let_def)
  have "enable_explained node esettings inspection auction gas_cap (map JObj operations) (map fst batches) intents"
    unfolding enable_explained_def
  proof (intro conjI allI impI)
    show "length intents = length (map fst batches)" using intents by (auto simp: err_simps dest: list_all2_lengthD)
  next
    fix i assume "i < length (map fst batches)"
    then have i: "i < length batches" by simp
    then have "enable_tokens_transaction node settings sender gas_cap (snd (batches ! i)) = Inr (intents ! i)"
      using intents by (auto simp: err_simps dest: list_all2_nthD)
    moreover have "sound_batch (build_execution_plan node esettings inspection caller) gas_cap (batches ! i)"
      using assms(3) i by (simp add: list_all_length)
    ultimately show "enables_with node esettings inspection gas_cap (map fst batches ! i) (intents ! i)"
      using transaction_enables i by simp
    show "map operation_target (matching_items ''enable_tokens'' (int i) (map JObj operations))
        = map (\<lambda>token. (JStr auction, JStr token)) (map fst batches ! i)" using enable_items [OF operations i] i by simp
  qed
  then show ?thesis using action items Cons by blast
qed

lemma enable_eligible_explained:
  assumes "enable_eligible node esettings settings call auction sender extra_tokens txn_max_gas_limit resolution_warnings findings db
      = Inr (db', response)" "findings = (inspection, source, discovery, probes)"
    and "probe_tokens node esettings inspection source discovery = Inr probes"
    and "lower_keys (td_tokens_by_address discovery)" "str_lower (ei_auction_address inspection) = ei_auction_address inspection"
  shows "pr_status response \<in> {''noop'', ''error''} \<and> db' = db \<or> pr_status response = ''ok'' \<and>
    (\<exists>batches action intents rows items. concat batches = map tp_token_address (filter (\<lambda>probe. tp_status probe = ''eligible'') probes)
       \<and> distinct (concat batches) \<and> batches \<noteq> [] \<and> (\<forall>token \<in> set (concat batches). may_enable node inspection (sr_source_address source) token
         \<and> found_disabled node esettings inspection discovery token)
       \<and> l_actions db' = l_actions db @ [action] \<and> a_action_id action = pc_action_id call \<and> a_status action = ''PREPARED''
       \<and> l_txs db' = l_txs db @ rows \<and> stored_as (pc_action_id call) intents rows
       \<and> prepared_items db' action ''enable_tokens'' tx_index = Some items
       \<and> enable_explained node esettings inspection auction (effective_gas_cap txn_max_gas_limit settings) items batches intents)"
proof -
  define eligible where "eligible = filter (\<lambda>probe. tp_status probe = ''eligible'') probes"
  define selected where "selected = map tp_token_address eligible"
  define gas_cap where "gas_cap = effective_gas_cap txn_max_gas_limit settings"
  define preview where "preview = enable_preview inspection source (map labelled_probe probes) selected"
  have "distinct (map tp_token_address probes)" by (simp add: probe_tokens_addresses [OF assms(3)])
  then have distinct: "distinct selected" by (simp add: selected_def eligible_def distinct_map_filter)
  have may: "may_enable node inspection (sr_source_address source) token \<and> found_disabled node esettings inspection discovery token"
    if "token \<in> set selected" for token
    using that probe_tokens_eligible [OF assms(3) _ _ assms(4,5)] by (auto simp: selected_def eligible_def)
  consider (unsigned) "pr_status response \<in> {''noop'', ''error''}" "db' = db"
    | (stored) batches warnings where "build_enable_token_batches node (build_execution_plan node esettings inspection sender) gas_cap selected = Inr batches"
      "store_enable_action node settings call auction sender extra_tokens gas_cap inspection source preview eligible warnings batches db
         = Inr (db', response)"
    using assms(1) unfolding assms(2) enable_eligible_def
    by (auto simp: Let_def catch_runtime_Inr unsigned_response_def eligible_def [symmetric] selected_def [symmetric]
        gas_cap_def [symmetric] preview_def [symmetric] split: if_splits)
  then show ?thesis
  proof cases
    case stored
    have "map_of preview ''preparedOperations'' = None" by (simp add: preview_def enable_preview_def)
    from enable_stored [OF stored(2) this enable_batches(2) [OF stored(1)], of tx_index]
    show ?thesis using enable_batches(1) [OF stored(1)] distinct may unfolding gas_cap_def selected_def eligible_def
      by (elim conjE exE) (rule disjI2, rule conjI, assumption, rule exI [of _ "map fst batches"], simp, blast)
  qed simp
qed

lemma enable_action_explained:
  assumes "prepare_enable_tokens_action node esettings tables burner_table settings call auction_address sender extra_tokens
    txn_max_gas_limit db = Inr (db', response)"
  shows "pr_status response \<in> {''noop'', ''error''} \<and> db' = db \<or> pr_status response = ''ok'' \<and>
    (\<exists>auction inspection source discovery probes batches action intents rows items.
       enable_probes node esettings tables auction extra_tokens = Inr (inspection, source, discovery, probes)
       \<and> concat batches = map tp_token_address (filter (\<lambda>probe. tp_status probe = ''eligible'') probes)
       \<and> distinct (concat batches) \<and> batches \<noteq> [] \<and> (\<forall>token \<in> set (concat batches). may_enable node inspection (sr_source_address source) token
         \<and> found_disabled node esettings inspection discovery token)
       \<and> l_actions db' = l_actions db @ [action] \<and> a_action_id action = pc_action_id call \<and> a_status action = ''PREPARED''
       \<and> l_txs db' = l_txs db @ rows \<and> stored_as (pc_action_id call) intents rows
       \<and> prepared_items db' action ''enable_tokens'' tx_index = Some items
       \<and> enable_explained node esettings inspection auction (effective_gas_cap txn_max_gas_limit settings) items batches intents)"
proof -
  consider (unsigned) "pr_status response \<in> {''noop'', ''error''}" "db' = db"
    | (findings) auction warnings findings where "enable_probes node esettings tables auction extra_tokens = Inr findings"
      "enable_eligible node esettings settings call auction sender extra_tokens txn_max_gas_limit warnings findings db = Inr (db', response)"
    using assms unfolding prepare_enable_tokens_action_def err_bind_Inr_iff catch_runtime_Inr Let_def
    by (auto simp: unsigned_response_def)
  then show ?thesis
  proof cases
    case findings
    obtain inspection source discovery probes manual where found: "findings = (inspection, source, discovery, probes)"
      "probe_tokens node esettings inspection source discovery = Inr probes"
      and reads: "inspect_auction node auction = Inr inspection" "discover_tokens node esettings tables inspection source manual = Inr discovery"
      using findings(1) by (auto simp: enable_probes_def err_bind_Inr_iff)
    have lower: "lower_keys (td_tokens_by_address discovery)" "str_lower (ei_auction_address inspection) = ei_auction_address inspection"
      using reads discover_tokens_lower inspect_auction_lower by blast+
    from enable_eligible_explained [OF findings(2) found lower, of tx_index] findings(1) [unfolded found(1)]
    show ?thesis by (elim disjE) (rule disjI1, assumption, rule disjI2, blast)
  qed simp
qed

section \<open>Properties\<close>

text \<open>
  C13. An enable-tokens action answers noop or error and changes nothing, or stores one
  action whose transactions enable, in batches, exactly the probed tokens that were
  eligible, each once. None is the want token or in the auction's own list of enabled
  tokens, where that list could be read; the state of each was asked of the auction and no
  answer said it is enabled: whatever the batched read returned for it is not "enabled", and
  when the reads are single calls, or the multicall agrees with them, its scaler is not read
  as non-zero. Each has a balance and its enable call succeeded for the governance. Every
  transaction calls the configured kicker with its batch, its estimate and gas limit are
  within the cap, and the stored operations name exactly the tokens of the batch for its
  index.
\<close>

theorem prepared_enable_action_explained:
  assumes "prepare_enable_tokens_action node esettings tables burner_table settings call auction_address sender extra_tokens
    txn_max_gas_limit db = Inr (db', response)"
  shows "pr_status response \<in> {''noop'', ''error''} \<and> db' = db \<or> pr_status response = ''ok'' \<and>
    (\<exists>auction inspection source discovery probes batches action intents rows items.
       enable_probes node esettings tables auction extra_tokens = Inr (inspection, source, discovery, probes)
       \<and> concat batches = map tp_token_address (filter (\<lambda>probe. tp_status probe = ''eligible'') probes)
       \<and> distinct (concat batches) \<and> batches \<noteq> [] \<and> (\<forall>token \<in> set (concat batches). may_enable node inspection (sr_source_address source) token
         \<and> found_disabled node esettings inspection discovery token)
       \<and> l_actions db' = l_actions db @ [action] \<and> a_action_id action = pc_action_id call \<and> a_status action = ''PREPARED''
       \<and> l_txs db' = l_txs db @ rows \<and> stored_as (pc_action_id call) intents rows
       \<and> prepared_items db' action ''enable_tokens'' tx_index = Some items
       \<and> enable_explained node esettings inspection auction (effective_gas_cap txn_max_gas_limit settings) items batches intents)"
  by (rule enable_action_explained [OF assms])

definition sample_enable_node :: enable_node where
  "sample_enable_node = \<lparr>en_isaddr = (\<lambda>_. True), en_checksum = id, en_version = (\<lambda>_. Inr ''1.0.5''),
     en_auction_governance = (\<lambda>_. Inr REQUIRED_GOVERNANCE_ADDRESS), en_auction_want = (\<lambda>_. Inr ''0xw''),
     en_auction_receiver = (\<lambda>_. Inr ''0xs''), en_enabled_auctions = (\<lambda>_. Inr []), en_all_auctions = (\<lambda>_. Inr [''0xa'']),
     en_strategy_want = (\<lambda>_. Inr ''0xw''), en_strategy_name = (\<lambda>_. Inr None), en_rewards_token = (\<lambda>_ _. Inl (RuntimeError [])),
     en_is_spender = (\<lambda>_ _. Inr False), en_approvals = (\<lambda>_ _. Inr []), en_symbol = (\<lambda>_. Inr Symbol_Missing), en_decode_bytes = id,
     en_decimals = (\<lambda>_. Inr 2), en_balance = (\<lambda>_ _. Inr 500), en_enable_call = (\<lambda>_ _ _. Inr ()), en_token_scaler = (\<lambda>_ _. Inr 0),
     en_aggregate_tokens = (\<lambda>_ _ _. Inr []), en_decode_scaler = (\<lambda>_. Inr 0), en_owner = (\<lambda>_. Inr ''0xo''),
     en_keeper = (\<lambda>_ _. Inr False), en_encode_enable = (\<lambda>_ _ _. ''0x05''), en_enable_tokens_call = (\<lambda>_ _ _ _. Inr ()),
     en_enable_tokens_gas = (\<lambda>_ _ _ tokens. Inr (100000 * int (length tokens - 1)))\<rparr>"

definition sample_enable_settings :: enable_settings where
  "sample_enable_settings = \<lparr>es_fee_burners = [], es_kicker_address = Some ''0xk'', es_multicall_enabled = False,
     es_multicall_address = None, es_batch_calls = 100, es_rewards_index_max = 16\<rparr>"

definition sample_probes :: "token_probe list" where
  "sample_probes = map (\<lambda>token. probe_of token [''core_reward_token''] None (Some 2) (Some 500) (Some ''5'') ''eligible'' None)
     (sorted_set CORE_REWARD_TOKENS)"

text \<open>The decimal division is evaluated once, apart from the rest.\<close>

lemma sample_probe_balance:
  "probe_balance sample_enable_node inspection holder token origins symbol
     = Inr (probe_of token origins symbol (Some 2) (Some 500) (Some ''5'') ''eligible'' None)"
  by (simp add: probe_balance_def sample_enable_node_def sample_to_decimal)

definition sample_enable_inspection :: enable_inspection where
  "sample_enable_inspection = \<lparr>ei_auction_address = ''0xa'', ei_governance = REQUIRED_GOVERNANCE_ADDRESS, ei_want = ''0xw'',
     ei_receiver = ''0xs'', ei_version = Some ''1.0.5'', ei_in_configured_factory = True, ei_governance_matches_required = True,
     ei_enabled_tokens = []\<rparr>"

definition sample_source :: source_resolution where
  "sample_source = \<lparr>sr_source_type = ''strategy'', sr_source_address = ''0xs'', sr_source_name = None, sr_warnings = []\<rparr>"

definition sample_discovery :: token_discovery where
  "sample_discovery = \<lparr>td_tokens_by_address = map (\<lambda>token. (token, [''core_reward_token''])) CORE_REWARD_TOKENS, td_notes = []\<rparr>"

lemma sample_enable_steps:
  "inspect_auction sample_enable_node ''0xa'' = Inr sample_enable_inspection"
  "resolve_source sample_enable_node sample_enable_settings sample_enable_inspection = Inr sample_source"
  "discover_tokens sample_enable_node sample_enable_settings None sample_enable_inspection sample_source [] = Inr sample_discovery"
  by code_simp+

lemma sample_probe_tokens:
  "probe_tokens sample_enable_node sample_enable_settings sample_enable_inspection sample_source sample_discovery = Inr sample_probes"
proof -
  let ?discovered = "sorted_set (map fst (td_tokens_by_address sample_discovery))"
  have discovered: "?discovered = sorted_set CORE_REWARD_TOKENS" by code_simp
  have state: "read_token_enabled_many sample_enable_node sample_enable_settings (ei_auction_address sample_enable_inspection)
      (filter (\<lambda>token. token \<noteq> ei_want sample_enable_inspection \<and> token \<notin> set (ei_enabled_tokens sample_enable_inspection)) (sorted_set CORE_REWARD_TOKENS))
      = Inr (map (\<lambda>token. (token, Some False)) (sorted_set CORE_REWARD_TOKENS))" by code_simp
  have each: "\<forall>token \<in> set (sorted_set CORE_REWARD_TOKENS). token \<noteq> ei_want sample_enable_inspection
      \<and> map_of (td_tokens_by_address sample_discovery) token = Some [''core_reward_token'']
      \<and> map_of (map (\<lambda>token. (token, Some False)) (sorted_set CORE_REWARD_TOKENS)) token \<noteq> Some (Some True)" by code_simp
  have origins: "sorted_set [''core_reward_token''] = [''core_reward_token'']" by (simp add: sorted_set_def)
  have symbol: "read_token_symbol sample_enable_node token = None" for token by (simp add: read_token_symbol_def sample_enable_node_def)
  have none: "ei_enabled_tokens sample_enable_inspection = []" by (simp add: sample_enable_inspection_def)
  show ?thesis unfolding probe_tokens_def Let_def state err_bind.simps discovered sample_probes_def
    by (rule traverse_err_total) (use each in \<open>simp add: probe_token_def sample_probe_balance origins symbol none\<close>)
qed

lemma sample_enable_eligible:
  "case enable_eligible sample_enable_node sample_enable_settings sample_settings sample_call ''0xa'' (Some ''0xo'') [] (Some 50000) []
      (sample_enable_inspection, sample_source, sample_discovery, sample_probes) empty_ledger of
     Inl _ \<Rightarrow> False | Inr (db, response) \<Rightarrow> pr_status response = ''ok'' \<and> length (l_txs db) = 2"
  by code_simp

lemma sample_enable_action:
  "case prepare_enable_tokens_action sample_enable_node sample_enable_settings None (Inr []) sample_settings sample_call ''0xa'' (Some ''0xo'')
      [] (Some 50000) empty_ledger of Inl _ \<Rightarrow> False | Inr (db, response) \<Rightarrow> pr_status response = ''ok'' \<and> length (l_txs db) = 2"
proof -
  have "normalize_address (en_isaddr sample_enable_node) ''0xa'' = Inr ''0xa''"
    "resolve_enable_tokens_auction_alias sample_enable_node sample_enable_settings (Inr []) ''0xa'' = Inr None" by code_simp+
  then show ?thesis using sample_enable_eligible
    by (simp add: prepare_enable_tokens_action_def enable_probes_def sample_enable_steps sample_probe_tokens catch_runtime_def)
qed

theorem prepared_enable_action_explained_witness:
  "\<exists>db response action intents. prepare_enable_tokens_action sample_enable_node sample_enable_settings None (Inr []) sample_settings sample_call
      ''0xa'' (Some ''0xo'') [] (Some 50000) empty_ledger = Inr (db, response)
     \<and> l_actions db = [action] \<and> a_status action = ''PREPARED'' \<and> stored_as ''id'' intents (l_txs db) \<and> length (l_txs db) = 2"
proof -
  obtain db response where prepared: "prepare_enable_tokens_action sample_enable_node sample_enable_settings None (Inr []) sample_settings
      sample_call ''0xa'' (Some ''0xo'') [] (Some 50000) empty_ledger = Inr (db, response)" "pr_status response = ''ok''" "length (l_txs db) = 2"
    using sample_enable_action by (auto split: sum.splits)
  have empty: "l_actions empty_ledger = []" "l_txs empty_ledger = []" "pc_action_id sample_call = ''id''"
    by (simp_all add: empty_ledger_def sample_call_def)
  from prepared_enable_action_explained [OF prepared(1), of 0]
  obtain action intents rows where "l_actions db = [action]" "a_status action = ''PREPARED''" "l_txs db = rows" "stored_as ''id'' intents rows"
    unfolding prepared(2) empty append_Nil by auto
  with prepared show ?thesis by blast
qed

end
