(* ===== verification/AlertService.thy ===== *)
theory AlertService
  imports Shortlist AlertDispatch KickPlan Json
begin

text \<open>
  \<open>alerts/service.py\<close> and \<open>automation_scope.py\<close>: the operational alerts derived from the round history,
  the scan runs and the scan errors, and the notifications they raise. \<open>datetime.now\<close> and
  \<open>json.loads\<close> of a stored quote are fields of the environment; texts are UTF-8 bytes.
\<close>

section \<open>Automation scope\<close>

type_synonym pair_key = "string \<times> string \<times> string \<times> string"

record scan_run =
  sn_run_id :: string
  sn_started_at :: string
  sn_finished_at :: "string option"
  sn_status :: string

record scan_error =
  se_id :: int
  se_run_id :: string
  se_source_type :: "string option"
  se_source_address :: "string option"
  se_token_address :: "string option"
  se_stage :: string
  se_error_code :: string
  se_created_at :: string

record alert_env =
  al_isaddr :: "string \<Rightarrow> bool"
  al_kicks :: "kick_tx list"
  al_tables :: scan_tables
  al_scan_runs :: "scan_run list"
  al_scan_errors :: "scan_error list"
  al_retry_delays_minutes :: "int list"
  al_ignore_policy :: ignore_policy
  al_usd_threshold :: rat
  al_data_freshness_seconds :: int
  al_scan_stale_minutes :: int
  al_chain_id :: int
  al_clock :: instant
  al_loads :: "string \<Rightarrow> json option"

definition pair_key_of :: "(string \<Rightarrow> bool) \<Rightarrow> string \<Rightarrow> string \<Rightarrow> string \<Rightarrow> string \<Rightarrow> pair_key result" where
  "pair_key_of isaddr source_type source auction token =
     err_bind (normalize_address isaddr source) (\<lambda>source. err_bind (normalize_address isaddr auction) (\<lambda>auction.
     err_bind (normalize_address isaddr token) (\<lambda>token. Inr (source_type, source, auction, token))))"

definition current_automation_pairs :: "alert_env \<Rightarrow> pair_key list result" where
  "current_automation_pairs env =
     err_bind (build_shortlist (al_isaddr env) (al_clock env) (al_tables env)
       \<lparr>rq_usd_threshold = al_usd_threshold env, rq_max_data_age_seconds = al_data_freshness_seconds env, rq_source_type = None,
        rq_source_address = None, rq_auction_address = None, rq_token_address = None, rq_limit = None, rq_ignore_policy = None,
        rq_cooldown_policy = None, rq_kick_tx_repository = None, rq_no_fill_guard = None, rq_allow_exhausted_retry = False\<rparr>) (\<lambda>shortlist.
     traverse_err (\<lambda>c. pair_key_of (al_isaddr env) (ca_source_type c) (ca_source_address c) (ca_auction_address c) (ca_token_address c))
       (filter (\<lambda>c. ignore_match (al_isaddr env) (al_ignore_policy env) (ca_source_address c) (ca_auction_address c) (ca_token_address c) = None)
         (sl_eligible shortlist)))"

definition first_text :: "string option list \<Rightarrow> string" where
  "first_text columns = (case filter (\<lambda>column. column \<noteq> None \<and> column \<noteq> Some []) columns of Some t # _ \<Rightarrow> t | _ \<Rightarrow> [])"

definition pair_in_automation_scope :: "alert_env \<Rightarrow> pair_key list \<Rightarrow> kick_tx \<Rightarrow> bool result" where
  "pair_in_automation_scope env current_pairs operation =
     (let source_type = first_text [k_source_type operation];
          source_address = first_text [k_source_address operation, k_strategy_address operation] in
      if source_address = [] then Inr False
      else err_bind (pair_key_of (al_isaddr env) source_type source_address (k_auction_address operation) (k_token_address operation)) (\<lambda>key.
        if key \<notin> set current_pairs then Inr False
        else
          let table = (if source_type = ''strategy'' then st_strategies (al_tables env) else st_fee_burners (al_tables env)) in
          case find (\<lambda>row. so_address row = source_address) table of
            None \<Rightarrow> Inr False
          | Some row \<Rightarrow>
              let mapped = first_text [so_auction_address row] in
              if so_active row \<noteq> 1 \<or> mapped = [] then Inr False
              else err_bind (normalize_address (al_isaddr env) mapped) (\<lambda>mapped.
                err_bind (normalize_address (al_isaddr env) (k_auction_address operation)) (\<lambda>auction. Inr (mapped = auction)))))"

section \<open>Texts\<close>

definition parse_time :: "string option \<Rightarrow> instant option" where
  "parse_time value = Option.bind value read_instant"

text \<open>\<open>text.split()\<close>\<close>

fun split_words :: "string \<Rightarrow> string \<Rightarrow> string list" where
  "split_words word [] = (if word = [] then [] else [word])"
| "split_words word (c # cs) =
     (if is_space c then (if word = [] then split_words [] cs else word # split_words [] cs) else split_words (word @ [c]) cs)"

definition compact_label :: "string option \<Rightarrow> string option" where
  "compact_label value =
     (let label = take 24 (join_str '' '' (split_words [] (case value of None \<Rightarrow> [] | Some v \<Rightarrow> v)))
      in if label = [] then None else Some label)"

text \<open>Rounded half to even at two places; the sign is that of the number.\<close>

definition dec_cents :: "dec \<Rightarrow> nat" where
  "dec_cents x =
     (let c = \<bar>dec_coef x\<bar>; e = dec_exp x + 2 in nat (if 0 \<le> e then c * 10 ^ nat e else div_half_even c (10 ^ nat (- e))))"

definition format_decimal :: "dec \<Rightarrow> string" where
  "format_decimal x = (if dec_coef x < 0 then ''-'' else []) @ show_int_commas (int (dec_cents x div 100)) @ ''.'' @ pad_digits 2 (dec_cents x mod 100)"

definition format_number :: "string option \<Rightarrow> string option" where
  "format_number value = map_option format_decimal (Option.bind value dec_of_string)"

definition utf8 :: "nat list \<Rightarrow> string" where
  "utf8 bytes = map char_of bytes"

definition outcome_value :: "round_outcome \<Rightarrow> string" where
  "outcome_value outcome = (case outcome of NO_FILL \<Rightarrow> ''NO_FILL'' | PRODUCTIVE \<Rightarrow> ''PRODUCTIVE'' | INCOMPLETE \<Rightarrow> ''INCOMPLETE''
     | UNKNOWN \<Rightarrow> ''UNKNOWN'')"

definition action_value :: "no_fill_action \<Rightarrow> string" where
  "action_value action = (case action of ALLOW \<Rightarrow> ''ALLOW'' | DEFER \<Rightarrow> ''DEFER'' | BLOCK \<Rightarrow> ''BLOCK'')"

definition reason_value :: "no_fill_reason \<Rightarrow> string" where
  "reason_value reason = (case reason of INITIAL \<Rightarrow> ''INITIAL'' | PRODUCTIVE_RESET \<Rightarrow> ''PRODUCTIVE_RESET'' | RETRY_DUE \<Rightarrow> ''RETRY_DUE''
     | RETRY_NOT_DUE \<Rightarrow> ''RETRY_NOT_DUE'' | RETRY_EXHAUSTED \<Rightarrow> ''RETRY_EXHAUSTED'' | OUTCOME_UNKNOWN \<Rightarrow> ''OUTCOME_UNKNOWN''
     | ROUND_INCOMPLETE \<Rightarrow> ''ROUND_INCOMPLETE'' | MANUAL_RETRY_OVERRIDE \<Rightarrow> ''MANUAL_RETRY_OVERRIDE'')"

section \<open>Items and messages\<close>

record alert_item =
  it_id :: string
  it_occurrence_id :: string
  it_kind :: string
  it_severity :: string
  it_status :: string
  it_title :: string
  it_summary :: string
  it_opened_at :: string
  it_updated_at :: string
  it_retry_at :: "string option"
  it_scope :: "(string \<times> json) list"
  it_evidence :: "(string \<times> json) list"
  it_links :: "(string \<times> string) list"
  it_next_action :: "(string \<times> string) list"

record alert_evaluation =
  av_evaluated_at :: string
  av_latest_successful_scan_at :: "string option"
  av_needs_action_count :: nat
  av_items :: "alert_item list"
  av_transitions :: "alert_message list"

definition text_entries :: "(string \<times> string) list \<Rightarrow> json" where
  "text_entries entries = JObj (map (\<lambda>(key, value). (key, JStr value)) entries)"

definition camel_item :: "alert_item \<Rightarrow> json" where
  "camel_item item = JObj [(''id'', JStr (it_id item)), (''occurrenceId'', JStr (it_occurrence_id item)), (''kind'', JStr (it_kind item)),
     (''severity'', JStr (it_severity item)), (''status'', JStr (it_status item)), (''title'', JStr (it_title item)),
     (''summary'', JStr (it_summary item)), (''openedAt'', JStr (it_opened_at item)), (''updatedAt'', JStr (it_updated_at item)),
     (''retryAt'', column_json (it_retry_at item)), (''scope'', JObj (it_scope item)), (''evidence'', JObj (it_evidence item)),
     (''links'', text_entries (it_links item)), (''nextAction'', text_entries (it_next_action item))]"

definition api_payload :: "alert_evaluation \<Rightarrow> json" where
  "api_payload evaluation = JObj [(''evaluatedAt'', JStr (av_evaluated_at evaluation)),
     (''latestSuccessfulScanAt'', column_json (av_latest_successful_scan_at evaluation)),
     (''needsActionCount'', JInt (int (av_needs_action_count evaluation))), (''items'', JList (map camel_item (av_items evaluation)))]"

definition message_of :: "alert_item \<Rightarrow> string \<Rightarrow> alert_message" where
  "message_of item delivery_key =
     \<lparr>am_delivery_key = delivery_key, am_occurrence_id = it_occurrence_id item, am_severity = it_severity item, am_title = it_title item,
      am_summary = it_summary item, am_retry_at = it_retry_at item, am_links = filter (\<lambda>value. value \<noteq> []) (map snd (it_links item))\<rparr>"

section \<open>Evidence\<close>

definition optional_int :: "int option \<Rightarrow> json" where
  "optional_int column = (case column of None \<Rightarrow> JNull | Some i \<Rightarrow> JInt i)"

definition no_providers :: json where
  "no_providers = JObj [(''entries'', JList []), (''spreadPct'', JNull)]"

text \<open>\<open>x.quantize(Decimal("0.01"))\<close>\<close>

definition quantize_cents :: "dec \<Rightarrow> dec result" where
  "quantize_cents x =
     (if dec_prec < num_digits (dec_cents x) then Inl (OtherException ''InvalidOperation'' [])
      else Inr (Dec (sgn (dec_coef x) * int (dec_cents x)) (- 2)))"

definition provider_amounts :: "(string \<times> json) list \<Rightarrow> dec list" where
  "provider_amounts entries = List.map_filter (\<lambda>(name, entry). case entry of
       JObj entry_fields \<Rightarrow> (case dec_of_string (json_str (json_get entry_fields ''amount_out'')) of
           Some d \<Rightarrow> if 0 < dec_coef d then Some d else None | None \<Rightarrow> None)
     | _ \<Rightarrow> None) entries"

definition provider_spread :: "dec list \<Rightarrow> json result" where
  "provider_spread amounts = (case amounts of
       a # b # rest \<Rightarrow>
         let high = foldl (\<lambda>x y. if dec_less x y then y else x) a (b # rest);
             low = foldl (\<lambda>x y. if dec_less y x then y else x) a (b # rest) in
         err_bind (dec_div (dec_sub high low) low) (\<lambda>ratio.
         err_bind (quantize_cents (dec_mul ratio (dec_of_int 100))) (\<lambda>pct. Inr (JStr (dec_str pct))))
     | _ \<Rightarrow> Inr JNull)"

definition provider_entry :: "string \<times> json \<Rightarrow> json option" where
  "provider_entry = (\<lambda>(name, entry). case entry of
       JObj entry_fields \<Rightarrow> Some (JObj [(''name'', JStr name), (''status'', json_get entry_fields ''status''), (''amountOut'', json_get entry_fields ''amount_out'')])
     | _ \<Rightarrow> None)"

definition provider_evidence :: "(string \<Rightarrow> json option) \<Rightarrow> string option \<Rightarrow> json result" where
  "provider_evidence loads raw = (case raw of None \<Rightarrow> Inr no_providers
     | Some raw \<Rightarrow> if raw = [] then Inr no_providers
       else (case loads raw of
           Some (JObj quote) \<Rightarrow> (case json_get quote ''providers'' of
               JObj providers \<Rightarrow>
                 let entries = sort_key fst providers in
                 err_bind (provider_spread (provider_amounts entries)) (\<lambda>spread.
                 Inr (JObj [(''entries'', JList (List.map_filter provider_entry entries)), (''spreadPct'', spread)]))
             | _ \<Rightarrow> Inr no_providers)
         | _ \<Rightarrow> Inr no_providers))"

text \<open>One round of the history, with the rows of its kick and close.\<close>

definition round_payload :: "alert_env \<Rightarrow> kick_tx list \<Rightarrow> round_evidence \<Rightarrow> json result" where
  "round_payload env rows evidence =
     (let row_of = (\<lambda>i. find (\<lambda>row. k_id row = i) rows);
          kick_row = row_of (ev_kick_id evidence); close_row = row_of (or_minus_one (ev_close_id evidence));
          detail = (\<lambda>column. Option.bind kick_row (\<lambda>row. column (k_detail row))) in
      err_bind (provider_evidence (al_loads env) (detail kd_quote_response_json)) (\<lambda>providers.
      Inr (JObj [(''kickId'', JInt (ev_kick_id evidence)), (''closeId'', optional_int (ev_close_id evidence)),
        (''outcome'', JStr (outcome_value (ev_outcome evidence))), (''reasonCode'', JStr (ev_reason_code evidence)),
        (''requestedAmount'', optional_int (ev_requested_amount evidence)), (''placedAmount'', optional_int (ev_placed_amount evidence)),
        (''recoveredAmount'', optional_int (ev_recovered_amount evidence)),
        (''kickAt'', column_json (map_option isoformat_utc (ev_kick_at evidence))),
        (''closeAt'', column_json (map_option isoformat_utc (ev_close_at evidence))),
        (''kickTxHash'', column_json (Option.bind kick_row k_tx_hash)), (''closeTxHash'', column_json (Option.bind close_row k_tx_hash)),
        (''minimumQuote'', column_json (detail kd_minimum_quote)), (''quoteAmount'', column_json (detail kd_quote_amount)),
        (''providers'', providers)])))"

section \<open>Auction retries\<close>

definition auction_retry_summary :: "alert_env \<Rightarrow> kick_tx \<Rightarrow> nat \<Rightarrow> string" where
  "auction_retry_summary env latest_kick no_fill_count =
     (let detail = k_detail latest_kick; arrow = '' '' @ utf8 [0xE2, 0x86, 0x92] @ '' ''; dot = '' '' @ utf8 [0xC2, 0xB7] @ '' '';
          token = row_with to_address (k_token_address latest_kick) (st_tokens (al_tables env));
          token_symbol = compact_label (Some (first_text [kd_token_symbol detail, Option.bind token to_symbol]));
          want_symbol = compact_label (kd_want_symbol detail);
          raw_amount = (case k_requested_sell_amount latest_kick of None \<Rightarrow> k_sell_amount latest_kick | Some a \<Rightarrow> Some a);
          normalized = (case (Option.bind raw_amount dec_of_string, token) of
              (Some raw, Some row) \<Rightarrow> (case dec_div raw (dec_ten_pow (nat (to_decimals row))) of Inr x \<Rightarrow> Some (format_decimal x) | Inl _ \<Rightarrow> None)
            | _ \<Rightarrow> None);
          amount = (case normalized of None \<Rightarrow> format_number (kd_normalized_balance detail) | Some a \<Rightarrow> Some a);
          sold = (case (amount, token_symbol) of (Some a, Some s) \<Rightarrow> [a @ '' '' @ s] | (None, Some s) \<Rightarrow> [s] | _ \<Rightarrow> []);
          pair = join_str arrow (sold @ (case want_symbol of None \<Rightarrow> [] | Some w \<Rightarrow> [w]));
          pair = (case format_number (kd_usd_value detail) of None \<Rightarrow> pair
            | Some usd \<Rightarrow> if pair = [] then ''$'' @ usd else pair @ dot @ ''$'' @ usd);
          state = show_nat no_fill_count @ '' no-fills'' @ dot @ ''automation paused''
      in if pair = [] then state else pair @ [char_of (10 :: nat)] @ state)"

definition first_some :: "'a option \<Rightarrow> 'a option \<Rightarrow> 'a option" where
  "first_some a b = (case a of None \<Rightarrow> b | Some x \<Rightarrow> Some x)"

definition wait_instruction :: string where
  "wait_instruction = ''Wait for the scheduled retry; no action is required.''"

definition auction_item ::
  "alert_env \<Rightarrow> string \<Rightarrow> string \<Rightarrow> kick_tx \<Rightarrow> no_fill_decision \<Rightarrow> string \<Rightarrow> string \<Rightarrow> string \<Rightarrow> string \<Rightarrow> string option
     \<Rightarrow> string option \<Rightarrow> alert_item result" where
  "auction_item env item_id occurrence_id latest_kick decision severity status title summary retry_at next_command =
     (let rounds = rs_rounds (nf_sequence decision);
          rows = list_pair_operations (al_kicks env) (nf_auction_address decision) (nf_token_address decision);
          anchor = (case filter (\<lambda>r. ev_outcome r = NO_FILL) rounds of newest # _ \<Rightarrow> Some newest
            | [] \<Rightarrow> (case rounds of latest # _ \<Rightarrow> Some latest | [] \<Rightarrow> None));
          opened = isoformat_utc (case Option.bind anchor (\<lambda>r. first_some (ev_close_at r) (ev_kick_at r)) of Some t \<Rightarrow> t | None \<Rightarrow> al_clock env);
          kick_id = (case rounds of latest # _ \<Rightarrow> ev_kick_id latest | [] \<Rightarrow> k_id latest_kick);
          tx_hash = first_text [k_tx_hash latest_kick];
          source_address = (if k_source_address latest_kick \<in> {None, Some []} then k_strategy_address latest_kick
            else k_source_address latest_kick) in
      err_bind (traverse_err (round_payload env rows) (rev rounds)) (\<lambda>round_payloads.
      Inr \<lparr>it_id = item_id, it_occurrence_id = occurrence_id, it_kind = ''auction_retry'', it_severity = severity, it_status = status,
        it_title = title, it_summary = summary, it_opened_at = opened, it_updated_at = opened, it_retry_at = retry_at,
        it_scope = [(''sourceType'', column_json (k_source_type latest_kick)), (''sourceAddress'', column_json source_address),
          (''auctionAddress'', JStr (nf_auction_address decision)), (''tokenAddress'', JStr (nf_token_address decision)),
          (''kickId'', JInt kick_id)],
        it_evidence = [(''decision'', JStr (action_value (nf_action decision))), (''reasonCode'', JStr (reason_value (nf_reason_code decision))),
          (''consecutiveNoFills'', JInt (int (nf_consecutive_no_fills decision))),
          (''retryOrdinal'', optional_int (map_option int (nf_retry_ordinal decision))),
          (''retryTotal'', JInt (int (nf_retry_total decision))), (''rounds'', JList round_payloads)],
        it_links = [(''logs'', ''/logs?kick_id='' @ show_int kick_id),
          (''etherscan'', if tx_hash = [] then [] else ''https://etherscan.io/tx/'' @ tx_hash),
          (''auctionScan'', ''https://auctionscan.info/auction/'' @ show_int (al_chain_id env) @ ''/'' @ nf_auction_address decision)],
        it_next_action = (case next_command of
            None \<Rightarrow> [(''instruction'', wait_instruction)]
          | Some command \<Rightarrow> [(''instruction'', ''Review the round evidence before a deliberate scoped retry.''), (''command'', command)])\<rparr>))"

text \<open>\<open>latest.close_id or latest.kick_id\<close>\<close>

definition anchor_id :: "round_evidence \<Rightarrow> int" where
  "anchor_id evidence = (case ev_close_id evidence of None \<Rightarrow> ev_kick_id evidence | Some i \<Rightarrow> if i = 0 then ev_kick_id evidence else i)"

definition retry_item_id :: "string \<Rightarrow> string \<Rightarrow> string" where
  "retry_item_id auction token = ''auction_retry:'' @ auction @ '':'' @ token"

definition unknown_alert ::
  "alert_env \<Rightarrow> string \<Rightarrow> string \<Rightarrow> kick_tx \<Rightarrow> no_fill_decision \<Rightarrow> round_evidence \<Rightarrow> (alert_item \<times> alert_message option) result" where
  "unknown_alert env auction token latest_kick decision latest =
     err_bind (auction_item env (retry_item_id auction token) (retry_item_id auction token @ '':'' @ show_int (anchor_id latest)) latest_kick decision
       ''warning'' ''needs_action'' ''Auction outcome needs review''
       (''Canonical round evidence is ambiguous ('' @ ev_reason_code latest @ ''). Automation is paused.'') None None) (\<lambda>item.
     Inr (item, Some (message_of item (''auction_unknown:'' @ show_int (anchor_id latest)))))"

definition no_fill_alert ::
  "alert_env \<Rightarrow> string \<Rightarrow> string \<Rightarrow> kick_tx \<Rightarrow> no_fill_decision \<Rightarrow> round_evidence \<Rightarrow> (alert_item \<times> alert_message option) result" where
  "no_fill_alert env auction token latest_kick decision latest =
     (let oldest = last (filter (\<lambda>r. ev_outcome r = NO_FILL) (rs_rounds (nf_sequence decision)));
          item_id = retry_item_id auction token; occurrence_id = item_id @ '':'' @ show_int (anchor_id oldest) in
      if nf_reason_code decision = RETRY_EXHAUSTED
      then err_bind (auction_item env item_id occurrence_id latest_kick decision ''high'' ''needs_action'' ''Auction retry budget exhausted''
          (auction_retry_summary env latest_kick (nf_consecutive_no_fills decision)) None
          (Some (''tidal kick run --auction '' @ auction @ '' --token '' @ token @ '' --allow-no-fill-retry''))) (\<lambda>item.
        Inr (item, Some (message_of item (''auction_retry_exhausted:'' @ show_int (ev_kick_id latest)))))
      else err_bind (auction_item env item_id occurrence_id latest_kick decision ''info'' ''watching''
          (''Auction retry '' @ (case nf_retry_ordinal decision of None \<Rightarrow> ''None'' | Some n \<Rightarrow> show_nat n) @ '' of ''
            @ show_nat (nf_retry_total decision) @ '' scheduled'')
          ''A confirmed no-fill entered bounded retry backoff.'' (map_option isoformat_utc (nf_retry_at decision)) None) (\<lambda>item.
        Inr (item, None)))"

definition latest_live_kick :: "kick_tx list \<Rightarrow> kick_tx option" where
  "latest_live_kick rows = find (\<lambda>row. k_operation_type row = ''kick'' \<and> k_status row \<in> {''CONFIRMED'', ''SUBMITTED''}) (rev rows)"

definition decision_alert ::
  "alert_env \<Rightarrow> string \<Rightarrow> string \<Rightarrow> kick_tx \<Rightarrow> no_fill_decision \<Rightarrow> (alert_item \<times> alert_message option) option result" where
  "decision_alert env auction token latest_kick decision = (case rs_rounds (nf_sequence decision) of
       [] \<Rightarrow> Inr None
     | latest # _ \<Rightarrow> (case ev_outcome latest of
         PRODUCTIVE \<Rightarrow> Inr None
       | INCOMPLETE \<Rightarrow> Inr None
       | UNKNOWN \<Rightarrow> err_bind (unknown_alert env auction token latest_kick decision latest) (\<lambda>alert. Inr (Some alert))
       | NO_FILL \<Rightarrow> err_bind (no_fill_alert env auction token latest_kick decision latest) (\<lambda>alert. Inr (Some alert))))"

definition pair_alert ::
  "alert_env \<Rightarrow> instant \<Rightarrow> pair_key list \<Rightarrow> string \<times> string \<Rightarrow> (alert_item \<times> alert_message option) option result" where
  "pair_alert env now current_pairs = (\<lambda>(auction, token).
     case latest_live_kick (list_pair_operations (al_kicks env) auction token) of
       None \<Rightarrow> Inr None
     | Some latest_kick \<Rightarrow>
         err_bind (pair_in_automation_scope env current_pairs latest_kick) (\<lambda>in_scope.
         if \<not> in_scope then Inr None
         else err_bind (no_fill_guard_decide (al_isaddr env) (al_retry_delays_minutes env) (al_clock env) (al_kicks env) auction token
             (Some now) False) (\<lambda>decision.
           decision_alert env auction token latest_kick decision)))"

definition kicked_pairs :: "alert_env \<Rightarrow> (string \<times> string) list result" where
  "kicked_pairs env =
     err_bind (traverse_err (\<lambda>row. err_bind (normalize_address (al_isaddr env) (k_auction_address row)) (\<lambda>auction.
         err_bind (normalize_address (al_isaddr env) (k_token_address row)) (\<lambda>token. Inr (auction, token))))
       (list_confirmed_kicks (al_kicks env))) (\<lambda>pairs. Inr (sorted_set pairs))"

definition auction_retry_items :: "alert_env \<Rightarrow> instant \<Rightarrow> (alert_item \<times> alert_message option) list result" where
  "auction_retry_items env now =
     err_bind (kicked_pairs env) (\<lambda>pairs.
     if pairs = [] then Inr []
     else err_bind (current_automation_pairs env) (\<lambda>current_pairs.
       err_bind (traverse_err (pair_alert env now current_pairs) pairs) (\<lambda>alerts. Inr (List.map_filter id alerts))))"

section \<open>Scan health\<close>

definition completed_runs :: "scan_run list \<Rightarrow> scan_run list" where
  "completed_runs runs = sort_desc sn_started_at (filter (\<lambda>run. sn_status run \<noteq> ''RUNNING'') runs)"

definition finished_or_started :: "scan_run \<Rightarrow> string" where
  "finished_or_started run = first_text [sn_finished_at run, Some (sn_started_at run)]"

definition scan_unhealthy :: "alert_env \<Rightarrow> instant \<Rightarrow> (alert_item \<times> alert_message option) option \<times> string option" where
  "scan_unhealthy env now =
     (let completed = completed_runs (al_scan_runs env);
          successful = find (\<lambda>run. sn_status run = ''SUCCESS'') completed;
          latest_success_at = (case Option.bind successful sn_finished_at of None \<Rightarrow> None | Some t \<Rightarrow> if t = [] then None else Some t);
          latest = (case completed of [] \<Rightarrow> None | run # _ \<Rightarrow> Some run);
          failed = (case latest of Some run \<Rightarrow> if sn_status run = ''FAILED'' then Some run else None | None \<Rightarrow> None);
          stale = (case parse_time latest_success_at of None \<Rightarrow> True
            | Some t \<Rightarrow> t + al_scan_stale_minutes env * usec_per_minute < now) in
      if failed = None \<and> \<not> stale then (None, latest_success_at)
      else
        let anchor = (case (failed, successful) of (Some run, _) \<Rightarrow> sn_run_id run | (None, Some run) \<Rightarrow> sn_run_id run | (None, None) \<Rightarrow> ''missing'');
            item_id = ''scan_unhealthy:scanner'';
            item = \<lparr>it_id = item_id, it_occurrence_id = item_id @ '':'' @ anchor, it_kind = ''scan_unhealthy'', it_severity = ''critical'',
              it_status = ''needs_action'', it_title = (if failed \<noteq> None then ''Scanner run failed'' else ''Scanner data is stale''),
              it_summary = (if failed \<noteq> None then ''The latest scanner run failed; cached operational state may be incomplete.''
                else ''No successful scan completed within '' @ show_int (al_scan_stale_minutes env) @ '' minutes.''),
              it_opened_at = (case failed of Some run \<Rightarrow> finished_or_started run
                | None \<Rightarrow> (case latest_success_at of Some t \<Rightarrow> t | None \<Rightarrow> isoformat_utc now)),
              it_updated_at = (case latest of Some run \<Rightarrow> finished_or_started run | None \<Rightarrow> isoformat_utc now), it_retry_at = None,
              it_scope = [(''runId'', column_json (map_option sn_run_id latest))],
              it_evidence = [(''latestStatus'', column_json (map_option sn_status latest)),
                (''latestSuccessfulScanAt'', column_json latest_success_at), (''staleAfterMinutes'', JInt (al_scan_stale_minutes env))],
              it_links = [(''logs'', if anchor = ''missing'' then ''/logs'' else ''/logs?run_id='' @ anchor)],
              it_next_action = [(''instruction'', ''Inspect scanner logs and restore successful scans.'')]\<rparr>
        in (Some (item, map_option (\<lambda>run. message_of item (''scan_failed:'' @ sn_run_id run)) failed), latest_success_at))"

section \<open>Repeated scan failures\<close>

type_synonym error_identity = "string option list"

definition identity_of :: "scan_error \<Rightarrow> error_identity" where
  "identity_of row = [se_source_type row, se_source_address row, se_token_address row, Some (se_stage row), Some (se_error_code row)]"

definition run_errors :: "scan_error list \<Rightarrow> string \<Rightarrow> (error_identity \<times> scan_error) list" where
  "run_errors errors run_id = fold (\<lambda>row. dict_set (identity_of row) row)
     (filter (\<lambda>row. se_run_id row = run_id \<and> se_stage row \<noteq> ''PRICE_READ'') errors) []"

definition finished_scans :: "scan_run list \<Rightarrow> scan_run list" where
  "finished_scans runs = sort_desc sn_started_at (filter (\<lambda>run. sn_status run \<in> {''SUCCESS'', ''PARTIAL_SUCCESS''}) runs)"

text \<open>The oldest error of the unbroken run of scans, from the newest back.\<close>

fun oldest_in_streak :: "error_identity \<Rightarrow> scan_error \<Rightarrow> (error_identity \<times> scan_error) list list \<Rightarrow> scan_error" where
  "oldest_in_streak ident oldest [] = oldest"
| "oldest_in_streak ident oldest (errors # rest) =
     (case map_of errors ident of None \<Rightarrow> oldest | Some matching \<Rightarrow> oldest_in_streak ident matching rest)"

definition identity_key :: "error_identity \<Rightarrow> string list" where
  "identity_key ident = map (\<lambda>value. case value of None \<Rightarrow> [] | Some v \<Rightarrow> v) ident"

definition scope_key :: "error_identity \<Rightarrow> string" where
  "scope_key ident = join_str '':'' (map (\<lambda>value. case value of None \<Rightarrow> ''-'' | Some v \<Rightarrow> if v = [] then ''-'' else v) ident)"

definition repeated_item :: "scan_run list \<Rightarrow> error_identity \<Rightarrow> scan_error \<Rightarrow> scan_error \<Rightarrow> alert_item" where
  "repeated_item runs ident newest oldest =
     (let item_id = ''scan_item_repeated_failure:'' @ scope_key ident in
      \<lparr>it_id = item_id, it_occurrence_id = item_id @ '':'' @ show_int (se_id oldest), it_kind = ''scan_item_repeated_failure'',
       it_severity = ''warning'', it_status = ''needs_action'', it_title = ''Scan item failed three runs in a row'',
       it_summary = se_stage newest @ '' continues to fail with '' @ se_error_code newest @ ''.'', it_opened_at = se_created_at oldest,
       it_updated_at = se_created_at newest, it_retry_at = None,
       it_scope = [(''sourceType'', column_json (se_source_type newest)), (''sourceAddress'', column_json (se_source_address newest)),
         (''tokenAddress'', column_json (se_token_address newest)), (''runId'', JStr (se_run_id newest))],
       it_evidence = [(''stage'', JStr (se_stage newest)), (''errorCode'', JStr (se_error_code newest)),
         (''runIds'', JList (map (JStr \<circ> sn_run_id) (rev (take 3 runs))))],
       it_links = [(''logs'', ''/logs?run_id='' @ se_run_id newest)],
       it_next_action = [(''instruction'', ''Inspect the repeated item failure and correct its source.'')]\<rparr>)"

definition repeated_identities :: "(error_identity \<times> scan_error) list list \<Rightarrow> error_identity list" where
  "repeated_identities errors = (case errors of
       first # second # third # _ \<Rightarrow> sort_key identity_key
         (filter (\<lambda>ident. map_of second ident \<noteq> None \<and> map_of third ident \<noteq> None) (map fst first))
     | _ \<Rightarrow> [])"

definition errors_by_run :: "alert_env \<Rightarrow> (error_identity \<times> scan_error) list list" where
  "errors_by_run env = map (\<lambda>run. run_errors (al_scan_errors env) (sn_run_id run)) (finished_scans (al_scan_runs env))"

definition repeated_alert :: "alert_env \<Rightarrow> error_identity \<Rightarrow> (alert_item \<times> alert_message) option" where
  "repeated_alert env ident = (case map_of (hd (errors_by_run env)) ident of
       None \<Rightarrow> None
     | Some newest \<Rightarrow>
         let item = repeated_item (finished_scans (al_scan_runs env)) ident newest (oldest_in_streak ident newest (errors_by_run env))
         in Some (item, message_of item (''scan_item_repeated:'' @ it_occurrence_id item)))"

definition repeated_scan_failures :: "alert_env \<Rightarrow> (alert_item \<times> alert_message) list" where
  "repeated_scan_failures env = List.map_filter (repeated_alert env) (repeated_identities (errors_by_run env))"

section \<open>The evaluation\<close>

definition severity_rank :: "string \<Rightarrow> nat" where
  "severity_rank severity = (case map_of [(''critical'', 0), (''high'', 1), (''warning'', 2), (''info'', 3)] severity of None \<Rightarrow> 9 | Some n \<Rightarrow> n)"

definition alert_sort_key :: "alert_item \<Rightarrow> nat \<times> nat \<times> string \<times> string" where
  "alert_sort_key item = (if it_status item = ''needs_action'' then 0 else 1, severity_rank (it_severity item),
     first_text [it_retry_at item, Some (it_opened_at item)], it_id item)"

definition evaluate_alerts :: "alert_env \<Rightarrow> instant option \<Rightarrow> alert_evaluation result" where
  "evaluate_alerts env now =
     (let current = (case now of None \<Rightarrow> al_clock env | Some t \<Rightarrow> t) in
      err_bind (auction_retry_items env current) (\<lambda>auctions.
      let (scan, latest_success) = scan_unhealthy env current;
          repeated = map (\<lambda>(item, message). (item, Some message)) (repeated_scan_failures env);
          alerts = auctions @ some_list scan @ repeated;
          items = sort_key alert_sort_key (map fst alerts)
      in Inr \<lparr>av_evaluated_at = isoformat_utc current, av_latest_successful_scan_at = latest_success,
           av_needs_action_count = length (filter (\<lambda>item. it_status item = ''needs_action'') items), av_items = items,
           av_transitions = List.map_filter snd alerts\<rparr>))"

section \<open>What an auction alert says\<close>

lemma auction_item_Inr:
  assumes "auction_item env item_id occurrence_id latest_kick decision severity status title summary retry_at next_command = Inr item"
  shows "it_id item = item_id" "it_occurrence_id item = occurrence_id" "it_status item = status" "it_severity item = severity"
    "it_retry_at item = retry_at" "map_of (it_next_action item) ''instruction'' = Some wait_instruction \<longleftrightarrow> next_command = None"
  using assms by (auto simp: auction_item_def Let_def err_simps wait_instruction_def split: option.splits)

lemma guard_sequence:
  assumes "no_fill_guard_decide isaddr delays clock table auction token now allow = Inr decision"
  obtains rounds where "rs_rounds (nf_sequence decision) = takeWhile is_no_fill rounds @ take 1 (dropWhile is_no_fill rounds)"
    "(nf_action decision, nf_reason_code decision, nf_retry_ordinal decision, nf_retry_at decision)
       = guard_verdict delays (case now of None \<Rightarrow> clock | Some t \<Rightarrow> t) allow rounds"
proof -
  obtain rounds where rounds: "isaddr auction" "isaddr token"
    "current_pair_rounds isaddr (list_pair_operations table (str_lower auction) (str_lower token)) = Inr rounds"
    "(nf_action decision, nf_reason_code decision, nf_retry_ordinal decision, nf_retry_at decision)
       = guard_verdict delays (case now of None \<Rightarrow> clock | Some t \<Rightarrow> t) allow rounds"
    using assms by (rule no_fill_guard_Inr)
  moreover have "rs_rounds (nf_sequence decision) = takeWhile is_no_fill rounds @ take 1 (dropWhile is_no_fill rounds)"
    using assms unfolding no_fill_guard_verdict [OF rounds(1-3)]
    by (auto simp: no_fill_decision_of_def Let_def sequence_loop_run split: prod.splits)
  ultimately show thesis using that by blast
qed

lemma guard_unknown:
  assumes "no_fill_guard_decide isaddr delays clock table auction token now allow = Inr decision" "rs_rounds (nf_sequence decision) = latest # older"
    and "ev_outcome latest = UNKNOWN"
  shows "nf_reason_code decision = OUTCOME_UNKNOWN" "nf_retry_at decision = None"
proof -
  obtain rounds where rounds: "rs_rounds (nf_sequence decision) = takeWhile is_no_fill rounds @ take 1 (dropWhile is_no_fill rounds)"
    "(nf_action decision, nf_reason_code decision, nf_retry_ordinal decision, nf_retry_at decision)
       = guard_verdict delays (case now of None \<Rightarrow> clock | Some t \<Rightarrow> t) allow rounds"
    using assms(1) by (rule guard_sequence)
  have "rounds \<noteq> []" using rounds(1) assms(2) by auto
  then obtain ev rest where ev: "rounds = ev # rest" by (cases rounds) auto
  then have "ev_outcome ev = UNKNOWN" using rounds(1) assms(2,3) by (auto split: if_splits)
  then show "nf_reason_code decision = OUTCOME_UNKNOWN" "nf_retry_at decision = None"
    using rounds(2) by (simp_all add: ev guard_verdict_def)
qed

lemma guard_exhausted:
  assumes "no_fill_guard_decide isaddr delays clock table auction token now allow = Inr decision" "nf_reason_code decision = RETRY_EXHAUSTED"
  shows "nf_retry_at decision = None"
proof -
  obtain rounds where "(nf_action decision, nf_reason_code decision, nf_retry_ordinal decision, nf_retry_at decision)
       = guard_verdict delays (case now of None \<Rightarrow> clock | Some t \<Rightarrow> t) allow rounds"
    using assms(1) by (rule guard_sequence)
  then show ?thesis using assms(2) by (auto simp: guard_verdict_def Let_def split: if_splits)
qed

lemma auction_alert_says:
  assumes "pair_alert env now pairs (auction, token) = Inr (Some (item, message))"
  shows "\<exists>kick decision latest older. latest_live_kick (list_pair_operations (al_kicks env) auction token) = Some kick
     \<and> pair_in_automation_scope env pairs kick = Inr True
     \<and> no_fill_guard_decide (al_isaddr env) (al_retry_delays_minutes env) (al_clock env) (al_kicks env) auction token (Some now) False
         = Inr decision
     \<and> rs_rounds (nf_sequence decision) = latest # older \<and> ev_outcome latest \<in> {NO_FILL, UNKNOWN}
     \<and> (message \<noteq> None \<longleftrightarrow> ev_outcome latest = UNKNOWN \<or> nf_reason_code decision = RETRY_EXHAUSTED)
     \<and> it_status item = (if message = None then ''watching'' else ''needs_action'')
     \<and> it_retry_at item = map_option isoformat_utc (nf_retry_at decision)
     \<and> (map_of (it_next_action item) ''instruction'' = Some wait_instruction \<longleftrightarrow> nf_reason_code decision \<noteq> RETRY_EXHAUSTED)"
proof -
  obtain kick decision where kick: "latest_live_kick (list_pair_operations (al_kicks env) auction token) = Some kick"
    "pair_in_automation_scope env pairs kick = Inr True"
    and decision: "no_fill_guard_decide (al_isaddr env) (al_retry_delays_minutes env) (al_clock env) (al_kicks env) auction token (Some now) False
         = Inr decision" and alert: "decision_alert env auction token kick decision = Inr (Some (item, message))"
    using assms by (auto simp: pair_alert_def err_simps split: option.splits if_splits)
  obtain latest older where rounds: "rs_rounds (nf_sequence decision) = latest # older"
    using alert by (cases "rs_rounds (nf_sequence decision)") (auto simp: decision_alert_def)
  show ?thesis
  proof (cases "ev_outcome latest")
    case UNKNOWN
    then have "unknown_alert env auction token kick decision latest = Inr (item, message)"
      using alert by (auto simp: decision_alert_def rounds err_simps)
    then have "message \<noteq> None" "it_status item = ''needs_action''" "it_retry_at item = None"
      "map_of (it_next_action item) ''instruction'' = Some wait_instruction"
      by (auto simp: unknown_alert_def err_simps auction_item_Inr)
    then show ?thesis
      using kick decision rounds UNKNOWN guard_unknown [OF decision rounds UNKNOWN] by auto
  next
    case NO_FILL
    then have "no_fill_alert env auction token kick decision latest = Inr (item, message)"
      using alert by (auto simp: decision_alert_def rounds err_simps)
    then have "message \<noteq> None \<longleftrightarrow> nf_reason_code decision = RETRY_EXHAUSTED" "it_status item = (if message = None then ''watching'' else ''needs_action'')"
      "it_retry_at item = (if nf_reason_code decision = RETRY_EXHAUSTED then None else map_option isoformat_utc (nf_retry_at decision))"
      "map_of (it_next_action item) ''instruction'' = Some wait_instruction \<longleftrightarrow> nf_reason_code decision \<noteq> RETRY_EXHAUSTED"
      by (auto simp: no_fill_alert_def Let_def err_simps auction_item_Inr split: if_splits)
    then show ?thesis using kick decision rounds NO_FILL guard_exhausted [OF decision] by auto
  qed (use alert in \<open>simp_all add: decision_alert_def rounds\<close>)
qed

section \<open>A continuing failure keeps its key\<close>

lemma sort_desc_newest:
  assumes "\<forall>x \<in> set xs. key x < key y"
  shows "sort_desc key (xs @ [y]) = y # sort_desc key xs"
proof -
  have "insort_key key y zs = zs @ [y]" if "\<forall>z \<in> set zs. key z < key y" for zs
    using that by (induction zs) auto
  then show ?thesis using assms by (simp add: sort_desc_def)
qed

lemma run_errors_append:
  "\<forall>row \<in> set new_errors. se_run_id row \<noteq> run_id \<Longrightarrow> run_errors (errors @ new_errors) run_id = run_errors errors run_id"
  by (simp add: run_errors_def filter_empty_conv)

lemma run_errors_keys: "fst ` set (run_errors errors run_id) = identity_of ` {row \<in> set errors. se_run_id row = run_id \<and> se_stage row \<noteq> ''PRICE_READ''}"
proof -
  have "fst ` set (fold (\<lambda>row. dict_set (identity_of row) row) rows d) = identity_of ` set rows \<union> fst ` set d" for rows d
    by (induction rows arbitrary: d) auto
  from this [of _ "[]"] show ?thesis by (auto simp: run_errors_def)
qed

lemma run_errors_has: "ident \<in> fst ` set (run_errors errors run_id) \<longleftrightarrow> map_of (run_errors errors run_id) ident \<noteq> None"
  by (metis map_of_eq_None_iff)

lemma repeated_identities_iff:
  "ident \<in> set (repeated_identities errors) \<longleftrightarrow> 3 \<le> length errors \<and> (\<forall>i < 3. map_of (errors ! i) ident \<noteq> None)"
proof (cases "\<exists>a b c rest. errors = a # b # c # rest")
  case True
  then obtain a b c rest where errors: "errors = a # b # c # rest" by blast
  have "ident \<in> fst ` set a \<longleftrightarrow> map_of a ident \<noteq> None" by (metis map_of_eq_None_iff)
  then show ?thesis by (auto simp: repeated_identities_def errors numeral_3_eq_3 less_Suc_eq)
next
  case False
  then have "length errors < 3" by (cases errors; cases "tl errors"; cases "tl (tl errors)") auto
  then show ?thesis using False by (auto simp: repeated_identities_def split: list.splits)
qed

lemma finished_scans_newest:
  assumes "sn_status run \<in> {''SUCCESS'', ''PARTIAL_SUCCESS''}" "\<forall>r \<in> set runs. sn_started_at r < sn_started_at run"
  shows "finished_scans (runs @ [run]) = run # finished_scans runs"
  using assms sort_desc_newest [of "filter (\<lambda>run. sn_status run \<in> {''SUCCESS'', ''PARTIAL_SUCCESS''}) runs" sn_started_at run]
  by (auto simp: finished_scans_def)

lemma set_finished_scans: "set (finished_scans runs) \<subseteq> set runs"
  by (auto simp: finished_scans_def)

text \<open>One more scan, newer than the others, with its errors.\<close>

definition next_scan :: "scan_run \<Rightarrow> scan_error list \<Rightarrow> alert_env \<Rightarrow> alert_env" where
  "next_scan run new_errors env = env\<lparr>al_scan_runs := al_scan_runs env @ [run], al_scan_errors := al_scan_errors env @ new_errors\<rparr>"

definition newer_scan :: "scan_run \<Rightarrow> scan_error list \<Rightarrow> alert_env \<Rightarrow> bool" where
  "newer_scan run new_errors env \<longleftrightarrow> sn_status run \<in> {''SUCCESS'', ''PARTIAL_SUCCESS''}
     \<and> (\<forall>r \<in> set (al_scan_runs env). sn_started_at r < sn_started_at run \<and> sn_run_id r \<noteq> sn_run_id run)
     \<and> (\<forall>row \<in> set new_errors. se_run_id row = sn_run_id run)"

lemma errors_by_next_run:
  assumes "newer_scan run new_errors env"
  shows "errors_by_run (next_scan run new_errors env) = run_errors (al_scan_errors env @ new_errors) (sn_run_id run) # errors_by_run env"
proof -
  have "run_errors (al_scan_errors env @ new_errors) (sn_run_id r) = run_errors (al_scan_errors env) (sn_run_id r)"
    if "r \<in> set (finished_scans (al_scan_runs env))" for r
  proof (rule run_errors_append)
    have "sn_run_id r \<noteq> sn_run_id run" using assms that set_finished_scans unfolding newer_scan_def by blast
    then show "\<forall>row \<in> set new_errors. se_run_id row \<noteq> sn_run_id r" using assms by (auto simp: newer_scan_def)
  qed
  moreover have "finished_scans (al_scan_runs env @ [run]) = run # finished_scans (al_scan_runs env)"
    using assms by (intro finished_scans_newest) (auto simp: newer_scan_def)
  ultimately show ?thesis by (simp add: errors_by_run_def next_scan_def)
qed

lemma repeated_alert_facts:
  assumes "errors_by_run env = errors # rest" "map_of errors ident = Some newest"
  obtains item message where "repeated_alert env ident = Some (item, message)"
    "it_occurrence_id item = ''scan_item_repeated_failure:'' @ scope_key ident @ '':'' @ show_int (se_id (oldest_in_streak ident newest rest))"
    "it_opened_at item = se_created_at (oldest_in_streak ident newest rest)"
    "am_delivery_key message = ''scan_item_repeated:'' @ it_occurrence_id item"
  using that assms by (simp add: repeated_alert_def repeated_item_def message_of_def)

lemma continuing_failure:
  assumes "ident \<in> set (repeated_identities (errors_by_run env))" "newer_scan run new_errors env"
    and "row \<in> set new_errors" "identity_of row = ident" "se_stage row \<noteq> ''PRICE_READ''"
  shows "\<exists>item message item' message'. (item, message) \<in> set (repeated_scan_failures env)
    \<and> (item', message') \<in> set (repeated_scan_failures (next_scan run new_errors env))
    \<and> it_id item = ''scan_item_repeated_failure:'' @ scope_key ident \<and> it_id item' = it_id item \<and> it_opened_at item' = it_opened_at item
    \<and> am_delivery_key message' = am_delivery_key message"
proof -
  have three: "3 \<le> length (errors_by_run env)" "\<forall>i < 3. map_of (errors_by_run env ! i) ident \<noteq> None"
    using assms(1) unfolding repeated_identities_iff by blast+
  then obtain errors rest newest where errors: "errors_by_run env = errors # rest" "map_of errors ident = Some newest"
    by (cases "errors_by_run env") fastforce+
  have "ident \<in> fst ` set (run_errors (al_scan_errors env @ new_errors) (sn_run_id run))"
    using assms(2-5) unfolding run_errors_keys by (auto simp: newer_scan_def)
  then obtain latest where latest: "map_of (run_errors (al_scan_errors env @ new_errors) (sn_run_id run)) ident = Some latest"
    unfolding run_errors_has by blast
  note next_errors = errors_by_next_run [OF assms(2), unfolded errors(1)]
  have "\<forall>i < 3. map_of ((run_errors (al_scan_errors env @ new_errors) (sn_run_id run) # errors_by_run env) ! i) ident \<noteq> None"
    using three(2) latest by (auto simp: nth_Cons split: nat.splits)
  then have again: "ident \<in> set (repeated_identities (errors_by_run (next_scan run new_errors env)))"
    using three(1) unfolding repeated_identities_iff errors_by_next_run [OF assms(2)] by simp
  obtain item message where item: "repeated_alert env ident = Some (item, message)"
    "it_occurrence_id item = ''scan_item_repeated_failure:'' @ scope_key ident @ '':'' @ show_int (se_id (oldest_in_streak ident newest rest))"
    "it_opened_at item = se_created_at (oldest_in_streak ident newest rest)" "am_delivery_key message = ''scan_item_repeated:'' @ it_occurrence_id item"
    using errors by (rule repeated_alert_facts)
  obtain item' message' where item': "repeated_alert (next_scan run new_errors env) ident = Some (item', message')"
    "it_occurrence_id item' = ''scan_item_repeated_failure:'' @ scope_key ident @ '':''
       @ show_int (se_id (oldest_in_streak ident latest (errors # rest)))"
    "it_opened_at item' = se_created_at (oldest_in_streak ident latest (errors # rest))"
    "am_delivery_key message' = ''scan_item_repeated:'' @ it_occurrence_id item'"
    using next_errors latest by (rule repeated_alert_facts)
  have id: "it_id i = ''scan_item_repeated_failure:'' @ scope_key ident" if "repeated_alert e ident = Some (i, m)" for e i m
    using that by (auto simp: repeated_alert_def repeated_item_def Let_def split: option.splits)
  have "(item, message) \<in> set (repeated_scan_failures env)"
    "(item', message') \<in> set (repeated_scan_failures (next_scan run new_errors env))"
    using assms(1) again item(1) item'(1) by (force simp: repeated_scan_failures_def List.map_filter_def)+
  then show ?thesis using item item' id [OF item(1)] id [OF item'(1)] errors(2) by fastforce
qed

section \<open>Properties\<close>

text \<open>
  C35. An alert about an auction pair says what the guard decides now: the pair is in the
  automation scope and its latest round is a no-fill or unknown. It is notified exactly when
  that round is unknown or the retries are exhausted, needs action exactly when it is
  notified, carries the retry time of the guard, and tells the operator to wait unless the
  retries are exhausted, even for a pair that the guard blocks and nobody is notified of.
  For an unknown round this goes beyond docs/config.md, which promises a notification for
  exhausted retries only.
\<close>

theorem auction_alert_matches_guard:
  assumes "pair_alert env now pairs (auction, token) = Inr (Some (item, message))"
  shows "\<exists>kick decision latest older. latest_live_kick (list_pair_operations (al_kicks env) auction token) = Some kick
     \<and> pair_in_automation_scope env pairs kick = Inr True
     \<and> no_fill_guard_decide (al_isaddr env) (al_retry_delays_minutes env) (al_clock env) (al_kicks env) auction token (Some now) False
         = Inr decision
     \<and> rs_rounds (nf_sequence decision) = latest # older \<and> ev_outcome latest \<in> {NO_FILL, UNKNOWN}
     \<and> (message \<noteq> None \<longleftrightarrow> ev_outcome latest = UNKNOWN \<or> nf_reason_code decision = RETRY_EXHAUSTED)
     \<and> it_status item = (if message = None then ''watching'' else ''needs_action'')
     \<and> it_retry_at item = map_option isoformat_utc (nf_retry_at decision)
     \<and> (map_of (it_next_action item) ''instruction'' = Some wait_instruction \<longleftrightarrow> nf_reason_code decision \<noteq> RETRY_EXHAUSTED)"
  by (rule auction_alert_says [OF assms])

text \<open>An older kick without a place in the chain: the pair is blocked behind a no-fill.\<close>

definition blocked_table :: "kick_tx list" where
  "blocked_table = empty_kick_tx\<lparr>k_id := 9, k_auction_address := ''a'', k_token_address := ''t'', k_status := ''CONFIRMED'',
     k_created_at := ''2023-01-01T00:00:00+00:00''\<rparr> # map (\<lambda>row. row\<lparr>k_source_type := Some ''strategy'', k_source_address := Some ''s''\<rparr>)
     sample_table"

definition blocked_env :: alert_env where
  "blocked_env = \<lparr>al_isaddr = (\<lambda>_. True), al_kicks = blocked_table, al_tables = sample_tables\<lparr>st_strategies := [\<lparr>so_address = ''s'',
     so_vault_address = None, so_name = None, so_active = 1, so_auction_address = Some ''a'', so_want_address = None,
     so_auction_version = None\<rparr>]\<rparr>, al_scan_runs = [], al_scan_errors = [], al_retry_delays_minutes = [60], al_ignore_policy = no_ignores,
     al_usd_threshold = 0, al_data_freshness_seconds = 0, al_scan_stale_minutes = 60, al_chain_id = 1, al_clock = 63839753999999999,
     al_loads = (\<lambda>_. None)\<rparr>"

lemma blocked_pair:
  "case pair_alert blocked_env (al_clock blocked_env) [(''strategy'', ''s'', ''a'', ''t'')] (''a'', ''t'') of
     Inr (Some (item, message)) \<Rightarrow> message = None \<and> it_title item = ''Auction retry None of 1 scheduled''
       \<and> map_of (it_evidence item) ''decision'' = Some (JStr ''BLOCK'')
   | _ \<Rightarrow> False"
  by code_simp

theorem auction_alert_matches_guard_witness:
  "\<exists>item. pair_alert blocked_env (al_clock blocked_env) [(''strategy'', ''s'', ''a'', ''t'')] (''a'', ''t'') = Inr (Some (item, None))
     \<and> it_title item = ''Auction retry None of 1 scheduled'' \<and> map_of (it_evidence item) ''decision'' = Some (JStr ''BLOCK'')
     \<and> it_status item = ''watching'' \<and> map_of (it_next_action item) ''instruction'' = Some wait_instruction"
proof -
  obtain item where item: "pair_alert blocked_env (al_clock blocked_env) [(''strategy'', ''s'', ''a'', ''t'')] (''a'', ''t'') = Inr (Some (item, None))"
    "it_title item = ''Auction retry None of 1 scheduled''" "map_of (it_evidence item) ''decision'' = Some (JStr ''BLOCK'')"
    using blocked_pair by (auto split: sum.splits option.splits)
  from auction_alert_matches_guard [OF item(1)] item show ?thesis by auto
qed

text \<open>
  C36. A scan failure that repeats in the next scan keeps its alert: the alert of the newer
  evaluation has the same id, opening time and delivery key, so the dispatcher that sends a
  key once does not notify it again while the failure lasts.
\<close>

theorem continuing_failure_alerts_once:
  assumes "ident \<in> set (repeated_identities (errors_by_run env))" "newer_scan run new_errors env"
    and "row \<in> set new_errors" "identity_of row = ident" "se_stage row \<noteq> ''PRICE_READ''"
  shows "\<exists>item message item' message'. (item, message) \<in> set (repeated_scan_failures env)
    \<and> (item', message') \<in> set (repeated_scan_failures (next_scan run new_errors env))
    \<and> it_id item = ''scan_item_repeated_failure:'' @ scope_key ident \<and> it_id item' = it_id item \<and> it_opened_at item' = it_opened_at item
    \<and> am_delivery_key message' = am_delivery_key message"
  by (rule continuing_failure [OF assms])

definition sample_scan_error :: "int \<Rightarrow> string \<Rightarrow> scan_error" where
  "sample_scan_error i run_id = \<lparr>se_id = i, se_run_id = run_id, se_source_type = Some ''strategy'', se_source_address = Some ''s'',
     se_token_address = None, se_stage = ''BALANCE_READ'', se_error_code = ''E'', se_created_at = run_id\<rparr>"

definition sample_scan :: "string \<Rightarrow> scan_run" where
  "sample_scan started = \<lparr>sn_run_id = started, sn_started_at = started, sn_finished_at = None, sn_status = ''SUCCESS''\<rparr>"

definition failing_env :: alert_env where
  "failing_env = blocked_env\<lparr>al_scan_runs := map sample_scan [''1'', ''2'', ''3''],
     al_scan_errors := [sample_scan_error 1 ''1'', sample_scan_error 2 ''2'', sample_scan_error 3 ''3'']\<rparr>"

theorem continuing_failure_alerts_once_witness:
  "\<exists>item message item' message'. (item, message) \<in> set (repeated_scan_failures failing_env)
    \<and> (item', message') \<in> set (repeated_scan_failures (next_scan (sample_scan ''4'') [sample_scan_error 4 ''4''] failing_env))
    \<and> am_delivery_key message' = am_delivery_key message"
proof -
  have "identity_of (sample_scan_error 4 ''4'') \<in> set (repeated_identities (errors_by_run failing_env))"
    "newer_scan (sample_scan ''4'') [sample_scan_error 4 ''4''] failing_env" "se_stage (sample_scan_error 4 ''4'') \<noteq> ''PRICE_READ''"
    by code_simp+
  from continuing_failure_alerts_once [OF this(1,2) _ refl this(3)] show ?thesis by auto
qed

end
