(* ===== verification/AuctionMapper.thy ===== *)
theory AuctionMapper
  imports TokenEnable Json
begin

text \<open>
  \<open>tidal/scanner/auction_mapper.py\<close>: which auction serves which strategy or fee burner. The
  mapper lists the auctions of the approved factories, reads their metadata one call at a
  time or through the multicall client, and keeps the last auction of each (want, receiver)
  pair. The node is a parameter: \<open>get_all_auctions\<close> is a factory's list, \<open>governance\<close>,
  \<open>want\<close>, \<open>receiver\<close>, \<open>version\<close> and \<open>strategy_want\<close> are the typed calls; \<open>aggregate\<close> and
  \<open>direct\<close> are the node of the multicall client; \<open>call_data\<close> encodes a call of no argument and
  \<open>abi_address\<close>, \<open>abi_string\<close> decode its answer. A dictionary is an association list in
  insertion order. \<open>client = None\<close> is a mapper without multicall client.
\<close>

section \<open>Metadata\<close>

record auction_metadata =
  am_governance :: "string option"
  am_want :: "string option"
  am_receiver :: "string option"
  am_version :: "string option"

record discovered_auction =
  da_address :: address
  da_spec :: auction_spec

definition AUCTION_METADATA_FIELDS :: "string list" where
  "AUCTION_METADATA_FIELDS = [''governance'', ''want'', ''receiver'', ''version'']"

definition AUCTION_ADDRESS_FIELDS :: "string list" where
  "AUCTION_ADDRESS_FIELDS = [''governance'', ''want'', ''receiver'']"

definition empty_metadata :: auction_metadata where
  "empty_metadata = \<lparr>am_governance = None, am_want = None, am_receiver = None, am_version = None\<rparr>"

text \<open>\<open>setattr(meta, field, value)\<close> and \<open>getattr(meta, field)\<close> on the slots of \<open>AuctionMetadata\<close>.\<close>

definition set_metadata_field :: "string \<Rightarrow> string option \<Rightarrow> auction_metadata \<Rightarrow> auction_metadata" where
  "set_metadata_field field value meta =
     (if field = ''governance'' then meta\<lparr>am_governance := value\<rparr>
      else if field = ''want'' then meta\<lparr>am_want := value\<rparr>
      else if field = ''receiver'' then meta\<lparr>am_receiver := value\<rparr>
      else if field = ''version'' then meta\<lparr>am_version := value\<rparr> else meta)"

definition metadata_field :: "string \<Rightarrow> auction_metadata \<Rightarrow> string option" where
  "metadata_field field meta =
     (if field = ''governance'' then am_governance meta
      else if field = ''want'' then am_want meta
      else if field = ''receiver'' then am_receiver meta
      else if field = ''version'' then am_version meta else None)"

text \<open>\<open>str(text).strip() or None\<close>\<close>

definition stripped_or_none :: "string \<Rightarrow> string option" where
  "stripped_or_none text = (let stripped = str_strip text in if stripped = '''' then None else Some stripped)"

text \<open>\<open>raise RuntimeError(...) from exc\<close> around a read.\<close>

definition reading :: "string \<Rightarrow> 'a result \<Rightarrow> 'a result" where
  "reading what r = (case r of Inr x \<Rightarrow> Inr x | Inl e \<Rightarrow> Inl (RuntimeError (what @ '': '' @ exn_str e)))"

section \<open>The auctions of the approved factories\<close>

definition read_auction_addresses ::
  "(string \<Rightarrow> bool) \<Rightarrow> (address \<Rightarrow> address list result) \<Rightarrow> auction_spec list \<Rightarrow> discovered_auction list result" where
  "read_auction_addresses isaddr get_all_auctions specs =
     fold_err (\<lambda>spec output.
       err_bind (reading (''failed to read approved auction factory '' @ spec_factory_address spec)
           (get_all_auctions (spec_factory_address spec))) (\<lambda>addresses.
         err_bind (traverse_err (normalize_address isaddr) addresses) (\<lambda>normalized.
           Inr (output @ map (\<lambda>address. \<lparr>da_address = address, da_spec = spec\<rparr>) normalized)))) specs []"

text \<open>One auction read call by call.\<close>

definition read_metadata_direct ::
  "(string \<Rightarrow> bool) \<Rightarrow> (string \<Rightarrow> address \<Rightarrow> string result) \<Rightarrow> address \<Rightarrow> auction_metadata result" where
  "read_metadata_direct isaddr auction_call auction_address =
     err_bind (reading (''failed to read governance from auction '' @ auction_address)
         (err_bind (auction_call ''governance'' auction_address) (normalize_address isaddr))) (\<lambda>governance.
       err_bind (reading (''failed to read want from auction '' @ auction_address)
         (err_bind (auction_call ''want'' auction_address) (normalize_address isaddr))) (\<lambda>want.
       err_bind (reading (''failed to read receiver from auction '' @ auction_address)
         (err_bind (auction_call ''receiver'' auction_address) (normalize_address isaddr))) (\<lambda>receiver.
       err_bind (reading (''failed to read version from auction '' @ auction_address)
         (auction_call ''version'' auction_address)) (\<lambda>raw_version.
       Inr \<lparr>am_governance = Some governance, am_want = Some want, am_receiver = Some receiver,
         am_version = stripped_or_none raw_version\<rparr>))))"

definition metadata_requests :: "(string \<Rightarrow> string) \<Rightarrow> address list \<Rightarrow> multicall_request list" where
  "metadata_requests call_data auction_addresses =
     concat (map (\<lambda>auction_address. map (\<lambda>field.
       \<lparr>rq_target = auction_address, rq_call_data = call_data field, rq_logical_key = [auction_address, field]\<rparr>)
       AUCTION_METADATA_FIELDS) auction_addresses)"

text \<open>One answer of the batch: the exception of a failed decoding is wrapped.\<close>

definition record_metadata_answer ::
  "(string \<Rightarrow> bool) \<Rightarrow> (string \<Rightarrow> string result) \<Rightarrow> (string \<Rightarrow> string result) \<Rightarrow> multicall_result
     \<Rightarrow> (address \<times> auction_metadata) list \<Rightarrow> (address \<times> auction_metadata) list result" where
  "record_metadata_answer isaddr abi_address abi_string answer output =
     (let auction_address = rr_logical_key answer ! 0; field = rr_logical_key answer ! 1 in
      if \<not> rr_success answer then
        Inl (RuntimeError (''failed to read '' @ field @ '' from auction '' @ auction_address))
      else err_bind (reading (''failed to decode '' @ field @ '' from auction '' @ auction_address)
          (if field \<in> set AUCTION_ADDRESS_FIELDS then
             err_bind (abi_address (rr_return_data answer)) (\<lambda>raw. err_bind (normalize_address isaddr raw) (\<lambda>a. Inr (Some a)))
           else err_bind (abi_string (rr_return_data answer)) (\<lambda>raw. Inr (stripped_or_none raw)))) (\<lambda>decoded.
        case map_of output auction_address of
          None \<Rightarrow> Inl (KeyError auction_address)
        | Some meta \<Rightarrow> Inr (dict_set auction_address (set_metadata_field field decoded meta) output)))"

definition require_metadata :: "address \<times> auction_metadata \<Rightarrow> unit \<Rightarrow> unit result" where
  "require_metadata entry _ =
     (case entry of (auction_address, meta) \<Rightarrow>
        let missing = filter (\<lambda>field. metadata_field field meta = None) AUCTION_METADATA_FIELDS in
        if missing \<noteq> [] then
          Inl (RuntimeError (''missing required auction metadata for '' @ auction_address @ '': '' @ join_str '', '' missing))
        else Inr ())"

definition read_auction_metadata_many ::
  "(string \<Rightarrow> bool) \<Rightarrow> bool \<Rightarrow> int \<Rightarrow> aggregate_fn \<Rightarrow> direct_fn \<Rightarrow> (string \<Rightarrow> string) \<Rightarrow> (string \<Rightarrow> string result)
     \<Rightarrow> (string \<Rightarrow> string result) \<Rightarrow> (string \<Rightarrow> address \<Rightarrow> string result) \<Rightarrow> multicall_client option \<Rightarrow> address list
     \<Rightarrow> (multicall_client option \<times> (address \<times> auction_metadata) list) result" where
  "read_auction_metadata_many isaddr multicall_enabled batch_calls aggregate direct call_data abi_address abi_string
     auction_call client auction_addresses =
     (let output = fold (\<lambda>a out. dict_set a empty_metadata out) auction_addresses [] in
      if auction_addresses = [] then Inr (client, output)
      else case (if multicall_enabled then client else None) of
        None \<Rightarrow> err_bind (fold_err (\<lambda>a out. err_bind (read_metadata_direct isaddr auction_call a) (\<lambda>meta.
            Inr (dict_set a meta out))) auction_addresses output) (\<lambda>output. Inr (client, output))
      | Some mc \<Rightarrow>
          err_bind (multicall_execute aggregate direct batch_calls (metadata_requests call_data auction_addresses) mc)
            (\<lambda>(mc, results).
          err_bind (fold_err (record_metadata_answer isaddr abi_address abi_string) results output) (\<lambda>output.
          err_bind (fold_err require_metadata output ()) (\<lambda>_. Inr (Some mc, output)))))"

section \<open>Valid auctions\<close>

definition opt_repr :: "string option \<Rightarrow> string" where
  "opt_repr v = (case v of None \<Rightarrow> ''None'' | Some s \<Rightarrow> py_repr_str s)"

text \<open>
  The loop over the discovered auctions: an unexpected version raises; an auction of another
  governance, without want or without receiver is passed over, the last counted.
\<close>

fun select_valid ::
  "address \<Rightarrow> (address \<times> auction_metadata) list \<Rightarrow> discovered_auction list
     \<Rightarrow> (discovered_auction \<times> auction_metadata) list \<times> nat
     \<Rightarrow> ((discovered_auction \<times> auction_metadata) list \<times> nat) result" where
  "select_valid required metadata [] acc = Inr acc"
| "select_valid required metadata (d # ds) (valid, filtered) =
     (case map_of metadata (da_address d) of
        None \<Rightarrow> Inl (KeyError (da_address d))
      | Some meta \<Rightarrow>
          if am_version meta \<noteq> Some (spec_version (da_spec d)) then
            Inl (RuntimeError (''auction '' @ da_address d @ '' from factory '' @ spec_factory_address (da_spec d)
              @ '' reported version '' @ opt_repr (am_version meta) @ '', expected ''
              @ py_repr_str (spec_version (da_spec d))))
          else if am_governance meta \<noteq> Some required then select_valid required metadata ds (valid, filtered)
          else if am_want meta = None \<or> am_want meta = Some ZERO_ADDRESS then
            select_valid required metadata ds (valid, filtered)
          else if am_receiver meta = None \<or> am_receiver meta = Some ZERO_ADDRESS then
            select_valid required metadata ds (valid, filtered + 1)
          else select_valid required metadata ds (valid @ [(d, meta)], filtered))"

record mapper =
  mp_specs :: "auction_spec list"
  mp_required_governance :: address
  mp_multicall_enabled :: bool
  mp_batch_calls :: int

text \<open>The constructor: the specifications in priority order, the governance normalised.\<close>

definition new_mapper ::
  "(string \<Rightarrow> bool) \<Rightarrow> address \<Rightarrow> auction_spec list \<Rightarrow> bool \<Rightarrow> int \<Rightarrow> mapper result" where
  "new_mapper isaddr required_governance_address auction_specs multicall_enabled batch_calls =
     (let specs = sort_key spec_mapping_priority auction_specs in
      if specs = [] then Inl (ValueError ''at least one approved auction factory is required'')
      else err_bind (normalize_address isaddr required_governance_address) (\<lambda>governance.
        Inr \<lparr>mp_specs = specs, mp_required_governance = governance, mp_multicall_enabled = multicall_enabled,
          mp_batch_calls = batch_calls\<rparr>))"

text \<open>The environment of a mapper: the node's answers and the encoders.\<close>

record mapper_node =
  nd_get_all_auctions :: "address \<Rightarrow> address list result"
  nd_auction_call :: "string \<Rightarrow> address \<Rightarrow> string result"
  nd_strategy_want :: "address \<Rightarrow> string result"
  nd_aggregate :: aggregate_fn
  nd_direct :: direct_fn
  nd_call_data :: "string \<Rightarrow> string"
  nd_abi_address :: "string \<Rightarrow> string result"
  nd_abi_string :: "string \<Rightarrow> string result"

definition mapper_metadata ::
  "(string \<Rightarrow> bool) \<Rightarrow> mapper \<Rightarrow> mapper_node \<Rightarrow> multicall_client option \<Rightarrow> address list
     \<Rightarrow> (multicall_client option \<times> (address \<times> auction_metadata) list) result" where
  "mapper_metadata isaddr mp node client auction_addresses =
     read_auction_metadata_many isaddr (mp_multicall_enabled mp) (mp_batch_calls mp) (nd_aggregate node) (nd_direct node)
       (nd_call_data node) (nd_abi_address node) (nd_abi_string node) (nd_auction_call node) client auction_addresses"

definition load_valid_auctions ::
  "(string \<Rightarrow> bool) \<Rightarrow> mapper \<Rightarrow> mapper_node \<Rightarrow> multicall_client option
     \<Rightarrow> (multicall_client option \<times> discovered_auction list \<times> (discovered_auction \<times> auction_metadata) list \<times> nat) result" where
  "load_valid_auctions isaddr mp node client =
     err_bind (read_auction_addresses isaddr (nd_get_all_auctions node) (mp_specs mp)) (\<lambda>discovered.
       err_bind (mapper_metadata isaddr mp node client (map da_address discovered)) (\<lambda>(client, metadata).
         err_bind (select_valid (mp_required_governance mp) metadata discovered ([], 0)) (\<lambda>(valid, filtered).
           Inr (client, discovered, valid, filtered))))"

section \<open>Strategies\<close>

text \<open>\<open>_read_strategy_wants_many\<close>: a want that cannot be read is \<open>None\<close>.\<close>

definition read_strategy_wants_many ::
  "(string \<Rightarrow> bool) \<Rightarrow> mapper \<Rightarrow> mapper_node \<Rightarrow> multicall_client option \<Rightarrow> address list
     \<Rightarrow> (multicall_client option \<times> (address \<times> string option) list) result" where
  "read_strategy_wants_many isaddr mp node client strategy_addresses =
     (if strategy_addresses = [] then Inr (client, [])
      else case (if mp_multicall_enabled mp then client else None) of
        None \<Rightarrow> Inr (client, read_many_direct
          (\<lambda>s. err_bind (nd_strategy_want node s) (normalize_address isaddr)) strategy_addresses)
      | Some mc \<Rightarrow>
          err_bind (multicall_execute (nd_aggregate node) (nd_direct node) (mp_batch_calls mp)
              (map (\<lambda>s. \<lparr>rq_target = s, rq_call_data = nd_call_data node ''want'', rq_logical_key = [s]\<rparr>)
                 strategy_addresses) mc) (\<lambda>(mc, results).
            Inr (Some mc, read_many_multicall
              (\<lambda>data. err_bind (nd_abi_address node data) (normalize_address isaddr)) hd results strategy_addresses)))"

record mapping_result =
  mr_source_to_auction :: "(address \<times> string option) list"
  mr_source_to_want :: "(address \<times> string option) list"
  mr_source_to_version :: "(address \<times> string option) list"
  mr_source_to_error :: "(address \<times> string) list"
  mr_auction_count :: nat
  mr_valid_auction_count :: nat
  mr_receiver_filtered_count :: nat
  mr_mapped_count :: nat
  mr_unmapped_count :: int
  mr_source :: string

definition want_receiver_to_auction ::
  "(discovered_auction \<times> auction_metadata) list \<Rightarrow> ((string option \<times> string option) \<times> (address \<times> auction_metadata)) list" where
  "want_receiver_to_auction valid =
     fold (\<lambda>(d, meta) lookup. dict_set (am_want meta, am_receiver meta) (da_address d, meta) lookup) valid []"

definition count_mapped :: "(address \<times> string option) list \<Rightarrow> nat" where
  "count_mapped source_to_auction =
     length (filter (\<lambda>(_, auction). auction \<noteq> None \<and> auction \<noteq> Some '''') source_to_auction)"

definition refresh_for_strategies ::
  "(string \<Rightarrow> bool) \<Rightarrow> mapper \<Rightarrow> mapper_node \<Rightarrow> multicall_client option \<Rightarrow> address list
     \<Rightarrow> (multicall_client option \<times> mapping_result) result" where
  "refresh_for_strategies isaddr mp node client strategy_addresses =
     err_bind (traverse_err (normalize_address isaddr) strategy_addresses) (\<lambda>normalized.
       let strategies = sorted_set normalized in
       err_bind (load_valid_auctions isaddr mp node client) (\<lambda>(client, discovered, valid, filtered).
         let lookup = want_receiver_to_auction valid in
         err_bind (read_strategy_wants_many isaddr mp node client strategies) (\<lambda>(client, wants).
           let matched = (\<lambda>s. case map_of wants s of
                 Some (Some w) \<Rightarrow> map_of lookup (Some w, Some s) | _ \<Rightarrow> None);
               to_auction = map (\<lambda>s. (s, map_option fst (matched s))) strategies;
               to_version = map (\<lambda>s. (s, case matched s of Some (_, meta) \<Rightarrow> am_version meta | None \<Rightarrow> None)) strategies;
               mapped = count_mapped to_auction
           in Inr (client,
             \<lparr>mr_source_to_auction = to_auction, mr_source_to_want = wants, mr_source_to_version = to_version,
              mr_source_to_error = [], mr_auction_count = length discovered, mr_valid_auction_count = length valid,
              mr_receiver_filtered_count = filtered, mr_mapped_count = mapped,
              mr_unmapped_count = int (length to_auction) - int mapped, mr_source = ''fresh''\<rparr>))))"

section \<open>Fee burners\<close>

definition matches_by_key ::
  "(discovered_auction \<times> auction_metadata) list
     \<Rightarrow> ((string option \<times> string option) \<times> (address \<times> auction_metadata) list) list" where
  "matches_by_key valid =
     fold (\<lambda>(d, meta) lookup. dict_append (am_want meta, am_receiver meta) (da_address d, meta) lookup) valid []"

definition normalize_fee_burner ::
  "(string \<Rightarrow> bool) \<Rightarrow> address \<times> address \<Rightarrow> (address \<times> address) list \<Rightarrow> (address \<times> address) list result" where
  "normalize_fee_burner isaddr entry out =
     (case entry of (address, want_address) \<Rightarrow>
        err_bind (normalize_address isaddr address) (\<lambda>a.
          err_bind (normalize_address isaddr want_address) (\<lambda>w. Inr (dict_set a w out))))"

definition refresh_for_fee_burners ::
  "(string \<Rightarrow> bool) \<Rightarrow> mapper \<Rightarrow> mapper_node \<Rightarrow> multicall_client option \<Rightarrow> (address \<times> address) list
     \<Rightarrow> (multicall_client option \<times> mapping_result) result" where
  "refresh_for_fee_burners isaddr mp node client fee_burner_to_want =
     err_bind (fold_err (normalize_fee_burner isaddr) fee_burner_to_want []) (\<lambda>normalized.
       err_bind (load_valid_auctions isaddr mp node client) (\<lambda>(client, discovered, valid, filtered).
         let lookup = matches_by_key valid;
             matches = (\<lambda>b w. case map_of lookup (Some w, Some b) of None \<Rightarrow> [] | Some ms \<Rightarrow> ms);
             to_auction = map (\<lambda>(b, w). (b, if matches b w \<noteq> [] then Some (fst (last (matches b w))) else None)) normalized;
             to_version = map (\<lambda>(b, w). (b, if matches b w \<noteq> [] then am_version (snd (last (matches b w))) else None))
               normalized;
             to_error = map (\<lambda>(b, w). (b, ''no matching auction found for configured want/receiver''))
               (filter (\<lambda>(b, w). matches b w = []) normalized);
             mapped = count_mapped to_auction
         in Inr (client,
           \<lparr>mr_source_to_auction = to_auction, mr_source_to_want = map (\<lambda>(b, w). (b, Some w)) normalized,
            mr_source_to_version = to_version, mr_source_to_error = to_error, mr_auction_count = length discovered,
            mr_valid_auction_count = length valid, mr_receiver_filtered_count = filtered, mr_mapped_count = mapped,
            mr_unmapped_count = int (length normalized) - int mapped, mr_source = ''fresh''\<rparr>)))"

section \<open>What the node reports\<close>

text \<open>The multicall client is used when there is one and the mapper has it switched on.\<close>

definition batched :: "mapper \<Rightarrow> multicall_client option \<Rightarrow> bool" where
  "batched mp client \<longleftrightarrow> mp_multicall_enabled mp \<and> client \<noteq> None"

text \<open>The auctions a factory lists, and the factories in priority order.\<close>

definition listed_auctions :: "mapper_node \<Rightarrow> auction_spec \<Rightarrow> discovered_auction list" where
  "listed_auctions node spec = (case nd_get_all_auctions node (spec_factory_address spec) of Inl _ \<Rightarrow> []
     | Inr addresses \<Rightarrow> map (\<lambda>a. \<lparr>da_address = str_lower a, da_spec = spec\<rparr>) addresses)"

lemma read_auction_addresses_listed:
  assumes "read_auction_addresses isaddr (nd_get_all_auctions node) specs = Inr discovered"
  shows "discovered = concat (map (listed_auctions node) specs)
    \<and> (\<forall>spec \<in> set specs. \<exists>addresses. nd_get_all_auctions node (spec_factory_address spec) = Inr addresses)"
proof -
  define step where "step = (\<lambda>spec out. err_bind (reading (''failed to read approved auction factory '' @ spec_factory_address spec)
           (nd_get_all_auctions node (spec_factory_address spec))) (\<lambda>addresses.
         err_bind (traverse_err (normalize_address isaddr) addresses) (\<lambda>normalized.
           Inr (out @ map (\<lambda>address. \<lparr>da_address = address, da_spec = spec\<rparr>) normalized))))"
  have lower: "ys = map str_lower xs" if "list_all2 (\<lambda>x y. normalize_address isaddr x = Inr y) xs ys" for xs ys
    using that by (induction rule: list_all2_induct) (simp_all add: normalize_address_Inr)
  have each: "t = out @ listed_auctions node spec \<and> (\<exists>addresses. nd_get_all_auctions node (spec_factory_address spec) = Inr addresses)"
    if "step spec out = Inr t" for spec out t
    using that by (auto simp: step_def err_simps reading_def listed_auctions_def split: sum.splits dest!: lower)
  have "fold_err step specs out = Inr t \<Longrightarrow> t = out @ concat (map (listed_auctions node) specs)
      \<and> (\<forall>spec \<in> set specs. \<exists>addresses. nd_get_all_auctions node (spec_factory_address spec) = Inr addresses)" for out t
  proof (induction specs arbitrary: out)
    case (Cons spec specs)
    then obtain u where u: "step spec out = Inr u" "fold_err step specs u = Inr t" by (auto simp: err_simps)
    from each [OF u(1)] Cons.IH [OF u(2)] show ?case by simp
  qed simp
  from this [of "[]"] assms show ?thesis by (simp add: read_auction_addresses_def step_def)
qed

lemma listed_in_priority_order:
  assumes "sorted (map spec_mapping_priority specs)"
  shows "sorted (map (\<lambda>d. spec_mapping_priority (da_spec d)) (concat (map (listed_auctions node) specs)))"
proof -
  have spec: "da_spec d = spec" if "d \<in> set (listed_auctions node spec)" for d spec
    using that by (auto simp: listed_auctions_def split: sum.splits)
  have "map (\<lambda>d. spec_mapping_priority (da_spec d)) (listed_auctions node spec)
      = replicate (length (listed_auctions node spec)) (spec_mapping_priority spec)" for spec
    using spec by (intro replicate_eqI) auto
  then have "sorted (map (\<lambda>d. spec_mapping_priority (da_spec d)) (listed_auctions node spec))" for spec by simp
  with assms spec show ?thesis by (induction specs) (auto simp: sorted_append)
qed

text \<open>What an auction reports for a field, by a call of its own or by the direct call a batch stands for.\<close>

definition raw_report :: "mapper \<Rightarrow> mapper_node \<Rightarrow> multicall_client option \<Rightarrow> string \<Rightarrow> address \<Rightarrow> string result" where
  "raw_report mp node client field auction_address =
     (if batched mp client
      then err_bind (nd_direct node \<lparr>rq_target = auction_address, rq_call_data = nd_call_data node field,
          rq_logical_key = [auction_address, field]\<rparr>)
        (if field \<in> set AUCTION_ADDRESS_FIELDS then nd_abi_address node else nd_abi_string node)
      else nd_auction_call node field auction_address)"

definition auction_reports ::
  "(string \<Rightarrow> bool) \<Rightarrow> mapper \<Rightarrow> mapper_node \<Rightarrow> multicall_client option \<Rightarrow> string \<Rightarrow> address \<Rightarrow> string option result" where
  "auction_reports isaddr mp node client field auction_address =
     err_bind (raw_report mp node client field auction_address) (\<lambda>raw.
       if field \<in> set AUCTION_ADDRESS_FIELDS then err_bind (normalize_address isaddr raw) (\<lambda>a. Inr (Some a))
       else Inr (stripped_or_none raw))"

definition strategy_reports :: "(string \<Rightarrow> bool) \<Rightarrow> mapper \<Rightarrow> mapper_node \<Rightarrow> multicall_client option \<Rightarrow> address \<Rightarrow> address option" where
  "strategy_reports isaddr mp node client strategy =
     (case err_bind (if batched mp client
         then err_bind (nd_direct node \<lparr>rq_target = strategy, rq_call_data = nd_call_data node ''want'', rq_logical_key = [strategy]\<rparr>)
           (nd_abi_address node)
         else nd_strategy_want node strategy) (normalize_address isaddr) of
        Inr w \<Rightarrow> Some w | Inl _ \<Rightarrow> None)"

text \<open>The table holds the report of an auction for a field.\<close>

definition holds_report ::
  "(string \<Rightarrow> address \<Rightarrow> string option result) \<Rightarrow> (address \<times> auction_metadata) list \<Rightarrow> address \<Rightarrow> string \<Rightarrow> bool" where
  "holds_report report metadata a field \<longleftrightarrow> (\<exists>meta. map_of metadata a = Some meta \<and> report field a = Inr (metadata_field field meta))"

lemma metadata_field_set:
  "f \<in> set AUCTION_METADATA_FIELDS \<Longrightarrow> metadata_field f (set_metadata_field f v meta) = v"
  "f \<noteq> f' \<Longrightarrow> metadata_field f' (set_metadata_field f v meta) = metadata_field f' meta"
  by (auto simp: AUCTION_METADATA_FIELDS_def metadata_field_def set_metadata_field_def)

lemma reading_Inr [simp]: "reading what r = Inr x \<longleftrightarrow> r = Inr x"
  by (simp add: reading_def split: sum.split)

lemma metadata_fields [simp]:
  "metadata_field ''governance'' meta = am_governance meta" "metadata_field ''want'' meta = am_want meta"
  "metadata_field ''receiver'' meta = am_receiver meta" "metadata_field ''version'' meta = am_version meta"
  by (simp_all add: metadata_field_def)

lemma address_fields [simp]:
  "''governance'' \<in> set AUCTION_ADDRESS_FIELDS" "''want'' \<in> set AUCTION_ADDRESS_FIELDS" "''receiver'' \<in> set AUCTION_ADDRESS_FIELDS"
  "''version'' \<notin> set AUCTION_ADDRESS_FIELDS"
  by code_simp+

lemma holds_report_direct:
  assumes "\<not> batched mp client" "read_metadata_direct isaddr (nd_auction_call node) a = Inr meta" "f \<in> set AUCTION_METADATA_FIELDS"
  shows "auction_reports isaddr mp node client f a = Inr (metadata_field f meta)"
proof -
  obtain g w r v g' w' r' where reads: "nd_auction_call node ''governance'' a = Inr g" "normalize_address isaddr g = Inr g'"
    "nd_auction_call node ''want'' a = Inr w" "normalize_address isaddr w = Inr w'"
    "nd_auction_call node ''receiver'' a = Inr r" "normalize_address isaddr r = Inr r'" "nd_auction_call node ''version'' a = Inr v"
    and meta: "meta = \<lparr>am_governance = Some g', am_want = Some w', am_receiver = Some r', am_version = stripped_or_none v\<rparr>"
    using assms(2) unfolding read_metadata_direct_def err_bind_Inr_iff reading_Inr by blast
  from assms(3) consider "f = ''governance''" | "f = ''want''" | "f = ''receiver''" | "f = ''version''"
    by (auto simp: AUCTION_METADATA_FIELDS_def)
  then show ?thesis
    by cases (simp_all only: auction_reports_def raw_report_def assms(1) if_False address_fields if_True reads err_bind.simps metadata_fields
        meta auction_metadata.simps)
qed

lemma metadata_direct:
  assumes "\<not> batched mp client" "fold_err (\<lambda>a out. err_bind (read_metadata_direct isaddr (nd_auction_call node) a) (\<lambda>meta.
      Inr (dict_set a meta out))) addresses out = Inr metadata"
    and "\<forall>a f. f \<in> set AUCTION_METADATA_FIELDS \<longrightarrow> a \<in> done' \<longrightarrow> holds_report (auction_reports isaddr mp node client) out a f"
  shows "f \<in> set AUCTION_METADATA_FIELDS \<Longrightarrow> a \<in> set addresses \<union> done' \<Longrightarrow>
    holds_report (auction_reports isaddr mp node client) metadata a f"
  using assms(2,3)
proof (induction addresses arbitrary: out done')
  case (Cons b addresses)
  then obtain meta where meta: "read_metadata_direct isaddr (nd_auction_call node) b = Inr meta"
    and rest: "fold_err (\<lambda>a out. err_bind (read_metadata_direct isaddr (nd_auction_call node) a) (\<lambda>meta.
      Inr (dict_set a meta out))) addresses (dict_set b meta out) = Inr metadata" by (auto simp: err_bind_Inr_iff)
  have "holds_report (auction_reports isaddr mp node client) (dict_set b meta out) a f"
    if "f \<in> set AUCTION_METADATA_FIELDS" "a \<in> insert b done'" for a f
    using that Cons.prems(4) holds_report_direct [OF assms(1) meta that(1)] by (auto simp: holds_report_def)
  then show ?case using Cons.IH [OF Cons.prems(1) _ rest, of "insert b done'"] Cons.prems(2) by auto
qed auto

definition metadata_request :: "(string \<Rightarrow> string) \<Rightarrow> address \<Rightarrow> string \<Rightarrow> multicall_request" where
  "metadata_request call_data a field = \<lparr>rq_target = a, rq_call_data = call_data field, rq_logical_key = [a, field]\<rparr>"

lemma record_metadata_step:
  assumes "batched mp client" "f \<in> set AUCTION_METADATA_FIELDS"
    and "answers (nd_direct node) (metadata_request (nd_call_data node) a f) answer"
    and "record_metadata_answer isaddr (nd_abi_address node) (nd_abi_string node) answer out = Inr out'"
  shows "holds_report (auction_reports isaddr mp node client) out' a f"
    and "f' \<in> set AUCTION_METADATA_FIELDS \<Longrightarrow> holds_report (auction_reports isaddr mp node client) out a' f' \<Longrightarrow>
      holds_report (auction_reports isaddr mp node client) out' a' f'"
proof -
  obtain data where data: "nd_direct node (metadata_request (nd_call_data node) a f) = Inr data" "rr_return_data answer = data"
    and key: "rr_logical_key answer = [a, f]"
    using assms(3,4) by (auto simp: answers_def record_metadata_answer_def metadata_request_def Let_def split: sum.splits if_splits)
  obtain decoded meta where decoded: "auction_reports isaddr mp node client f a = Inr decoded"
    and meta: "map_of out a = Some meta" "out' = dict_set a (set_metadata_field f decoded meta) out"
    using assms(3,4) data(1) key assms(1)
    by (auto simp: answers_def record_metadata_answer_def auction_reports_def raw_report_def data(2) Let_def err_bind_Inr_iff
        metadata_request_def split: if_splits option.splits)
  show first: "holds_report (auction_reports isaddr mp node client) out' a f"
    using decoded meta metadata_field_set(1) [OF assms(2)] by (simp add: holds_report_def)
  show "holds_report (auction_reports isaddr mp node client) out' a' f'"
    if "f' \<in> set AUCTION_METADATA_FIELDS" "holds_report (auction_reports isaddr mp node client) out a' f'"
    using that(2) first meta metadata_field_set(2) [of f f' decoded meta]
    by (cases "a' = a"; cases "f' = f") (auto simp: holds_report_def)
qed

lemma metadata_batched:
  assumes "batched mp client" "list_all2 (answers (nd_direct node)) requests results"
    and "fold_err (record_metadata_answer isaddr (nd_abi_address node) (nd_abi_string node)) results out = Inr metadata"
    and "\<forall>q \<in> set requests. \<exists>a. \<exists>f \<in> set AUCTION_METADATA_FIELDS. q = metadata_request (nd_call_data node) a f"
  shows "f \<in> set AUCTION_METADATA_FIELDS \<Longrightarrow> metadata_request (nd_call_data node) a f \<in> set requests
      \<or> holds_report (auction_reports isaddr mp node client) out a f \<Longrightarrow>
    holds_report (auction_reports isaddr mp node client) metadata a f"
  using assms(2-4)
proof (induction arbitrary: out rule: list_all2_induct)
  case (Cons request requests answer results)
  obtain b g where request: "request = metadata_request (nd_call_data node) b g" "g \<in> set AUCTION_METADATA_FIELDS"
    using Cons.prems(4) by auto
  obtain out1 where out1: "record_metadata_answer isaddr (nd_abi_address node) (nd_abi_string node) answer out = Inr out1"
    "fold_err (record_metadata_answer isaddr (nd_abi_address node) (nd_abi_string node)) results out1 = Inr metadata"
    using Cons.prems(3) by (auto simp: err_bind_Inr_iff)
  note step = record_metadata_step [OF assms(1) request(2) Cons.hyps(1) [unfolded request(1)] out1(1)]
  have "metadata_request (nd_call_data node) a f \<in> set requests \<or> holds_report (auction_reports isaddr mp node client) out1 a f"
    using Cons.prems(1,2) step by (auto simp: request(1)) (auto simp: metadata_request_def)
  then show ?case using Cons.IH [OF Cons.prems(1) _ out1(2)] Cons.prems(4) by auto
qed simp

lemma mapper_metadata_reports:
  assumes "mapper_metadata isaddr mp node client addresses = Inr (client', metadata)"
    and faithful: "batched mp client \<Longrightarrow> multicall_faithful (nd_aggregate node) (nd_direct node)"
  shows "batched mp client' \<longleftrightarrow> batched mp client"
    and "a \<in> set addresses \<Longrightarrow> f \<in> set AUCTION_METADATA_FIELDS \<Longrightarrow>
      holds_report (auction_reports isaddr mp node client) metadata a f"
proof -
  define blank where "blank = fold (\<lambda>a out. dict_set a empty_metadata out) addresses []"
  have "(batched mp client' \<longleftrightarrow> batched mp client) \<and> (a \<in> set addresses \<longrightarrow> f \<in> set AUCTION_METADATA_FIELDS \<longrightarrow>
      holds_report (auction_reports isaddr mp node client) metadata a f)"
  proof (cases "addresses = []")
    case True
    then show ?thesis using assms(1) by (simp add: mapper_metadata_def read_auction_metadata_many_def)
  next
    case some: False
    show ?thesis
    proof (cases "batched mp client")
      case False
      then have none: "(if mp_multicall_enabled mp then client else None) = None" by (auto simp: batched_def)
      show ?thesis
        using assms(1) metadata_direct [OF False, where done' = "{}"] some
        unfolding mapper_metadata_def read_auction_metadata_many_def none blank_def [symmetric]
        by (fastforce simp: err_bind_Inr_iff Let_def)
    next
      case True
      then obtain mc where mc: "(if mp_multicall_enabled mp then client else None) = Some mc" by (auto simp: batched_def)
      obtain mc' results where run: "multicall_execute (nd_aggregate node) (nd_direct node) (mp_batch_calls mp)
          (metadata_requests (nd_call_data node) addresses) mc = Inr (mc', results)"
        and fill: "fold_err (record_metadata_answer isaddr (nd_abi_address node) (nd_abi_string node)) results blank = Inr metadata"
        and client': "client' = Some mc'"
        using assms(1) some unfolding mapper_metadata_def read_auction_metadata_many_def mc blank_def
        by (auto simp: err_bind_Inr_iff Let_def)
      have "0 < mp_batch_calls mp" using run by (auto simp: multicall_execute_def split: if_splits)
      note answered = answers_execute [OF faithful [OF True] this run]
      have requests: "set (metadata_requests (nd_call_data node) addresses)
          = {metadata_request (nd_call_data node) a f |a f. a \<in> set addresses \<and> f \<in> set AUCTION_METADATA_FIELDS}"
        by (auto simp: metadata_requests_def metadata_request_def)
      have "holds_report (auction_reports isaddr mp node client) metadata a f"
        if "a \<in> set addresses" "f \<in> set AUCTION_METADATA_FIELDS"
        by (rule metadata_batched [OF True answered fill _ that(2)]) (use that in \<open>auto simp: requests\<close>)
      then show ?thesis using True client' by (auto simp: batched_def)
    qed
  qed
  then show "batched mp client' \<longleftrightarrow> batched mp client"
    and "a \<in> set addresses \<Longrightarrow> f \<in> set AUCTION_METADATA_FIELDS \<Longrightarrow>
      holds_report (auction_reports isaddr mp node client) metadata a f" by blast+
qed

lemma strategy_wants_reported:
  assumes "read_strategy_wants_many isaddr mp node client strategies = Inr (client', wants)" "distinct strategies"
    and faithful: "batched mp client \<Longrightarrow> multicall_faithful (nd_aggregate node) (nd_direct node)"
  shows "wants = map (\<lambda>s. (s, strategy_reports isaddr mp node client s)) strategies"
proof (cases "strategies = []")
  case True
  then show ?thesis using assms(1) by (simp add: read_strategy_wants_many_def)
next
  case some: False
  show ?thesis
  proof (cases "batched mp client")
    case False
    then have none: "(if mp_multicall_enabled mp then client else None) = None" by (auto simp: batched_def)
    show ?thesis
      using assms(1) some False unfolding read_strategy_wants_many_def none
      by (auto simp: read_many_direct_map [OF assms(2)] strategy_reports_def)
  next
    case True
    then obtain mc where mc: "(if mp_multicall_enabled mp then client else None) = Some mc" by (auto simp: batched_def)
    define request where "request s = \<lparr>rq_target = s, rq_call_data = nd_call_data node ''want'', rq_logical_key = [s]\<rparr>" for s
    obtain mc' results where run: "multicall_execute (nd_aggregate node) (nd_direct node) (mp_batch_calls mp) (map request strategies) mc
        = Inr (mc', results)"
      and wants: "wants = read_many_multicall (\<lambda>data. err_bind (nd_abi_address node data) (normalize_address isaddr)) hd results strategies"
      using assms(1) some unfolding read_strategy_wants_many_def mc request_def [abs_def] by (auto simp: err_bind_Inr_iff)
    have "0 < mp_batch_calls mp" using run by (auto simp: multicall_execute_def split: if_splits)
    note answered = answers_execute [OF faithful [OF True] this run]
    have "wants = read_many_direct (\<lambda>s. err_bind (nd_direct node (request s))
        (\<lambda>data. err_bind (nd_abi_address node data) (normalize_address isaddr))) strategies"
      unfolding wants by (rule read_many_agrees [OF answered]) (simp add: request_def)
    then show ?thesis
      unfolding read_many_direct_map [OF assms(2)] by (simp add: strategy_reports_def True request_def err_bind_assoc)
  qed
qed

section \<open>The auction a source is mapped to\<close>

text \<open>An auction may serve a source when its metadata names the governance, the want and the source.\<close>

definition serves :: "address \<Rightarrow> (address \<times> auction_metadata) list \<Rightarrow> address \<Rightarrow> address \<Rightarrow> discovered_auction \<Rightarrow> bool" where
  "serves required metadata w s d =
     (case map_of metadata (da_address d) of
        None \<Rightarrow> False
      | Some meta \<Rightarrow> am_governance meta = Some required \<and> am_want meta = Some w \<and> am_receiver meta = Some s
          \<and> w \<noteq> ZERO_ADDRESS \<and> s \<noteq> ZERO_ADDRESS)"

text \<open>The specification: the last such auction, factories in priority order.\<close>

definition serving_auction ::
  "address \<Rightarrow> (address \<times> auction_metadata) list \<Rightarrow> discovered_auction list \<Rightarrow> address \<Rightarrow> address \<Rightarrow> discovered_auction option" where
  "serving_auction required metadata discovered w s =
     (let serving = filter (serves required metadata w s) discovered in
      if serving = [] then None else Some (last serving))"

definition reports_version :: "(address \<times> auction_metadata) list \<Rightarrow> discovered_auction \<Rightarrow> bool" where
  "reports_version metadata d =
     (\<exists>meta. map_of metadata (da_address d) = Some meta \<and> am_version meta = Some (spec_version (da_spec d)))"

definition usable :: "address \<Rightarrow> auction_metadata \<Rightarrow> bool" where
  "usable required meta = (am_governance meta = Some required
     \<and> am_want meta \<notin> {None, Some ZERO_ADDRESS} \<and> am_receiver meta \<notin> {None, Some ZERO_ADDRESS})"

abbreviation reported :: "(address \<times> auction_metadata) list \<Rightarrow> discovered_auction \<Rightarrow> auction_metadata" where
  "reported metadata d \<equiv> the (map_of metadata (da_address d))"

lemma select_valid_spec:
  assumes "select_valid required metadata ds (valid, filtered) = Inr (valid', filtered')"
  shows "(\<forall>d \<in> set ds. reports_version metadata d) \<and>
    valid' = valid @ map (\<lambda>d. (d, reported metadata d)) (filter (\<lambda>d. usable required (reported metadata d)) ds)"
  using assms
proof (induction ds arbitrary: valid filtered)
  case (Cons d ds)
  then obtain meta where meta: "map_of metadata (da_address d) = Some meta"
    "am_version meta = Some (spec_version (da_spec d))"
    by (auto split: option.splits if_splits)
  have "reports_version metadata d" using meta by (auto simp: reports_version_def)
  moreover have "select_valid required metadata ds (if usable required meta then (valid @ [(d, meta)], filtered)
      else (valid, if am_governance meta \<noteq> Some required \<or> am_want meta \<in> {None, Some ZERO_ADDRESS} then filtered
        else filtered + 1)) = Inr (valid', filtered')"
    using Cons.prems meta by (auto simp: usable_def split: if_splits)
  ultimately show ?case using meta(1) by (cases "usable required meta") (auto dest!: Cons.IH)
qed simp

text \<open>Both lookups return the auctions of one key, the strategies' only the last of them.\<close>

definition keyed :: "string option \<times> string option \<Rightarrow> (discovered_auction \<times> auction_metadata) list
    \<Rightarrow> (address \<times> auction_metadata) list" where
  "keyed k valid = map (\<lambda>(d, meta). (da_address d, meta)) (filter (\<lambda>(d, meta). (am_want meta, am_receiver meta) = k) valid)"

lemma keyed_snoc:
  "keyed k (valid @ [(d, meta)]) = keyed k valid @ (if (am_want meta, am_receiver meta) = k then [(da_address d, meta)] else [])"
  by (simp add: keyed_def)

lemma lookup_last:
  "map_of (want_receiver_to_auction valid) k = (if keyed k valid = [] then None else Some (last (keyed k valid)))"
proof (induction valid rule: rev_induct)
  case (snoc v valid)
  then show ?case
    by (cases v) (simp add: want_receiver_to_auction_def keyed_snoc del: keyed_def)
qed (simp add: want_receiver_to_auction_def keyed_def)

lemma lookup_all:
  "map_of (matches_by_key valid) k = (if keyed k valid = [] then None else Some (keyed k valid))"
proof (induction valid rule: rev_induct)
  case (snoc v valid)
  then show ?case
    by (cases v) (auto simp: matches_by_key_def keyed_snoc dict_append_def split: if_splits option.splits)
qed (simp add: matches_by_key_def keyed_def)

lemma keyed_serving:
  assumes "\<forall>d \<in> set discovered. reports_version metadata d"
    and "valid = map (\<lambda>d. (d, reported metadata d)) (filter (\<lambda>d. usable required (reported metadata d)) discovered)"
  shows "keyed (Some w, Some s) valid =
    map (\<lambda>d. (da_address d, reported metadata d)) (filter (serves required metadata w s) discovered)"
proof -
  have "filter (\<lambda>d. (am_want (reported metadata d), am_receiver (reported metadata d)) = (Some w, Some s))
      (filter (\<lambda>d. usable required (reported metadata d)) discovered) =
    filter (serves required metadata w s) discovered"
    unfolding filter_filter
  proof (rule filter_cong)
    fix d assume "d \<in> set discovered"
    with assms(1) obtain meta where "map_of metadata (da_address d) = Some meta"
      by (auto simp: reports_version_def)
    then show "(usable required (reported metadata d)
        \<and> (am_want (reported metadata d), am_receiver (reported metadata d)) = (Some w, Some s))
      = serves required metadata w s d"
      by (auto simp: serves_def usable_def)
  qed simp
  then show ?thesis by (simp add: keyed_def assms(2) filter_map o_def)
qed

lemma discovered_from_spec:
  assumes "read_auction_addresses isaddr get_all specs = Inr discovered" "d \<in> set discovered"
  shows "da_spec d \<in> set specs"
proof -
  have "\<forall>d \<in> set discovered. da_spec d \<in> set specs"
    by (rule fold_err_invariant [OF assms(1) [unfolded read_auction_addresses_def]]) (auto simp: err_bind_Inr_iff)
  then show ?thesis using assms(2) by blast
qed

lemma load_valid_spec:
  assumes "load_valid_auctions isaddr mp node client = Inr (client', discovered, valid, filtered)"
  obtains metadata where "read_auction_addresses isaddr (nd_get_all_auctions node) (mp_specs mp) = Inr discovered"
    "mapper_metadata isaddr mp node client (map da_address discovered) = Inr (client', metadata)"
    "\<And>d. d \<in> set discovered \<Longrightarrow> da_spec d \<in> set (mp_specs mp) \<and> reports_version metadata d"
    "\<And>w s. keyed (Some w, Some s) valid = map (\<lambda>d. (da_address d, reported metadata d))
       (filter (serves (mp_required_governance mp) metadata w s) discovered)"
proof -
  obtain metadata where reads: "read_auction_addresses isaddr (nd_get_all_auctions node) (mp_specs mp) = Inr discovered"
    "mapper_metadata isaddr mp node client (map da_address discovered) = Inr (client', metadata)"
    "select_valid (mp_required_governance mp) metadata discovered ([], 0) = Inr (valid, filtered)"
    using assms by (auto simp: load_valid_auctions_def err_bind_Inr_iff split: prod.splits)
  from select_valid_spec [OF reads(3)] have spec: "\<forall>d \<in> set discovered. reports_version metadata d"
    "valid = map (\<lambda>d. (d, reported metadata d))
       (filter (\<lambda>d. usable (mp_required_governance mp) (reported metadata d)) discovered)"
    by simp_all
  show thesis
    using reads spec discovered_from_spec [OF reads(1)] keyed_serving [OF spec] by (intro that) auto
qed

lemma serving_lookup:
  assumes "keyed (Some w, Some s) valid = map (\<lambda>d. (da_address d, reported metadata d))
      (filter (serves required metadata w s) discovered)"
    and "\<And>d. d \<in> set discovered \<Longrightarrow> reports_version metadata d"
  shows "keyed (Some w, Some s) valid = [] \<longleftrightarrow> serving_auction required metadata discovered w s = None"
    and "serving_auction required metadata discovered w s = Some d \<Longrightarrow>
      fst (last (keyed (Some w, Some s) valid)) = da_address d
      \<and> am_version (snd (last (keyed (Some w, Some s) valid))) = Some (spec_version (da_spec d))"
proof -
  show "keyed (Some w, Some s) valid = [] \<longleftrightarrow> serving_auction required metadata discovered w s = None"
    by (simp add: assms(1) serving_auction_def Let_def)
  assume "serving_auction required metadata discovered w s = Some d"
  then have serving: "filter (serves required metadata w s) discovered \<noteq> []"
    "d = last (filter (serves required metadata w s) discovered)"
    by (auto simp: serving_auction_def Let_def split: if_splits)
  then have "d \<in> set discovered" using last_in_set [OF serving(1)] by auto
  then have "am_version (reported metadata d) = Some (spec_version (da_spec d))"
    using assms(2) [of d] by (auto simp: reports_version_def)
  then show "fst (last (keyed (Some w, Some s) valid)) = da_address d
      \<and> am_version (snd (last (keyed (Some w, Some s) valid))) = Some (spec_version (da_spec d))"
    using serving by (simp add: assms(1) last_map)
qed

text \<open>
  The specification on the node's own reports: the last discovered auction that reports the governance,
  the want token and the source as receiver, neither of them the zero address.
\<close>

definition reports_serving ::
  "(string \<Rightarrow> address \<Rightarrow> string option result) \<Rightarrow> address \<Rightarrow> address \<Rightarrow> address \<Rightarrow> discovered_auction \<Rightarrow> bool" where
  "reports_serving report required w s d \<longleftrightarrow> report ''governance'' (da_address d) = Inr (Some required)
     \<and> report ''want'' (da_address d) = Inr (Some w) \<and> report ''receiver'' (da_address d) = Inr (Some s)
     \<and> w \<noteq> ZERO_ADDRESS \<and> s \<noteq> ZERO_ADDRESS"

definition last_serving ::
  "(string \<Rightarrow> address \<Rightarrow> string option result) \<Rightarrow> address \<Rightarrow> discovered_auction list \<Rightarrow> address \<Rightarrow> address \<Rightarrow> discovered_auction option" where
  "last_serving report required discovered w s =
     (let serving = filter (reports_serving report required w s) discovered in if serving = [] then None else Some (last serving))"

lemma serving_auction_reported:
  assumes "\<And>d f. d \<in> set discovered \<Longrightarrow> f \<in> set AUCTION_METADATA_FIELDS \<Longrightarrow> holds_report report metadata (da_address d) f"
  shows "serving_auction required metadata discovered w s = last_serving report required discovered w s"
proof -
  have fields: "''governance'' \<in> set AUCTION_METADATA_FIELDS" "''want'' \<in> set AUCTION_METADATA_FIELDS"
    "''receiver'' \<in> set AUCTION_METADATA_FIELDS" by code_simp+
  have "serves required metadata w s d = reports_serving report required w s d" if "d \<in> set discovered" for d
    using assms [OF that fields(1)] assms [OF that fields(2)] assms [OF that fields(3)]
    by (auto simp: serves_def reports_serving_def holds_report_def)
  then have "filter (serves required metadata w s) discovered = filter (reports_serving report required w s) discovered"
    by (intro filter_cong) simp_all
  then show ?thesis by (simp add: serving_auction_def last_serving_def Let_def)
qed

lemma strategy_reports_batched: "batched mp c1 = batched mp client \<Longrightarrow> strategy_reports isaddr mp node c1 = strategy_reports isaddr mp node client"
  by (simp add: strategy_reports_def fun_eq_iff)

lemma matched_served:
  assumes "keyed (Some w, Some s) valid = map (\<lambda>d. (da_address d, reported metadata d))
      (filter (serves required metadata w s) discovered)"
    and "\<And>d. d \<in> set discovered \<Longrightarrow> reports_version metadata d"
  shows "map_option fst (map_of (want_receiver_to_auction valid) (Some w, Some s))
      = map_option da_address (serving_auction required metadata discovered w s)"
    and "(case map_of (want_receiver_to_auction valid) (Some w, Some s) of Some (_, meta) \<Rightarrow> am_version meta | None \<Rightarrow> None)
      = map_option (\<lambda>d. spec_version (da_spec d)) (serving_auction required metadata discovered w s)"
  using serving_lookup [OF assms] unfolding lookup_last
  by (cases "serving_auction required metadata discovered w s"; auto simp: split_beta)+

text \<open>What loading the auctions establishes, in terms of the node's own reports.\<close>

lemma load_valid_reports:
  assumes load: "load_valid_auctions isaddr mp node client = Inr (c1, discovered, valid, filtered)"
    and faithful: "batched mp client \<Longrightarrow> multicall_faithful (nd_aggregate node) (nd_direct node)"
    and report: "report = auction_reports isaddr mp node client"
  shows "batched mp c1 = batched mp client"
    and "discovered = concat (map (listed_auctions node) (mp_specs mp))"
    and "\<forall>spec \<in> set (mp_specs mp). \<exists>addresses. nd_get_all_auctions node (spec_factory_address spec) = Inr addresses"
    and "\<forall>d \<in> set discovered. da_spec d \<in> set (mp_specs mp) \<and> report ''version'' (da_address d) = Inr (Some (spec_version (da_spec d)))"
    and "map_option fst (map_of (want_receiver_to_auction valid) (Some w, Some s))
      = map_option da_address (last_serving report (mp_required_governance mp) discovered w s)"
    and "(case map_of (want_receiver_to_auction valid) (Some w, Some s) of Some (_, meta) \<Rightarrow> am_version meta | None \<Rightarrow> None)
      = map_option (\<lambda>d. spec_version (da_spec d)) (last_serving report (mp_required_governance mp) discovered w s)"
proof -
  obtain metadata where
    reads: "read_auction_addresses isaddr (nd_get_all_auctions node) (mp_specs mp) = Inr discovered"
      "mapper_metadata isaddr mp node client (map da_address discovered) = Inr (c1, metadata)"
    and found: "\<And>d. d \<in> set discovered \<Longrightarrow> da_spec d \<in> set (mp_specs mp) \<and> reports_version metadata d"
    and keyed: "\<And>w s. keyed (Some w, Some s) valid = map (\<lambda>d. (da_address d, reported metadata d))
       (filter (serves (mp_required_governance mp) metadata w s) discovered)"
    using load_valid_spec [OF load] by blast
  have held: "holds_report report metadata (da_address d) f" if "d \<in> set discovered" "f \<in> set AUCTION_METADATA_FIELDS" for d f
    unfolding report by (rule mapper_metadata_reports(2) [OF reads(2) faithful]) (use that in auto)
  show "batched mp c1 = batched mp client" by (rule mapper_metadata_reports(1) [OF reads(2) faithful])
  show "discovered = concat (map (listed_auctions node) (mp_specs mp))"
    "\<forall>spec \<in> set (mp_specs mp). \<exists>addresses. nd_get_all_auctions node (spec_factory_address spec) = Inr addresses"
    using read_auction_addresses_listed [OF reads(1)] by blast+
  have "''version'' \<in> set AUCTION_METADATA_FIELDS" by code_simp
  then show "\<forall>d \<in> set discovered. da_spec d \<in> set (mp_specs mp) \<and> report ''version'' (da_address d) = Inr (Some (spec_version (da_spec d)))"
    using held found by (fastforce simp: holds_report_def reports_version_def)
  show "map_option fst (map_of (want_receiver_to_auction valid) (Some w, Some s))
      = map_option da_address (last_serving report (mp_required_governance mp) discovered w s)"
    "(case map_of (want_receiver_to_auction valid) (Some w, Some s) of Some (_, meta) \<Rightarrow> am_version meta | None \<Rightarrow> None)
      = map_option (\<lambda>d. spec_version (da_spec d)) (last_serving report (mp_required_governance mp) discovered w s)"
    using matched_served [OF keyed conjunct2 [OF found], of w s] serving_auction_reported [OF held] by simp_all
qed

text \<open>What a refresh returns, in terms of what its mapper read.\<close>

lemma refresh_result:
  assumes "refresh_for_strategies isaddr mp node client strategies = Inr (client', res)"
  obtains c1 discovered valid filtered matched where
    "load_valid_auctions isaddr mp node client = Inr (c1, discovered, valid, filtered)"
    "read_strategy_wants_many isaddr mp node c1 (sorted_set (map str_lower strategies)) = Inr (client', mr_source_to_want res)"
    "matched = (\<lambda>s. case map_of (mr_source_to_want res) s of
       Some (Some w) \<Rightarrow> map_of (want_receiver_to_auction valid) (Some w, Some s) | _ \<Rightarrow> None)"
    "mr_source_to_auction res = map (\<lambda>s. (s, map_option fst (matched s))) (sorted_set (map str_lower strategies))"
    "mr_source_to_version res = map (\<lambda>s. (s, case matched s of Some (_, meta) \<Rightarrow> am_version meta | None \<Rightarrow> None))
       (sorted_set (map str_lower strategies))"
    "mr_auction_count res = length discovered"
    "int (mr_mapped_count res) + mr_unmapped_count res = int (length (sorted_set (map str_lower strategies)))"
proof -
  obtain normalized where norm: "traverse_err (normalize_address isaddr) strategies = Inr normalized"
    using assms by (auto simp: refresh_for_strategies_def err_bind_Inr_iff)
  have lower: "normalized = map str_lower strategies"
    using norm by (induction strategies arbitrary: normalized) (auto simp: err_bind_Inr_iff normalize_address_Inr)
  obtain c1 discovered valid filtered wants where
    load: "load_valid_auctions isaddr mp node client = Inr (c1, discovered, valid, filtered)"
    and wants: "read_strategy_wants_many isaddr mp node c1 (sorted_set (map str_lower strategies)) = Inr (client', wants)"
    and res: "res = (let lookup = want_receiver_to_auction valid;
        matched = (\<lambda>s. case map_of wants s of Some (Some w) \<Rightarrow> map_of lookup (Some w, Some s) | _ \<Rightarrow> None);
        to_auction = map (\<lambda>s. (s, map_option fst (matched s))) (sorted_set (map str_lower strategies));
        to_version = map (\<lambda>s. (s, case matched s of Some (_, meta) \<Rightarrow> am_version meta | None \<Rightarrow> None)) (sorted_set (map str_lower strategies));
        mapped = count_mapped to_auction
      in \<lparr>mr_source_to_auction = to_auction, mr_source_to_want = wants, mr_source_to_version = to_version,
         mr_source_to_error = [], mr_auction_count = length discovered, mr_valid_auction_count = length valid,
         mr_receiver_filtered_count = filtered, mr_mapped_count = mapped,
         mr_unmapped_count = int (length to_auction) - int mapped, mr_source = ''fresh''\<rparr>)"
    using assms unfolding refresh_for_strategies_def norm lower err_bind.simps Let_def by (auto simp: err_bind_Inr_iff)
  show thesis by (rule that [OF load _ refl]) (use wants in \<open>simp_all add: res Let_def\<close>)
qed

text \<open>
  C33. A mapper for some factories maps every strategy to the last auction, factories taken
  in their priority order, that a factory lists and that reports the required governance,
  the want token the strategy itself reports and the strategy as receiver, neither of them
  the zero address, and to no auction when there is none or the strategy reports no want.
  The stored version is the one of that auction's factory, every listed auction reported the
  version of its factory, every factory answered, and mapped and unmapped strategies add up.
  It holds for reads by single calls and, where Multicall3 answers as single calls do, for
  batched ones.
\<close>

theorem mapped_strategies_explained:
  assumes mapper: "new_mapper isaddr required specs enabled batch_calls = Inr mp"
    and refresh: "refresh_for_strategies isaddr mp node client strategies = Inr (client', res)"
    and faithful: "batched mp client \<Longrightarrow> multicall_faithful (nd_aggregate node) (nd_direct node)"
  shows "let report = auction_reports isaddr mp node client; want = strategy_reports isaddr mp node client;
      discovered = concat (map (listed_auctions node) (sort_key spec_mapping_priority specs));
      served = (\<lambda>s. case want s of None \<Rightarrow> None | Some w \<Rightarrow> last_serving report (str_lower required) discovered w s);
      strategies' = sorted_set (map str_lower strategies)
    in (\<forall>spec \<in> set specs. \<exists>addresses. nd_get_all_auctions node (spec_factory_address spec) = Inr addresses)
      \<and> sorted (map (\<lambda>d. spec_mapping_priority (da_spec d)) discovered)
      \<and> (\<forall>d \<in> set discovered. da_spec d \<in> set specs \<and> report ''version'' (da_address d) = Inr (Some (spec_version (da_spec d))))
      \<and> mr_source_to_want res = map (\<lambda>s. (s, want s)) strategies'
      \<and> mr_source_to_auction res = map (\<lambda>s. (s, map_option da_address (served s))) strategies'
      \<and> mr_source_to_version res = map (\<lambda>s. (s, map_option (\<lambda>d. spec_version (da_spec d)) (served s))) strategies'
      \<and> mr_auction_count res = length discovered
      \<and> int (mr_mapped_count res) + mr_unmapped_count res = int (length strategies')"
proof -
  have mp: "mp_specs mp = sort_key spec_mapping_priority specs" "mp_required_governance mp = str_lower required"
    using mapper by (auto simp: new_mapper_def Let_def err_bind_Inr_iff normalize_address_Inr split: if_splits)
  define strategies' where "strategies' = sorted_set (map str_lower strategies)"
  define report where "report = auction_reports isaddr mp node client"
  define want where "want = strategy_reports isaddr mp node client"
  obtain c1 discovered valid filtered matched where load: "load_valid_auctions isaddr mp node client = Inr (c1, discovered, valid, filtered)"
    and wants: "read_strategy_wants_many isaddr mp node c1 strategies' = Inr (client', mr_source_to_want res)"
    and matched: "matched = (\<lambda>s. case map_of (mr_source_to_want res) s of
      Some (Some w) \<Rightarrow> map_of (want_receiver_to_auction valid) (Some w, Some s) | _ \<Rightarrow> None)"
    and res: "mr_source_to_auction res = map (\<lambda>s. (s, map_option fst (matched s))) strategies'"
      "mr_source_to_version res = map (\<lambda>s. (s, case matched s of Some (_, meta) \<Rightarrow> am_version meta | None \<Rightarrow> None)) strategies'"
      "mr_auction_count res = length discovered" "int (mr_mapped_count res) + mr_unmapped_count res = int (length strategies')"
    by (rule refresh_result [OF refresh, folded strategies'_def])
  note loaded = load_valid_reports [OF load faithful report_def]
  have same: "batched mp c1 = batched mp client" by (rule loaded(1))
  have listed: "concat (map (listed_auctions node) (sort_key spec_mapping_priority specs)) = discovered"
    using loaded(2) by (simp add: mp(1))
  have source_wants: "mr_source_to_want res = map (\<lambda>s. (s, want s)) strategies'"
    unfolding want_def strategy_reports_batched [OF same, symmetric]
    by (rule strategy_wants_reported [OF wants]) (use faithful same in \<open>simp_all add: strategies'_def\<close>)
  define served where "served s = (case want s of None \<Rightarrow> None | Some w \<Rightarrow> last_serving report (str_lower required) discovered w s)" for s
  have "map_option fst (matched s) = map_option da_address (served s)
      \<and> (case matched s of Some (_, meta) \<Rightarrow> am_version meta | None \<Rightarrow> None) = map_option (\<lambda>d. spec_version (da_spec d)) (served s)"
    if "s \<in> set strategies'" for s
    using that loaded(5,6) by (cases "want s") (simp_all add: matched served_def source_wants map_of_map_restrict mp(2))
  then have "mr_source_to_auction res = map (\<lambda>s. (s, map_option da_address (served s))) strategies'"
    "mr_source_to_version res = map (\<lambda>s. (s, map_option (\<lambda>d. spec_version (da_spec d)) (served s))) strategies'"
    by (simp_all add: res(1,2))
  moreover have "sorted (map (\<lambda>d. spec_mapping_priority (da_spec d)) discovered)"
    using listed_in_priority_order [of "sort_key spec_mapping_priority specs" node] listed by simp
  ultimately show ?thesis
    using loaded(3,4) source_wants res(3,4) unfolding Let_def strategies'_def [symmetric] report_def [symmetric] want_def [symmetric]
      listed by (simp add: served_def mp(1))
qed

text \<open>
  The two approved factories each list one auction for the same want and strategy, and the first of
  them another of a foreign governance; Multicall3 answers every sub-call as a single call does.
\<close>

definition sample_factories :: mapper_node where
  "sample_factories =
     \<lparr>nd_get_all_auctions = (\<lambda>factory. Inr (if factory = AUCTION_V104_FACTORY_ADDRESS then [''0xA4'', ''0xA3''] else [''0xA5''])),
      nd_auction_call = (\<lambda>field auction.
        if field = ''governance'' then Inr (if auction = ''0xa3'' then ''0xEE'' else ''0x60'')
        else if field = ''want'' then Inr ''0xD0''
        else if field = ''receiver'' then Inr ''0x51''
        else Inr (if auction = ''0xa5'' then '' 1.0.5 '' else ''1.0.4'')),
      nd_strategy_want = (\<lambda>strategy. if strategy = ''0x53'' then Inl (ValueError ''no want'') else Inr ''0xd0''),
      nd_aggregate = (\<lambda>_. Inl (RuntimeError ''unused'')), nd_direct = (\<lambda>_. Inl (RuntimeError ''unused'')),
      nd_call_data = (\<lambda>field. field), nd_abi_address = Inr, nd_abi_string = Inr\<rparr>"

definition sample_mapper :: mapper where
  "sample_mapper = \<lparr>mp_specs = APPROVED_AUCTION_SPECS, mp_required_governance = ''0x60'', mp_multicall_enabled = True,
     mp_batch_calls = 100\<rparr>"

text \<open>The same node read through Multicall3: the direct call of a request is the typed call.\<close>

definition single_call :: direct_fn where
  "single_call request = (if rq_target request = ''0x53'' then Inl (ValueError ''no want'')
     else if rq_target request = ''0x51'' then Inr ''0xd0''
     else nd_auction_call sample_factories (rq_call_data request) (rq_target request))"

definition batching_factories :: mapper_node where
  "batching_factories = sample_factories\<lparr>nd_direct := single_call,
     nd_aggregate := (\<lambda>chunk. Inr (map (\<lambda>request. case single_call request of Inr data \<Rightarrow> (True, data) | Inl _ \<Rightarrow> (False, [])) chunk))\<rparr>"

lemma batching_faithful: "multicall_faithful (nd_aggregate batching_factories) (nd_direct batching_factories)"
  unfolding multicall_faithful_def batching_factories_def
  by (auto simp: list_all2_map2 intro!: list.rel_refl split: sum.split)

definition batching_client :: multicall_client where
  "batching_client = \<lparr>mc_enabled = True, mc_disabled_for_run = False, mc_disable_reason_logged = False, mc_last_stats = empty_stats\<rparr>"

lemma sample_new_mapper: "new_mapper (\<lambda>_. True) ''0x60'' (rev APPROVED_AUCTION_SPECS) True 3 = Inr (sample_mapper\<lparr>mp_batch_calls := 3\<rparr>)"
  by code_simp

lemma batched_mapping:
  "case refresh_for_strategies (\<lambda>_. True) (sample_mapper\<lparr>mp_batch_calls := 3\<rparr>) batching_factories (Some batching_client)
      [''0x53'', ''0x51'', ''0x51''] of
    Inl _ \<Rightarrow> False | Inr (_, res) \<Rightarrow> mr_source_to_auction res = [(''0x51'', Some ''0xa5''), (''0x53'', None)]"
  by code_simp

theorem mapped_strategies_explained_witness:
  "\<exists>client' res. refresh_for_strategies (\<lambda>_. True) (sample_mapper\<lparr>mp_batch_calls := 3\<rparr>) batching_factories (Some batching_client)
      [''0x53'', ''0x51'', ''0x51''] = Inr (client', res)
    \<and> mr_source_to_auction res = [(''0x51'', Some ''0xa5''), (''0x53'', None)]
    \<and> mr_source_to_want res = [(''0x51'', Some ''0xd0''), (''0x53'', None)] \<and> mr_auction_count res = 3"
proof -
  let ?mapper = "sample_mapper\<lparr>mp_batch_calls := 3\<rparr>"
  obtain client' res where run: "refresh_for_strategies (\<lambda>_. True) ?mapper batching_factories (Some batching_client)
      [''0x53'', ''0x51'', ''0x51''] = Inr (client', res)" "mr_source_to_auction res = [(''0x51'', Some ''0xa5''), (''0x53'', None)]"
    using batched_mapping by (auto split: sum.splits)
  have sources: "sorted_set (map str_lower [''0x53'', ''0x51'', ''0x51'']) = [''0x51'', ''0x53'']" by code_simp
  have wants: "map (\<lambda>s. (s, strategy_reports (\<lambda>_. True) ?mapper batching_factories (Some batching_client) s)) [''0x51'', ''0x53'']
      = [(''0x51'', Some ''0xd0''), (''0x53'', None)]" by code_simp
  have listed: "length (concat (map (listed_auctions batching_factories) (sort_key spec_mapping_priority (rev APPROVED_AUCTION_SPECS)))) = 3"
    by code_simp
  have "mr_source_to_want res = [(''0x51'', Some ''0xd0''), (''0x53'', None)] \<and> mr_auction_count res = 3"
    using mapped_strategies_explained [OF sample_new_mapper run(1) batching_faithful]
    unfolding Let_def sources wants listed by blast
  with run show ?thesis by blast
qed

section \<open>Fee burners\<close>

text \<open>
  A fee burner is mapped to the auction the same specification names for its configured want
  token, and an unmapped one, and only that, has an error.
\<close>

theorem mapped_fee_burners_explained:
  assumes "refresh_for_fee_burners isaddr mp node client burners = Inr (client', res)"
  shows "\<exists>discovered metadata normalized.
    read_auction_addresses isaddr (nd_get_all_auctions node) (mp_specs mp) = Inr discovered
    \<and> mapper_metadata isaddr mp node client (map da_address discovered) = Inr (client', metadata)
    \<and> fold_err (normalize_fee_burner isaddr) burners [] = Inr normalized
    \<and> (let served = (\<lambda>(b, w). serving_auction (mp_required_governance mp) metadata discovered w b)
      in mr_source_to_auction res = map (\<lambda>e. (fst e, map_option da_address (served e))) normalized
       \<and> mr_source_to_version res = map (\<lambda>e. (fst e, map_option (\<lambda>d. spec_version (da_spec d)) (served e))) normalized
       \<and> map fst (mr_source_to_error res) = map fst (filter (\<lambda>e. served e = None) normalized))"
proof -
  obtain normalized discovered valid filtered where
    norm: "fold_err (normalize_fee_burner isaddr) burners [] = Inr normalized"
    and load: "load_valid_auctions isaddr mp node client = Inr (client', discovered, valid, filtered)"
    and res: "mr_source_to_auction res = map (\<lambda>(b, w). (b, if keyed (Some w, Some b) valid \<noteq> []
        then Some (fst (last (keyed (Some w, Some b) valid))) else None)) normalized"
      "mr_source_to_version res = map (\<lambda>(b, w). (b, if keyed (Some w, Some b) valid \<noteq> []
        then am_version (snd (last (keyed (Some w, Some b) valid))) else None)) normalized"
      "map fst (mr_source_to_error res) = map fst (filter (\<lambda>(b, w). keyed (Some w, Some b) valid = []) normalized)"
  proof -
    have "(case map_of (matches_by_key valid) k of None \<Rightarrow> [] | Some ms \<Rightarrow> ms) = keyed k valid" for valid k
      by (simp add: lookup_all)
    then show thesis
      using assms unfolding refresh_for_fee_burners_def Let_def err_bind_Inr_iff
      by (auto simp: err_bind_Inr_iff split_beta intro!: that)
  qed
  obtain metadata where
    reads: "read_auction_addresses isaddr (nd_get_all_auctions node) (mp_specs mp) = Inr discovered"
      "mapper_metadata isaddr mp node client (map da_address discovered) = Inr (client', metadata)"
    and found: "\<And>d. d \<in> set discovered \<Longrightarrow> da_spec d \<in> set (mp_specs mp) \<and> reports_version metadata d"
    and keyed: "\<And>w s. keyed (Some w, Some s) valid = map (\<lambda>d. (da_address d, reported metadata d))
       (filter (serves (mp_required_governance mp) metadata w s) discovered)"
    using load_valid_spec [OF load] by blast
  define served where "served e = (case e of (b, w) \<Rightarrow> serving_auction (mp_required_governance mp) metadata discovered w b)" for e
  have "(keyed (Some w, Some b) valid = []) = (served (b, w) = None)"
    "served (b, w) = Some d \<Longrightarrow> fst (last (keyed (Some w, Some b) valid)) = da_address d
      \<and> am_version (snd (last (keyed (Some w, Some b) valid))) = Some (spec_version (da_spec d))" for b w d
    using serving_lookup [OF keyed conjunct2 [OF found], of w b] by (simp_all add: served_def)
  then have "mr_source_to_auction res = map (\<lambda>e. (fst e, map_option da_address (served e))) normalized"
    "mr_source_to_version res = map (\<lambda>e. (fst e, map_option (\<lambda>d. spec_version (da_spec d)) (served e))) normalized"
    "map fst (mr_source_to_error res) = map fst (filter (\<lambda>e. served e = None) normalized)"
    unfolding res by (auto simp: split_beta intro!: arg_cong [where f = "map fst"] filter_cong)
  then show ?thesis
    using reads norm by (intro exI [of _ discovered] exI [of _ metadata] exI [of _ normalized]) (simp add: Let_def flip: served_def)
qed

lemma sample_fee_burner_mapping:
  "refresh_for_fee_burners (\<lambda>_. True) sample_mapper sample_factories None [(''0x51'', ''0xD0''), (''0x52'', ''0xD0'')] = Inr (None,
     \<lparr>mr_source_to_auction = [(''0x51'', Some ''0xa5''), (''0x52'', None)],
      mr_source_to_want = [(''0x51'', Some ''0xd0''), (''0x52'', Some ''0xd0'')],
      mr_source_to_version = [(''0x51'', Some ''1.0.5''), (''0x52'', None)],
      mr_source_to_error = [(''0x52'', ''no matching auction found for configured want/receiver'')],
      mr_auction_count = 3, mr_valid_auction_count = 2, mr_receiver_filtered_count = 0,
      mr_mapped_count = 1, mr_unmapped_count = 1, mr_source = ''fresh''\<rparr>)"
  by code_simp

theorem mapped_fee_burners_explained_witness:
  "\<exists>discovered metadata.
    read_auction_addresses (\<lambda>_. True) (nd_get_all_auctions sample_factories) (mp_specs sample_mapper) = Inr discovered
    \<and> map_option da_address (serving_auction ''0x60'' metadata discovered ''0xd0'' ''0x51'') = Some ''0xa5''
    \<and> serving_auction ''0x60'' metadata discovered ''0xd0'' ''0x52'' = None"
proof -
  have norm: "fold_err (normalize_fee_burner (\<lambda>_. True)) [(''0x51'', ''0xD0''), (''0x52'', ''0xD0'')] [] =
      Inr [(''0x51'', ''0xd0''), (''0x52'', ''0xd0'')]"
    by code_simp
  show ?thesis
    using mapped_fee_burners_explained [OF sample_fee_burner_mapping] unfolding Let_def norm
    by (auto simp: sample_mapper_def dest!: sym [of "Some _"])
qed

end
