(* ===== verification/ScanStore.thy ===== *)
theory ScanStore
  imports Candidates Json
begin

text \<open>
  The scan repositories of \<open>tidal/persistence/repositories.py\<close> (everything before the
  transaction runs) over the tables of \<open>tidal/persistence/models.py\<close>. A table is the list of its
  rows, \<open>NULL\<close> is \<open>None\<close>, and a query without \<open>ORDER BY\<close> returns rows in table order. A row
  given to a repository is a record, because its only callers pass every key. An insert with
  \<open>on_conflict_do_update\<close> is \<open>upsert_row\<close>: a new key appends the row, a known one changes the
  stored row by what the statement sets from the new row.
\<close>

section \<open>Keyed tables\<close>

definition upsert_row :: "('r \<Rightarrow> 'k) \<Rightarrow> ('r \<Rightarrow> 'r \<Rightarrow> 'r) \<Rightarrow> 'r \<Rightarrow> 'r list \<Rightarrow> 'r list" where
  "upsert_row key change row rows =
     (if key row \<in> key ` set rows then map (\<lambda>r. if key r = key row then change row r else r) rows
      else rows @ [row])"

definition upsert_rows :: "('r \<Rightarrow> 'k) \<Rightarrow> ('r \<Rightarrow> 'r \<Rightarrow> 'r) \<Rightarrow> 'r list \<Rightarrow> 'r list \<Rightarrow> 'r list" where
  "upsert_rows key change new rows = fold (upsert_row key change) new rows"

definition row_of :: "('r \<Rightarrow> 'k) \<Rightarrow> 'r list \<Rightarrow> 'k \<Rightarrow> 'r option" where
  "row_of key rows k = find (\<lambda>r. key r = k) rows"

text \<open>\<open>UPDATE ... WHERE\<close>\<close>

definition update_where :: "('r \<Rightarrow> bool) \<Rightarrow> ('r \<Rightarrow> 'r) \<Rightarrow> 'r list \<Rightarrow> 'r list" where
  "update_where p f rows = map (\<lambda>r. if p r then f r else r) rows"

text \<open>What a table with a primary key promises: one row per key, and an upsert of one key is seen
  under that key only.\<close>

locale keyed_table =
  fixes key :: "'r \<Rightarrow> 'k"
    and change :: "'r \<Rightarrow> 'r \<Rightarrow> 'r"
  assumes key_change: "key r = key row \<Longrightarrow> key (change row r) = key row"
begin

lemma keys_changed: "map key (map (\<lambda>r. if key r = key row then change row r else r) rows) = map key rows"
  by (induction rows) (simp_all add: key_change)

lemma map_key_upsert:
  "map key (upsert_row key change row rows) =
     (if key row \<in> key ` set rows then map key rows else map key rows @ [key row])"
  by (simp add: upsert_row_def keys_changed del: map_map)

lemma keys_upsert: "key ` set (upsert_row key change row rows) = insert (key row) (key ` set rows)"
proof -
  have "key ` set (upsert_row key change row rows) = set (map key (upsert_row key change row rows))"
    by simp
  then show ?thesis unfolding map_key_upsert by auto
qed

lemma distinct_upsert: "distinct (map key rows) \<Longrightarrow> distinct (map key (upsert_row key change row rows))"
  unfolding map_key_upsert by simp

lemma row_of_upsert:
  "row_of key (upsert_row key change row rows) k =
     (if k = key row then Some (case row_of key rows k of None \<Rightarrow> row | Some r \<Rightarrow> change row r)
      else row_of key rows k)"
proof -
  have changed: "find (\<lambda>r. key r = k) (map (\<lambda>r. if key r = key row then change row r else r) rs) =
      (if k = key row then map_option (change row) (find (\<lambda>r. key r = k) rs) else find (\<lambda>r. key r = k) rs)" for rs k
    by (induction rs) (auto simp: key_change)
  have appended: "find (\<lambda>r. key r = k) (rs @ [row]) =
      (case find (\<lambda>r. key r = k) rs of None \<Rightarrow> if k = key row then Some row else None | Some r \<Rightarrow> Some r)" for rs k
    by (induction rs) auto
  have found: "key row \<in> key ` set rs \<longleftrightarrow> find (\<lambda>r. key r = key row) rs \<noteq> None" for rs
    by (induction rs) auto
  show ?thesis
    unfolding upsert_row_def row_of_def found
    by (cases "k = key row"; cases "find (\<lambda>r. key r = key row) rows"; cases "find (\<lambda>r. key r = k) rows")
      (simp_all add: changed appended)
qed

lemma row_of_upserts_other: "k \<notin> key ` set new \<Longrightarrow> row_of key (upsert_rows key change new rows) k = row_of key rows k"
  by (induction new arbitrary: rows) (auto simp: upsert_rows_def row_of_upsert)

lemma distinct_upserts: "distinct (map key rows) \<Longrightarrow> distinct (map key (upsert_rows key change new rows))"
  by (induction new arbitrary: rows) (auto simp: upsert_rows_def distinct_upsert)

lemma keys_upserts: "key ` set (upsert_rows key change new rows) = key ` set new \<union> key ` set rows"
  by (induction new arbitrary: rows) (auto simp: upsert_rows_def keys_upsert)

text \<open>Every row of the result is one the statements wrote, or an old one they did not name.\<close>

lemma upserts_cases:
  assumes "r \<in> set (upsert_rows key change new rows)"
    and "\<And>row. row \<in> set new \<Longrightarrow> P row" "\<And>row r. row \<in> set new \<Longrightarrow> key r = key row \<Longrightarrow> P (change row r)"
  shows "P r \<or> r \<in> set rows \<and> key r \<notin> key ` set new"
  using assms
proof (induction new arbitrary: rows)
  case (Cons n new)
  have "P r \<or> r \<in> set (upsert_row key change n rows) \<and> key r \<notin> key ` set new"
    by (rule Cons.IH) (use Cons.prems in \<open>auto simp: upsert_rows_def\<close>)
  moreover have "P r \<or> r \<in> set rows \<and> key r \<noteq> key n" if "r \<in> set (upsert_row key change n rows)"
    using that Cons.prems(2,3) by (fastforce simp: upsert_row_def image_iff split: if_splits)
  ultimately show ?case by auto
qed (simp add: upsert_rows_def)

text \<open>Distinct new rows are each seen under their key.\<close>

lemma row_of_upserts:
  assumes "distinct (map key new)" "row \<in> set new"
  shows "row_of key (upsert_rows key change new rows) (key row) =
    Some (case row_of key rows (key row) of None \<Rightarrow> row | Some r \<Rightarrow> change row r)"
  using assms
proof (induction new arbitrary: rows)
  case (Cons n new)
  have step: "upsert_rows key change (n # new) rows = upsert_rows key change new (upsert_row key change n rows)"
    by (simp add: upsert_rows_def)
  show ?case
  proof (cases "row = n")
    case True
    then have "key n \<notin> key ` set new" using Cons.prems(1) by auto
    then show ?thesis unfolding step True by (simp add: row_of_upserts_other row_of_upsert)
  next
    case False
    then have "row \<in> set new" using Cons.prems by simp
    moreover from this have "key row \<noteq> key n" using Cons.prems(1) by (metis distinct.simps(2) image_eqI list.set_map list.simps(9))
    ultimately show ?thesis using Cons.IH [of "upsert_row key change n rows"] Cons.prems(1) unfolding step
      by (simp add: row_of_upsert)
  qed
qed simp

end

lemma row_of_Some: "row_of key rows k = Some r \<Longrightarrow> r \<in> set rows \<and> key r = k"
  by (auto simp: row_of_def find_Some_iff)

lemma row_of_iff:
  "distinct (map key rows) \<Longrightarrow> row_of key rows k = Some r \<longleftrightarrow> r \<in> set rows \<and> key r = k"
  by (induction rows) (auto simp: row_of_def)

lemma row_of_update_where:
  assumes "\<And>r. key (f r) = key r"
  shows "row_of key (update_where p f rows) k = map_option (\<lambda>r. if p r then f r else r) (row_of key rows k)"
  using assms by (induction rows) (auto simp: row_of_def update_where_def)

lemma distinct_update_where:
  assumes "\<And>r. key (f r) = key r"
  shows "distinct (map key (update_where p f rows)) = distinct (map key rows)"
proof -
  have "map key (update_where p f rows) = map key rows"
    using assms by (simp add: update_where_def)
  then show ?thesis by simp
qed

section \<open>Tables\<close>

record vault_record =
  vt_address :: address
  vt_chain_id :: int
  vt_name :: "string option"
  vt_symbol :: "string option"
  vt_active :: int
  vt_deposit_limit :: "string option"
  vt_first_seen_at :: string
  vt_last_seen_at :: string

text \<open>\<open>strategies\<close> and \<open>fee_burners\<close>; a fee burner has no vault and no adapter.\<close>

record source_record =
  sc_address :: address
  sc_chain_id :: int
  sc_vault_address :: "string option"
  sc_name :: "string option"
  sc_adapter :: "string option"
  sc_active :: int
  sc_auction_address :: "string option"
  sc_want_address :: "string option"
  sc_auction_version :: "string option"
  sc_auction_updated_at :: "string option"
  sc_auction_error_message :: "string option"
  sc_first_seen_at :: string
  sc_last_seen_at :: string

record token_metadata =
  tm_address :: address
  tm_chain_id :: int
  tm_name :: "string option"
  tm_symbol :: "string option"
  tm_decimals :: int
  tm_is_core_reward :: bool
  tm_first_seen_at :: string
  tm_last_seen_at :: string

record token_record =
  tk_address :: address
  tk_chain_id :: int
  tk_name :: "string option"
  tk_symbol :: "string option"
  tk_decimals :: int
  tk_is_core_reward :: int
  tk_price_usd :: "string option"
  tk_price_source :: "string option"
  tk_price_status :: "string option"
  tk_price_fetched_at :: "string option"
  tk_price_run_id :: "string option"
  tk_price_error_message :: "string option"
  tk_first_seen_at :: string
  tk_last_seen_at :: string

text \<open>\<open>strategy_tokens\<close> and \<open>fee_burner_tokens\<close>, and the two tables of latest balances.\<close>

record source_token =
  sk_source_address :: address
  sk_token_address :: address
  sk_source :: string
  sk_active :: int
  sk_first_seen_at :: string
  sk_last_seen_at :: string

record balance_record =
  bl_source_address :: address
  bl_token_address :: address
  bl_raw_balance :: string
  bl_normalized_balance :: string
  bl_block_number :: int
  bl_scanned_at :: string

record balance_result =
  bs_source_address :: address
  bs_token_address :: address
  bs_raw_balance :: int
  bs_normalized_balance :: string
  bs_block_number :: int
  bs_scanned_at :: string

record enabled_token =
  et_auction_address :: address
  et_token_address :: address
  et_active :: int
  et_first_seen_at :: string
  et_last_seen_at :: string

record enabled_scan =
  eb_auction_address :: address
  eb_scanned_at :: string
  eb_block_number :: "int option"
  eb_status :: string
  eb_error_message :: "string option"

record guard_status =
  gs_source_type :: string
  gs_source_address :: address
  gs_auction_address :: "string option"
  gs_disabled :: int
  gs_reason :: "string option"
  gs_detail :: "string option"
  gs_checked_at :: string
  gs_block_number :: "int option"

record prepare_status =
  ps_source_type :: string
  ps_source_address :: string
  ps_auction_address :: string
  ps_token_address :: string
  ps_status :: string
  ps_reason :: string
  ps_source_balance_raw :: string
  ps_detail_json :: "string option"
  ps_checked_at :: string

record scan_run_record =
  sr_run_id :: string
  sr_started_at :: string
  sr_finished_at :: "string option"
  sr_status :: string
  sr_vaults_seen :: int
  sr_strategies_seen :: int
  sr_pairs_seen :: int
  sr_pairs_succeeded :: int
  sr_pairs_failed :: int
  sr_error_summary :: "string option"

record item_error =
  ie_stage :: string
  ie_error_code :: string
  ie_error_message :: string
  ie_source_type :: "string option"
  ie_source_address :: "string option"
  ie_token_address :: "string option"

record error_record =
  er_id :: int
  er_run_id :: string
  er_source_type :: "string option"
  er_source_address :: "string option"
  er_strategy_address :: "string option"
  er_token_address :: "string option"
  er_stage :: string
  er_error_code :: string
  er_error_message :: string
  er_created_at :: string

section \<open>Sources and vaults\<close>

definition set_vault :: "vault_record \<Rightarrow> vault_record \<Rightarrow> vault_record" where
  "set_vault row r = r\<lparr>vt_chain_id := vt_chain_id row,
     vt_name := (if vt_name row \<noteq> None then vt_name row else vt_name r),
     vt_symbol := (if vt_symbol row \<noteq> None then vt_symbol row else vt_symbol r),
     vt_active := vt_active row, vt_last_seen_at := vt_last_seen_at row\<rparr>"

definition set_strategy :: "source_record \<Rightarrow> source_record \<Rightarrow> source_record" where
  "set_strategy row r = r\<lparr>sc_chain_id := sc_chain_id row, sc_vault_address := sc_vault_address row,
     sc_name := (if sc_name row \<noteq> None then sc_name row else sc_name r),
     sc_adapter := sc_adapter row, sc_active := sc_active row, sc_last_seen_at := sc_last_seen_at row\<rparr>"

definition set_fee_burner :: "source_record \<Rightarrow> source_record \<Rightarrow> source_record" where
  "set_fee_burner row r = r\<lparr>sc_chain_id := sc_chain_id row,
     sc_name := (if sc_name row \<noteq> None then sc_name row else sc_name r),
     sc_active := sc_active row, sc_want_address := sc_want_address row, sc_last_seen_at := sc_last_seen_at row\<rparr>"

interpretation vault_table: keyed_table vt_address set_vault
  by unfold_locales (simp add: set_vault_def)

interpretation strategy_table: keyed_table sc_address set_strategy
  by unfold_locales (simp add: set_strategy_def)

interpretation fee_burner_table: keyed_table sc_address set_fee_burner
  by unfold_locales (simp add: set_fee_burner_def)

definition upsert_vaults :: "vault_record list \<Rightarrow> vault_record list \<Rightarrow> vault_record list" where
  "upsert_vaults new rows = upsert_rows vt_address set_vault new rows"

definition upsert_strategies :: "source_record list \<Rightarrow> source_record list \<Rightarrow> source_record list" where
  "upsert_strategies new rows = upsert_rows sc_address set_strategy new rows"

definition upsert_fee_burners :: "source_record list \<Rightarrow> source_record list \<Rightarrow> source_record list" where
  "upsert_fee_burners new rows = upsert_rows sc_address set_fee_burner new rows"

definition missing_column :: "('r \<Rightarrow> address) \<Rightarrow> ('r \<Rightarrow> string option) \<Rightarrow> address list \<Rightarrow> 'r list \<Rightarrow> address list" where
  "missing_column key column addresses rows =
     (if addresses = [] then []
      else map key (filter (\<lambda>r. key r \<in> set addresses \<and> column r = None) rows))"

definition vaults_missing_name :: "address list \<Rightarrow> vault_record list \<Rightarrow> address list" where
  "vaults_missing_name addresses rows = missing_column vt_address vt_name addresses rows"

definition vaults_missing_symbol :: "address list \<Rightarrow> vault_record list \<Rightarrow> address list" where
  "vaults_missing_symbol addresses rows = missing_column vt_address vt_symbol addresses rows"

definition strategies_missing_name :: "address list \<Rightarrow> source_record list \<Rightarrow> address list" where
  "strategies_missing_name addresses rows = missing_column sc_address sc_name addresses rows"

definition set_vault_name :: "address \<Rightarrow> string \<Rightarrow> vault_record list \<Rightarrow> vault_record list" where
  "set_vault_name address name rows = update_where (\<lambda>r. vt_address r = address) (\<lambda>r. r\<lparr>vt_name := Some name\<rparr>) rows"

definition set_vault_symbol :: "address \<Rightarrow> string \<Rightarrow> vault_record list \<Rightarrow> vault_record list" where
  "set_vault_symbol address symbol rows =
     update_where (\<lambda>r. vt_address r = address) (\<lambda>r. r\<lparr>vt_symbol := Some symbol\<rparr>) rows"

definition set_deposit_limit :: "address \<Rightarrow> string \<Rightarrow> vault_record list \<Rightarrow> vault_record list" where
  "set_deposit_limit address deposit_limit rows =
     update_where (\<lambda>r. vt_address r = address) (\<lambda>r. r\<lparr>vt_deposit_limit := Some deposit_limit\<rparr>) rows"

definition set_strategy_name :: "address \<Rightarrow> string \<Rightarrow> source_record list \<Rightarrow> source_record list" where
  "set_strategy_name address name rows =
     update_where (\<lambda>r. sc_address r = address) (\<lambda>r. r\<lparr>sc_name := Some name\<rparr>) rows"

definition delete_addresses_if_orphaned ::
  "address list \<Rightarrow> source_record list \<Rightarrow> vault_record list \<Rightarrow> vault_record list" where
  "delete_addresses_if_orphaned addresses strategies vaults =
     fold (\<lambda>a vaults. if \<exists>s \<in> set strategies. sc_vault_address s = Some a then vaults
        else filter (\<lambda>v. vt_address v \<noteq> a) vaults) addresses vaults"

definition delete_strategy_address_rows_without_children ::
  "source_record list \<Rightarrow> vault_record list \<Rightarrow> vault_record list" where
  "delete_strategy_address_rows_without_children strategies vaults =
     delete_addresses_if_orphaned (remdups (map sc_address strategies)) strategies vaults"

text \<open>A missing dictionary is \<open>None\<close>; fee burners have the same statement on their own table.\<close>

definition set_auction_mappings ::
  "(address \<times> string option) list \<Rightarrow> string \<Rightarrow> (address \<times> string option) list option
     \<Rightarrow> (address \<times> string option) list option \<Rightarrow> source_record list \<Rightarrow> source_record list" where
  "set_auction_mappings source_to_auction updated_at source_to_want source_to_version rows =
     fold (\<lambda>(a, auction) rows. update_where (\<lambda>r. sc_address r = a)
       (\<lambda>r. r\<lparr>sc_auction_address := auction, sc_auction_updated_at := Some updated_at, sc_auction_error_message := None,
          sc_want_address := (case source_to_want of None \<Rightarrow> sc_want_address r
             | Some d \<Rightarrow> (case map_of d a of None \<Rightarrow> None | Some w \<Rightarrow> w)),
          sc_auction_version := (case source_to_version of None \<Rightarrow> sc_auction_version r
             | Some d \<Rightarrow> (case map_of d a of None \<Rightarrow> None | Some v \<Rightarrow> v))\<rparr>) rows) source_to_auction rows"

definition set_fee_burner_mappings ::
  "(address \<times> string option) list \<Rightarrow> string \<Rightarrow> (address \<times> string option) list option
     \<Rightarrow> (address \<times> string option) list option \<Rightarrow> source_record list \<Rightarrow> source_record list" where
  "set_fee_burner_mappings fee_burner_to_auction updated_at fee_burner_to_want fee_burner_to_version rows =
     set_auction_mappings fee_burner_to_auction updated_at fee_burner_to_want fee_burner_to_version rows"

definition mark_strategies_refresh_failed :: "address list \<Rightarrow> string \<Rightarrow> string \<Rightarrow> source_record list \<Rightarrow> source_record list" where
  "mark_strategies_refresh_failed addresses updated_at error_message rows =
     (if addresses = [] then rows
      else update_where (\<lambda>r. sc_address r \<in> set addresses)
        (\<lambda>r. r\<lparr>sc_auction_updated_at := Some updated_at, sc_auction_error_message := Some error_message\<rparr>) rows)"

definition mark_fee_burners_refresh_failed :: "(address \<times> string) list \<Rightarrow> string \<Rightarrow> source_record list \<Rightarrow> source_record list" where
  "mark_fee_burners_refresh_failed address_to_error updated_at rows =
     fold (\<lambda>(a, error_message) rows. update_where (\<lambda>r. sc_address r = a)
       (\<lambda>r. r\<lparr>sc_auction_updated_at := Some updated_at, sc_auction_error_message := Some error_message\<rparr>) rows)
       address_to_error rows"

definition auction_mapping_for_addresses :: "address list \<Rightarrow> source_record list \<Rightarrow> (address \<times> string option) list" where
  "auction_mapping_for_addresses addresses rows =
     (if addresses = [] then []
      else map (\<lambda>r. (sc_address r, sc_auction_address r)) (filter (\<lambda>r. sc_address r \<in> set addresses) rows))"

record auction_detail =
  ad_address :: address
  ad_auction_address :: "string option"
  ad_want_address :: "string option"

definition auction_details_for_addresses :: "address list \<Rightarrow> source_record list \<Rightarrow> auction_detail list" where
  "auction_details_for_addresses addresses rows =
     (if addresses = [] then []
      else map (\<lambda>r. \<lparr>ad_address = sc_address r, ad_auction_address = sc_auction_address r,
          ad_want_address = sc_want_address r\<rparr>) (filter (\<lambda>r. sc_address r \<in> set addresses) rows))"

section \<open>Tokens, balances and enablement\<close>

definition token_get :: "address \<Rightarrow> token_record list \<Rightarrow> token_metadata option" where
  "token_get address rows =
     map_option (\<lambda>r. \<lparr>tm_address = tk_address r, tm_chain_id = tk_chain_id r, tm_name = tk_name r, tm_symbol = tk_symbol r,
       tm_decimals = tk_decimals r, tm_is_core_reward = (tk_is_core_reward r \<noteq> 0), tm_first_seen_at = tk_first_seen_at r,
       tm_last_seen_at = tk_last_seen_at r\<rparr>) (row_of tk_address rows address)"

definition new_token :: "token_metadata \<Rightarrow> token_record" where
  "new_token t = \<lparr>tk_address = tm_address t, tk_chain_id = tm_chain_id t, tk_name = tm_name t, tk_symbol = tm_symbol t,
     tk_decimals = tm_decimals t, tk_is_core_reward = (if tm_is_core_reward t then 1 else 0), tk_price_usd = None,
     tk_price_source = None, tk_price_status = None, tk_price_fetched_at = None, tk_price_run_id = None,
     tk_price_error_message = None, tk_first_seen_at = tm_first_seen_at t, tk_last_seen_at = tm_last_seen_at t\<rparr>"

definition set_token :: "token_record \<Rightarrow> token_record \<Rightarrow> token_record" where
  "set_token row r = r\<lparr>tk_chain_id := tk_chain_id row, tk_name := tk_name row, tk_symbol := tk_symbol row,
     tk_decimals := tk_decimals row, tk_is_core_reward := tk_is_core_reward row, tk_last_seen_at := tk_last_seen_at row\<rparr>"

interpretation token_table: keyed_table tk_address set_token
  by unfold_locales (simp add: set_token_def)

definition token_upsert :: "token_metadata \<Rightarrow> token_record list \<Rightarrow> token_record list" where
  "token_upsert t rows = upsert_row tk_address set_token (new_token t) rows"

definition set_latest_price ::
  "address \<Rightarrow> string option \<Rightarrow> string \<Rightarrow> string \<Rightarrow> string \<Rightarrow> string \<Rightarrow> string option \<Rightarrow> token_record list \<Rightarrow> token_record list" where
  "set_latest_price address price_usd source status fetched_at run_id error_message rows =
     update_where (\<lambda>r. tk_address r = address)
       (\<lambda>r. r\<lparr>tk_price_usd := price_usd, tk_price_source := Some source, tk_price_status := Some status,
          tk_price_fetched_at := Some fetched_at, tk_price_run_id := Some run_id,
          tk_price_error_message := error_message\<rparr>) rows"

definition mark_price_refresh_failed ::
  "address \<Rightarrow> string \<Rightarrow> string \<Rightarrow> string \<Rightarrow> string \<Rightarrow> string option \<Rightarrow> token_record list \<Rightarrow> token_record list" where
  "mark_price_refresh_failed address source status fetched_at run_id error_message rows =
     update_where (\<lambda>r. tk_address r = address)
       (\<lambda>r. r\<lparr>tk_price_source := Some source, tk_price_status := Some status,
          tk_price_fetched_at := Some fetched_at, tk_price_run_id := Some run_id,
          tk_price_error_message := error_message\<rparr>) rows"

definition source_token_key :: "source_token \<Rightarrow> address \<times> address" where
  "source_token_key r = (sk_source_address r, sk_token_address r)"

definition set_source_token :: "source_token \<Rightarrow> source_token \<Rightarrow> source_token" where
  "set_source_token row r = r\<lparr>sk_source := sk_source row, sk_active := 1, sk_last_seen_at := sk_last_seen_at row\<rparr>"

interpretation source_token_table: keyed_table source_token_key set_source_token
  by unfold_locales (simp add: set_source_token_def source_token_key_def)

definition source_token_upsert :: "address \<Rightarrow> address \<Rightarrow> string \<Rightarrow> string \<Rightarrow> source_token list \<Rightarrow> source_token list" where
  "source_token_upsert source_address token_address source now_iso rows =
     upsert_row source_token_key set_source_token
       \<lparr>sk_source_address = source_address, sk_token_address = token_address, sk_source = source, sk_active = 1,
        sk_first_seen_at = now_iso, sk_last_seen_at = now_iso\<rparr> rows"

definition fee_burner_token_upsert :: "address \<Rightarrow> address \<Rightarrow> string \<Rightarrow> string \<Rightarrow> source_token list \<Rightarrow> source_token list" where
  "fee_burner_token_upsert fee_burner_address token_address source now_iso rows =
     source_token_upsert fee_burner_address token_address source now_iso rows"

definition balance_key :: "balance_record \<Rightarrow> address \<times> address" where
  "balance_key r = (bl_source_address r, bl_token_address r)"

definition set_balance :: "balance_record \<Rightarrow> balance_record \<Rightarrow> balance_record" where
  "set_balance row r = r\<lparr>bl_raw_balance := bl_raw_balance row, bl_normalized_balance := bl_normalized_balance row,
     bl_block_number := bl_block_number row, bl_scanned_at := bl_scanned_at row\<rparr>"

interpretation balance_table: keyed_table balance_key set_balance
  by unfold_locales (simp add: set_balance_def balance_key_def)

definition new_balance :: "balance_result \<Rightarrow> balance_record" where
  "new_balance b = \<lparr>bl_source_address = bs_source_address b, bl_token_address = bs_token_address b,
     bl_raw_balance = show_int (bs_raw_balance b), bl_normalized_balance = bs_normalized_balance b,
     bl_block_number = bs_block_number b, bl_scanned_at = bs_scanned_at b\<rparr>"

definition balance_upsert :: "balance_result \<Rightarrow> balance_record list \<Rightarrow> balance_record list" where
  "balance_upsert b rows = upsert_row balance_key set_balance (new_balance b) rows"

definition fee_burner_balance_upsert :: "balance_result \<Rightarrow> balance_record list \<Rightarrow> balance_record list" where
  "fee_burner_balance_upsert b rows = balance_upsert b rows"

definition enabled_key :: "enabled_token \<Rightarrow> address \<times> address" where
  "enabled_key r = (et_auction_address r, et_token_address r)"

definition set_enabled :: "enabled_token \<Rightarrow> enabled_token \<Rightarrow> enabled_token" where
  "set_enabled row r = r\<lparr>et_active := 1, et_last_seen_at := et_last_seen_at row\<rparr>"

interpretation enabled_table: keyed_table enabled_key set_enabled
  by unfold_locales (simp add: set_enabled_def enabled_key_def)

definition new_enabled :: "address \<Rightarrow> string \<Rightarrow> address \<Rightarrow> enabled_token" where
  "new_enabled auction_address now_iso token_address =
     \<lparr>et_auction_address = auction_address, et_token_address = token_address, et_active = 1, et_first_seen_at = now_iso,
      et_last_seen_at = now_iso\<rparr>"

definition mark_tokens_enabled :: "address \<Rightarrow> address list \<Rightarrow> string \<Rightarrow> enabled_token list \<Rightarrow> enabled_token list" where
  "mark_tokens_enabled auction_address token_addresses now_iso rows =
     upsert_rows enabled_key set_enabled (map (new_enabled auction_address now_iso) (sorted_set token_addresses)) rows"

definition refresh_for_auction :: "address \<Rightarrow> address list \<Rightarrow> string \<Rightarrow> enabled_token list \<Rightarrow> enabled_token list" where
  "refresh_for_auction auction_address token_addresses now_iso rows =
     upsert_rows enabled_key set_enabled (map (new_enabled auction_address now_iso) (sorted_set token_addresses))
       (update_where (\<lambda>r. et_auction_address r = auction_address) (\<lambda>r. r\<lparr>et_active := 0\<rparr>) rows)"

definition set_enabled_scan :: "enabled_scan \<Rightarrow> enabled_scan \<Rightarrow> enabled_scan" where
  "set_enabled_scan row r = r\<lparr>eb_scanned_at := eb_scanned_at row, eb_block_number := eb_block_number row,
     eb_status := eb_status row, eb_error_message := eb_error_message row\<rparr>"

interpretation enabled_scan_table: keyed_table eb_auction_address set_enabled_scan
  by unfold_locales (simp add: set_enabled_scan_def)

definition enabled_scan_upsert ::
  "address \<Rightarrow> string \<Rightarrow> int option \<Rightarrow> string \<Rightarrow> string option \<Rightarrow> enabled_scan list \<Rightarrow> enabled_scan list" where
  "enabled_scan_upsert auction_address scanned_at block_number status error_message rows =
     upsert_row eb_auction_address set_enabled_scan
       \<lparr>eb_auction_address = auction_address, eb_scanned_at = scanned_at, eb_block_number = block_number,
        eb_status = status, eb_error_message = error_message\<rparr> rows"

section \<open>Guard and prepare status\<close>

definition guard_key :: "guard_status \<Rightarrow> string \<times> address" where
  "guard_key r = (gs_source_type r, gs_source_address r)"

definition set_guard :: "guard_status \<Rightarrow> guard_status \<Rightarrow> guard_status" where
  "set_guard row r = r\<lparr>gs_auction_address := gs_auction_address row, gs_disabled := gs_disabled row,
     gs_reason := gs_reason row, gs_detail := gs_detail row, gs_checked_at := gs_checked_at row,
     gs_block_number := gs_block_number row\<rparr>"

interpretation guard_table: keyed_table guard_key set_guard
  by unfold_locales (simp add: set_guard_def guard_key_def)

definition upsert_guard_status :: "guard_status list \<Rightarrow> guard_status list \<Rightarrow> guard_status list" where
  "upsert_guard_status new rows = upsert_rows guard_key set_guard new rows"

definition guard_status_many :: "string \<Rightarrow> address list \<Rightarrow> guard_status list \<Rightarrow> (address \<times> guard_status) list" where
  "guard_status_many source_type source_addresses rows =
     (let addresses = sorted_set source_addresses in
      if addresses = [] then []
      else map (\<lambda>r. (gs_source_address r, r))
        (filter (\<lambda>r. gs_source_type r = source_type \<and> gs_source_address r \<in> set addresses) rows))"

type_synonym candidate_key = "string \<times> string \<times> string \<times> string"

definition prepare_key :: "prepare_status \<Rightarrow> candidate_key" where
  "prepare_key r = (ps_source_type r, ps_source_address r, ps_auction_address r, ps_token_address r)"

definition set_prepare :: "prepare_status \<Rightarrow> prepare_status \<Rightarrow> prepare_status" where
  "set_prepare row r = r\<lparr>ps_status := ps_status row, ps_reason := ps_reason row,
     ps_source_balance_raw := ps_source_balance_raw row, ps_detail_json := ps_detail_json row,
     ps_checked_at := ps_checked_at row\<rparr>"

interpretation prepare_table: keyed_table prepare_key set_prepare
  by unfold_locales (simp add: set_prepare_def prepare_key_def)

text \<open>The deletions commute, so the order in which the set of keys is traversed does not matter.\<close>

definition replace_for_candidates :: "candidate_key list \<Rightarrow> prepare_status list \<Rightarrow> prepare_status list \<Rightarrow> prepare_status list" where
  "replace_for_candidates candidate_keys pause_rows rows =
     upsert_rows prepare_key set_prepare pause_rows
       (fold (\<lambda>k rows. filter (\<lambda>r. prepare_key r \<noteq> k) rows) (remdups candidate_keys) rows)"

section \<open>Scan runs and their errors\<close>

definition scan_run_create :: "scan_run_record \<Rightarrow> scan_run_record list \<Rightarrow> scan_run_record list result" where
  "scan_run_create row rows =
     (if sr_run_id row \<in> sr_run_id ` set rows then Inl (OtherException ''IntegrityError'' ''UNIQUE constraint failed'')
      else Inr (rows @ [row]))"

definition scan_run_status :: "string \<Rightarrow> scan_run_record list \<Rightarrow> string option" where
  "scan_run_status run_id rows = map_option sr_status (row_of sr_run_id rows run_id)"

definition scan_run_finalize ::
  "string \<Rightarrow> string \<Rightarrow> string \<Rightarrow> int \<Rightarrow> int \<Rightarrow> int \<Rightarrow> int \<Rightarrow> int \<Rightarrow> string option \<Rightarrow> scan_run_record list \<Rightarrow> scan_run_record list" where
  "scan_run_finalize run_id finished_at status vaults_seen strategies_seen pairs_seen pairs_succeeded pairs_failed
     error_summary rows =
     update_where (\<lambda>r. sr_run_id r = run_id)
       (\<lambda>r. r\<lparr>sr_finished_at := Some finished_at, sr_status := status, sr_vaults_seen := vaults_seen,
          sr_strategies_seen := strategies_seen, sr_pairs_seen := pairs_seen, sr_pairs_succeeded := pairs_succeeded,
          sr_pairs_failed := pairs_failed, sr_error_summary := error_summary\<rparr>) rows"

definition latest_run_ids :: "nat \<Rightarrow> scan_run_record list \<Rightarrow> string list" where
  "latest_run_ids limit rows = map sr_run_id (take limit (sort_desc sr_started_at rows))"

definition next_error_id :: "error_record list \<Rightarrow> int" where
  "next_error_id rows = (if rows = [] then 1 else Max (set (map er_id rows)) + 1)"

definition add_scan_errors :: "string \<Rightarrow> item_error list \<Rightarrow> string \<Rightarrow> error_record list \<Rightarrow> error_record list" where
  "add_scan_errors run_id errors created_at rows =
     fold (\<lambda>e rows. rows @ [\<lparr>er_id = next_error_id rows, er_run_id = run_id, er_source_type = ie_source_type e,
        er_source_address = ie_source_address e,
        er_strategy_address = (if ie_source_type e = Some ''strategy'' then ie_source_address e else None),
        er_token_address = ie_token_address e, er_stage = ie_stage e, er_error_code = ie_error_code e,
        er_error_message = ie_error_message e, er_created_at = created_at\<rparr>]) errors rows"

definition has_error_for_run ::
  "string \<Rightarrow> string option \<Rightarrow> string option \<Rightarrow> string \<Rightarrow> string \<Rightarrow> error_record list \<Rightarrow> bool" where
  "has_error_for_run run_id source_address token_address stage error_code rows =
     (\<exists>r \<in> set rows. er_run_id r = run_id \<and> er_source_address r = source_address \<and> er_token_address r = token_address
        \<and> er_stage r = stage \<and> er_error_code r = error_code)"

section \<open>What a refresh of the enabled tokens leaves\<close>

lemma new_enabled_key: "enabled_key (new_enabled a now t) = (a, t)"
  by (simp add: enabled_key_def new_enabled_def)

lemma new_enabled_keys:
  "enabled_key ` set (map (new_enabled a now) ts) = {a} \<times> set ts"
  "distinct (map enabled_key (map (new_enabled a now) (sorted_set ts)))"
  by (auto simp: new_enabled_key distinct_map inj_on_def image_image comp_def)

lemma deactivated_keys [simp]: "enabled_key (r\<lparr>et_active := 0\<rparr>) = enabled_key r"
  by (simp add: enabled_key_def)

lemma distinct_refresh:
  "distinct (map enabled_key rows) \<Longrightarrow> distinct (map enabled_key (refresh_for_auction a ts now rows))"
  by (simp add: refresh_for_auction_def enabled_table.distinct_upserts distinct_update_where)

lemma row_of_refresh:
  "row_of enabled_key (refresh_for_auction a ts now rows) (x, t) =
     (if x = a \<and> t \<in> set ts then Some (case row_of enabled_key rows (a, t) of
          None \<Rightarrow> new_enabled a now t | Some r \<Rightarrow> r\<lparr>et_active := 1, et_last_seen_at := now\<rparr>)
      else if x = a then map_option (\<lambda>r. r\<lparr>et_active := 0\<rparr>) (row_of enabled_key rows (a, t))
      else row_of enabled_key rows (x, t))"
proof -
  define off where "off = update_where (\<lambda>r. et_auction_address r = a) (\<lambda>r. r\<lparr>et_active := 0\<rparr>) rows"
  have stored: "row_of enabled_key rows (x, t) = Some r \<Longrightarrow> et_auction_address r = x" for r x
    using row_of_Some [of enabled_key rows] by (fastforce simp: enabled_key_def)
  have off: "row_of enabled_key off (x, t) =
      (if x = a then map_option (\<lambda>r. r\<lparr>et_active := 0\<rparr>) (row_of enabled_key rows (x, t)) else row_of enabled_key rows (x, t))" for x
    unfolding off_def
    by (subst row_of_update_where, simp, cases "row_of enabled_key rows (x, t)") (auto dest: stored)
  show ?thesis
  proof (cases "x = a \<and> t \<in> set ts")
    case True
    then have "new_enabled a now t \<in> set (map (new_enabled a now) (sorted_set ts))" by simp
    from enabled_table.row_of_upserts [OF new_enabled_keys(2) this, of off] True show ?thesis
      unfolding refresh_for_auction_def off_def [symmetric] new_enabled_key
      by (auto simp: off set_enabled_def new_enabled_def split: option.splits)
  next
    case False
    then have "(x, t) \<notin> enabled_key ` set (map (new_enabled a now) (sorted_set ts))"
      unfolding new_enabled_keys(1) by auto
    from enabled_table.row_of_upserts_other [OF this, of off] False show ?thesis
      unfolding refresh_for_auction_def off_def [symmetric] by (auto simp: off)
  qed
qed

lemma active_after_refresh:
  assumes "distinct (map enabled_key rows)"
  shows "(\<exists>r \<in> set (refresh_for_auction a ts now rows). enabled_key r = (x, t) \<and> et_active r = 1) \<longleftrightarrow>
    (if x = a then t \<in> set ts else \<exists>r \<in> set rows. enabled_key r = (x, t) \<and> et_active r = 1)"
proof -
  have by_row: "(\<exists>r \<in> set rs. enabled_key r = (x, t) \<and> et_active r = 1) \<longleftrightarrow>
      (\<exists>r. row_of enabled_key rs (x, t) = Some r \<and> et_active r = 1)" if "distinct (map enabled_key rs)" for rs
    using row_of_iff [OF that] by blast
  show ?thesis
    unfolding by_row [OF distinct_refresh [OF assms]] by_row [OF assms] row_of_refresh
    by (auto simp: new_enabled_def split: option.splits)
qed

end
