(* ===== verification/PrepareStatus.thy ===== *)
theory PrepareStatus
  imports ScanStore PlanPayload
begin

text \<open>
  \<open>tidal/kick_prepare_status.py\<close>: after a kick request was prepared, the pause rows of the
  candidates it evaluated are replaced by those of this request. The preview is the JSON object the
  API stores and returns; the last section says what it means for the plan behind the preview.
\<close>

section \<open>Reading the preview\<close>

text \<open>\<open>_candidate_key\<close>: four non-empty strings.\<close>

definition status_key :: "payload \<Rightarrow> candidate_key option" where
  "status_key item =
     (case (json_get item ''sourceType'', json_get item ''sourceAddress'', json_get item ''auctionAddress'',
        json_get item ''tokenAddress'') of
       (JStr source_type, JStr source_address, JStr auction_address, JStr token_address) \<Rightarrow>
         if source_type \<noteq> [] \<and> source_address \<noteq> [] \<and> auction_address \<noteq> [] \<and> token_address \<noteq> []
         then Some (source_type, source_address, auction_address, token_address) else None
     | _ \<Rightarrow> None)"

definition list_items :: "json \<Rightarrow> json list" where
  "list_items v = (case v of JList items \<Rightarrow> items | _ \<Rightarrow> [])"

text \<open>The key of a prepared kick.\<close>

definition prepared_key :: "json \<Rightarrow> candidate_key option" where
  "prepared_key item = (case item of
       JObj entries \<Rightarrow> if json_get entries ''operation'' \<noteq> JStr ''kick'' then None else status_key entries
     | _ \<Rightarrow> None)"

definition skipped_key :: "json \<Rightarrow> candidate_key option" where
  "skipped_key item = (case item of JObj entries \<Rightarrow> status_key entries | _ \<Rightarrow> None)"

text \<open>The pause row of a skipped candidate, if it is one of a paused auction.\<close>

definition pause_row :: "string \<Rightarrow> json \<Rightarrow> prepare_status option" where
  "pause_row checked_at item = (case item of
       JObj entries \<Rightarrow> (case status_key entries of
           None \<Rightarrow> None
         | Some (source_type, source_address, auction_address, token_address) \<Rightarrow>
             if json_get entries ''reasonCode'' \<noteq> JStr (skip_reason_value AUCTION_PRICE_GRANULARITY) then None
             else (case json_get entries ''reasonData'' of
                 JObj reason_data \<Rightarrow> (case json_get reason_data ''sourceBalanceRaw'' of
                     JStr source_balance_raw \<Rightarrow>
                       if source_balance_raw = [] then None
                       else Some \<lparr>ps_source_type = source_type, ps_source_address = source_address,
                         ps_auction_address = auction_address, ps_token_address = token_address, ps_status = ''PAUSED'',
                         ps_reason = skip_reason_value AUCTION_PRICE_GRANULARITY,
                         ps_source_balance_raw = source_balance_raw,
                         ps_detail_json = Some (json_dumps_sorted (JObj reason_data)), ps_checked_at = checked_at\<rparr>
                   | _ \<Rightarrow> None)
               | _ \<Rightarrow> None))
     | _ \<Rightarrow> None)"

definition record_kick_prepare_status :: "string \<Rightarrow> payload option \<Rightarrow> prepare_status list \<Rightarrow> prepare_status list" where
  "record_kick_prepare_status checked_at preview rows = (case preview of
       None \<Rightarrow> rows
     | Some preview \<Rightarrow>
         let prepared = list_items (json_get preview ''preparedOperations'');
             skipped = list_items (json_get preview ''skippedDuringPrepare'');
             evaluated_keys = List.map_filter prepared_key prepared @ List.map_filter skipped_key skipped;
             pause_rows = List.map_filter (pause_row checked_at) skipped
         in if evaluated_keys \<noteq> [] then replace_for_candidates evaluated_keys pause_rows rows else rows)"

section \<open>Replacement\<close>

lemma delete_keys: "fold (\<lambda>k rows. filter (\<lambda>r. prepare_key r \<noteq> k) rows) ks rows = filter (\<lambda>r. prepare_key r \<notin> set ks) rows"
  by (induction ks arbitrary: rows) (auto simp: filter_filter intro: filter_cong)

lemma pause_row_fields:
  "pause_row now item = Some row \<Longrightarrow> skipped_key item = Some (prepare_key row) \<and> ps_status row = ''PAUSED'' \<and> ps_checked_at row = now"
  by (auto simp: pause_row_def skipped_key_def prepare_key_def split: json.splits option.splits if_splits prod.splits)

lemma replace_for_candidates_rows:
  assumes "\<forall>row \<in> set pause. prepare_key row \<in> set ks \<and> Q row" "\<And>row r. Q row \<Longrightarrow> Q (set_prepare row r)"
  shows "(\<exists>r \<in> set (replace_for_candidates ks pause rows). prepare_key r = k) \<longleftrightarrow>
      k \<in> prepare_key ` set pause \<or> k \<notin> set ks \<and> (\<exists>r \<in> set rows. prepare_key r = k)"
    and "r \<in> set (replace_for_candidates ks pause rows) \<Longrightarrow> if prepare_key r \<in> set ks then Q r else r \<in> set rows"
proof -
  have ex: "(\<exists>r \<in> A. prepare_key r = k) \<longleftrightarrow> k \<in> prepare_key ` A" for A by auto
  have eq: "prepare_key ` set (replace_for_candidates ks pause rows) =
      prepare_key ` set pause \<union> prepare_key ` {r \<in> set rows. prepare_key r \<notin> set ks}"
    by (simp add: replace_for_candidates_def prepare_table.keys_upserts delete_keys)
  show "(\<exists>r \<in> set (replace_for_candidates ks pause rows). prepare_key r = k) \<longleftrightarrow>
      k \<in> prepare_key ` set pause \<or> k \<notin> set ks \<and> (\<exists>r \<in> set rows. prepare_key r = k)"
    unfolding ex eq by auto
  assume "r \<in> set (replace_for_candidates ks pause rows)"
  then have "(prepare_key r \<in> set ks \<and> Q r)
      \<or> r \<in> set (filter (\<lambda>r. prepare_key r \<notin> set ks) rows) \<and> prepare_key r \<notin> prepare_key ` set pause"
    unfolding replace_for_candidates_def delete_keys set_remdups
    by (rule prepare_table.upserts_cases) (use assms prepare_table.key_change in auto)
  then show "if prepare_key r \<in> set ks then Q r else r \<in> set rows" by auto
qed

section \<open>What the rows say of the plan\<close>

text \<open>The keys of the candidates a plan decided on, as far as the preview names them.\<close>

definition candidate_status_key :: "kick_candidate \<Rightarrow> candidate_key option" where
  "candidate_status_key c =
     (if ca_source_type c \<noteq> [] \<and> ca_source_address c \<noteq> [] \<and> ca_auction_address c \<noteq> [] \<and> ca_token_address c \<noteq> []
      then Some (ca_source_type c, ca_source_address c, ca_auction_address c, ca_token_address c) else None)"

definition evaluated_by :: "kick_plan \<Rightarrow> candidate_key \<Rightarrow> bool" where
  "evaluated_by plan k \<longleftrightarrow>
     (\<exists>item \<in> set (pl_kick_operations plan). candidate_status_key (pk_candidate item) = Some k)
     \<or> (\<exists>s \<in> set (pl_skipped_during_prepare plan). candidate_status_key (sk_candidate s) = Some k)"

text \<open>A candidate skipped because the auction cannot price its lot finely enough, with its balance.\<close>

definition granularity_skip :: "skipped_candidate \<Rightarrow> bool" where
  "granularity_skip s = (case sk_result s of
       Some result \<Rightarrow> kr_reason_code result = Some AUCTION_PRICE_GRANULARITY
         \<and> (case kr_reason_data result of
              Some (JObj d) \<Rightarrow> (case json_get d ''sourceBalanceRaw'' of JStr b \<Rightarrow> b \<noteq> [] | _ \<Rightarrow> False)
            | _ \<Rightarrow> False)
     | None \<Rightarrow> False)"

definition paused_by :: "kick_plan \<Rightarrow> candidate_key \<Rightarrow> bool" where
  "paused_by plan k \<longleftrightarrow>
     (\<exists>s \<in> set (pl_skipped_during_prepare plan). granularity_skip s \<and> candidate_status_key (sk_candidate s) = Some k)"

lemma status_key_skipped: "status_key (skipped_payload s) = candidate_status_key (sk_candidate s)"
  by (simp add: status_key_def candidate_status_key_def skipped_payload_def json_get_def Let_def)

lemma pause_row_skipped:
  "map_option prepare_key (pause_row now (JObj (skipped_payload s))) =
     (if granularity_skip s then candidate_status_key (sk_candidate s) else None)"
proof -
  have code: "json_get (skipped_payload s) ''reasonCode'' =
      (case Option.bind (sk_result s) kr_reason_code of None \<Rightarrow> JNull | Some c \<Rightarrow> JStr (skip_reason_value c))"
    and data: "json_get (skipped_payload s) ''reasonData'' =
      (case Option.bind (sk_result s) kr_reason_data of None \<Rightarrow> JNull | Some d \<Rightarrow> d)"
    by (auto simp: skipped_payload_def json_get_def Let_def split: option.split)
  have [simp]: "x = AUCTION_PRICE_GRANULARITY" for x by (cases x) simp
  show ?thesis
    unfolding pause_row_def json.case status_key_skipped code data granularity_skip_def
    by (cases "sk_result s"; cases "candidate_status_key (sk_candidate s)")
      (auto simp: prepare_key_def split: option.splits json.splits)
qed

lemma prepared_key_kick:
  assumes "kick_preview_item item = Inr p"
  shows "prepared_key (JObj p) = candidate_status_key (pk_candidate item)"
proof -
  have "json_get p ''sourceType'' = JStr (ca_source_type (pk_candidate item))"
    "json_get p ''sourceAddress'' = JStr (ca_source_address (pk_candidate item))"
    "json_get p ''auctionAddress'' = JStr (ca_auction_address (pk_candidate item))"
    "json_get p ''tokenAddress'' = JStr (ca_token_address (pk_candidate item))"
    using assms by (auto simp: kick_preview_item_def json_get_def Let_def err_simps)
  then show ?thesis
    using kick_item(1) [OF assms] by (simp add: prepared_key_def status_key_def candidate_status_key_def)
qed

lemma prepared_key_resolve: "prepared_key (JObj (resolve_preview_item item)) = None"
  by (simp add: prepared_key_def resolve_item)

text \<open>The transaction index of an operation does not change its key.\<close>

lemma prepared_key_txIndex: "prepared_key (JObj (dict_set ''txIndex'' v p)) = prepared_key (JObj p)"
  by (simp add: prepared_key_def status_key_def json_get_def)

lemma prepared_key_tag:
  "map prepared_key (map JObj (tag_operations f c ops)) = map prepared_key (map JObj ops)"
  by (induction ops arbitrary: c) (simp_all add: Let_def prepared_key_txIndex)

lemma map_filter_member: "k \<in> set (List.map_filter f xs) \<longleftrightarrow> (\<exists>x \<in> set xs. f x = Some k)"
  by (induction xs) (auto simp: List.map_filter_simps split: option.splits)

lemma some_in_map: "Some k \<in> set (map f xs) \<longleftrightarrow> (\<exists>x \<in> set xs. f x = Some k)"
  by (induction xs) auto

lemma map_filter_map: "List.map_filter f (map g xs) = List.map_filter (\<lambda>x. f (g x)) xs"
  by (induction xs) (simp_all add: List.map_filter_simps split: option.split)

lemma preview_prepared_keys:
  assumes "prepared_operations_preview plan = Inr items"
  shows "set (List.map_filter prepared_key (map JObj items)) =
    {k. \<exists>item \<in> set (pl_kick_operations plan). candidate_status_key (pk_candidate item) = Some k}"
proof -
  obtain kicks where kicks: "traverse_err kick_preview_item (pl_kick_operations plan) = Inr kicks"
    and items: "items = with_tx_indexes (map resolve_preview_item (pl_resolve_operations plan) @ kicks) (pl_tx_intents plan)"
    using assms by (auto simp: prepared_operations_preview_def err_bind_Inr_iff)
  have "list_all2 (\<lambda>item p. kick_preview_item item = Inr p) (pl_kick_operations plan) kicks"
    using kicks by (simp add: traverse_err_Inr)
  then have "map prepared_key (map JObj kicks) = map (\<lambda>item. candidate_status_key (pk_candidate item)) (pl_kick_operations plan)"
    by (induction rule: list_all2_induct) (simp_all add: prepared_key_kick)
  then have "map prepared_key (map JObj items) = map (\<lambda>_. None) (pl_resolve_operations plan)
      @ map (\<lambda>item. candidate_status_key (pk_candidate item)) (pl_kick_operations plan)"
    unfolding items with_tx_indexes_def prepared_key_tag by (simp add: prepared_key_resolve comp_def)
  then have "Some k \<in> set (map prepared_key (map JObj items)) \<longleftrightarrow>
      Some k \<in> set (map (\<lambda>item. candidate_status_key (pk_candidate item)) (pl_kick_operations plan))" for k
    by auto
  then show ?thesis unfolding set_eq_iff map_filter_member mem_Collect_eq some_in_map by blast
qed

lemma recorded_rows:
  assumes "preview_payload plan = Inr preview"
  obtains ks where "record_kick_prepare_status now (Some preview) rows =
      (if ks = [] then rows else replace_for_candidates ks
         (List.map_filter (\<lambda>s. pause_row now (JObj (skipped_payload s))) (pl_skipped_during_prepare plan)) rows)"
    and "\<And>k. k \<in> set ks \<longleftrightarrow> evaluated_by plan k"
proof -
  obtain items where items: "prepared_operations_preview plan = Inr items"
    using assms by (auto simp: preview_payload_def err_bind_Inr_iff)
  have lists: "list_items (json_get preview ''preparedOperations'') = map JObj items"
    "list_items (json_get preview ''skippedDuringPrepare'') = map (\<lambda>s. JObj (skipped_payload s)) (pl_skipped_during_prepare plan)"
    using assms items by (auto simp: preview_payload_def json_get_def list_items_def)
  define ks where "ks = List.map_filter prepared_key (map JObj items)
    @ List.map_filter skipped_key (map (\<lambda>s. JObj (skipped_payload s)) (pl_skipped_during_prepare plan))"
  have pauses: "List.map_filter (pause_row now) (map (\<lambda>s. JObj (skipped_payload s)) ss) =
      List.map_filter (\<lambda>s. pause_row now (JObj (skipped_payload s))) ss" for ss
    by (simp add: map_filter_map)
  have "k \<in> set ks \<longleftrightarrow> evaluated_by plan k" for k
    unfolding ks_def set_append preview_prepared_keys [OF items] evaluated_by_def
    by (simp add: map_filter_member skipped_key_def status_key_skipped)
  moreover have "record_kick_prepare_status now (Some preview) rows = (if ks = [] then rows else replace_for_candidates ks
      (List.map_filter (\<lambda>s. pause_row now (JObj (skipped_payload s))) (pl_skipped_during_prepare plan)) rows)"
    unfolding record_kick_prepare_status_def option.case Let_def lists pauses ks_def [symmetric] by simp
  ultimately show thesis by (rule that [rotated])
qed

text \<open>
  C34. After the status of a kick request is recorded, exactly these candidates have a pause
  row: of those the plan decided on, the ones it skipped for the price granularity of their
  auction with a known balance; of all others, the ones that had a row before. A row of a
  decided candidate was written by this request, every other row is unchanged.
\<close>

theorem pause_rows_follow_plan:
  assumes "preview_payload plan = Inr preview"
  shows "((\<exists>r \<in> set (record_kick_prepare_status now (Some preview) rows). prepare_key r = k) \<longleftrightarrow>
      (if evaluated_by plan k then paused_by plan k else \<exists>r \<in> set rows. prepare_key r = k))
    \<and> (\<forall>r \<in> set (record_kick_prepare_status now (Some preview) rows).
        if evaluated_by plan (prepare_key r) then ps_status r = ''PAUSED'' \<and> ps_checked_at r = now else r \<in> set rows)"
proof -
  define pause where "pause = List.map_filter (\<lambda>s. pause_row now (JObj (skipped_payload s))) (pl_skipped_during_prepare plan)"
  obtain ks where rows': "record_kick_prepare_status now (Some preview) rows =
      (if ks = [] then rows else replace_for_candidates ks pause rows)"
    and ks: "\<And>k. k \<in> set ks \<longleftrightarrow> evaluated_by plan k"
    unfolding pause_def by (rule recorded_rows [OF assms, of now rows]) blast
  let ?Q = "\<lambda>r. ps_status r = ''PAUSED'' \<and> ps_checked_at r = now"
  have paused: "k \<in> prepare_key ` set pause \<longleftrightarrow> paused_by plan k" for k
  proof -
    have "k \<in> prepare_key ` set pause \<longleftrightarrow> (\<exists>s \<in> set (pl_skipped_during_prepare plan).
        map_option prepare_key (pause_row now (JObj (skipped_payload s))) = Some k)"
      by (auto simp: pause_def map_filter_member image_iff Bex_def)
    then show ?thesis by (auto simp: pause_row_skipped paused_by_def split: if_splits)
  qed
  have subset: "paused_by plan k \<Longrightarrow> evaluated_by plan k" for k by (auto simp: paused_by_def evaluated_by_def)
  have made: "\<forall>row \<in> set pause. prepare_key row \<in> set ks \<and> ?Q row"
  proof
    fix row assume row: "row \<in> set pause"
    then have "prepare_key row \<in> set ks" using paused subset ks by blast
    moreover have "?Q row" using row by (auto simp: pause_def map_filter_member dest: pause_row_fields)
    ultimately show "prepare_key row \<in> set ks \<and> ?Q row" ..
  qed
  have keep: "?Q row \<Longrightarrow> ?Q (set_prepare row r)" for row r by (simp add: set_prepare_def)
  note replaced = replace_for_candidates_rows [where Q = ?Q and rows = rows, OF made keep]
  show ?thesis
  proof (cases "ks = []")
    case True
    then have "\<not> evaluated_by plan k" for k using ks by auto
    then show ?thesis by (simp add: rows' True)
  next
    case False
    have "prepare_key r = k \<Longrightarrow> r \<in> set rows' \<Longrightarrow> rows' = replace_for_candidates ks pause rows \<Longrightarrow>
        if evaluated_by plan k then ?Q r else r \<in> set rows" for r k rows'
      using replaced(2) [of r] unfolding ks by simp
    moreover have "(if evaluated_by plan k then paused_by plan k else \<exists>r \<in> set rows. prepare_key r = k) \<longleftrightarrow>
        paused_by plan k \<or> \<not> evaluated_by plan k \<and> (\<exists>r \<in> set rows. prepare_key r = k)"
      using subset by metis
    moreover have "(\<exists>r \<in> set (replace_for_candidates ks pause rows). prepare_key r = k) \<longleftrightarrow>
        paused_by plan k \<or> \<not> evaluated_by plan k \<and> (\<exists>r \<in> set rows. prepare_key r = k)"
      using replaced(1) [where k = k] unfolding ks paused .
    ultimately show ?thesis unfolding rows' if_not_P [OF False] by simp
  qed
qed

text \<open>A request that skips one candidate for the granularity of its auction's prices.\<close>

definition paused_plan :: kick_plan where
  "paused_plan =
     \<lparr>pl_source_type = None, pl_source_address = None, pl_auction_address = None, pl_token_address = None, pl_limit = None,
      pl_eligible_count = 1, pl_selected_count = 1, pl_ready_count = 0, pl_ignored_skips = [], pl_no_fill_skips = [],
      pl_cooldown_skips = [], pl_deferred_same_auction_count = 0, pl_limited_count = 0, pl_ranked_candidates = [],
      pl_kick_operations = [], pl_resolve_operations = [], pl_tx_intents = [],
      pl_skipped_during_prepare = [skipped_because sample_candidate ''quote below ask''
        (Some ((kick_result_of SKIPPED ''quote below ask'')\<lparr>kr_reason_code := Some AUCTION_PRICE_GRANULARITY,
           kr_reason_data := Some (JObj [(''sourceBalanceRaw'', JStr ''700'')])\<rparr>))],
      pl_warnings = []\<rparr>"

theorem pause_rows_follow_plan_witness:
  "\<exists>preview. preview_payload paused_plan = Inr preview \<and>
    (\<exists>r \<in> set (record_kick_prepare_status ''2026-01-01'' (Some preview) []).
       candidate_status_key sample_candidate = Some (prepare_key r) \<and> ps_status r = ''PAUSED'')"
proof -
  obtain preview where preview: "preview_payload paused_plan = Inr preview"
    by (auto simp: preview_payload_def prepared_operations_preview_def paused_plan_def)
  obtain k where k: "candidate_status_key sample_candidate = Some k"
    by (auto simp: candidate_status_key_def sample_candidate_def)
  have "evaluated_by paused_plan k" "paused_by paused_plan k"
    using k by (simp_all add: evaluated_by_def paused_by_def paused_plan_def skipped_because_def granularity_skip_def json_get_def)
  then show ?thesis
    using pause_rows_follow_plan [OF preview, of "''2026-01-01''" "[]" k] preview k by auto
qed

end
