(* ===== verification/Spec2Isabelle.thy ===== *)
theory Spec2Isabelle
  imports Prelude PyDecimal PyTime Normalizers PriceUnits Rounds KickStore NoFill Rpc Settlement ReceiptEvidence ActionViews Shortlist RoundRepair
    AlertDispatch Outbox Redelivery DecimalError KickSizing KickPrepare KickPlan PlanAccounting
    KickExecute KickService ExecutionSafety RunProperties PlanPayload ActionPrepare TokenEnable EnableAction
    AlertService AuctionMapper ScanStore PrepareStatus
begin

text \<open>
  A verification development for \<open>tidal\<close>, the service that scans Yearn strategies and fee burners,
  kicks Dutch auctions for their reward tokens, settles them and keeps the history of both.

  \<^bold>\<open>The program and its parts.\<close>  A scanner reads balances and auction state through a Multicall
  client; the transaction service shortlists candidates, asks the no-fill guard whether a pair may be
  kicked again and prices the kick; an operator prepares an action through the API, signs and sends it,
  and reports the broadcast; the reconciler finds the receipts, checks that the mined transaction is
  the prepared one, decodes the events of trusted contracts and turns submitted operation rows into
  confirmed or reverted ones; the round rules read these rows back in chain order and classify every
  auction round. All state sits in SQLite tables, modelled as lists of records; a dictionary is an
  association list when its order is visible.

  \<^bold>\<open>Theories and sources\<close> (paths under \<open>src/tidal/\<close>).
  \<^item> \<open>Prelude\<close>: result type \<open>exn + 'a\<close> with its bind, dictionary and list helpers, the collections
    of rewrite rules the other theories use.
  \<^item> \<open>PyDecimal\<close>, \<open>PyTime\<close>, \<open>Json\<close>: the parts of Python's \<open>decimal\<close>, \<open>datetime\<close> and \<open>json\<close> the
    code uses (78-digit decimals with half-even rounding; instants in microseconds; JSON values).
  \<^item> \<open>Normalizers\<close>: \<open>normalizers.py\<close>.  \<open>PriceUnits\<close>: \<open>auction_versions.py\<close>,
    \<open>auction_price_units.py\<close>.  \<open>Rounds\<close> and \<open>NoFill\<close>: \<open>auction_rounds.py\<close> and the operator's
    suspension clear of \<open>server_cli.py\<close>.
  \<^item> \<open>KickStore\<close>: \<open>KickTxRepository\<close>, and \<open>ActionStore\<close>: \<open>APIActionRepository\<close> of
    \<open>persistence/repositories.py\<close>; the locale \<open>row_store\<close> states what a keyed table promises.
  \<^item> \<open>Rpc\<close>: \<open>chain/retry.py\<close>, \<open>chain/contracts/multicall.py\<close>, the generic readers of
    \<open>scanner/auction_state.py\<close>.  \<open>Settlement\<close>: \<open>auction_settlement.py\<close>; the locale
    \<open>preview_reader\<close> is what the inspection needs of a reader.
  \<^item> \<open>ActionAudit\<close>, \<open>ActionStaging\<close>, \<open>ActionViews\<close>: \<open>api/services/action_audit.py\<close>.
  \<^item> \<open>Reconciler\<close>, \<open>RoundLinks\<close>, \<open>ReconcileInvariants\<close>, \<open>ReceiptEvidence\<close>:
    \<open>operation_reconciler.py\<close> and \<open>api/services/action_reconcile.py\<close>; the locale
    \<open>reconciled_invariant\<close> lifts a table invariant kept by the four primitive writes to every
    entry point of the reconciler.  \<open>RoundRepair\<close>: \<open>auction_round_repair.py\<close>.
  \<^item> \<open>KickPolicy\<close>: \<open>transaction_service/kick_policy.py\<close> and the configuration it is built from.
    \<open>Candidates\<close> and \<open>Shortlist\<close>: \<open>transaction_service/evaluator.py\<close>; the locale
    \<open>candidate_filter\<close> is what the three policies that drop candidates share.
  \<^item> \<open>Outbox\<close>: \<open>control_plane/client.py\<close> and \<open>control_plane/outbox.py\<close>, the operator's queue of reports.
    \<open>Redelivery\<close>: the queue together with the API that receives a report twice.
    \<open>AlertDispatch\<close>: \<open>alerts/dispatcher.py\<close>; \<open>AlertService\<close>: \<open>alerts/service.py\<close> and \<open>automation_scope.py\<close>.
  \<^item> \<open>KickSizing\<close> and \<open>KickPrepare\<close>: \<open>kick_shared.py\<close> and \<open>kick_prepare.py\<close> of
    \<open>transaction_service/\<close>, from the amount to sell to the prepared kick; \<open>DecimalError\<close> bounds the
    rounding of decimal divisions they rest on. \<open>KickPlan\<close>: \<open>planner.py\<close> with the intents of
    \<open>kick_tx.py\<close>; \<open>PlanAccounting\<close>: what every plan guarantees.
  \<^item> \<open>KickExecute\<close>: \<open>transaction_service/kick_execute.py\<close>, from the checks before a broadcast to the rows and
    the receipt; \<open>KickService\<close>: a run of \<open>transaction_service/service.py\<close>. The state of both counts the
    calls made to the node, whose answers may depend on it. \<open>ExecutionSafety\<close>: the locale \<open>exec_order\<close>
    lifts a preorder every step respects to whole executions (what was sent, which rows must stay);
    \<open>RunProperties\<close>: what every run guarantees.
  \<^item> \<open>PlanPayload\<close>: the payloads of \<open>transaction_service/types.py\<close>, in which every operation names the
    transaction that carries it. \<open>ActionPrepare\<close>: the kick, settle and sweep actions of
    \<open>api/services/action_prepare.py\<close>, from the request to the stored action.
    \<open>PrepareStatus\<close>: \<open>kick_prepare_status.py\<close>, the pause rows a request leaves.
    \<open>TokenEnable\<close>: \<open>ops/auction_enable.py\<close>; \<open>EnableAction\<close>: the enable-tokens action with its batches.
  \<^item> \<open>AuctionMapper\<close>: \<open>scanner/auction_mapper.py\<close>. \<open>ScanStore\<close>: the scan repositories of
    \<open>persistence/repositories.py\<close>; the locale \<open>keyed_table\<close> states what an upsert by primary key
    promises and is interpreted for every table.

  \<^bold>\<open>What the lemmas show.\<close>  Classification of rounds is total and its settled outcomes balance the
  placed amount; the guard bounds automatic retries and every deferral ends; a cleared suspension takes
  effect; prices are encoded as exact ceilings and the integer decay is within a stated error; the
  multicall path is equivalent to direct calls; settlement decisions never force a live lot unasked;
  the audit ledger reports only what receipts confirm and never changes a prepared transaction;
  staging is idempotent; receipts change the rows and transactions of an action only
  when the mined transaction is the prepared one, and count only trusted logs; no settlement is recorded
  twice, and no row is confirmed without a place in the chain order; links between kicks and recoveries are rebuilt to a unique meaning;
  a prepared kick brackets its quote and is within its limit; a plan accounts for every selected
  candidate, sends exactly its operations, and kicks only auctions with nothing left to resolve; a
  broadcast passed every check in force and every kick of it has its row; a run sends only its plan and
  appends one row with its counts, but a kick that is refused, before or during its execution, makes the run raise;
  no token the auction reports as enabled is enabled again; a source is mapped to the last auction, by
  factory priority, that reports its want and names it as receiver; the recorded pauses are those
  of the last request that decided on the candidate.

  \<^bold>\<open>Bounds and fuel.\<close>  No definition uses fuel. The block scan ends because every range starts
  after the previous one; retries and the exponentiation loop descend on a natural number. Decimal
  results are bounded by 78 digits as in the code's context; the gas price text assumes fewer than
  $10^{20}$ wei, beyond which Python would switch to exponent notation.

  \<^bold>\<open>Parameters.\<close>  Code outside the repository is an argument: \<open>eth_utils.is_address\<close>, the node's
  calls, \<open>HexBytes\<close>, the ABI event decoders, the Multicall3 contract, uuids and the clock.

  \<^bold>\<open>Not modelled.\<close>  HTTP and Telegram clients, Web3 plumbing, signing, logging, configuration
  and command line parsing, rendering, schema migrations and the contract ABIs; of the scanner, the
  orchestration of a scan, its automatic transactions and price refresh.
\<close>

end
